(* ===== verification/Prelude.thy ===== *)
theory Prelude
  imports Complex_Main "HOL-Library.Word" "HOL-Library.Char_ord" "HOL-Library.List_Lexorder"
begin

text \<open>
  What the components share: machine integers, the part of Rust's \<open>str\<close> and \<open>Result\<close> API the
  sources use, with the facts about splitting, joining, printing and reading the components share.

  A Rust string is a list of bytes (\<open>string\<close>).  \<open>str::trim\<close> and \<open>str::to_uppercase\<close> are modelled
  on ASCII; the sources apply them to configuration values and spec strings.  A fallible function
  returns a sum, \<open>Inl\<close> for \<open>Err\<close> and \<open>Inr\<close> for \<open>Ok\<close>.
\<close>

named_theorems rust_defs \<open>definitions of the modelled standard-library operations\<close>

type_synonym u16 = "16 word"
type_synonym u32 = "32 word"
type_synonym u64 = "64 word"
type_synonym i32 = "32 word" \<comment> \<open>bit pattern; read with \<open>sint\<close>\<close>
type_synonym bytes = "8 word list"

section \<open>Characters and strings\<close>

definition nl :: string where [rust_defs]: "nl = [CHR 0x0A]"
definition quote :: string where [rust_defs]: "quote = [CHR 0x22]"
definition emdash :: string where [rust_defs]: "emdash = [CHR 0xE2, CHR 0x80, CHR 0x94]"

definition is_ws :: "char \<Rightarrow> bool" where [rust_defs]:
  "is_ws c \<longleftrightarrow> c = CHR 0x20 \<or> (9 \<le> (of_char c :: nat) \<and> (of_char c :: nat) \<le> 13)"

text \<open>\<open>trim_start_matches(c)\<close>, \<open>trim_end_matches(c)\<close> and \<open>trim\<close>.\<close>

definition trim_start_matches :: "(char \<Rightarrow> bool) \<Rightarrow> string \<Rightarrow> string" where [rust_defs]:
  "trim_start_matches p s = dropWhile p s"

definition trim_end_matches :: "(char \<Rightarrow> bool) \<Rightarrow> string \<Rightarrow> string" where [rust_defs]:
  "trim_end_matches p s = rev (dropWhile p (rev s))"

definition trim :: "string \<Rightarrow> string" where [rust_defs]:
  "trim s = trim_end_matches is_ws (trim_start_matches is_ws s)"

fun strip_prefix :: "string \<Rightarrow> string \<Rightarrow> string option" where
  "strip_prefix [] s = Some s"
| "strip_prefix (p # ps) [] = None"
| "strip_prefix (p # ps) (c # cs) = (if p = c then strip_prefix ps cs else None)"

text \<open>\<open>split_once(c)\<close> cuts at the first occurrence; \<open>split(c)\<close> gives every segment, empty ones
  included.\<close>

fun split_once :: "char \<Rightarrow> string \<Rightarrow> (string \<times> string) option" where
  "split_once d [] = None"
| "split_once d (c # cs) =
     (if c = d then Some ([], cs)
      else case split_once d cs of None \<Rightarrow> None | Some (l, r) \<Rightarrow> Some (c # l, r))"

fun split_on :: "char \<Rightarrow> string \<Rightarrow> string list" where
  "split_on d [] = [[]]"
| "split_on d (c # cs) =
     (if c = d then [] # split_on d cs
      else case split_on d cs of [] \<Rightarrow> [[c]] | s # ss \<Rightarrow> (c # s) # ss)"

fun join_with :: "string \<Rightarrow> string list \<Rightarrow> string" where
  "join_with sep [] = []"
| "join_with sep [s] = s"
| "join_with sep (s # t # ss) = s @ sep @ join_with sep (t # ss)"

fun contains :: "string \<Rightarrow> string \<Rightarrow> bool" where
  "contains [] n = (n = [])"
| "contains (c # cs) n = (take (length n) (c # cs) = n \<or> contains cs n)"

definition ends_with :: "char \<Rightarrow> string \<Rightarrow> bool" where [rust_defs]:
  "ends_with c s \<longleftrightarrow> s \<noteq> [] \<and> last s = c"

definition to_ascii_lowercase :: "string \<Rightarrow> string" where [rust_defs]:
  "to_ascii_lowercase = map (\<lambda>c. if 65 \<le> (of_char c :: nat) \<and> (of_char c :: nat) \<le> 90
                                  then char_of ((of_char c :: nat) + 32) else c)"

definition to_uppercase :: "string \<Rightarrow> string" where [rust_defs]:
  "to_uppercase = map (\<lambda>c. if 97 \<le> (of_char c :: nat) \<and> (of_char c :: nat) \<le> 122
                            then char_of ((of_char c :: nat) - 32) else c)"

section \<open>Printing and reading numbers\<close>

definition digit_char :: "nat \<Rightarrow> char" where [rust_defs]: "digit_char n = char_of (48 + n)"

definition digit_val :: "char \<Rightarrow> nat option" where [rust_defs]:
  "digit_val c = (let n = (of_char c :: nat) in if 48 \<le> n \<and> n \<le> 57 then Some (n - 48) else None)"

fun dec :: "nat \<Rightarrow> string" where
  "dec n = (if n < 10 then [digit_char n] else dec (n div 10) @ [digit_char (n mod 10)])"

declare dec.simps [simp del]

definition dec_int :: "int \<Rightarrow> string" where [rust_defs]:
  "dec_int i = (if i < 0 then CHR ''-'' # dec (nat (- i)) else dec (nat i))"

fun read_digits :: "nat \<Rightarrow> string \<Rightarrow> nat option" where
  "read_digits acc [] = Some acc"
| "read_digits acc (c # cs) =
     (case digit_val c of None \<Rightarrow> None | Some d \<Rightarrow> read_digits (10 * acc + d) cs)"

definition parse_nat :: "string \<Rightarrow> nat option" where [rust_defs]:
  "parse_nat s = (if s = [] then None else read_digits 0 s)"

definition parse_uint :: "nat \<Rightarrow> string \<Rightarrow> nat option" where [rust_defs]:
  \<comment> \<open>\<open>str::parse\<close> at an unsigned type of \<open>w\<close> bits: optional \<open>+\<close>, digits, no overflow\<close>
  "parse_uint w s =
     (case parse_nat (if s \<noteq> [] \<and> hd s = CHR ''+'' then tl s else s) of
        None \<Rightarrow> None
      | Some n \<Rightarrow> if n < 2 ^ w then Some n else None)"

definition parse_u32 :: "string \<Rightarrow> u32 option" where [rust_defs]:
  "parse_u32 s = map_option of_nat (parse_uint 32 s)"

definition parse_i32 :: "string \<Rightarrow> int option" where [rust_defs]:
  "parse_i32 s =
     (if s \<noteq> [] \<and> hd s = CHR ''-''
      then (case parse_nat (tl s) of None \<Rightarrow> None
            | Some n \<Rightarrow> if n \<le> 2 ^ 31 then Some (- int n) else None)
      else (case parse_uint 31 s of None \<Rightarrow> None | Some n \<Rightarrow> Some (int n)))"

text \<open>\<open>{:?}\<close> on a string: quotes around, \<open>escape_debug\<close> on each ASCII character.\<close>

definition hex_digit :: "nat \<Rightarrow> char" where [rust_defs]:
  "hex_digit n = (if n < 10 then char_of (48 + n) else char_of (87 + n))"

definition debug_char :: "char \<Rightarrow> string" where [rust_defs]:
  "debug_char c =
     (let n = (of_char c :: nat) in
      if n = 0 then [CHR 0x5C, CHR ''0''] else if n = 9 then [CHR 0x5C, CHR ''t'']
      else if n = 10 then [CHR 0x5C, CHR ''n''] else if n = 13 then [CHR 0x5C, CHR ''r'']
      else if n = 34 \<or> n = 92 then [CHR 0x5C, c]
      else if n < 16 then [CHR 0x5C, CHR ''u'', CHR 0x7B, hex_digit n, CHR 0x7D]
      else if n < 32 \<or> n = 127
        then [CHR 0x5C, CHR ''u'', CHR 0x7B, hex_digit (n div 16), hex_digit (n mod 16), CHR 0x7D]
      else [c])"

definition debug_str :: "string \<Rightarrow> string" where [rust_defs]:
  "debug_str s = quote @ concat (map debug_char s) @ quote"

section \<open>Results\<close>

text \<open>The \<open>?\<close> operator, \<open>ok_or_else\<close>, \<open>Option::transpose\<close> over a map, and a \<open>for\<close> loop whose body
  may return early with an error.\<close>

definition and_then :: "'e + 'a \<Rightarrow> ('a \<Rightarrow> 'e + 'b) \<Rightarrow> 'e + 'b" where
  "and_then r f = (case r of Inl e \<Rightarrow> Inl e | Inr a \<Rightarrow> f a)"

definition ok_or :: "'a option \<Rightarrow> 'e \<Rightarrow> 'e + 'a" where
  "ok_or x e = (case x of None \<Rightarrow> Inl e | Some a \<Rightarrow> Inr a)"

definition transpose_map :: "('a \<Rightarrow> 'e + 'b) \<Rightarrow> 'a option \<Rightarrow> 'e + 'b option" where
  "transpose_map f x = (case x of None \<Rightarrow> Inr None | Some a \<Rightarrow> and_then (f a) (\<lambda>b. Inr (Some b)))"

fun try_fold :: "('a \<Rightarrow> 's \<Rightarrow> 'e + 's) \<Rightarrow> 'a list \<Rightarrow> 's \<Rightarrow> 'e + 's" where
  "try_fold f [] s = Inr s"
| "try_fold f (x # xs) s = and_then (f x s) (try_fold f xs)"

lemma and_then_simps [simp]: "and_then (Inl e) f = Inl e" "and_then (Inr a) f = f a"
  by (simp_all add: and_then_def)

lemma ok_or_simps [simp]: "ok_or None e = Inl e" "ok_or (Some a) e = Inr a"
  by (simp_all add: ok_or_def)

lemma transpose_map_simps [simp]:
  "transpose_map f None = Inr None"
  "transpose_map f (Some a) = and_then (f a) (\<lambda>b. Inr (Some b))"
  by (simp_all add: transpose_map_def)

lemma and_then_Inr_iff: "and_then r f = Inr b \<longleftrightarrow> (\<exists>a. r = Inr a \<and> f a = Inr b)"
  by (cases r) auto

lemma and_then_Inl_iff: "and_then r f = Inl e \<longleftrightarrow> r = Inl e \<or> (\<exists>a. r = Inr a \<and> f a = Inl e)"
  by (cases r) auto

lemma ok_or_Inr_iff [simp]: "ok_or x e = Inr a \<longleftrightarrow> x = Some a"
  by (cases x) auto

lemma ok_or_Inl_iff [simp]: "ok_or x e = Inl e' \<longleftrightarrow> x = None \<and> e' = e"
  by (cases x) auto

lemma map_sum_id_iff [simp]:
  "map_sum f id x = Inr v \<longleftrightarrow> x = Inr v" "Inr v = map_sum f id x \<longleftrightarrow> x = Inr v"
  "map_sum f id x = Inl e \<longleftrightarrow> (\<exists>s. x = Inl s \<and> e = f s)"
  "Inl e = map_sum f id x \<longleftrightarrow> (\<exists>s. x = Inl s \<and> e = f s)"
  by (cases x; auto)+

lemmas result_iffs = and_then_Inr_iff and_then_Inl_iff ok_or_Inr_iff ok_or_Inl_iff

lemma try_fold_append: "try_fold f (xs @ ys) s = and_then (try_fold f xs s) (try_fold f ys)"
proof (induction xs arbitrary: s)
  case (Cons x xs)
  then show ?case by (cases "f x s") simp_all
qed simp

lemma try_fold_invariant:
  assumes "try_fold f xs s = Inr s'" and "P s"
    and "\<And>x s s'. x \<in> set xs \<Longrightarrow> P s \<Longrightarrow> f x s = Inr s' \<Longrightarrow> P s'"
  shows "P s'"
  using assms
proof (induction xs arbitrary: s)
  case (Cons x xs)
  then obtain s1 where "f x s = Inr s1" "try_fold f xs s1 = Inr s'"
    by (auto simp: and_then_Inr_iff)
  with Cons show ?case by (meson list.set_intros)
qed simp

lemma try_fold_error:
  assumes "try_fold f xs s = Inl e"
  shows "\<exists>x\<in>set xs. \<exists>s1. f x s1 = Inl e"
  using assms by (induction xs arbitrary: s) (auto simp: and_then_Inl_iff)

section \<open>Facts about strings and numbers\<close>

lemma digit_val_digit_char [simp]: "d < 10 \<Longrightarrow> digit_val (digit_char d) = Some d"
  by (simp add: digit_val_def digit_char_def Let_def of_char_of)

lemma dec_small: "n < 10 \<Longrightarrow> dec n = [digit_char n]"
  by (subst dec.simps) simp

lemma dec_step: "10 \<le> n \<Longrightarrow> dec n = dec (n div 10) @ [digit_char (n mod 10)]"
  by (subst dec.simps) simp

lemma dec_nonempty [simp]: "dec n \<noteq> []"
  by (subst dec.simps) simp

lemma read_digits_append:
  "read_digits a (xs @ ys) = (case read_digits a xs of None \<Rightarrow> None | Some b \<Rightarrow> read_digits b ys)"
  by (induction xs arbitrary: a) (auto split: option.splits)

lemma read_digits_dec: "read_digits 0 (dec n) = Some n"
proof (induction n rule: dec.induct)
  case (1 n)
  show ?case
  proof (cases "n < 10")
    case True
    then show ?thesis by (simp add: dec_small)
  next
    case False
    with "1.IH" show ?thesis by (simp add: dec_step read_digits_append)
  qed
qed

lemma parse_nat_dec [simp]: "parse_nat (dec n) = Some n"
  by (simp add: parse_nat_def read_digits_dec)

definition is_digit :: "char \<Rightarrow> bool" where
  "is_digit c \<longleftrightarrow> 48 \<le> (of_char c :: nat) \<and> (of_char c :: nat) \<le> 57"

lemma is_digit_digit_char [simp]: "d < 10 \<Longrightarrow> is_digit (digit_char d)"
  by (simp add: is_digit_def digit_char_def of_char_of)

lemma dec_digits: "c \<in> set (dec n) \<Longrightarrow> is_digit c"
proof (induction n rule: dec.induct)
  case (1 n)
  show ?case
  proof (cases "n < 10")
    case True
    with "1.prems" show ?thesis by (simp add: dec_small)
  next
    case False
    with 1 show ?thesis by (auto simp: dec_step)
  qed
qed

lemma is_digit_not_ws: "is_digit c \<Longrightarrow> \<not> is_ws c"
  by (auto simp: is_digit_def is_ws_def)

lemma dec_hd [simp]: "is_digit (hd (dec n))"
  by (rule dec_digits [of _ n]) simp

lemma dec_no_char: "\<not> is_digit c \<Longrightarrow> c \<notin> set (dec n)"
  by (blast dest: dec_digits)

lemma parse_uint_dec [simp]: "parse_uint w (dec n) = (if n < 2 ^ w then Some n else None)"
proof -
  have "hd (dec n) \<noteq> CHR ''+''"
    using dec_hd [of n] by (auto simp: is_digit_def)
  then show ?thesis by (simp add: parse_uint_def)
qed

lemma parse_u32_dec [simp]: "parse_u32 (dec (unat n)) = Some n"
  using unsigned_less [of n] by (simp add: parse_u32_def)

lemma dropWhile_none: "\<forall>c\<in>set s. \<not> p c \<Longrightarrow> dropWhile p s = s"
  by (cases s) auto

lemma trim_id: "\<forall>c\<in>set s. \<not> is_ws c \<Longrightarrow> trim s = s"
  by (simp add: trim_def trim_start_matches_def trim_end_matches_def dropWhile_none)

lemma trim_dec [simp]: "trim (dec n) = dec n"
  by (rule trim_id) (blast dest: dec_digits is_digit_not_ws)

lemma dropWhile_idem [simp]: "dropWhile p (dropWhile p xs) = dropWhile p xs"
  by (induction xs) auto

lemma trim_end_idem: "trim_end_matches p (trim_end_matches p s) = trim_end_matches p s"
  by (simp add: trim_end_matches_def)

lemma trim_end_not_last:
  "trim_end_matches p s \<noteq> [] \<Longrightarrow> \<not> p (last (trim_end_matches p s))"
  by (simp add: trim_end_matches_def last_rev hd_dropWhile)

lemma strip_prefix_Some: "strip_prefix p s = Some r \<longleftrightarrow> s = p @ r"
  by (induction p s rule: strip_prefix.induct) auto

lemma strip_prefix_append [simp]: "strip_prefix p (p @ r) = Some r"
  by (simp add: strip_prefix_Some)

lemma split_once_append [simp]: "d \<notin> set l \<Longrightarrow> split_once d (l @ d # r) = Some (l, r)"
  by (induction l) auto

lemma split_once_SomeD: "split_once d s = Some (l, r) \<Longrightarrow> s = l @ d # r \<and> d \<notin> set l"
  by (induction s arbitrary: l) (auto split: option.splits if_splits)

lemma split_once_Some: "split_once d s = Some (l, r) \<longleftrightarrow> s = l @ d # r \<and> d \<notin> set l"
  by (auto dest: split_once_SomeD)

lemma split_once_None: "split_once d s = None \<longleftrightarrow> d \<notin> set s"
  by (induction s) (auto split: option.splits)

lemma split_on_nonempty [simp]: "split_on d s \<noteq> []"
  by (induction s) (auto split: list.splits)

lemma split_on_no_sep: "d \<notin> set s \<Longrightarrow> split_on d s = [s]"
  by (induction s) auto

lemma split_on_append: "d \<notin> set l \<Longrightarrow> split_on d (l @ d # r) = l # split_on d r"
  by (induction l) auto

lemma split_on_parts_no_sep: "t \<in> set (split_on d s) \<Longrightarrow> d \<notin> set t"
proof (induction s arbitrary: t)
  case (Cons c cs)
  then show ?case by (cases "split_on d cs") (auto split: if_splits)
qed simp

lemma join_with_append:
  "ys \<noteq> [] \<Longrightarrow> xs \<noteq> [] \<Longrightarrow> join_with sep (xs @ ys) = join_with sep xs @ sep @ join_with sep ys"
proof (induction sep xs rule: join_with.induct)
  case (2 sep s)
  then show ?case by (cases ys) auto
qed auto

lemma split_on_join:
  assumes "\<forall>t\<in>set ts. d \<notin> set t" "ts \<noteq> []"
  shows "split_on d (join_with [d] ts) = ts"
  using assms
  by (induction "[d]" ts rule: join_with.induct) (auto simp: split_on_no_sep split_on_append)

lemma join_split_on: "join_with [d] (split_on d s) = s"
proof (induction s)
  case (Cons c cs)
  then show ?case by (cases "split_on d cs"; cases "tl (split_on d cs)") auto
qed simp

end
