(* ===== verification/SdkError.thy ===== *)
theory SdkError
  imports Prelude
begin

text \<open>
  The SDK's error type and its classification (\<open>crates/modal-rust-sdk/src/error.rs\<close>), and the
  reading of a remote \<open>GenericResult\<close> (\<open>crates/modal-rust-sdk/src/ops/mod.rs\<close>).  The values of
  \<open>tonic\<close> and of the gRPC transport are third-party: a status is its code and message, a transport
  error is opaque text.
\<close>

section \<open>The error type\<close>

datatype code = CodeOk | Cancelled | Unknown | InvalidArgument | DeadlineExceeded | NotFound
  | AlreadyExists | PermissionDenied | ResourceExhausted | FailedPrecondition | Aborted
  | OutOfRange | Unimplemented | Internal | Unavailable | DataLoss | Unauthenticated

record status =
  st_code :: code
  st_message :: string

datatype error =
    Config string
  | Transport string
  | Status status
  | Invalid string
  | Codec string
  | Build string
  | Deadline string

definition transient_codes :: "code list" where
  "transient_codes = [Unavailable, DeadlineExceeded, ResourceExhausted, Internal, Unknown]"

definition transient_phrases :: "string list" where
  "transient_phrases =
     [''connection reset'', ''connectionreset'', ''error reading a body'', ''h2 protocol error'',
      ''broken pipe'', ''transport error'', ''socket connection closed'', ''goaway'',
      ''connection closed'']"

fun is_transient :: "error \<Rightarrow> bool" where
  "is_transient (Transport _) = True"
| "is_transient (Status s) =
     (if st_code s \<in> set transient_codes then True
      else let m = to_ascii_lowercase (st_message s)
           in list_ex (contains m) transient_phrases)"
| "is_transient _ = False"

text \<open>\<open>Display\<close>: the texts of \<open>tonic\<close>'s own values are parameters.\<close>

fun display :: "(status \<Rightarrow> string) \<Rightarrow> error \<Rightarrow> string" where
  "display show_status (Config msg) = ''configuration error: '' @ msg"
| "display show_status (Transport e) = ''transport error: '' @ e"
| "display show_status (Status s) = ''gRPC error: '' @ show_status s"
| "display show_status (Invalid msg) = ''invalid input: '' @ msg"
| "display show_status (Codec msg) = ''codec error: '' @ msg"
| "display show_status (Build msg) = ''build error: '' @ msg"
| "display show_status (Deadline msg) = ''deadline exceeded: '' @ msg"

definition invalid_metadata :: "string \<Rightarrow> error" where
  "invalid_metadata err = Invalid (''invalid gRPC metadata value: '' @ err)"

section \<open>Remote results\<close>

datatype generic_status = GsUnspecified | GsSuccess | GsFailure | GsTerminated | GsTimeout
  | GsInitFailure | GsInternalFailure | GsIdleTimeout

definition generic_status_try_from :: "int \<Rightarrow> generic_status option" where
  "generic_status_try_from i =
     (if i = 0 then Some GsUnspecified else if i = 1 then Some GsSuccess
      else if i = 2 then Some GsFailure else if i = 3 then Some GsTerminated
      else if i = 4 then Some GsTimeout else if i = 5 then Some GsInitFailure
      else if i = 6 then Some GsInternalFailure else if i = 7 then Some GsIdleTimeout else None)"

fun generic_status_name :: "generic_status \<Rightarrow> string" where
  "generic_status_name GsUnspecified = ''GENERIC_STATUS_UNSPECIFIED''"
| "generic_status_name GsSuccess = ''GENERIC_STATUS_SUCCESS''"
| "generic_status_name GsFailure = ''GENERIC_STATUS_FAILURE''"
| "generic_status_name GsTerminated = ''GENERIC_STATUS_TERMINATED''"
| "generic_status_name GsTimeout = ''GENERIC_STATUS_TIMEOUT''"
| "generic_status_name GsInitFailure = ''GENERIC_STATUS_INIT_FAILURE''"
| "generic_status_name GsInternalFailure = ''GENERIC_STATUS_INTERNAL_FAILURE''"
| "generic_status_name GsIdleTimeout = ''GENERIC_STATUS_IDLE_TIMEOUT''"

datatype result_data = Data bytes | DataBlobId string

record generic_result =
  gr_status :: int
  gr_exception :: string
  gr_traceback :: string
  gr_data_oneof :: "result_data option"

datatype result_state = Pending | Success | Failure generic_status

definition result_status :: "generic_result option \<Rightarrow> result_state" where
  "result_status result =
     (case result of
        None \<Rightarrow> Pending
      | Some r \<Rightarrow>
          (case generic_status_try_from (gr_status r) of
             None \<Rightarrow> Pending \<comment> \<open>\<open>unwrap_or(Unspecified)\<close>\<close>
           | Some GsUnspecified \<Rightarrow> Pending
           | Some GsSuccess \<Rightarrow> Success
           | Some other \<Rightarrow> Failure other))"

definition kill_hint :: string where
  "kill_hint = nl @ nl @
     ''hint: the remote container was killed with no error output '' @ emdash @
     '' most often an OUT-OF-MEMORY kill during a heavy in-body `cargo build` (e.g. a GPU/ML crate).'' @
     '' For such crates, prefer `modal-rust deploy` (builds at image-build time with full'' @
     '' resources, not in the function body) with a CUDA base image and more memory:'' @ nl @
     ''  MODAL_RUST_BASE_IMAGE=nvidia/cuda:<tag>-devel MODAL_RUST_INSTALL_RUST=1'' @
     '' modal-rust deploy <fn> --app <name>'' @ nl @
     ''then call it with `modal-rust call <fn> --app <name> --input '' @
     [CHR 0x27] @ ''{...}'' @ [CHR 0x27] @ ''`. Also raise `memory=` on the #[modal_rust::function].'' @
     '' The build log (lost client-side when the container is killed) is in `modal app logs`.'' @
     '' See docs/local/burn-add-run-failure.md.''"

definition describe_failure :: "string \<Rightarrow> generic_status \<Rightarrow> generic_result \<Rightarrow> string" where
  "describe_failure context status result =
     (let msg = context @ '' failed with '' @ generic_status_name status;
          msg = (if gr_exception result \<noteq> [] then msg @ '': '' @ gr_exception result else msg);
          msg = (if gr_traceback result \<noteq> [] then msg @ nl @ gr_traceback result else msg);
          no_remote_detail = (gr_exception result = [] \<and> gr_traceback result = [])
      in if no_remote_detail \<and> (status = GsTerminated \<or> status = GsTimeout)
         then msg @ kill_hint else msg)"

section \<open>Facts\<close>

lemma app_errors_not_transient [simp]:
  "\<not> is_transient (Config m)" "\<not> is_transient (Invalid m)" "\<not> is_transient (Codec m)"
  "\<not> is_transient (Build m)" "\<not> is_transient (Deadline m)"
  by simp_all

lemma transient_cases:
  "is_transient e \<Longrightarrow> (\<exists>m. e = Transport m) \<or> (\<exists>s. e = Status s)"
  by (cases e) auto

lemma result_status_Success_iff:
  "result_status r = Success \<longleftrightarrow> (\<exists>g. r = Some g \<and> gr_status g = 1)"
  by (auto simp: result_status_def generic_status_try_from_def split: option.splits)

lemma result_status_Failure_iff:
  "result_status r = Failure s \<longleftrightarrow>
     (\<exists>g. r = Some g \<and> generic_status_try_from (gr_status g) = Some s \<and>
          s \<noteq> GsUnspecified \<and> s \<noteq> GsSuccess)"
  by (auto simp: result_status_def split: option.splits generic_status.splits)

lemma result_status_None [simp]: "result_status None = Pending"
  by (simp add: result_status_def)

text \<open>A failure report always opens with the context and the status, and quotes what the remote
  side said.\<close>

lemma describe_failure_prefix:
  "\<exists>rest. describe_failure ctx s r = ctx @ '' failed with '' @ generic_status_name s @ rest"
  by (simp add: describe_failure_def Let_def)

end
