(* ===== verification/Effects.thy ===== *)
theory Effects
  imports SdkError
begin

text \<open>
  The world the SDK runs in.  A world of type \<open>'w\<close> is everything outside the program: the remote
  service, the network, the file system, the clocks.  A computation is a function from a world to
  \<open>None\<close> (it does not return: it runs forever, or panics) or to a result and the next world.
  The clocks and timers are read through a record of operations, \<open>'w host\<close>, which the definitions
  take as an argument.

  \<open>loop\<close> is Rust's \<open>loop\<close> block: its body maps the values of the mutable locals either to their
  next values or to the block's result.
\<close>

section \<open>Computations\<close>

type_synonym ('w, 'a) io = "'w \<Rightarrow> ((error + 'a) \<times> 'w) option"

definition ret :: "'a \<Rightarrow> ('w, 'a) io" where "ret a w = Some (Inr a, w)"

definition throw :: "error \<Rightarrow> ('w, 'a) io" where "throw e w = Some (Inl e, w)"

definition lift_res :: "error + 'a \<Rightarrow> ('w, 'a) io" where "lift_res r w = Some (r, w)"

definition bind_io :: "('w, 'a) io \<Rightarrow> ('a \<Rightarrow> ('w, 'b) io) \<Rightarrow> ('w, 'b) io" where
  \<comment> \<open>sequencing with \<open>?\<close>: an error leaves at once\<close>
  "bind_io m f w =
     (case m w of
        None \<Rightarrow> None
      | Some (Inl e, w') \<Rightarrow> Some (Inl e, w')
      | Some (Inr a, w') \<Rightarrow> f a w')"

fun for_io :: "('a \<Rightarrow> 's \<Rightarrow> ('w, 's) io) \<Rightarrow> 'a list \<Rightarrow> 's \<Rightarrow> ('w, 's) io" where
  \<comment> \<open>a \<open>for\<close> loop over a list, with the mutable locals as accumulator\<close>
  "for_io f [] s = ret s"
| "for_io f (x # xs) s = bind_io (f x s) (for_io f xs)"

named_theorems io_defs \<open>unfolding of computations\<close>
declare ret_def [io_defs] throw_def [io_defs] lift_res_def [io_defs] bind_io_def [io_defs]

lemma bind_io_Some_iff:
  "bind_io m f w = Some (r, w') \<longleftrightarrow>
     (\<exists>e. m w = Some (Inl e, w') \<and> r = Inl e) \<or> (\<exists>a w1. m w = Some (Inr a, w1) \<and> f a w1 = Some (r, w'))"
  by (auto simp: bind_io_def split: option.splits sum.splits)

lemma bind_io_Inr_iff:
  "bind_io m f w = Some (Inr b, w') \<longleftrightarrow> (\<exists>a w1. m w = Some (Inr a, w1) \<and> f a w1 = Some (Inr b, w'))"
  by (auto simp: bind_io_Some_iff)

lemma bind_io_returns:
  "\<exists>x. m w = Some x \<Longrightarrow> (\<And>a w1. \<exists>x. f a w1 = Some x) \<Longrightarrow> \<exists>x. bind_io m f w = Some x"
  by (auto simp: bind_io_def split: sum.splits)

lemma ret_iff [simp]: "ret a w = Some (r, w') \<longleftrightarrow> r = Inr a \<and> w' = w"
  by (auto simp: ret_def)

lemma throw_iff [simp]: "throw e w = Some (r, w') \<longleftrightarrow> r = Inl e \<and> w' = w"
  by (auto simp: throw_def)

lemma lift_res_iff [simp]: "lift_res x w = Some (r, w') \<longleftrightarrow> r = x \<and> w' = w"
  by (auto simp: lift_res_def)

lemma returns_defined [simp]: "ret a w \<noteq> None" "throw e w \<noteq> None" "lift_res x w \<noteq> None"
  by (simp_all add: io_defs)

lemma for_io_invariant:
  assumes "for_io f xs s w = Some (Inr s', w')" and "P s"
    and "\<And>x s w s' w'. x \<in> set xs \<Longrightarrow> P s \<Longrightarrow> f x s w = Some (Inr s', w') \<Longrightarrow> P s'"
  shows "P s'"
  using assms
proof (induction xs arbitrary: s w)
  case (Cons x xs)
  then obtain s1 w1 where "f x s w = Some (Inr s1, w1)" "for_io f xs s1 w1 = Some (Inr s', w')"
    by (auto simp: bind_io_Inr_iff)
  with Cons show ?case by (meson list.set_intros)
qed simp

section \<open>Clocks and timers\<close>

record 'w host =
  instant_now :: "'w \<Rightarrow> nat" \<comment> \<open>\<open>Instant::now\<close>, in nanoseconds\<close>
  sleep_for :: "nat \<Rightarrow> 'w \<Rightarrow> 'w" \<comment> \<open>\<open>tokio::time::sleep\<close>\<close>
  wall_nanos :: "'w \<Rightarrow> u64" \<comment> \<open>\<open>SystemTime::now\<close> since the epoch, 0 before it\<close>
  counter_fetch_add :: "u64 \<Rightarrow> 'w \<Rightarrow> u64 \<times> 'w" \<comment> \<open>the process-wide counter of the retry jitter\<close>

definition elapsed :: "'w host \<Rightarrow> nat \<Rightarrow> 'w \<Rightarrow> nat" where
  "elapsed h start w = instant_now h w - start"

lemma elapsed_gt: "start + limit < instant_now h w \<Longrightarrow> limit < elapsed h start w"
  by (simp add: elapsed_def)

definition secs :: "nat \<Rightarrow> nat" where "secs n = n * 1000000000"

section \<open>Loops\<close>

partial_function (option) loop :: "('s \<Rightarrow> ('s + 'r) option) \<Rightarrow> 's \<Rightarrow> 'r option" where
  "loop body s =
     (case body s of
        None \<Rightarrow> None
      | Some x \<Rightarrow> (case x of Inl s' \<Rightarrow> loop body s' | Inr r \<Rightarrow> Some r))"

lemma loop_break: "body s = Some (Inr r) \<Longrightarrow> loop body s = Some r"
  by (simp add: loop.simps [of body s])

lemma loop_continue: "body s = Some (Inl s') \<Longrightarrow> loop body s = loop body s'"
  by (simp add: loop.simps [of body s])

text \<open>Partial correctness: an invariant of the body holds where the loop ends.\<close>

lemma loop_invariant:
  assumes run: "loop body s = Some r" and init: "I s"
    and step: "\<And>s s'. I s \<Longrightarrow> body s = Some (Inl s') \<Longrightarrow> I s'"
    and final: "\<And>s r. I s \<Longrightarrow> body s = Some (Inr r) \<Longrightarrow> Q r"
  shows "Q r"
proof -
  have "I s \<longrightarrow> Q r"
  proof (rule loop.raw_induct [where P = "\<lambda>b s r. b = body \<longrightarrow> I s \<longrightarrow> Q r", OF _ run, simplified])
    fix f b t and q
    assume IH: "\<And>b t q. f b t = Some q \<Longrightarrow> b = body \<longrightarrow> I t \<longrightarrow> Q q"
      and eq: "(case b t of None \<Rightarrow> None
         | Some x \<Rightarrow> (case x of Inl s' \<Rightarrow> f b s' | Inr r \<Rightarrow> Some r)) = Some q"
    show "b = body \<longrightarrow> I t \<longrightarrow> Q q"
      using eq by (auto split: option.splits sum.splits dest: IH step final)
  qed
  with init show ?thesis by blast
qed

text \<open>Total correctness: under an invariant that keeps the body defined, a measure that shrinks on
  every continuing step makes the loop return.\<close>

lemma loop_total:
  assumes "I s"
    and "\<And>s. I s \<Longrightarrow> body s \<noteq> None"
    and "\<And>s s'. I s \<Longrightarrow> body s = Some (Inl s') \<Longrightarrow> I s' \<and> m s' < (m s :: nat)"
  shows "\<exists>r. loop body s = Some r"
  using assms(1)
proof (induction "m s" arbitrary: s rule: less_induct)
  case less
  show ?case
  proof (cases "body s")
    case None
    with assms(2) less.prems show ?thesis by blast
  next
    case (Some x)
    show ?thesis
    proof (cases x)
      case (Inl s')
      with Some less assms(3) [of s s'] show ?thesis by (simp add: loop_continue)
    next
      case (Inr r)
      with Some show ?thesis by (simp add: loop_break)
    qed
  qed
qed

text \<open>The states a loop passes through, and where it ends.\<close>

inductive reaches :: "('s \<Rightarrow> ('s + 'r) option) \<Rightarrow> 's \<Rightarrow> 's \<Rightarrow> bool" for body s0 where
  start: "reaches body s0 s0"
| step: "reaches body s0 s \<Longrightarrow> body s = Some (Inl s') \<Longrightarrow> reaches body s0 s'"

lemma loop_ends: "loop body s = Some r \<Longrightarrow> \<exists>s'. reaches body s s' \<and> body s' = Some (Inr r)"
  by (rule loop_invariant [where I = "reaches body s" and Q = "\<lambda>r. \<exists>s'. reaches body s s' \<and> body s' = Some (Inr r)"])
     (auto intro: reaches.intros)

text \<open>
  A polling loop with a deadline: the contract every deadline-guarded loop of the SDK keeps.  Once
  the clock has passed the deadline the body ends the loop; what a caller gets from it is that the
  loop returns whenever each further round takes time.
\<close>

locale deadline_poll =
  fixes body :: "'s \<times> 'w \<Rightarrow> (('s \<times> 'w) + 'r) option"
    and h :: "'w host"
    and limit :: nat
  assumes past_deadline: "limit < instant_now h w \<Longrightarrow> \<exists>r. body (s, w) = Some (Inr r)"
begin

lemma poll_returns:
  assumes "P w"
    and defined: "\<And>s w. P w \<Longrightarrow> body (s, w) \<noteq> None"
    and ticks: "\<And>s w s' w'. P w \<Longrightarrow> body (s, w) = Some (Inl (s', w')) \<Longrightarrow>
                  P w' \<and> instant_now h w < instant_now h w'"
  shows "\<exists>r. loop body (s, w) = Some r"
proof (rule loop_total [where I = "\<lambda>(s, w). P w" and m = "\<lambda>(s, w). Suc limit - instant_now h w"])
  fix x y
  assume "case x of (s, w) \<Rightarrow> P w" and "body x = Some (Inl y)"
  moreover obtain s w s' w' where "x = (s, w)" "y = (s', w')" by (cases x; cases y)
  ultimately have P: "P w" and b: "body (s, w) = Some (Inl (s', w'))" and
    xy: "x = (s, w)" "y = (s', w')" by auto
  from b have "\<not> limit < instant_now h w" using past_deadline [of w s] by auto
  with ticks [OF P b] xy show "(case y of (s, w) \<Rightarrow> P w) \<and>
    (case y of (s, w) \<Rightarrow> Suc limit - instant_now h w) < (case x of (s, w) \<Rightarrow> Suc limit - instant_now h w)"
    by auto
qed (use assms in auto)

end

end
