(* ===== verification/Retry.thy ===== *)
theory Retry
  imports Effects
begin

text \<open>
  The transient-retry layer (\<open>crates/modal-rust-sdk/src/retry.rs\<close>), the RPC helper every operation
  goes through (\<open>retry_rpc\<close> in \<open>ops/transport.rs\<close>), and the two HTTP uploads that repeat the same
  loop by hand (\<open>put_blob_bytes\<close> in \<open>ops/blob.rs\<close>, \<open>put_block_bytes\<close> in \<open>ops/volume.rs\<close>).
  Durations are nanoseconds.  The \<open>f64\<close> product in \<open>Duration::mul_f64\<close> is taken exactly over the
  rationals and rounded to a nanosecond, which is what the code computes for the one factor it uses,
  2.0.  The retry log lines on stderr are left out.
\<close>

unbundle bit_operations_syntax

section \<open>The policy and the jitter\<close>

record retry_policy =
  base_delay :: nat
  max_delay :: nat
  delay_factor :: rat
  max_attempts :: nat
  total_deadline :: nat

definition default_policy :: retry_policy where
  "default_policy =
     \<lparr>base_delay = 100000000, max_delay = secs 5, delay_factor = 2, max_attempts = 8,
      total_deadline = secs 120\<rparr>"

definition mul_f64 :: "nat \<Rightarrow> rat \<Rightarrow> nat" where
  "mul_f64 d x = nat (round (of_nat d * x))"

definition splitmix64 :: "u64 \<Rightarrow> u64" where
  "splitmix64 seed =
     (let z = seed + 0x9E3779B97F4A7C15;
          z = (z XOR drop_bit 30 z) * 0xBF58476D1CE4E5B9;
          z = (z XOR drop_bit 27 z) * 0x94D049BB133111EB
      in z XOR drop_bit 31 z)"

definition next_rand_u64 :: "'w host \<Rightarrow> 'w \<Rightarrow> u64 \<times> 'w" where
  "next_rand_u64 h w =
     (let (c, w') = counter_fetch_add h 0x9E3779B97F4A7C15 w
      in (splitmix64 (wall_nanos h w XOR c), w'))"

text \<open>\<open>None\<close> is the panic of \<open>max + 1\<close> (checked arithmetic) or of the remainder by zero that follows
  when it wraps.\<close>

definition jitter :: "'w host \<Rightarrow> nat \<Rightarrow> 'w \<Rightarrow> (nat \<times> 'w) option" where
  "jitter h delay w =
     (if delay = 0 then Some (delay, w)
      else let mx = min delay (2 ^ 64 - 1); (r, w') = next_rand_u64 h w
           in if mx + 1 < 2 ^ 64 then Some (unat r mod (mx + 1), w') else None)"

section \<open>The retry loop\<close>

text \<open>One attempt ends with a value, or with an error and whether that error may be retried.\<close>

type_synonym ('w, 'a) attempt = "'w \<Rightarrow> (('a + error \<times> bool) \<times> 'w) option"

definition backoff_step ::
  "'w host \<Rightarrow> retry_policy \<Rightarrow> nat \<Rightarrow> ('w, 'a) attempt \<Rightarrow> nat \<times> nat \<times> 'w \<Rightarrow>
     ((nat \<times> nat \<times> 'w) + (error + 'a) \<times> 'w) option" where
  "backoff_step h p start op = (\<lambda>(delay, attempt, w).
     case op w of
       None \<Rightarrow> None
     | Some (Inl v, w1) \<Rightarrow> Some (Inr (Inr v, w1))
     | Some (Inr (e, transient), w1) \<Rightarrow>
         (let last_attempt = (max_attempts p \<le> attempt);
              over_deadline = (total_deadline p \<le> elapsed h start w1 + delay)
          in if \<not> transient \<or> last_attempt \<or> over_deadline then Some (Inr (Inl e, w1))
             else case jitter h delay w1 of
                    None \<Rightarrow> None
                  | Some (jittered, w2) \<Rightarrow>
                      Some (Inl (min (mul_f64 delay (delay_factor p)) (max_delay p), attempt + 1,
                                 sleep_for h jittered w2))))"

definition backoff_loop ::
  "'w host \<Rightarrow> retry_policy \<Rightarrow> ('w, 'a) attempt \<Rightarrow> ('w, 'a) io" where
  "backoff_loop h p op w = loop (backoff_step h p (instant_now h w) op) (base_delay p, 1, w)"

definition rpc_attempt :: "('w, 'a) io \<Rightarrow> ('w, 'a) attempt" where
  "rpc_attempt op w =
     (case op w of
        None \<Rightarrow> None
      | Some (Inr v, w') \<Rightarrow> Some (Inl v, w')
      | Some (Inl e, w') \<Rightarrow> Some (Inr (e, is_transient e), w'))"

definition retry_transient :: "'w host \<Rightarrow> retry_policy \<Rightarrow> ('w, 'a) io \<Rightarrow> ('w, 'a) io" where
  "retry_transient h p op = backoff_loop h p (rpc_attempt op)"

definition retry_unary :: "'w host \<Rightarrow> ('w, 'a) io \<Rightarrow> ('w, 'a) io" where
  "retry_unary h = retry_transient h default_policy"

text \<open>A remote procedure of the generated stub: a status or a response.\<close>

type_synonym ('w, 'req, 'resp) rpc = "'req \<Rightarrow> 'w \<Rightarrow> ((status + 'resp) \<times> 'w) option"

definition call_stub :: "('w, 'req, 'resp) rpc \<Rightarrow> 'req \<Rightarrow> ('w, 'resp) io" where
  "call_stub rpc req w = map_option (map_prod (map_sum Status id) id) (rpc req w)"

definition retry_rpc :: "'w host \<Rightarrow> ('w, 'req, 'resp) rpc \<Rightarrow> 'req \<Rightarrow> ('w, 'resp) io" where
  "retry_rpc h rpc req = retry_unary h (call_stub rpc req)"

section \<open>HTTP uploads\<close>

datatype http_outcome = Response nat bytes | SendError string bool bool
  \<comment> \<open>status code and body; or message, \<open>is_timeout\<close>, \<open>is_connect\<close>\<close>

text \<open>\<open>reqwest\<close> is third-party: \<open>put url data\<close> is the request, \<open>show_code\<close> the text of a status.\<close>

record 'w http =
  http_put :: "string \<Rightarrow> bytes \<Rightarrow> 'w \<Rightarrow> (http_outcome \<times> 'w) option"
  read_body :: "bytes \<Rightarrow> 'w \<Rightarrow> ((string + bytes) \<times> 'w) option"
  show_code :: "nat \<Rightarrow> string"

definition is_success :: "nat \<Rightarrow> bool" where "is_success s \<longleftrightarrow> 200 \<le> s \<and> s < 300"
definition is_server_error :: "nat \<Rightarrow> bool" where "is_server_error s \<longleftrightarrow> 500 \<le> s \<and> s < 600"

definition blob_put_attempt :: "'w http \<Rightarrow> string \<Rightarrow> bytes \<Rightarrow> ('w, unit) attempt" where
  "blob_put_attempt net url data w =
     (case http_put net url data w of
        None \<Rightarrow> None
      | Some (Response st body, w1) \<Rightarrow>
          (if is_success st then Some (Inl (), w1)
           else let retryable = (is_server_error st \<or> st = 429)
                in Some (Inr (Build (''blob upload PUT returned non-success status ''
                                     @ show_code net st), retryable), w1))
      | Some (SendError e is_timeout is_connect, w1) \<Rightarrow>
          (let retryable = (is_timeout \<or> is_connect)
           in Some (Inr (Build (''blob upload PUT failed: '' @ e), retryable), w1)))"

definition put_blob_bytes :: "'w host \<Rightarrow> 'w http \<Rightarrow> string \<Rightarrow> bytes \<Rightarrow> ('w, unit) io" where
  "put_blob_bytes h net url data = backoff_loop h default_policy (blob_put_attempt net url data)"

text \<open>The block upload reads the response body; a failed read leaves the loop at once, as an error
  that is not retried.\<close>

definition block_put_attempt :: "'w http \<Rightarrow> string \<Rightarrow> bytes \<Rightarrow> ('w, bytes) attempt" where
  "block_put_attempt net url data w =
     (case http_put net url data w of
        None \<Rightarrow> None
      | Some (Response st body, w1) \<Rightarrow>
          (if is_success st
           then (case read_body net body w1 of
                   None \<Rightarrow> None
                 | Some (Inl e, w2) \<Rightarrow>
                     Some (Inr (Build (''block PUT response read failed: '' @ e), False), w2)
                 | Some (Inr b, w2) \<Rightarrow> Some (Inl b, w2))
           else let retryable = (is_server_error st \<or> st = 429)
                in Some (Inr (Build (''block upload PUT returned non-success status ''
                                     @ show_code net st), retryable), w1))
      | Some (SendError e is_timeout is_connect, w1) \<Rightarrow>
          (let retryable = (is_timeout \<or> is_connect)
           in Some (Inr (Build (''block upload PUT failed: '' @ e), retryable), w1)))"

definition put_block_bytes :: "'w host \<Rightarrow> 'w http \<Rightarrow> string \<Rightarrow> bytes \<Rightarrow> ('w, bytes) io" where
  "put_block_bytes h net url data = backoff_loop h default_policy (block_put_attempt net url data)"

section \<open>One step of the loop\<close>

lemma backoff_step_end:
  "backoff_step h p start op (d, n, w) = Some (Inr (r, w')) \<longleftrightarrow>
     (\<exists>v. op w = Some (Inl v, w') \<and> r = Inr v) \<or>
     (\<exists>e t. op w = Some (Inr (e, t), w') \<and> r = Inl e \<and>
        (\<not> t \<or> max_attempts p \<le> n \<or> total_deadline p \<le> elapsed h start w' + d))"
  by (auto simp: backoff_step_def Let_def split: option.splits sum.splits if_splits)

lemma backoff_step_again:
  "backoff_step h p start op (d, n, w) = Some (Inl s') \<longleftrightarrow>
     (\<exists>e w1 j w2. op w = Some (Inr (e, True), w1) \<and> n < max_attempts p \<and>
        elapsed h start w1 + d < total_deadline p \<and> jitter h d w1 = Some (j, w2) \<and>
        s' = (min (mul_f64 d (delay_factor p)) (max_delay p), n + 1, sleep_for h j w2))"
  by (auto simp: backoff_step_def Let_def split: option.splits sum.splits if_splits)

lemma jitter_range:
  "jitter h d w = Some (j, w') \<Longrightarrow> j \<le> d"
proof -
  assume *: "jitter h d w = Some (j, w')"
  have "n mod (min d (2 ^ 64 - 1) + 1) \<le> min d (2 ^ 64 - 1)" for n :: nat
    using mod_less_divisor [of "min d (2 ^ 64 - 1) + 1" n] by linarith
  then have "n mod (min d (2 ^ 64 - 1) + 1) \<le> d" for n :: nat
    by (meson min.cobounded1 order_trans)
  with * show ?thesis
    by (auto simp: jitter_def Let_def split: if_splits prod.splits)
qed

lemma jitter_defined: "d < 2 ^ 64 - 1 \<Longrightarrow> jitter h d w \<noteq> None"
  by (auto simp: jitter_def Let_def split: prod.splits)

lemma jitter_NoneD: "jitter h d w = None \<Longrightarrow> 18446744073709551615 \<le> d"
  using jitter_defined [of d h w] by (cases "d < 2 ^ 64 - 1") auto

lemma jitter_world: "jitter h d w = Some (j, w') \<Longrightarrow> w' = w \<or> w' = snd (counter_fetch_add h 0x9E3779B97F4A7C15 w)"
  by (auto simp: jitter_def next_rand_u64_def Let_def split: if_splits prod.splits)

text \<open>A world property the timers keep.\<close>

definition host_closed :: "'w host \<Rightarrow> ('w \<Rightarrow> bool) \<Rightarrow> bool" where
  "host_closed h P \<longleftrightarrow>
     (\<forall>w d. P w \<longrightarrow> P (sleep_for h d w)) \<and> (\<forall>w k. P w \<longrightarrow> P (snd (counter_fetch_add h k w)))"

lemma host_closed_True [simp]: "host_closed h (\<lambda>_. True)"
  by (simp add: host_closed_def)

lemma host_closed_wait:
  "host_closed h P \<Longrightarrow> P w \<Longrightarrow> jitter h d w = Some (j, w') \<Longrightarrow> P (sleep_for h j w')"
  by (auto simp: host_closed_def dest!: jitter_world)

section \<open>The backoff schedule\<close>

text \<open>The delay before retry number \<open>n + 1\<close>, before jitter.\<close>

fun backoff_schedule :: "retry_policy \<Rightarrow> nat \<Rightarrow> nat" where
  "backoff_schedule p 0 = base_delay p"
| "backoff_schedule p (Suc n) = min (mul_f64 (backoff_schedule p n) (delay_factor p)) (max_delay p)"

lemma mul_f64_2 [simp]: "mul_f64 d 2 = 2 * d"
proof -
  have "(of_nat d :: rat) * 2 = of_int (int (2 * d))" by simp
  then show ?thesis unfolding mul_f64_def by (simp only: round_of_int)
qed

lemma default_schedule: "backoff_schedule default_policy n = min (2 ^ n * 100000000) (secs 5)"
  by (induction n) (auto simp: default_policy_def secs_def)

text \<open>The loop counts its attempts and follows the schedule; only transient failures, short of the
  cap and of the deadline, lead to another attempt.\<close>

lemma backoff_reaches:
  assumes "reaches (backoff_step h p start op) (base_delay p, 1, w) (d, n, w0)"
  shows "1 \<le> n \<and> n \<le> max 1 (max_attempts p) \<and> d = backoff_schedule p (n - 1)"
proof -
  define s where "s = (d, n, w0)"
  have "reaches (backoff_step h p start op) (base_delay p, 1, w) s" using assms by (simp add: s_def)
  then have "case s of (d, n, w0) \<Rightarrow> 1 \<le> n \<and> n \<le> max 1 (max_attempts p) \<and> d = backoff_schedule p (n - 1)"
  proof (induction rule: reaches.induct)
    case start
    then show ?case by simp
  next
    case (step s s')
    obtain d n w1 where s: "s = (d, n, w1)" by (cases s)
    with step.IH obtain m where "n = Suc m" by (cases n) auto
    with step s show ?case by (auto simp: backoff_step_again)
  qed
  then show ?thesis by (simp add: s_def)
qed

lemma backoff_ends:
  assumes "backoff_loop h p op w = Some (r, w')"
  obtains n w0 where
    "reaches (backoff_step h p (instant_now h w) op) (base_delay p, 1, w) (backoff_schedule p (n - 1), n, w0)"
    "1 \<le> n" "n \<le> max 1 (max_attempts p)"
    "backoff_step h p (instant_now h w) op (backoff_schedule p (n - 1), n, w0) = Some (Inr (r, w'))"
proof -
  from assms obtain s where s: "reaches (backoff_step h p (instant_now h w) op) (base_delay p, 1, w) s"
    "backoff_step h p (instant_now h w) op s = Some (Inr (r, w'))"
    unfolding backoff_loop_def by (blast dest: loop_ends)
  obtain d n w0 where dn: "s = (d, n, w0)" by (cases s)
  with s(1) have "1 \<le> n \<and> n \<le> max 1 (max_attempts p) \<and> d = backoff_schedule p (n - 1)"
    by (blast dest: backoff_reaches)
  with s dn that show thesis by blast
qed

text \<open>A property of worlds kept by the attempts and the timers holds along the loop.\<close>

lemma backoff_keeps:
  assumes run: "backoff_loop h p op w = Some (r, w')" and "P w" and hc: "host_closed h P"
    and op: "\<And>w x w'. P w \<Longrightarrow> op w = Some (x, w') \<Longrightarrow> P w'"
  obtains w0 n where "P w0" "P w'" "1 \<le> n" "n \<le> max 1 (max_attempts p)"
    "backoff_step h p (instant_now h w) op (backoff_schedule p (n - 1), n, w0) = Some (Inr (r, w'))"
proof -
  from run obtain n w0 where
    reach: "reaches (backoff_step h p (instant_now h w) op) (base_delay p, 1, w) (backoff_schedule p (n - 1), n, w0)"
    and n: "1 \<le> n" "n \<le> max 1 (max_attempts p)"
    and fin: "backoff_step h p (instant_now h w) op (backoff_schedule p (n - 1), n, w0) = Some (Inr (r, w'))"
    by (rule backoff_ends)
  have "P (snd (snd s))" if "reaches (backoff_step h p (instant_now h w) op) (base_delay p, 1, w) s" for s
    using that
  proof (induction rule: reaches.induct)
    case start
    then show ?case using \<open>P w\<close> by simp
  next
    case (step s s')
    obtain d m w1 where s: "s = (d, m, w1)" by (cases s)
    from step.hyps(2) s obtain e w1' j w2 where
      "op w1 = Some (Inr (e, True), w1')" "jitter h d w1' = Some (j, w2)" "snd (snd s') = sleep_for h j w2"
      by (auto simp: backoff_step_again)
    moreover from step.IH s have "P w1" by simp
    ultimately show ?case using op host_closed_wait [OF hc] by metis
  qed
  from this [OF reach] have "P w0" by simp
  moreover from this fin have "P w'" by (auto simp: backoff_step_end intro: op)
  ultimately show thesis using that n fin by blast
qed

text \<open>Every reachable delay stays below the bound where the jitter would panic.\<close>

definition policy_ok :: "retry_policy \<Rightarrow> bool" where
  "policy_ok p \<longleftrightarrow> base_delay p < 2 ^ 64 - 1 \<and> max_delay p < 2 ^ 64 - 1"

lemma default_policy_ok [simp]: "policy_ok default_policy"
  by (simp add: policy_ok_def default_policy_def secs_def)

lemma backoff_total:
  fixes op :: "('w, 'a) attempt"
  assumes "policy_ok p" and "\<And>w. op w \<noteq> None"
  shows "\<exists>x. backoff_loop h p op w = Some x"
  unfolding backoff_loop_def
proof (rule loop_total [where I = "\<lambda>(d, n, w). d < 2 ^ 64 - 1" and m = "\<lambda>(d, n, w). max_attempts p - n"])
  fix s :: "nat \<times> nat \<times> 'w"
  assume "case s of (d, n, w) \<Rightarrow> d < 2 ^ 64 - 1"
  then obtain d n w1 where s: "s = (d, n, w1)" and d: "d < 2 ^ 64 - 1" by (cases s) auto
  obtain x w2 where "op w1 = Some (x, w2)" using assms(2) [of w1] by auto
  moreover obtain j w3 where "jitter h d w2 = Some (j, w3)" using jitter_defined [OF d, of h w2] by auto
  ultimately show "backoff_step h p (instant_now h w) op s \<noteq> None"
    using s by (simp add: backoff_step_def Let_def split: sum.splits)
qed (use assms(1) in \<open>auto simp: policy_ok_def backoff_step_again\<close>)

section \<open>How often and how long\<close>

text \<open>A counter that every attempt bumps by one counts the attempts.\<close>

lemma backoff_count:
  assumes run: "backoff_loop h p op w = Some (r, w')"
    and op: "\<And>w x w'. op w = Some (x, w') \<Longrightarrow> calls w' = Suc (calls w)"
    and hc: "\<And>k. host_closed h (\<lambda>w. calls w = k)"
  obtains n where "1 \<le> n" "n \<le> max 1 (max_attempts p)" "calls w' = calls w + n"
proof -
  from run obtain n w0 where
    reach: "reaches (backoff_step h p (instant_now h w) op) (base_delay p, 1, w) (backoff_schedule p (n - 1), n, w0)"
    and n: "1 \<le> n" "n \<le> max 1 (max_attempts p)"
    and fin: "backoff_step h p (instant_now h w) op (backoff_schedule p (n - 1), n, w0) = Some (Inr (r, w'))"
    by (rule backoff_ends)
  have "calls (snd (snd s)) + 1 = calls w + fst (snd s)"
    if "reaches (backoff_step h p (instant_now h w) op) (base_delay p, 1, w) s" for s
    using that
  proof (induction rule: reaches.induct)
    case start
    then show ?case by simp
  next
    case (step s s')
    obtain d m w1 where s: "s = (d, m, w1)" by (cases s)
    with step.hyps(2) obtain e w1' j w2 where
      "op w1 = Some (Inr (e, True), w1')" "jitter h d w1' = Some (j, w2)"
      "snd (snd s') = sleep_for h j w2" "fst (snd s') = m + 1"
      by (auto simp: backoff_step_again)
    moreover from this(2) have "calls (sleep_for h j w2) = calls w1'"
      using host_closed_wait [OF hc] by blast
    ultimately show ?case using op step.IH s by fastforce
  qed
  from this [OF reach] have "calls w0 + 1 = calls w + n" by simp
  moreover from fin have "calls w' = Suc (calls w0)" by (auto simp: backoff_step_end dest: op)
  ultimately show thesis using that n by simp
qed

text \<open>If one attempt takes at most \<open>T\<close> and a timer fires on time, the whole loop takes at most the
  policy's deadline and one more attempt.\<close>

lemma backoff_time:
  assumes run: "backoff_loop h p op w = Some (r, w')"
    and op: "\<And>w x w'. op w = Some (x, w') \<Longrightarrow> instant_now h w' \<le> instant_now h w + T"
    and timer: "\<And>w d. instant_now h (sleep_for h d w) \<le> instant_now h w + d"
    and counter: "\<And>w k. instant_now h (snd (counter_fetch_add h k w)) = instant_now h w"
  shows "instant_now h w' \<le> instant_now h w + total_deadline p + T"
proof -
  from run obtain n w0 where
    reach: "reaches (backoff_step h p (instant_now h w) op) (base_delay p, 1, w) (backoff_schedule p (n - 1), n, w0)"
    and fin: "backoff_step h p (instant_now h w) op (backoff_schedule p (n - 1), n, w0) = Some (Inr (r, w'))"
    by (rule backoff_ends)
  have "instant_now h (snd (snd s)) \<le> instant_now h w + total_deadline p"
    if "reaches (backoff_step h p (instant_now h w) op) (base_delay p, 1, w) s" for s
    using that
  proof (induction rule: reaches.induct)
    case start
    then show ?case by simp
  next
    case (step s s')
    obtain d m w1 where s: "s = (d, m, w1)" by (cases s)
    with step.hyps(2) obtain w1' j w2 where
      el: "elapsed h (instant_now h w) w1' + d < total_deadline p" and
      j: "jitter h d w1' = Some (j, w2)" "snd (snd s') = sleep_for h j w2"
      by (auto simp: backoff_step_again)
    from j(1) have "instant_now h w2 = instant_now h w1'" using counter by (auto dest!: jitter_world)
    with j timer [of j w2] jitter_range [OF j(1)] el show ?case by (simp add: elapsed_def)
  qed
  from this [OF reach] have "instant_now h w0 \<le> instant_now h w + total_deadline p" by simp
  moreover from fin have "instant_now h w' \<le> instant_now h w0 + T" by (auto simp: backoff_step_end dest: op)
  ultimately show ?thesis by simp
qed

section \<open>The contract of the RPC helper\<close>

text \<open>
  Every operation of the SDK reaches the control plane through one helper.  What the operations
  rely on: a response they see is a response the stub gave, an error they see is a status the stub
  gave, wrapped once, and whatever the stub and the timers keep is kept.
\<close>

locale rpc_wrapper =
  fixes h :: "'w host"
    and call :: "('w, 'req, 'resp) rpc \<Rightarrow> 'req \<Rightarrow> ('w, 'resp) io"
  assumes genuine:
    "host_closed h P \<Longrightarrow> P w \<Longrightarrow> (\<And>w x w'. P w \<Longrightarrow> rpc req w = Some (x, w') \<Longrightarrow> P w') \<Longrightarrow>
     call rpc req w = Some (r, w') \<Longrightarrow>
     P w' \<and> (\<exists>w0 x. P w0 \<and> rpc req w0 = Some (x, w') \<and> r = map_sum Status id x)"
    and returns: "(\<And>w. rpc req w \<noteq> None) \<Longrightarrow> call rpc req w \<noteq> None"
begin

lemma ok_from_stub: "call rpc req w = Some (Inr v, w') \<Longrightarrow> \<exists>w0. rpc req w0 = Some (Inr v, w')"
  using genuine [of "\<lambda>_. True" w rpc req "Inr v" w']
  by simp

lemma err_from_stub:
  "call rpc req w = Some (Inl e, w') \<Longrightarrow> \<exists>w0 s. e = Status s \<and> rpc req w0 = Some (Inl s, w')"
  using genuine [of "\<lambda>_. True" w rpc req "Inl e" w']
  by auto

lemma ok_keeps:
  assumes "host_closed h P" "P w" "\<And>w x w'. P w \<Longrightarrow> rpc req w = Some (x, w') \<Longrightarrow> P w'"
    and "call rpc req w = Some (Inr v, w')"
  shows "P w' \<and> (\<exists>w0. P w0 \<and> rpc req w0 = Some (Inr v, w'))"
proof -
  have k: "P w' \<and> (\<exists>w0 x. P w0 \<and> rpc req w0 = Some (x, w') \<and> Inr v = map_sum Status id x)"
    by (rule genuine [OF assms(1,2) _ assms(4)]) (rule assms(3))
  then show ?thesis by simp
qed

end

lemma call_stub_Some:
  "call_stub rpc req w = Some (r, w') \<longleftrightarrow> (\<exists>x. rpc req w = Some (x, w') \<and> r = map_sum Status id x)"
  by (auto simp: call_stub_def)

lemma rpc_attempt_end:
  assumes "backoff_step h p start (rpc_attempt op) (d, n, w) = Some (Inr (r, w'))"
  shows "op w = Some (r, w') \<and>
    (\<forall>e. r = Inl e \<longrightarrow> \<not> is_transient e \<or> max_attempts p \<le> n \<or> total_deadline p \<le> elapsed h start w' + d)"
  using assms by (auto simp: backoff_step_end rpc_attempt_def split: option.splits sum.splits)

lemma retry_rpc_genuine:
  assumes hc: "host_closed h P" and "P w"
    and kp: "\<And>w x w'. P w \<Longrightarrow> rpc req w = Some (x, w') \<Longrightarrow> P w'"
    and run: "retry_rpc h rpc req w = Some (r, w')"
  shows "P w' \<and> (\<exists>w0 x. P w0 \<and> rpc req w0 = Some (x, w') \<and> r = map_sum Status id x)"
proof -
  have kp': "\<And>w x w'. P w \<Longrightarrow> rpc_attempt (call_stub rpc req) w = Some (x, w') \<Longrightarrow> P w'"
    by (auto simp: rpc_attempt_def call_stub_Some split: option.splits sum.splits intro: kp)
  from run have "backoff_loop h default_policy (rpc_attempt (call_stub rpc req)) w = Some (r, w')"
    by (simp add: retry_rpc_def retry_unary_def retry_transient_def)
  then obtain w0 n where "P w0" "P w'"
    "backoff_step h default_policy (instant_now h w) (rpc_attempt (call_stub rpc req))
       (backoff_schedule default_policy (n - 1), n, w0) = Some (Inr (r, w'))"
    by (rule backoff_keeps [OF _ \<open>P w\<close> hc kp'])
  then show ?thesis
    using rpc_attempt_end call_stub_Some by metis
qed

lemma retry_rpc_returns: "(\<And>w. rpc req w \<noteq> None) \<Longrightarrow> retry_rpc h rpc req w \<noteq> None"
proof -
  assume *: "\<And>w. rpc req w \<noteq> None"
  have "rpc_attempt (call_stub rpc req) w \<noteq> None" for w
    using * [of w] by (auto simp: rpc_attempt_def call_stub_def split: option.splits sum.splits)
  then show ?thesis
    using backoff_total [of default_policy "rpc_attempt (call_stub rpc req)" h w]
    by (auto simp: retry_rpc_def retry_unary_def retry_transient_def)
qed

interpretation unary: rpc_wrapper h "retry_rpc h" for h :: "'w host"
  by unfold_locales (rule retry_rpc_genuine retry_rpc_returns; assumption)+

section \<open>Answering services\<close>

text \<open>A stub that always answers and takes time; timers that do not turn the clock back.\<close>

definition forward_clock :: "'w host \<Rightarrow> bool" where
  "forward_clock h \<longleftrightarrow>
     (\<forall>w d. instant_now h w \<le> instant_now h (sleep_for h d w)) \<and>
     (\<forall>w k. instant_now h w \<le> instant_now h (snd (counter_fetch_add h k w)))"

definition live_rpc :: "'w host \<Rightarrow> ('w, 'req, 'resp) rpc \<Rightarrow> bool" where
  "live_rpc h rpc \<longleftrightarrow>
     (\<forall>req w. \<exists>x w'. rpc req w = Some (x, w') \<and> instant_now h w < instant_now h w')"

lemma forward_clock_closed: "forward_clock h \<Longrightarrow> host_closed h (\<lambda>v. t \<le> instant_now h v)"
  by (auto simp: forward_clock_def host_closed_def intro: order_trans)

lemma live_retry_rpc:
  assumes "forward_clock h" "live_rpc h rpc"
  obtains r w' where "retry_rpc h rpc req w = Some (r, w')" "instant_now h w < instant_now h w'"
proof -
  have tick: "instant_now h w1 < instant_now h w2" if "rpc req w1 = Some (x, w2)" for w1 x w2
    using assms(2) that unfolding live_rpc_def by (metis option.inject prod.inject)
  have "\<And>w. rpc req w \<noteq> None" using assms(2) unfolding live_rpc_def by (metis option.distinct(1))
  then obtain r w' where run: "retry_rpc h rpc req w = Some (r, w')"
    using unary.returns [of rpc req h w] by (metis not_Some_eq surj_pair)
  have keep: "instant_now h w \<le> instant_now h w2"
    if "instant_now h w \<le> instant_now h w1" "rpc req w1 = Some (x, w2)" for w1 x w2
    using that(1) tick [OF that(2)] by simp
  have "\<exists>w0 x. instant_now h w \<le> instant_now h w0 \<and> rpc req w0 = Some (x, w')"
  proof -
    have "instant_now h w \<le> instant_now h w' \<and>
        (\<exists>w0 x. instant_now h w \<le> instant_now h w0 \<and> rpc req w0 = Some (x, w') \<and> r = map_sum Status id x)"
      by (rule unary.genuine [OF forward_clock_closed [OF assms(1)] order_refl _ run]) (rule keep)
    then show ?thesis by blast
  qed
  then obtain w0 x where "instant_now h w \<le> instant_now h w0" "rpc req w0 = Some (x, w')" by blast
  with tick [OF this(2)] have "instant_now h w < instant_now h w'" by simp
  with run that show thesis by blast
qed

section \<open>The bounded reading of the loop\<close>

text \<open>The specification: at most \<open>left\<close> further attempts, the \<open>i\<close>-th wait taken from the schedule.\<close>

fun bounded_retry ::
  "'w host \<Rightarrow> retry_policy \<Rightarrow> nat \<Rightarrow> ('w, 'a) attempt \<Rightarrow> nat \<Rightarrow> nat \<Rightarrow> ('w, 'a) io" where
  "bounded_retry h p start op i left w =
     (case op w of
        None \<Rightarrow> None
      | Some (Inl v, w1) \<Rightarrow> Some (Inr v, w1)
      | Some (Inr (e, t), w1) \<Rightarrow>
          (case left of
             0 \<Rightarrow> Some (Inl e, w1)
           | Suc left' \<Rightarrow>
               if \<not> t \<or> total_deadline p \<le> elapsed h start w1 + backoff_schedule p i then Some (Inl e, w1)
               else (case jitter h (backoff_schedule p i) w1 of
                       None \<Rightarrow> None
                     | Some (j, w2) \<Rightarrow> bounded_retry h p start op (Suc i) left' (sleep_for h j w2))))"

declare bounded_retry.simps [simp del]

lemma loop_unfold:
  "loop body s = (case body s of None \<Rightarrow> None | Some (Inl s') \<Rightarrow> loop body s' | Some (Inr r) \<Rightarrow> Some r)"
  by (subst loop.simps) (simp split: option.splits sum.splits)

lemma bounded_retry_loop:
  "max_attempts p \<le> Suc i + left \<Longrightarrow> left = 0 \<or> Suc i + left = max_attempts p \<Longrightarrow>
     loop (backoff_step h p start op) (backoff_schedule p i, Suc i, w) = bounded_retry h p start op i left w"
proof (induction left arbitrary: i w)
  case 0
  then show ?case
    by (subst loop_unfold, subst bounded_retry.simps)
       (auto simp: backoff_step_def Let_def split: option.splits sum.splits)
next
  case (Suc left)
  then have IH: "loop (backoff_step h p start op) (min (mul_f64 (backoff_schedule p i) (delay_factor p)) (max_delay p), Suc (Suc i), w) =
      bounded_retry h p start op (Suc i) left w" for w
    using Suc.IH [of "Suc i" w] by simp
  from Suc.prems have "\<not> max_attempts p \<le> Suc i" by simp
  with IH show ?case
    by (subst loop_unfold, subst bounded_retry.simps)
       (auto simp: backoff_step_def Let_def split: option.splits sum.splits)
qed

lemma backoff_loop_bounded:
  "backoff_loop h p op w = bounded_retry h p (instant_now h w) op 0 (max_attempts p - 1) w"
  using bounded_retry_loop [of p 0 "max_attempts p - 1" h "instant_now h w" op w]
  by (simp add: backoff_loop_def split: nat_diff_split)

section \<open>A concrete world\<close>

text \<open>A clock in nanoseconds and a count of the calls served; timers fire on time.\<close>

definition tick_host :: "(nat \<times> nat) host" where
  "tick_host = \<lparr>instant_now = fst, sleep_for = (\<lambda>d (t, c). (t + d, c)), wall_nanos = (\<lambda>_. 0),
                counter_fetch_add = (\<lambda>_ w. (0, w))\<rparr>"

definition tick_rpc :: "(status + 'resp) \<Rightarrow> (nat \<times> nat, 'req, 'resp) rpc" where
  "tick_rpc x req = (\<lambda>(t, c). Some (x, (t + 1, Suc c)))"

lemma tick_host_simps [simp]:
  "instant_now tick_host = fst" "sleep_for tick_host d (t, c) = (t + d, c)"
  "counter_fetch_add tick_host k w = (0, w)" "wall_nanos tick_host w = 0"
  by (simp_all add: tick_host_def)

lemma tick_forward [simp]: "forward_clock tick_host"
  by (auto simp: forward_clock_def)

lemma tick_live [simp]: "live_rpc tick_host (tick_rpc x)"
  by (auto simp: live_rpc_def tick_rpc_def)

lemma tick_closed [simp]: "host_closed tick_host (\<lambda>w. snd w = k)"
  by (auto simp: host_closed_def)

lemma tick_rpc_ok [simp]: "retry_rpc tick_host (tick_rpc (Inr v)) req (t, c) = Some (Inr v, (t + 1, Suc c))"
  unfolding retry_rpc_def retry_unary_def retry_transient_def backoff_loop_def
  by (subst loop_break) (simp_all add: backoff_step_def rpc_attempt_def call_stub_def tick_rpc_def default_policy_def)

section \<open>Properties\<close>

text \<open>C2. The endless \<open>loop\<close> of the retry layer is a bounded recursion: at most \<open>max_attempts - 1\<close>
  further attempts after the first, each wait drawn from the backoff schedule, an attempt's error
  returned as soon as it is not transient or the next wait would cross the total deadline.\<close>

theorem retry_transient_bounded:
  "retry_transient h p op w =
     bounded_retry h p (instant_now h w) (rpc_attempt op) 0 (max_attempts p - 1) w"
  unfolding retry_transient_def by (rule backoff_loop_bounded)


definition down_status :: status where
  "down_status = \<lparr>st_code = NotFound, st_message = ''no such app''\<rparr>"

lemma down_not_transient [simp]: "\<not> is_transient (Status down_status)"
  by (simp add: down_status_def transient_codes_def transient_phrases_def to_ascii_lowercase_def)

lemma retry_witness_run:
  "retry_transient tick_host default_policy (call_stub (tick_rpc (Inl down_status)) ()) (0, 0) =
     Some (Inl (Status down_status), (1, 1))"
  unfolding retry_transient_def backoff_loop_def
  by (subst loop_break)
     (simp_all add: backoff_step_def rpc_attempt_def call_stub_def tick_rpc_def del: is_transient.simps(2))


text \<open>C3. An RPC made through the helper reaches the stub at least once and at most eight times.\<close>

theorem retry_rpc_attempts:
  assumes "retry_rpc h rpc req w = Some (r, w')"
    and "\<And>w x w'. rpc req w = Some (x, w') \<Longrightarrow> calls w' = Suc (calls w)"
    and "\<And>k. host_closed h (\<lambda>w. calls w = k)"
  shows "calls w + 1 \<le> calls w' \<and> calls w' \<le> calls w + 8"
proof -
  from assms(1) have "backoff_loop h default_policy (rpc_attempt (call_stub rpc req)) w = Some (r, w')"
    by (simp add: retry_rpc_def retry_unary_def retry_transient_def)
  then obtain n where "1 \<le> n" "n \<le> max 1 (max_attempts default_policy)" "calls w' = calls w + n"
  proof (rule backoff_count)
    show "calls w2 = Suc (calls w1)" if "rpc_attempt (call_stub rpc req) w1 = Some (x, w2)" for w1 x w2
      using that assms(2) by (auto simp: rpc_attempt_def call_stub_Some split: option.splits sum.splits)
  qed (use assms(3) in auto)
  then show ?thesis by (simp add: default_policy_def)
qed

theorem retry_rpc_attempts_witness:
  "snd ((0, 0) :: nat \<times> nat) + 1 \<le> snd ((1, 1) :: nat \<times> nat) \<and> snd ((1, 1) :: nat \<times> nat) \<le> snd ((0, 0) :: nat \<times> nat) + 8"
  by (rule retry_rpc_attempts [of tick_host "tick_rpc (Inr ())" "()" "(0, 0)" "Inr ()" "(1, 1)" snd])
     (auto simp: tick_rpc_def [of _ "()"] intro: tick_rpc_ok [of "()" "()" 0 0, simplified])

text \<open>An RPC made through the helper returns whenever the stub does: the loop ends, and the jitter
  never panics under the policy in use.\<close>

lemma retry_rpc_total:
  assumes "\<And>w. rpc req w \<noteq> None"
  shows "\<exists>x. retry_rpc h rpc req w = Some x"
  using unary.returns [of rpc req h w] assms by blast

lemma retry_rpc_total_witness:
  "\<exists>x. retry_rpc tick_host (tick_rpc (Inl \<lparr>st_code = Unavailable, st_message = []\<rparr> :: status + unit)) () (0, 0) = Some x"
  by (rule retry_rpc_total) (auto simp: tick_rpc_def)

text \<open>When one call takes at most \<open>T\<close> and timers fire on time, the helper is done within the total
  deadline of 120 seconds plus one call.\<close>

lemma retry_rpc_time:
  assumes "retry_rpc h rpc req w = Some (r, w')"
    and "\<And>w x w'. rpc req w = Some (x, w') \<Longrightarrow> instant_now h w' \<le> instant_now h w + T"
    and "\<And>w d. instant_now h (sleep_for h d w) \<le> instant_now h w + d"
    and "\<And>w k. instant_now h (snd (counter_fetch_add h k w)) = instant_now h w"
  shows "instant_now h w' \<le> instant_now h w + secs 120 + T"
proof -
  from assms(1) have "backoff_loop h default_policy (rpc_attempt (call_stub rpc req)) w = Some (r, w')"
    by (simp add: retry_rpc_def retry_unary_def retry_transient_def)
  then have "instant_now h w' \<le> instant_now h w + total_deadline default_policy + T"
  proof (rule backoff_time)
    show "instant_now h w2 \<le> instant_now h w1 + T"
      if "rpc_attempt (call_stub rpc req) w1 = Some (x, w2)" for w1 x w2
      using that assms(2) by (auto simp: rpc_attempt_def call_stub_Some split: option.splits sum.splits)
  qed (use assms(3,4) in auto)
  then show ?thesis by (simp add: default_policy_def)
qed

text \<open>A jittered wait is never longer than the delay it replaces; the arithmetic fails only for a
  delay of at least \<open>2 ^ 64 - 1\<close> nanoseconds.\<close>

lemma jitter_bounded:
  "case jitter h delay w of None \<Rightarrow> 2 ^ 64 - 1 \<le> delay | Some (j, w') \<Rightarrow> j \<le> delay"
  using jitter_range [of h delay w] jitter_NoneD [of h delay w] by (auto split: option.split)

text \<open>Both upload loops report every failure as a build error, which no outer retry repeats.\<close>

lemma put_errors_terminal:
  assumes "put_blob_bytes h net url data w = Some (Inl e, w') \<or> put_block_bytes h net url data w = Some (Inl e, w')"
  shows "(\<exists>m. e = Build m) \<and> \<not> is_transient e"
proof -
  have blob: "\<exists>m. e = Build m" if "blob_put_attempt net url data w0 = Some (Inr (e, t), w1)" for w0 t w1
    using that by (auto simp: blob_put_attempt_def Let_def split: option.splits http_outcome.splits if_splits)
  have block: "\<exists>m. e = Build m" if "block_put_attempt net url data w0 = Some (Inr (e, t), w1)" for w0 t w1
    using that by (auto simp: block_put_attempt_def Let_def split: option.splits http_outcome.splits if_splits sum.splits)
  from assms have "\<exists>m. e = Build m"
    unfolding put_blob_bytes_def put_block_bytes_def
    by (auto elim!: backoff_ends simp: backoff_step_end dest: blob block)
  then show ?thesis by auto
qed

definition refusing_http :: "(nat \<times> nat) http" where
  "refusing_http = \<lparr>http_put = (\<lambda>url data w. Some (Response 403 [], w)),
     read_body = (\<lambda>b w. Some (Inr b, w)), show_code = dec\<rparr>"

lemma refused_run:
  "put_blob_bytes tick_host refusing_http url data (0, 0) =
     Some (Inl (Build (''blob upload PUT returned non-success status '' @ dec 403)), (0, 0))"
  unfolding put_blob_bytes_def backoff_loop_def
  by (subst loop_break)
     (simp_all add: backoff_step_def blob_put_attempt_def refusing_http_def is_success_def is_server_error_def)

lemma put_errors_terminal_witness:
  "(\<exists>m. Build (''blob upload PUT returned non-success status '' @ dec 403) = Build m) \<and>
   \<not> is_transient (Build (''blob upload PUT returned non-success status '' @ dec 403))"
  by (rule put_errors_terminal [OF disjI1 [OF refused_run [of "''u''" "[]"]]])

end
