(* ===== verification/ClientConfig.thy ===== *)
theory ClientConfig
  imports SdkError
begin

text \<open>
  Credential and endpoint resolution (\<open>crates/modal-rust-sdk/src/config.rs\<close>) and the request headers
  (\<open>crates/modal-rust-sdk/src/auth.rs\<close>).  The process environment is a function from names to values,
  the config file is what reading its path gives, and the TOML library is a record of functions.
\<close>

section \<open>Configuration\<close>

definition DEFAULT_SERVER_URL :: string where "DEFAULT_SERVER_URL = ''https://api.modal.com''"
definition DEFAULT_ENVIRONMENT :: string where "DEFAULT_ENVIRONMENT = ''main''"

record modal_config =
  profile :: string
  server_url :: string
  token_id :: string
  token_secret :: string
  environment :: "string option"
  image_builder_version :: "string option"
  is_container :: bool

record modal_profile =
  p_token_id :: "string option"
  p_token_secret :: "string option"
  p_server_url :: "string option"
  p_environment :: "string option"
  p_image_builder_version :: "string option"
  p_active :: "bool option"

definition default_profile :: modal_profile where
  "default_profile = \<lparr>p_token_id = None, p_token_secret = None, p_server_url = None,
     p_environment = None, p_image_builder_version = None, p_active = None\<rparr>"

definition validate :: "modal_config \<Rightarrow> error + unit" where
  "validate c =
     (if trim (token_id c) = [] then Inl (Config ''Missing token_id (Modal credentials)'')
      else if trim (token_secret c) = [] then Inl (Config ''Missing token_secret (Modal credentials)'')
      else Inr ())"

definition from_credentials :: "string \<Rightarrow> string \<Rightarrow> error + modal_config" where
  "from_credentials tid tsecret =
     (let cfg = \<lparr>profile = ''runtime'', server_url = DEFAULT_SERVER_URL, token_id = trim tid,
                 token_secret = trim tsecret, environment = None, image_builder_version = None,
                 is_container = False\<rparr>
      in and_then (validate cfg) (\<lambda>_. Inr cfg))"

definition environment_or_default :: "modal_config \<Rightarrow> string" where
  "environment_or_default c = (case environment c of Some e \<Rightarrow> e | None \<Rightarrow> DEFAULT_ENVIRONMENT)"

definition env_or_default :: "modal_config \<Rightarrow> string option \<Rightarrow> string" where
  "env_or_default c x = (case x of Some e \<Rightarrow> e | None \<Rightarrow> environment_or_default c)"

definition trimmed :: "string option \<Rightarrow> string option" where
  "trimmed v = Option.bind v (\<lambda>v. let t = trim v in if t = [] then None else Some t)"

definition trimmed_or :: "string option \<Rightarrow> string \<Rightarrow> string" where
  "trimmed_or v d = (case trimmed v of Some t \<Rightarrow> t | None \<Rightarrow> d)"

type_synonym env = "string \<Rightarrow> string option"

definition env_string :: "env \<Rightarrow> string \<Rightarrow> string option" where
  "env_string env key = (case env key of Some v \<Rightarrow> trimmed (Some v) | None \<Rightarrow> None)"

text \<open>\<open>Path::join\<close> of a relative name.\<close>

definition path_join :: "string \<Rightarrow> string \<Rightarrow> string" where
  "path_join base rel = (if base = [] \<or> ends_with CHR ''/'' base then base @ rel else base @ ''/'' @ rel)"

definition resolve_config_path :: "env \<Rightarrow> string" where
  "resolve_config_path env =
     (case env_string env ''MODAL_CONFIG_PATH'' of
        Some path \<Rightarrow> path
      | None \<Rightarrow> path_join (case env ''HOME'' of Some hm \<Rightarrow> hm | None \<Rightarrow> []) ''.modal.toml'')"

record 'v toml_lib =
  toml_from_str :: "string \<Rightarrow> string + 'v"
  toml_as_table :: "'v \<Rightarrow> (string \<times> 'v) list option"
  toml_to_profile :: "'v \<Rightarrow> string + modal_profile"

definition parse_profiles :: "'v toml_lib \<Rightarrow> string \<Rightarrow> error + (string \<times> modal_profile) list" where
  "parse_profiles T content =
     (case toml_from_str T content of
        Inl e \<Rightarrow> Inl (Config (''TOML parse error: '' @ e))
      | Inr v \<Rightarrow>
          and_then (ok_or (toml_as_table T v) (Config ''Modal config must be a top-level TOML table''))
            (\<lambda>table. try_fold
               (\<lambda>(name, pv) profiles.
                  case toml_to_profile T pv of
                    Inl err \<Rightarrow> Inl (Config (''failed to parse profile '' @ [CHR 0x27] @ name @ [CHR 0x27]
                                      @ '': '' @ err))
                  | Inr p \<Rightarrow> Inr (profiles @ [(name, p)])) table []))"

definition select_profile_name ::
  "(string \<times> modal_profile) list \<Rightarrow> string option \<Rightarrow> error + string" where
  "select_profile_name profiles requested =
     (case requested of
        Some r \<Rightarrow>
          (if list_ex (\<lambda>(n, _). n = r) profiles then Inr r
           else Inl (Config (''MODAL_PROFILE '' @ [CHR 0x27] @ r @ [CHR 0x27] @ '' not found in config'')))
      | None \<Rightarrow>
          (case find (\<lambda>(_, p). p_active p = Some True) profiles of
             Some (n, _) \<Rightarrow> Inr n
           | None \<Rightarrow> Inr (case profiles of (n, _) # _ \<Rightarrow> n | [] \<Rightarrow> ''default'')))"

definition apply_env_overrides :: "env \<Rightarrow> modal_config \<Rightarrow> modal_config" where
  "apply_env_overrides env c =
     (let c = (case env_string env ''MODAL_SERVER_URL'' of Some v \<Rightarrow> c\<lparr>server_url := v\<rparr> | None \<Rightarrow> c);
          c = (case env_string env ''MODAL_TOKEN_ID'' of Some v \<Rightarrow> c\<lparr>token_id := v\<rparr> | None \<Rightarrow> c);
          c = (case env_string env ''MODAL_TOKEN_SECRET'' of Some v \<Rightarrow> c\<lparr>token_secret := v\<rparr> | None \<Rightarrow> c);
          c = (case env_string env ''MODAL_ENVIRONMENT'' of Some v \<Rightarrow> c\<lparr>environment := Some v\<rparr> | None \<Rightarrow> c)
      in (case env_string env ''MODAL_IMAGE_BUILDER_VERSION'' of
            Some v \<Rightarrow> c\<lparr>image_builder_version := Some v\<rparr> | None \<Rightarrow> c))"

text \<open>\<open>file\<close> is \<open>read_to_string\<close>: the text of the I/O error or the content.\<close>

definition config_from_file ::
  "env \<Rightarrow> 'v toml_lib \<Rightarrow> (string \<Rightarrow> string + string) \<Rightarrow> error + string \<times> modal_profile" where
  "config_from_file env T file =
     (let path = resolve_config_path env in
      case file path of
        Inr content \<Rightarrow>
          and_then (parse_profiles T content) (\<lambda>profiles.
            if profiles = [] then Inl (Config (''no profiles found in '' @ path))
            else and_then (select_profile_name profiles (env_string env ''MODAL_PROFILE'')) (\<lambda>selected.
              Inr (selected, (case find (\<lambda>(n, _). n = selected) profiles of
                                Some (_, p) \<Rightarrow> p | None \<Rightarrow> default_profile))))
      | Inl file_err \<Rightarrow>
          (if env_string env ''MODAL_TOKEN_ID'' \<noteq> None \<and> env_string env ''MODAL_TOKEN_SECRET'' \<noteq> None
           then Inr (''env'', default_profile)
           else Inl (Config (''failed to read Modal config at '' @ path @ '' ('' @ file_err
                  @ ''); set MODAL_TOKEN_ID + MODAL_TOKEN_SECRET to connect without a config file''))))"

definition read_modal_config ::
  "env \<Rightarrow> 'v toml_lib \<Rightarrow> (string \<Rightarrow> string + string) \<Rightarrow> error + modal_config" where
  "read_modal_config env T file =
     (if env_string env ''MODAL_IS_REMOTE'' = Some ''1''
      then and_then (ok_or (env_string env ''MODAL_SERVER_URL'')
             (Config (''MODAL_IS_REMOTE=1 but MODAL_SERVER_URL is unset '' @ emdash
                      @ '' cannot reach the control plane from inside this container'')))
             (\<lambda>url. Inr \<lparr>profile = ''container'', server_url = url, token_id = [], token_secret = [],
                environment = env_string env ''MODAL_ENVIRONMENT'',
                image_builder_version = env_string env ''MODAL_IMAGE_BUILDER_VERSION'',
                is_container = True\<rparr>)
      else and_then (config_from_file env T file) (\<lambda>(profile_name, p).
             let resolved = apply_env_overrides env
                   \<lparr>profile = profile_name,
                    server_url = trimmed_or (p_server_url p) DEFAULT_SERVER_URL,
                    token_id = (case trimmed (p_token_id p) of Some t \<Rightarrow> t | None \<Rightarrow> []),
                    token_secret = (case trimmed (p_token_secret p) of Some t \<Rightarrow> t | None \<Rightarrow> []),
                    environment = trimmed (p_environment p),
                    image_builder_version = trimmed (p_image_builder_version p),
                    is_container = False\<rparr>
             in and_then (validate resolved) (\<lambda>_. Inr resolved)))"

section \<open>Request headers\<close>

definition CLIENT_VERSION :: string where "CLIENT_VERSION = ''1.3.2''"
definition CLIENT_TYPE_CLIENT :: string where "CLIENT_TYPE_CLIENT = ''1''"
definition CLIENT_TYPE_CONTAINER :: string where "CLIENT_TYPE_CONTAINER = ''3''"

definition upper_hex :: "nat \<Rightarrow> char" where
  "upper_hex n = (if n < 10 then char_of (48 + n) else char_of (55 + n))"

definition header_safe :: "char \<Rightarrow> bool" where
  "header_safe c \<longleftrightarrow>
     (let n = (of_char c :: nat) in
      (48 \<le> n \<and> n \<le> 57) \<or> (65 \<le> n \<and> n \<le> 90) \<or> (97 \<le> n \<and> n \<le> 122)) \<or>
     c \<in> set ''-_.~''"

definition percent_escape_ascii :: "string \<Rightarrow> string" where
  "percent_escape_ascii input =
     concat (map (\<lambda>b. if header_safe b then [b]
                      else [CHR ''%'', upper_hex (of_char b div 16), upper_hex (of_char b mod 16)]) input)"

text \<open>\<open>parse_md\<close> is \<open>tonic\<close>'s parse of a header value: the error's text or the value; \<open>os\<close> and
  \<open>arch\<close> are the build target's constants, \<open>unix_secs\<close> the shown time.\<close>

record auth_interceptor =
  tokens :: "(string \<times> string) option"
  client_version :: string
  client_type :: string
  platform :: string

type_synonym md_parser = "string \<Rightarrow> string + string"

definition platform_string :: "string \<Rightarrow> string \<Rightarrow> string" where
  "platform_string os arch = percent_escape_ascii (os @ ''-'' @ arch)"

definition parse_header :: "md_parser \<Rightarrow> string \<Rightarrow> error + string" where
  "parse_header parse_md s = (case parse_md s of Inl e \<Rightarrow> Inl (invalid_metadata e) | Inr v \<Rightarrow> Inr v)"

definition parse_platform :: "md_parser \<Rightarrow> string \<Rightarrow> string \<Rightarrow> string" where
  "parse_platform parse_md os arch =
     (case parse_md (platform_string os arch) of Inr v \<Rightarrow> v | Inl _ \<Rightarrow> ''unknown'')"

definition new_interceptor ::
  "md_parser \<Rightarrow> string \<Rightarrow> string \<Rightarrow> string \<Rightarrow> string \<Rightarrow> error + auth_interceptor" where
  "new_interceptor parse_md os arch tid tsecret =
     and_then (parse_header parse_md tid) (\<lambda>t. and_then (parse_header parse_md tsecret) (\<lambda>sct.
       and_then (parse_header parse_md CLIENT_VERSION) (\<lambda>v.
         and_then (parse_header parse_md CLIENT_TYPE_CLIENT) (\<lambda>ty.
           Inr \<lparr>tokens = Some (t, sct), client_version = v, client_type = ty,
                platform = parse_platform parse_md os arch\<rparr>))))"

definition container_interceptor :: "md_parser \<Rightarrow> string \<Rightarrow> string \<Rightarrow> error + auth_interceptor" where
  "container_interceptor parse_md os arch =
     and_then (parse_header parse_md CLIENT_VERSION) (\<lambda>v.
       and_then (parse_header parse_md CLIENT_TYPE_CONTAINER) (\<lambda>ty.
         Inr \<lparr>tokens = None, client_version = v, client_type = ty,
              platform = parse_platform parse_md os arch\<rparr>))"

type_synonym metadata = "string \<rightharpoonup> string"

definition interceptor_call ::
  "md_parser \<Rightarrow> string \<Rightarrow> auth_interceptor \<Rightarrow> metadata \<Rightarrow> metadata" where
  "interceptor_call parse_md unix_secs a md =
     (let md = (case tokens a of
                  Some (t, sct) \<Rightarrow> md(''x-modal-token-id'' \<mapsto> t, ''x-modal-token-secret'' \<mapsto> sct)
                | None \<Rightarrow> md);
          md = md(''x-modal-client-type'' \<mapsto> client_type a);
          md = md(''x-modal-client-version'' \<mapsto> client_version a);
          md = md(''x-modal-platform'' \<mapsto> platform a)
      in (case parse_md unix_secs of Inr ts \<Rightarrow> md(''x-modal-timestamp'' \<mapsto> ts) | Inl _ \<Rightarrow> md))"

text \<open>The choice \<open>ModalClient::from_config\<close> makes.\<close>

definition config_interceptor ::
  "md_parser \<Rightarrow> string \<Rightarrow> string \<Rightarrow> modal_config \<Rightarrow> error + auth_interceptor" where
  "config_interceptor parse_md os arch c =
     (if is_container c then container_interceptor parse_md os arch
      else new_interceptor parse_md os arch (token_id c) (token_secret c))"

section \<open>Facts\<close>

lemma trimmed_nonblank: "trimmed v = Some t \<Longrightarrow> t \<noteq> [] \<and> (\<exists>s. v = Some s \<and> t = trim s)"
  by (auto simp: trimmed_def Let_def bind_eq_Some_conv split: if_splits)

lemma env_string_nonblank: "env_string env k = Some t \<Longrightarrow> t \<noteq> []"
  by (auto simp: env_string_def dest: trimmed_nonblank split: option.splits)

lemma trimmed_or_nonblank: "d \<noteq> [] \<Longrightarrow> trimmed_or v d \<noteq> []"
  by (auto simp: trimmed_or_def dest: trimmed_nonblank split: option.splits)

lemma validate_ok_iff: "validate c = Inr u \<longleftrightarrow> trim (token_id c) \<noteq> [] \<and> trim (token_secret c) \<noteq> []"
  by (auto simp: validate_def)

lemma overrides_fields [simp]:
  "token_id (apply_env_overrides env c) =
     (case env_string env ''MODAL_TOKEN_ID'' of Some v \<Rightarrow> v | None \<Rightarrow> token_id c)"
  "token_secret (apply_env_overrides env c) =
     (case env_string env ''MODAL_TOKEN_SECRET'' of Some v \<Rightarrow> v | None \<Rightarrow> token_secret c)"
  "server_url (apply_env_overrides env c) =
     (case env_string env ''MODAL_SERVER_URL'' of Some v \<Rightarrow> v | None \<Rightarrow> server_url c)"
  "environment (apply_env_overrides env c) =
     (case env_string env ''MODAL_ENVIRONMENT'' of Some v \<Rightarrow> Some v | None \<Rightarrow> environment c)"
  "image_builder_version (apply_env_overrides env c) =
     (case env_string env ''MODAL_IMAGE_BUILDER_VERSION'' of
        Some v \<Rightarrow> Some v | None \<Rightarrow> image_builder_version c)"
  "is_container (apply_env_overrides env c) = is_container c"
  "profile (apply_env_overrides env c) = profile c"
  by (simp_all add: apply_env_overrides_def Let_def split: option.splits)

lemma read_modal_config_local:
  assumes "read_modal_config env T file = Inr c" "env_string env ''MODAL_IS_REMOTE'' \<noteq> Some ''1''"
  obtains name p where "config_from_file env T file = Inr (name, p)" "validate c = Inr ()"
    "c = apply_env_overrides env
           \<lparr>profile = name, server_url = trimmed_or (p_server_url p) DEFAULT_SERVER_URL,
            token_id = (case trimmed (p_token_id p) of Some t \<Rightarrow> t | None \<Rightarrow> []),
            token_secret = (case trimmed (p_token_secret p) of Some t \<Rightarrow> t | None \<Rightarrow> []),
            environment = trimmed (p_environment p),
            image_builder_version = trimmed (p_image_builder_version p), is_container = False\<rparr>"
  using assms by (auto simp: read_modal_config_def and_then_Inr_iff Let_def)

lemma read_modal_config_remote:
  assumes "env_string env ''MODAL_IS_REMOTE'' = Some ''1''"
  shows "read_modal_config env T file = Inr c \<longleftrightarrow>
    (\<exists>url. env_string env ''MODAL_SERVER_URL'' = Some url \<and>
       c = \<lparr>profile = ''container'', server_url = url, token_id = [], token_secret = [],
            environment = env_string env ''MODAL_ENVIRONMENT'',
            image_builder_version = env_string env ''MODAL_IMAGE_BUILDER_VERSION'', is_container = True\<rparr>)"
  using assms by (auto simp: read_modal_config_def and_then_Inr_iff)

lemma default_server_url_nonempty [simp]: "DEFAULT_SERVER_URL \<noteq> []"
  by (simp add: DEFAULT_SERVER_URL_def)

lemma hex_safe: "n < 16 \<Longrightarrow> header_safe (upper_hex n)"
  by (auto simp: header_safe_def upper_hex_def Let_def of_char_of)

lemma upper_hex_inj: "m < 16 \<Longrightarrow> n < 16 \<Longrightarrow> upper_hex m = upper_hex n \<longleftrightarrow> m = n"
  by (auto simp: upper_hex_def dest!: arg_cong [where f = "of_char :: char \<Rightarrow> nat"] simp: of_char_of)

lemma char_nibbles:
  "(of_char c :: nat) div 16 = of_char d div 16 \<Longrightarrow> (of_char c :: nat) mod 16 = of_char d mod 16 \<Longrightarrow> c = d"
  by (metis char_of_char div_mult_mod_eq)

lemma percent_not_safe [simp]: "\<not> header_safe CHR ''%''"
  by (simp add: header_safe_def)

lemma nibble_bounds: "(of_char c :: nat) div 16 < 16" "(of_char c :: nat) mod 16 < 16"
proof -
  have "(of_char c :: nat) < 256" by simp
  then show "(of_char c :: nat) div 16 < 16" by (rule less_mult_imp_div_less [of _ 16 16, simplified])
  show "(of_char c :: nat) mod 16 < 16" by simp
qed

lemma percent_escape_Cons:
  "percent_escape_ascii (c # cs) =
     (if header_safe c then [c]
      else [CHR ''%'', upper_hex (of_char c div 16), upper_hex (of_char c mod 16)]) @ percent_escape_ascii cs"
  by (simp add: percent_escape_ascii_def)

lemma percent_escape_Nil [simp]: "percent_escape_ascii [] = []"
  by (simp add: percent_escape_ascii_def)

lemma percent_escape_inj: "percent_escape_ascii s = percent_escape_ascii t \<Longrightarrow> s = t"
proof (induction s arbitrary: t)
  case Nil
  then show ?case by (cases t) (auto simp: percent_escape_Cons split: if_splits)
next
  case (Cons c cs)
  show ?case
  proof (cases t)
    case Nil
    with Cons.prems show ?thesis by (auto simp: percent_escape_Cons split: if_splits)
  next
    case (Cons d ds)
    with Cons.prems have "c = d \<and> percent_escape_ascii cs = percent_escape_ascii ds"
      using nibble_bounds char_nibbles [of c d]
      by (auto simp: percent_escape_Cons upper_hex_inj split: if_splits)
    with Cons Cons.IH show ?thesis by blast
  qed
qed

section \<open>Properties\<close>

text \<open>A configuration that resolves is usable: it names a server; outside a container it carries
  non-blank credentials, inside a container it carries none.\<close>

lemma resolved_config_usable:
  assumes "read_modal_config env T file = Inr c"
  shows "server_url c \<noteq> [] \<and>
    (if is_container c then token_id c = [] \<and> token_secret c = [] \<and> env_string env ''MODAL_IS_REMOTE'' = Some ''1''
     else trim (token_id c) \<noteq> [] \<and> trim (token_secret c) \<noteq> [])"
proof (cases "env_string env ''MODAL_IS_REMOTE'' = Some ''1''")
  case True
  with assms show ?thesis by (auto simp: read_modal_config_remote dest: env_string_nonblank)
next
  case False
  with assms obtain nm p where "config_from_file env T file = Inr (nm, p)" "validate c = Inr ()" and
    c: "c = apply_env_overrides env
           \<lparr>profile = nm, server_url = trimmed_or (p_server_url p) DEFAULT_SERVER_URL,
            token_id = (case trimmed (p_token_id p) of Some t \<Rightarrow> t | None \<Rightarrow> []),
            token_secret = (case trimmed (p_token_secret p) of Some t \<Rightarrow> t | None \<Rightarrow> []),
            environment = trimmed (p_environment p),
            image_builder_version = trimmed (p_image_builder_version p), is_container = False\<rparr>"
    by (rule read_modal_config_local)
  then have "trim (token_id c) \<noteq> []" "trim (token_secret c) \<noteq> []" by (simp_all add: validate_ok_iff)
  moreover have "server_url c \<noteq> []" "\<not> is_container c"
    by (auto simp: c trimmed_or_nonblank dest: env_string_nonblank split: option.split)
  ultimately show ?thesis by simp
qed

definition no_toml :: "unit toml_lib" where
  "no_toml = \<lparr>toml_from_str = (\<lambda>_. Inl ''unsupported''), toml_as_table = (\<lambda>_. None),
              toml_to_profile = (\<lambda>_. Inl ''unsupported'')\<rparr>"

definition token_env :: env where
  "token_env = [''MODAL_TOKEN_ID'' \<mapsto> ''ak-1'', ''MODAL_TOKEN_SECRET'' \<mapsto> ''as-1'', ''HOME'' \<mapsto> ''/root'']"

definition token_config :: modal_config where
  "token_config = \<lparr>profile = ''env'', server_url = DEFAULT_SERVER_URL, token_id = ''ak-1'',
     token_secret = ''as-1'', environment = None, image_builder_version = None, is_container = False\<rparr>"

lemma token_env_strings [simp]:
  "env_string token_env ''MODAL_TOKEN_ID'' = Some ''ak-1''"
  "env_string token_env ''MODAL_TOKEN_SECRET'' = Some ''as-1''"
  "env_string token_env ''MODAL_IS_REMOTE'' = None" "env_string token_env ''MODAL_SERVER_URL'' = None"
  "env_string token_env ''MODAL_ENVIRONMENT'' = None"
  "env_string token_env ''MODAL_IMAGE_BUILDER_VERSION'' = None"
  by (simp_all add: env_string_def token_env_def trimmed_def Let_def trim_def trim_start_matches_def
      trim_end_matches_def is_ws_def)

lemma token_config_run: "read_modal_config token_env no_toml (\<lambda>_. Inl ''not found'') = Inr token_config"
  by (simp add: read_modal_config_def config_from_file_def Let_def token_config_def trimmed_or_def
      trimmed_def default_profile_def apply_env_overrides_def validate_def trim_def
      trim_start_matches_def trim_end_matches_def is_ws_def)

lemma resolved_config_usable_witness:
  "server_url token_config \<noteq> [] \<and>
    (if is_container token_config
     then token_id token_config = [] \<and> token_secret token_config = [] \<and> env_string token_env ''MODAL_IS_REMOTE'' = Some ''1''
     else trim (token_id token_config) \<noteq> [] \<and> trim (token_secret token_config) \<noteq> [])"
  by (rule resolved_config_usable [OF token_config_run])

text \<open>A variable of the environment always wins over the config file's profile; a blank one counts as
  unset.\<close>

lemma environment_overrides_profile:
  assumes "read_modal_config env T file = Inr c" and "env_string env ''MODAL_IS_REMOTE'' \<noteq> Some ''1''"
  shows "\<exists>p. token_id c = (case env_string env ''MODAL_TOKEN_ID'' of Some v \<Rightarrow> v
                       | None \<Rightarrow> (case trimmed (p_token_id p) of Some t \<Rightarrow> t | None \<Rightarrow> [])) \<and>
    token_secret c = (case env_string env ''MODAL_TOKEN_SECRET'' of Some v \<Rightarrow> v
                       | None \<Rightarrow> (case trimmed (p_token_secret p) of Some t \<Rightarrow> t | None \<Rightarrow> [])) \<and>
    server_url c = (case env_string env ''MODAL_SERVER_URL'' of Some v \<Rightarrow> v
                       | None \<Rightarrow> trimmed_or (p_server_url p) DEFAULT_SERVER_URL) \<and>
    environment c = (case env_string env ''MODAL_ENVIRONMENT'' of Some v \<Rightarrow> Some v | None \<Rightarrow> trimmed (p_environment p)) \<and>
    config_from_file env T file = Inr (profile c, p)"
proof -
  from assms obtain nm p where "config_from_file env T file = Inr (nm, p)" "validate c = Inr ()" and
    c: "c = apply_env_overrides env
           \<lparr>profile = nm, server_url = trimmed_or (p_server_url p) DEFAULT_SERVER_URL,
            token_id = (case trimmed (p_token_id p) of Some t \<Rightarrow> t | None \<Rightarrow> []),
            token_secret = (case trimmed (p_token_secret p) of Some t \<Rightarrow> t | None \<Rightarrow> []),
            environment = trimmed (p_environment p),
            image_builder_version = trimmed (p_image_builder_version p), is_container = False\<rparr>"
    by (rule read_modal_config_local)
  then show ?thesis by (intro exI [of _ p]) (simp cong: option.case_cong)
qed

lemma environment_overrides_profile_witness:
  "\<exists>p. token_id token_config = (case env_string token_env ''MODAL_TOKEN_ID'' of Some v \<Rightarrow> v
                       | None \<Rightarrow> (case trimmed (p_token_id p) of Some t \<Rightarrow> t | None \<Rightarrow> [])) \<and>
    token_secret token_config = (case env_string token_env ''MODAL_TOKEN_SECRET'' of Some v \<Rightarrow> v
                       | None \<Rightarrow> (case trimmed (p_token_secret p) of Some t \<Rightarrow> t | None \<Rightarrow> [])) \<and>
    server_url token_config = (case env_string token_env ''MODAL_SERVER_URL'' of Some v \<Rightarrow> v
                       | None \<Rightarrow> trimmed_or (p_server_url p) DEFAULT_SERVER_URL) \<and>
    environment token_config = (case env_string token_env ''MODAL_ENVIRONMENT'' of Some v \<Rightarrow> Some v | None \<Rightarrow> trimmed (p_environment p)) \<and>
    config_from_file token_env no_toml (\<lambda>_. Inl ''not found'') = Inr (profile token_config, p)"
  by (rule environment_overrides_profile [OF token_config_run]) simp

text \<open>The credentials of a resolved configuration reach the wire exactly: outside a container every
  request carries both token headers with the header parser's value for them and the client type 1;
  inside one the interceptor adds no token header and the type is 3.\<close>

lemma headers_match_config:
  "case config_interceptor parse_md os arch c of
     Inl e \<Rightarrow> \<exists>m. e = Invalid m
   | Inr a \<Rightarrow>
       (let md = interceptor_call parse_md unix_secs a Map.empty in
        (if is_container c then md ''x-modal-token-id'' = None \<and> md ''x-modal-token-secret'' = None
         else parse_md (token_id c) = Inr (the (md ''x-modal-token-id'')) \<and>
              parse_md (token_secret c) = Inr (the (md ''x-modal-token-secret'')) \<and>
              md ''x-modal-token-id'' \<noteq> None \<and> md ''x-modal-token-secret'' \<noteq> None) \<and>
        map_option Inr (md ''x-modal-client-type'') =
          Some (parse_md (if is_container c then CLIENT_TYPE_CONTAINER else CLIENT_TYPE_CLIENT)) \<and>
        map_option Inr (md ''x-modal-client-version'') = Some (parse_md CLIENT_VERSION))"
  by (auto simp: config_interceptor_def container_interceptor_def new_interceptor_def parse_header_def
      invalid_metadata_def interceptor_call_def Let_def and_then_def split: sum.splits)

text \<open>The percent escape of a header value is made of header-safe characters and percent signs only,
  and different values have different escapes.\<close>

lemma percent_escape_safe_injective:
  "list_all (\<lambda>c. header_safe c \<or> c = CHR ''%'') (percent_escape_ascii s) \<and>
   (percent_escape_ascii s = percent_escape_ascii t \<longleftrightarrow> s = t)"
proof
  show "list_all (\<lambda>c. header_safe c \<or> c = CHR ''%'') (percent_escape_ascii s)"
    using hex_safe nibble_bounds by (induction s) (auto simp: percent_escape_Cons)
qed (auto dest: percent_escape_inj)

end
