(* ===== verification/SpecParse.thy ===== *)
theory SpecParse
  imports SdkError
begin

text \<open>
  The spec-string parsers (\<open>crates/modal-rust-sdk/src/ops/function/parse.rs\<close>): the canonical strings
  the decorators emit for retries, GPUs and schedules, read into the protocol's messages.  The
  \<open>f32\<close> operations of the standard library are a record of functions, \<open>'f f32_ops\<close>.
\<close>

record 'f f32_ops =
  f32_parse :: "string \<Rightarrow> 'f option"
  f32_zero :: 'f
  f32_one :: 'f
  f32_is_zero :: "'f \<Rightarrow> bool"
  f32_show :: "'f \<Rightarrow> string"
  f32_of_u32 :: "u32 \<Rightarrow> 'f"

section \<open>Retries\<close>

record 'f function_retry_policy =
  backoff_coefficient :: 'f
  initial_delay_ms :: u32
  max_delay_ms :: u32
  retries :: u32

definition RETRY_DEFAULT_INITIAL_DELAY_MS :: u32 where "RETRY_DEFAULT_INITIAL_DELAY_MS = 1000"
definition RETRY_DEFAULT_MAX_DELAY_MS :: u32 where "RETRY_DEFAULT_MAX_DELAY_MS = 60000"

definition retry_default_backoff :: "'f f32_ops \<Rightarrow> 'f" where
  "retry_default_backoff F = f32_one F"

text \<open>The mutable locals of the loop.\<close>

record 'f retries_acc =
  acc_retries :: "u32 option"
  acc_backoff :: 'f
  acc_initial :: u32
  acc_max :: u32

definition parse_retries_u32 :: "string \<Rightarrow> string \<Rightarrow> error + u32" where
  "parse_retries_u32 key v =
     ok_or (parse_u32 (trim v))
       (Invalid (''Invalid integer '' @ debug_str v @ '' for retries '' @ debug_str key))"

definition retries_component ::
  "'f f32_ops \<Rightarrow> string \<Rightarrow> string \<Rightarrow> 'f retries_acc \<Rightarrow> error + 'f retries_acc" where
  "retries_component F spec part acc =
     and_then (ok_or (split_once CHR ''='' part)
            (Invalid (''Invalid retries component '' @ debug_str part @ '' in spec '' @ debug_str spec
                      @ '': expected key=value'')))
       (\<lambda>(key, value).
          if trim key = ''max''
          then and_then (parse_retries_u32 key value) (\<lambda>n. Inr (acc\<lparr>acc_retries := Some n\<rparr>))
          else if trim key = ''backoff''
          then and_then (ok_or (f32_parse F (trim value))
                 (Invalid (''Invalid float '' @ debug_str value @ '' for retries '' @ quote @ ''backoff'' @ quote)))
                 (\<lambda>x. Inr (acc\<lparr>acc_backoff := x\<rparr>))
          else if trim key = ''initial_ms''
          then and_then (parse_retries_u32 key value) (\<lambda>n. Inr (acc\<lparr>acc_initial := n\<rparr>))
          else if trim key = ''max_ms''
          then and_then (parse_retries_u32 key value) (\<lambda>n. Inr (acc\<lparr>acc_max := n\<rparr>))
          else Inl (Invalid (''Unknown retries component '' @ debug_str (trim key) @ '' in spec ''
                             @ debug_str spec)))"

definition parse_retries_spec :: "'f f32_ops \<Rightarrow> string \<Rightarrow> error + 'f function_retry_policy" where
  "parse_retries_spec F spec =
     and_then (ok_or (strip_prefix ''retries:'' spec)
            (Invalid (''Invalid retries spec '' @ debug_str spec @ '': expected a '' @ quote
                      @ ''retries:..'' @ quote @ '' prefix'')))
       (\<lambda>rest. and_then (try_fold (retries_component F spec)
                 (filter (\<lambda>p. p \<noteq> []) (split_on CHR '','' rest))
                 \<lparr>acc_retries = None, acc_backoff = retry_default_backoff F,
                  acc_initial = RETRY_DEFAULT_INITIAL_DELAY_MS, acc_max = RETRY_DEFAULT_MAX_DELAY_MS\<rparr>)
       (\<lambda>acc. and_then (ok_or (acc_retries acc)
                (Invalid (''Invalid retries spec '' @ debug_str spec @ '': missing required '' @ quote
                          @ ''max'' @ quote @ '' (the retry count)'')))
       (\<lambda>n. Inr \<lparr>backoff_coefficient = acc_backoff acc, initial_delay_ms = acc_initial acc,
                 max_delay_ms = acc_max acc, retries = n\<rparr>)))"

section \<open>GPUs\<close>

record gpu_config =
  gpu_type :: string
  count :: u32
  gpu_deprecated_type :: int

definition default_gpu_config :: gpu_config where
  "default_gpu_config = \<lparr>gpu_type = [], count = 0, gpu_deprecated_type = 0\<rparr>"

definition parse_gpu_config :: "string \<Rightarrow> error + gpu_config" where
  "parse_gpu_config spec =
     and_then
       (case split_once CHR '':'' spec of
          Some (lhs, rhs) \<Rightarrow>
            and_then (ok_or (parse_u32 (trim rhs))
                   (Invalid (''Invalid GPU count: '' @ rhs @ ''. Value must be an integer.'')))
              (\<lambda>n. Inr (lhs, n))
        | None \<Rightarrow> Inr (spec, 1))
       (\<lambda>(type_part, n). Inr \<lparr>gpu_type = to_uppercase type_part, count = n, gpu_deprecated_type = 0\<rparr>)"

section \<open>Schedules\<close>

record 'f period =
  years :: int
  months :: int
  weeks :: int
  days :: int
  hours :: int
  minutes :: int
  seconds :: 'f

definition default_period :: "'f f32_ops \<Rightarrow> 'f period" where
  "default_period F = \<lparr>years = 0, months = 0, weeks = 0, days = 0, hours = 0, minutes = 0,
                       seconds = f32_zero F\<rparr>"

datatype 'f schedule_oneof = Cron (cron_string: string) (timezone: string) | Period "'f period"

type_synonym 'f schedule = "'f schedule_oneof option" \<comment> \<open>\<open>Schedule.schedule_oneof\<close>\<close>

definition parse_period_i32 :: "string \<Rightarrow> string \<Rightarrow> error + int" where
  "parse_period_i32 key v =
     ok_or (parse_i32 (trim v))
       (Invalid (''Invalid integer '' @ debug_str v @ '' for period '' @ debug_str key))"

definition period_component :: "'f f32_ops \<Rightarrow> string \<Rightarrow> string \<Rightarrow> 'f period \<Rightarrow> error + 'f period" where
  "period_component F spec part p =
     and_then (ok_or (split_once CHR ''='' part)
            (Invalid (''Invalid period component '' @ debug_str part @ '' in schedule spec ''
                      @ debug_str spec @ '': expected key=value'')))
       (\<lambda>(key, value).
          let k = trim key in
          if k = ''years'' then and_then (parse_period_i32 key value) (\<lambda>n. Inr (p\<lparr>years := n\<rparr>))
          else if k = ''months'' then and_then (parse_period_i32 key value) (\<lambda>n. Inr (p\<lparr>months := n\<rparr>))
          else if k = ''weeks'' then and_then (parse_period_i32 key value) (\<lambda>n. Inr (p\<lparr>weeks := n\<rparr>))
          else if k = ''days'' then and_then (parse_period_i32 key value) (\<lambda>n. Inr (p\<lparr>days := n\<rparr>))
          else if k = ''hours'' then and_then (parse_period_i32 key value) (\<lambda>n. Inr (p\<lparr>hours := n\<rparr>))
          else if k = ''minutes'' then and_then (parse_period_i32 key value) (\<lambda>n. Inr (p\<lparr>minutes := n\<rparr>))
          else if k = ''seconds''
          then and_then (ok_or (f32_parse F (trim value))
                 (Invalid (''Invalid float '' @ debug_str value @ '' for period '' @ quote @ ''seconds'' @ quote)))
                 (\<lambda>x. Inr (p\<lparr>seconds := x\<rparr>))
          else Inl (Invalid (''Unknown period component '' @ debug_str k @ '' in schedule spec ''
                             @ debug_str spec)))"

definition parse_schedule :: "'f f32_ops \<Rightarrow> string \<Rightarrow> error + 'f schedule" where
  "parse_schedule F spec =
     and_then
       (case strip_prefix ''cron:'' spec of
          Some rest \<Rightarrow>
            and_then (ok_or (split_once CHR '':'' rest)
                   (Invalid (''Invalid cron schedule spec '' @ debug_str spec @ '': expected '' @ quote
                             @ ''cron:<timezone>:<cron_string>'' @ quote)))
              (\<lambda>(tz, c). Inr (Cron c tz))
        | None \<Rightarrow>
            (case strip_prefix ''period:'' spec of
               Some rest \<Rightarrow>
                 and_then (try_fold (period_component F spec)
                        (filter (\<lambda>p. p \<noteq> []) (split_on CHR '','' rest)) (default_period F))
                   (\<lambda>p. Inr (Period p))
             | None \<Rightarrow>
                 Inl (Invalid (''Invalid schedule spec '' @ debug_str spec @ '': expected a '' @ quote
                      @ ''cron:..'' @ quote @ '' or '' @ quote @ ''period:..'' @ quote @ '' prefix''))))
       (\<lambda>oneof. Inr (Some oneof))"

section \<open>The contract of a spec parser\<close>

text \<open>
  The setters that take a spec string rely on one thing: a malformed spec is the caller's mistake,
  so every failure is \<open>Invalid\<close>, an error the retry layer never retries.
\<close>

locale spec_parser =
  fixes parse :: "string \<Rightarrow> error + 'a"
  assumes parse_error: "parse s = Inl e \<Longrightarrow> \<exists>m. e = Invalid m"
begin

lemma error_terminal: "parse s = Inl e \<Longrightarrow> \<not> is_transient e"
  using parse_error by fastforce

lemma optional_error: "transpose_map parse x = Inl e \<Longrightarrow> \<exists>m. e = Invalid m"
  by (cases x) (auto simp: and_then_Inl_iff dest: parse_error)

lemma optional_ok:
  "transpose_map parse x = Inr y \<longleftrightarrow>
     (x = None \<and> y = None) \<or> (\<exists>s a. x = Some s \<and> parse s = Inr a \<and> y = Some a)"
  by (cases x) (auto simp: and_then_Inr_iff)

end

definition invalid_only :: "(error + 'a) \<Rightarrow> bool" where
  "invalid_only r \<longleftrightarrow> (\<forall>e. r = Inl e \<longrightarrow> (\<exists>m. e = Invalid m))"

lemma invalid_only_simps [simp]: "invalid_only (Inr a)" "invalid_only (Inl (Invalid m))"
  by (simp_all add: invalid_only_def)

lemma invalid_only_ok_or [simp]: "invalid_only (ok_or x (Invalid m))"
  by (cases x) simp_all

lemma invalid_only_and_then [intro!]:
  "invalid_only r \<Longrightarrow> (\<And>a. r = Inr a \<Longrightarrow> invalid_only (f a)) \<Longrightarrow> invalid_only (and_then r f)"
  by (cases r) (auto simp: invalid_only_def)

lemma invalid_only_try_fold [intro!]:
  "(\<And>x s. x \<in> set xs \<Longrightarrow> invalid_only (f x s)) \<Longrightarrow> invalid_only (try_fold f xs s)"
  by (induction xs arbitrary: s) auto

lemma retries_component_invalid: "invalid_only (retries_component F spec part acc)"
  by (auto simp: retries_component_def parse_retries_u32_def split: prod.splits)

lemma period_component_invalid: "invalid_only (period_component F spec part acc)"
  by (auto simp: period_component_def parse_period_i32_def Let_def split: prod.splits)

lemma parse_retries_spec_invalid: "invalid_only (parse_retries_spec F s)"
  by (auto simp: parse_retries_spec_def retries_component_invalid)

lemma parse_gpu_config_invalid: "invalid_only (parse_gpu_config s)"
  by (auto simp: parse_gpu_config_def split: option.splits prod.splits)

lemma parse_schedule_invalid: "invalid_only (parse_schedule F s)"
  by (auto simp: parse_schedule_def period_component_invalid split: option.splits prod.splits)

interpretation retries_p: spec_parser "parse_retries_spec F" for F :: "'f f32_ops"
  using parse_retries_spec_invalid by unfold_locales (auto simp: invalid_only_def)

interpretation gpu_p: spec_parser parse_gpu_config
  using parse_gpu_config_invalid by unfold_locales (auto simp: invalid_only_def)

interpretation schedule_p: spec_parser "parse_schedule F" for F :: "'f f32_ops"
  using parse_schedule_invalid by unfold_locales (auto simp: invalid_only_def)

section \<open>Reading canonical component lists\<close>

lemma components_split:
  assumes "\<forall>t\<in>set ts. CHR '','' \<notin> set t \<and> t \<noteq> []"
  shows "filter (\<lambda>p. p \<noteq> []) (split_on CHR '','' (join_with '','' ts)) = ts"
proof (cases "ts = []")
  case False
  with assms have "split_on CHR '','' (join_with '','' ts) = ts" by (intro split_on_join) auto
  with assms show ?thesis by (simp add: filter_id_conv)
qed simp

section \<open>Properties\<close>

text \<open>What a GPU spec means: the type before the first colon, upper-cased, and the count after it (1
  without a colon); only a count that is not a \<open>u32\<close> is refused.\<close>

lemma parse_gpu_config_meaning:
  "case parse_gpu_config s of
     Inr g \<Rightarrow> gpu_deprecated_type g = 0 \<and>
       (CHR '':'' \<notin> set s \<and> gpu_type g = to_uppercase s \<and> count g = 1 \<or>
        (\<exists>ty n. s = ty @ '':'' @ n \<and> CHR '':'' \<notin> set ty \<and> gpu_type g = to_uppercase ty \<and>
                parse_u32 (trim n) = Some (count g)))
   | Inl e \<Rightarrow> (\<exists>ty n. s = ty @ '':'' @ n \<and> CHR '':'' \<notin> set ty \<and> parse_u32 (trim n) = None)"
proof (cases "split_once CHR '':'' s")
  case None
  then have "CHR '':'' \<notin> set s" by (simp add: split_once_None)
  with None show ?thesis by (simp add: parse_gpu_config_def)
next
  case (Some lr)
  obtain l r where lr: "lr = (l, r)" by (cases lr)
  with Some have s: "s = l @ CHR '':'' # r" "CHR '':'' \<notin> set l" by (auto dest: split_once_SomeD)
  show ?thesis
    using s Some lr by (cases "parse_u32 (trim r)") (auto simp: parse_gpu_config_def)
qed

end
