(* ===== verification/FunctionSpec.thy ===== *)
theory FunctionSpec
  imports SpecParse
begin

text \<open>
  The function-spec vocabulary (\<open>crates/modal-rust-sdk/src/ops/function/spec.rs\<close>): the declarative
  spec, its \<open>with_*\<close> setters, and the invariant they keep.  Fallible setters return a sum; the \<open>f32\<close>
  fields are of an abstract type \<open>'f\<close>.
\<close>

section \<open>Configuration structs\<close>

record function_resources =
  memory_mb :: u32
  milli_cpu :: u32
  gpu :: "string option"

definition default_resources :: function_resources where
  "default_resources = \<lparr>memory_mb = 0, milli_cpu = 0, gpu = None\<rparr>"

record resources_proto =
  rp_memory_mb :: u32
  rp_milli_cpu :: u32
  rp_gpu_config :: "gpu_config option"

definition resources_to_proto :: "function_resources \<Rightarrow> resources_proto" where
  "resources_to_proto r =
     \<lparr>rp_memory_mb = memory_mb r, rp_milli_cpu = milli_cpu r,
      rp_gpu_config = map_option (\<lambda>s. case parse_gpu_config s of Inr g \<Rightarrow> g | Inl _ \<Rightarrow> default_gpu_config)
                        (gpu r)\<rparr>"

record function_volume_mount =
  volume_id :: string
  mount_path :: string
  allow_background_commits :: bool

definition new_volume_mount :: "string \<Rightarrow> string \<Rightarrow> function_volume_mount" where
  "new_volume_mount vid path = \<lparr>volume_id = vid, mount_path = path, allow_background_commits = True\<rparr>"

record volume_mount_proto =
  vm_volume_id :: string
  vm_mount_path :: string
  vm_allow_background_commits :: bool
  vm_read_only :: bool
  vm_sub_path :: "string option"

definition volume_mount_to_proto :: "function_volume_mount \<Rightarrow> volume_mount_proto" where
  "volume_mount_to_proto m =
     \<lparr>vm_volume_id = volume_id m, vm_mount_path = mount_path m,
      vm_allow_background_commits = allow_background_commits m, vm_read_only = False, vm_sub_path = None\<rparr>"

record function_autoscaler =
  min_containers :: "u32 option"
  max_containers :: "u32 option"
  buffer_containers :: "u32 option"
  scaledown_window :: "u32 option"

definition default_autoscaler :: function_autoscaler where
  "default_autoscaler = \<lparr>min_containers = None, max_containers = None, buffer_containers = None,
                         scaledown_window = None\<rparr>"

definition autoscaler_is_empty :: "function_autoscaler \<Rightarrow> bool" where
  "autoscaler_is_empty a \<longleftrightarrow>
     min_containers a = None \<and> max_containers a = None \<and> buffer_containers a = None \<and>
     scaledown_window a = None"

record autoscaler_settings_proto =
  as_min_containers :: "u32 option"
  as_max_containers :: "u32 option"
  as_buffer_containers :: "u32 option"
  as_scaledown_window :: "u32 option"

definition to_settings :: "function_autoscaler \<Rightarrow> autoscaler_settings_proto" where
  "to_settings a =
     \<lparr>as_min_containers = min_containers a, as_max_containers = max_containers a,
      as_buffer_containers = buffer_containers a, as_scaledown_window = scaledown_window a\<rparr>"

record webhook_spec =
  wh_method :: string
  wh_requires_proxy_auth :: bool
  wh_web_server_port :: "u16 option"
  wh_web_server_startup_timeout :: "u32 option"

section \<open>The function spec\<close>

record 'f function_spec =
  spec_module_name :: string
  function_name :: string
  app_function_name :: "string option"
  image_id :: string
  mount_ids :: "string list"
  timeout_secs :: u32
  resources :: function_resources
  mount_client_dependencies :: bool
  volume_mounts :: "function_volume_mount list"
  secret_ids :: "string list"
  retry_policy :: "'f function_retry_policy option"
  schedule :: "'f schedule option"
  autoscaler :: function_autoscaler
  checkpointing_enabled :: bool
  webhook :: "webhook_spec option"
  max_concurrent_inputs :: "u32 option"
  target_concurrent_inputs :: "u32 option"

definition new_function_spec :: "string \<Rightarrow> string \<Rightarrow> string \<Rightarrow> 'f function_spec" where
  "new_function_spec m f i =
     \<lparr>spec_module_name = m, function_name = f, app_function_name = None, image_id = i, mount_ids = [],
      timeout_secs = 300, resources = default_resources, mount_client_dependencies = True,
      volume_mounts = [], secret_ids = [], retry_policy = None, schedule = None,
      autoscaler = default_autoscaler, checkpointing_enabled = False, webhook = None,
      max_concurrent_inputs = None, target_concurrent_inputs = None\<rparr>"

definition with_app_function_name :: "string \<Rightarrow> 'f function_spec \<Rightarrow> 'f function_spec" where
  "with_app_function_name name s = s\<lparr>app_function_name := Some name\<rparr>"

definition object_tag :: "'f function_spec \<Rightarrow> string" where
  "object_tag s = (case app_function_name s of Some n \<Rightarrow> n | None \<Rightarrow> function_name s)"

definition with_mount_ids :: "string list \<Rightarrow> 'f function_spec \<Rightarrow> 'f function_spec" where
  "with_mount_ids ids s = s\<lparr>mount_ids := ids\<rparr>"

definition with_mount_id :: "string \<Rightarrow> 'f function_spec \<Rightarrow> 'f function_spec" where
  "with_mount_id i s = s\<lparr>mount_ids := mount_ids s @ [i]\<rparr>"

definition with_timeout_secs :: "u32 \<Rightarrow> 'f function_spec \<Rightarrow> 'f function_spec" where
  "with_timeout_secs n s = s\<lparr>timeout_secs := n\<rparr>"

definition with_resources :: "function_resources \<Rightarrow> 'f function_spec \<Rightarrow> 'f function_spec" where
  "with_resources r s = s\<lparr>resources := r\<rparr>"

definition with_milli_cpu :: "u32 option \<Rightarrow> 'f function_spec \<Rightarrow> 'f function_spec" where
  "with_milli_cpu x s =
     s\<lparr>resources := (resources s)\<lparr>milli_cpu := (case x of Some n \<Rightarrow> n | None \<Rightarrow> 0)\<rparr>\<rparr>"

definition with_memory_mb :: "u32 option \<Rightarrow> 'f function_spec \<Rightarrow> 'f function_spec" where
  "with_memory_mb x s =
     s\<lparr>resources := (resources s)\<lparr>memory_mb := (case x of Some n \<Rightarrow> n | None \<Rightarrow> 0)\<rparr>\<rparr>"

definition with_gpu :: "string option \<Rightarrow> 'f function_spec \<Rightarrow> error + 'f function_spec" where
  "with_gpu g s =
     and_then (transpose_map parse_gpu_config g)
       (\<lambda>_. Inr (s\<lparr>resources := (resources s)\<lparr>gpu := g\<rparr>\<rparr>))"

definition with_mount_client_dependencies :: "bool \<Rightarrow> 'f function_spec \<Rightarrow> 'f function_spec" where
  "with_mount_client_dependencies b s = s\<lparr>mount_client_dependencies := b\<rparr>"

definition with_volume_mounts :: "function_volume_mount list \<Rightarrow> 'f function_spec \<Rightarrow> 'f function_spec" where
  "with_volume_mounts ms s = s\<lparr>volume_mounts := ms\<rparr>"

definition with_volume_mount :: "string \<Rightarrow> string \<Rightarrow> 'f function_spec \<Rightarrow> 'f function_spec" where
  "with_volume_mount vid path s = s\<lparr>volume_mounts := volume_mounts s @ [new_volume_mount vid path]\<rparr>"

definition with_secret_ids :: "string list \<Rightarrow> 'f function_spec \<Rightarrow> 'f function_spec" where
  "with_secret_ids ids s = s\<lparr>secret_ids := ids\<rparr>"

definition with_secret_id :: "string \<Rightarrow> 'f function_spec \<Rightarrow> 'f function_spec" where
  "with_secret_id i s = s\<lparr>secret_ids := secret_ids s @ [i]\<rparr>"

definition with_retries :: "'f f32_ops \<Rightarrow> u32 option \<Rightarrow> 'f function_spec \<Rightarrow> 'f function_spec" where
  "with_retries F r s =
     s\<lparr>retry_policy := map_option (\<lambda>n. \<lparr>backoff_coefficient = retry_default_backoff F,
          initial_delay_ms = RETRY_DEFAULT_INITIAL_DELAY_MS, max_delay_ms = RETRY_DEFAULT_MAX_DELAY_MS,
          retries = n\<rparr>) r\<rparr>"

definition with_retry_policy ::
  "'f f32_ops \<Rightarrow> string option \<Rightarrow> 'f function_spec \<Rightarrow> error + 'f function_spec" where
  "with_retry_policy F spec s =
     and_then (transpose_map (parse_retries_spec F) spec) (\<lambda>p. Inr (s\<lparr>retry_policy := p\<rparr>))"

definition with_schedule ::
  "'f f32_ops \<Rightarrow> string option \<Rightarrow> 'f function_spec \<Rightarrow> error + 'f function_spec" where
  "with_schedule F spec s =
     and_then (transpose_map (parse_schedule F) spec) (\<lambda>p. Inr (s\<lparr>schedule := p\<rparr>))"

definition dec_u32 :: "u32 \<Rightarrow> string" where "dec_u32 n = dec (unat n)"

definition with_autoscaler :: "function_autoscaler \<Rightarrow> 'f function_spec \<Rightarrow> error + 'f function_spec" where
  "with_autoscaler a s =
     and_then
       (case (min_containers a, max_containers a) of
          (Some mn, Some mx) \<Rightarrow>
            (if mx < mn
             then Inl (Invalid (''`min_containers` ('' @ dec_u32 mn
                        @ '') cannot be greater than `max_containers` ('' @ dec_u32 mx @ '')''))
             else Inr ())
        | _ \<Rightarrow> Inr ())
       (\<lambda>_. and_then
              (case scaledown_window a of
                 Some window \<Rightarrow>
                   (if window = 0 then Inl (Invalid ''`scaledown_window` must be > 0'') else Inr ())
               | None \<Rightarrow> Inr ())
              (\<lambda>_. Inr (s\<lparr>autoscaler := a\<rparr>)))"

definition with_concurrency ::
  "u32 option \<Rightarrow> u32 option \<Rightarrow> 'f function_spec \<Rightarrow> error + 'f function_spec" where
  "with_concurrency mx target s =
     (if mx = Some 0 then Inl (Invalid ''`max_concurrent_inputs` must be >= 1'')
      else if target = Some 0 then Inl (Invalid ''`target_concurrent_inputs` must be >= 1'')
      else if target \<noteq> None \<and> mx = None
      then Inl (Invalid ''`target_concurrent_inputs` requires `max_concurrent_inputs` to be set'')
      else and_then
        (case (mx, target) of
           (Some m, Some t) \<Rightarrow>
             (if m < t
              then Inl (Invalid (''`target_concurrent_inputs` ('' @ dec_u32 t
                        @ '') cannot be greater than `max_concurrent_inputs` ('' @ dec_u32 m @ '')''))
              else Inr ())
         | _ \<Rightarrow> Inr ())
        (\<lambda>_. Inr (s\<lparr>max_concurrent_inputs := mx, target_concurrent_inputs := target\<rparr>)))"

definition with_memory_snapshot :: "bool \<Rightarrow> 'f function_spec \<Rightarrow> 'f function_spec" where
  "with_memory_snapshot on s = s\<lparr>checkpointing_enabled := on\<rparr>"

definition webhook_methods :: "string list" where
  "webhook_methods = [''GET'', ''POST'', ''PUT'', ''DELETE'', ''PATCH'']"

definition with_webhook :: "webhook_spec option \<Rightarrow> 'f function_spec \<Rightarrow> error + 'f function_spec" where
  "with_webhook wh s =
     and_then
       (case wh of
          Some w \<Rightarrow>
            (if wh_web_server_port w = None \<and> wh_method w \<notin> set webhook_methods
             then Inl (Invalid (''invalid webhook method '' @ debug_str (wh_method w)
                        @ '': expected one of GET, POST, PUT, DELETE, PATCH''))
             else Inr ())
        | None \<Rightarrow> Inr ())
       (\<lambda>_. Inr (s\<lparr>webhook := wh\<rparr>))"

section \<open>The invariant of a built spec\<close>

definition autoscaler_ok :: "function_autoscaler \<Rightarrow> bool" where
  "autoscaler_ok a \<longleftrightarrow>
     (case (min_containers a, max_containers a) of (Some mn, Some mx) \<Rightarrow> mn \<le> mx | _ \<Rightarrow> True) \<and>
     scaledown_window a \<noteq> Some 0"

definition concurrency_ok :: "u32 option \<Rightarrow> u32 option \<Rightarrow> bool" where
  "concurrency_ok mx t \<longleftrightarrow>
     mx \<noteq> Some 0 \<and> (case t of None \<Rightarrow> True | Some k \<Rightarrow> k \<noteq> 0 \<and> (\<exists>m. mx = Some m \<and> k \<le> m))"

definition webhook_ok :: "webhook_spec option \<Rightarrow> bool" where
  "webhook_ok wh \<longleftrightarrow>
     (case wh of None \<Rightarrow> True
      | Some w \<Rightarrow> wh_web_server_port w \<noteq> None \<or> wh_method w \<in> set webhook_methods)"

definition gpu_ok :: "string option \<Rightarrow> bool" where
  "gpu_ok g \<longleftrightarrow> (case g of None \<Rightarrow> True | Some s \<Rightarrow> \<exists>c. parse_gpu_config s = Inr c)"

definition spec_ok :: "'f function_spec \<Rightarrow> bool" where
  "spec_ok s \<longleftrightarrow>
     gpu_ok (gpu (resources s)) \<and> autoscaler_ok (autoscaler s) \<and>
     concurrency_ok (max_concurrent_inputs s) (target_concurrent_inputs s) \<and> webhook_ok (webhook s) \<and>
     schedule s \<noteq> Some None"

text \<open>A setter's contract: an accepted value leaves a spec the request builder can rely on, a refused
  one is the caller's error.\<close>

locale spec_setter =
  fixes setter :: "'v \<Rightarrow> 'f function_spec \<Rightarrow> error + 'f function_spec"
  assumes keeps: "spec_ok s \<Longrightarrow> setter v s = Inr s' \<Longrightarrow> spec_ok s'"
    and refuses: "setter v s = Inl e \<Longrightarrow> \<exists>m. e = Invalid m"
begin

text \<open>Any chain of calls of a setter keeps the invariant.\<close>

lemma chain_keeps: "spec_ok s \<Longrightarrow> try_fold setter vs s = Inr s' \<Longrightarrow> spec_ok s'"
  using try_fold_invariant [where P = spec_ok and f = setter] keeps by metis

end

lemma spec_ok_new [simp]: "spec_ok (new_function_spec m f i)"
  by (simp add: spec_ok_def new_function_spec_def gpu_ok_def default_resources_def autoscaler_ok_def
      default_autoscaler_def concurrency_ok_def webhook_ok_def)

lemma spec_ok_plain [simp]:
  "spec_ok (with_app_function_name n s) = spec_ok s"
  "spec_ok (with_mount_ids ids s) = spec_ok s" "spec_ok (with_mount_id i s) = spec_ok s"
  "spec_ok (with_timeout_secs k s) = spec_ok s"
  "spec_ok (with_milli_cpu c s) = spec_ok s" "spec_ok (with_memory_mb c s) = spec_ok s"
  "spec_ok (with_mount_client_dependencies b s) = spec_ok s"
  "spec_ok (with_volume_mounts ms s) = spec_ok s" "spec_ok (with_volume_mount v p s) = spec_ok s"
  "spec_ok (with_secret_ids ids s) = spec_ok s" "spec_ok (with_secret_id i s) = spec_ok s"
  "spec_ok (with_retries F r s) = spec_ok s" "spec_ok (with_memory_snapshot b s) = spec_ok s"
  by (simp_all add: spec_ok_def with_app_function_name_def with_mount_ids_def with_mount_id_def
      with_timeout_secs_def with_milli_cpu_def with_memory_mb_def with_mount_client_dependencies_def
      with_volume_mounts_def with_volume_mount_def with_secret_ids_def with_secret_id_def
      with_retries_def with_memory_snapshot_def)

lemma with_gpu_iff:
  "with_gpu g s = Inr s' \<longleftrightarrow> gpu_ok g \<and> s' = s\<lparr>resources := (resources s)\<lparr>gpu := g\<rparr>\<rparr>"
  by (cases g) (auto simp: with_gpu_def gpu_ok_def and_then_Inr_iff)

lemma with_autoscaler_iff:
  "with_autoscaler a s = Inr s' \<longleftrightarrow> autoscaler_ok a \<and> s' = s\<lparr>autoscaler := a\<rparr>"
  by (auto simp: with_autoscaler_def autoscaler_ok_def and_then_Inr_iff not_less
      split: option.splits if_splits)

lemma with_concurrency_iff:
  "with_concurrency mx t s = Inr s' \<longleftrightarrow>
     concurrency_ok mx t \<and> s' = s\<lparr>max_concurrent_inputs := mx, target_concurrent_inputs := t\<rparr>"
  by (auto simp: with_concurrency_def concurrency_ok_def and_then_Inr_iff not_less
      split: option.splits if_splits)

lemma with_webhook_iff:
  "with_webhook wh s = Inr s' \<longleftrightarrow> webhook_ok wh \<and> s' = s\<lparr>webhook := wh\<rparr>"
  by (auto simp: with_webhook_def webhook_ok_def and_then_Inr_iff split: option.splits if_splits)

lemma parse_schedule_Some: "parse_schedule F x = Inr y \<Longrightarrow> y \<noteq> None"
  by (auto simp: parse_schedule_def and_then_Inr_iff)

lemma with_retry_policy_Inr:
  "with_retry_policy F x s = Inr s' \<Longrightarrow> \<exists>p. s' = s\<lparr>retry_policy := p\<rparr>"
  by (auto simp: with_retry_policy_def and_then_Inr_iff)

lemma with_schedule_Inr:
  "with_schedule F x s = Inr s' \<Longrightarrow> \<exists>p. s' = s\<lparr>schedule := p\<rparr> \<and> p \<noteq> Some None"
  by (auto simp: with_schedule_def and_then_Inr_iff schedule_p.optional_ok dest: parse_schedule_Some)

lemma setters_keep:
  "spec_ok s \<Longrightarrow> with_gpu g s = Inr s' \<Longrightarrow> spec_ok s'"
  "spec_ok s \<Longrightarrow> with_autoscaler a s = Inr s' \<Longrightarrow> spec_ok s'"
  "spec_ok s \<Longrightarrow> with_concurrency mx t s = Inr s' \<Longrightarrow> spec_ok s'"
  "spec_ok s \<Longrightarrow> with_webhook wh s = Inr s' \<Longrightarrow> spec_ok s'"
  "spec_ok s \<Longrightarrow> with_retry_policy F x s = Inr s' \<Longrightarrow> spec_ok s'"
  "spec_ok s \<Longrightarrow> with_schedule F x s = Inr s' \<Longrightarrow> spec_ok s'"
  by (auto simp: with_gpu_iff with_autoscaler_iff with_concurrency_iff with_webhook_iff spec_ok_def
      dest!: with_retry_policy_Inr with_schedule_Inr)

lemma setters_refuse:
  "with_gpu g s = Inl e \<Longrightarrow> \<exists>m. e = Invalid m"
  "with_autoscaler a s = Inl e \<Longrightarrow> \<exists>m. e = Invalid m"
  "with_concurrency mx t s = Inl e \<Longrightarrow> \<exists>m. e = Invalid m"
  "with_webhook wh s = Inl e \<Longrightarrow> \<exists>m. e = Invalid m"
  "with_retry_policy F x s = Inl e \<Longrightarrow> \<exists>m. e = Invalid m"
  "with_schedule F x s = Inl e \<Longrightarrow> \<exists>m. e = Invalid m"
  by (auto simp: with_gpu_def with_autoscaler_def with_concurrency_def with_webhook_def
      with_retry_policy_def with_schedule_def and_then_Inl_iff
      dest: gpu_p.optional_error retries_p.optional_error schedule_p.optional_error
      split: option.splits if_splits)

interpretation gpu_set: spec_setter with_gpu
  by unfold_locales (fact setters_keep setters_refuse)+

interpretation autoscaler_set: spec_setter with_autoscaler
  by unfold_locales (fact setters_keep setters_refuse)+

interpretation concurrency_set: spec_setter "\<lambda>(mx, t). with_concurrency mx t"
  by unfold_locales (auto intro: setters_keep setters_refuse)

interpretation webhook_set: spec_setter with_webhook
  by unfold_locales (fact setters_keep setters_refuse)+

interpretation retry_policy_set: spec_setter "with_retry_policy F" for F :: "'f f32_ops"
  by unfold_locales (fact setters_keep setters_refuse)+

interpretation schedule_set: spec_setter "with_schedule F" for F :: "'f f32_ops"
  by unfold_locales (fact setters_keep setters_refuse)+

section \<open>Building a spec\<close>

text \<open>A call of one of the setters, all but \<open>with_resources\<close>, which takes the resources unchecked.\<close>

datatype setter_call =
    AppFunctionName string | MountIds "string list" | MountId string | TimeoutSecs u32
  | MilliCpu "u32 option" | MemoryMb "u32 option" | Gpu "string option" | ClientDependencies bool
  | VolumeMounts "function_volume_mount list" | VolumeMount string string
  | SecretIds "string list" | SecretId string | Retries "u32 option" | RetryPolicy "string option"
  | ScheduleSpec "string option" | Autoscaler function_autoscaler
  | Concurrency "u32 option" "u32 option" | MemorySnapshot bool | Webhook "webhook_spec option"

fun apply_call :: "'f f32_ops \<Rightarrow> setter_call \<Rightarrow> 'f function_spec \<Rightarrow> error + 'f function_spec" where
  "apply_call F (AppFunctionName n) s = Inr (with_app_function_name n s)"
| "apply_call F (MountIds ids) s = Inr (with_mount_ids ids s)"
| "apply_call F (MountId i) s = Inr (with_mount_id i s)"
| "apply_call F (TimeoutSecs n) s = Inr (with_timeout_secs n s)"
| "apply_call F (MilliCpu x) s = Inr (with_milli_cpu x s)"
| "apply_call F (MemoryMb x) s = Inr (with_memory_mb x s)"
| "apply_call F (Gpu g) s = with_gpu g s"
| "apply_call F (ClientDependencies b) s = Inr (with_mount_client_dependencies b s)"
| "apply_call F (VolumeMounts ms) s = Inr (with_volume_mounts ms s)"
| "apply_call F (VolumeMount v p) s = Inr (with_volume_mount v p s)"
| "apply_call F (SecretIds ids) s = Inr (with_secret_ids ids s)"
| "apply_call F (SecretId i) s = Inr (with_secret_id i s)"
| "apply_call F (Retries r) s = Inr (with_retries F r s)"
| "apply_call F (RetryPolicy x) s = with_retry_policy F x s"
| "apply_call F (ScheduleSpec x) s = with_schedule F x s"
| "apply_call F (Autoscaler a) s = with_autoscaler a s"
| "apply_call F (Concurrency m t) s = with_concurrency m t s"
| "apply_call F (MemorySnapshot b) s = Inr (with_memory_snapshot b s)"
| "apply_call F (Webhook w) s = with_webhook w s"

lemma apply_call_keeps: "spec_ok s \<Longrightarrow> apply_call F c s = Inr s' \<Longrightarrow> spec_ok s'"
  by (cases c) (auto intro: setters_keep)

lemma apply_call_refuses: "apply_call F c s = Inl e \<Longrightarrow> \<exists>m. e = Invalid m"
  by (cases c) (auto intro: setters_refuse)

interpretation any_set: spec_setter "apply_call F" for F :: "'f f32_ops"
  by unfold_locales (fact apply_call_keeps apply_call_refuses)+

text \<open>Floats of the witnesses: whole numbers.\<close>

definition whole_f32 :: "nat f32_ops" where
  "whole_f32 = \<lparr>f32_parse = parse_uint 24, f32_zero = 0, f32_one = 1, f32_is_zero = (\<lambda>x. x = 0),
                f32_show = dec, f32_of_u32 = unat\<rparr>"

section \<open>Properties\<close>

text \<open>A spec built from \<open>new\<close> by any accepted sequence of setter calls satisfies the invariant: its
  GPU spec parses, its autoscaler bounds are ordered with no zero window, its input concurrency is
  consistent, its webhook method is one Modal knows, and its schedule is not an empty message.\<close>

lemma builder_keeps_invariant:
  assumes "try_fold (apply_call F) calls (new_function_spec m f i) = Inr s"
  shows "spec_ok s"
  using any_set.chain_keeps [OF spec_ok_new assms] .

lemma builder_run:
  "try_fold (apply_call whole_f32) [Gpu (Some ''t4:2''), Concurrency (Some 10) (Some 4), MountId ''mo-1'']
     (new_function_spec ''app'' ''f'' ''im-1'') =
   Inr (with_mount_id ''mo-1'' ((new_function_spec ''app'' ''f'' ''im-1'')
          \<lparr>resources := default_resources\<lparr>gpu := Some ''t4:2''\<rparr>,
           max_concurrent_inputs := Some 10, target_concurrent_inputs := Some 4\<rparr>))"
proof -
  have "parse_u32 (trim ''2'') = Some 2"
    by (simp add: parse_u32_def parse_uint_def parse_nat_def digit_val_def Let_def trim_def
        trim_start_matches_def trim_end_matches_def is_ws_def)
  then show ?thesis
    by (simp add: with_gpu_def parse_gpu_config_def with_concurrency_def new_function_spec_def)
qed

lemma builder_keeps_invariant_witness:
  "spec_ok (with_mount_id ''mo-1'' ((new_function_spec ''app'' ''f'' ''im-1'' :: nat function_spec)
          \<lparr>resources := default_resources\<lparr>gpu := Some ''t4:2''\<rparr>,
           max_concurrent_inputs := Some 10, target_concurrent_inputs := Some 4\<rparr>))"
  by (rule builder_keeps_invariant [OF builder_run])

text \<open>A setter call the builder refuses is the caller's mistake: an \<open>Invalid\<close> error, which is never
  retried, whatever calls came before it.\<close>

lemma builder_refusal_invalid:
  assumes "try_fold (apply_call F) calls (new_function_spec m f i) = Inl e"
  shows "(\<exists>msg. e = Invalid msg) \<and> \<not> is_transient e"
  using try_fold_error [OF assms] any_set.refuses by fastforce

lemma builder_refused_run:
  "try_fold (apply_call whole_f32) [TimeoutSecs 5, Concurrency None (Some 0)] (new_function_spec ''app'' ''f'' ''im-1'') =
     Inl (Invalid ''`target_concurrent_inputs` must be >= 1'')"
  by (simp add: with_concurrency_def)

lemma builder_refusal_invalid_witness:
  "(\<exists>msg. Invalid ''`target_concurrent_inputs` must be >= 1'' = Invalid msg) \<and>
   \<not> is_transient (Invalid ''`target_concurrent_inputs` must be >= 1'')"
  by (rule builder_refusal_invalid [OF builder_refused_run])

text \<open>The checked setters accept exactly the values the invariant allows, and change only their own
  field.\<close>

lemma setters_exact:
  "(case with_gpu g s of Inr s' \<Rightarrow> gpu_ok g \<and> s' = s\<lparr>resources := (resources s)\<lparr>gpu := g\<rparr>\<rparr>
    | Inl _ \<Rightarrow> \<not> gpu_ok g) \<and>
   (case with_autoscaler a s of Inr s' \<Rightarrow> autoscaler_ok a \<and> s' = s\<lparr>autoscaler := a\<rparr>
    | Inl _ \<Rightarrow> \<not> autoscaler_ok a) \<and>
   (case with_concurrency mx t s of
      Inr s' \<Rightarrow> concurrency_ok mx t \<and> s' = s\<lparr>max_concurrent_inputs := mx, target_concurrent_inputs := t\<rparr>
    | Inl _ \<Rightarrow> \<not> concurrency_ok mx t) \<and>
   (case with_webhook wh s of Inr s' \<Rightarrow> webhook_ok wh \<and> s' = s\<lparr>webhook := wh\<rparr>
    | Inl _ \<Rightarrow> \<not> webhook_ok wh)"
proof -
  have exact: "case r of Inr y \<Rightarrow> ok \<and> y = z | Inl _ \<Rightarrow> \<not> ok"
    if "\<And>y. r = Inr y \<longleftrightarrow> ok \<and> y = z" for r :: "error + 'b function_spec" and ok z
    using that by (cases r) auto
  show ?thesis
    by (intro conjI exact) (simp_all add: with_gpu_iff with_autoscaler_iff with_concurrency_iff with_webhook_iff)
qed

end
