(* ===== verification/FunctionRpc.thy ===== *)
theory FunctionRpc
  imports FunctionSpec Retry ClientConfig
begin

text \<open>
  The wire side of a function create (\<open>crates/modal-rust-sdk/src/ops/function/rpc.rs\<close>): the pure
  request builders, the projection of the response, and the three RPC methods.  A protocol message
  is a record of the fields the code sets; every other field keeps prost's default and is left out.
  Protocol enums are their wire numbers.
\<close>

section \<open>Messages\<close>

definition FORMAT_PICKLE :: int where "FORMAT_PICKLE = 1"
definition FORMAT_ASGI :: int where "FORMAT_ASGI = 2"
definition FORMAT_GENERATOR_DONE :: int where "FORMAT_GENERATOR_DONE = 3"
definition FORMAT_CBOR :: int where "FORMAT_CBOR = 4"
definition FUNCTION_TYPE_FUNCTION :: int where "FUNCTION_TYPE_FUNCTION = 2"
definition DEFINITION_TYPE_FILE :: int where "DEFINITION_TYPE_FILE = 2"
definition WEBHOOK_TYPE_FUNCTION :: int where "WEBHOOK_TYPE_FUNCTION = 2"
definition WEBHOOK_TYPE_WEB_SERVER :: int where "WEBHOOK_TYPE_WEB_SERVER = 4"

lemmas wire_numbers = FORMAT_PICKLE_def FORMAT_ASGI_def FORMAT_GENERATOR_DONE_def FORMAT_CBOR_def
  FUNCTION_TYPE_FUNCTION_def DEFINITION_TYPE_FILE_def WEBHOOK_TYPE_FUNCTION_def
  WEBHOOK_TYPE_WEB_SERVER_def

record 'f webhook_config =
  wc_type :: int
  wc_method :: string
  wc_requires_proxy_auth :: bool
  wc_web_server_port :: u32
  wc_web_server_startup_timeout :: 'f

record 'f function_proto =
  pf_module_name :: string
  pf_function_name :: string
  pf_implementation_name :: string
  pf_mount_ids :: "string list"
  pf_image_id :: string
  pf_function_serialized :: bytes
  pf_definition_type :: int
  pf_function_type :: int
  pf_resources :: "resources_proto option"
  pf_timeout_secs :: u32
  pf_supported_input_formats :: "int list"
  pf_supported_output_formats :: "int list"
  pf_mount_client_dependencies :: bool
  pf_volume_mounts :: "volume_mount_proto list"
  pf_secret_ids :: "string list"
  pf_retry_policy :: "'f function_retry_policy option"
  pf_schedule :: "'f schedule option"
  pf_autoscaler_settings :: "autoscaler_settings_proto option"
  pf_warm_pool_size :: u32
  pf_concurrency_limit :: u32
  pf_experimental_buffer_containers :: u32
  pf_task_idle_timeout_secs :: u32
  pf_checkpointing_enabled :: bool
  pf_is_checkpointing_function :: bool
  pf_webhook_config :: "'f webhook_config option"
  pf_max_concurrent_inputs :: u32
  pf_target_concurrent_inputs :: u32

record 'f function_create_request =
  fc_function :: "'f function_proto option"
  fc_app_id :: string
  fc_existing_function_id :: string
  fc_function_data :: "unit option"

record function_precreate_request =
  fp_app_id :: string
  fp_function_name :: string
  fp_function_type :: int
  fp_supported_input_formats :: "int list"
  fp_supported_output_formats :: "int list"

record function_get_request =
  fg_app_name :: string
  fg_object_tag :: string
  fg_environment_name :: string
  fg_app_version :: u32

record handle_metadata =
  hm_definition_id :: string
  hm_web_url :: string

record function_create_response =
  fr_function_id :: string
  fr_handle_metadata :: "handle_metadata option"
  fr_server_warnings :: "string list"

record created_function =
  cf_function_id :: string
  cf_definition_id :: string
  cf_web_url :: string
  cf_warnings :: "string list"

section \<open>Builders\<close>

definition supported_formats :: "int list" where
  "supported_formats = [FORMAT_PICKLE, FORMAT_CBOR]"

definition build_function_precreate_request :: "string \<Rightarrow> string \<Rightarrow> function_precreate_request" where
  "build_function_precreate_request app_id name =
     \<lparr>fp_app_id = app_id, fp_function_name = name, fp_function_type = FUNCTION_TYPE_FUNCTION,
      fp_supported_input_formats = supported_formats, fp_supported_output_formats = supported_formats\<rparr>"

definition unwrap0 :: "u32 option \<Rightarrow> u32" where
  "unwrap0 x = (case x of Some n \<Rightarrow> n | None \<Rightarrow> 0)"

definition webhook_to_config :: "'f f32_ops \<Rightarrow> webhook_spec \<Rightarrow> 'f webhook_config" where
  "webhook_to_config F w =
     (case wh_web_server_port w of
        Some port \<Rightarrow>
          \<lparr>wc_type = WEBHOOK_TYPE_WEB_SERVER, wc_method = [],
           wc_requires_proxy_auth = wh_requires_proxy_auth w,
           wc_web_server_port = ucast port,
           wc_web_server_startup_timeout = f32_of_u32 F (unwrap0 (wh_web_server_startup_timeout w))\<rparr>
      | None \<Rightarrow>
          \<lparr>wc_type = WEBHOOK_TYPE_FUNCTION, wc_method = wh_method w,
           wc_requires_proxy_auth = wh_requires_proxy_auth w, wc_web_server_port = 0,
           wc_web_server_startup_timeout = f32_zero F\<rparr>)"

definition build_function_create_request ::
  "'f f32_ops \<Rightarrow> string \<Rightarrow> string \<Rightarrow> 'f function_spec \<Rightarrow> 'f function_create_request" where
  "build_function_create_request F app_id precreate_id spec =
     (let tag = object_tag spec;
          implementation_name = (if tag = function_name spec then [] else function_name spec);
          autoscaler_settings = (if autoscaler_is_empty (autoscaler spec) then None
                                 else Some (to_settings (autoscaler spec)));
          (input_formats, output_formats) =
            (if webhook spec \<noteq> None then ([FORMAT_ASGI], [FORMAT_ASGI, FORMAT_GENERATOR_DONE])
             else (supported_formats, supported_formats));
          fn = \<lparr>pf_module_name = spec_module_name spec,
                pf_function_name = tag,
                pf_implementation_name = implementation_name,
                pf_mount_ids = mount_ids spec,
                pf_image_id = image_id spec,
                pf_function_serialized = [],
                pf_definition_type = DEFINITION_TYPE_FILE,
                pf_function_type = FUNCTION_TYPE_FUNCTION,
                pf_resources = Some (resources_to_proto (resources spec)),
                pf_timeout_secs = timeout_secs spec,
                pf_supported_input_formats = input_formats,
                pf_supported_output_formats = output_formats,
                pf_mount_client_dependencies = mount_client_dependencies spec,
                pf_volume_mounts = map volume_mount_to_proto (volume_mounts spec),
                pf_secret_ids = secret_ids spec,
                pf_retry_policy = retry_policy spec,
                pf_schedule = schedule spec,
                pf_autoscaler_settings = autoscaler_settings,
                pf_warm_pool_size = unwrap0 (min_containers (autoscaler spec)),
                pf_concurrency_limit = unwrap0 (max_containers (autoscaler spec)),
                pf_experimental_buffer_containers = unwrap0 (buffer_containers (autoscaler spec)),
                pf_task_idle_timeout_secs = unwrap0 (scaledown_window (autoscaler spec)),
                pf_checkpointing_enabled = checkpointing_enabled spec,
                pf_is_checkpointing_function = checkpointing_enabled spec,
                pf_webhook_config = map_option (webhook_to_config F) (webhook spec),
                pf_max_concurrent_inputs = unwrap0 (max_concurrent_inputs spec),
                pf_target_concurrent_inputs = unwrap0 (target_concurrent_inputs spec)\<rparr>
      in \<lparr>fc_function = Some fn, fc_app_id = app_id, fc_existing_function_id = precreate_id,
          fc_function_data = None\<rparr>)"

definition created_function_from_response :: "function_create_response \<Rightarrow> error + created_function" where
  "created_function_from_response resp =
     (if fr_function_id resp = [] then Inl (Build ''FunctionCreate returned an empty function_id'')
      else let (definition_id, web_url) =
                 (case fr_handle_metadata resp of
                    Some hm \<Rightarrow> (hm_definition_id hm, hm_web_url hm) | None \<Rightarrow> ([], []))
           in Inr \<lparr>cf_function_id = fr_function_id resp, cf_definition_id = definition_id,
                   cf_web_url = web_url, cf_warnings = fr_server_warnings resp\<rparr>)"

definition build_function_get_request :: "string \<Rightarrow> string \<Rightarrow> string \<Rightarrow> function_get_request" where
  "build_function_get_request app_name name env_name =
     \<lparr>fg_app_name = app_name, fg_object_tag = name, fg_environment_name = env_name, fg_app_version = 0\<rparr>"

section \<open>RPC methods\<close>

record ('w, 'f) function_stub =
  function_precreate_rpc :: "('w, function_precreate_request, string) rpc"
    \<comment> \<open>the response is its \<open>function_id\<close>\<close>
  function_create_rpc :: "('w, 'f function_create_request, function_create_response) rpc"
  function_get_rpc :: "('w, function_get_request, string) rpc"

definition function_precreate ::
  "'w host \<Rightarrow> ('w, 'f) function_stub \<Rightarrow> string \<Rightarrow> string \<Rightarrow> ('w, string) io" where
  "function_precreate h st app_id name =
     bind_io (retry_rpc h (function_precreate_rpc st) (build_function_precreate_request app_id name))
       (\<lambda>fid. if fid = [] then throw (Build ''FunctionPrecreate returned an empty function_id'')
              else ret fid)"

definition function_create ::
  "'w host \<Rightarrow> 'f f32_ops \<Rightarrow> ('w, 'f) function_stub \<Rightarrow> string \<Rightarrow> string \<Rightarrow> 'f function_spec \<Rightarrow>
     ('w, created_function) io" where
  "function_create h F st app_id precreate_id spec =
     bind_io (retry_rpc h (function_create_rpc st) (build_function_create_request F app_id precreate_id spec))
       (\<lambda>resp. lift_res (created_function_from_response resp))"

definition function_from_name ::
  "'w host \<Rightarrow> ('w, 'f) function_stub \<Rightarrow> modal_config \<Rightarrow> string \<Rightarrow> string \<Rightarrow> string option \<Rightarrow> ('w, string) io" where
  "function_from_name h st c app_name name env =
     bind_io (retry_rpc h (function_get_rpc st)
                (build_function_get_request app_name name (env_or_default c env)))
       (\<lambda>fid. if fid = []
              then throw (Build (''FunctionGet for '' @ [CHR 0x27] @ app_name @ ''/'' @ name @ [CHR 0x27]
                     @ '' returned an empty function_id''))
              else ret fid)"

section \<open>Facts\<close>

text \<open>The function message of a request.\<close>

definition request_function :: "'f function_create_request \<Rightarrow> 'f function_proto" where
  "request_function r = the (fc_function r)"

lemma request_parts [simp]:
  "fc_function (build_function_create_request F a p s) \<noteq> None"
  "fc_function_data (build_function_create_request F a p s) = None"
  "fc_app_id (build_function_create_request F a p s) = a"
  "fc_existing_function_id (build_function_create_request F a p s) = p"
  by (simp_all add: build_function_create_request_def Let_def split: prod.splits)

lemma function_parts [simp]:
  "pf_module_name (request_function (build_function_create_request F a p s)) = spec_module_name s"
  "pf_function_name (request_function (build_function_create_request F a p s)) = object_tag s"
  "pf_implementation_name (request_function (build_function_create_request F a p s)) =
     (if object_tag s = function_name s then [] else function_name s)"
  "pf_mount_ids (request_function (build_function_create_request F a p s)) = mount_ids s"
  "pf_image_id (request_function (build_function_create_request F a p s)) = image_id s"
  "pf_function_serialized (request_function (build_function_create_request F a p s)) = []"
  "pf_definition_type (request_function (build_function_create_request F a p s)) = DEFINITION_TYPE_FILE"
  "pf_function_type (request_function (build_function_create_request F a p s)) = FUNCTION_TYPE_FUNCTION"
  "pf_resources (request_function (build_function_create_request F a p s)) =
     Some (resources_to_proto (resources s))"
  "pf_timeout_secs (request_function (build_function_create_request F a p s)) = timeout_secs s"
  "pf_supported_input_formats (request_function (build_function_create_request F a p s)) =
     (if webhook s \<noteq> None then [FORMAT_ASGI] else supported_formats)"
  "pf_supported_output_formats (request_function (build_function_create_request F a p s)) =
     (if webhook s \<noteq> None then [FORMAT_ASGI, FORMAT_GENERATOR_DONE] else supported_formats)"
  "pf_mount_client_dependencies (request_function (build_function_create_request F a p s)) =
     mount_client_dependencies s"
  "pf_volume_mounts (request_function (build_function_create_request F a p s)) =
     map volume_mount_to_proto (volume_mounts s)"
  "pf_secret_ids (request_function (build_function_create_request F a p s)) = secret_ids s"
  "pf_retry_policy (request_function (build_function_create_request F a p s)) = retry_policy s"
  "pf_schedule (request_function (build_function_create_request F a p s)) = schedule s"
  "pf_autoscaler_settings (request_function (build_function_create_request F a p s)) =
     (if autoscaler_is_empty (autoscaler s) then None else Some (to_settings (autoscaler s)))"
  "pf_warm_pool_size (request_function (build_function_create_request F a p s)) =
     unwrap0 (min_containers (autoscaler s))"
  "pf_concurrency_limit (request_function (build_function_create_request F a p s)) =
     unwrap0 (max_containers (autoscaler s))"
  "pf_experimental_buffer_containers (request_function (build_function_create_request F a p s)) =
     unwrap0 (buffer_containers (autoscaler s))"
  "pf_task_idle_timeout_secs (request_function (build_function_create_request F a p s)) =
     unwrap0 (scaledown_window (autoscaler s))"
  "pf_checkpointing_enabled (request_function (build_function_create_request F a p s)) =
     checkpointing_enabled s"
  "pf_is_checkpointing_function (request_function (build_function_create_request F a p s)) =
     checkpointing_enabled s"
  "pf_webhook_config (request_function (build_function_create_request F a p s)) =
     map_option (webhook_to_config F) (webhook s)"
  "pf_max_concurrent_inputs (request_function (build_function_create_request F a p s)) =
     unwrap0 (max_concurrent_inputs s)"
  "pf_target_concurrent_inputs (request_function (build_function_create_request F a p s)) =
     unwrap0 (target_concurrent_inputs s)"
  by (simp_all add: build_function_create_request_def request_function_def Let_def)

text \<open>The re-parse in \<open>to_proto\<close> never falls back to a default on a spec the setters built.\<close>

lemma resources_to_proto_gpu:
  assumes "gpu_ok (gpu r)"
  shows "case gpu r of None \<Rightarrow> rp_gpu_config (resources_to_proto r) = None
         | Some s \<Rightarrow> \<exists>c. parse_gpu_config s = Inr c \<and> rp_gpu_config (resources_to_proto r) = Some c"
  using assms by (auto simp: resources_to_proto_def gpu_ok_def split: option.splits)

lemma unwrap0_concurrency:
  "concurrency_ok mx t \<Longrightarrow> unwrap0 t \<le> unwrap0 mx \<and> (unwrap0 mx = 0 \<longleftrightarrow> mx = None) \<and> (unwrap0 t = 0 \<longleftrightarrow> t = None)"
  by (auto simp: concurrency_ok_def unwrap0_def split: option.splits)

section \<open>Properties\<close>

text \<open>What the control plane may assume of the function message of a create.\<close>

definition create_request_ok :: "'f function_create_request \<Rightarrow> bool" where
  "create_request_ok r \<longleftrightarrow>
     (\<exists>fn. fc_function r = Some fn \<and> fc_function_data r = None \<and> pf_function_serialized fn = [] \<and>
        pf_target_concurrent_inputs fn \<le> pf_max_concurrent_inputs fn \<and>
        (pf_concurrency_limit fn = 0 \<or> pf_warm_pool_size fn \<le> pf_concurrency_limit fn \<or>
           pf_autoscaler_settings fn = None) \<and>
        (case pf_autoscaler_settings fn of
           None \<Rightarrow> pf_warm_pool_size fn = 0 \<and> pf_concurrency_limit fn = 0 \<and>
             pf_experimental_buffer_containers fn = 0 \<and> pf_task_idle_timeout_secs fn = 0
         | Some a \<Rightarrow> pf_warm_pool_size fn = unwrap0 (as_min_containers a) \<and>
             pf_concurrency_limit fn = unwrap0 (as_max_containers a) \<and>
             pf_experimental_buffer_containers fn = unwrap0 (as_buffer_containers a) \<and>
             pf_task_idle_timeout_secs fn = unwrap0 (as_scaledown_window a) \<and>
             as_scaledown_window a \<noteq> Some 0) \<and>
        pf_schedule fn \<noteq> Some None \<and>
        (case pf_webhook_config fn of
           None \<Rightarrow> FORMAT_ASGI \<notin> set (pf_supported_input_formats fn)
         | Some w \<Rightarrow> pf_supported_input_formats fn = [FORMAT_ASGI] \<and>
             (wc_type w = WEBHOOK_TYPE_WEB_SERVER \<or>
              wc_type w = WEBHOOK_TYPE_FUNCTION \<and> wc_method w \<in> set webhook_methods)) \<and>
        (\<exists>res. pf_resources fn = Some res \<and>
           (case rp_gpu_config res of None \<Rightarrow> True | Some g \<Rightarrow> \<exists>x. parse_gpu_config x = Inr g)))"

lemma request_function_eq:
  "fc_function (build_function_create_request F a p s) =
     Some (request_function (build_function_create_request F a p s))"
  by (simp add: request_function_def)

lemma webhook_to_config_ok:
  "webhook_ok (Some w) \<Longrightarrow>
     wc_type (webhook_to_config F w) = WEBHOOK_TYPE_WEB_SERVER \<or>
     wc_type (webhook_to_config F w) = WEBHOOK_TYPE_FUNCTION \<and>
       wc_method (webhook_to_config F w) \<in> set webhook_methods"
  by (auto simp: webhook_ok_def webhook_to_config_def split: option.splits)

lemma create_request_gpu:
  "gpu_ok (gpu r) \<Longrightarrow>
     case rp_gpu_config (resources_to_proto r) of None \<Rightarrow> True | Some g \<Rightarrow> \<exists>x. parse_gpu_config x = Inr g"
  using resources_to_proto_gpu [of r] by (cases "gpu r") auto

lemma unwrap0_autoscaler:
  "autoscaler_ok a \<Longrightarrow> unwrap0 (max_containers a) = 0 \<or>
     unwrap0 (min_containers a) \<le> unwrap0 (max_containers a)"
  by (auto simp: autoscaler_ok_def unwrap0_def split: option.splits)



text \<open>The create targets the precreated function of the app, is addressed by the object tag, and the
  name the container runs (the implementation name, or the function name when it is empty) is always
  the declared callable.\<close>

lemma create_request_callable:
  assumes "function_name s \<noteq> []"
  shows "case fc_function (build_function_create_request F app_id precreate_id s) of
     None \<Rightarrow> False
   | Some fn \<Rightarrow> fc_app_id (build_function_create_request F app_id precreate_id s) = app_id \<and>
       fc_existing_function_id (build_function_create_request F app_id precreate_id s) = precreate_id \<and>
       pf_function_name fn = object_tag s \<and>
       (if pf_implementation_name fn \<noteq> [] then pf_implementation_name fn else pf_function_name fn) = function_name s"
  using assms by (simp add: request_function_eq)

lemma create_request_callable_witness:
  "case fc_function (build_function_create_request whole_f32 ''ap-1'' ''fu-1''
         (with_app_function_name ''tag'' (new_function_spec ''app'' ''handler'' ''im-1''))) of
     None \<Rightarrow> False
   | Some fn \<Rightarrow> fc_app_id (build_function_create_request whole_f32 ''ap-1'' ''fu-1''
         (with_app_function_name ''tag'' (new_function_spec ''app'' ''handler'' ''im-1''))) = ''ap-1'' \<and>
       fc_existing_function_id (build_function_create_request whole_f32 ''ap-1'' ''fu-1''
         (with_app_function_name ''tag'' (new_function_spec ''app'' ''handler'' ''im-1''))) = ''fu-1'' \<and>
       pf_function_name fn = object_tag (with_app_function_name ''tag'' (new_function_spec ''app'' ''handler'' ''im-1'' :: nat function_spec)) \<and>
       (if pf_implementation_name fn \<noteq> [] then pf_implementation_name fn else pf_function_name fn) =
         function_name (with_app_function_name ''tag'' (new_function_spec ''app'' ''handler'' ''im-1'' :: nat function_spec))"
  by (rule create_request_callable) (simp add: with_app_function_name_def new_function_spec_def)

text \<open>\<open>with_resources\<close> does not check the GPU spec: with a malformed count the request carries the
  default GPU message, with an empty type and count 0, and no error is raised.\<close>

lemma unchecked_gpu_is_defaulted:
  assumes "parse_gpu_config g = Inl e"
  shows "pf_resources (request_function (build_function_create_request F a p
           (with_resources (default_resources\<lparr>gpu := Some g\<rparr>) s))) =
         Some \<lparr>rp_memory_mb = 0, rp_milli_cpu = 0,
               rp_gpu_config = Some \<lparr>gpu_type = [], count = 0, gpu_deprecated_type = 0\<rparr>\<rparr>"
  using assms
  by (simp add: with_resources_def resources_to_proto_def default_resources_def default_gpu_config_def)

lemma unchecked_gpu_is_defaulted_witness:
  "pf_resources (request_function (build_function_create_request whole_f32 ''ap-1'' ''fu-1''
           (with_resources (default_resources\<lparr>gpu := Some ''T4:x''\<rparr>) (new_function_spec ''app'' ''f'' ''im-1'')))) =
         Some \<lparr>rp_memory_mb = 0, rp_milli_cpu = 0,
               rp_gpu_config = Some \<lparr>gpu_type = [], count = 0, gpu_deprecated_type = 0\<rparr>\<rparr>"
proof (rule unchecked_gpu_is_defaulted)
  have "parse_u32 (trim ''x'') = None"
    by (simp add: parse_u32_def parse_uint_def parse_nat_def digit_val_def Let_def trim_def
        trim_start_matches_def trim_end_matches_def is_ws_def)
  then show "parse_gpu_config ''T4:x'' = Inl (Invalid (''Invalid GPU count: '' @ ''x'' @ ''. Value must be an integer.''))"
    by (simp add: parse_gpu_config_def)
qed

text \<open>The three function RPCs never hand out an empty id: a call that succeeds gives the id of a
  response of the control plane, and an empty id is a build error.\<close>

lemma function_ids_nonempty:
  "(case function_precreate h st app_id name w of
      Some (Inr fid, w') \<Rightarrow> fid \<noteq> [] \<and>
        (\<exists>w0. function_precreate_rpc st (build_function_precreate_request app_id name) w0 = Some (Inr fid, w'))
    | _ \<Rightarrow> True) \<and>
   (case function_create h F st app_id precreate_id spec w of
      Some (Inr c, w') \<Rightarrow> cf_function_id c \<noteq> [] \<and>
        (\<exists>w0 resp. function_create_rpc st (build_function_create_request F app_id precreate_id spec) w0
             = Some (Inr resp, w') \<and> fr_function_id resp = cf_function_id c)
    | _ \<Rightarrow> True) \<and>
   (case function_from_name h st cfg app_name name env w of
      Some (Inr fid, w') \<Rightarrow> fid \<noteq> [] \<and>
        (\<exists>w0. function_get_rpc st (build_function_get_request app_name name (env_or_default cfg env)) w0
             = Some (Inr fid, w'))
    | _ \<Rightarrow> True)"
proof (intro conjI)
  show "case function_precreate h st app_id name w of
      Some (Inr fid, w') \<Rightarrow> fid \<noteq> [] \<and>
        (\<exists>w0. function_precreate_rpc st (build_function_precreate_request app_id name) w0 = Some (Inr fid, w'))
    | _ \<Rightarrow> True"
    by (auto simp: function_precreate_def bind_io_Some_iff split: option.splits sum.splits if_splits
        dest!: unary.ok_from_stub)
  show "case function_create h F st app_id precreate_id spec w of
      Some (Inr c, w') \<Rightarrow> cf_function_id c \<noteq> [] \<and>
        (\<exists>w0 resp. function_create_rpc st (build_function_create_request F app_id precreate_id spec) w0
             = Some (Inr resp, w') \<and> fr_function_id resp = cf_function_id c)
    | _ \<Rightarrow> True"
    by (fastforce simp: function_create_def bind_io_Some_iff created_function_from_response_def Let_def
        split: option.splits sum.splits if_splits dest!: unary.ok_from_stub)
  show "case function_from_name h st cfg app_name name env w of
      Some (Inr fid, w') \<Rightarrow> fid \<noteq> [] \<and>
        (\<exists>w0. function_get_rpc st (build_function_get_request app_name name (env_or_default cfg env)) w0
             = Some (Inr fid, w'))
    | _ \<Rightarrow> True"
    by (auto simp: function_from_name_def bind_io_Some_iff split: option.splits sum.splits if_splits
        dest!: unary.ok_from_stub)
qed

end
