(* ===== verification/Planning.thy ===== *)
theory Planning
  imports FunctionRpc
begin

text \<open>
  The dry-run projection of a function create
  (\<open>crates/modal-rust-sdk/src/ops/planning.rs\<close>): the fields a dump shows, read back from the very
  request the live path sends.
\<close>

record 'f planned_function =
  pl_module_name :: string
  pl_function_name :: string
  pl_mount_ids_count :: nat
  pl_gpu :: "string option"
  pl_milli_cpu :: u32
  pl_memory_mb :: u32
  pl_timeout_secs :: u32
  pl_volume_mounts :: "(string \<times> string) list"
  pl_secret_ids_count :: nat
  pl_retries :: "u32 option"
  pl_retry_backoff_coefficient :: "'f option"
  pl_retry_initial_delay_ms :: "u32 option"
  pl_retry_max_delay_ms :: "u32 option"
  pl_schedule :: "string option"
  pl_min_containers :: "u32 option"
  pl_max_containers :: "u32 option"
  pl_buffer_containers :: "u32 option"
  pl_scaledown_window :: "u32 option"
  pl_checkpointing_enabled :: bool
  pl_webhook_method :: "string option"
  pl_webhook_requires_proxy_auth :: bool
  pl_supported_input_formats :: "string list"
  pl_supported_output_formats :: "string list"
  pl_function_data_is_none :: bool

definition data_format_name :: "int \<Rightarrow> string" where
  "data_format_name value =
     (if value = FORMAT_PICKLE then ''PICKLE'' else if value = FORMAT_CBOR then ''CBOR''
      else if value = FORMAT_ASGI then ''ASGI''
      else if value = FORMAT_GENERATOR_DONE then ''GENERATOR_DONE''
      else if value = 0 then ''UNSPECIFIED''
      else ''UNKNOWN('' @ dec_int value @ '')'')"

definition period_part :: "string \<Rightarrow> int \<Rightarrow> string list" where
  "period_part name v = (if v \<noteq> 0 then [name @ ''='' @ dec_int v] else [])"

definition render_schedule :: "'f f32_ops \<Rightarrow> 'f schedule_oneof \<Rightarrow> string" where
  "render_schedule F oneof =
     (case oneof of
        Cron c tz \<Rightarrow> ''cron('' @ c @ '' @ '' @ tz @ '')''
      | Period p \<Rightarrow>
          (let parts = period_part ''years'' (years p) @ period_part ''months'' (months p) @
                       period_part ''weeks'' (weeks p) @ period_part ''days'' (days p) @
                       period_part ''hours'' (hours p) @ period_part ''minutes'' (minutes p) @
                       (if \<not> f32_is_zero F (seconds p)
                        then [''seconds='' @ f32_show F (seconds p)] else [])
           in ''period('' @ join_with '','' parts @ '')''))"

definition plan_function_request ::
  "'f f32_ops \<Rightarrow> string \<Rightarrow> string \<Rightarrow> 'f function_spec \<Rightarrow> 'f planned_function option" where
  \<comment> \<open>\<open>None\<close> is the panic of \<open>expect\<close> on a request without a function\<close>
  "plan_function_request F app_id precreate_id spec =
     (let req = build_function_create_request F app_id precreate_id spec in
      map_option (\<lambda>fn.
        let gpu = Option.bind (pf_resources fn) (\<lambda>r. map_option gpu_type (rp_gpu_config r));
            autoscaler = pf_autoscaler_settings fn
        in \<lparr>pl_module_name = pf_module_name fn,
            pl_function_name = pf_function_name fn,
            pl_mount_ids_count = length (pf_mount_ids fn),
            pl_gpu = gpu,
            pl_milli_cpu = (case pf_resources fn of Some r \<Rightarrow> rp_milli_cpu r | None \<Rightarrow> 0),
            pl_memory_mb = (case pf_resources fn of Some r \<Rightarrow> rp_memory_mb r | None \<Rightarrow> 0),
            pl_timeout_secs = pf_timeout_secs fn,
            pl_volume_mounts = map (\<lambda>m. (vm_mount_path m, vm_volume_id m)) (pf_volume_mounts fn),
            pl_secret_ids_count = length (pf_secret_ids fn),
            pl_retries = map_option retries (pf_retry_policy fn),
            pl_retry_backoff_coefficient = map_option backoff_coefficient (pf_retry_policy fn),
            pl_retry_initial_delay_ms = map_option initial_delay_ms (pf_retry_policy fn),
            pl_retry_max_delay_ms = map_option max_delay_ms (pf_retry_policy fn),
            pl_schedule = map_option (render_schedule F) (Option.bind (pf_schedule fn) id),
            pl_min_containers = Option.bind autoscaler as_min_containers,
            pl_max_containers = Option.bind autoscaler as_max_containers,
            pl_buffer_containers = Option.bind autoscaler as_buffer_containers,
            pl_scaledown_window = Option.bind autoscaler as_scaledown_window,
            pl_checkpointing_enabled = pf_checkpointing_enabled fn,
            pl_webhook_method = map_option wc_method (pf_webhook_config fn),
            pl_webhook_requires_proxy_auth =
              (case pf_webhook_config fn of Some w \<Rightarrow> wc_requires_proxy_auth w | None \<Rightarrow> False),
            pl_supported_input_formats = map data_format_name (pf_supported_input_formats fn),
            pl_supported_output_formats = map data_format_name (pf_supported_output_formats fn),
            pl_function_data_is_none = (fc_function_data req = None)\<rparr>)
        (fc_function req))"

section \<open>Facts\<close>

lemma bind_autoscaler [simp]:
  "Option.bind (if autoscaler_is_empty a then None else Some (to_settings a)) as_min_containers = min_containers a"
  "Option.bind (if autoscaler_is_empty a then None else Some (to_settings a)) as_max_containers = max_containers a"
  "Option.bind (if autoscaler_is_empty a then None else Some (to_settings a)) as_buffer_containers = buffer_containers a"
  "Option.bind (if autoscaler_is_empty a then None else Some (to_settings a)) as_scaledown_window = scaledown_window a"
  by (auto simp: autoscaler_is_empty_def to_settings_def)

section \<open>Properties\<close>

text \<open>A dry run never fails and shows what the live request would send: every field equals the
  spec's, the autoscaler bounds are shown as declared, and the GPU is the parsed type.\<close>

lemma plan_shows_spec:
  "case plan_function_request F app_id precreate_id s of
     None \<Rightarrow> False
   | Some pl \<Rightarrow>
       pl_module_name pl = spec_module_name s \<and> pl_function_name pl = object_tag s \<and>
       pl_mount_ids_count pl = length (mount_ids s) \<and>
       pl_gpu pl = map_option gpu_type (rp_gpu_config (resources_to_proto (resources s))) \<and>
       pl_milli_cpu pl = milli_cpu (resources s) \<and> pl_memory_mb pl = memory_mb (resources s) \<and>
       pl_timeout_secs pl = timeout_secs s \<and>
       pl_volume_mounts pl = map (\<lambda>m. (mount_path m, volume_id m)) (volume_mounts s) \<and>
       pl_secret_ids_count pl = length (secret_ids s) \<and>
       pl_retries pl = map_option retries (retry_policy s) \<and>
       pl_schedule pl = map_option (render_schedule F) (Option.bind (schedule s) id) \<and>
       pl_min_containers pl = min_containers (autoscaler s) \<and>
       pl_max_containers pl = max_containers (autoscaler s) \<and>
       pl_buffer_containers pl = buffer_containers (autoscaler s) \<and>
       pl_scaledown_window pl = scaledown_window (autoscaler s) \<and>
       pl_checkpointing_enabled pl = checkpointing_enabled s \<and>
       pl_webhook_method pl = map_option (\<lambda>w. if wh_web_server_port w = None then wh_method w else []) (webhook s) \<and>
       pl_function_data_is_none pl"
proof -
  have "fc_function (build_function_create_request F app_id precreate_id s) =
    Some (request_function (build_function_create_request F app_id precreate_id s))"
    by (rule request_function_eq)
  then show ?thesis
    by (cases "webhook s"; cases "gpu (resources s)")
       (auto simp: plan_function_request_def Let_def resources_to_proto_def volume_mount_to_proto_def
         webhook_to_config_def split: option.splits)
qed

end
