(* ===== verification/Invoke.thy ===== *)
theory Invoke
  imports Retry "HOL-Library.AList"
begin

text \<open>
  Function invocation (\<open>crates/modal-rust-sdk/src/ops/invoke.rs\<close>) on the shared transport helpers
  (\<open>crates/modal-rust-sdk/src/ops/transport.rs\<close>): open a call, fall back to \<open>FunctionPutInputs\<close> when the
  input was not enqueued, poll for outputs up to a deadline, and collect a fan-out in input order.
  The CBOR codec is a pair of functions; the generated stub is a record of remote procedures.  A
  \<open>BTreeMap\<close> is an association list with distinct keys.
\<close>

section \<open>Messages\<close>

definition DATA_FORMAT_CBOR :: int where "DATA_FORMAT_CBOR = 4"

datatype data_format = DfUnspecified | DfPickle | DfAsgi | DfGeneratorDone | DfCbor

definition data_format_try_from :: "int \<Rightarrow> data_format option" where
  "data_format_try_from i =
     (if i = 0 then Some DfUnspecified else if i = 1 then Some DfPickle else if i = 2 then Some DfAsgi
      else if i = 3 then Some DfGeneratorDone else if i = 4 then Some DfCbor else None)"

fun data_format_str :: "data_format \<Rightarrow> string" where
  "data_format_str DfUnspecified = ''DATA_FORMAT_UNSPECIFIED''"
| "data_format_str DfPickle = ''DATA_FORMAT_PICKLE''"
| "data_format_str DfAsgi = ''DATA_FORMAT_ASGI''"
| "data_format_str DfGeneratorDone = ''DATA_FORMAT_GENERATOR_DONE''"
| "data_format_str DfCbor = ''DATA_FORMAT_CBOR''"

datatype call_type = Unary | Map
datatype invocation_type = Sync | Async

record function_input =
  fi_data_format :: int
  fi_final_input :: bool
  fi_method_name :: "string option"
  fi_args :: "bytes option"

record put_inputs_item =
  pi_idx :: i32
  pi_input :: "function_input option"

record function_map_request =
  fm_function_id :: string
  fm_call_type :: call_type
  fm_invocation_type :: invocation_type
  fm_pipelined_inputs :: "put_inputs_item list"

record accepted_input =
  ai_idx :: i32
  ai_input_id :: string

record function_map_response =
  mr_function_call_id :: string
  mr_pipelined_inputs :: "accepted_input list"

record put_inputs_request =
  pr_function_id :: string
  pr_function_call_id :: string
  pr_inputs :: "put_inputs_item list"

record get_outputs_request =
  go_function_call_id :: string
  go_max_values :: i32
  go_timeout_secs :: nat
  go_last_entry_id :: string
  go_clear_on_success :: bool
  go_start_idx :: "i32 option"
  go_end_idx :: "i32 option"

record outputs_item =
  oi_idx :: i32
  oi_data_format :: int
  oi_result :: "generic_result option"

record get_outputs_response =
  or_outputs :: "outputs_item list"
  or_last_entry_id :: string

record 'w invoke_stub =
  function_map_rpc :: "('w, function_map_request, function_map_response) rpc"
  function_put_inputs_rpc :: "('w, put_inputs_request, accepted_input list) rpc"
  function_get_outputs_rpc :: "('w, get_outputs_request, get_outputs_response) rpc"

definition OUTPUTS_TIMEOUT_SECS :: nat where "OUTPUTS_TIMEOUT_SECS = 55"
definition LAST_ENTRY_ID_INITIAL :: string where "LAST_ENTRY_ID_INITIAL = ''0-0''"
definition DEFAULT_INVOKE_DEADLINE :: nat where "DEFAULT_INVOKE_DEADLINE = secs 600"

section \<open>Request builders\<close>

definition build_function_map_request ::
  "string \<Rightarrow> call_type \<Rightarrow> invocation_type \<Rightarrow> put_inputs_item list \<Rightarrow> function_map_request" where
  "build_function_map_request fid ct it pipelined =
     \<lparr>fm_function_id = fid, fm_call_type = ct, fm_invocation_type = it, fm_pipelined_inputs = pipelined\<rparr>"

definition build_function_put_inputs_request ::
  "string \<Rightarrow> string \<Rightarrow> put_inputs_item list \<Rightarrow> put_inputs_request" where
  "build_function_put_inputs_request fid cid inputs =
     \<lparr>pr_function_id = fid, pr_function_call_id = cid, pr_inputs = inputs\<rparr>"

definition build_function_get_outputs_request ::
  "string \<Rightarrow> i32 \<Rightarrow> string \<Rightarrow> i32 option \<Rightarrow> get_outputs_request" where
  "build_function_get_outputs_request cid max_values last_entry_id index =
     \<lparr>go_function_call_id = cid, go_max_values = max_values, go_timeout_secs = OUTPUTS_TIMEOUT_SECS,
      go_last_entry_id = last_entry_id, go_clear_on_success = True, go_start_idx = index,
      go_end_idx = index\<rparr>"

definition cbor_item :: "nat \<Rightarrow> bytes \<Rightarrow> put_inputs_item" where
  "cbor_item i args =
     \<lparr>pi_idx = of_nat i,
      pi_input = Some \<lparr>fi_data_format = DATA_FORMAT_CBOR, fi_final_input = False,
                       fi_method_name = None, fi_args = Some args\<rparr>\<rparr>"

section \<open>Transport helpers\<close>

definition enqueue_pipelined ::
  "'w host \<Rightarrow> 'w invoke_stub \<Rightarrow> string \<Rightarrow> invocation_type \<Rightarrow> put_inputs_item \<Rightarrow> ('w, string) io" where
  "enqueue_pipelined h st fid it item =
     bind_io (retry_rpc h (function_map_rpc st) (build_function_map_request fid Unary it [item]))
       (\<lambda>mp. let cid = mr_function_call_id mp in
          if cid = [] then throw (Build ''FunctionMap returned an empty function_call_id'')
          else if mr_pipelined_inputs mp = []
          then bind_io (retry_rpc h (function_put_inputs_rpc st)
                          (build_function_put_inputs_request fid cid [item]))
                 (\<lambda>inputs. if inputs = []
                           then throw (Build ''FunctionPutInputs accepted no inputs (input queue full?)'')
                           else ret cid)
          else ret cid)"

definition poll_one_output ::
  "'w host \<Rightarrow> 'w invoke_stub \<Rightarrow> string \<Rightarrow> i32 \<Rightarrow> string \<Rightarrow> i32 option \<Rightarrow>
     ('w, get_outputs_response \<times> string) io" where
  \<comment> \<open>the response and the advanced cursor\<close>
  "poll_one_output h st cid max_values last_entry_id index =
     bind_io (retry_rpc h (function_get_outputs_rpc st)
                (build_function_get_outputs_request cid max_values last_entry_id index))
       (\<lambda>resp. ret (resp, if or_last_entry_id resp \<noteq> [] then or_last_entry_id resp else last_entry_id))"

section \<open>Decoding one output\<close>

record invocation =
  inv_data :: bytes
  inv_data_format :: data_format

definition decode_cbor :: "(bytes \<Rightarrow> error + 'r) \<Rightarrow> invocation \<Rightarrow> error + 'r" where
  "decode_cbor decode iv =
     (if inv_data_format iv \<noteq> DfCbor
      then Inl (Codec (''expected CBOR output, got '' @ data_format_str (inv_data_format iv)))
      else decode (inv_data iv))"

text \<open>What both polls do with one output item: its invocation, or \<open>None\<close> to keep polling.\<close>

definition blob_unsupported :: error where
  "blob_unsupported = Build (''function returned a blob result; blob fetch is not yet implemented''
     @ '' (inline results only for now)'')"

definition read_output :: "string \<Rightarrow> outputs_item \<Rightarrow> error + invocation option" where
  "read_output context item =
     (let df = (case data_format_try_from (oi_data_format item) of
                  Some f \<Rightarrow> f | None \<Rightarrow> DfUnspecified) in
      and_then (ok_or (oi_result item) (Build ''FunctionGetOutputs item had no result''))
        (\<lambda>result. case result_status (Some result) of
           Success \<Rightarrow>
             (case gr_data_oneof result of
                Some (Data b) \<Rightarrow> Inr (Some \<lparr>inv_data = b, inv_data_format = df\<rparr>)
              | Some (DataBlobId _) \<Rightarrow> Inl blob_unsupported
              | None \<Rightarrow> Inr (Some \<lparr>inv_data = [], inv_data_format = df\<rparr>))
         | Failure st \<Rightarrow> Inl (Build (describe_failure context st result))
         | Pending \<Rightarrow> Inr None))"

section \<open>Polling one output\<close>

definition poll_outputs_step ::
  "'w host \<Rightarrow> 'w invoke_stub \<Rightarrow> string \<Rightarrow> i32 option \<Rightarrow> nat \<Rightarrow> nat \<Rightarrow> string \<times> 'w \<Rightarrow>
     ((string \<times> 'w) + (error + invocation) \<times> 'w) option" where
  "poll_outputs_step h st cid index started deadline = (\<lambda>(last_entry_id, w).
     if deadline < elapsed h started w
     then Some (Inr (Inl (Deadline (''function call '' @ cid @ '' produced no output within ''
                @ dec (deadline div secs 1) @ ''s'')), w))
     else case poll_one_output h st cid 1 last_entry_id index w of
            None \<Rightarrow> None
          | Some (Inl e, w1) \<Rightarrow> Some (Inr (Inl e, w1))
          | Some (Inr (resp, cursor), w1) \<Rightarrow>
              (case or_outputs resp of
                 [] \<Rightarrow> Some (Inl (cursor, w1))
               | item # _ \<Rightarrow>
                   (if index \<noteq> None \<and> index \<noteq> Some (oi_idx item) then Some (Inl (cursor, w1))
                    else case read_output ''function call'' item of
                           Inl e \<Rightarrow> Some (Inr (Inl e, w1))
                         | Inr (Some iv) \<Rightarrow> Some (Inr (Inr iv, w1))
                         | Inr None \<Rightarrow> Some (Inl (cursor, w1)))))"

definition poll_outputs_indexed ::
  "'w host \<Rightarrow> 'w invoke_stub \<Rightarrow> string \<Rightarrow> i32 option \<Rightarrow> nat \<Rightarrow> ('w, invocation) io" where
  "poll_outputs_indexed h st cid index deadline w =
     loop (poll_outputs_step h st cid index (instant_now h w) deadline) (LAST_ENTRY_ID_INITIAL, w)"

section \<open>Unary calls\<close>

definition invoke_raw_with_deadline ::
  "'w host \<Rightarrow> 'w invoke_stub \<Rightarrow> string \<Rightarrow> bytes \<Rightarrow> nat \<Rightarrow> ('w, invocation) io" where
  "invoke_raw_with_deadline h st fid args deadline =
     bind_io (enqueue_pipelined h st fid Sync (cbor_item 0 args))
       (\<lambda>cid. poll_outputs_indexed h st cid None deadline)"

definition invoke_raw :: "'w host \<Rightarrow> 'w invoke_stub \<Rightarrow> string \<Rightarrow> bytes \<Rightarrow> ('w, invocation) io" where
  "invoke_raw h st fid args = invoke_raw_with_deadline h st fid args DEFAULT_INVOKE_DEADLINE"

definition invoke_cbor_with_deadline ::
  "'w host \<Rightarrow> 'w invoke_stub \<Rightarrow> ('a \<times> 'k \<Rightarrow> error + bytes) \<Rightarrow> (bytes \<Rightarrow> error + 'r) \<Rightarrow> string \<Rightarrow>
     'a \<Rightarrow> 'k \<Rightarrow> nat \<Rightarrow> ('w, 'r) io" where
  "invoke_cbor_with_deadline h st encode decode fid args kwargs deadline =
     bind_io (lift_res (encode (args, kwargs)))
       (\<lambda>encoded. bind_io (invoke_raw_with_deadline h st fid encoded deadline)
          (\<lambda>iv. lift_res (decode_cbor decode iv)))"

definition invoke_cbor ::
  "'w host \<Rightarrow> 'w invoke_stub \<Rightarrow> ('a \<times> 'k \<Rightarrow> error + bytes) \<Rightarrow> (bytes \<Rightarrow> error + 'r) \<Rightarrow> string \<Rightarrow>
     'a \<Rightarrow> 'k \<Rightarrow> ('w, 'r) io" where
  "invoke_cbor h st encode decode fid args kwargs =
     invoke_cbor_with_deadline h st encode decode fid args kwargs DEFAULT_INVOKE_DEADLINE"

definition spawn_raw :: "'w host \<Rightarrow> 'w invoke_stub \<Rightarrow> string \<Rightarrow> bytes \<Rightarrow> ('w, string) io" where
  "spawn_raw h st fid args =
     bind_io (enqueue_pipelined h st fid Async (cbor_item 0 args)) ret"

definition spawn_cbor ::
  "'w host \<Rightarrow> 'w invoke_stub \<Rightarrow> ('a \<times> 'k \<Rightarrow> error + bytes) \<Rightarrow> string \<Rightarrow> 'a \<Rightarrow> 'k \<Rightarrow> ('w, string) io" where
  "spawn_cbor h st encode fid args kwargs =
     bind_io (lift_res (encode (args, kwargs))) (spawn_raw h st fid)"

definition get_by_call_raw ::
  "'w host \<Rightarrow> 'w invoke_stub \<Rightarrow> string \<Rightarrow> i32 \<Rightarrow> nat \<Rightarrow> ('w, invocation) io" where
  "get_by_call_raw h st cid index deadline = poll_outputs_indexed h st cid (Some index) deadline"

definition get_by_call_cbor ::
  "'w host \<Rightarrow> 'w invoke_stub \<Rightarrow> (bytes \<Rightarrow> error + 'r) \<Rightarrow> string \<Rightarrow> i32 \<Rightarrow> nat \<Rightarrow> ('w, 'r) io" where
  "get_by_call_cbor h st decode cid index deadline =
     bind_io (get_by_call_raw h st cid index deadline) (\<lambda>iv. lift_res (decode_cbor decode iv))"

section \<open>Fan-out\<close>

definition encode_inputs ::
  "('a \<times> 'k \<Rightarrow> error + bytes) \<Rightarrow> ('a \<times> 'k) list \<Rightarrow> error + put_inputs_item list" where
  "encode_inputs encode inputs =
     try_fold (\<lambda>(i, x) items. and_then (encode x) (\<lambda>b. Inr (items @ [cbor_item i b])))
       (List.enumerate 0 inputs) []"

definition open_map_and_enqueue ::
  "'w host \<Rightarrow> 'w invoke_stub \<Rightarrow> ('a \<times> 'k \<Rightarrow> error + bytes) \<Rightarrow> string \<Rightarrow> invocation_type \<Rightarrow>
     ('a \<times> 'k) list \<Rightarrow> ('w, string) io" where
  "open_map_and_enqueue h st encode fid it inputs =
     bind_io (retry_rpc h (function_map_rpc st) (build_function_map_request fid Map it []))
       (\<lambda>mp. let cid = mr_function_call_id mp in
          if cid = [] then throw (Build ''FunctionMap (MAP) returned an empty function_call_id'')
          else bind_io (lift_res (encode_inputs encode inputs))
            (\<lambda>items. bind_io (retry_rpc h (function_put_inputs_rpc st)
                               (build_function_put_inputs_request fid cid items))
               (\<lambda>accepted. if length accepted < length inputs
                  then throw (Build (''FunctionPutInputs accepted '' @ dec (length accepted) @ '' of ''
                         @ dec (length inputs) @ '' inputs (input queue full?)''))
                  else ret cid)))"

definition map_collect_item ::
  "(bytes \<Rightarrow> error + 'r) \<Rightarrow> outputs_item \<Rightarrow> (i32 \<times> 'r) list \<Rightarrow> error + (i32 \<times> 'r) list" where
  "map_collect_item decode item got =
     and_then (read_output ''map function call'' item)
       (\<lambda>x. case x of
              None \<Rightarrow> Inr got
            | Some iv \<Rightarrow> and_then (decode_cbor decode iv) (\<lambda>r. Inr (AList.update (oi_idx item) r got)))"

definition reassemble_item ::
  "nat \<Rightarrow> nat \<Rightarrow> (i32 \<times> 'r) list \<times> 'r list \<Rightarrow> error + (i32 \<times> 'r) list \<times> 'r list" where
  "reassemble_item n i = (\<lambda>(got, out).
     case map_of got (of_nat i) of
       Some v \<Rightarrow> Inr (AList.delete (of_nat i) got, out @ [v])
     | None \<Rightarrow> Inl (Build (''map output reassembly is missing index '' @ dec i @ '' of '' @ dec n)))"

definition reassemble_in_order :: "(i32 \<times> 'r) list \<Rightarrow> nat \<Rightarrow> error + 'r list" where
  "reassemble_in_order got n =
     and_then (try_fold (reassemble_item n) [0..<n] (got, [])) (\<lambda>(_, out). Inr out)"

definition map_step ::
  "'w host \<Rightarrow> 'w invoke_stub \<Rightarrow> (bytes \<Rightarrow> error + 'r) \<Rightarrow> string \<Rightarrow> nat \<Rightarrow> nat \<Rightarrow> nat \<Rightarrow>
     ((i32 \<times> 'r) list \<times> string) \<times> 'w \<Rightarrow>
     ((((i32 \<times> 'r) list \<times> string) \<times> 'w) + (error + 'r list) \<times> 'w) option" where
  "map_step h st decode cid n started deadline = (\<lambda>((got, last_entry_id), w).
     if n \<le> length got then Some (Inr (reassemble_in_order got n, w))
     else if deadline < elapsed h started w
     then Some (Inr (Inl (Deadline (''map call '' @ cid @ '' produced '' @ dec (length got) @ '' of ''
                @ dec n @ '' outputs within '' @ dec (deadline div secs 1) @ ''s'')), w))
     else case poll_one_output h st cid (of_nat n) last_entry_id None w of
            None \<Rightarrow> None
          | Some (Inl e, w1) \<Rightarrow> Some (Inr (Inl e, w1))
          | Some (Inr (resp, cursor), w1) \<Rightarrow>
              (case try_fold (map_collect_item decode) (or_outputs resp) got of
                 Inl e \<Rightarrow> Some (Inr (Inl e, w1))
               | Inr got' \<Rightarrow> Some (Inl ((got', cursor), w1))))"

definition map_cbor ::
  "'w host \<Rightarrow> 'w invoke_stub \<Rightarrow> ('a \<times> 'k \<Rightarrow> error + bytes) \<Rightarrow> (bytes \<Rightarrow> error + 'r) \<Rightarrow> string \<Rightarrow>
     ('a \<times> 'k) list \<Rightarrow> nat \<Rightarrow> ('w, 'r list) io" where
  "map_cbor h st encode decode fid inputs deadline =
     (if inputs = [] then ret []
      else bind_io (open_map_and_enqueue h st encode fid Sync inputs)
        (\<lambda>cid w. loop (map_step h st decode cid (length inputs) (instant_now h w) deadline)
                   (([], LAST_ENTRY_ID_INITIAL), w)))"

definition spawn_map_cbor ::
  "'w host \<Rightarrow> 'w invoke_stub \<Rightarrow> ('a \<times> 'k \<Rightarrow> error + bytes) \<Rightarrow> string \<Rightarrow> ('a \<times> 'k) list \<Rightarrow>
     ('w, string \<times> nat) io" where
  "spawn_map_cbor h st encode fid inputs =
     (if inputs = [] then throw (Invalid ''spawn_map called with zero inputs'')
      else bind_io (open_map_and_enqueue h st encode fid Async inputs)
             (\<lambda>cid. ret (cid, length inputs)))"

section \<open>Facts about one output\<close>

lemma read_output_Some:
  "read_output ctx item = Inr (Some iv) \<longleftrightarrow>
     (\<exists>g. oi_result item = Some g \<and> gr_status g = 1 \<and>
        iv = \<lparr>inv_data = (case gr_data_oneof g of Some (Data b) \<Rightarrow> b | _ \<Rightarrow> []),
             inv_data_format = (case data_format_try_from (oi_data_format item) of
                                  Some f \<Rightarrow> f | None \<Rightarrow> DfUnspecified)\<rparr> \<and>
        (\<forall>b. gr_data_oneof g \<noteq> Some (DataBlobId b)))"
proof (cases "oi_result item")
  case (Some g)
  have st: "gr_status g = 1 \<longleftrightarrow> result_status (Some g) = Success"
    by (simp add: result_status_Success_iff)
  show ?thesis
    unfolding read_output_def Let_def Some ok_or_simps and_then_simps
    by (cases "result_status (Some g)"; cases "gr_data_oneof g")
       (auto simp: st split: result_data.splits)
qed (simp add: read_output_def)

text \<open>An output the server reports as failed, or as a blob, is never taken for a value.\<close>

lemma read_output_failure:
  "oi_result item = Some g \<Longrightarrow> result_status (Some g) = Failure st \<Longrightarrow>
     read_output ctx item = Inl (Build (describe_failure ctx st g))"
  by (simp add: read_output_def Let_def)

lemma read_output_error_Build: "read_output ctx item = Inl e \<Longrightarrow> \<exists>m. e = Build m"
proof (cases "oi_result item")
  case (Some g)
  assume "read_output ctx item = Inl e"
  with Some show ?thesis
    by (cases "result_status (Some g)")
       (auto simp: read_output_def Let_def blob_unsupported_def split: option.splits result_data.splits)
qed (auto simp: read_output_def)

section \<open>Facts about enqueueing and polling\<close>

lemma enqueue_ok:
  assumes "enqueue_pipelined h st fid it item w = Some (Inr cid, w')"
  obtains mp w1 where
    "retry_rpc h (function_map_rpc st) (build_function_map_request fid Unary it [item]) w = Some (Inr mp, w1)"
    "cid = mr_function_call_id mp" "cid \<noteq> []"
    "(mr_pipelined_inputs mp \<noteq> [] \<and> w' = w1) \<or>
     (\<exists>inputs. inputs \<noteq> [] \<and> mr_pipelined_inputs mp = [] \<and> retry_rpc h (function_put_inputs_rpc st)
        (build_function_put_inputs_request fid cid [item]) w1 = Some (Inr inputs, w'))"
  using assms
  by (auto simp: enqueue_pipelined_def Let_def bind_io_Inr_iff split: if_splits)

lemma poll_one_output_ok:
  "poll_one_output h st cid k cur index w = Some (Inr (resp, cur'), w') \<longleftrightarrow>
     retry_rpc h (function_get_outputs_rpc st) (build_function_get_outputs_request cid k cur index) w
       = Some (Inr resp, w') \<and>
     cur' = (if or_last_entry_id resp \<noteq> [] then or_last_entry_id resp else cur)"
  by (auto simp: poll_one_output_def bind_io_Inr_iff)

text \<open>A response of the server to one of the polls of a call.\<close>

definition served :: "'w invoke_stub \<Rightarrow> string \<Rightarrow> i32 option \<Rightarrow> get_outputs_response \<Rightarrow> bool" where
  "served st cid index resp \<longleftrightarrow>
     (\<exists>k cur w w'. function_get_outputs_rpc st (build_function_get_outputs_request cid k cur index) w
        = Some (Inr resp, w'))"

lemma poll_one_output_served:
  "poll_one_output h st cid k cur index w = Some (Inr (resp, cur'), w') \<Longrightarrow> served st cid index resp"
  unfolding served_def by (meson poll_one_output_ok unary.ok_from_stub)

lemma poll_outputs_step_result:
  "poll_outputs_step h st cid index started deadline (cur, w) = Some (Inr (Inr iv, w')) \<Longrightarrow>
     \<exists>resp item rest. served st cid index resp \<and> or_outputs resp = item # rest \<and>
       (index = None \<or> index = Some (oi_idx item)) \<and> read_output ''function call'' item = Inr (Some iv)"
  by (fastforce simp: poll_outputs_step_def dest!: poll_one_output_served
      split: if_splits option.splits sum.splits list.splits)

text \<open>Both polls are deadline-guarded loops.\<close>

lemma outputs_deadline:
  "started + deadline < instant_now h w \<Longrightarrow>
     \<exists>r. poll_outputs_step h st cid index started deadline (cur, w) = Some (Inr r)"
  by (auto dest: elapsed_gt simp: poll_outputs_step_def)

lemma map_deadline:
  "started + deadline < instant_now h w \<Longrightarrow>
     \<exists>r. map_step h st decode cid n started deadline (s, w) = Some (Inr r)"
  by (cases s) (auto dest: elapsed_gt simp: map_step_def)

interpretation outputs_poll: deadline_poll "poll_outputs_step h st cid index started deadline" h "started + deadline"
  for h :: "'w host" and st cid index started deadline
  by unfold_locales (rule outputs_deadline)

interpretation map_poll: deadline_poll "map_step h st decode cid n started deadline" h "started + deadline"
  for h :: "'w host" and st and decode :: "bytes \<Rightarrow> error + 'r" and cid n started deadline
  by unfold_locales (rule map_deadline)

lemma live_poll_one_output:
  assumes "forward_clock h" "live_rpc h (function_get_outputs_rpc st)"
  obtains r w' where "poll_one_output h st cid k cur index w = Some (r, w')"
    "instant_now h w < instant_now h w'"
proof -
  obtain r w' where run: "retry_rpc h (function_get_outputs_rpc st)
      (build_function_get_outputs_request cid k cur index) w = Some (r, w')"
    and tick: "instant_now h w < instant_now h w'"
    using live_retry_rpc [OF assms] by metis
  have "\<exists>r'. poll_one_output h st cid k cur index w = Some (r', w')"
    by (cases r) (simp_all add: poll_one_output_def bind_io_def ret_def run)
  with tick that show thesis by blast
qed

lemma live_poll_ticks:
  assumes "forward_clock h" "live_rpc h (function_get_outputs_rpc st)"
    and "poll_one_output h st cid k cur index w = Some (r, w')"
  shows "instant_now h w < instant_now h w'"
  by (rule live_poll_one_output [OF assms(1,2), of cid k cur index w]) (simp add: assms(3))

text \<open>A round of either poll goes on only through an answered poll.\<close>

lemma poll_outputs_step_again:
  "poll_outputs_step h st cid index started deadline (cur, w) = Some (Inl (cur', w')) \<Longrightarrow>
     \<exists>resp. poll_one_output h st cid 1 cur index w = Some (Inr (resp, cur'), w')"
  by (auto simp: poll_outputs_step_def split: if_splits option.splits sum.splits list.splits)

lemma poll_outputs_step_defined:
  "poll_one_output h st cid 1 cur index w \<noteq> None \<Longrightarrow>
     poll_outputs_step h st cid index started deadline (cur, w) \<noteq> None"
  by (auto simp: poll_outputs_step_def split: sum.splits list.splits option.splits)

lemma map_step_again:
  "map_step h st decode cid n started deadline ((got, cur), w) = Some (Inl ((got', cur'), w')) \<Longrightarrow>
     \<exists>resp. poll_one_output h st cid (of_nat n) cur None w = Some (Inr (resp, cur'), w') \<and>
       try_fold (map_collect_item decode) (or_outputs resp) got = Inr got'"
  by (auto simp: map_step_def split: if_splits option.splits sum.splits)

lemma map_step_defined:
  "poll_one_output h st cid (of_nat n) cur None w \<noteq> None \<Longrightarrow>
     map_step h st decode cid n started deadline ((got, cur), w) \<noteq> None"
  by (auto simp: map_step_def split: sum.splits)

lemma poll_outputs_returns:
  assumes "forward_clock h" "live_rpc h (function_get_outputs_rpc st)"
  shows "\<exists>r. poll_outputs_indexed h st cid index deadline w = Some r"
  unfolding poll_outputs_indexed_def
proof (rule outputs_poll.poll_returns [where P = "\<lambda>_. True"])
  show "poll_outputs_step h st cid index (instant_now h w) deadline (s, w1) \<noteq> None" for s w1
    by (rule live_poll_one_output [OF assms, of cid 1 s index w1]) (simp add: poll_outputs_step_defined)
next
  fix s w1 s' w2
  assume "poll_outputs_step h st cid index (instant_now h w) deadline (s, w1) = Some (Inl (s', w2))"
  then obtain resp where "poll_one_output h st cid 1 s index w1 = Some (Inr (resp, s'), w2)"
    by (blast dest: poll_outputs_step_again)
  then show "True \<and> instant_now h w1 < instant_now h w2"
    by (blast intro: live_poll_ticks [OF assms])
qed simp

section \<open>Facts about the fan-out\<close>

lemma keys_AList_update: "distinct (map fst m) \<Longrightarrow> distinct (map fst (AList.update k v m))"
  by (rule distinct_update)

lemma map_collect_item_Inr:
  "map_collect_item decode item got = Inr got' \<longleftrightarrow>
     (read_output ''map function call'' item = Inr None \<and> got' = got) \<or>
     (\<exists>iv r. read_output ''map function call'' item = Inr (Some iv) \<and> decode_cbor decode iv = Inr r \<and>
        got' = AList.update (oi_idx item) r got)"
  by (auto simp: map_collect_item_def and_then_Inr_iff split: option.splits)

text \<open>Reassembly reads the indices \<open>0, \<dots>, n - 1\<close> in order.\<close>

lemma of_nat_i32_inj: "i < 2 ^ 32 \<Longrightarrow> j < 2 ^ 32 \<Longrightarrow> (of_nat i :: i32) = of_nat j \<longleftrightarrow> i = j"
  by (simp add: word_of_nat_eq_iff take_bit_nat_eq_self)

lemma reassemble_item_Inr:
  "reassemble_item n i (got, out) = Inr x \<longleftrightarrow>
     (\<exists>v. map_of got (of_nat i) = Some v \<and> x = (AList.delete (of_nat i) got, out @ [v]))"
  by (auto simp: reassemble_item_def split: option.splits)

lemma reassemble_item_present:
  "map_of got (of_nat i) = Some v \<Longrightarrow>
     reassemble_item n i (got, out) = Inr (AList.delete (of_nat i) got, out @ [v])"
  by (simp add: reassemble_item_def)

lemma reassemble_loop:
  assumes "distinct ks" "\<And>i. i \<in> set ks \<Longrightarrow> i < 2 ^ 32"
    and "\<And>i. i \<in> set ks \<Longrightarrow> map_of got (of_nat i) = Some (f i)"
  shows "\<exists>got'. try_fold (reassemble_item n) ks (got, out) = Inr (got', out @ map f ks)"
  using assms
proof (induction ks arbitrary: got out)
  case (Cons k ks)
  have "map_of (AList.delete (of_nat k) got) (of_nat i) = Some (f i)" if "i \<in> set ks" for i
  proof -
    have "i \<noteq> k" using Cons.prems(1) that by auto
    then have "(of_nat i :: i32) \<noteq> of_nat k"
      using of_nat_i32_inj Cons.prems(2) that by simp
    then show ?thesis using Cons.prems(3) [of i] that by (simp add: delete_conv)
  qed
  moreover have "distinct ks" "\<And>i. i \<in> set ks \<Longrightarrow> i < 2 ^ 32" using Cons.prems by auto
  ultimately obtain got' where
    "try_fold (reassemble_item n) ks (AList.delete (of_nat k) got, out @ [f k]) =
       Inr (got', (out @ [f k]) @ map f ks)"
    using Cons.IH by blast
  with Cons.prems(3) [of k] show ?case by (simp add: reassemble_item_present)
qed simp

lemma reassemble_complete:
  assumes "n \<le> 2 ^ 32" "\<And>i. i < n \<Longrightarrow> map_of got (of_nat i) = Some (f i)"
  shows "reassemble_in_order got n = Inr (map f [0..<n])"
proof -
  obtain got' where "try_fold (reassemble_item n) [0..<n] (got, []) = Inr (got', [] @ map f [0..<n])"
    using reassemble_loop [of "[0..<n]" got f n "[]"] assms by auto
  then show ?thesis by (simp add: reassemble_in_order_def)
qed

lemma reassemble_present:
  assumes "try_fold (reassemble_item n) ks (got, out) = Inr x" "i \<in> set ks"
  shows "map_of got (of_nat i) \<noteq> None"
  using assms
proof (induction ks arbitrary: got out)
  case (Cons k ks)
  from Cons.prems(1) obtain v where v: "map_of got (of_nat k) = Some v"
    and rest: "try_fold (reassemble_item n) ks (AList.delete (of_nat k) got, out @ [v]) = Inr x"
    by (auto simp: and_then_Inr_iff reassemble_item_Inr)
  show ?case
  proof (cases "i = k")
    case False
    with Cons.IH [OF rest] Cons.prems(2) have "map_of (AList.delete (of_nat k) got) (of_nat i) \<noteq> None"
      by simp
    then show ?thesis by (simp add: delete_conv split: if_splits)
  qed (simp add: v)
qed simp

lemma reassemble_Inr:
  assumes "reassemble_in_order got n = Inr rs" "n \<le> 2 ^ 32"
  shows "rs = map (\<lambda>i. the (map_of got (of_nat i))) [0..<n] \<and> (\<forall>i<n. map_of got (of_nat i) \<noteq> None)"
proof -
  have all: "map_of got (of_nat i) \<noteq> None" if "i < n" for i
    using assms(1) that reassemble_present [where ks = "[0..<n]" and got = got]
    by (auto simp: reassemble_in_order_def and_then_Inr_iff)
  then have "reassemble_in_order got n = Inr (map (\<lambda>i. the (map_of got (of_nat i))) [0..<n])"
    using assms(2) by (intro reassemble_complete) auto
  with assms(1) all show ?thesis by simp
qed

text \<open>Collecting: each index keeps the value decoded from an item with that index.\<close>

definition decodes_to :: "(bytes \<Rightarrow> error + 'r) \<Rightarrow> outputs_item \<Rightarrow> 'r \<Rightarrow> bool" where
  "decodes_to decode item r \<longleftrightarrow>
     (\<exists>iv. read_output ''map function call'' item = Inr (Some iv) \<and> decode_cbor decode iv = Inr r)"

lemma map_collect_decodes: "decodes_to decode item r \<Longrightarrow>
    map_collect_item decode item got = Inr (AList.update (oi_idx item) r got)"
  by (auto simp: decodes_to_def map_collect_item_def)

lemma map_collect_sound:
  assumes "try_fold (map_collect_item decode) items got = Inr got'" "map_of got' k = Some r"
  shows "map_of got k = Some r \<or> (\<exists>item\<in>set items. oi_idx item = k \<and> decodes_to decode item r)"
  using assms
proof (induction items arbitrary: got)
  case (Cons x xs)
  then obtain g where g: "map_collect_item decode x got = Inr g"
    "try_fold (map_collect_item decode) xs g = Inr got'" by (auto simp: and_then_Inr_iff)
  with Cons have "map_of g k = Some r \<or> (\<exists>item\<in>set xs. oi_idx item = k \<and> decodes_to decode item r)"
    by blast
  with g(1) show ?case
    by (auto simp: map_collect_item_Inr decodes_to_def update_conv' split: if_splits)
qed simp

lemma map_collect_complete:
  assumes "\<And>item. item \<in> set items \<Longrightarrow> decodes_to decode item (f (oi_idx item))"
  shows "\<exists>got'. try_fold (map_collect_item decode) items got = Inr got' \<and>
           (\<forall>k. map_of got' k = (if k \<in> oi_idx ` set items then Some (f k) else map_of got k))"
  using assms
proof (induction items arbitrary: got)
  case (Cons x xs)
  obtain got' where "try_fold (map_collect_item decode) xs (AList.update (oi_idx x) (f (oi_idx x)) got) = Inr got'"
    "\<forall>k. map_of got' k = (if k \<in> oi_idx ` set xs then Some (f k)
                          else map_of (AList.update (oi_idx x) (f (oi_idx x)) got) k)"
    using Cons by (metis list.set_intros(2))
  with map_collect_decodes [OF Cons.prems [of x]] show ?case by (auto simp: update_conv')
qed simp

text \<open>The loop of a fan-out: whatever it has gathered came from the server under its index.\<close>

definition gathered :: "'w invoke_stub \<Rightarrow> (bytes \<Rightarrow> error + 'r) \<Rightarrow> string \<Rightarrow> (i32 \<times> 'r) list \<Rightarrow> bool" where
  "gathered st decode cid got \<longleftrightarrow>
     (\<forall>k r. map_of got k = Some r \<longrightarrow>
        (\<exists>resp item. served st cid None resp \<and> item \<in> set (or_outputs resp) \<and> oi_idx item = k \<and>
           decodes_to decode item r))"

lemma map_step_gathers:
  "map_step h st decode cid n started deadline ((got, cur), w) = Some (Inl ((got', cur'), w')) \<Longrightarrow>
     gathered st decode cid got \<Longrightarrow> gathered st decode cid got'"
  unfolding gathered_def
  by (fastforce simp: map_step_def dest!: poll_one_output_served dest: map_collect_sound
      split: if_splits option.splits sum.splits)

lemma map_step_result:
  "map_step h st decode cid n started deadline ((got, cur), w) = Some (Inr (Inr rs, w')) \<Longrightarrow>
     reassemble_in_order got n = Inr rs"
  by (auto simp: map_step_def split: if_splits option.splits sum.splits)

lemma map_reaches_gathered:
  assumes "reaches (map_step h st decode cid n started deadline) (([], cur0), w0) s"
  shows "gathered st decode cid (fst (fst s))"
  using assms
proof (induction rule: reaches.induct)
  case start
  then show ?case by (simp add: gathered_def)
next
  case (step s s')
  obtain got cur w got' cur' w' where "s = ((got, cur), w)" "s' = ((got', cur'), w')"
    by (metis prod.exhaust)
  with step show ?case by (auto dest: map_step_gathers)
qed

lemma map_loop_result:
  assumes "loop (map_step h st decode cid n started deadline) (([], cur0), w0) = Some (Inr rs, w')"
  obtains got where "gathered st decode cid got" "reassemble_in_order got n = Inr rs"
proof -
  from loop_ends [OF assms] obtain s where
    s: "reaches (map_step h st decode cid n started deadline) (([], cur0), w0) s"
       "map_step h st decode cid n started deadline s = Some (Inr (Inr rs, w'))" by blast
  obtain got cur w where "s = ((got, cur), w)" by (metis prod.exhaust)
  with s map_reaches_gathered [OF s(1)] show thesis
    by (auto dest: map_step_result intro: that)
qed

lemma map_loop_returns:
  assumes "forward_clock h" "live_rpc h (function_get_outputs_rpc st)"
  shows "\<exists>r. loop (map_step h st decode cid n (instant_now h w) deadline) ((got, cur), w) = Some r"
proof (rule map_poll.poll_returns [where P = "\<lambda>_. True"])
  fix s :: "(i32 \<times> 'b) list \<times> string" and w1
  obtain got cur where s: "s = (got, cur)" by (cases s)
  show "map_step h st decode cid n (instant_now h w) deadline (s, w1) \<noteq> None"
    unfolding s
    by (rule live_poll_one_output [OF assms, of cid "of_nat n" cur None w1]) (simp add: map_step_defined)
next
  fix s s' :: "(i32 \<times> 'b) list \<times> string" and w1 w2
  assume "map_step h st decode cid n (instant_now h w) deadline (s, w1) = Some (Inl (s', w2))"
  moreover obtain got cur got' cur' where ss: "s = (got, cur)" "s' = (got', cur')" by (cases s; cases s')
  ultimately obtain resp where "poll_one_output h st cid (of_nat n) cur None w1 = Some (Inr (resp, cur'), w2)"
    using map_step_again by fastforce
  then show "True \<and> instant_now h w1 < instant_now h w2"
    by (blast intro: live_poll_ticks [OF assms])
qed simp

lemma open_map_returns:
  fixes h :: "'w host"
  assumes "forward_clock h" "live_rpc h (function_map_rpc st)" "live_rpc h (function_put_inputs_rpc st)"
  shows "\<exists>x. open_map_and_enqueue h st encode fid it inputs w = Some x"
  unfolding open_map_and_enqueue_def Let_def
proof (rule bind_io_returns)
  show "\<exists>x. retry_rpc h (function_map_rpc st) (build_function_map_request fid Map it []) w = Some x"
    by (rule live_retry_rpc [OF assms(1,2)]) blast
  show "\<exists>x. (if mr_function_call_id mp = [] then throw (Build ''FunctionMap (MAP) returned an empty function_call_id'')
          else bind_io (lift_res (encode_inputs encode inputs))
            (\<lambda>items. bind_io (retry_rpc h (function_put_inputs_rpc st)
                               (build_function_put_inputs_request fid (mr_function_call_id mp) items))
               (\<lambda>accepted. if length accepted < length inputs
                  then throw (Build (''FunctionPutInputs accepted '' @ dec (length accepted) @ '' of ''
                         @ dec (length inputs) @ '' inputs (input queue full?)''))
                  else ret (mr_function_call_id mp)))) w1 = Some x" for mp w1
  proof (cases "mr_function_call_id mp = []")
    case True
    then show ?thesis by (simp add: throw_def)
  next
    case False
    have "\<exists>x. retry_rpc h (function_put_inputs_rpc st) req w2 = Some x" for req w2
      by (rule live_retry_rpc [OF assms(1,3)]) blast
    moreover have "\<exists>x. (if (b :: bool) then throw e else ret v) w3 = Some x" for b e v and w3 :: 'w
      by (simp add: throw_def ret_def)
    moreover have "\<exists>x. lift_res y w2 = Some x" for y w2 by (simp add: lift_res_def)
    ultimately show ?thesis
      unfolding if_not_P [OF False] by (intro bind_io_returns)
  qed
qed

section \<open>A concrete service\<close>

text \<open>A service that accepts the inputs and answers every poll with the same outputs.\<close>

definition tick_invoke :: "outputs_item list \<Rightarrow> (nat \<times> nat) invoke_stub" where
  "tick_invoke outs =
     \<lparr>function_map_rpc = tick_rpc (Inr \<lparr>mr_function_call_id = ''fc-1'', mr_pipelined_inputs = []\<rparr>),
      function_put_inputs_rpc = (\<lambda>req. tick_rpc (Inr (map (\<lambda>i. \<lparr>ai_idx = pi_idx i, ai_input_id = ''in''\<rparr>) (pr_inputs req))) req),
      function_get_outputs_rpc = tick_rpc (Inr \<lparr>or_outputs = outs, or_last_entry_id = ''1-0''\<rparr>)\<rparr>"

definition cbor_output :: "nat \<Rightarrow> bytes \<Rightarrow> outputs_item" where
  "cbor_output i b = \<lparr>oi_idx = of_nat i, oi_data_format = 4,
     oi_result = Some \<lparr>gr_status = 1, gr_exception = [], gr_traceback = [], gr_data_oneof = Some (Data b)\<rparr>\<rparr>"

lemma tick_invoke_simps [simp]:
  "function_map_rpc (tick_invoke outs) =
     tick_rpc (Inr \<lparr>mr_function_call_id = ''fc-1'', mr_pipelined_inputs = []\<rparr>)"
  "function_get_outputs_rpc (tick_invoke outs) = tick_rpc (Inr \<lparr>or_outputs = outs, or_last_entry_id = ''1-0''\<rparr>)"
  "function_put_inputs_rpc (tick_invoke outs) =
     (\<lambda>req. tick_rpc (Inr (map (\<lambda>i. \<lparr>ai_idx = pi_idx i, ai_input_id = ''in''\<rparr>) (pr_inputs req))) req)"
  by (simp_all add: tick_invoke_def)

lemma read_cbor_output [simp]:
  "read_output ctx (cbor_output i b) = Inr (Some \<lparr>inv_data = b, inv_data_format = DfCbor\<rparr>)"
  by (simp add: read_output_def cbor_output_def Let_def data_format_try_from_def result_status_def
      generic_status_try_from_def)

section \<open>Properties\<close>

text \<open>A call that was opened has its input enqueued: whatever the service answers, the call id is not
  empty and an answer of the service either accepted the pipelined input or accepted it through
  \<open>FunctionPutInputs\<close> of that very call.\<close>

lemma opened_call_is_enqueued:
  assumes "enqueue_pipelined h st fid it item w = Some (Inr cid, w')"
  shows "cid \<noteq> [] \<and>
    (\<exists>mp w0 w1. function_map_rpc st (build_function_map_request fid Unary it [item]) w0 = Some (Inr mp, w1) \<and>
       mr_function_call_id mp = cid \<and>
       (mr_pipelined_inputs mp \<noteq> [] \<or>
        (\<exists>inputs w2. inputs \<noteq> [] \<and> function_put_inputs_rpc st
           (build_function_put_inputs_request fid cid [item]) w2 = Some (Inr inputs, w'))))"
  using assms
proof (rule enqueue_ok)
  fix mp w1
  assume run: "retry_rpc h (function_map_rpc st) (build_function_map_request fid Unary it [item]) w = Some (Inr mp, w1)"
    and cid: "cid = mr_function_call_id mp" "cid \<noteq> []"
    and acc: "(mr_pipelined_inputs mp \<noteq> [] \<and> w' = w1) \<or>
     (\<exists>inputs. inputs \<noteq> [] \<and> mr_pipelined_inputs mp = [] \<and> retry_rpc h (function_put_inputs_rpc st)
        (build_function_put_inputs_request fid cid [item]) w1 = Some (Inr inputs, w'))"
  obtain w0 where "function_map_rpc st (build_function_map_request fid Unary it [item]) w0 = Some (Inr mp, w1)"
    using unary.ok_from_stub [OF run] by blast
  moreover have "mr_pipelined_inputs mp \<noteq> [] \<or> (\<exists>inputs w2. inputs \<noteq> [] \<and> function_put_inputs_rpc st
           (build_function_put_inputs_request fid cid [item]) w2 = Some (Inr inputs, w'))"
    using acc by (metis unary.ok_from_stub)
  ultimately show ?thesis using cid by metis
qed

lemma tick_enqueue:
  "enqueue_pipelined tick_host (tick_invoke outs) ''fu-1'' it (cbor_item 0 b) (0, 0) = Some (Inr ''fc-1'', (2, 2))"
proof -
  have "retry_rpc tick_host (function_put_inputs_rpc (tick_invoke outs))
      (build_function_put_inputs_request ''fu-1'' ''fc-1'' [cbor_item 0 b]) (1, 1) =
    Some (Inr [\<lparr>ai_idx = 0, ai_input_id = ''in''\<rparr>], (2, 2))"
    unfolding retry_rpc_def retry_unary_def retry_transient_def backoff_loop_def
    by (subst loop_break)
       (simp_all add: backoff_step_def rpc_attempt_def call_stub_def tick_rpc_def default_policy_def
         build_function_put_inputs_request_def cbor_item_def)
  then show ?thesis
    using tick_rpc_ok [of "\<lparr>mr_function_call_id = ''fc-1'', mr_pipelined_inputs = []\<rparr>" _ 0 0]
    by (simp add: enqueue_pipelined_def bind_io_def ret_def Let_def)
qed

lemma opened_call_is_enqueued_witness:
  "''fc-1'' \<noteq> [] \<and>
    (\<exists>mp w0 w1. function_map_rpc (tick_invoke []) (build_function_map_request ''fu-1'' Unary Sync [cbor_item 0 []]) w0 = Some (Inr mp, w1) \<and>
       mr_function_call_id mp = ''fc-1'' \<and>
       (mr_pipelined_inputs mp \<noteq> [] \<or>
        (\<exists>inputs w2. inputs \<noteq> [] \<and> function_put_inputs_rpc (tick_invoke [])
           (build_function_put_inputs_request ''fu-1'' ''fc-1'' [cbor_item 0 []]) w2 = Some (Inr inputs, (2, 2)))))"
  by (rule opened_call_is_enqueued [OF tick_enqueue])

text \<open>A polled value is genuine: it is the payload of a successful output the service returned to a
  poll of that call, at the requested index when one was requested.\<close>

lemma polled_value_genuine:
  assumes "poll_outputs_indexed h st cid index deadline w = Some (Inr iv, w')"
  shows "\<exists>resp item rest g. served st cid index resp \<and> or_outputs resp = item # rest \<and>
    (index = None \<or> index = Some (oi_idx item)) \<and> oi_result item = Some g \<and> gr_status g = 1 \<and>
    inv_data iv = (case gr_data_oneof g of Some (Data b) \<Rightarrow> b | _ \<Rightarrow> []) \<and>
    (case gr_data_oneof g of Some (DataBlobId _) \<Rightarrow> False | _ \<Rightarrow> True)"
proof -
  from loop_ends [OF assms [unfolded poll_outputs_indexed_def]] obtain cur w0 where
    "poll_outputs_step h st cid index (instant_now h w) deadline (cur, w0) = Some (Inr (Inr iv, w'))"
    by (metis surj_pair)
  from poll_outputs_step_result [OF this] obtain resp item rest where
    "served st cid index resp" "or_outputs resp = item # rest"
    "index = None \<or> index = Some (oi_idx item)" "read_output ''function call'' item = Inr (Some iv)"
    by blast
  moreover from this(4) obtain g where g: "oi_result item = Some g" "gr_status g = 1"
    "inv_data iv = (case gr_data_oneof g of Some (Data b) \<Rightarrow> b | _ \<Rightarrow> [])"
    "\<forall>b. gr_data_oneof g \<noteq> Some (DataBlobId b)"
    unfolding read_output_Some by auto
  moreover from g(4) have "case gr_data_oneof g of Some (DataBlobId _) \<Rightarrow> False | _ \<Rightarrow> True"
    by (auto split: option.splits result_data.splits)
  ultimately show ?thesis by blast
qed

lemma tick_poll_run:
  "poll_outputs_indexed tick_host (tick_invoke [cbor_output 3 [1]]) ''fc-1'' (Some 3) DEFAULT_INVOKE_DEADLINE (0, 0) =
     Some (Inr \<lparr>inv_data = [1], inv_data_format = DfCbor\<rparr>, (1, 1))"
proof -
  have "poll_one_output tick_host (tick_invoke [cbor_output 3 [1]]) ''fc-1'' 1 LAST_ENTRY_ID_INITIAL (Some 3) (0, 0) =
    Some (Inr (\<lparr>or_outputs = [cbor_output 3 [1]], or_last_entry_id = ''1-0''\<rparr>, ''1-0''), (1, 1))"
    using tick_rpc_ok [of "\<lparr>or_outputs = [cbor_output 3 [1]], or_last_entry_id = ''1-0''\<rparr>" _ 0 0]
    by (simp add: poll_one_output_def bind_io_def ret_def)
  moreover have "oi_idx (cbor_output 3 b) = 3" for b by (simp add: cbor_output_def)
  ultimately show ?thesis
    unfolding poll_outputs_indexed_def
    by (subst loop_break) (simp_all add: poll_outputs_step_def elapsed_def)
qed

lemma polled_value_genuine_witness:
  "\<exists>resp item rest g. served (tick_invoke [cbor_output 3 [1]]) ''fc-1'' (Some 3) resp \<and> or_outputs resp = item # rest \<and>
    (Some (3 :: i32) = None \<or> Some 3 = Some (oi_idx item)) \<and> oi_result item = Some g \<and> gr_status g = 1 \<and>
    inv_data \<lparr>inv_data = [1], inv_data_format = DfCbor\<rparr> = (case gr_data_oneof g of Some (Data b) \<Rightarrow> b | _ \<Rightarrow> []) \<and>
    (case gr_data_oneof g of Some (DataBlobId _) \<Rightarrow> False | _ \<Rightarrow> True)"
  by (rule polled_value_genuine [OF tick_poll_run])

text \<open>Waiting for one output ends: against a service that answers in finite, positive time, the poll
  returns a value or an error, at the latest when the deadline has passed.\<close>

lemma output_poll_ends:
  assumes "forward_clock h" "live_rpc h (function_get_outputs_rpc st)"
  shows "\<exists>r. poll_outputs_indexed h st cid index deadline w = Some r"
  using assms by (rule poll_outputs_returns)

lemma output_poll_ends_witness:
  "\<exists>r. poll_outputs_indexed tick_host (tick_invoke []) ''fc-1'' None DEFAULT_INVOKE_DEADLINE (0, 0) = Some r"
  by (rule output_poll_ends) simp_all

text \<open>Reassembly does not depend on the order in which outputs arrive: any batch whose items decode to
  the value of their index, in any order and with repeats, is put back in input order.\<close>

lemma map_reassembly_order_free:
  assumes "n \<le> 2 ^ 32"
    and "oi_idx ` set items = (\<lambda>i. of_nat i) ` {..<n}"
    and "\<And>item. item \<in> set items \<Longrightarrow> decodes_to decode item (f (oi_idx item))"
  shows "and_then (try_fold (map_collect_item decode) items []) (\<lambda>got. reassemble_in_order got n) =
    Inr (map (\<lambda>i. f (of_nat i)) [0..<n])"
proof -
  obtain got where got: "try_fold (map_collect_item decode) items [] = Inr got"
    "\<forall>k. map_of got k = (if k \<in> oi_idx ` set items then Some (f k) else map_of [] k)"
    using map_collect_complete [of items decode f "[]"] assms(3) by blast
  have "reassemble_in_order got n = Inr (map (\<lambda>i. f (of_nat i)) [0..<n])"
    using got(2) assms(1,2) by (intro reassemble_complete) auto
  with got(1) show ?thesis by simp
qed

lemma map_reassembly_order_free_witness:
  "and_then (try_fold (map_collect_item (\<lambda>b. Inr (hd b))) [cbor_output 1 [11], cbor_output 0 [10]] [])
       (\<lambda>got. reassemble_in_order got 2) =
     Inr (map (\<lambda>i. (\<lambda>k :: i32. if k = 0 then 10 else 11 :: 8 word) (of_nat i)) [0..<2])"
proof (rule map_reassembly_order_free)
  have "{..<2::nat} = {0, 1}" by auto
  then show "oi_idx ` set [cbor_output 1 [11], cbor_output 0 [10]] = (\<lambda>i. of_nat i) ` {..<2}"
    by (auto simp: cbor_output_def)
  have "decodes_to (\<lambda>b. Inr (hd b)) (cbor_output i b) (hd b)" for i b
    by (simp add: decodes_to_def decode_cbor_def)
  from this [of 1 "[11]"] this [of 0 "[10]"]
  show "decodes_to (\<lambda>b. Inr (hd b)) item (if oi_idx item = 0 then 10 else 11)"
    if "item \<in> set [cbor_output 1 [11], cbor_output 0 [10]]" for item
    using that by (auto simp: cbor_output_def)
qed simp


lemma tick_map_run:
  "map_cbor tick_host (tick_invoke []) (\<lambda>_ :: nat \<times> nat. Inr []) (\<lambda>b. Inr b) ''fu-1'' [] 5 (0, 0) = Some (Inr [], (0, 0))"
  by (simp add: map_cbor_def)

lemma tick_map_one:
  "map_cbor tick_host (tick_invoke [cbor_output 0 [7]]) (\<lambda>_ :: nat \<times> nat. Inr []) (\<lambda>b. Inr b) ''fu-1'' [(1, 2)] (secs 5) (0, 0) =
     Some (Inr [[7]], (3, 3))"
proof -
  let ?st = "tick_invoke [cbor_output 0 [7]]"
  let ?step = "map_step tick_host ?st (\<lambda>b. Inr b) ''fc-1'' 1 2 (secs 5)"
  have put: "retry_rpc tick_host (function_put_inputs_rpc ?st)
      (build_function_put_inputs_request ''fu-1'' ''fc-1'' [cbor_item 0 []]) (1, 1) =
    Some (Inr [\<lparr>ai_idx = 0, ai_input_id = ''in''\<rparr>], (2, 2))"
    unfolding retry_rpc_def retry_unary_def retry_transient_def backoff_loop_def
    by (subst loop_break)
       (simp_all add: backoff_step_def rpc_attempt_def call_stub_def tick_rpc_def default_policy_def
         build_function_put_inputs_request_def cbor_item_def)
  have open_map: "open_map_and_enqueue tick_host ?st (\<lambda>_ :: nat \<times> nat. Inr []) ''fu-1'' Sync [(1, 2)] (0, 0) =
      Some (Inr ''fc-1'', (2, 2))"
    using tick_rpc_ok [of "\<lparr>mr_function_call_id = ''fc-1'', mr_pipelined_inputs = []\<rparr>" _ 0 0] put
    by (simp add: open_map_and_enqueue_def bind_io_def ret_def lift_res_def Let_def encode_inputs_def)
  have poll: "poll_one_output tick_host ?st ''fc-1'' 1 LAST_ENTRY_ID_INITIAL None (2, 2) =
    Some (Inr (\<lparr>or_outputs = [cbor_output 0 [7]], or_last_entry_id = ''1-0''\<rparr>, ''1-0''), (3, 3))"
    using tick_rpc_ok [of "\<lparr>or_outputs = [cbor_output 0 [7]], or_last_entry_id = ''1-0''\<rparr>" _ 2 2]
    by (simp add: poll_one_output_def bind_io_def ret_def)
  have "?step (([], LAST_ENTRY_ID_INITIAL), (2, 2)) = Some (Inl (([(0, [7])], ''1-0''), (3, 3)))"
    using poll by (simp add: map_step_def elapsed_def map_collect_item_def decode_cbor_def)
       (simp add: cbor_output_def)
  moreover have "?step (([(0, [7])], ''1-0''), (3, 3)) = Some (Inr (Inr [[7]], (3, 3)))"
    by (simp add: map_step_def reassemble_in_order_def reassemble_item_def)
  ultimately have "loop ?step (([], LAST_ENTRY_ID_INITIAL), (2, 2)) = Some (Inr [[7]], (3, 3))"
    by (simp add: loop_continue loop_break)
  with open_map show ?thesis by (simp add: map_cbor_def bind_io_def)
qed




end
