(* ===== verification/Image.thy ===== *)
theory Image
  imports Retry ClientConfig
begin

text \<open>
  Image recipes and image builds (\<open>crates/modal-rust-sdk/src/ops/image/render.rs\<close> and
  \<open>ops/image/build.rs\<close>): the \<open>ImageSpec\<close> setters, the rendered Dockerfile, the create request, and the
  build poll, which reconnects to the log stream from the last entry it saw.  The base64 encoder is a
  function; an open stream is a handle the stub's \<open>stream_message\<close> reads.  The builder version the
  client resolves once and caches (\<open>client.rs\<close>) is threaded as an option.
\<close>

section \<open>The recipe\<close>

definition DEFAULT_BASE_IMAGE :: string where "DEFAULT_BASE_IMAGE = ''python:3.12-slim''"

record image_spec =
  base_image :: string
  pre_bake_commands :: "string list"
  wrapper_modules :: "(string \<times> string) list"
  builder_steps :: "string list"
  extra_commands :: "string list"
  pip_install_modal :: bool
  context_mount_id :: "string option"
  context_files :: "(string \<times> bytes) list"
  add_python :: "string option"
  python_standalone_mount_id :: "string option"
  base_image_id :: "string option"
  install_rust :: bool

definition from_registry :: "string \<Rightarrow> image_spec" where
  "from_registry base =
     \<lparr>base_image = base, pre_bake_commands = [], wrapper_modules = [], builder_steps = [],
      extra_commands = [], pip_install_modal = False, context_mount_id = None, context_files = [],
      add_python = None, python_standalone_mount_id = None, base_image_id = None, install_rust = False\<rparr>"

definition default_base :: image_spec where "default_base = from_registry DEFAULT_BASE_IMAGE"

definition with_wrapper_module :: "string \<Rightarrow> string \<Rightarrow> image_spec \<Rightarrow> image_spec" where
  "with_wrapper_module name source s = s\<lparr>wrapper_modules := wrapper_modules s @ [(name, source)]\<rparr>"

definition with_command :: "string \<Rightarrow> image_spec \<Rightarrow> image_spec" where
  "with_command c s = s\<lparr>extra_commands := extra_commands s @ [c]\<rparr>"

definition apt_line :: "string list \<Rightarrow> string" where
  "apt_line packages = ''RUN apt-get update && apt-get install -y --no-install-recommends ''
     @ join_with '' '' packages @ '' && rm -rf /var/lib/apt/lists/*''"

definition with_apt :: "string list \<Rightarrow> image_spec \<Rightarrow> image_spec" where
  "with_apt packages s = s\<lparr>pre_bake_commands := pre_bake_commands s @ [apt_line packages]\<rparr>"

definition with_pip_install_modal :: "image_spec \<Rightarrow> image_spec" where
  "with_pip_install_modal s = s\<lparr>pip_install_modal := True\<rparr>"

definition with_pip_install :: "string list \<Rightarrow> image_spec \<Rightarrow> image_spec" where
  "with_pip_install packages s =
     (if packages \<noteq> []
      then s\<lparr>builder_steps := builder_steps s @
             [''RUN python3 -m pip install --no-cache-dir '' @ join_with '' '' packages]\<rparr>
      else s)"

definition with_apt_install :: "string list \<Rightarrow> image_spec \<Rightarrow> image_spec" where
  "with_apt_install packages s =
     (if packages \<noteq> [] then s\<lparr>builder_steps := builder_steps s @ [apt_line packages]\<rparr> else s)"

definition with_run_commands :: "string list \<Rightarrow> image_spec \<Rightarrow> image_spec" where
  "with_run_commands commands s =
     fold (\<lambda>cmd s. s\<lparr>builder_steps := builder_steps s @ [''RUN '' @ cmd]\<rparr>) commands s"

definition with_context_mount :: "string \<Rightarrow> image_spec \<Rightarrow> image_spec" where
  "with_context_mount m s = s\<lparr>context_mount_id := Some m\<rparr>"

definition with_add_python :: "string \<Rightarrow> image_spec \<Rightarrow> image_spec" where
  "with_add_python series s = s\<lparr>add_python := Some series\<rparr>"

definition with_python_standalone_mount_id :: "string \<Rightarrow> image_spec \<Rightarrow> image_spec" where
  "with_python_standalone_mount_id m s = s\<lparr>python_standalone_mount_id := Some m\<rparr>"

definition with_base_image :: "string \<Rightarrow> image_spec \<Rightarrow> image_spec" where
  "with_base_image i s = s\<lparr>base_image_id := Some i\<rparr>"

definition with_rust_toolchain :: "image_spec \<Rightarrow> image_spec" where
  "with_rust_toolchain s = s\<lparr>install_rust := True\<rparr>"

section \<open>Rendering\<close>

definition python_series_lt_13 :: "string \<Rightarrow> bool" where
  "python_series_lt_13 series =
     (case split_on CHR ''.'' series of
        _ # minor # _ \<Rightarrow>
          (case parse_u32 (trim_end_matches (\<lambda>c. c = CHR ''t'') minor) of
             Some n \<Rightarrow> n < 13 | None \<Rightarrow> False)
      | _ \<Rightarrow> False)"

definition bake_command :: "(string \<Rightarrow> string) \<Rightarrow> string \<Rightarrow> string \<Rightarrow> string" where
  "bake_command b64 name source =
     ''RUN python3 -c '' @ quote @ ''import base64,pathlib; pathlib.Path('' @ [CHR 0x27] @ ''/root/'' @ name
     @ ''.py'' @ [CHR 0x27] @ '').write_bytes(base64.b64decode('' @ [CHR 0x27] @ b64 source @ [CHR 0x27]
     @ ''))'' @ quote"

definition copy_python :: string where "copy_python = ''COPY /python/. /usr/local''"

definition rust_commands :: "string list" where
  "rust_commands =
     [''RUN apt-get update && apt-get install -y --no-install-recommends '' @
      ''curl ca-certificates build-essential pkg-config '' @
      ''&& rm -rf /var/lib/apt/lists/* '' @
      ''&& curl --proto '' @ [CHR 0x27] @ ''=https'' @ [CHR 0x27] @ '' --tlsv1.2 -sSf https://sh.rustup.rs '' @
      ''| sh -s -- -y --default-toolchain stable --profile minimal'',
      ''ENV PATH=/root/.cargo/bin:/usr/local/cuda/bin:/usr/local/sbin:'' @
      ''/usr/local/bin:/usr/sbin:/usr/bin:/sbin:/bin'',
      ''ENV CUDA_PATH=/usr/local/cuda'']"

definition dockerfile_commands :: "(string \<Rightarrow> string) \<Rightarrow> image_spec \<Rightarrow> string list" where
  "dockerfile_commands b64 s =
     (let from_line = (if base_image_id s \<noteq> None then ''FROM base'' else ''FROM '' @ base_image s);
          cmds = [from_line];
          cmds = (case add_python s of
                    Some series \<Rightarrow>
                      cmds @ [copy_python] @
                      (if python_series_lt_13 series
                       then [''RUN ln -s /usr/local/bin/python3 /usr/local/bin/python''] else []) @
                      [''ENV TERMINFO_DIRS=/etc/terminfo:/lib/terminfo:/usr/share/terminfo:/usr/lib/terminfo'']
                  | None \<Rightarrow>
                      cmds @ pre_bake_commands s @
                      (if pip_install_modal s
                       then [''RUN python3 -m pip install --no-cache-dir --break-system-packages modal'']
                       else []));
          cmds = (if install_rust s then cmds @ rust_commands else cmds);
          cmds = cmds @ builder_steps s;
          cmds = cmds @ map (\<lambda>(name, source). bake_command b64 name source) (wrapper_modules s)
      in cmds @ extra_commands s)"

definition resolved_context_mount_id :: "image_spec \<Rightarrow> string option" where
  "resolved_context_mount_id s =
     (case context_mount_id s of
        Some i \<Rightarrow> Some i
      | None \<Rightarrow> if add_python s \<noteq> None then python_standalone_mount_id s else None)"

record base_image_proto =
  bi_docker_tag :: string
  bi_image_id :: string

record image_proto =
  im_base_images :: "base_image_proto list"
  im_dockerfile_commands :: "string list"
  im_context_mount_id :: string
  im_context_files :: "(string \<times> bytes) list"

definition image_to_proto :: "(string \<Rightarrow> string) \<Rightarrow> image_spec \<Rightarrow> image_proto" where
  "image_to_proto b64 s =
     \<lparr>im_base_images = (case base_image_id s of
                          Some i \<Rightarrow> [\<lparr>bi_docker_tag = ''base'', bi_image_id = i\<rparr>] | None \<Rightarrow> []),
      im_dockerfile_commands = dockerfile_commands b64 s,
      im_context_mount_id = (case resolved_context_mount_id s of Some i \<Rightarrow> i | None \<Rightarrow> []),
      im_context_files = map (\<lambda>(filename, d). (filename, d)) (context_files s)\<rparr>"

section \<open>Requests\<close>

record image_get_or_create_request =
  ig_image :: "image_proto option"
  ig_app_id :: string
  ig_builder_version :: string

record image_response =
  ir_image_id :: string
  ir_result :: "generic_result option"

record join_request =
  jr_image_id :: string
  jr_timeout_secs :: nat
  jr_last_entry_id :: string
  jr_include_logs_for_finished :: bool

record join_item =
  ji_entry_id :: string
  ji_result :: "generic_result option"

text \<open>\<open>environment_get_or_create_rpc\<close> gives the image builder version in the environment's settings,
  empty when the response has none.\<close>

record 'w image_stub =
  image_get_or_create_rpc :: "('w, image_get_or_create_request, image_response) rpc"
  image_join_rpc :: "('w, join_request, nat) rpc"
  stream_message :: "nat \<Rightarrow> 'w \<Rightarrow> ((status + join_item option) \<times> 'w) option"
  environment_get_or_create_rpc :: "('w, string, string) rpc"

definition JOIN_STREAM_TIMEOUT_SECS :: nat where "JOIN_STREAM_TIMEOUT_SECS = 55"
definition BUILD_DEADLINE :: nat where "BUILD_DEADLINE = secs 600"

definition build_image_get_or_create_request ::
  "(string \<Rightarrow> string) \<Rightarrow> image_spec \<Rightarrow> string \<Rightarrow> string \<Rightarrow> image_get_or_create_request" where
  "build_image_get_or_create_request b64 s app_id builder_version =
     \<lparr>ig_image = Some (image_to_proto b64 s), ig_app_id = app_id, ig_builder_version = builder_version\<rparr>"

definition plan_image_request :: "(string \<Rightarrow> string) \<Rightarrow> image_spec \<Rightarrow> string \<Rightarrow> string \<Rightarrow> string list" where
  "plan_image_request b64 s app_id builder_version =
     (let req = build_image_get_or_create_request b64 s app_id builder_version
      in case ig_image req of Some i \<Rightarrow> im_dockerfile_commands i | None \<Rightarrow> [])"

text \<open>The builder version and the client's new cache.\<close>

definition fetch_environment_builder_version ::
  "'w host \<Rightarrow> 'w image_stub \<Rightarrow> modal_config \<Rightarrow> ('w, string) io" where
  "fetch_environment_builder_version h st c =
     retry_rpc h (environment_get_or_create_rpc st) (environment_or_default c)"

definition resolved_image_builder_version ::
  "'w host \<Rightarrow> 'w image_stub \<Rightarrow> modal_config \<Rightarrow> string option \<Rightarrow> 'w \<Rightarrow> ((string \<times> string option) \<times> 'w) option" where
  "resolved_image_builder_version h st c cache w =
     (case cache of
        Some v \<Rightarrow> Some ((v, cache), w)
      | None \<Rightarrow>
          (case image_builder_version c of
             Some (x # xs) \<Rightarrow> Some ((x # xs, Some (x # xs)), w)
           | _ \<Rightarrow>
               map_option (\<lambda>(r, w1). let v = (case r of Inr v \<Rightarrow> v | Inl _ \<Rightarrow> []) in ((v, Some v), w1))
                 (fetch_environment_builder_version h st c w)))"

section \<open>The build poll\<close>

text \<open>Draining one stream window: the result, and the last entry id, which the caller keeps on an error
  too.\<close>

definition drain_step ::
  "'w image_stub \<Rightarrow> nat \<Rightarrow> string \<times> 'w \<Rightarrow>
     ((string \<times> 'w) + ((error + unit option) \<times> string) \<times> 'w) option" where
  "drain_step st stream = (\<lambda>(last_entry_id, w).
     case stream_message st stream w of
       None \<Rightarrow> None
     | Some (Inl s, w1) \<Rightarrow> Some (Inr ((Inl (Status s), last_entry_id), w1))
     | Some (Inr None, w1) \<Rightarrow> Some (Inr ((Inr None, last_entry_id), w1))
     | Some (Inr (Some item), w1) \<Rightarrow>
         (let cursor = (if ji_entry_id item \<noteq> [] then ji_entry_id item else last_entry_id) in
          case ji_result item of
            None \<Rightarrow> Some (Inl (cursor, w1))
          | Some result \<Rightarrow>
              (case result_status (Some result) of
                 Success \<Rightarrow> Some (Inr ((Inr (Some ()), cursor), w1))
               | Failure status \<Rightarrow>
                   Some (Inr ((Inl (Build (describe_failure ''image build'' status result)), cursor), w1))
               | Pending \<Rightarrow> Some (Inl (cursor, w1)))))"

definition drain_build_window ::
  "'w image_stub \<Rightarrow> string \<Rightarrow> string \<Rightarrow> 'w \<Rightarrow> (((error + unit option) \<times> string) \<times> 'w) option" where
  "drain_build_window st image_id last_entry_id w =
     (case image_join_rpc st \<lparr>jr_image_id = image_id, jr_timeout_secs = JOIN_STREAM_TIMEOUT_SECS,
                              jr_last_entry_id = last_entry_id, jr_include_logs_for_finished = True\<rparr> w of
        None \<Rightarrow> None
      | Some (Inl s, w1) \<Rightarrow> Some ((Inl (Status s), last_entry_id), w1)
      | Some (Inr stream, w1) \<Rightarrow> loop (drain_step st stream) (last_entry_id, w1))"

definition poll_image_step ::
  "'w host \<Rightarrow> 'w image_stub \<Rightarrow> string \<Rightarrow> nat \<Rightarrow> string \<times> 'w \<Rightarrow>
     ((string \<times> 'w) + (error + unit) \<times> 'w) option" where
  "poll_image_step h st image_id started = (\<lambda>(last_entry_id, w).
     if BUILD_DEADLINE < elapsed h started w
     then Some (Inr (Inl (Build (''image build '' @ image_id @ '' did not finish within ''
                @ dec (BUILD_DEADLINE div secs 1) @ ''s'')), w))
     else case drain_build_window st image_id last_entry_id w of
            None \<Rightarrow> None
          | Some ((Inr (Some _), cursor), w1) \<Rightarrow> Some (Inr (Inr (), w1))
          | Some ((Inr None, cursor), w1) \<Rightarrow> Some (Inl (cursor, w1))
          | Some ((Inl err, cursor), w1) \<Rightarrow>
              (if is_transient err then Some (Inl (cursor, sleep_for h (secs 2) w1))
               else Some (Inr (Inl err, w1))))"

definition poll_image_build :: "'w host \<Rightarrow> 'w image_stub \<Rightarrow> string \<Rightarrow> ('w, unit) io" where
  "poll_image_build h st image_id w = loop (poll_image_step h st image_id (instant_now h w)) ([], w)"

definition image_create_with ::
  "'w host \<Rightarrow> 'w image_stub \<Rightarrow> (string \<Rightarrow> string) \<Rightarrow> string \<Rightarrow> image_spec \<Rightarrow> string \<Rightarrow> ('w, string) io" where
  "image_create_with h st b64 app_id s builder_version =
     bind_io (retry_rpc h (image_get_or_create_rpc st)
                (build_image_get_or_create_request b64 s app_id builder_version))
       (\<lambda>resp. let image_id = ir_image_id resp in
          if image_id = [] then throw (Build ''ImageGetOrCreate returned an empty image_id'')
          else case result_status (ir_result resp) of
                 Success \<Rightarrow> ret image_id
               | Failure status \<Rightarrow>
                   throw (Build (describe_failure ''image build'' status (the (ir_result resp))))
               | Pending \<Rightarrow> bind_io (poll_image_build h st image_id) (\<lambda>_. ret image_id))"

definition image_get_or_create ::
  "'w host \<Rightarrow> 'w image_stub \<Rightarrow> (string \<Rightarrow> string) \<Rightarrow> modal_config \<Rightarrow> string option \<Rightarrow> string \<Rightarrow> image_spec \<Rightarrow>
     'w \<Rightarrow> (((error + string) \<times> string option) \<times> 'w) option" where
  "image_get_or_create h st b64 c cache app_id s w =
     (case resolved_image_builder_version h st c cache w of
        None \<Rightarrow> None
      | Some ((v, cache'), w1) \<Rightarrow>
          map_option (\<lambda>(r, w2). ((r, cache'), w2)) (image_create_with h st b64 app_id s v w1))"

section \<open>Facts about the rendered file\<close>

lemma with_run_commands_steps:
  "with_run_commands cs s = s\<lparr>builder_steps := builder_steps s @ map (\<lambda>c. ''RUN '' @ c) cs\<rparr>"
  unfolding with_run_commands_def by (induction cs arbitrary: s) simp_all

text \<open>The commands before the user's steps depend on the provisioning fields only.\<close>

definition provision :: "image_spec \<Rightarrow> string list" where
  "provision s = dockerfile_commands (\<lambda>x. x)
     (s\<lparr>builder_steps := [], wrapper_modules := [], extra_commands := []\<rparr>)"

lemma dockerfile_split:
  "dockerfile_commands b64 s = provision s @ builder_steps s @
     map (\<lambda>(name, source). bake_command b64 name source) (wrapper_modules s) @ extra_commands s"
  by (cases "base_image_id s"; cases "add_python s")
     (simp_all add: dockerfile_commands_def provision_def Let_def)

lemma provision_add_python:
  "add_python s \<noteq> None \<Longrightarrow> copy_python \<in> set (provision s)"
  by (auto simp: provision_def dockerfile_commands_def Let_def)

lemma provision_steps [simp]:
  "provision (s\<lparr>builder_steps := xs\<rparr>) = provision s"
  "provision (s\<lparr>wrapper_modules := ys\<rparr>) = provision s"
  "provision (s\<lparr>extra_commands := xs\<rparr>) = provision s"
  by (simp_all add: provision_def)

section \<open>Facts about the build poll\<close>

text \<open>An item the service sent on a log stream of the image.\<close>

definition build_item :: "'w image_stub \<Rightarrow> string \<Rightarrow> join_item \<Rightarrow> bool" where
  "build_item st image_id item \<longleftrightarrow>
     (\<exists>cur w0 w1 stream w2 w3.
        image_join_rpc st \<lparr>jr_image_id = image_id, jr_timeout_secs = JOIN_STREAM_TIMEOUT_SECS,
          jr_last_entry_id = cur, jr_include_logs_for_finished = True\<rparr> w0 = Some (Inr stream, w1) \<and>
        stream_message st stream w2 = Some (Inr (Some item), w3))"

definition item_succeeded :: "join_item \<Rightarrow> bool" where
  "item_succeeded item \<longleftrightarrow> result_status (ji_result item) = Success"

definition item_failed :: "join_item \<Rightarrow> error \<Rightarrow> bool" where
  "item_failed item e \<longleftrightarrow> (\<exists>g f. ji_result item = Some g \<and> result_status (Some g) = Failure f \<and>
     e = Build (describe_failure ''image build'' f g))"

lemma drain_step_end:
  assumes "drain_step st stream (cur, w) = Some (Inr ((r, cur'), w'))"
  shows "r = Inr None \<or> (\<exists>s. r = Inl (Status s)) \<or>
    (\<exists>item w1. stream_message st stream w = Some (Inr (Some item), w1) \<and>
       (r = Inr (Some ()) \<and> item_succeeded item \<or> (\<exists>e. r = Inl e \<and> item_failed item e)))"
proof (cases "stream_message st stream w")
  case (Some x)
  obtain m w1 where x: "x = (m, w1)" by (cases x)
  show ?thesis
  proof (cases m)
    case (Inr o')
    with assms Some x show ?thesis
      by (cases o') (auto simp: drain_step_def Let_def item_succeeded_def item_failed_def
          split: option.splits result_state.splits)
  qed (use assms Some x in \<open>auto simp: drain_step_def\<close>)
qed (use assms in \<open>simp add: drain_step_def\<close>)

lemma drain_outcome:
  assumes "drain_build_window st image_id cur w = Some ((r, cur'), w')"
  shows "r = Inr None \<or> (\<exists>s. r = Inl (Status s)) \<or>
    (\<exists>item. build_item st image_id item \<and>
       (r = Inr (Some ()) \<and> item_succeeded item \<or> (\<exists>e. r = Inl e \<and> item_failed item e)))"
proof (cases "image_join_rpc st \<lparr>jr_image_id = image_id, jr_timeout_secs = JOIN_STREAM_TIMEOUT_SECS,
                              jr_last_entry_id = cur, jr_include_logs_for_finished = True\<rparr> w")
  case (Some x)
  obtain m w1 where x: "x = (m, w1)" by (cases x)
  show ?thesis
  proof (cases m)
    case (Inr stream)
    with assms Some x have "loop (drain_step st stream) (cur, w1) = Some ((r, cur'), w')"
      by (simp add: drain_build_window_def)
    from loop_ends [OF this] obtain cur0 w0 where
      "drain_step st stream (cur0, w0) = Some (Inr ((r, cur'), w'))" by (metis surj_pair)
    from drain_step_end [OF this] show ?thesis
      using Some x Inr unfolding build_item_def by blast
  qed (use assms Some x in \<open>auto simp: drain_build_window_def\<close>)
qed (use assms in \<open>simp add: drain_build_window_def\<close>)

definition build_timeout :: "string \<Rightarrow> error" where
  "build_timeout image_id = Build (''image build '' @ image_id @ '' did not finish within ''
     @ dec (BUILD_DEADLINE div secs 1) @ ''s'')"

lemma poll_image_outcome:
  assumes "poll_image_build h st image_id w = Some (r, w')"
  shows "(r = Inr () \<and> (\<exists>item. build_item st image_id item \<and> item_succeeded item)) \<or>
    (\<exists>e. r = Inl e \<and> \<not> is_transient e \<and>
       (e = build_timeout image_id \<or> (\<exists>s. e = Status s) \<or>
        (\<exists>item. build_item st image_id item \<and> item_failed item e)))"
proof -
  from loop_ends [OF assms [unfolded poll_image_build_def]] obtain cur w0 where
    step: "poll_image_step h st image_id (instant_now h w) (cur, w0) = Some (Inr (r, w'))"
    by (metis surj_pair)
  show ?thesis
  proof (cases "drain_build_window st image_id cur w0")
    case (Some x)
    obtain d cur' w1 where x: "x = ((d, cur'), w1)" by (metis surj_pair)
    have d: "drain_build_window st image_id cur w0 = Some ((d, cur'), w1)" using Some x by simp
    show ?thesis
      using step drain_outcome [OF d]
      by (auto simp: poll_image_step_def d build_timeout_def split: if_splits sum.splits option.splits)
  qed (use step in \<open>auto simp: poll_image_step_def build_timeout_def split: if_splits\<close>)
qed

text \<open>The poll is a deadline-guarded loop.\<close>

lemma image_deadline:
  "started + BUILD_DEADLINE < instant_now h w \<Longrightarrow> \<exists>r. poll_image_step h st i started (s, w) = Some (Inr r)"
  by (auto dest: elapsed_gt simp: poll_image_step_def)

interpretation build_poll: deadline_poll "poll_image_step h st image_id started" h "started + BUILD_DEADLINE"
  for h :: "'w host" and st image_id started
  by unfold_locales (rule image_deadline)

text \<open>Log streams end: each message leaves fewer to come, and the clock does not run backwards.\<close>

definition finite_streams :: "'w host \<Rightarrow> 'w image_stub \<Rightarrow> bool" where
  "finite_streams h st \<longleftrightarrow>
     (\<exists>left. \<forall>stream w. \<exists>m w'. stream_message st stream w = Some (m, w') \<and>
        instant_now h w \<le> instant_now h w' \<and>
        (m \<noteq> Inr None \<longrightarrow> (\<forall>s. m \<noteq> Inl s) \<longrightarrow> left stream w' < (left stream w :: nat)))"

lemma drain_loop_returns:
  fixes st :: "'w image_stub"
  assumes "finite_streams h st"
  shows "\<exists>x cur' w'. loop (drain_step st stream) (cur, w) = Some ((x, cur'), w') \<and> instant_now h w \<le> instant_now h w'"
proof -
  from assms obtain left where left: "\<And>stream w. \<exists>m w'. stream_message st stream w = Some (m, w') \<and>
        instant_now h w \<le> instant_now h w' \<and>
        (m \<noteq> Inr None \<longrightarrow> (\<forall>s. m \<noteq> Inl s) \<longrightarrow> left stream w' < (left stream w :: nat))"
    unfolding finite_streams_def by blast
  show ?thesis
  proof (induction "left stream w" arbitrary: cur w rule: less_induct)
    case less
    obtain m w1 where m: "stream_message st stream w = Some (m, w1)" "instant_now h w \<le> instant_now h w1"
      "m \<noteq> Inr None \<longrightarrow> (\<forall>s. m \<noteq> Inl s) \<longrightarrow> left stream w1 < left stream w" using left by blast
    show ?case
    proof (cases "\<exists>cur1. drain_step st stream (cur, w) = Some (Inl (cur1, w1))")
      case True
      then obtain cur1 where go: "drain_step st stream (cur, w) = Some (Inl (cur1, w1))" by blast
      with m have "left stream w1 < left stream w"
        by (auto simp: drain_step_def split: sum.splits option.splits)
      from less [OF this, of cur1] m(2) show ?thesis
        using loop_continue [where body = "drain_step st stream" and s = "(cur, w)", OF go] by force
    next
      case False
      then have "\<exists>x cur1. drain_step st stream (cur, w) = Some (Inr ((x, cur1), w1))"
        using m(1) by (auto simp: drain_step_def Let_def split: sum.splits option.splits result_state.splits)
      with m(2) show ?thesis by (metis loop_break)
    qed
  qed
qed

lemma drain_returns:
  assumes "finite_streams h st" "live_rpc h (image_join_rpc st)"
  obtains x cur' w' where "drain_build_window st image_id cur w = Some ((x, cur'), w')"
    "instant_now h w < instant_now h w'"
proof -
  obtain m w1 where m: "image_join_rpc st \<lparr>jr_image_id = image_id, jr_timeout_secs = JOIN_STREAM_TIMEOUT_SECS,
        jr_last_entry_id = cur, jr_include_logs_for_finished = True\<rparr> w = Some (m, w1)"
    "instant_now h w < instant_now h w1"
    using assms(2) unfolding live_rpc_def by blast
  show thesis
  proof (cases m)
    case (Inl s)
    with m show thesis by (intro that [of "Inl (Status s)" cur w1]) (simp_all add: drain_build_window_def)
  next
    case (Inr stream)
    obtain x cur' w' where "loop (drain_step st stream) (cur, w1) = Some ((x, cur'), w')" "instant_now h w1 \<le> instant_now h w'"
      using drain_loop_returns [OF assms(1)] by blast
    with m Inr show thesis by (intro that [of x cur' w']) (simp_all add: drain_build_window_def)
  qed
qed

lemma image_poll_returns:
  assumes "forward_clock h" "finite_streams h st" "live_rpc h (image_join_rpc st)"
  shows "\<exists>r. poll_image_build h st image_id w = Some r"
  unfolding poll_image_build_def
proof (rule build_poll.poll_returns [where P = "\<lambda>_. True"])
  fix s w1
  obtain x cur' w' where "drain_build_window st image_id s w1 = Some ((x, cur'), w')"
    using drain_returns [OF assms(2,3)] by blast
  then show "poll_image_step h st image_id (instant_now h w) (s, w1) \<noteq> None"
    by (auto simp: poll_image_step_def split: sum.splits option.splits)
next
  fix s w1 s' w2
  assume step: "poll_image_step h st image_id (instant_now h w) (s, w1) = Some (Inl (s', w2))"
  obtain x cur' w' where d: "drain_build_window st image_id s w1 = Some ((x, cur'), w')"
    "instant_now h w1 < instant_now h w'" using drain_returns [OF assms(2,3)] by blast
  from step d(1) have "w2 = w' \<or> w2 = sleep_for h (secs 2) w'"
    by (auto simp: poll_image_step_def split: if_splits sum.splits option.splits)
  then have "instant_now h w' \<le> instant_now h w2"
    using assms(1) unfolding forward_clock_def by auto
  with d(2) show "True \<and> instant_now h w1 < instant_now h w2" by simp
qed simp

section \<open>A concrete service\<close>

text \<open>A service whose build is still running when asked and whose log stream is one successful item.\<close>

definition done_item :: join_item where
  "done_item = \<lparr>ji_entry_id = ''1-0'', ji_result = Some \<lparr>gr_status = 1, gr_exception = [],
     gr_traceback = [], gr_data_oneof = None\<rparr>\<rparr>"

definition tick_image :: "(nat \<times> nat) image_stub" where
  "tick_image =
     \<lparr>image_get_or_create_rpc = tick_rpc (Inr \<lparr>ir_image_id = ''im-1'', ir_result = None\<rparr>),
      image_join_rpc = tick_rpc (Inr 0),
      stream_message = (\<lambda>stream (t, c). if c < 5 then Some (Inr (Some done_item), (t + 1, Suc c))
                                       else Some (Inr None, (t + 1, Suc c))),
      environment_get_or_create_rpc = tick_rpc (Inr ''2025.06'')\<rparr>"

lemma tick_image_streams: "finite_streams tick_host tick_image"
  unfolding finite_streams_def
  by (rule exI [of _ "\<lambda>_ w. 5 - snd w"]) (auto simp: tick_image_def)

lemma tick_image_poll: "poll_image_build tick_host tick_image image_id (2, 2) = Some (Inr (), (4, 4))"
proof -
  have "drain_build_window tick_image image_id [] (2, 2) = Some ((Inr (Some ()), ''1-0''), (4, 4))"
    by (simp add: drain_build_window_def tick_image_def tick_rpc_def)
       (subst loop_break; simp add: drain_step_def done_item_def result_status_def generic_status_try_from_def)
  then show ?thesis
    unfolding poll_image_build_def
    by (subst loop_break) (simp_all add: poll_image_step_def elapsed_def)
qed

lemma tick_image_run:
  "image_get_or_create tick_host tick_image b64 token_config None ''ap-1'' default_base (0, 0) =
     Some ((Inr ''im-1'', Some ''2025.06''), (4, 4))"
proof -
  have "image_builder_version token_config = None" by (simp add: token_config_def)
  moreover have "retry_rpc tick_host (environment_get_or_create_rpc tick_image) req (0, 0) = Some (Inr ''2025.06'', (1, 1))" for req
    using tick_rpc_ok [of "''2025.06''" req 0 0] by (simp add: tick_image_def)
  ultimately have "resolved_image_builder_version tick_host tick_image token_config None (0, 0) =
      Some ((''2025.06'', Some ''2025.06''), (1, 1))"
    by (simp add: resolved_image_builder_version_def fetch_environment_builder_version_def Let_def)
  moreover have "retry_rpc tick_host (image_get_or_create_rpc tick_image) req (1, 1) =
      Some (Inr \<lparr>ir_image_id = ''im-1'', ir_result = None\<rparr>, (2, 2))" for req
    using tick_rpc_ok [of "\<lparr>ir_image_id = ''im-1'', ir_result = None\<rparr>" req 1 1] by (simp add: tick_image_def)
  then have "image_create_with tick_host tick_image b64 ''ap-1'' default_base ''2025.06'' (1, 1) = Some (Inr ''im-1'', (4, 4))"
    by (simp add: image_create_with_def bind_io_def Let_def tick_image_poll ret_def)
  ultimately show ?thesis by (simp add: image_get_or_create_def)
qed

section \<open>Properties\<close>

text \<open>C26. An image id handed out is a finished build: it is not empty, the service returned it for the
  request of this very recipe, and the service reported success, in the response or on a log stream
  of that image.\<close>

theorem image_id_is_built:
  assumes "image_get_or_create h st b64 c cache app_id s w = Some ((Inr image_id, cache'), w')"
  shows "image_id \<noteq> [] \<and>
    (\<exists>version resp w0 w1. image_get_or_create_rpc st (build_image_get_or_create_request b64 s app_id version) w0
         = Some (Inr resp, w1) \<and> cache' = Some version \<and> ir_image_id resp = image_id \<and>
       (result_status (ir_result resp) = Success \<or>
        (\<exists>item. build_item st image_id item \<and> item_succeeded item)))"
proof -
  from assms obtain v w1 where v: "resolved_image_builder_version h st c cache w = Some ((v, cache'), w1)"
    and run: "image_create_with h st b64 app_id s v w1 = Some (Inr image_id, w')"
    by (auto simp: image_get_or_create_def split: option.splits)
  from v have cache': "cache' = Some v"
    by (auto simp: resolved_image_builder_version_def Let_def split: option.splits list.splits)
  from run obtain resp w2 where
    resp: "retry_rpc h (image_get_or_create_rpc st) (build_image_get_or_create_request b64 s app_id v) w1
         = Some (Inr resp, w2)"
    and rest: "ir_image_id resp = image_id" "image_id \<noteq> []"
      "result_status (ir_result resp) = Success \<or> poll_image_build h st image_id w2 = Some (Inr (), w')"
    by (auto simp: image_create_with_def bind_io_Inr_iff Let_def split: if_splits result_state.splits)
  from unary.ok_from_stub [OF resp] obtain w0 where
    "image_get_or_create_rpc st (build_image_get_or_create_request b64 s app_id v) w0 = Some (Inr resp, w2)" by blast
  moreover have "result_status (ir_result resp) = Success \<or> (\<exists>item. build_item st image_id item \<and> item_succeeded item)"
    using rest(3) poll_image_outcome [of h st image_id w2 "Inr ()" w'] by auto
  ultimately show ?thesis using rest cache' by blast
qed

theorem image_id_is_built_witness:
  "''im-1'' \<noteq> [] \<and>
    (\<exists>version resp w0 w1. image_get_or_create_rpc tick_image (build_image_get_or_create_request (\<lambda>x. x) default_base ''ap-1'' version) w0
         = Some (Inr resp, w1) \<and> Some ''2025.06'' = Some version \<and> ir_image_id resp = ''im-1'' \<and>
       (result_status (ir_result resp) = Success \<or>
        (\<exists>item. build_item tick_image ''im-1'' item \<and> item_succeeded item)))"
  by (rule image_id_is_built [OF tick_image_run])



text \<open>Waiting for a build ends: with log streams that end and a live service the poll returns, at the
  latest when the build deadline has passed.\<close>

lemma build_poll_ends:
  assumes "forward_clock h" "finite_streams h st" "live_rpc h (image_join_rpc st)"
  shows "\<exists>r. poll_image_build h st image_id w = Some r"
  using assms by (rule image_poll_returns)

lemma build_poll_ends_witness: "\<exists>r. poll_image_build tick_host tick_image ''im-1'' (0, 0) = Some r"
  by (rule build_poll_ends) (simp_all add: tick_image_streams, simp add: tick_image_def)

text \<open>A recipe with \<open>add_python\<close> has no apt or pip fallback: its Dockerfile does not depend on the
  fallback fields, provisions the interpreter before any user step, wrapper bake or extra command,
  and its build context is the source mount if there is one, the interpreter's mount otherwise.\<close>

lemma add_python_replaces_fallback:
  assumes "add_python s = Some series"
  shows "dockerfile_commands b64 (s\<lparr>pre_bake_commands := apt, pip_install_modal := pip\<rparr>) = dockerfile_commands b64 s \<and>
    (\<exists>pre. dockerfile_commands b64 s = pre @ builder_steps s @
        map (\<lambda>(name, source). bake_command b64 name source) (wrapper_modules s) @ extra_commands s \<and>
        copy_python \<in> set pre) \<and>
    resolved_context_mount_id s = (case context_mount_id s of Some i \<Rightarrow> Some i | None \<Rightarrow> python_standalone_mount_id s)"
  using assms dockerfile_split provision_add_python
  by (auto simp: resolved_context_mount_id_def dockerfile_commands_def Let_def split: option.split)

lemma add_python_replaces_fallback_witness:
  "dockerfile_commands (\<lambda>x. x) ((with_add_python ''3.12'' default_base)\<lparr>pre_bake_commands := [''RUN true''], pip_install_modal := True\<rparr>)
     = dockerfile_commands (\<lambda>x. x) (with_add_python ''3.12'' default_base) \<and>
    (\<exists>pre. dockerfile_commands (\<lambda>x. x) (with_add_python ''3.12'' default_base) = pre @ builder_steps (with_add_python ''3.12'' default_base) @
        map (\<lambda>(name, source). bake_command (\<lambda>x. x) name source) (wrapper_modules (with_add_python ''3.12'' default_base)) @
        extra_commands (with_add_python ''3.12'' default_base) \<and>
        copy_python \<in> set pre) \<and>
    resolved_context_mount_id (with_add_python ''3.12'' default_base) =
      (case context_mount_id (with_add_python ''3.12'' default_base) of Some i \<Rightarrow> Some i
       | None \<Rightarrow> python_standalone_mount_id (with_add_python ''3.12'' default_base))"
  by (rule add_python_replaces_fallback [of _ "''3.12''"]) (simp add: with_add_python_def)

text \<open>The base layer a Dockerfile starts from is the one the request carries: \<open>FROM base\<close> exactly when
  there is one base image, tagged \<open>base\<close>; a dry run shows the very commands the request sends.\<close>

lemma base_layer_consistent:
  "(case im_base_images (image_to_proto b64 s) of
      [] \<Rightarrow> base_image_id s = None \<and> hd (im_dockerfile_commands (image_to_proto b64 s)) = ''FROM '' @ base_image s
    | [bi] \<Rightarrow> base_image_id s = Some (bi_image_id bi) \<and>
        hd (im_dockerfile_commands (image_to_proto b64 s)) = ''FROM '' @ bi_docker_tag bi
    | _ \<Rightarrow> False) \<and>
   plan_image_request b64 s app_id v = im_dockerfile_commands (image_to_proto b64 s)"
  by (cases "base_image_id s"; cases "add_python s")
     (simp_all add: image_to_proto_def dockerfile_commands_def Let_def plan_image_request_def
       build_image_get_or_create_request_def)

text \<open>The symlink for old interpreters is decided by the minor version as a number, with or without
  the free-threaded suffix.\<close>

lemma python_series_minor:
  assumes "CHR ''.'' \<notin> set major" and "n < 2 ^ 32"
  shows "python_series_lt_13 (major @ ''.'' @ dec n @ replicate k CHR ''t'') \<longleftrightarrow> n < 13"
proof -
  have nt: "CHR ''.'' \<notin> set (dec n @ replicate k CHR ''t'')"
    using dec_no_char [of "CHR ''.''" n] by (auto simp: is_digit_def)
  have "CHR ''t'' \<noteq> last (dec n)"
  proof
    assume "CHR ''t'' = last (dec n)"
    then have "is_digit CHR ''t''" using dec_digits [of "last (dec n)" n] by simp
    then show False by (simp add: is_digit_def)
  qed
  then have "dropWhile (\<lambda>c. c = CHR ''t'') (rev (dec n)) = rev (dec n)"
    by (cases "rev (dec n)") (auto simp: last_conv_nth hd_rev [symmetric])
  moreover have "dropWhile (\<lambda>c. c = CHR ''t'') (replicate k CHR ''t'' @ xs) = dropWhile (\<lambda>c. c = CHR ''t'') xs" for xs
    by (induction k) simp_all
  ultimately have "trim_end_matches (\<lambda>c. c = CHR ''t'') (dec n @ replicate k CHR ''t'') = dec n"
    by (simp add: trim_end_matches_def)
  moreover have "parse_u32 (dec n) = Some (of_nat n)"
    using assms(2) by (simp add: parse_u32_def)
  moreover have "(of_nat n :: u32) < 13 \<longleftrightarrow> n < 13"
    using assms(2) by (simp add: word_less_nat_alt unat_of_nat take_bit_nat_eq_self)
  ultimately show ?thesis
    using assms(1) nt by (simp add: python_series_lt_13_def split_on_append split_on_no_sep)
qed

end
