(* ===== verification/Pickle.thy ===== *)
theory Pickle
  imports SdkError
begin

text \<open>
  The pickle codec of Dict and Queue payloads (\<open>crates/modal-rust-sdk/src/pickle.rs\<close>).  Keys are encoded
  byte for byte as CPython's protocol 4 would; a key is its UTF-8 bytes.  Values go through the
  third-party \<open>serde-pickle\<close>, a record of functions.
\<close>

section \<open>Keys\<close>

definition PROTO :: "8 word" where "PROTO = 0x80"
definition FRAME :: "8 word" where "FRAME = 0x95"
definition SHORT_BINUNICODE :: "8 word" where "SHORT_BINUNICODE = 0x8c"
definition BINUNICODE :: "8 word" where "BINUNICODE = 0x58"
definition BINUNICODE8 :: "8 word" where "BINUNICODE8 = 0x8d"
definition MEMOIZE :: "8 word" where "MEMOIZE = 0x94"
definition STOP :: "8 word" where "STOP = 0x2e"

text \<open>\<open>to_le_bytes\<close> of an unsigned integer of \<open>k\<close> bytes.\<close>

fun to_le_bytes :: "nat \<Rightarrow> nat \<Rightarrow> bytes" where
  "to_le_bytes 0 n = []"
| "to_le_bytes (Suc k) n = of_nat n # to_le_bytes k (n div 256)"

definition encode_str_key :: "bytes \<Rightarrow> bytes" where
  "encode_str_key utf8 =
     (let body = (if length utf8 \<le> 0xff then [SHORT_BINUNICODE, of_nat (length utf8)]
                  else if length utf8 > 0xffffffff then BINUNICODE8 # to_le_bytes 8 (length utf8)
                  else BINUNICODE # to_le_bytes 4 (length utf8));
          body = body @ utf8 @ [MEMOIZE] @ [STOP]
      in [PROTO, 4, FRAME] @ to_le_bytes 8 (length body) @ body)"

section \<open>Values\<close>

datatype pickle_code = UnsupportedOp | UnresolvedGlobal | UnsupportedGlobal | OtherCode
datatype pickle_error = EvalError pickle_code string | SyntaxError pickle_code string | OtherError string
  \<comment> \<open>the string is the error's own text\<close>

record 'v pickle_lib =
  pk_to_vec :: "'v \<Rightarrow> string + bytes"
  pk_from_slice :: "bytes \<Rightarrow> pickle_error + 'v"

definition encode_value :: "'v pickle_lib \<Rightarrow> 'v \<Rightarrow> error + bytes" where
  "encode_value P v = (case pk_to_vec P v of Inl e \<Rightarrow> Inl (Codec (''pickle encode: '' @ e)) | Inr b \<Rightarrow> Inr b)"

fun pickle_text :: "pickle_error \<Rightarrow> string" where
  "pickle_text (EvalError _ t) = t"
| "pickle_text (SyntaxError _ t) = t"
| "pickle_text (OtherError t) = t"

definition is_python_object :: "pickle_code \<Rightarrow> bool" where
  "is_python_object c \<longleftrightarrow> c = UnsupportedOp \<or> c = UnresolvedGlobal \<or> c = UnsupportedGlobal"

definition map_decode_error :: "pickle_error \<Rightarrow> error" where
  "map_decode_error e =
     (let boundary = (case e of EvalError c _ \<Rightarrow> is_python_object c | SyntaxError c _ \<Rightarrow> is_python_object c
                      | OtherError _ \<Rightarrow> False)
      in if boundary
         then Codec (''pickle decode: payload contains a Python object (class/function/custom type) ''
                @ ''that cannot be decoded into Rust plain data '' @ emdash @ '' only ''
                @ ''str/int/float/bool/bytes/lists/dicts interop; use the raw-bytes methods ''
                @ ''(get_raw/put_raw) to pass it through opaquely ('' @ pickle_text e @ '')'')
         else Codec (''pickle decode: '' @ pickle_text e))"

definition decode_value :: "'v pickle_lib \<Rightarrow> bytes \<Rightarrow> error + 'v" where
  "decode_value P b = (case pk_from_slice P b of Inl e \<Rightarrow> Inl (map_decode_error e) | Inr v \<Rightarrow> Inr v)"

section \<open>A reader of pickled strings\<close>

text \<open>The specification: what an unpickler makes of a single protocol-4 string frame.\<close>

fun of_le_bytes :: "bytes \<Rightarrow> nat" where
  "of_le_bytes [] = 0"
| "of_le_bytes (b # bs) = unat b + 256 * of_le_bytes bs"

definition take_string :: "nat \<Rightarrow> bytes \<Rightarrow> bytes option" where
  "take_string n rest = (if drop n rest = [MEMOIZE, STOP] \<and> n \<le> length rest then Some (take n rest) else None)"

definition unpickle_body :: "bytes \<Rightarrow> bytes option" where
  "unpickle_body body =
     (case body of
        [] \<Rightarrow> None
      | op # rest \<Rightarrow>
          if op = SHORT_BINUNICODE then take_string (of_le_bytes (take 1 rest)) (drop 1 rest)
          else if op = BINUNICODE then take_string (of_le_bytes (take 4 rest)) (drop 4 rest)
          else if op = BINUNICODE8 then take_string (of_le_bytes (take 8 rest)) (drop 8 rest)
          else None)"

definition unpickle_str :: "bytes \<Rightarrow> bytes option" where
  "unpickle_str bs =
     (if take 3 bs = [PROTO, 4, FRAME] \<and> of_le_bytes (take 8 (drop 3 bs)) = length (drop 11 bs)
      then unpickle_body (drop 11 bs) else None)"

lemma length_to_le_bytes [simp]: "length (to_le_bytes k n) = k"
  by (induction k arbitrary: n) auto

lemma of_to_le_bytes: "n < 256 ^ k \<Longrightarrow> of_le_bytes (to_le_bytes k n) = n"
proof (induction k arbitrary: n)
  case (Suc k)
  then have "n div 256 < 256 ^ k" by (simp add: less_mult_imp_div_less mult.commute)
  moreover have "unat (of_nat n :: 8 word) = n mod 256"
    by (simp add: unat_of_nat)
  ultimately show ?case using Suc.IH by simp
qed simp

lemma take_string_exact: "take_string (length s) (s @ [MEMOIZE, STOP]) = Some s"
  by (simp add: take_string_def)

lemma opcodes_distinct [simp]:
  "BINUNICODE \<noteq> SHORT_BINUNICODE" "BINUNICODE8 \<noteq> SHORT_BINUNICODE" "BINUNICODE8 \<noteq> BINUNICODE"
  by (simp_all add: BINUNICODE_def BINUNICODE8_def SHORT_BINUNICODE_def)

lemma unpickle_encoded:
  assumes "length k < 2 ^ 63"
  shows "unpickle_str (encode_str_key k) = Some k"
proof -
  define pre where "pre = (if length k \<le> 0xff then [SHORT_BINUNICODE, of_nat (length k)]
                  else if length k > 0xffffffff then BINUNICODE8 # to_le_bytes 8 (length k)
                  else BINUNICODE # to_le_bytes 4 (length k))"
  define body where "body = pre @ k @ [MEMOIZE, STOP]"
  have enc: "encode_str_key k = [PROTO, 4, FRAME] @ to_le_bytes 8 (length body) @ body"
    by (simp add: encode_str_key_def body_def pre_def Let_def)
  have "length pre \<le> 9" by (simp add: pre_def)
  then have "length body < 256 ^ 8" using assms by (simp add: body_def)
  then have "of_le_bytes (to_le_bytes 8 (length body)) = length body" by (rule of_to_le_bytes)
  then have "unpickle_str (encode_str_key k) = unpickle_body body"
    by (simp add: enc unpickle_str_def)
  also have "unpickle_body body = Some k"
  proof -
    consider (short) "length k \<le> 0xff" | (long) "length k > 0xffffffff"
      | (mid) "\<not> length k \<le> 0xff" "\<not> length k > 0xffffffff" by blast
    then show ?thesis
    proof cases
      case short
      then have "of_le_bytes [of_nat (length k)] = length k"
        using of_to_le_bytes [of "length k" 1] by simp
      with short show ?thesis
        by (simp add: body_def pre_def unpickle_body_def take_string_exact)
    next
      case long
      have "of_le_bytes (to_le_bytes 8 (length k)) = length k"
        using assms by (intro of_to_le_bytes) simp
      with long show ?thesis
        by (simp add: body_def pre_def unpickle_body_def take_string_exact)
    next
      case mid
      have "of_le_bytes (to_le_bytes 4 (length k)) = length k"
        using mid by (intro of_to_le_bytes) simp
      with mid show ?thesis
        by (simp add: body_def pre_def unpickle_body_def take_string_exact)
    qed
  qed
  finally show ?thesis .
qed

lemma decode_value_error: "decode_value P b = Inl e \<Longrightarrow> \<exists>m. e = Codec m"
  by (auto simp: decode_value_def map_decode_error_def Let_def split: sum.splits)

section \<open>Properties\<close>

text \<open>An encoded key reads back as the key, through any of the three length forms; so two keys meet
  at the server, which compares bytes, exactly when they are the same string.\<close>

lemma key_roundtrip:
  assumes "length k < 2 ^ 63" "length l < 2 ^ 63"
  shows "unpickle_str (encode_str_key k) = Some k \<and> (encode_str_key k = encode_str_key l \<longleftrightarrow> k = l)"
  using unpickle_encoded [OF assms(1)] unpickle_encoded [OF assms(2)] by (metis option.inject)

lemma key_roundtrip_witness:
  "unpickle_str (encode_str_key [0x66, 0x6f, 0x6f]) = Some [0x66, 0x6f, 0x6f] \<and>
   (encode_str_key [0x66, 0x6f, 0x6f] = encode_str_key [] \<longleftrightarrow> [0x66, 0x6f, 0x6f] = ([] :: bytes))"
  by (rule key_roundtrip) simp_all

end
