(* ===== verification/DictQueue.thy ===== *)
theory DictQueue
  imports Retry ClientConfig Pickle
begin

text \<open>
  Dicts and queues: the SDK operations (\<open>crates/modal-rust-sdk/src/ops/dict.rs\<close>, \<open>ops/queue.rs\<close>) and
  the typed handles over them (\<open>crates/modal-rust/src/dict.rs\<close>, \<open>queue.rs\<close>).  The client of a
  handle is the stub its operations take; its mutex is not modelled, since a call holds it from start to end.  Wire timeouts are
  kept in nanoseconds: the rounding to \<open>f32\<close> seconds is left out, and so is the overflow panic of
  \<open>Instant::now() + d\<close>.
\<close>

section \<open>Messages\<close>

datatype object_creation_type = OctUnspecified | CreateIfMissing | CreateFailIfExists
  | CreateOverwriteIfExists | AnonymousOwnedByApp | Ephemeral

fun creation_type_number :: "object_creation_type \<Rightarrow> int" where
  "creation_type_number OctUnspecified = 0"
| "creation_type_number CreateIfMissing = 1"
| "creation_type_number CreateFailIfExists = 2"
| "creation_type_number CreateOverwriteIfExists = 3"
| "creation_type_number AnonymousOwnedByApp = 4"
| "creation_type_number Ephemeral = 5"

record resolve_request =
  rr_deployment_name :: string
  rr_environment_name :: string
  rr_object_creation_type :: int

record dict_key_request =
  dk_dict_id :: string
  dk_key :: bytes

record dict_update_request =
  du_dict_id :: string
  du_updates :: "(bytes \<times> bytes) list"
  du_if_not_exists :: bool

record dict_value_response =
  dv_found :: bool
  dv_value :: "bytes option"

record queue_put_request =
  qp_queue_id :: string
  qp_values :: "bytes list"
  qp_partition_key :: bytes
  qp_partition_ttl_seconds :: int

record queue_get_request =
  qg_queue_id :: string
  qg_timeout :: nat
  qg_n_values :: int
  qg_partition_key :: bytes

record queue_len_request =
  ql_queue_id :: string
  ql_partition_key :: bytes
  ql_total :: bool

record queue_clear_request =
  qc_queue_id :: string
  qc_partition_key :: bytes
  qc_all_partitions :: bool

text \<open>The requests of \<open>DictLen\<close>, \<open>DictClear\<close>, \<open>DictDelete\<close> and \<open>QueueDelete\<close> are the object's id; a
  resolve answers an id, \<open>DictUpdate\<close> its \<open>created\<close> flag, \<open>DictContains\<close> its \<open>found\<close> flag, the two
  lengths an \<open>int32\<close>, \<open>QueueGet\<close> its values.\<close>

record 'w object_stub =
  dict_get_or_create_rpc :: "('w, resolve_request, string) rpc"
  dict_get_rpc :: "('w, dict_key_request, dict_value_response) rpc"
  dict_update_rpc :: "('w, dict_update_request, bool) rpc"
  dict_pop_rpc :: "('w, dict_key_request, dict_value_response) rpc"
  dict_contains_rpc :: "('w, dict_key_request, bool) rpc"
  dict_len_rpc :: "('w, string, int) rpc"
  dict_clear_rpc :: "('w, string, unit) rpc"
  dict_delete_rpc :: "('w, string, unit) rpc"
  queue_get_or_create_rpc :: "('w, resolve_request, string) rpc"
  queue_put_rpc :: "('w, queue_put_request, unit) rpc"
  queue_get_rpc :: "('w, queue_get_request, bytes list) rpc"
  queue_len_rpc :: "('w, queue_len_request, int) rpc"
  queue_clear_rpc :: "('w, queue_clear_request, unit) rpc"
  queue_delete_rpc :: "('w, string, unit) rpc"

definition DEFAULT_PARTITION_TTL_SECONDS :: int where "DEFAULT_PARTITION_TTL_SECONDS = 24 * 3600"
definition QUEUE_GET_PER_RPC_TIMEOUT :: nat where "QUEUE_GET_PER_RPC_TIMEOUT = secs 50"

section \<open>Request builders\<close>

definition build_dict_get_or_create_request :: "string \<Rightarrow> string \<Rightarrow> object_creation_type \<Rightarrow> resolve_request" where
  "build_dict_get_or_create_request name env_name ct =
     \<lparr>rr_deployment_name = name, rr_environment_name = env_name,
      rr_object_creation_type = creation_type_number ct\<rparr>"

definition build_dict_get_request :: "string \<Rightarrow> bytes \<Rightarrow> dict_key_request" where
  "build_dict_get_request i k = \<lparr>dk_dict_id = i, dk_key = k\<rparr>"

definition build_dict_update_request :: "string \<Rightarrow> (bytes \<times> bytes) list \<Rightarrow> bool \<Rightarrow> dict_update_request" where
  "build_dict_update_request i entries if_not_exists =
     \<lparr>du_dict_id = i, du_updates = map (\<lambda>(k, v). (k, v)) entries, du_if_not_exists = if_not_exists\<rparr>"

definition build_dict_pop_request :: "string \<Rightarrow> bytes \<Rightarrow> dict_key_request" where
  "build_dict_pop_request i k = \<lparr>dk_dict_id = i, dk_key = k\<rparr>"

definition build_dict_contains_request :: "string \<Rightarrow> bytes \<Rightarrow> dict_key_request" where
  "build_dict_contains_request i k = \<lparr>dk_dict_id = i, dk_key = k\<rparr>"

definition build_queue_get_or_create_request :: "string \<Rightarrow> string \<Rightarrow> object_creation_type \<Rightarrow> resolve_request" where
  "build_queue_get_or_create_request name env_name ct =
     \<lparr>rr_deployment_name = name, rr_environment_name = env_name,
      rr_object_creation_type = creation_type_number ct\<rparr>"

definition build_queue_put_request :: "string \<Rightarrow> bytes list \<Rightarrow> bytes \<Rightarrow> int \<Rightarrow> queue_put_request" where
  "build_queue_put_request i values pk ttl =
     \<lparr>qp_queue_id = i, qp_values = values, qp_partition_key = pk, qp_partition_ttl_seconds = ttl\<rparr>"

definition build_queue_get_request :: "string \<Rightarrow> u32 \<Rightarrow> nat \<Rightarrow> bytes \<Rightarrow> queue_get_request" where
  "build_queue_get_request i n_values timeout pk =
     \<lparr>qg_queue_id = i, qg_timeout = timeout,
      qg_n_values = min (int (unat (max n_values 1))) (2 ^ 31 - 1), qg_partition_key = pk\<rparr>"

definition build_queue_len_request :: "string \<Rightarrow> bytes \<Rightarrow> bool \<Rightarrow> queue_len_request" where
  "build_queue_len_request i pk whole = \<lparr>ql_queue_id = i, ql_partition_key = pk, ql_total = whole\<rparr>"

definition build_queue_clear_request :: "string \<Rightarrow> bytes \<Rightarrow> bool \<Rightarrow> queue_clear_request" where
  "build_queue_clear_request i pk all_partitions =
     \<lparr>qc_queue_id = i, qc_partition_key = pk, qc_all_partitions = all_partitions\<rparr>"

section \<open>Dict operations\<close>

definition dict_get_or_create ::
  "'w host \<Rightarrow> 'w object_stub \<Rightarrow> modal_config \<Rightarrow> string \<Rightarrow> object_creation_type \<Rightarrow> string option \<Rightarrow> ('w, string) io" where
  "dict_get_or_create h st c name ct env =
     bind_io (retry_rpc h (dict_get_or_create_rpc st) (build_dict_get_or_create_request name (env_or_default c env) ct))
       (\<lambda>i. if i = [] then throw (Build (''DictGetOrCreate for '' @ [CHR 0x27] @ name @ [CHR 0x27]
                                  @ '' returned an empty dict_id''))
            else ret i)"

definition found_value :: "dict_value_response \<Rightarrow> bytes option" where
  "found_value resp = (if dv_found resp then Some (case dv_value resp of Some v \<Rightarrow> v | None \<Rightarrow> []) else None)"

definition dict_get :: "'w host \<Rightarrow> 'w object_stub \<Rightarrow> string \<Rightarrow> bytes \<Rightarrow> ('w, bytes option) io" where
  "dict_get h st i k =
     bind_io (retry_rpc h (dict_get_rpc st) (build_dict_get_request i k)) (\<lambda>resp. ret (found_value resp))"

definition dict_update ::
  "'w host \<Rightarrow> 'w object_stub \<Rightarrow> string \<Rightarrow> (bytes \<times> bytes) list \<Rightarrow> bool \<Rightarrow> ('w, bool) io" where
  "dict_update h st i entries if_not_exists =
     retry_rpc h (dict_update_rpc st) (build_dict_update_request i entries if_not_exists)"

definition dict_pop :: "'w host \<Rightarrow> 'w object_stub \<Rightarrow> string \<Rightarrow> bytes \<Rightarrow> ('w, bytes option) io" where
  "dict_pop h st i k =
     bind_io (retry_rpc h (dict_pop_rpc st) (build_dict_pop_request i k)) (\<lambda>resp. ret (found_value resp))"

definition dict_contains :: "'w host \<Rightarrow> 'w object_stub \<Rightarrow> string \<Rightarrow> bytes \<Rightarrow> ('w, bool) io" where
  "dict_contains h st i k = retry_rpc h (dict_contains_rpc st) (build_dict_contains_request i k)"

definition widen_len :: "int \<Rightarrow> nat" where "widen_len n = (if 0 \<le> n then nat n else 0)"

definition dict_len :: "'w host \<Rightarrow> 'w object_stub \<Rightarrow> string \<Rightarrow> ('w, nat) io" where
  "dict_len h st i = bind_io (retry_rpc h (dict_len_rpc st) i) (\<lambda>n. ret (widen_len n))"

definition dict_clear :: "'w host \<Rightarrow> 'w object_stub \<Rightarrow> string \<Rightarrow> ('w, unit) io" where
  "dict_clear h st i = retry_rpc h (dict_clear_rpc st) i"

definition dict_delete :: "'w host \<Rightarrow> 'w object_stub \<Rightarrow> string \<Rightarrow> ('w, unit) io" where
  "dict_delete h st i = retry_rpc h (dict_delete_rpc st) i"

section \<open>Queue operations\<close>

definition queue_get_or_create ::
  "'w host \<Rightarrow> 'w object_stub \<Rightarrow> modal_config \<Rightarrow> string \<Rightarrow> object_creation_type \<Rightarrow> string option \<Rightarrow> ('w, string) io" where
  "queue_get_or_create h st c name ct env =
     bind_io (retry_rpc h (queue_get_or_create_rpc st) (build_queue_get_or_create_request name (env_or_default c env) ct))
       (\<lambda>i. if i = [] then throw (Build (''QueueGetOrCreate for '' @ [CHR 0x27] @ name @ [CHR 0x27]
                                  @ '' returned an empty queue_id''))
            else ret i)"

definition queue_put :: "'w host \<Rightarrow> 'w object_stub \<Rightarrow> string \<Rightarrow> bytes list \<Rightarrow> ('w, unit) io" where
  "queue_put h st i values =
     retry_rpc h (queue_put_rpc st) (build_queue_put_request i values [] DEFAULT_PARTITION_TTL_SECONDS)"

definition queue_get :: "'w host \<Rightarrow> 'w object_stub \<Rightarrow> string \<Rightarrow> u32 \<Rightarrow> nat \<Rightarrow> ('w, bytes list) io" where
  "queue_get h st i n timeout = retry_rpc h (queue_get_rpc st) (build_queue_get_request i n timeout [])"

definition queue_get_step ::
  "'w host \<Rightarrow> 'w object_stub \<Rightarrow> string \<Rightarrow> u32 \<Rightarrow> nat option \<Rightarrow> 'w \<Rightarrow> ('w + (error + bytes list) \<times> 'w) option" where
  "queue_get_step h st i n deadline w =
     (let per_rpc = (case deadline of
                       None \<Rightarrow> QUEUE_GET_PER_RPC_TIMEOUT
                     | Some dl \<Rightarrow> min (dl - instant_now h w) QUEUE_GET_PER_RPC_TIMEOUT)
      in case queue_get h st i n per_rpc w of
           None \<Rightarrow> None
         | Some (Inl e, w1) \<Rightarrow> Some (Inr (Inl e, w1))
         | Some (Inr values, w1) \<Rightarrow>
             (if values \<noteq> [] then Some (Inr (Inr values, w1))
              else case deadline of
                     Some dl \<Rightarrow> if dl \<le> instant_now h w1 then Some (Inr (Inr [], w1)) else Some (Inl w1)
                   | None \<Rightarrow> Some (Inl w1)))"

definition queue_get_blocking ::
  "'w host \<Rightarrow> 'w object_stub \<Rightarrow> string \<Rightarrow> u32 \<Rightarrow> nat option \<Rightarrow> ('w, bytes list) io" where
  "queue_get_blocking h st i n timeout w =
     loop (queue_get_step h st i n (map_option (\<lambda>d. instant_now h w + d) timeout)) w"

definition queue_len :: "'w host \<Rightarrow> 'w object_stub \<Rightarrow> string \<Rightarrow> ('w, nat) io" where
  "queue_len h st i =
     bind_io (retry_rpc h (queue_len_rpc st) (build_queue_len_request i [] False)) (\<lambda>n. ret (widen_len n))"

definition queue_clear :: "'w host \<Rightarrow> 'w object_stub \<Rightarrow> string \<Rightarrow> ('w, unit) io" where
  "queue_clear h st i = retry_rpc h (queue_clear_rpc st) (build_queue_clear_request i [] True)"

definition queue_delete :: "'w host \<Rightarrow> 'w object_stub \<Rightarrow> string \<Rightarrow> ('w, unit) io" where
  "queue_delete h st i = retry_rpc h (queue_delete_rpc st) i"

section \<open>The Dict handle\<close>

record object_handle =
  oh_id :: string
  oh_name :: string

text \<open>The configuration of a client on the mock server.\<close>

definition mock_client_config :: "string \<Rightarrow> modal_config" where
  "mock_client_config url =
     \<lparr>profile = ''mock'', server_url = url, token_id = ''ak-mock'', token_secret = ''as-mock'',
      environment = Some ''main'', image_builder_version = None, is_container = False\<rparr>"

definition Dict_resolve_with ::
  "'w host \<Rightarrow> 'w object_stub \<Rightarrow> modal_config \<Rightarrow> string \<Rightarrow> object_creation_type \<Rightarrow> string option \<Rightarrow> ('w, object_handle) io" where
  "Dict_resolve_with h st c name creation_type env =
     bind_io (dict_get_or_create h st c name creation_type env) (\<lambda>i. ret \<lparr>oh_id = i, oh_name = name\<rparr>)"

definition Dict_from_name :: "'w host \<Rightarrow> 'w object_stub \<Rightarrow> modal_config \<Rightarrow> string \<Rightarrow> ('w, object_handle) io" where
  "Dict_from_name h st c name = Dict_resolve_with h st c name CreateIfMissing None"

definition Dict_lookup :: "'w host \<Rightarrow> 'w object_stub \<Rightarrow> modal_config \<Rightarrow> string \<Rightarrow> ('w, object_handle) io" where
  "Dict_lookup h st c name = Dict_resolve_with h st c name OctUnspecified None"

definition Dict_from_name_in :: "'w host \<Rightarrow> 'w object_stub \<Rightarrow> modal_config \<Rightarrow> string \<Rightarrow> string \<Rightarrow> ('w, object_handle) io" where
  "Dict_from_name_in h st c name env = Dict_resolve_with h st c name CreateIfMissing (Some env)"

definition Dict_delete :: "'w host \<Rightarrow> 'w object_stub \<Rightarrow> modal_config \<Rightarrow> string \<Rightarrow> ('w, unit) io" where
  "Dict_delete h st c name =
     bind_io (dict_get_or_create h st c name OctUnspecified None) (dict_delete h st)"

definition Dict_from_name_at :: "'w host \<Rightarrow> 'w object_stub \<Rightarrow> string \<Rightarrow> string \<Rightarrow> ('w, object_handle) io" where
  "Dict_from_name_at h st name url = Dict_resolve_with h st (mock_client_config url) name CreateIfMissing None"

definition Dict_get_raw :: "'w host \<Rightarrow> 'w object_stub \<Rightarrow> string \<Rightarrow> bytes \<Rightarrow> ('w, bytes option) io" where [simp]:
  "Dict_get_raw h st i key = dict_get h st i key"

definition Dict_put_raw :: "'w host \<Rightarrow> 'w object_stub \<Rightarrow> string \<Rightarrow> bytes \<Rightarrow> bytes \<Rightarrow> ('w, unit) io" where [simp]:
  "Dict_put_raw h st i key value = bind_io (dict_update h st i [(key, value)] False) (\<lambda>_. ret ())"

definition Dict_put_if_absent_raw ::
  "'w host \<Rightarrow> 'w object_stub \<Rightarrow> string \<Rightarrow> bytes \<Rightarrow> bytes \<Rightarrow> ('w, bool) io" where [simp]:
  "Dict_put_if_absent_raw h st i key value = dict_update h st i [(key, value)] True"

definition Dict_pop_raw :: "'w host \<Rightarrow> 'w object_stub \<Rightarrow> string \<Rightarrow> bytes \<Rightarrow> ('w, bytes option) io" where [simp]:
  "Dict_pop_raw h st i key = dict_pop h st i key"

definition Dict_contains_raw :: "'w host \<Rightarrow> 'w object_stub \<Rightarrow> string \<Rightarrow> bytes \<Rightarrow> ('w, bool) io" where [simp]:
  "Dict_contains_raw h st i key = dict_contains h st i key"

definition Dict_len :: "'w host \<Rightarrow> 'w object_stub \<Rightarrow> string \<Rightarrow> ('w, nat) io" where
  "Dict_len h st i = dict_len h st i"

definition Dict_clear :: "'w host \<Rightarrow> 'w object_stub \<Rightarrow> string \<Rightarrow> ('w, unit) io" where
  "Dict_clear h st i = dict_clear h st i"

definition decode_opt :: "'v pickle_lib \<Rightarrow> bytes option \<Rightarrow> error + 'v option" where
  "decode_opt P b = (case b of None \<Rightarrow> Inr None | Some x \<Rightarrow> and_then (decode_value P x) (\<lambda>v. Inr (Some v)))"

definition Dict_get :: "'w host \<Rightarrow> 'w object_stub \<Rightarrow> 'v pickle_lib \<Rightarrow> string \<Rightarrow> bytes \<Rightarrow> ('w, 'v option) io" where
  "Dict_get h st P i key =
     bind_io (Dict_get_raw h st i (encode_str_key key)) (\<lambda>b. lift_res (decode_opt P b))"

definition Dict_put :: "'w host \<Rightarrow> 'w object_stub \<Rightarrow> 'v pickle_lib \<Rightarrow> string \<Rightarrow> bytes \<Rightarrow> 'v \<Rightarrow> ('w, unit) io" where
  "Dict_put h st P i key v =
     bind_io (lift_res (encode_value P v)) (\<lambda>b. Dict_put_raw h st i (encode_str_key key) b)"

definition Dict_put_if_absent ::
  "'w host \<Rightarrow> 'w object_stub \<Rightarrow> 'v pickle_lib \<Rightarrow> string \<Rightarrow> bytes \<Rightarrow> 'v \<Rightarrow> ('w, bool) io" where
  "Dict_put_if_absent h st P i key v =
     bind_io (lift_res (encode_value P v)) (\<lambda>b. Dict_put_if_absent_raw h st i (encode_str_key key) b)"

definition Dict_pop :: "'w host \<Rightarrow> 'w object_stub \<Rightarrow> 'v pickle_lib \<Rightarrow> string \<Rightarrow> bytes \<Rightarrow> ('w, 'v option) io" where
  "Dict_pop h st P i key =
     bind_io (Dict_pop_raw h st i (encode_str_key key)) (\<lambda>b. lift_res (decode_opt P b))"

definition Dict_contains :: "'w host \<Rightarrow> 'w object_stub \<Rightarrow> string \<Rightarrow> bytes \<Rightarrow> ('w, bool) io" where
  "Dict_contains h st i key = Dict_contains_raw h st i (encode_str_key key)"

section \<open>The Queue handle\<close>

definition Queue_resolve_with ::
  "'w host \<Rightarrow> 'w object_stub \<Rightarrow> modal_config \<Rightarrow> string \<Rightarrow> object_creation_type \<Rightarrow> string option \<Rightarrow> ('w, object_handle) io" where
  "Queue_resolve_with h st c name creation_type env =
     bind_io (queue_get_or_create h st c name creation_type env) (\<lambda>i. ret \<lparr>oh_id = i, oh_name = name\<rparr>)"

definition Queue_from_name :: "'w host \<Rightarrow> 'w object_stub \<Rightarrow> modal_config \<Rightarrow> string \<Rightarrow> ('w, object_handle) io" where
  "Queue_from_name h st c name = Queue_resolve_with h st c name CreateIfMissing None"

definition Queue_lookup :: "'w host \<Rightarrow> 'w object_stub \<Rightarrow> modal_config \<Rightarrow> string \<Rightarrow> ('w, object_handle) io" where
  "Queue_lookup h st c name = Queue_resolve_with h st c name OctUnspecified None"

definition Queue_from_name_in :: "'w host \<Rightarrow> 'w object_stub \<Rightarrow> modal_config \<Rightarrow> string \<Rightarrow> string \<Rightarrow> ('w, object_handle) io" where
  "Queue_from_name_in h st c name env = Queue_resolve_with h st c name CreateIfMissing (Some env)"

definition Queue_delete :: "'w host \<Rightarrow> 'w object_stub \<Rightarrow> modal_config \<Rightarrow> string \<Rightarrow> ('w, unit) io" where
  "Queue_delete h st c name =
     bind_io (queue_get_or_create h st c name OctUnspecified None) (queue_delete h st)"

definition Queue_from_name_at :: "'w host \<Rightarrow> 'w object_stub \<Rightarrow> string \<Rightarrow> string \<Rightarrow> ('w, object_handle) io" where
  "Queue_from_name_at h st name url = Queue_resolve_with h st (mock_client_config url) name CreateIfMissing None"

definition Queue_put_raw :: "'w host \<Rightarrow> 'w object_stub \<Rightarrow> string \<Rightarrow> bytes list \<Rightarrow> ('w, unit) io" where
  "Queue_put_raw h st i values = (if values = [] then ret () else queue_put h st i values)"

definition Queue_get_raw ::
  "'w host \<Rightarrow> 'w object_stub \<Rightarrow> string \<Rightarrow> u32 \<Rightarrow> nat option \<Rightarrow> ('w, bytes list) io" where [simp]:
  "Queue_get_raw h st i n timeout = queue_get_blocking h st i n timeout"

definition Queue_len :: "'w host \<Rightarrow> 'w object_stub \<Rightarrow> string \<Rightarrow> ('w, nat) io" where
  "Queue_len h st i = queue_len h st i"

definition Queue_clear :: "'w host \<Rightarrow> 'w object_stub \<Rightarrow> string \<Rightarrow> ('w, unit) io" where
  "Queue_clear h st i = queue_clear h st i"

definition encode_values :: "'v pickle_lib \<Rightarrow> 'v list \<Rightarrow> error + bytes list" where
  "encode_values P vs = try_fold (\<lambda>v bs. and_then (encode_value P v) (\<lambda>b. Inr (bs @ [b]))) vs []"

definition decode_values :: "'v pickle_lib \<Rightarrow> bytes list \<Rightarrow> error + 'v list" where
  "decode_values P bs = try_fold (\<lambda>b vs. and_then (decode_value P b) (\<lambda>v. Inr (vs @ [v]))) bs []"

definition first_decoded :: "'v pickle_lib \<Rightarrow> bytes list \<Rightarrow> error + 'v option" where
  "first_decoded P bs = (case bs of [] \<Rightarrow> Inr None | b # _ \<Rightarrow> and_then (decode_value P b) (\<lambda>v. Inr (Some v)))"

definition Queue_put :: "'w host \<Rightarrow> 'w object_stub \<Rightarrow> 'v pickle_lib \<Rightarrow> string \<Rightarrow> 'v \<Rightarrow> ('w, unit) io" where
  "Queue_put h st P i v = bind_io (lift_res (encode_value P v)) (\<lambda>b. Queue_put_raw h st i [b])"

definition Queue_put_many :: "'w host \<Rightarrow> 'w object_stub \<Rightarrow> 'v pickle_lib \<Rightarrow> string \<Rightarrow> 'v list \<Rightarrow> ('w, unit) io" where
  "Queue_put_many h st P i vs = bind_io (lift_res (encode_values P vs)) (Queue_put_raw h st i)"

definition Queue_get ::
  "'w host \<Rightarrow> 'w object_stub \<Rightarrow> 'v pickle_lib \<Rightarrow> string \<Rightarrow> nat option \<Rightarrow> ('w, 'v option) io" where
  "Queue_get h st P i timeout =
     bind_io (Queue_get_raw h st i 1 timeout) (\<lambda>bs. lift_res (first_decoded P bs))"

definition Queue_get_many ::
  "'w host \<Rightarrow> 'w object_stub \<Rightarrow> 'v pickle_lib \<Rightarrow> string \<Rightarrow> u32 \<Rightarrow> nat option \<Rightarrow> ('w, 'v list) io" where
  "Queue_get_many h st P i n timeout =
     bind_io (Queue_get_raw h st i n timeout) (\<lambda>bs. lift_res (decode_values P bs))"

section \<open>Facts\<close>

lemma try_fold_collect:
  "try_fold (\<lambda>x acc. and_then (f x) (\<lambda>b. Inr (acc @ [b]))) xs acc = Inr out \<longleftrightarrow>
     (\<exists>bs. out = acc @ bs \<and> list_all2 (\<lambda>x b. f x = Inr b) xs bs)"
proof (induction xs arbitrary: acc)
  case (Cons x xs)
  show ?case
  proof (cases "f x")
    case (Inr b)
    then show ?thesis by (auto simp: Cons.IH list_all2_Cons1)
  qed (auto simp: list_all2_Cons1)
qed auto

lemma encode_values_Inr: "encode_values P vs = Inr bs \<longleftrightarrow> list_all2 (\<lambda>v b. encode_value P v = Inr b) vs bs"
  by (simp add: encode_values_def try_fold_collect)

lemma decode_values_Inr: "decode_values P bs = Inr vs \<longleftrightarrow> list_all2 (\<lambda>b v. decode_value P b = Inr v) bs vs"
  by (simp add: decode_values_def try_fold_collect)

text \<open>A call the stub answers at once, with a value or with an error that is not transient, is the
  stub's answer.\<close>

lemma retry_rpc_now:
  assumes "rpc req w = Some (x, w')" and "\<And>s. x = Inl s \<Longrightarrow> \<not> is_transient (Status s)"
  shows "retry_rpc h rpc req w = Some (map_sum Status id x, w')"
proof (cases x)
  case (Inl s)
  with assms show ?thesis
    unfolding retry_rpc_def retry_unary_def retry_transient_def backoff_loop_def
    by (subst loop_break)
       (simp_all add: backoff_step_def rpc_attempt_def call_stub_def del: is_transient.simps(2))
next
  case (Inr v)
  with assms show ?thesis
    unfolding retry_rpc_def retry_unary_def retry_transient_def backoff_loop_def
    by (subst loop_break) (simp_all add: backoff_step_def rpc_attempt_def call_stub_def)
qed

lemma queue_get_live:
  assumes "forward_clock h" "live_rpc h (queue_get_rpc st)"
  obtains r w' where "queue_get h st i n t w = Some (r, w')" "instant_now h w < instant_now h w'"
  using live_retry_rpc [OF assms] unfolding queue_get_def by blast

lemma queue_get_step_ends:
  "queue_get_step h st i n deadline w = Some (Inr (Inr vs, w')) \<Longrightarrow>
     vs \<noteq> [] \<or> (\<exists>dl. deadline = Some dl \<and> dl \<le> instant_now h w')"
  by (auto simp: queue_get_step_def Let_def split: option.splits sum.splits if_splits)

lemma queue_get_blocking_returns:
  assumes "forward_clock h" "live_rpc h (queue_get_rpc st)"
  shows "\<exists>r. queue_get_blocking h st i n (Some d) w = Some r"
  unfolding queue_get_blocking_def
proof (rule loop_total [where I = "\<lambda>_. True" and m = "\<lambda>v. Suc (instant_now h w + d) - instant_now h v"])
  fix v
  obtain r v' where "queue_get h st i n (min (instant_now h w + d - instant_now h v) QUEUE_GET_PER_RPC_TIMEOUT) v = Some (r, v')"
    using queue_get_live [OF assms] by blast
  then show "queue_get_step h st i n (map_option (\<lambda>d. instant_now h w + d) (Some d)) v \<noteq> None"
    by (auto simp: queue_get_step_def Let_def split: sum.splits)
next
  fix v v'
  assume step: "queue_get_step h st i n (map_option (\<lambda>d. instant_now h w + d) (Some d)) v = Some (Inl v')"
  obtain r v1 where run: "queue_get h st i n (min (instant_now h w + d - instant_now h v) QUEUE_GET_PER_RPC_TIMEOUT) v = Some (r, v1)"
    "instant_now h v < instant_now h v1" using queue_get_live [OF assms] by blast
  with step have "v' = v1" "\<not> instant_now h w + d \<le> instant_now h v1"
    by (auto simp: queue_get_step_def Let_def split: sum.splits if_splits)
  with run(2) show "True \<and> Suc (instant_now h w + d) - instant_now h v' < Suc (instant_now h w + d) - instant_now h v"
    by simp
qed simp

section \<open>Properties\<close>

text \<open>A blocking queue read with a timeout ends against a live service, and comes back empty only
  when the timeout has passed.\<close>

lemma queue_get_blocking_ends:
  assumes "forward_clock h" "live_rpc h (queue_get_rpc st)"
  shows "case queue_get_blocking h st i n (Some d) w of
     None \<Rightarrow> False
   | Some (r, w') \<Rightarrow> r = Inr [] \<longrightarrow> instant_now h w + d \<le> instant_now h w'"
proof -
  obtain r w' where run: "queue_get_blocking h st i n (Some d) w = Some (r, w')"
    using queue_get_blocking_returns [OF assms] by (metis surj_pair)
  from loop_ends [OF run [unfolded queue_get_blocking_def]] obtain v where
    "queue_get_step h st i n (map_option (\<lambda>d. instant_now h w + d) (Some d)) v = Some (Inr (r, w'))" by blast
  with run show ?thesis by (auto dest: queue_get_step_ends)
qed

definition empty_queue_stub :: "(nat \<times> nat) object_stub" where
  "empty_queue_stub =
     \<lparr>dict_get_or_create_rpc = tick_rpc (Inr ''di-1''), dict_get_rpc = tick_rpc (Inr \<lparr>dv_found = False, dv_value = None\<rparr>),
      dict_update_rpc = tick_rpc (Inr True), dict_pop_rpc = tick_rpc (Inr \<lparr>dv_found = False, dv_value = None\<rparr>),
      dict_contains_rpc = tick_rpc (Inr False), dict_len_rpc = tick_rpc (Inr 0), dict_clear_rpc = tick_rpc (Inr ()),
      dict_delete_rpc = tick_rpc (Inr ()), queue_get_or_create_rpc = tick_rpc (Inr ''qu-1''),
      queue_put_rpc = tick_rpc (Inr ()), queue_get_rpc = tick_rpc (Inr []), queue_len_rpc = tick_rpc (Inr 0),
      queue_clear_rpc = tick_rpc (Inr ()), queue_delete_rpc = tick_rpc (Inr ())\<rparr>"

lemma queue_get_blocking_ends_witness:
  "case queue_get_blocking tick_host empty_queue_stub ''qu-1'' 1 (Some 3) (0, 0) of
     None \<Rightarrow> False
   | Some (r, w') \<Rightarrow> r = Inr [] \<longrightarrow> instant_now tick_host (0, 0) + 3 \<le> instant_now tick_host w'"
  by (rule queue_get_blocking_ends) (simp_all add: empty_queue_stub_def)

end
