(* ===== verification/ObjectStore.thy ===== *)
theory ObjectStore
  imports Prelude "HOL-Library.AList"
begin

text \<open>
  The in-memory Dict/Queue store of the mock backend
  (\<open>crates/modal-rust-testkit/src/store.rs\<close>).  Hash maps are maps, a \<open>BTreeMap\<close> is an association list
  with distinct keys, a \<open>VecDeque\<close> a list; \<open>Err(())\<close> is \<open>Inl ()\<close>.  The two locales state what a client
  of the store may rely on, and are interpreted on the store's own operations.
\<close>

section \<open>The store\<close>

record object_store =
  dict_ids :: "string \<rightharpoonup> string"
  dicts :: "string \<rightharpoonup> (bytes \<times> bytes) list"
  queue_ids :: "string \<rightharpoonup> string"
  queues :: "string \<rightharpoonup> bytes list"

definition empty_store :: object_store where
  "empty_store = \<lparr>dict_ids = Map.empty, dicts = Map.empty, queue_ids = Map.empty, queues = Map.empty\<rparr>"

definition resolve_dict :: "string \<Rightarrow> bool \<Rightarrow> string \<Rightarrow> object_store \<Rightarrow> string option \<times> object_store" where
  "resolve_dict name create candidate s =
     (case dict_ids s name of
        Some i \<Rightarrow> (Some i, s)
      | None \<Rightarrow>
          if \<not> create then (None, s)
          else (Some candidate, s\<lparr>dict_ids := (dict_ids s)(name \<mapsto> candidate), dicts := (dicts s)(candidate \<mapsto> [])\<rparr>))"

definition resolve_queue :: "string \<Rightarrow> bool \<Rightarrow> string \<Rightarrow> object_store \<Rightarrow> string option \<times> object_store" where
  "resolve_queue name create candidate s =
     (case queue_ids s name of
        Some i \<Rightarrow> (Some i, s)
      | None \<Rightarrow>
          if \<not> create then (None, s)
          else (Some candidate, s\<lparr>queue_ids := (queue_ids s)(name \<mapsto> candidate), queues := (queues s)(candidate \<mapsto> [])\<rparr>))"

definition retain_other :: "string \<Rightarrow> (string \<rightharpoonup> string) \<Rightarrow> (string \<rightharpoonup> string)" where
  "retain_other i ids = (\<lambda>n. case ids n of Some j \<Rightarrow> if j \<noteq> i then Some j else None | None \<Rightarrow> None)"

definition delete_dict :: "string \<Rightarrow> object_store \<Rightarrow> bool \<times> object_store" where
  "delete_dict i s =
     (if dicts s i = None then (False, s)
      else (True, s\<lparr>dicts := (dicts s)(i := None), dict_ids := retain_other i (dict_ids s)\<rparr>))"

definition delete_queue :: "string \<Rightarrow> object_store \<Rightarrow> bool \<times> object_store" where
  "delete_queue i s =
     (if queues s i = None then (False, s)
      else (True, s\<lparr>queues := (queues s)(i := None), queue_ids := retain_other i (queue_ids s)\<rparr>))"

section \<open>Dict operations\<close>

definition store_dict_get :: "string \<Rightarrow> bytes \<Rightarrow> object_store \<Rightarrow> unit + bytes option" where
  "store_dict_get i k s = (case dicts s i of None \<Rightarrow> Inl () | Some d \<Rightarrow> Inr (map_of d k))"

definition update_entry ::
  "bool \<Rightarrow> bytes \<times> bytes \<Rightarrow> bool \<times> (bytes \<times> bytes) list \<Rightarrow> bool \<times> (bytes \<times> bytes) list" where
  "update_entry if_not_exists = (\<lambda>(k, v) (created, d).
     if map_of d k \<noteq> None
     then (if if_not_exists then (False, d) else (False, AList.update k v d))
     else (created, AList.update k v d))"

definition store_dict_update ::
  "string \<Rightarrow> (bytes \<times> bytes) list \<Rightarrow> bool \<Rightarrow> object_store \<Rightarrow> unit + bool \<times> object_store" where
  "store_dict_update i entries if_not_exists s =
     (case dicts s i of
        None \<Rightarrow> Inl ()
      | Some d \<Rightarrow>
          let (created, d') = fold (update_entry if_not_exists) entries (True, d)
          in Inr (created, s\<lparr>dicts := (dicts s)(i \<mapsto> d')\<rparr>))"

definition store_dict_pop :: "string \<Rightarrow> bytes \<Rightarrow> object_store \<Rightarrow> unit + bytes option \<times> object_store" where
  "store_dict_pop i k s =
     (case dicts s i of
        None \<Rightarrow> Inl ()
      | Some d \<Rightarrow> Inr (map_of d k, s\<lparr>dicts := (dicts s)(i \<mapsto> AList.delete k d)\<rparr>))"

definition store_dict_contains :: "string \<Rightarrow> bytes \<Rightarrow> object_store \<Rightarrow> unit + bool" where
  "store_dict_contains i k s = (case dicts s i of None \<Rightarrow> Inl () | Some d \<Rightarrow> Inr (map_of d k \<noteq> None))"

definition store_dict_len :: "string \<Rightarrow> object_store \<Rightarrow> unit + nat" where
  "store_dict_len i s = (case dicts s i of None \<Rightarrow> Inl () | Some d \<Rightarrow> Inr (length d))"

definition store_dict_clear :: "string \<Rightarrow> object_store \<Rightarrow> unit + object_store" where
  "store_dict_clear i s = (case dicts s i of None \<Rightarrow> Inl () | Some d \<Rightarrow> Inr (s\<lparr>dicts := (dicts s)(i \<mapsto> [])\<rparr>))"

section \<open>Queue operations\<close>

definition store_queue_put :: "string \<Rightarrow> bytes list \<Rightarrow> object_store \<Rightarrow> unit + object_store" where
  "store_queue_put i values s =
     (case queues s i of None \<Rightarrow> Inl () | Some q \<Rightarrow> Inr (s\<lparr>queues := (queues s)(i \<mapsto> q @ values)\<rparr>))"

definition store_queue_pop :: "string \<Rightarrow> nat \<Rightarrow> object_store \<Rightarrow> unit + bytes list \<times> object_store" where
  "store_queue_pop i n s =
     (case queues s i of
        None \<Rightarrow> Inl ()
      | Some q \<Rightarrow> let t = min n (length q) in Inr (take t q, s\<lparr>queues := (queues s)(i \<mapsto> drop t q)\<rparr>))"

definition store_queue_len :: "string \<Rightarrow> object_store \<Rightarrow> unit + nat" where
  "store_queue_len i s = (case queues s i of None \<Rightarrow> Inl () | Some q \<Rightarrow> Inr (length q))"

definition store_queue_clear :: "string \<Rightarrow> object_store \<Rightarrow> unit + object_store" where
  "store_queue_clear i s = (case queues s i of None \<Rightarrow> Inl () | Some q \<Rightarrow> Inr (s\<lparr>queues := (queues s)(i \<mapsto> [])\<rparr>))"

section \<open>What a client relies on\<close>

text \<open>The abstract meaning of a batch update: each entry is inserted, or, on a key that is there,
  overwritten, or skipped when only absent keys may be written; the flag says no key was there.\<close>

fun put_all :: "bool \<Rightarrow> ('k \<times> 'v) list \<Rightarrow> ('k \<rightharpoonup> 'v) \<Rightarrow> bool \<times> ('k \<rightharpoonup> 'v)" where
  "put_all flag [] m = (True, m)"
| "put_all flag ((k, v) # es) m =
     (case m k of
        None \<Rightarrow> put_all flag es (m(k \<mapsto> v))
      | Some _ \<Rightarrow> (False, snd (put_all flag es (if flag then m else m(k \<mapsto> v)))))"

locale kv_service =
  fixes view :: "'s \<Rightarrow> string \<Rightarrow> (bytes \<rightharpoonup> bytes) option"
    and get :: "string \<Rightarrow> bytes \<Rightarrow> 's \<Rightarrow> unit + bytes option"
    and update :: "string \<Rightarrow> (bytes \<times> bytes) list \<Rightarrow> bool \<Rightarrow> 's \<Rightarrow> unit + bool \<times> 's"
    and pop :: "string \<Rightarrow> bytes \<Rightarrow> 's \<Rightarrow> unit + bytes option \<times> 's"
  assumes get_law: "get i k s = (case view s i of None \<Rightarrow> Inl () | Some m \<Rightarrow> Inr (m k))"
    and update_unknown: "view s i = None \<Longrightarrow> update i es flag s = Inl ()"
    and update_law: "view s i = Some m \<Longrightarrow>
      \<exists>s'. update i es flag s = Inr (fst (put_all flag es m), s') \<and> view s' = (view s)(i \<mapsto> snd (put_all flag es m))"
    and pop_unknown: "view s i = None \<Longrightarrow> pop i k s = Inl ()"
    and pop_law: "view s i = Some m \<Longrightarrow> \<exists>s'. pop i k s = Inr (m k, s') \<and> view s' = (view s)(i \<mapsto> m(k := None))"
begin

lemma put_then_get:
  assumes "view s i = Some m"
  shows "\<exists>s'. update i [(k, v)] False s = Inr (m k = None, s') \<and> get i k s' = Inr (Some v) \<and>
    (l \<noteq> k \<longrightarrow> get i l s' = get i l s) \<and> (j \<noteq> i \<longrightarrow> get j l s' = get j l s)"
proof -
  obtain s' where "update i [(k, v)] False s = Inr (fst (put_all False [(k, v)] m), s')"
    "view s' = (view s)(i \<mapsto> snd (put_all False [(k, v)] m))" using update_law [OF assms] by blast
  with assms show ?thesis
    by (intro exI [of _ s']) (auto simp: get_law split: option.split)
qed

lemma put_if_absent:
  assumes "view s i = Some m"
  shows "\<exists>s'. update i [(k, v)] True s = Inr (m k = None, s') \<and>
    get i k s' = Inr (Some (case m k of None \<Rightarrow> v | Some v' \<Rightarrow> v'))"
proof -
  obtain s' where "update i [(k, v)] True s = Inr (fst (put_all True [(k, v)] m), s')"
    "view s' = (view s)(i \<mapsto> snd (put_all True [(k, v)] m))" using update_law [OF assms] by blast
  then show ?thesis
    by (intro exI [of _ s']) (auto simp: get_law split: option.split)
qed

lemma pop_then_get:
  assumes "view s i = Some m"
  shows "\<exists>s'. pop i k s = Inr (m k, s') \<and> get i k s' = Inr None"
proof -
  obtain s' where "pop i k s = Inr (m k, s')" "view s' = (view s)(i \<mapsto> m(k := None))"
    using pop_law [OF assms] by blast
  then show ?thesis by (intro exI [of _ s']) (simp add: get_law)
qed

end

locale fifo_service =
  fixes items :: "'s \<Rightarrow> string \<Rightarrow> bytes list option"
    and push :: "string \<Rightarrow> bytes list \<Rightarrow> 's \<Rightarrow> unit + 's"
    and pop :: "string \<Rightarrow> nat \<Rightarrow> 's \<Rightarrow> unit + bytes list \<times> 's"
  assumes push_law: "items s i = Some q \<Longrightarrow> \<exists>s'. push i xs s = Inr s' \<and> items s' = (items s)(i \<mapsto> q @ xs)"
    and pop_law: "items s i = Some q \<Longrightarrow> \<exists>s'. pop i n s = Inr (take n q, s') \<and> items s' = (items s)(i \<mapsto> drop n q)"
begin

lemma push_then_pop:
  assumes "items s i = Some []"
  shows "\<exists>s1 s2. push i xs s = Inr s1 \<and> pop i n s1 = Inr (take n xs, s2) \<and> items s2 i = Some (drop n xs)"
proof -
  obtain s1 where s1: "push i xs s = Inr s1" "items s1 = (items s)(i \<mapsto> xs)"
    using push_law [OF assms, of xs] by auto
  then have "items s1 i = Some xs" by simp
  from pop_law [OF this] s1 show ?thesis by fastforce
qed

end

section \<open>The store keeps the contracts\<close>

definition dict_view :: "object_store \<Rightarrow> string \<Rightarrow> (bytes \<rightharpoonup> bytes) option" where
  "dict_view s i = map_option map_of (dicts s i)"

lemma update_entries:
  "fst (fold (update_entry flag) es (c, d)) = (c \<and> fst (put_all flag es (map_of d))) \<and>
   map_of (snd (fold (update_entry flag) es (c, d))) = snd (put_all flag es (map_of d))"
proof (induction es arbitrary: c d)
  case (Cons e es)
  obtain k v where e: "e = (k, v)" by (cases e)
  have "map_of (AList.update k v d) = (map_of d)(k \<mapsto> v)" by (rule update_conv')
  then show ?case
    using Cons.IH by (cases "map_of d k") (simp_all add: e update_entry_def fun_upd_def)
qed simp

lemma store_update_law:
  assumes "dict_view s i = Some m"
  shows "\<exists>s'. store_dict_update i es flag s = Inr (fst (put_all flag es m), s') \<and>
    dict_view s' = (dict_view s)(i \<mapsto> snd (put_all flag es m))"
proof -
  obtain d where d: "dicts s i = Some d" "m = map_of d" using assms by (auto simp: dict_view_def)
  obtain c d' where r: "fold (update_entry flag) es (True, d) = (c, d')" by (cases "fold (update_entry flag) es (True, d)")
  have "c = fst (put_all flag es m)" "map_of d' = snd (put_all flag es m)"
    using update_entries [of flag es True d] r d by auto
  then show ?thesis
    by (auto simp: store_dict_update_def d(1) r dict_view_def)
qed

interpretation dict_store: kv_service dict_view store_dict_get store_dict_update store_dict_pop
proof
  fix s i k
  show "store_dict_get i k s = (case dict_view s i of None \<Rightarrow> Inl () | Some m \<Rightarrow> Inr (m k))"
    by (simp add: store_dict_get_def dict_view_def split: option.split)
next
  fix s i m es flag
  assume "dict_view s i = Some m"
  then show "\<exists>s'. store_dict_update i es flag s = Inr (fst (put_all flag es m), s') \<and>
    dict_view s' = (dict_view s)(i \<mapsto> snd (put_all flag es m))" by (rule store_update_law)
next
  fix s i m k
  assume "dict_view s i = Some m"
  then show "\<exists>s'. store_dict_pop i k s = Inr (m k, s') \<and> dict_view s' = (dict_view s)(i \<mapsto> m(k := None))"
    by (auto simp: store_dict_pop_def dict_view_def delete_conv' fun_eq_iff)
qed (simp_all add: store_dict_update_def store_dict_pop_def dict_view_def)

interpretation queue_store: fifo_service queues store_queue_put store_queue_pop
  by unfold_locales (auto simp: store_queue_put_def store_queue_pop_def Let_def min_def)

section \<open>The store's invariant\<close>

text \<open>Named ids exist, no two names share an object, and the entries of a dict have distinct keys.\<close>

definition store_ok :: "object_store \<Rightarrow> bool" where
  "store_ok s \<longleftrightarrow>
     ran (dict_ids s) \<subseteq> dom (dicts s) \<and> inj_on (dict_ids s) (dom (dict_ids s)) \<and>
     ran (queue_ids s) \<subseteq> dom (queues s) \<and> inj_on (queue_ids s) (dom (queue_ids s)) \<and>
     (\<forall>i d. dicts s i = Some d \<longrightarrow> distinct (map fst d))"

lemma store_okI:
  "ran (dict_ids s) \<subseteq> dom (dicts s) \<Longrightarrow> inj_on (dict_ids s) (dom (dict_ids s)) \<Longrightarrow>
   ran (queue_ids s) \<subseteq> dom (queues s) \<Longrightarrow> inj_on (queue_ids s) (dom (queue_ids s)) \<Longrightarrow>
   (\<And>i d. dicts s i = Some d \<Longrightarrow> distinct (map fst d)) \<Longrightarrow> store_ok s"
  by (simp add: store_ok_def)

lemma empty_store_ok [simp]: "store_ok empty_store"
  by (simp add: store_ok_def empty_store_def)

lemma inj_on_update:
  assumes "inj_on f (dom f)" "i \<notin> ran f" "f n = None"
  shows "inj_on (f(n \<mapsto> i)) (dom (f(n \<mapsto> i)))"
  using assms by (auto simp: inj_on_def ran_def)

lemma retain_other_ids:
  "inj_on f (dom f) \<Longrightarrow> inj_on (retain_other i f) (dom (retain_other i f))"
  "ran f \<subseteq> D \<Longrightarrow> ran (retain_other i f) \<subseteq> D - {i}"
  by (auto simp: inj_on_def retain_other_def ran_def dom_def split: option.splits if_splits)

lemma resolve_dict_ok:
  assumes "store_ok s" "candidate \<notin> dom (dicts s)"
  shows "store_ok (snd (resolve_dict name create candidate s))"
proof (cases "dict_ids s name = None \<and> create")
  case True
  have "candidate \<notin> ran (dict_ids s)" using assms by (auto simp: store_ok_def)
  with assms True inj_on_update [of "dict_ids s" candidate name] show ?thesis
    by (auto simp: resolve_dict_def store_ok_def ran_map_upd split: if_splits)
next
  case False
  with assms show ?thesis by (auto simp: resolve_dict_def split: option.splits)
qed

lemma resolve_queue_ok:
  assumes "store_ok s" "candidate \<notin> dom (queues s)"
  shows "store_ok (snd (resolve_queue name create candidate s))"
proof (cases "queue_ids s name = None \<and> create")
  case True
  have "candidate \<notin> ran (queue_ids s)" using assms by (auto simp: store_ok_def)
  with assms True inj_on_update [of "queue_ids s" candidate name] show ?thesis
    by (auto simp: resolve_queue_def store_ok_def ran_map_upd split: if_splits)
next
  case False
  with assms show ?thesis by (auto simp: resolve_queue_def split: option.splits)
qed

lemma delete_dict_ok: "store_ok s \<Longrightarrow> store_ok (snd (delete_dict i s))"
  using retain_other_ids [of "dict_ids s"] 
  by (fastforce simp: delete_dict_def store_ok_def split: if_splits)

lemma delete_queue_ok: "store_ok s \<Longrightarrow> store_ok (snd (delete_queue i s))"
  using retain_other_ids [of "queue_ids s"]
  by (fastforce simp: delete_queue_def store_ok_def split: if_splits)

lemma update_entry_distinct:
  "distinct (map fst (snd cd)) \<Longrightarrow> distinct (map fst (snd (update_entry flag e cd)))"
  by (cases e; cases cd) (simp add: update_entry_def distinct_update)

lemma update_entries_distinct:
  "distinct (map fst (snd cd)) \<Longrightarrow> distinct (map fst (snd (fold (update_entry flag) es cd)))"
  by (induction es arbitrary: cd) (simp_all add: update_entry_distinct)

lemma store_update_ok: "store_ok s \<Longrightarrow> store_dict_update i es flag s = Inr (c, s') \<Longrightarrow> store_ok s'"
proof -
  assume ok: "store_ok s" and up: "store_dict_update i es flag s = Inr (c, s')"
  then obtain d where d: "dicts s i = Some d" by (auto simp: store_dict_update_def split: option.splits)
  obtain c' d' where r: "fold (update_entry flag) es (True, d) = (c', d')" by (cases "fold (update_entry flag) es (True, d)")
  have "distinct (map fst d)" using ok d by (simp add: store_ok_def)
  then have "distinct (map fst d')" using update_entries_distinct [of "(True, d)" flag es] r by simp
  moreover have "s' = s\<lparr>dicts := (dicts s)(i \<mapsto> d')\<rparr>" using up by (simp add: store_dict_update_def d r)
  ultimately show ?thesis using ok by (auto simp: store_ok_def split: if_splits)
qed

lemma store_pop_ok: "store_ok s \<Longrightarrow> store_dict_pop i k s = Inr (r, s') \<Longrightarrow> store_ok s'"
  by (auto simp: store_dict_pop_def store_ok_def distinct_delete split: option.splits if_splits)

lemma store_clear_ok: "store_ok s \<Longrightarrow> store_dict_clear i s = Inr s' \<Longrightarrow> store_ok s'"
  by (auto simp: store_dict_clear_def store_ok_def split: option.splits if_splits)

lemma store_queue_ok:
  "store_ok s \<Longrightarrow> store_queue_put i xs s = Inr s' \<Longrightarrow> store_ok s'"
  "store_ok s \<Longrightarrow> store_queue_pop i n s = Inr (ys, s') \<Longrightarrow> store_ok s'"
  "store_ok s \<Longrightarrow> store_queue_clear i s = Inr s' \<Longrightarrow> store_ok s'"
  by (auto simp: store_queue_put_def store_queue_pop_def store_queue_clear_def Let_def store_ok_def
      split: option.splits if_splits)

end
