(* ===== verification/MockService.thy ===== *)
theory MockService
  imports DictQueue ObjectStore
begin

text \<open>
  The stateful arms of the mock backend (\<open>crates/modal-rust-testkit/src/servicer.rs\<close>), which serve the
  Dict and Queue RPCs from the object store, and the SDK and its typed handles run end to end against
  them.  The mock's log of requests is kept as its length.  \<open>drop_reply\<close> is a network that loses the
  first replies: the request has taken effect, the caller sees \<open>Unavailable\<close>.
\<close>

section \<open>The servicer\<close>

record mock =
  mk_clock :: nat
  mk_logged :: nat
  mk_counter :: nat
  mk_store :: object_store
  mk_drops :: nat

text \<open>The responses a test may override.\<close>

record responses =
  on_dict_get_or_create :: "(resolve_request \<Rightarrow> status + string) option"
  on_queue_get_or_create :: "(resolve_request \<Rightarrow> status + string) option"

definition log_push :: "mock \<Rightarrow> mock" where "log_push w = w\<lparr>mk_logged := mk_logged w + 1\<rparr>"

definition next_id :: "mock \<Rightarrow> nat \<times> mock" where
  "next_id w = (mk_counter w + 1, w\<lparr>mk_counter := mk_counter w + 1\<rparr>)"

definition not_found :: "string \<Rightarrow> status" where
  "not_found msg = \<lparr>st_code = NotFound, st_message = msg\<rparr>"

definition unknown_id :: "string \<Rightarrow> string \<Rightarrow> status" where
  "unknown_id kind i = not_found (kind @ '' with id '' @ [CHR 0x27] @ i @ [CHR 0x27] @ '' not found'')"

definition serve_dict_get_or_create :: "responses \<Rightarrow> (mock, resolve_request, string) rpc" where
  "serve_dict_get_or_create R req w =
     (let w = log_push w in
      case on_dict_get_or_create R of
        Some f \<Rightarrow> Some (f req, w)
      | None \<Rightarrow>
          let create = (rr_object_creation_type req \<noteq> 0);
              (n, w) = next_id w;
              (resolved, s) = resolve_dict (rr_deployment_name req) create (''di-'' @ dec n) (mk_store w);
              w = w\<lparr>mk_store := s\<rparr>
          in case resolved of
               Some i \<Rightarrow> Some (Inr i, w)
             | None \<Rightarrow> Some (Inl (not_found (''Dict '' @ [CHR 0x27] @ rr_deployment_name req @ [CHR 0x27]
                                      @ '' not found'')), w))"

text \<open>An arm that reads the store, and one that changes it.\<close>

definition serve_read :: "string \<Rightarrow> string \<Rightarrow> (object_store \<Rightarrow> unit + 'a) \<Rightarrow> mock \<Rightarrow> ((status + 'a) \<times> mock) option" where
  "serve_read kind i f w =
     (let w = log_push w in
      case f (mk_store w) of Inl _ \<Rightarrow> Some (Inl (unknown_id kind i), w) | Inr a \<Rightarrow> Some (Inr a, w))"

definition serve_write ::
  "string \<Rightarrow> string \<Rightarrow> (object_store \<Rightarrow> unit + 'a \<times> object_store) \<Rightarrow> mock \<Rightarrow> ((status + 'a) \<times> mock) option" where
  "serve_write kind i f w =
     (let w = log_push w in
      case f (mk_store w) of
        Inl _ \<Rightarrow> Some (Inl (unknown_id kind i), w)
      | Inr (a, s) \<Rightarrow> Some (Inr a, w\<lparr>mk_store := s\<rparr>))"

definition value_response :: "bytes option \<Rightarrow> dict_value_response" where
  "value_response v = \<lparr>dv_found = (v \<noteq> None), dv_value = v\<rparr>"

definition serve_dict_get :: "(mock, dict_key_request, dict_value_response) rpc" where
  "serve_dict_get req =
     serve_read ''Dict'' (dk_dict_id req)
       (\<lambda>s. map_sum id value_response (store_dict_get (dk_dict_id req) (dk_key req) s))"

definition serve_dict_update :: "(mock, dict_update_request, bool) rpc" where
  "serve_dict_update req =
     serve_write ''Dict'' (du_dict_id req)
       (store_dict_update (du_dict_id req) (du_updates req) (du_if_not_exists req))"

definition pop_response :: "string \<Rightarrow> bytes \<Rightarrow> object_store \<Rightarrow> unit + dict_value_response \<times> object_store" where
  "pop_response i k s =
     (case store_dict_pop i k s of Inl e \<Rightarrow> Inl e | Inr (v, s') \<Rightarrow> Inr (value_response v, s'))"

definition serve_dict_pop :: "(mock, dict_key_request, dict_value_response) rpc" where
  "serve_dict_pop req = serve_write ''Dict'' (dk_dict_id req) (pop_response (dk_dict_id req) (dk_key req))"

definition serve_dict_contains :: "(mock, dict_key_request, bool) rpc" where
  "serve_dict_contains req =
     serve_read ''Dict'' (dk_dict_id req) (store_dict_contains (dk_dict_id req) (dk_key req))"

definition wire_len :: "nat \<Rightarrow> int" where "wire_len n = min (int n) (2 ^ 31 - 1)"

definition serve_dict_len :: "(mock, string, int) rpc" where
  "serve_dict_len i = serve_read ''Dict'' i (\<lambda>s. map_sum id wire_len (store_dict_len i s))"

definition serve_dict_clear :: "(mock, string, unit) rpc" where
  "serve_dict_clear i = serve_write ''Dict'' i (\<lambda>s. map_sum id (\<lambda>s. ((), s)) (store_dict_clear i s))"

definition serve_dict_delete :: "(mock, string, unit) rpc" where
  "serve_dict_delete i w =
     (let w = log_push w; (found, s) = delete_dict i (mk_store w); w = w\<lparr>mk_store := s\<rparr>
      in if \<not> found then Some (Inl (unknown_id ''Dict'' i), w) else Some (Inr (), w))"

definition serve_queue_get_or_create :: "responses \<Rightarrow> (mock, resolve_request, string) rpc" where
  "serve_queue_get_or_create R req w =
     (let w = log_push w in
      case on_queue_get_or_create R of
        Some f \<Rightarrow> Some (f req, w)
      | None \<Rightarrow>
          let create = (rr_object_creation_type req \<noteq> 0);
              (n, w) = next_id w;
              (resolved, s) = resolve_queue (rr_deployment_name req) create (''qu-'' @ dec n) (mk_store w);
              w = w\<lparr>mk_store := s\<rparr>
          in case resolved of
               Some i \<Rightarrow> Some (Inr i, w)
             | None \<Rightarrow> Some (Inl (not_found (''Queue '' @ [CHR 0x27] @ rr_deployment_name req @ [CHR 0x27]
                                      @ '' not found'')), w))"

definition serve_queue_put :: "(mock, queue_put_request, unit) rpc" where
  "serve_queue_put req =
     serve_write ''Queue'' (qp_queue_id req)
       (\<lambda>s. map_sum id (\<lambda>s. ((), s)) (store_queue_put (qp_queue_id req) (qp_values req) s))"

definition QUEUE_GET_POLL_INTERVAL :: nat where "QUEUE_GET_POLL_INTERVAL = 5000000"

definition serve_queue_get_step ::
  "string \<Rightarrow> nat \<Rightarrow> nat \<Rightarrow> mock \<Rightarrow> (mock + (status + bytes list) \<times> mock) option" where
  "serve_queue_get_step i n deadline w =
     (case store_queue_pop i n (mk_store w) of
        Inl _ \<Rightarrow> Some (Inr (Inl (unknown_id ''Queue'' i), w))
      | Inr (values, s) \<Rightarrow>
          let w = w\<lparr>mk_store := s\<rparr>
          in if values \<noteq> [] \<or> deadline \<le> mk_clock w then Some (Inr (Inr values, w))
             else Some (Inl (w\<lparr>mk_clock := mk_clock w + QUEUE_GET_POLL_INTERVAL\<rparr>)))"

definition serve_queue_get :: "(mock, queue_get_request, bytes list) rpc" where
  "serve_queue_get req w =
     (let w = log_push w;
          n = nat (max (qg_n_values req) 1);
          deadline = mk_clock w + qg_timeout req
      in loop (serve_queue_get_step (qg_queue_id req) n deadline) w)"

definition serve_queue_len :: "(mock, queue_len_request, int) rpc" where
  "serve_queue_len req =
     serve_read ''Queue'' (ql_queue_id req) (\<lambda>s. map_sum id wire_len (store_queue_len (ql_queue_id req) s))"

definition serve_queue_clear :: "(mock, queue_clear_request, unit) rpc" where
  "serve_queue_clear req =
     serve_write ''Queue'' (qc_queue_id req)
       (\<lambda>s. map_sum id (\<lambda>s. ((), s)) (store_queue_clear (qc_queue_id req) s))"

definition serve_queue_delete :: "(mock, string, unit) rpc" where
  "serve_queue_delete i w =
     (let w = log_push w; (found, s) = delete_queue i (mk_store w); w = w\<lparr>mk_store := s\<rparr>
      in if \<not> found then Some (Inl (unknown_id ''Queue'' i), w) else Some (Inr (), w))"

text \<open>A network that loses replies.\<close>

definition unavailable :: status where
  "unavailable = \<lparr>st_code = Unavailable, st_message = ''connection reset''\<rparr>"

definition drop_reply :: "(mock, 'req, 'resp) rpc \<Rightarrow> (mock, 'req, 'resp) rpc" where
  "drop_reply rpc req w =
     (case rpc req w of
        None \<Rightarrow> None
      | Some (x, w') \<Rightarrow>
          if mk_drops w' = 0 then Some (x, w')
          else Some (Inl unavailable, w'\<lparr>mk_drops := mk_drops w' - 1\<rparr>))"

definition mock_stub :: "responses \<Rightarrow> mock object_stub" where
  "mock_stub R =
     \<lparr>dict_get_or_create_rpc = drop_reply (serve_dict_get_or_create R), dict_get_rpc = drop_reply serve_dict_get,
      dict_update_rpc = drop_reply serve_dict_update, dict_pop_rpc = drop_reply serve_dict_pop,
      dict_contains_rpc = drop_reply serve_dict_contains, dict_len_rpc = drop_reply serve_dict_len,
      dict_clear_rpc = drop_reply serve_dict_clear, dict_delete_rpc = drop_reply serve_dict_delete,
      queue_get_or_create_rpc = drop_reply (serve_queue_get_or_create R),
      queue_put_rpc = drop_reply serve_queue_put, queue_get_rpc = drop_reply serve_queue_get,
      queue_len_rpc = drop_reply serve_queue_len, queue_clear_rpc = drop_reply serve_queue_clear,
      queue_delete_rpc = drop_reply serve_queue_delete\<rparr>"

definition mock_host :: "mock host" where
  "mock_host = \<lparr>instant_now = mk_clock, sleep_for = (\<lambda>d w. w\<lparr>mk_clock := mk_clock w + d\<rparr>),
                wall_nanos = (\<lambda>_. 0), counter_fetch_add = (\<lambda>_ w. (0, w))\<rparr>"

definition no_overrides :: responses where
  "no_overrides = \<lparr>on_dict_get_or_create = None, on_queue_get_or_create = None\<rparr>"

section \<open>Retrying over lost replies\<close>

lemma mock_host_simps [simp]:
  "instant_now mock_host = mk_clock" "sleep_for mock_host d w = w\<lparr>mk_clock := mk_clock w + d\<rparr>"
  "counter_fetch_add mock_host k w = (0, w)"
  by (simp_all add: mock_host_def)

lemma unavailable_transient [simp]: "is_transient (Status unavailable)"
  by (simp add: unavailable_def transient_codes_def)

definition core :: "mock \<Rightarrow> object_store \<times> nat" where
  "core w = (mk_store w, mk_counter w)"

text \<open>What a request does to the store when its reply arrives or not: \<open>f\<close> is its effect, \<open>v\<close> its answer.\<close>

definition serves ::
  "(mock, 'req, 'resp) rpc \<Rightarrow> 'req \<Rightarrow> (object_store \<times> nat \<Rightarrow> bool) \<Rightarrow> (object_store \<times> nat \<Rightarrow> object_store \<times> nat) \<Rightarrow>
     (object_store \<times> nat \<Rightarrow> 'resp) \<Rightarrow> bool" where
  "serves rpc req P f v \<longleftrightarrow>
     (\<forall>w. P (core w) \<longrightarrow> P (f (core w)) \<and>
        (\<exists>w'. rpc req w = Some (Inr (v (core w)), w') \<and> core w' = f (core w) \<and> mk_drops w' = mk_drops w \<and>
              mk_clock w' = mk_clock w))"

lemma servesE:
  assumes "serves rpc req P f v" "P (core w)"
  obtains w' where "P (core w')" "rpc req w = Some (Inr (v (core w)), w')" "core w' = f (core w)"
    "mk_drops w' = mk_drops w" "mk_clock w' = mk_clock w"
  using assms unfolding serves_def by metis

lemma drop_bounded_retry:
  assumes sv: "serves rpc req P f v" and "P (core w)"
    and "mk_drops w = n" "n \<le> left" "i + n \<le> 8" "mk_clock w \<le> start + i * secs 5"
  shows "\<exists>w'. bounded_retry mock_host default_policy start (rpc_attempt (call_stub (drop_reply rpc) req)) i left w
      = Some (Inr (v ((f ^^ n) (core w))), w') \<and> core w' = (f ^^ Suc n) (core w) \<and> mk_drops w' = 0 \<and> P (core w')"
  using assms(2-)
proof (induction n arbitrary: i left w)
  case 0
  obtain w' where "P (core w')" "rpc req w = Some (Inr (v (core w)), w')" "core w' = f (core w)" "mk_drops w' = 0"
    using servesE [OF sv 0(1)] 0(2) by metis
  then show ?case
    by (subst bounded_retry.simps) (simp add: rpc_attempt_def call_stub_def drop_reply_def)
next
  case (Suc n)
  obtain l where l: "left = Suc l" using Suc.prems(3) by (cases left) auto
  obtain w1 where w1: "P (core w1)" "rpc req w = Some (Inr (v (core w)), w1)" "core w1 = f (core w)"
    "mk_drops w1 = Suc n" "mk_clock w1 = mk_clock w" using servesE [OF sv Suc.prems(1)] Suc.prems(2) by metis
  define w2 where "w2 = w1\<lparr>mk_drops := n\<rparr>"
  have att: "rpc_attempt (call_stub (drop_reply rpc) req) w = Some (Inr (Status unavailable, True), w2)"
    using w1 unavailable_transient
    by (simp add: rpc_attempt_def call_stub_def drop_reply_def w2_def del: is_transient.simps)
  have d: "backoff_schedule default_policy i \<le> secs 5" by (simp add: default_schedule)
  then obtain j w3 where j: "jitter mock_host (backoff_schedule default_policy i) w2 = Some (j, w3)"
    using jitter_defined [of "backoff_schedule default_policy i" mock_host w2]
    by (cases "jitter mock_host (backoff_schedule default_policy i) w2") (auto simp: secs_def)
  have w3: "w3 = w2" using jitter_world [OF j] by simp
  have jd: "j \<le> secs 5" using jitter_range [OF j] d by simp
  have "i \<le> 7" using Suc.prems(4) by simp
  then have "i * secs 5 \<le> 7 * secs 5" by simp
  then have over: "\<not> total_deadline default_policy \<le> elapsed mock_host start w2 + backoff_schedule default_policy i"
    using Suc.prems(5) w1(5) d by (simp add: elapsed_def w2_def default_policy_def secs_def)
  define w4 where "w4 = w2\<lparr>mk_clock := mk_clock w2 + j\<rparr>"
  have c4: "core w4 = f (core w)" "mk_drops w4 = n" using w1 by (simp_all add: w4_def w2_def core_def)
  have clk: "mk_clock w4 \<le> start + Suc i * secs 5"
    using Suc.prems(5) w1(5) jd by (simp add: w4_def w2_def)
  have P4: "P (core w4)" using w1(1,3) c4(1) by simp
  have "\<exists>w'. bounded_retry mock_host default_policy start (rpc_attempt (call_stub (drop_reply rpc) req)) (Suc i) l w4
      = Some (Inr (v ((f ^^ n) (core w4))), w') \<and> core w' = (f ^^ Suc n) (core w4) \<and> mk_drops w' = 0 \<and> P (core w')"
    by (rule Suc.IH [OF P4 c4(2) _ _ clk]) (use Suc.prems l in auto)
  moreover have "bounded_retry mock_host default_policy start (rpc_attempt (call_stub (drop_reply rpc) req)) i left w =
      bounded_retry mock_host default_policy start (rpc_attempt (call_stub (drop_reply rpc) req)) (Suc i) l w4"
    by (subst bounded_retry.simps) (use over in \<open>simp add: att l j w3 w4_def\<close>)
  ultimately show ?case by (simp add: c4(1) funpow_swap1)
qed

lemma retry_over_drops:
  assumes "serves rpc req P f v" "P (core w)" "mk_drops w \<le> 7"
  shows "\<exists>w'. retry_rpc mock_host (drop_reply rpc) req w = Some (Inr (v ((f ^^ mk_drops w) (core w))), w') \<and>
    core w' = (f ^^ Suc (mk_drops w)) (core w) \<and> mk_drops w' = 0 \<and> P (core w')"
proof -
  have "retry_rpc mock_host (drop_reply rpc) req w =
      bounded_retry mock_host default_policy (mk_clock w) (rpc_attempt (call_stub (drop_reply rpc) req)) 0 7 w"
    by (simp add: retry_rpc_def retry_unary_def retry_transient_def backoff_loop_bounded default_policy_def)
  then show ?thesis
    using drop_bounded_retry [OF assms(1,2) refl, of 7 0 "mk_clock w"] assms(3) by simp
qed

section \<open>The effect of each arm\<close>

definition effect :: "(object_store \<Rightarrow> unit + 'a \<times> object_store) \<Rightarrow> object_store \<times> nat \<Rightarrow> object_store \<times> nat" where
  "effect g = (\<lambda>(s, c). case g s of Inr (_, s') \<Rightarrow> (s', c) | Inl _ \<Rightarrow> (s, c))"

definition answer :: "(object_store \<Rightarrow> unit + 'a \<times> object_store) \<Rightarrow> object_store \<times> nat \<Rightarrow> 'a" where
  "answer g = (\<lambda>(s, c). case g s of Inr (a, _) \<Rightarrow> a)"

lemma serves_write:
  assumes "rpc req = serve_write kind i g"
    and "\<And>s c. P (s, c) \<Longrightarrow> \<exists>a s'. g s = Inr (a, s') \<and> P (s', c)"
  shows "serves rpc req P (effect g) (answer g)"
  unfolding serves_def
proof (intro allI impI)
  fix w
  assume "P (core w)"
  then have "P (mk_store w, mk_counter w)" by (simp add: core_def)
  from assms(2) [OF this] obtain a s' where "g (mk_store w) = Inr (a, s')" "P (s', mk_counter w)" by blast
  then show "P (effect g (core w)) \<and> (\<exists>w'. rpc req w = Some (Inr (answer g (core w)), w') \<and>
      core w' = effect g (core w) \<and> mk_drops w' = mk_drops w \<and> mk_clock w' = mk_clock w)"
    by (simp add: assms(1) serve_write_def log_push_def core_def effect_def answer_def)
qed

definition has_dict :: "string \<Rightarrow> object_store \<times> nat \<Rightarrow> bool" where
  "has_dict i sc \<longleftrightarrow> dict_view (fst sc) i \<noteq> None"

definition has_queue :: "string \<Rightarrow> object_store \<times> nat \<Rightarrow> bool" where
  "has_queue i sc \<longleftrightarrow> queues (fst sc) i \<noteq> None"

lemma serves_update:
  "serves serve_dict_update (build_dict_update_request i es flag) (has_dict i)
     (effect (store_dict_update i es flag)) (answer (store_dict_update i es flag))"
proof (rule serves_write)
  show "serve_dict_update (build_dict_update_request i es flag) = serve_write ''Dict'' i (store_dict_update i es flag)"
    by (simp add: serve_dict_update_def build_dict_update_request_def)
  show "\<exists>a s'. store_dict_update i es flag s = Inr (a, s') \<and> has_dict i (s', c)" if "has_dict i (s, c)" for s c
    using that dict_store.update_law [of s i _ es flag] by (fastforce simp: has_dict_def)
qed

lemma update_funpow:
  assumes "dict_view s i = Some m"
  shows "dict_view (fst ((effect (store_dict_update i es flag) ^^ n) (s, c))) =
      (dict_view s)(i \<mapsto> ((\<lambda>m. snd (put_all flag es m)) ^^ n) m)"
proof (induction n)
  case 0
  then show ?case using assms by (simp add: fun_upd_idem)
next
  case (Suc n)
  obtain s1 c1 where s1: "(effect (store_dict_update i es flag) ^^ n) (s, c) = (s1, c1)" by (metis surj_pair)
  with Suc have v1: "dict_view s1 i = Some (((\<lambda>m. snd (put_all flag es m)) ^^ n) m)" by simp
  from dict_store.update_law [OF v1, of es flag] s1 Suc show ?case
    by (auto simp: effect_def)
qed

lemma update_answer:
  "dict_view s i = Some m \<Longrightarrow> answer (store_dict_update i es flag) (s, c) = fst (put_all flag es m)"
  using dict_store.update_law [of s i m es flag] by (auto simp: answer_def)

text \<open>An update retried over \<open>n\<close> lost replies is that update \<open>n + 1\<close> times.\<close>

lemma update_over_drops:
  assumes "dict_view (mk_store w) i = Some m" "mk_drops w \<le> 7"
  shows "\<exists>w'. dict_update mock_host (mock_stub R) i es flag w =
      Some (Inr (fst (put_all flag es (((\<lambda>m. snd (put_all flag es m)) ^^ mk_drops w) m))), w') \<and> mk_drops w' = 0 \<and>
    dict_view (mk_store w') = (dict_view (mk_store w))(i \<mapsto> ((\<lambda>m. snd (put_all flag es m)) ^^ Suc (mk_drops w)) m)"
proof -
  let ?f = "effect (store_dict_update i es flag)"
  have "has_dict i (core w)" using assms(1) by (simp add: has_dict_def core_def)
  from retry_over_drops [OF serves_update this assms(2), of es flag] obtain w' where
    w': "dict_update mock_host (mock_stub R) i es flag w =
       Some (Inr (answer (store_dict_update i es flag) ((?f ^^ mk_drops w) (core w))), w')"
    "core w' = (?f ^^ Suc (mk_drops w)) (core w)" "mk_drops w' = 0"
    by (auto simp: dict_update_def mock_stub_def)
  have "dict_view (fst ((?f ^^ mk_drops w) (core w))) i = Some (((\<lambda>m. snd (put_all flag es m)) ^^ mk_drops w) m)"
    using update_funpow [OF assms(1)] by (simp add: core_def)
  then have "answer (store_dict_update i es flag) ((?f ^^ mk_drops w) (core w)) =
      fst (put_all flag es (((\<lambda>m. snd (put_all flag es m)) ^^ mk_drops w) m))"
    by (metis update_answer prod.collapse)
  moreover have "dict_view (mk_store w') =
      (dict_view (mk_store w))(i \<mapsto> ((\<lambda>m. snd (put_all flag es m)) ^^ Suc (mk_drops w)) m)"
    using w'(2) update_funpow [OF assms(1), where es = es and flag = flag and n = "Suc (mk_drops w)" and c = "mk_counter w"]
    by (metis core_def fst_conv)
  ultimately show ?thesis using w' by auto
qed

lemma put_one_funpow:
  "((\<lambda>m. snd (put_all False [(k, v)] m)) ^^ Suc n) m = m(k \<mapsto> v)"
  "((\<lambda>m. snd (put_all True [(k, v)] m)) ^^ n) m = (if m k = None \<and> n \<noteq> 0 then m(k \<mapsto> v) else m)"
  by (induction n) (auto split: option.splits)

lemma serves_pop:
  "serves serve_dict_pop (build_dict_pop_request i k) (has_dict i)
     (effect (pop_response i k))
     (answer (pop_response i k))"
proof (rule serves_write)
  show "serve_dict_pop (build_dict_pop_request i k) =
      serve_write ''Dict'' i (pop_response i k)"
    by (simp add: serve_dict_pop_def build_dict_pop_request_def)
  show "\<exists>a s'. pop_response i k s = Inr (a, s') \<and> has_dict i (s', c)"
    if "has_dict i (s, c)" for s c
    using that dict_store.pop_law [of s i _ k] by (fastforce simp: has_dict_def pop_response_def)
qed

lemma pop_effect:
  assumes "dict_view s i = Some m"
  shows "\<exists>s'. effect (pop_response i k) (s, c) = (s', c) \<and>
     dict_view s' = (dict_view s)(i \<mapsto> m(k := None)) \<and>
     answer (pop_response i k) (s, c) = value_response (m k)"
  using dict_store.pop_law [OF assms, of k] by (auto simp: effect_def answer_def pop_response_def)

lemma pop_funpow:
  assumes "dict_view s i = Some m"
  shows "dict_view (fst ((effect (pop_response i k) ^^ Suc n) (s, c))) =
      (dict_view s)(i \<mapsto> m(k := None))"
proof (induction n)
  case 0
  then show ?case using pop_effect [OF assms, of k c] by (auto simp: fun_upd_def)
next
  case (Suc n)
  let ?g = "pop_response i k"
  obtain s1 c1 where s1: "(effect ?g ^^ Suc n) (s, c) = (s1, c1)" by (metis surj_pair)
  have v1: "dict_view s1 = (dict_view s)(i \<mapsto> m(k := None))" using Suc [unfolded s1 fst_conv] .
  then have "dict_view s1 i = Some (m(k := None))" by simp
  from pop_effect [OF this, of k c1] have "dict_view (fst (effect ?g (s1, c1))) = (dict_view s)(i \<mapsto> m(k := None))"
    using v1 by auto
  moreover have "(effect ?g ^^ Suc (Suc n)) (s, c) = effect ?g (s1, c1)" using s1 by simp
  ultimately show ?case by metis
qed

lemma pop_over_drops:
  assumes "dict_view (mk_store w) i = Some m" "mk_drops w \<le> 7"
  shows "\<exists>w'. dict_pop mock_host (mock_stub R) i k w =
      Some (Inr (if mk_drops w = 0 then m k else None), w') \<and> mk_drops w' = 0 \<and>
    dict_view (mk_store w') = (dict_view (mk_store w))(i \<mapsto> m(k := None))"
proof -
  let ?f = "effect (pop_response i k)"
  have "has_dict i (core w)" using assms(1) by (simp add: has_dict_def core_def)
  from retry_over_drops [OF serves_pop this assms(2), of k] obtain w' where
    w': "dict_pop mock_host (mock_stub R) i k w =
       Some (Inr (found_value (answer (pop_response i k) ((?f ^^ mk_drops w) (core w)))), w')"
    "core w' = (?f ^^ Suc (mk_drops w)) (core w)" "mk_drops w' = 0"
    by (auto simp: dict_pop_def mock_stub_def bind_io_def ret_def)
  have fv: "found_value (value_response v) = v" for v
    by (cases v) (simp_all add: found_value_def value_response_def)
  have "found_value (answer (pop_response i k) ((?f ^^ mk_drops w) (core w))) = (if mk_drops w = 0 then m k else None)"
  proof (cases "mk_drops w")
    case 0
    then show ?thesis using pop_effect [OF assms(1), where k = k and c = "mk_counter w"] fv by (auto simp: core_def)
  next
    case (Suc n)
    obtain s1 c1 where s1: "(?f ^^ Suc n) (core w) = (s1, c1)" by (metis surj_pair)
    with pop_funpow [OF assms(1), where k = k and n = n and c = "mk_counter w"] have "dict_view s1 i = Some (m(k := None))"
      by (simp add: core_def)
    from pop_effect [OF this, of k c1] have "answer (pop_response i k) (s1, c1) = value_response None" by auto
    then show ?thesis unfolding Suc s1 by (simp add: fv)
  qed
  moreover have "dict_view (mk_store w') = (dict_view (mk_store w))(i \<mapsto> m(k := None))"
    using w'(2) pop_funpow [OF assms(1), where k = k and n = "mk_drops w" and c = "mk_counter w"] by (metis core_def fst_conv)
  ultimately show ?thesis using w' by auto
qed

lemma get_now:
  assumes "dict_view (mk_store w) i = Some m" "mk_drops w = 0"
  shows "\<exists>w'. dict_get mock_host (mock_stub R) i k w = Some (Inr (m k), w') \<and> core w' = core w \<and> mk_drops w' = 0"
proof -
  have "found_value (value_response (m k)) = m k"
    by (cases "m k") (simp_all add: found_value_def value_response_def)
  moreover have "drop_reply serve_dict_get (build_dict_get_request i k) w = Some (Inr (value_response (m k)), log_push w)"
    using assms
    by (simp add: drop_reply_def serve_dict_get_def build_dict_get_request_def serve_read_def log_push_def
        dict_store.get_law)
  then have "retry_rpc mock_host (dict_get_rpc (mock_stub R)) (build_dict_get_request i k) w =
      Some (map_sum Status id (Inr (value_response (m k))), log_push w)"
    by (intro retry_rpc_now) (simp_all add: mock_stub_def)
  ultimately show ?thesis
    using assms(2) by (simp add: dict_get_def bind_io_def ret_def log_push_def core_def)
qed

text \<open>Queues.\<close>

definition put_response :: "string \<Rightarrow> bytes list \<Rightarrow> object_store \<Rightarrow> unit + unit \<times> object_store" where
  "put_response i xs s = map_sum id (\<lambda>s. ((), s)) (store_queue_put i xs s)"

lemma serves_put:
  "serves serve_queue_put (build_queue_put_request i xs [] ttl) (has_queue i) (effect (put_response i xs)) (answer (put_response i xs))"
proof (rule serves_write)
  show "serve_queue_put (build_queue_put_request i xs [] ttl) = serve_write ''Queue'' i (put_response i xs)"
    by (simp add: serve_queue_put_def build_queue_put_request_def put_response_def [abs_def])
  show "\<exists>a s'. put_response i xs s = Inr (a, s') \<and> has_queue i (s', c)" if "has_queue i (s, c)" for s c
    using that queue_store.push_law [of s i _ xs] by (fastforce simp: has_queue_def put_response_def)
qed

lemma put_funpow:
  assumes "queues s i = Some q"
  shows "queues (fst ((effect (put_response i xs) ^^ n) (s, c))) i = Some (q @ concat (replicate n xs))"
proof (induction n)
  case 0
  then show ?case using assms by simp
next
  case (Suc n)
  obtain s1 c1 where s1: "(effect (put_response i xs) ^^ n) (s, c) = (s1, c1)" by (metis surj_pair)
  with Suc have "queues s1 i = Some (q @ concat (replicate n xs))" by simp
  from queue_store.push_law [OF this, of xs] s1 have
    "queues (fst ((effect (put_response i xs) ^^ Suc n) (s, c))) i = Some ((q @ concat (replicate n xs)) @ xs)"
    by (auto simp: effect_def put_response_def)
  moreover have "concat (replicate n xs) @ xs = xs @ concat (replicate n xs)"
    by (induction n) auto
  ultimately show ?case by simp
qed

lemma put_over_drops:
  assumes "queues (mk_store w) i = Some q" "mk_drops w \<le> 7"
  shows "\<exists>w'. queue_put mock_host (mock_stub R) i xs w = Some (Inr (), w') \<and> mk_drops w' = 0 \<and>
    queues (mk_store w') i = Some (q @ concat (replicate (Suc (mk_drops w)) xs))"
proof -
  have "has_queue i (core w)" using assms(1) by (simp add: has_queue_def core_def)
  from retry_over_drops [OF serves_put this assms(2), of xs DEFAULT_PARTITION_TTL_SECONDS] obtain w' where
    w': "queue_put mock_host (mock_stub R) i xs w = Some (Inr (), w')"
    "core w' = (effect (put_response i xs) ^^ Suc (mk_drops w)) (core w)" "mk_drops w' = 0"
    by (auto simp: queue_put_def mock_stub_def)
  with put_funpow [OF assms(1), of "Suc (mk_drops w)" xs "mk_counter w"] show ?thesis
    by (metis core_def fst_conv)
qed

section \<open>Resolving names\<close>

text \<open>The ids in use were drawn from the counter.\<close>

definition core_ok :: "object_store \<times> nat \<Rightarrow> bool" where
  "core_ok sc \<longleftrightarrow> store_ok (fst sc) \<and> (\<forall>i. dicts (fst sc) i \<noteq> None \<longrightarrow> (\<exists>n \<le> snd sc. i = ''di-'' @ dec n))"

definition resolve_effect :: "string \<Rightarrow> object_store \<times> nat \<Rightarrow> object_store \<times> nat" where
  "resolve_effect name = (\<lambda>(s, c). (snd (resolve_dict name True (''di-'' @ dec (c + 1)) s), c + 1))"

definition resolve_answer :: "string \<Rightarrow> object_store \<times> nat \<Rightarrow> string" where
  "resolve_answer name = (\<lambda>(s, c). the (fst (resolve_dict name True (''di-'' @ dec (c + 1)) s)))"

lemma dec_inj: "dec m = dec n \<Longrightarrow> m = n"
  by (metis option.inject parse_nat_dec)

lemma fresh_candidate: "core_ok (s, c) \<Longrightarrow> dicts s (''di-'' @ dec (c + 1)) = None"
  using dec_inj [of "c + 1"] by (fastforce simp: core_ok_def)

lemma resolve_effect_ok: "core_ok sc \<Longrightarrow> core_ok (resolve_effect name sc)"
proof (cases sc)
  case (Pair s c)
  assume ok: "core_ok sc"
  have "store_ok (snd (resolve_dict name True (''di-'' @ dec (c + 1)) s))"
    by (rule resolve_dict_ok) (use ok fresh_candidate [of s c] Pair in \<open>auto simp: core_ok_def\<close>)
  moreover have "\<exists>n \<le> c + 1. i = ''di-'' @ dec n"
    if "dicts (snd (resolve_dict name True (''di-'' @ dec (c + 1)) s)) i \<noteq> None" for i
  proof -
    from that have "i = ''di-'' @ dec (c + 1) \<or> dicts s i \<noteq> None"
      by (auto simp: resolve_dict_def split: option.splits if_splits)
    then show ?thesis
    proof
      assume "dicts s i \<noteq> None"
      with ok Pair obtain n where "n \<le> c" "i = ''di-'' @ dec n" by (auto simp: core_ok_def)
      then show ?thesis by (intro exI [of _ n]) simp
    qed (intro exI [of _ "c + 1"], simp)
  qed
  ultimately show ?thesis by (simp add: Pair core_ok_def resolve_effect_def)
qed

lemma serves_resolve:
  assumes "on_dict_get_or_create R = None"
  shows "serves (serve_dict_get_or_create R) (build_dict_get_or_create_request name env CreateIfMissing) core_ok
     (resolve_effect name) (resolve_answer name)"
  unfolding serves_def
proof (intro allI impI conjI)
  fix w
  assume "core_ok (core w)"
  then show "core_ok (resolve_effect name (core w))" by (rule resolve_effect_ok)
  obtain i s' where r: "resolve_dict name True (''di-'' @ dec (mk_counter w + 1)) (mk_store w) = (Some i, s')"
    by (cases "dict_ids (mk_store w) name") (auto simp: resolve_dict_def)
  show "\<exists>w'. serve_dict_get_or_create R (build_dict_get_or_create_request name env CreateIfMissing) w =
      Some (Inr (resolve_answer name (core w)), w') \<and> core w' = resolve_effect name (core w) \<and>
      mk_drops w' = mk_drops w \<and> mk_clock w' = mk_clock w"
    using r assms
    by (simp add: serve_dict_get_or_create_def log_push_def next_id_def build_dict_get_or_create_request_def
        resolve_answer_def resolve_effect_def core_def)
qed

lemma resolve_known:
  assumes "dict_ids (fst sc) name = Some i"
  shows "fst (resolve_effect name sc) = fst sc \<and> resolve_answer name sc = i"
  using assms by (cases sc) (simp add: resolve_effect_def resolve_answer_def resolve_dict_def)

lemma resolve_first: "dict_ids (fst (resolve_effect name sc)) name = Some (resolve_answer name sc)"
  by (cases sc) (simp add: resolve_effect_def resolve_answer_def resolve_dict_def split: option.split)

lemma resolve_funpow:
  "fst ((resolve_effect name ^^ Suc n) sc) = fst (resolve_effect name sc) \<and>
   resolve_answer name ((resolve_effect name ^^ n) sc) = resolve_answer name sc"
proof (induction n)
  case (Suc n)
  let ?t = "(resolve_effect name ^^ Suc n) sc"
  have "dict_ids (fst ?t) name = Some (resolve_answer name sc)"
    using Suc resolve_first [of name sc] by simp
  from resolve_known [OF this] Suc show ?case by simp
qed simp

lemma resolve_over_drops:
  assumes "on_dict_get_or_create R = None" "core_ok (core w)" "mk_drops w \<le> 7"
  shows "\<exists>w'. Dict_from_name mock_host (mock_stub R) c name w =
      Some (Inr \<lparr>oh_id = resolve_answer name (core w), oh_name = name\<rparr>, w') \<and>
    mk_store w' = fst (resolve_effect name (core w)) \<and> mk_drops w' = 0 \<and> core_ok (core w')"
proof -
  from retry_over_drops [OF serves_resolve [OF assms(1)] assms(2,3), of name "env_or_default c None"] obtain w' where
    w': "retry_rpc mock_host (drop_reply (serve_dict_get_or_create R))
       (build_dict_get_or_create_request name (env_or_default c None) CreateIfMissing) w =
       Some (Inr (resolve_answer name ((resolve_effect name ^^ mk_drops w) (core w))), w')"
    "core w' = (resolve_effect name ^^ Suc (mk_drops w)) (core w)" "mk_drops w' = 0" "core_ok (core w')" by blast
  have store: "mk_store w' = fst (resolve_effect name (core w))"
    using w'(2) resolve_funpow [where name = name and n = "mk_drops w" and sc = "core w"] by (metis core_def fst_conv)
  have "dicts (mk_store w') (resolve_answer name (core w)) \<noteq> None"
    using w'(4) resolve_first [of name "core w"] store by (auto simp: core_ok_def store_ok_def core_def ran_def)
  then have "resolve_answer name (core w) \<noteq> []" using w'(4) by (auto simp: core_ok_def core_def)
  then show ?thesis
    using w' store resolve_funpow [where name = name and n = "mk_drops w" and sc = "core w"]
    by (simp add: Dict_from_name_def Dict_resolve_with_def dict_get_or_create_def mock_stub_def bind_io_def ret_def)
qed

section \<open>Properties\<close>

text \<open>Through the handle, the retry layer, the wire and the store, a Dict keeps what is put: after an
  accepted \<open>put\<close>, \<open>get\<close> of the key gives the decoded value and every other key of the dict is as
  before.  A plain put is safe to retry: this holds with up to seven lost replies.\<close>

lemma dict_put_get:
  assumes "dict_view (mk_store w) i = Some m" "mk_drops w \<le> 7"
    and "encode_value P v = Inr b" "decode_value P b = Inr v'"
    and "length key < 2 ^ 63" "length other < 2 ^ 63" "other \<noteq> key"
  shows "\<exists>w1. Dict_put mock_host (mock_stub R) P i key v w = Some (Inr (), w1) \<and>
    (\<exists>w2. Dict_get mock_host (mock_stub R) P i key w1 = Some (Inr (Some v'), w2)) \<and>
    (\<exists>w2. Dict_get mock_host (mock_stub R) P i other w1 = Some (decode_opt P (m (encode_str_key other)), w2))"
proof -
  let ?k = "encode_str_key key"
  have diff: "encode_str_key other \<noteq> ?k"
    using assms(5-7) by (metis unpickle_encoded option.inject)
  from update_over_drops [OF assms(1,2), where es = "[(?k, b)]" and flag = False and R = R] obtain r w1 where
    w1: "dict_update mock_host (mock_stub R) i [(?k, b)] False w = Some (Inr r, w1)" "mk_drops w1 = 0"
    "dict_view (mk_store w1) = (dict_view (mk_store w))(i \<mapsto> m(?k \<mapsto> b))"
    unfolding put_one_funpow by blast
  then have put: "Dict_put mock_host (mock_stub R) P i key v w = Some (Inr (), w1)"
    using assms(3) by (simp add: Dict_put_def bind_io_def lift_res_def ret_def)
  have view: "dict_view (mk_store w1) i = Some (m(?k \<mapsto> b))" using w1(3) by simp
  have "\<exists>w2. Dict_get mock_host (mock_stub R) P i key w1 = Some (Inr (Some v'), w2)"
    using get_now [OF view w1(2), where k = ?k and R = R] assms(4)
    by (auto simp: Dict_get_def bind_io_def lift_res_def decode_opt_def)
  moreover have "\<exists>w2. Dict_get mock_host (mock_stub R) P i other w1 = Some (decode_opt P (m (encode_str_key other)), w2)"
    using get_now [OF view w1(2), where k = "encode_str_key other" and R = R] diff
    by (auto simp: Dict_get_def bind_io_def lift_res_def)
  ultimately show ?thesis using put by blast
qed

definition byte_pickle :: "bytes pickle_lib" where
  "byte_pickle = \<lparr>pk_to_vec = Inr, pk_from_slice = Inr\<rparr>"

definition mock_world :: "nat \<Rightarrow> mock" where
  "mock_world drops = \<lparr>mk_clock = 0, mk_logged = 0, mk_counter = 1,
     mk_store = empty_store\<lparr>dict_ids := [''d'' \<mapsto> ''di-1''], dicts := [''di-1'' \<mapsto> []],
       queue_ids := [''q'' \<mapsto> ''qu-1''], queues := [''qu-1'' \<mapsto> []]\<rparr>, mk_drops = drops\<rparr>"

lemma mock_world_simps [simp]:
  "dict_view (mk_store (mock_world n)) ''di-1'' = Some Map.empty"
  "queues (mk_store (mock_world n)) ''qu-1'' = Some []" "mk_drops (mock_world n) = n"
  by (simp_all add: mock_world_def dict_view_def)

lemma byte_pickle_simps [simp]: "encode_value byte_pickle v = Inr v" "decode_value byte_pickle v = Inr v"
  by (simp_all add: encode_value_def decode_value_def byte_pickle_def)

lemma dict_put_get_witness:
  "\<exists>w1. Dict_put mock_host (mock_stub no_overrides) byte_pickle ''di-1'' [1] [7, 7] (mock_world 3) = Some (Inr (), w1) \<and>
    (\<exists>w2. Dict_get mock_host (mock_stub no_overrides) byte_pickle ''di-1'' [1] w1 = Some (Inr (Some [7, 7]), w2)) \<and>
    (\<exists>w2. Dict_get mock_host (mock_stub no_overrides) byte_pickle ''di-1'' [2] w1 =
       Some (decode_opt byte_pickle (Map.empty (encode_str_key [2])), w2))"
  by (rule dict_put_get) simp_all



text \<open>A lost reply loses the value of a \<open>pop\<close>: the entry is removed in any case, and the value comes
  back only when no reply was lost.\<close>

lemma dict_pop_lost_reply:
  assumes "dict_view (mk_store w) i = Some m" "mk_drops w \<le> 7"
  shows "\<exists>w1. Dict_pop mock_host (mock_stub R) P i key w =
      Some (if mk_drops w = 0 then decode_opt P (m (encode_str_key key)) else Inr None, w1) \<and>
    dict_view (mk_store w1) i = Some (m(encode_str_key key := None))"
  using pop_over_drops [OF assms, where k = "encode_str_key key" and R = R]
  by (auto simp: Dict_pop_def bind_io_def lift_res_def decode_opt_def)

lemma dict_pop_lost_reply_witness:
  "\<exists>w1. Dict_pop mock_host (mock_stub no_overrides) byte_pickle ''di-1'' [1] (mock_world 1) =
      Some (if mk_drops (mock_world 1) = 0 then decode_opt byte_pickle ((Map.empty :: bytes \<rightharpoonup> bytes) (encode_str_key [1])) else Inr None, w1) \<and>
    dict_view (mk_store w1) ''di-1'' = Some (Map.empty(encode_str_key [1] := None))"
  by (rule dict_pop_lost_reply) simp_all

text \<open>A queue put is repeated by every lost reply: the items are appended once per attempt, so they
  are there exactly once only when no reply was lost.\<close>

lemma queue_put_lost_reply:
  assumes "queues (mk_store w) i = Some q" "mk_drops w \<le> 7"
    and "encode_values P vs = Inr bs" "vs \<noteq> []"
  shows "\<exists>w1. Queue_put_many mock_host (mock_stub R) P i vs w = Some (Inr (), w1) \<and>
    queues (mk_store w1) i = Some (q @ concat (replicate (Suc (mk_drops w)) bs))"
proof -
  have "bs \<noteq> []" using assms(3,4) by (auto simp: encode_values_Inr)
  then show ?thesis
    using put_over_drops [OF assms(1,2), of R bs] assms(3)
    by (auto simp: Queue_put_many_def Queue_put_raw_def bind_io_def lift_res_def)
qed

lemma byte_values [simp]: "encode_values byte_pickle vs = Inr vs" "decode_values byte_pickle vs = Inr vs"
  by (simp_all add: encode_values_Inr decode_values_Inr list_all2_refl)

lemma queue_put_lost_reply_witness:
  "\<exists>w1. Queue_put_many mock_host (mock_stub no_overrides) byte_pickle ''qu-1'' [[7], [8]] (mock_world 1) = Some (Inr (), w1) \<and>
    queues (mk_store w1) ''qu-1'' = Some ([] @ concat (replicate (Suc (mk_drops (mock_world 1))) [[7], [8]]))"
  by (rule queue_put_lost_reply) simp_all



text \<open>Resolving a Dict by name is safe to repeat: whatever replies are lost, two resolutions of a name
  give the same id of an existing dict, and another name gives another id.\<close>

lemma dict_names_resolve:
  assumes "on_dict_get_or_create R = None" "core_ok (core w)" "mk_drops w \<le> 7" "other \<noteq> name"
  shows "\<exists>i j w1 w2 w3. Dict_from_name mock_host (mock_stub R) c name w = Some (Inr \<lparr>oh_id = i, oh_name = name\<rparr>, w1) \<and>
    Dict_from_name mock_host (mock_stub R) c name w1 = Some (Inr \<lparr>oh_id = i, oh_name = name\<rparr>, w2) \<and>
    Dict_from_name mock_host (mock_stub R) c other w1 = Some (Inr \<lparr>oh_id = j, oh_name = other\<rparr>, w3) \<and>
    i \<noteq> [] \<and> dicts (mk_store w1) i \<noteq> None \<and> j \<noteq> i"
proof -
  let ?i = "resolve_answer name (core w)"
  obtain w1 where w1: "Dict_from_name mock_host (mock_stub R) c name w = Some (Inr \<lparr>oh_id = ?i, oh_name = name\<rparr>, w1)"
    "mk_store w1 = fst (resolve_effect name (core w))" "mk_drops w1 = 0" "core_ok (core w1)"
    using resolve_over_drops [OF assms(1-3)] by metis
  have id1: "dict_ids (fst (core w1)) name = Some ?i"
    using w1(2) resolve_first [of name "core w"] by (simp add: core_def)
  from resolve_over_drops [OF assms(1) w1(4), of c name] w1(3) resolve_known [OF id1] obtain w2 where
    w2: "Dict_from_name mock_host (mock_stub R) c name w1 = Some (Inr \<lparr>oh_id = ?i, oh_name = name\<rparr>, w2)" by auto
  let ?j = "resolve_answer other (core w1)"
  from resolve_over_drops [OF assms(1) w1(4), of c other] w1(3) obtain w3 where
    w3: "Dict_from_name mock_host (mock_stub R) c other w1 = Some (Inr \<lparr>oh_id = ?j, oh_name = other\<rparr>, w3)" by auto
  have alive: "dicts (mk_store w1) ?i \<noteq> None"
    using w1(4) id1 by (auto simp: core_ok_def store_ok_def core_def ran_def)
  moreover have "?i \<noteq> []" using alive w1(4) by (auto simp: core_ok_def core_def)
  moreover have "?j \<noteq> ?i"
  proof
    assume "?j = ?i"
    have "dict_ids (fst (resolve_effect other (core w1))) other = Some ?j" by (rule resolve_first)
    moreover have "dict_ids (fst (resolve_effect other (core w1))) name = Some ?i"
      using id1 assms(4) by (auto simp: resolve_effect_def resolve_dict_def split: prod.splits option.splits)
    moreover have "inj_on (dict_ids (fst (resolve_effect other (core w1)))) (dom (dict_ids (fst (resolve_effect other (core w1)))))"
      using resolve_effect_ok [OF w1(4), of other] by (simp add: core_ok_def store_ok_def)
    ultimately show False using assms(4) \<open>?j = ?i\<close> by (metis domI inj_onD)
  qed
  ultimately show ?thesis using w1(1) w2 w3 by blast
qed

lemma mock_world_ok: "core_ok (core (mock_world n))"
proof -
  have one: "dec 1 = ''1''" by code_simp
  have "\<exists>n\<le>1. ''di-1'' = ''di-'' @ dec n" by (rule exI [of _ 1]) (simp add: one [unfolded One_nat_def])
  then show ?thesis
    by (auto simp: core_ok_def core_def mock_world_def empty_store_def store_ok_def)
qed

lemma dict_names_resolve_witness:
  "\<exists>i j w1 w2 w3. Dict_from_name mock_host (mock_stub no_overrides) token_config ''new'' (mock_world 2) = Some (Inr \<lparr>oh_id = i, oh_name = ''new''\<rparr>, w1) \<and>
    Dict_from_name mock_host (mock_stub no_overrides) token_config ''new'' w1 = Some (Inr \<lparr>oh_id = i, oh_name = ''new''\<rparr>, w2) \<and>
    Dict_from_name mock_host (mock_stub no_overrides) token_config ''d'' w1 = Some (Inr \<lparr>oh_id = j, oh_name = ''d''\<rparr>, w3) \<and>
    i \<noteq> [] \<and> dicts (mk_store w1) i \<noteq> None \<and> j \<noteq> i"
  by (rule dict_names_resolve) (simp_all add: mock_world_ok no_overrides_def)

end
