(* ===== verification/MacroSpecs.thy ===== *)
theory MacroSpecs
  imports FunctionSpec
begin

text \<open>
  The compile-time half of the spec strings (\<open>crates/modal-rust-macros/src/specs.rs\<close>): the \<open>Retries(..)\<close>,
  \<open>Cron(..)\<close> and \<open>Period(..)\<close> forms of the decorator, rendered into the strings the SDK parses at run
  time.  A \<open>syn\<close> expression is reduced to the shapes the code tells apart; a compile error is its text.
  The \<open>f64\<close> operations of the standard library are a record of functions.
\<close>

section \<open>Expressions\<close>

datatype lit = LitInt string | LitFloat string | LitStr string | LitBool bool | LitOther
  \<comment> \<open>the decimal digits of a number, the value of a string\<close>

datatype expr =
    ELit lit
  | EPath "string list"
  | EAssign expr expr
  | ECall expr "expr list"
  | EArray "expr list"
  | EBraces "(lit \<times> lit option) list" \<comment> \<open>\<open>{k = v, ..}\<close>; an entry may lack its value\<close>
  | EOther

type_synonym 'a compiled = "string + 'a"

record 'd f64_ops =
  f64_parse :: "string \<Rightarrow> string + 'd"
  f64_of_u64 :: "u64 \<Rightarrow> 'd"
  f64_show :: "'d \<Rightarrow> string"
  f64_negative :: "'d \<Rightarrow> bool"
  f64_finite :: "'d \<Rightarrow> bool"
  f64_millis :: "'d \<Rightarrow> u32" \<comment> \<open>\<open>(x * 1000.0) as u32\<close>\<close>

text \<open>\<open>base10_parse\<close> of an integer literal, which is all digits: it fails on overflow only.\<close>

definition base10_parse :: "nat \<Rightarrow> string \<Rightarrow> nat compiled" where
  "base10_parse w digits = ok_or (parse_uint w digits) ''number too large to fit in target type''"

definition expect_u32_lit :: "expr \<Rightarrow> u32 compiled" where
  "expect_u32_lit e =
     (case e of
        ELit (LitInt d) \<Rightarrow> and_then (base10_parse 32 d) (\<lambda>n. Inr (of_nat n))
      | _ \<Rightarrow> Inl ''expected a non-negative integer literal'')"

definition expect_f64_lit :: "'d f64_ops \<Rightarrow> expr \<Rightarrow> 'd compiled" where
  "expect_f64_lit D e =
     (case e of
        ELit (LitFloat d) \<Rightarrow> f64_parse D d
      | ELit (LitInt d) \<Rightarrow> and_then (base10_parse 64 d) (\<lambda>n. Inr (f64_of_u64 D (of_nat n)))
      | _ \<Rightarrow> Inl ''expected a number (float or int)'')"

definition secs_lit_to_ms :: "'d f64_ops \<Rightarrow> expr \<Rightarrow> u32 compiled" where
  "secs_lit_to_ms D e =
     and_then
       (case e of
          ELit (LitFloat d) \<Rightarrow> f64_parse D d
        | ELit (LitInt d) \<Rightarrow> and_then (base10_parse 64 d) (\<lambda>n. Inr (f64_of_u64 D (of_nat n)))
        | _ \<Rightarrow> Inl ''delay must be a number of SECONDS (float or int), e.g. `0.5` or `30`'')
       (\<lambda>s. if f64_negative D s \<or> \<not> f64_finite D s
            then Inl ''delay (seconds) must be a finite, non-negative number''
            else Inr (f64_millis D s))"

text \<open>The callee's last segment, and the name of a \<open>name = value\<close> argument.\<close>

definition callee_kind :: "string \<Rightarrow> expr \<Rightarrow> string compiled" where
  "callee_kind msg f =
     (case f of EPath segs \<Rightarrow> Inr (if segs = [] then [] else last segs) | _ \<Rightarrow> Inl msg)"

definition component_arg :: "string \<Rightarrow> string \<Rightarrow> string \<Rightarrow> expr \<Rightarrow> (string \<times> expr) compiled" where
  "component_arg what pair name_example arg =
     (case arg of
        EAssign l r \<Rightarrow>
          (case l of
             EPath segs \<Rightarrow>
               (case segs of
                  [name] \<Rightarrow> Inr (name, r)
                | _ \<Rightarrow> Inl (what @ '' component name must be an identifier''))
           | _ \<Rightarrow> Inl (what @ '' component name must be a bare identifier (e.g. `'' @ name_example @ ''`)''))
      | _ \<Rightarrow> Inl (what @ '' components must be `name = value`, e.g. `'' @ pair @ ''`''))"

section \<open>Retries\<close>

definition retries_arg ::
  "'d f64_ops \<Rightarrow> expr \<Rightarrow> string option \<times> string list \<Rightarrow> (string option \<times> string list) compiled" where
  "retries_arg D arg = (\<lambda>(max_retries, parts).
     and_then (component_arg ''Retries'' ''max_retries = 5'' ''max_retries'' arg) (\<lambda>(name, right).
       if name = ''max_retries''
       then and_then (expect_u32_lit right) (\<lambda>n. Inr (Some (''max='' @ dec (unat n)), parts))
       else if name = ''backoff_coefficient''
       then and_then (expect_f64_lit D right) (\<lambda>x. Inr (max_retries, parts @ [''backoff='' @ f64_show D x]))
       else if name = ''initial_delay''
       then and_then (secs_lit_to_ms D right) (\<lambda>n. Inr (max_retries, parts @ [''initial_ms='' @ dec (unat n)]))
       else if name = ''max_delay''
       then and_then (secs_lit_to_ms D right) (\<lambda>n. Inr (max_retries, parts @ [''max_ms='' @ dec (unat n)]))
       else Inl (''unknown Retries component '' @ debug_str name @ ''; expected one of ''
                 @ ''`max_retries`, `backoff_coefficient`, `initial_delay`, `max_delay`'')))"

definition parse_retries_to_spec :: "'d f64_ops \<Rightarrow> expr \<Rightarrow> string compiled" where
  "parse_retries_to_spec D input =
     (case input of
        ECall f args \<Rightarrow>
          and_then (callee_kind ''`retries` struct form must call `Retries(..)`'' f) (\<lambda>kind.
            if kind \<noteq> ''Retries''
            then Inl (''unknown retries kind '' @ debug_str kind @ ''; expected the `Retries(..)` struct form'')
            else and_then (try_fold (retries_arg D) args (None, [])) (\<lambda>(max_retries, parts).
              and_then (ok_or max_retries
                     (''Retries requires `max_retries = N` (the retry count), e.g. `Retries(max_retries = 5)`''))
                (\<lambda>mx. Inr (''retries:'' @ join_with '','' (mx # parts)))))
      | _ \<Rightarrow> Inl (''`retries` must be a bare integer (`retries = 5`) or the struct form ''
               @ ''`retries = Retries(max_retries = N[, backoff_coefficient = f] ''
               @ ''[, initial_delay = s][, max_delay = s])`''))"

section \<open>Schedules\<close>

definition PERIOD_COMPONENTS :: "string list" where
  "PERIOD_COMPONENTS = [''years'', ''months'', ''weeks'', ''days'', ''hours'', ''minutes'', ''seconds'']"

definition expect_str_lit :: "expr option \<Rightarrow> string \<Rightarrow> string compiled" where
  "expect_str_lit arg msg = (case arg of Some (ELit (LitStr s)) \<Rightarrow> Inr s | _ \<Rightarrow> Inl msg)"

definition period_value :: "string \<Rightarrow> expr \<Rightarrow> string compiled" where
  "period_value name right =
     (case right of
        ELit (LitInt d) \<Rightarrow> Inr d
      | ELit (LitFloat d) \<Rightarrow>
          (if name = ''seconds'' then Inr d
           else Inl (''Period component '' @ debug_str name @ '' must be an integer (only `seconds` is a float)''))
      | _ \<Rightarrow> Inl (''Period component '' @ debug_str name @ '' must be a numeric literal''))"

definition period_arg :: "expr \<Rightarrow> string list \<Rightarrow> string list compiled" where
  "period_arg arg parts =
     and_then (component_arg ''Period'' ''hours = 4'' ''days'' arg) (\<lambda>(name, right).
       if name \<notin> set PERIOD_COMPONENTS
       then Inl (''unknown Period component '' @ debug_str name @ ''; expected one of [''
                 @ join_with '', '' (map debug_str PERIOD_COMPONENTS) @ '']'')
       else and_then (period_value name right) (\<lambda>value. Inr (parts @ [name @ ''='' @ value])))"

definition parse_period_components :: "expr list \<Rightarrow> string compiled" where
  "parse_period_components args =
     (if args = [] then Inl ''Period needs at least one component, e.g. `Period(days = 1)`''
      else and_then (try_fold period_arg args []) (\<lambda>parts. Inr (''period:'' @ join_with '','' parts)))"

definition parse_cron :: "expr list \<Rightarrow> string compiled" where
  "parse_cron args =
     and_then (expect_str_lit (case args of a # _ \<Rightarrow> Some a | [] \<Rightarrow> None) ''Cron expects a cron string'')
       (\<lambda>cron_string. and_then
          (case args of _ # a # _ \<Rightarrow> expect_str_lit (Some a) ''Cron timezone must be a string'' | _ \<Rightarrow> Inr ''UTC'')
          (\<lambda>timezone.
             if length args > 2
             then Inl (''Cron takes at most two arguments: Cron('' @ quote @ ''expr'' @ quote @ ''[, '' @ quote
                       @ ''tz'' @ quote @ ''])'')
             else if CHR '':'' \<in> set cron_string \<or> CHR '':'' \<in> set timezone
             then Inl (''Cron expression / timezone must not contain a '' @ [CHR 0x27, CHR '':'', CHR 0x27])
             else Inr (''cron:'' @ timezone @ '':'' @ cron_string)))"

definition parse_schedule_to_spec :: "expr \<Rightarrow> string compiled" where
  "parse_schedule_to_spec input =
     (case input of
        ECall f args \<Rightarrow>
          and_then (callee_kind ''`schedule` must call `Cron(..)` or `Period(..)`'' f) (\<lambda>kind.
            if kind = ''Cron'' then parse_cron args
            else if kind = ''Period'' then parse_period_components args
            else Inl (''unknown schedule kind '' @ debug_str kind @ ''; expected `Cron` or `Period`''))
      | _ \<Rightarrow> Inl (''`schedule` must be `Cron('' @ quote @ ''expr'' @ quote @ ''[, '' @ quote @ ''tz'' @ quote
               @ ''])` or `Period(days = 1, ..)`''))"

section \<open>Facts about rendered components\<close>

text \<open>A text that survives being a component value: no comma, no blank at either end, not empty.\<close>

definition plain :: "string \<Rightarrow> bool" where
  "plain s \<longleftrightarrow> s \<noteq> [] \<and> (\<forall>c\<in>set s. c \<noteq> CHR '','' \<and> \<not> is_ws c)"

lemma plain_trim: "plain s \<Longrightarrow> trim s = s"
  by (simp add: plain_def trim_id)

lemma plain_dec [simp]: "plain (dec n)"
  using dec_no_char [of "CHR '',''" n] by (auto simp: plain_def is_digit_def dest: dec_digits is_digit_not_ws)

definition digits_ok :: "string \<Rightarrow> bool" where
  "digits_ok d \<longleftrightarrow> d \<noteq> [] \<and> (\<forall>c\<in>set d. is_digit c)"

lemma plain_digits: "digits_ok d \<Longrightarrow> plain d"
  by (auto simp: digits_ok_def plain_def is_digit_def is_ws_def)

lemma trim_key [simp]:
  "trim ''max'' = ''max''" "trim ''backoff'' = ''backoff''" "trim ''initial_ms'' = ''initial_ms''"
  "trim ''max_ms'' = ''max_ms''" "trim ''years'' = ''years''" "trim ''months'' = ''months''"
  "trim ''weeks'' = ''weeks''" "trim ''days'' = ''days''" "trim ''hours'' = ''hours''"
  "trim ''minutes'' = ''minutes''" "trim ''seconds'' = ''seconds''"
  by (rule trim_id, simp add: is_ws_def)+

lemma component_key [simp]:
  "split_once CHR ''='' (''max='' @ v) = Some (''max'', v)"
  "split_once CHR ''='' (''backoff='' @ v) = Some (''backoff'', v)"
  "split_once CHR ''='' (''initial_ms='' @ v) = Some (''initial_ms'', v)"
  "split_once CHR ''='' (''max_ms='' @ v) = Some (''max_ms'', v)"
  by simp_all

lemma component_arg_Inr:
  "component_arg what pair eg arg = Inr (name, right) \<longleftrightarrow> arg = EAssign (EPath [name]) right"
  by (auto simp: component_arg_def split: expr.splits list.splits)

section \<open>What a schedule means\<close>

text \<open>
  The reference meaning of \<open>Period(..)\<close>: the components are assigned in order to a period of zeros.
  A component fits when the SDK's integer (or float) type can hold its literal.
\<close>

definition int_of_digits :: "string \<Rightarrow> int" where
  "int_of_digits d = (case parse_nat d of Some n \<Rightarrow> int n | None \<Rightarrow> 0)"

definition set_period :: "'f f32_ops \<Rightarrow> 'f period \<Rightarrow> string \<times> string \<Rightarrow> 'f period" where
  "set_period F p = (\<lambda>(k, d).
     if k = ''years'' then p\<lparr>years := int_of_digits d\<rparr>
     else if k = ''months'' then p\<lparr>months := int_of_digits d\<rparr>
     else if k = ''weeks'' then p\<lparr>weeks := int_of_digits d\<rparr>
     else if k = ''days'' then p\<lparr>days := int_of_digits d\<rparr>
     else if k = ''hours'' then p\<lparr>hours := int_of_digits d\<rparr>
     else if k = ''minutes'' then p\<lparr>minutes := int_of_digits d\<rparr>
     else p\<lparr>seconds := (case f32_parse F d of Some x \<Rightarrow> x | None \<Rightarrow> f32_zero F)\<rparr>)"

fun literal_text :: "expr \<Rightarrow> string \<times> string" where
  "literal_text (EAssign (EPath [k]) (ELit (LitInt d))) = (k, d)"
| "literal_text (EAssign (EPath [k]) (ELit (LitFloat d))) = (k, d)"
| "literal_text e = ([], [])"

text \<open>What the tokenizer guarantees of a number literal: an integer is decimal digits, a float has no blank
  or comma and is not empty.\<close>

fun tokenized :: "expr \<Rightarrow> bool" where
  "tokenized (EAssign l (ELit (LitInt d))) = digits_ok d"
| "tokenized (EAssign l (ELit (LitFloat d))) = plain d"
| "tokenized e = True"

definition component_fits :: "'f f32_ops \<Rightarrow> string \<times> string \<Rightarrow> bool" where
  "component_fits F = (\<lambda>(k, d).
     if k = ''seconds'' then f32_parse F d \<noteq> None else int_of_digits d < 2 ^ 31)"

definition component_text :: "string \<times> string \<Rightarrow> string" where
  "component_text = (\<lambda>(k, d). k @ ''='' @ d)"

text \<open>A component the macro accepts, and the text it leaves for the SDK.\<close>

definition period_literal :: "string \<times> string \<Rightarrow> bool" where
  "period_literal = (\<lambda>(k, d). k \<in> set PERIOD_COMPONENTS \<and> plain d \<and> (k \<noteq> ''seconds'' \<longrightarrow> digits_ok d))"

lemma period_arg_Inr:
  assumes "period_arg arg parts = Inr parts'" "tokenized arg"
  shows "parts' = parts @ [component_text (literal_text arg)] \<and> period_literal (literal_text arg)"
  using assms
  by (auto simp: period_arg_def and_then_Inr_iff component_arg_Inr period_value_def component_text_def
      period_literal_def plain_digits split: if_splits expr.splits lit.splits)

lemma period_args_Inr:
  assumes "try_fold period_arg args parts = Inr parts'" "\<forall>a\<in>set args. tokenized a"
  shows "parts' = parts @ map (component_text \<circ> literal_text) args \<and>
         (\<forall>a\<in>set args. period_literal (literal_text a))"
  using assms
  by (induction args arbitrary: parts) (fastforce simp: and_then_Inr_iff dest!: period_arg_Inr)+

lemma read_digits_total: "\<forall>c\<in>set d. is_digit c \<Longrightarrow> \<exists>n. read_digits a d = Some n"
  by (induction d arbitrary: a) (auto simp: digit_val_def is_digit_def Let_def)

lemma parse_i32_digits:
  assumes "digits_ok d"
  shows "parse_i32 d = (if int_of_digits d < 2 ^ 31 then Some (int_of_digits d) else None)"
proof -
  have h: "is_digit (hd d)" "d \<noteq> []" using assms by (auto simp: digits_ok_def)
  then have "hd d \<noteq> CHR ''-''" "hd d \<noteq> CHR ''+''" by (auto simp: is_digit_def)
  moreover obtain n where "parse_nat d = Some n"
    using read_digits_total [of d 0] assms h by (auto simp: parse_nat_def digits_ok_def)
  ultimately show ?thesis using h by (simp add: parse_i32_def parse_uint_def int_of_digits_def)
qed

lemma period_component_text:
  assumes "period_literal kd"
  shows "component_fits F kd \<Longrightarrow>
           period_component F spec (component_text kd) p = Inr (set_period F p kd)"
    and "\<not> component_fits F kd \<Longrightarrow> \<exists>m. period_component F spec (component_text kd) p = Inl (Invalid m)"
proof -
  obtain k d where kd: "kd = (k, d)" by (cases kd)
  with assms have k: "k \<in> set PERIOD_COMPONENTS" and d: "trim d = d" "k \<noteq> ''seconds'' \<Longrightarrow> digits_ok d"
    by (auto simp: period_literal_def plain_trim)
  have s: "split_once CHR ''='' (component_text kd) = Some (k, d)" "trim k = k"
    using k by (auto simp: kd component_text_def PERIOD_COMPONENTS_def)
  have i: "parse_period_i32 k d = ok_or (if int_of_digits d < 2 ^ 31 then Some (int_of_digits d) else None)
            (Invalid (''Invalid integer '' @ debug_str d @ '' for period '' @ debug_str k))"
    if "k \<noteq> ''seconds''"
    using parse_i32_digits [OF d(2) [OF that]] by (simp add: parse_period_i32_def d(1))
  have e: "k = ''years'' \<or> k = ''months'' \<or> k = ''weeks'' \<or> k = ''days'' \<or> k = ''hours'' \<or> k = ''minutes''
           \<or> k = ''seconds''" using k by (simp add: PERIOD_COMPONENTS_def)
  note u = d(1) Let_def kd component_fits_def set_period_def
  note cut = period_component_def s(1) ok_or_simps and_then_simps
  show "period_component F spec (component_text kd) p = Inr (set_period F p kd)" if "component_fits F kd"
    using e that i unfolding cut by (elim disjE; cases "f32_parse F d") (simp_all add: u split: if_splits)
  show "\<exists>m. period_component F spec (component_text kd) p = Inl (Invalid m)" if "\<not> component_fits F kd"
    using e that i unfolding cut by (elim disjE; cases "f32_parse F d") (simp_all add: u split: if_splits)
qed

lemma period_components_text:
  assumes "\<forall>x\<in>set kds. period_literal x"
  shows "(\<forall>x\<in>set kds. component_fits F x) \<Longrightarrow>
           try_fold (period_component F spec) (map component_text kds) p = Inr (foldl (set_period F) p kds)"
    and "\<exists>x\<in>set kds. \<not> component_fits F x \<Longrightarrow>
           \<exists>m. try_fold (period_component F spec) (map component_text kds) p = Inl (Invalid m)"
  using assms
proof (induction kds arbitrary: p)
  case (Cons x xs)
  case 1
  with Cons show ?case by (simp add: period_component_text(1))
next
  case (Cons x xs)
  case 2
  with Cons.IH(2) show ?case
    by (cases "component_fits F x")
      (use period_component_text(2) [of x F spec p] in \<open>auto simp: period_component_text(1)\<close>)
qed simp_all

lemma period_key_no_comma: "k \<in> set PERIOD_COMPONENTS \<Longrightarrow> CHR '','' \<notin> set k"
  unfolding PERIOD_COMPONENTS_def list.set insert_iff by (elim disjE) simp_all

lemma component_text_shape:
  assumes "period_literal x" shows "CHR '','' \<notin> set (component_text x) \<and> component_text x \<noteq> []"
proof -
  obtain k d where "x = (k, d)" by (cases x)
  with assms period_key_no_comma [of k] show ?thesis
    by (auto simp: component_text_def period_literal_def plain_def)
qed

section \<open>What a retry policy means\<close>

text \<open>
  The reference meaning of \<open>Retries(..)\<close>: the components are assigned in order to the SDK's defaults.
\<close>

definition set_retries :: "'f f32_ops \<Rightarrow> 'd f64_ops \<Rightarrow> 'f retries_acc \<Rightarrow> expr \<Rightarrow> 'f retries_acc" where
  "set_retries F D acc arg =
     (case component_arg ''Retries'' ''max_retries = 5'' ''max_retries'' arg of
        Inl _ \<Rightarrow> acc
      | Inr (k, v) \<Rightarrow>
          if k = ''max_retries''
          then (case expect_u32_lit v of Inr n \<Rightarrow> acc\<lparr>acc_retries := Some n\<rparr> | Inl _ \<Rightarrow> acc)
          else if k = ''backoff_coefficient''
          then (case expect_f64_lit D v of
                  Inr x \<Rightarrow> acc\<lparr>acc_backoff := the (f32_parse F (f64_show D x))\<rparr> | Inl _ \<Rightarrow> acc)
          else if k = ''initial_delay''
          then (case secs_lit_to_ms D v of Inr n \<Rightarrow> acc\<lparr>acc_initial := n\<rparr> | Inl _ \<Rightarrow> acc)
          else (case secs_lit_to_ms D v of Inr n \<Rightarrow> acc\<lparr>acc_max := n\<rparr> | Inl _ \<Rightarrow> acc))"

definition default_retries :: "'f f32_ops \<Rightarrow> 'f retries_acc" where
  "default_retries F = \<lparr>acc_retries = None, acc_backoff = retry_default_backoff F,
     acc_initial = RETRY_DEFAULT_INITIAL_DELAY_MS, acc_max = RETRY_DEFAULT_MAX_DELAY_MS\<rparr>"

text \<open>\<open>Display\<close> of an \<open>f64\<close> and \<open>FromStr\<close> of an \<open>f32\<close> agree: every text the first writes is read.\<close>

definition float_texts_read :: "'f f32_ops \<Rightarrow> 'd f64_ops \<Rightarrow> bool" where
  "float_texts_read F D \<longleftrightarrow> (\<forall>x. plain (f64_show D x) \<and> f32_parse F (f64_show D x) \<noteq> None)"

text \<open>
  What the loop of the macro has built after some arguments: the parts are component texts the SDK reads
  without touching \<open>max\<close>, and reading them gives the meaning of the arguments.
\<close>

definition parts_mean :: "'f f32_ops \<Rightarrow> string \<Rightarrow> string list \<Rightarrow> 'f retries_acc \<Rightarrow> bool" where
  "parts_mean F spec parts acc \<longleftrightarrow>
     (\<forall>t\<in>set parts. CHR '','' \<notin> set t \<and> t \<noteq> []) \<and>
     (\<forall>m. try_fold (retries_component F spec) parts ((default_retries F)\<lparr>acc_retries := m\<rparr>)
          = Inr (acc\<lparr>acc_retries := m\<rparr>))"

lemma parts_mean_snoc:
  assumes "parts_mean F spec parts acc" "CHR '','' \<notin> set t" "t \<noteq> []"
    and "\<And>m. retries_component F spec t (acc\<lparr>acc_retries := m\<rparr>) = Inr (acc'\<lparr>acc_retries := m\<rparr>)"
  shows "parts_mean F spec (parts @ [t]) acc'"
  using assms by (auto simp: parts_mean_def try_fold_append)

lemma retries_component_texts:
  "retries_component F spec (''max='' @ dec (unat n)) a = Inr (a\<lparr>acc_retries := Some n\<rparr>)"
  "retries_component F spec (''initial_ms='' @ dec (unat n)) a = Inr (a\<lparr>acc_initial := n\<rparr>)"
  "retries_component F spec (''max_ms='' @ dec (unat n)) a = Inr (a\<lparr>acc_max := n\<rparr>)"
  "plain v \<Longrightarrow> f32_parse F v = Some x \<Longrightarrow>
     retries_component F spec (''backoff='' @ v) a = Inr (a\<lparr>acc_backoff := x\<rparr>)"
  unfolding retries_component_def component_key ok_or_simps and_then_simps
  by (simp_all add: parse_retries_u32_def plain_trim)

lemmas retries_component_reads = retries_component_texts [unfolded append_Cons append_Nil]

lemma plain_no_comma: "plain s \<Longrightarrow> CHR '','' \<notin> set s"
  by (auto simp: plain_def)

lemma set_retries_max:
  "expect_u32_lit v = Inr n \<Longrightarrow>
     set_retries F D acc (EAssign (EPath [''max_retries'']) v) = acc\<lparr>acc_retries := Some n\<rparr>"
  by (simp add: set_retries_def component_arg_def)

lemma set_retries_others:
  "expect_f64_lit D v = Inr x \<Longrightarrow>
     set_retries F D acc (EAssign (EPath [''backoff_coefficient'']) v)
     = acc\<lparr>acc_backoff := the (f32_parse F (f64_show D x))\<rparr>"
  "secs_lit_to_ms D v = Inr n \<Longrightarrow>
     set_retries F D acc (EAssign (EPath [''initial_delay'']) v) = acc\<lparr>acc_initial := n\<rparr>"
  "secs_lit_to_ms D v = Inr n \<Longrightarrow>
     set_retries F D acc (EAssign (EPath [''max_delay'']) v) = acc\<lparr>acc_max := n\<rparr>"
  by (simp_all add: set_retries_def component_arg_def)

lemma retries_arg_Inr:
  assumes "retries_arg D arg (mx, parts) = Inr (mx', parts')" and "float_texts_read F D"
    and "parts_mean F spec parts acc" and "mx = map_option (\<lambda>n. ''max='' @ dec (unat n)) (acc_retries acc)"
  shows "parts_mean F spec parts' (set_retries F D acc arg) \<and>
         mx' = map_option (\<lambda>n. ''max='' @ dec (unat n)) (acc_retries (set_retries F D acc arg))"
proof -
  from assms(1) obtain k v where arg: "arg = EAssign (EPath [k]) v"
    by (auto simp: retries_arg_def and_then_Inr_iff component_arg_Inr)
  have c: "component_arg ''Retries'' ''max_retries = 5'' ''max_retries'' arg = Inr (k, v)" by (simp add: arg component_arg_def)
  consider n where "k = ''max_retries''" "expect_u32_lit v = Inr n" "mx' = Some (''max='' @ dec (unat n))" "parts' = parts"
    | x where "k = ''backoff_coefficient''" "expect_f64_lit D v = Inr x" "mx' = mx"
        "parts' = parts @ [''backoff='' @ f64_show D x]"
    | n where "k = ''initial_delay''" "secs_lit_to_ms D v = Inr n" "mx' = mx"
        "parts' = parts @ [''initial_ms='' @ dec (unat n)]"
    | n where "k = ''max_delay''" "secs_lit_to_ms D v = Inr n" "mx' = mx"
        "parts' = parts @ [''max_ms='' @ dec (unat n)]"
    using assms(1) unfolding retries_arg_def prod.case c and_then_simps
    by (auto simp: and_then_Inr_iff split: if_splits)
  then show ?thesis
  proof cases
    case 1
    with assms(3) show ?thesis by (simp add: arg set_retries_max parts_mean_def)
  next
    case 2
    from assms(2) obtain y where "plain (f64_show D x)" "f32_parse F (f64_show D x) = Some y"
      by (auto simp: float_texts_read_def)
    with 2 assms(3,4) show ?thesis
      by (auto simp: arg set_retries_others retries_component_reads plain_no_comma intro!: parts_mean_snoc)
  next
    case 3
    with assms(3,4) show ?thesis
      by (auto simp: arg set_retries_others retries_component_reads plain_no_comma intro!: parts_mean_snoc)
  next
    case 4
    with assms(3,4) show ?thesis
      by (auto simp: arg set_retries_others retries_component_reads plain_no_comma intro!: parts_mean_snoc)
  qed
qed

lemma retries_args_Inr:
  assumes "try_fold (retries_arg D) args (mx, parts) = Inr (mx', parts')" and "float_texts_read F D"
    and "parts_mean F spec parts acc" and "mx = map_option (\<lambda>n. ''max='' @ dec (unat n)) (acc_retries acc)"
  shows "parts_mean F spec parts' (foldl (set_retries F D) acc args) \<and>
         mx' = map_option (\<lambda>n. ''max='' @ dec (unat n)) (acc_retries (foldl (set_retries F D) acc args))"
  using assms(1,3,4)
proof (induction args arbitrary: mx parts acc)
  case (Cons a args)
  from Cons.prems(1) obtain mx1 parts1 where
    "retries_arg D a (mx, parts) = Inr (mx1, parts1)" "try_fold (retries_arg D) args (mx1, parts1) = Inr (mx', parts')"
    by (auto simp: and_then_Inr_iff)
  with Cons.IH retries_arg_Inr [OF _ assms(2) Cons.prems(2,3)] show ?case by fastforce
qed simp

section \<open>Properties\<close>

text \<open>A \<open>Cron(..)\<close> schedule that compiles is read back by the SDK exactly: the expression is the first
  literal and the time zone the second, \<open>UTC\<close> when there is none.\<close>

lemma cron_macro_read_back:
  assumes "parse_schedule_to_spec (ECall (EPath segs) args) = Inr spec"
    and "segs \<noteq> []" and "last segs = ''Cron''"
  shows "\<exists>e tz. parse_schedule F spec = Inr (Some (Cron e tz)) \<and>
           (args = [ELit (LitStr e)] \<and> tz = ''UTC'' \<or> args = [ELit (LitStr e), ELit (LitStr tz)])"
proof -
  have lit: "expect_str_lit a msg = Inr s \<longleftrightarrow> a = Some (ELit (LitStr s))" for a msg s
    by (auto simp: expect_str_lit_def split: option.splits expr.splits lit.splits)
  have "parse_cron args = Inr spec"
    using assms by (simp add: parse_schedule_to_spec_def callee_kind_def)
  then obtain e tz where a: "args = [ELit (LitStr e)] \<and> tz = ''UTC'' \<or> args = [ELit (LitStr e), ELit (LitStr tz)]"
    and c: "CHR '':'' \<notin> set tz" "spec = ''cron:'' @ tz @ '':'' @ e"
    by (auto simp: parse_cron_def and_then_Inr_iff lit split: if_splits list.splits)
  from c have "parse_schedule F spec = Inr (Some (Cron e tz))"
    using strip_prefix_append [of "''cron:''" "tz @ CHR '':'' # e"]
    by (simp add: parse_schedule_def del: strip_prefix_append strip_prefix.simps)
  with a show ?thesis by blast
qed

lemma cron_macro_read_back_witness:
  "\<exists>e tz. parse_schedule whole_f32 ''cron:UTC:0 9 * * 1'' = Inr (Some (Cron e tz)) \<and>
     ([ELit (LitStr ''0 9 * * 1'')] = [ELit (LitStr e)] \<and> tz = ''UTC'' \<or>
      [ELit (LitStr ''0 9 * * 1'')] = [ELit (LitStr e), ELit (LitStr tz)])"
proof (rule cron_macro_read_back)
  show "parse_schedule_to_spec (ECall (EPath [''modal_rust'', ''Cron'']) [ELit (LitStr ''0 9 * * 1'')])
        = Inr ''cron:UTC:0 9 * * 1''"
    by (simp add: parse_schedule_to_spec_def callee_kind_def parse_cron_def expect_str_lit_def)
qed simp_all

text \<open>A \<open>Period(..)\<close> schedule that compiles is read by the SDK as the components written, in order, as
  long as every integer is below 2^31 (and the seconds parse); with one that is not, the macro still compiles it
  and the SDK refuses it at run time.\<close>

lemma period_macro_read_back:
  assumes "parse_schedule_to_spec (ECall (EPath segs) args) = Inr spec"
    and "segs \<noteq> []" and "last segs = ''Period''" and "\<forall>a\<in>set args. tokenized a"
  shows "if \<forall>a\<in>set args. component_fits F (literal_text a)
         then parse_schedule F spec
              = Inr (Some (Period (foldl (set_period F) (default_period F) (map literal_text args))))
         else \<exists>m. parse_schedule F spec = Inl (Invalid m)"
proof -
  let ?kds = "map literal_text args"
  have "parse_period_components args = Inr spec"
    using assms(1-3) by (simp add: parse_schedule_to_spec_def callee_kind_def)
  then obtain parts where p: "try_fold period_arg args [] = Inr parts" "spec = ''period:'' @ join_with '','' parts"
    by (auto simp: parse_period_components_def and_then_Inr_iff split: if_splits)
  with period_args_Inr [OF p(1) assms(4)]
  have s: "spec = ''period:'' @ join_with '','' (map component_text ?kds)" and l: "\<forall>x\<in>set ?kds. period_literal x"
    by (auto simp: comp_def)
  have "filter (\<lambda>p. p \<noteq> []) (split_on CHR '','' (join_with '','' (map component_text ?kds))) = map component_text ?kds"
    using l component_text_shape by (intro components_split) auto
  moreover have "strip_prefix ''cron:'' spec = None" by (simp add: s)
  moreover have "strip_prefix ''period:'' spec = Some (join_with '','' (map component_text ?kds))"
    unfolding s by (rule strip_prefix_append)
  ultimately have "parse_schedule F spec =
      and_then (try_fold (period_component F spec) (map component_text ?kds) (default_period F))
        (\<lambda>p. Inr (Some (Period p)))"
    by (simp add: parse_schedule_def and_then_def split: sum.splits)
  then have r: "parse_schedule F spec =
      and_then (try_fold (period_component F spec) (map component_text ?kds) (default_period F))
        (\<lambda>p. Inr (Some (Period p)))" .
  note c = period_components_text [OF l, of F spec "default_period F"]
  show ?thesis
  proof (cases "\<forall>x\<in>set ?kds. component_fits F x")
    case True
    with c(1) r show ?thesis by simp
  next
    case False
    with c(2) obtain m where
      "try_fold (period_component F spec) (map component_text ?kds) (default_period F) = Inl (Invalid m)" by auto
    with False r show ?thesis by simp
  qed
qed

text \<open>The second case happens: three billion days compile and fail when the function is deployed.\<close>

lemma period_macro_read_back_witness:
  "\<exists>m. parse_schedule \<lparr>f32_parse = \<lambda>_. None, f32_zero = 0::int, f32_one = 1, f32_is_zero = (\<lambda>x. x = 0),
         f32_show = \<lambda>_. ''0'', f32_of_u32 = \<lambda>n. uint n\<rparr> ''period:days=3000000000'' = Inl (Invalid m)"
proof -
  let ?F = "\<lparr>f32_parse = \<lambda>_. None, f32_zero = 0::int, f32_one = 1, f32_is_zero = (\<lambda>x. x = 0),
         f32_show = \<lambda>_. ''0'', f32_of_u32 = \<lambda>n. uint n\<rparr>"
  let ?args = "[EAssign (EPath [''days'']) (ELit (LitInt ''3000000000''))]"
  have c: "parse_schedule_to_spec (ECall (EPath [''Period'']) ?args) = Inr ''period:days=3000000000''"
    by (simp add: parse_schedule_to_spec_def callee_kind_def parse_period_components_def period_arg_def
        component_arg_def PERIOD_COMPONENTS_def period_value_def)
  have t: "\<forall>a\<in>set ?args. tokenized a" by (simp add: digits_ok_def is_digit_def)
  have n: "\<not> (\<forall>a\<in>set ?args. component_fits ?F (literal_text a))" 
    by (simp add: component_fits_def int_of_digits_def parse_nat_def digit_val_def)
  show ?thesis
    using period_macro_read_back [OF c _ _ t, of ?F] unfolding if_not_P [OF n]
    by (metis last.simps list.distinct(1))
qed

text \<open>C36. A \<open>Retries(..)\<close> that compiles is read by the SDK as the policy written: the given components in
  order over the defaults, whatever position \<open>max_retries\<close> has; it is never refused at run time.\<close>

theorem retries_macro_read_back:
  assumes "parse_retries_to_spec D (ECall (EPath segs) args) = Inr spec" and "float_texts_read F D"
  shows "\<exists>p acc. parse_retries_spec F spec = Inr p \<and> acc = foldl (set_retries F D) (default_retries F) args \<and>
           acc_retries acc = Some (retries p) \<and> backoff_coefficient p = acc_backoff acc \<and>
           initial_delay_ms p = acc_initial acc \<and> max_delay_ms p = acc_max acc"
proof -
  let ?acc = "foldl (set_retries F D) (default_retries F) args"
  from assms(1) obtain mx parts where f: "try_fold (retries_arg D) args (None, []) = Inr (Some mx, parts)"
    and spec: "spec = ''retries:'' @ join_with '','' (mx # parts)"
    by (auto simp: parse_retries_to_spec_def callee_kind_def and_then_Inr_iff split: if_splits)
  have "parts_mean F spec [] (default_retries F)" by (simp add: parts_mean_def)
  from retries_args_Inr [OF f assms(2) this]
  have p: "parts_mean F spec parts ?acc" and m: "Some mx = map_option (\<lambda>n. ''max='' @ dec (unat n)) (acc_retries ?acc)"
    by (simp_all add: default_retries_def)
  from m obtain n where n: "mx = ''max='' @ dec (unat n)" "acc_retries ?acc = Some n"
    by (cases "acc_retries ?acc") auto
  have "\<forall>t\<in>set (mx # parts). CHR '','' \<notin> set t \<and> t \<noteq> []"
    using p by (auto simp: parts_mean_def n(1) plain_no_comma)
  then have "filter (\<lambda>p. p \<noteq> []) (split_on CHR '','' (join_with '','' (mx # parts))) = mx # parts"
    by (rule components_split)
  moreover have "strip_prefix ''retries:'' spec = Some (join_with '','' (mx # parts))"
    unfolding spec by (rule strip_prefix_append)
  moreover have "try_fold (retries_component F spec) (mx # parts) (default_retries F) = Inr ?acc"
    using p n unfolding parts_mean_def try_fold.simps n(1) retries_component_texts and_then_simps
    by simp
  ultimately show ?thesis
    by (simp add: parse_retries_spec_def default_retries_def [symmetric] n(2) del: strip_prefix.simps split_on.simps)
qed

theorem retries_macro_read_back_witness:
  "\<exists>F D p. parse_retries_spec (F :: int f32_ops) ''retries:max=5,max_ms=7'' = Inr p \<and> retries p = 5 \<and>
     max_delay_ms p = 7 \<and> float_texts_read F (D :: int f64_ops)"
proof -
  let ?F = "\<lparr>f32_parse = \<lambda>_. Some 0, f32_zero = 0::int, f32_one = 1, f32_is_zero = (\<lambda>x. x = 0),
         f32_show = \<lambda>_. ''0'', f32_of_u32 = \<lambda>n. uint n\<rparr>"
  let ?D = "\<lparr>f64_parse = \<lambda>_. Inr 0, f64_of_u64 = \<lambda>n. uint n, f64_show = \<lambda>_. ''0'',
         f64_negative = \<lambda>x. x < 0, f64_finite = \<lambda>_. True, f64_millis = \<lambda>x. of_int x\<rparr> :: int f64_ops"
  let ?args = "[EAssign (EPath [''max_delay'']) (ELit (LitInt ''7'')),
                EAssign (EPath [''max_retries'']) (ELit (LitInt ''5''))]"
  have d: "dec 7 = ''7''" "dec 5 = ''5''" by code_simp+
  have u: "expect_u32_lit (ELit (LitInt ''5'')) = Inr 5" "secs_lit_to_ms ?D (ELit (LitInt ''7'')) = Inr 7"
    by (simp_all add: expect_u32_lit_def secs_lit_to_ms_def base10_parse_def parse_uint_def parse_nat_def digit_val_def)
  have c: "parse_retries_to_spec ?D (ECall (EPath [''Retries'']) ?args) = Inr ''retries:max=5,max_ms=7''"
    by (simp add: parse_retries_to_spec_def callee_kind_def retries_arg_def component_arg_def u d)
  have f: "float_texts_read ?F ?D" by (simp add: float_texts_read_def plain_def is_ws_def)
  have "foldl (set_retries ?F ?D) (default_retries ?F) ?args
        = (default_retries ?F)\<lparr>acc_max := 7, acc_retries := Some 5\<rparr>"
    by (simp only: foldl.simps set_retries_max [OF u(1)] set_retries_others(3) [OF u(2)])
  with retries_macro_read_back [OF c f]
  have "\<exists>p. parse_retries_spec ?F ''retries:max=5,max_ms=7'' = Inr p \<and> retries p = 5 \<and> max_delay_ms p = 7"
    by fastforce
  with f show ?thesis by blast
qed

end
