(* ===== verification/Ordered.thy ===== *)
theory Ordered
  imports Prelude
begin

text \<open>
  \<open>BTreeMap\<close> and \<open>BTreeSet\<close> as sorted association lists and lists: the iteration order of the sources
  is the list order.  Strings are ordered as Rust orders them, byte by byte.
\<close>

section \<open>Maps\<close>

fun bt_insert :: "'k :: linorder \<Rightarrow> 'v \<Rightarrow> ('k \<times> 'v) list \<Rightarrow> ('k \<times> 'v) list" where
  "bt_insert k v [] = [(k, v)]"
| "bt_insert k v ((a, b) # xs) =
     (if k < a then (k, v) # (a, b) # xs else if k = a then (k, v) # xs else (a, b) # bt_insert k v xs)"

abbreviation bt_ok :: "('k :: linorder \<times> 'v) list \<Rightarrow> bool" where
  "bt_ok xs \<equiv> sorted_wrt (<) (map fst xs)"

lemma bt_insert_map [simp]: "map_of (bt_insert k v xs) = (map_of xs)(k \<mapsto> v)"
  by (induction xs) (auto simp: fun_eq_iff)

lemma bt_insert_keys [simp]: "fst ` set (bt_insert k v xs) = insert k (fst ` set xs)"
proof (induction xs)
  case (Cons x xs)
  then show ?case by (cases x) (simp add: insert_commute)
qed simp

lemma bt_insert_ok: "bt_ok xs \<Longrightarrow> bt_ok (bt_insert k v xs)"
proof (induction xs)
  case (Cons x xs)
  obtain a b where x: "x = (a, b)" by (cases x)
  have "set (map fst (bt_insert k v xs)) = insert k (set (map fst xs))" by simp
  with Cons show ?case by (auto simp: x)
qed simp

lemma bt_ok_distinct: "bt_ok xs \<Longrightarrow> distinct (map fst xs)"
  by (simp add: strict_sorted_iff)

lemma bt_ok_self: "bt_ok xs \<Longrightarrow> xs = map (\<lambda>k. (k, the (map_of xs k))) (map fst xs)"
proof -
  assume "bt_ok xs"
  then have "distinct (map fst xs)" by (rule bt_ok_distinct)
  then have "map ((\<lambda>k. (k, the (map_of xs k))) \<circ> fst) xs = xs" by (intro map_idI) auto
  then show ?thesis by simp
qed

lemma bt_ok_unique:
  assumes "bt_ok xs" "bt_ok ys" "map_of xs = map_of ys"
  shows "xs = ys"
proof -
  have "dom (map_of xs) = dom (map_of ys)" using assms(3) by simp
  then have "set (map fst xs) = set (map fst ys)" by (simp add: dom_map_of_conv_image_fst)
  with assms(1,2) have "map fst xs = map fst ys" by (intro strict_sorted_equal)
  with assms show ?thesis using bt_ok_self [of xs] bt_ok_self [of ys] by simp
qed

end
