(* ===== verification/Paths.thy ===== *)
theory Paths
  imports Prelude
begin

text \<open>
  Paths and file names as Rust sees them: a path is the list of its components, a file name is bytes that
  need not be UTF-8.  \<open>utf8_valid\<close> is the test behind
  \<open>OsStr::to_str\<close>, \<open>to_string_lossy\<close> replaces every maximal ill-formed part by U+FFFD, as the standard
  library does.
\<close>

section \<open>UTF-8\<close>

definition byte :: "char \<Rightarrow> nat" where "byte c = of_char c"

definition utf8_width :: "nat \<Rightarrow> nat" where
  "utf8_width b =
     (if b < 0x80 then 1 else if b < 0xC2 then 0 else if b < 0xE0 then 2 else if b < 0xF0 then 3
      else if b < 0xF5 then 4 else 0)"

text \<open>The second byte is restricted further: no overlong forms, no surrogates, nothing past U+10FFFF.\<close>

definition utf8_second :: "nat \<Rightarrow> nat \<Rightarrow> bool" where
  "utf8_second b c \<longleftrightarrow>
     (if b = 0xE0 then 0xA0 else if b = 0xF0 then 0x90 else 0x80) \<le> c \<and>
     c \<le> (if b = 0xED then 0x9F else if b = 0xF4 then 0x8F else 0xBF)"

definition utf8_cont :: "nat \<Rightarrow> bool" where "utf8_cont c \<longleftrightarrow> 0x80 \<le> c \<and> c \<le> 0xBF"

text \<open>The length of the first character, or else of the maximal ill-formed part.\<close>

definition utf8_step :: "string \<Rightarrow> nat \<times> bool" where
  "utf8_step s =
     (case s of
        [] \<Rightarrow> (0, True)
      | a # rest \<Rightarrow>
          (let w = utf8_width (byte a);
               n = (case rest of
                      [] \<Rightarrow> 0
                    | b # more \<Rightarrow>
                        if utf8_second (byte a) (byte b)
                        then 1 + length (takeWhile (\<lambda>c. utf8_cont (byte c)) (take (w - 2) more)) else 0)
           in if w = 0 then (1, False) else if w = 1 then (1, True)
              else if n = w - 1 then (w, True) else (1 + n, False)))"

lemma utf8_step_pos: "s \<noteq> [] \<Longrightarrow> 0 < fst (utf8_step s)"
  by (auto simp: utf8_step_def Let_def split: list.split)

lemma utf8_step_shrinks: "s \<noteq> [] \<Longrightarrow> utf8_step s = (n, ok) \<Longrightarrow> length s - n < length s"
  using utf8_step_pos [of s] by (cases s) auto

function to_string_lossy :: "string \<Rightarrow> string" where
  "to_string_lossy s =
     (if s = [] then []
      else (let (n, ok) = utf8_step s in
            (if ok then take n s else [CHR 0xEF, CHR 0xBF, CHR 0xBD]) @ to_string_lossy (drop n s)))"
  by pat_completeness auto

termination
  by (relation "measure length") (auto dest: utf8_step_shrinks [OF _ sym])

function utf8_valid :: "string \<Rightarrow> bool" where
  "utf8_valid s =
     (if s = [] then True else (let (n, ok) = utf8_step s in if ok then utf8_valid (drop n s) else False))"
  by pat_completeness auto

termination
  by (relation "measure length") (auto dest: utf8_step_shrinks [OF _ sym])

declare to_string_lossy.simps [simp del] utf8_valid.simps [simp del]

lemma utf8_valid_Nil [simp]: "utf8_valid []" and to_string_lossy_Nil [simp]: "to_string_lossy [] = []"
  by (subst utf8_valid.simps, simp) (subst to_string_lossy.simps, simp)

lemma lossy_valid: "utf8_valid s \<Longrightarrow> to_string_lossy s = s"
proof (induction "length s" arbitrary: s rule: less_induct)
  case less
  show ?case
  proof (cases "s = []")
    case False
    obtain n ok where n: "utf8_step s = (n, ok)" by force
    with less.prems False have "ok" "utf8_valid (drop n s)" by (auto simp: utf8_valid.simps [of s] split: if_splits)
    moreover have "length (drop n s) < length s" using utf8_step_pos [OF False] False n by (cases s) simp_all
    ultimately show ?thesis using less.hyps n False by (simp add: to_string_lossy.simps [of s])
  qed simp
qed

lemma ascii_valid: "\<forall>c\<in>set s. byte c < 0x80 \<Longrightarrow> utf8_valid s"
  by (induction s) (auto simp: utf8_valid.simps [of "_ # _"] utf8_step_def utf8_width_def)

section \<open>Paths\<close>

type_synonym path = "string list"

definition path_strip_prefix :: "path \<Rightarrow> path \<Rightarrow> path option" where
  "path_strip_prefix base p = (if take (length base) p = base then Some (drop (length base) p) else None)"

lemma path_strip_prefix_Some: "path_strip_prefix base p = Some r \<longleftrightarrow> p = base @ r"
  by (auto simp: path_strip_prefix_def) (metis append_take_drop_id)

lemma path_strip_prefix_append [simp]: "path_strip_prefix base (base @ r) = Some r"
  by (simp add: path_strip_prefix_Some)

definition show_path :: "path \<Rightarrow> string" where
  "show_path p = ''/'' @ join_with ''/'' (map to_string_lossy p)"

definition quoted :: "string \<Rightarrow> string" where "quoted s = [CHR 0x27] @ s @ [CHR 0x27]"

end
