(* ===== verification/Runner.thy ===== *)
theory Runner
  imports Ordered "HOL-Library.Multiset" "HOL-Library.Countable"
begin

text \<open>
  The runner baked into every image (\<open>crates/modal-rust-runtime/src/lib.rs\<close>): the registry of handlers,
  the dispatch of one call, the one-shot, check, web-server and serve modes.

  Handlers are user code: functions on the state of the process's thread, which may return a value or
  an error, unwind, or not return at all (\<open>None\<close>).  The thread's panic slot is part of that state; the
  panic hook writes it before a panic unwinds.  \<open>serde_json\<close> is a parameter, \<open>json_lib\<close>; an output sink
  is a predicate that says which lines it accepts after which.  Input bytes are a \<open>string\<close>.  Diagnostics
  on the standard error stream are not modelled.
\<close>

section \<open>Errors\<close>

datatype json = JNull | JBool bool | JNum string | JStr string | JArr "json list" | JObj "(string \<times> json) list"

instance json :: countable by countable_datatype

datatype runner_error =
    Decode string
  | UnknownEntrypoint string
  | Function string "json option"
  | Encode string
  | Panic string string

fun error_kind :: "runner_error \<Rightarrow> string" where
  "error_kind (Decode _) = ''decode_error''"
| "error_kind (UnknownEntrypoint _) = ''unknown_entrypoint''"
| "error_kind (Function _ _) = ''function_error''"
| "error_kind (Encode _) = ''encode_error''"
| "error_kind (Panic _ _) = ''panic''"

fun error_message :: "runner_error \<Rightarrow> string" where
  "error_message (Decode m) = m"
| "error_message (UnknownEntrypoint m) = m"
| "error_message (Function m _) = m"
| "error_message (Encode m) = m"
| "error_message (Panic m _) = m"

fun error_details :: "runner_error \<Rightarrow> json option" where
  "error_details (Function _ d) = d"
| "error_details _ = None"

fun error_backtrace :: "runner_error \<Rightarrow> string" where
  "error_backtrace (Panic _ b) = b"
| "error_backtrace _ = []"

definition error_display :: "runner_error \<Rightarrow> string" where
  "error_display e = error_kind e @ '': '' @ error_message e"

definition to_envelope :: "runner_error \<Rightarrow> json" where
  "to_envelope e =
     JObj [(''ok'', JBool False),
           (''error'', JObj [(''kind'', JStr (error_kind e)), (''message'', JStr (error_message e)),
              (''details'', case error_details e of Some d \<Rightarrow> d | None \<Rightarrow> JNull),
              (''backtrace'', JStr (error_backtrace e))])]"

definition success_envelope :: "json \<Rightarrow> json" where
  "success_envelope v = JObj [(''ok'', JBool True), (''value'', v)]"

text \<open>\<open>from_slice::<Value>\<close>, \<open>to_string\<close>, and the two frame types of the serve loop.\<close>

record json_lib =
  json_value :: "string \<Rightarrow> string + json"
  json_text :: "json \<Rightarrow> string + string"
  frame_kind :: "string \<Rightarrow> string + string option"
  serve_request :: "string \<Rightarrow> string + string \<times> string"

section \<open>Handlers\<close>

record 'u thread =
  panic_slot :: "(string \<times> string) option"
  user :: 'u

datatype 'a ending = Returned 'a | Unwound

type_synonym ('u, 'a) call = "'u thread \<Rightarrow> ('a ending \<times> 'u thread) option"
type_synonym 'u handler = "string \<Rightarrow> ('u, runner_error + string) call"
type_synonym check_fn = "string \<Rightarrow> runner_error + unit"
type_synonym 'u prime = "('u, runner_error + unit) call"
type_synonym 'u launcher = "u16 \<Rightarrow> 'u thread \<Rightarrow> ((runner_error + unit) \<times> 'u thread) option"

text \<open>A panic: the hook records the message and the backtrace, then the stack unwinds.\<close>

definition panic_with :: "string \<Rightarrow> string \<Rightarrow> ('u, 'a) call" where
  "panic_with m b t = Some (Unwound, t\<lparr>panic_slot := Some (m, b)\<rparr>)"

text \<open>The wrapper \<open>typed!\<close> makes of a function, and its decode-only companion.  \<open>wrap\<close> is the
  conversion of the user's error, with details when the error type is serializable.\<close>

definition function_error :: "('e \<Rightarrow> string) \<Rightarrow> ('e \<Rightarrow> string + json) \<Rightarrow> 'e \<Rightarrow> runner_error" where
  "function_error show to_value e =
     Function (show e) (case to_value e of Inr v \<Rightarrow> Some v | Inl _ \<Rightarrow> None)"

definition function_opaque :: "('e \<Rightarrow> string) \<Rightarrow> 'e \<Rightarrow> runner_error" where
  "function_opaque show e = Function (show e) None"

definition codec_decode :: "(string \<Rightarrow> string + 'i) \<Rightarrow> string \<Rightarrow> runner_error + 'i" where
  "codec_decode rd input = map_sum Decode id (rd input)"

definition codec_encode :: "('o \<Rightarrow> string + string) \<Rightarrow> 'o \<Rightarrow> runner_error + string" where
  "codec_encode enc v = map_sum Encode id (enc v)"

definition typed ::
  "(string \<Rightarrow> string + 'i) \<Rightarrow> ('o \<Rightarrow> string + string) \<Rightarrow> ('e \<Rightarrow> runner_error) \<Rightarrow>
     ('i \<Rightarrow> ('u, 'e + 'o) call) \<Rightarrow> 'u handler" where
  "typed rd enc wrap f input t =
     (case codec_decode rd input of
        Inl e \<Rightarrow> Some (Returned (Inl e), t)
      | Inr arg \<Rightarrow>
          (case f arg t of
             None \<Rightarrow> None
           | Some (Unwound, t') \<Rightarrow> Some (Unwound, t')
           | Some (Returned (Inr out), t') \<Rightarrow> Some (Returned (codec_encode enc out), t')
           | Some (Returned (Inl e), t') \<Rightarrow> Some (Returned (Inl (wrap e)), t')))"

definition typed_check :: "(string \<Rightarrow> string + 'i) \<Rightarrow> check_fn" where
  "typed_check rd input = map_sum id (\<lambda>_. ()) (codec_decode rd input)"

section \<open>The registry\<close>

record 'u registry =
  handlers :: "(string \<times> 'u handler) list"
  checks :: "(string \<times> check_fn) list"
  primes :: "'u prime list"
  web_servers :: "(string \<times> 'u launcher) list"

record 'u registration =
  reg_name :: string
  reg_handler :: "'u handler"
  reg_check :: "check_fn option"
  reg_snapshot_prime :: "'u prime option"

definition new_registry :: "'u registry" where
  "new_registry = \<lparr>handlers = [], checks = [], primes = [], web_servers = []\<rparr>"

text \<open>A duplicate name is a panic, \<open>None\<close>.\<close>

definition register_function :: "string \<Rightarrow> 'u handler \<Rightarrow> 'u registry \<Rightarrow> 'u registry option" where
  "register_function name h r =
     (if map_of (handlers r) name \<noteq> None then None
      else Some (r\<lparr>handlers := bt_insert name h (handlers r)\<rparr>))"

definition function_checked :: "string \<Rightarrow> 'u handler \<Rightarrow> check_fn \<Rightarrow> 'u registry \<Rightarrow> 'u registry option" where
  "function_checked name h c r =
     (if map_of (handlers r) name \<noteq> None then None
      else Some (r\<lparr>handlers := bt_insert name h (handlers r), checks := bt_insert name c (checks r)\<rparr>))"

definition snapshot_prime :: "'u prime \<Rightarrow> 'u registry \<Rightarrow> 'u registry" where
  "snapshot_prime p r = r\<lparr>primes := primes r @ [p]\<rparr>"

definition web_server :: "string \<Rightarrow> 'u launcher \<Rightarrow> 'u registry \<Rightarrow> 'u registry option" where
  "web_server name l r =
     (if map_of (web_servers r) name \<noteq> None then None
      else Some (r\<lparr>web_servers := bt_insert name l (web_servers r)\<rparr>))"

definition register :: "'u registration \<Rightarrow> 'u registry \<Rightarrow> 'u registry option" where
  "register x r =
     (case (case reg_check x of
              Some c \<Rightarrow> function_checked (reg_name x) (reg_handler x) c r
            | None \<Rightarrow> register_function (reg_name x) (reg_handler x) r) of
        None \<Rightarrow> None
      | Some r \<Rightarrow> Some (case reg_snapshot_prime x of Some p \<Rightarrow> snapshot_prime p r | None \<Rightarrow> r))"

fun register_all :: "'u registration list \<Rightarrow> 'u registry \<Rightarrow> 'u registry option" where
  "register_all [] r = Some r"
| "register_all (x # xs) r = (case register x r of None \<Rightarrow> None | Some r' \<Rightarrow> register_all xs r')"

definition from_inventory :: "'u registration list \<Rightarrow> 'u registry option" where
  "from_inventory xs = register_all xs new_registry"

definition get_handler :: "'u registry \<Rightarrow> string \<Rightarrow> 'u handler option" where
  "get_handler r name = map_of (handlers r) name"

definition get_check :: "'u registry \<Rightarrow> string \<Rightarrow> check_fn option" where
  "get_check r name = map_of (checks r) name"

definition handler_names :: "'u registry \<Rightarrow> string list" where
  "handler_names r = map fst (handlers r)"

section \<open>One call\<close>

definition run_handler :: "'u handler \<Rightarrow> string \<Rightarrow> 'u thread \<Rightarrow> ((runner_error + string) \<times> 'u thread) option" where
  "run_handler h input t =
     (case h input (t\<lparr>panic_slot := None\<rparr>) of
        None \<Rightarrow> None
      | Some (Returned r, t') \<Rightarrow> Some (r, t')
      | Some (Unwound, t') \<Rightarrow>
          (let captured = panic_slot t'; t'' = t'\<lparr>panic_slot := None\<rparr>;
               (message, backtrace) = (case captured of
                  Some mb \<Rightarrow> mb | None \<Rightarrow> (''panic (no message captured)'', []))
           in Some (Inl (Panic message backtrace), t'')))"

section \<open>Arguments\<close>

datatype input_source = Json string | File string | Stdin

fun parse_args_loop ::
  "string option \<Rightarrow> input_source option \<Rightarrow> string list \<Rightarrow> string + string option \<times> input_source option" where
  "parse_args_loop entry inp [] = Inr (entry, inp)"
| "parse_args_loop entry inp (a # rest) =
     (if a = ''--entrypoint''
      then (case rest of
              [] \<Rightarrow> Inl ''--entrypoint requires a value''
            | v # rest' \<Rightarrow>
                if entry \<noteq> None then Inl ''--entrypoint given more than once''
                else parse_args_loop (Some v) inp rest')
      else if a = ''--input-json''
      then (case rest of
              [] \<Rightarrow> Inl ''--input-json requires a value''
            | v # rest' \<Rightarrow>
                if inp \<noteq> None then Inl ''multiple input sources given''
                else parse_args_loop entry (Some (Json v)) rest')
      else if a = ''--input-file''
      then (case rest of
              [] \<Rightarrow> Inl ''--input-file requires a value''
            | v # rest' \<Rightarrow>
                if inp \<noteq> None then Inl ''multiple input sources given''
                else parse_args_loop entry (Some (File v)) rest')
      else if a = ''--input-stdin''
      then (if inp \<noteq> None then Inl ''multiple input sources given''
            else parse_args_loop entry (Some Stdin) rest)
      else Inl (''unrecognized argument: '' @ a))"

definition parse_args :: "string list \<Rightarrow> string + string \<times> input_source" where
  "parse_args argv =
     and_then (parse_args_loop None None argv) (\<lambda>(entry, inp).
       and_then (ok_or entry ''--entrypoint is required'') (\<lambda>e.
         and_then (ok_or inp ''one of --input-json, --input-file, or --input-stdin is required'')
           (\<lambda>i. Inr (e, i))))"

record os_inputs =
  read_file :: "string \<Rightarrow> string + string"
  read_stdin :: "string + string"

definition read_input :: "os_inputs \<Rightarrow> input_source \<Rightarrow> string + string" where
  "read_input os src =
     (case src of
        Json s \<Rightarrow> Inr s
      | File path \<Rightarrow> map_sum (\<lambda>e. ''failed to read --input-file '' @ debug_str path @ '': '' @ e) id (read_file os path)
      | Stdin \<Rightarrow> map_sum (\<lambda>e. ''failed to read stdin: '' @ e) id (read_stdin os))"

section \<open>Writing an envelope\<close>

type_synonym sink = "string list \<Rightarrow> string \<Rightarrow> bool"

definition emit :: "json_lib \<Rightarrow> sink \<Rightarrow> json \<Rightarrow> int \<Rightarrow> string list \<Rightarrow> int \<times> string list" where
  "emit J sink envelope code out =
     (case json_text J envelope of
        Inr s \<Rightarrow> if sink out s then (code, out @ [s]) else (1, out)
      | Inl _ \<Rightarrow> (1, out))"

definition emit_line :: "json_lib \<Rightarrow> sink \<Rightarrow> json \<Rightarrow> string list \<Rightarrow> string list" where
  "emit_line J sink envelope out =
     (let s = (case json_text J envelope of
                 Inr s \<Rightarrow> s
               | Inl e \<Rightarrow> ''{'' @ quote @ ''ok'' @ quote @ '':false,'' @ quote @ ''error'' @ quote @ '':{''
                   @ quote @ ''kind'' @ quote @ '':'' @ quote @ ''encode_error'' @ quote @ '',''
                   @ quote @ ''message'' @ quote @ '':'' @ quote @ ''failed to serialize envelope: '' @ e
                   @ quote @ '','' @ quote @ ''details'' @ quote @ '':null,'' @ quote @ ''backtrace''
                   @ quote @ '':'' @ quote @ quote @ ''}}'')
      in if sink out s then out @ [s] else out)"

definition unknown_entrypoint :: "'u registry \<Rightarrow> string \<Rightarrow> runner_error" where
  "unknown_entrypoint r name =
     UnknownEntrypoint (''unknown entrypoint '' @ debug_str name @ ''; known entrypoints: [''
       @ join_with '', '' (map debug_str (handler_names r)) @ '']'')"

section \<open>The one-shot modes\<close>

definition run_check_input_inner ::
  "json_lib \<Rightarrow> sink \<Rightarrow> 'u registry \<Rightarrow> string \<Rightarrow> string \<Rightarrow> string list \<Rightarrow> int \<times> string list" where
  "run_check_input_inner J sink r entry raw out =
     (case json_value J raw of
        Inl e \<Rightarrow> emit J sink (to_envelope (Decode e)) 1 out
      | Inr _ \<Rightarrow>
          if get_handler r entry = None then emit J sink (to_envelope (unknown_entrypoint r entry)) 1 out
          else case get_check r entry of
                 Some c \<Rightarrow>
                   (case c raw of
                      Inr _ \<Rightarrow> emit J sink (JObj [(''ok'', JBool True)]) 0 out
                    | Inl e \<Rightarrow> emit J sink (to_envelope e) 1 out)
               | None \<Rightarrow> emit J sink (JObj [(''ok'', JBool True), (''checked'', JBool False)]) 0 out)"

definition run_check_input ::
  "json_lib \<Rightarrow> os_inputs \<Rightarrow> sink \<Rightarrow> 'u registry \<Rightarrow> string list \<Rightarrow> string list \<Rightarrow> int \<times> string list" where
  "run_check_input J os sink r argv out =
     (case parse_args argv of
        Inl _ \<Rightarrow> (1, out)
      | Inr (entry, src) \<Rightarrow>
          (case read_input os src of
             Inl _ \<Rightarrow> (1, out)
           | Inr raw \<Rightarrow> run_check_input_inner J sink r entry raw out))"

fun web_args :: "u16 option \<Rightarrow> string option \<Rightarrow> string list \<Rightarrow> (u16 option \<times> string option) option" where
  "web_args port entry [] = Some (port, entry)"
| "web_args port entry (a # rest) =
     (if a = ''--port''
      then (case rest of
              [] \<Rightarrow> None
            | v # rest' \<Rightarrow>
                (case parse_uint 16 v of
                   Some p \<Rightarrow> web_args (Some (of_nat p)) entry rest'
                 | None \<Rightarrow> None))
      else if a = ''--entrypoint''
      then (case rest of [] \<Rightarrow> None | v # rest' \<Rightarrow> web_args port (Some v) rest')
      else None)"

text \<open>The exit code, after the launcher has returned.\<close>

definition select_launcher :: "'u registry \<Rightarrow> string option \<Rightarrow> 'u launcher option" where
  "select_launcher r entry =
     (case entry of
        Some name \<Rightarrow> map_of (web_servers r) name
      | None \<Rightarrow> (case web_servers r of [(_, l)] \<Rightarrow> Some l | _ \<Rightarrow> None))"

definition run_web_server :: "'u registry \<Rightarrow> string list \<Rightarrow> 'u thread \<Rightarrow> (int \<times> 'u thread) option" where
  "run_web_server r argv t =
     (case web_args None None argv of
        None \<Rightarrow> Some (1, t)
      | Some (None, _) \<Rightarrow> Some (1, t)
      | Some (Some port, entry) \<Rightarrow>
          (case select_launcher r entry of
             None \<Rightarrow> Some (1, t)
           | Some l \<Rightarrow>
               (case l port t of
                  None \<Rightarrow> None
                | Some (Inr _, t') \<Rightarrow> Some (0, t')
                | Some (Inl _, t') \<Rightarrow> Some (1, t'))))"

definition run_cli_with_args ::
  "json_lib \<Rightarrow> os_inputs \<Rightarrow> sink \<Rightarrow> 'u registry \<Rightarrow> string list \<Rightarrow> 'u thread \<Rightarrow> string list \<Rightarrow>
     ((int \<times> string list) \<times> 'u thread) option" where
  "run_cli_with_args J os sink r argv t out =
     (if argv \<noteq> [] \<and> hd argv = ''--check-input''
      then Some (run_check_input J os sink r (tl argv) out, t)
      else if argv \<noteq> [] \<and> hd argv = ''--web-server''
      then (case run_web_server r (tl argv) t of None \<Rightarrow> None | Some (code, t') \<Rightarrow> Some ((code, out), t'))
      else case parse_args argv of
             Inl _ \<Rightarrow> Some ((1, out), t)
           | Inr (entry, src) \<Rightarrow>
               (case read_input os src of
                  Inl _ \<Rightarrow> Some ((1, out), t)
                | Inr raw \<Rightarrow>
                    (case json_value J raw of
                       Inl e \<Rightarrow> Some (emit J sink (to_envelope (Decode e)) 1 out, t)
                     | Inr _ \<Rightarrow>
                         (case get_handler r entry of
                            None \<Rightarrow> Some (emit J sink (to_envelope (unknown_entrypoint r entry)) 1 out, t)
                          | Some h \<Rightarrow>
                              (case run_handler h raw t of
                                 None \<Rightarrow> None
                               | Some (Inr bytes, t') \<Rightarrow>
                                   (case json_value J bytes of
                                      Inr v \<Rightarrow> Some (emit J sink (success_envelope v) 0 out, t')
                                    | Inl e \<Rightarrow> Some (emit J sink (to_envelope (Encode
                                        (''handler output was not valid JSON: '' @ e))) 1 out, t'))
                               | Some (Inl err, t') \<Rightarrow> Some (emit J sink (to_envelope err) 1 out, t'))))))"

section \<open>The serve loop\<close>

definition serve_one ::
  "json_lib \<Rightarrow> sink \<Rightarrow> 'u registry \<Rightarrow> string \<Rightarrow> string \<Rightarrow> 'u thread \<Rightarrow> string list \<Rightarrow>
     (string list \<times> 'u thread) option" where
  "serve_one J sink r entry raw t out =
     (case json_value J raw of
        Inl e \<Rightarrow> Some (emit_line J sink (to_envelope (Decode e)) out, t)
      | Inr _ \<Rightarrow>
          (case get_handler r entry of
             None \<Rightarrow> Some (emit_line J sink (to_envelope (unknown_entrypoint r entry)) out, t)
           | Some h \<Rightarrow>
               (case run_handler h raw t of
                  None \<Rightarrow> None
                | Some (Inr bytes, t') \<Rightarrow>
                    (case json_value J bytes of
                       Inr v \<Rightarrow> Some (emit_line J sink (success_envelope v) out, t')
                     | Inl e \<Rightarrow> Some (emit_line J sink (to_envelope (Encode
                         (''handler output was not valid JSON: '' @ e))) out, t'))
                | Some (Inl err, t') \<Rightarrow> Some (emit_line J sink (to_envelope err) out, t'))))"

text \<open>The primes run in order, each under \<open>catch_unwind\<close>; the ack counts those that worked and carries
  the messages of the others.\<close>

fun run_primes :: "'u prime list \<Rightarrow> nat \<Rightarrow> string list \<Rightarrow> 'u thread \<Rightarrow> ((nat \<times> string list) \<times> 'u thread) option" where
  "run_primes [] ok errors t = Some ((ok, errors), t)"
| "run_primes (p # ps) ok errors t =
     (case p t of
        None \<Rightarrow> None
      | Some (Returned (Inr _), t') \<Rightarrow> run_primes ps (ok + 1) errors t'
      | Some (Returned (Inl e), t') \<Rightarrow> run_primes ps ok (errors @ [error_display e]) t'
      | Some (Unwound, t') \<Rightarrow> run_primes ps ok (errors @ [''snapshot prime panicked'']) t')"

definition prime_ack :: "nat \<Rightarrow> string list \<Rightarrow> json" where
  "prime_ack ok errors =
     JObj [(''primed'', JNum (dec ok)), (''failed'', JNum (dec (length errors))),
           (''errors'', JArr (map JStr errors))]"

definition serve_prime ::
  "json_lib \<Rightarrow> sink \<Rightarrow> 'u registry \<Rightarrow> 'u thread \<Rightarrow> string list \<Rightarrow> (string list \<times> 'u thread) option" where
  "serve_prime J sink r t out =
     (case run_primes (primes r) 0 [] t of
        None \<Rightarrow> None
      | Some ((ok, errors), t') \<Rightarrow> Some (emit_line J sink (prime_ack ok errors) out, t'))"

definition serve_frame ::
  "json_lib \<Rightarrow> sink \<Rightarrow> 'u registry \<Rightarrow> string \<Rightarrow> 'u thread \<Rightarrow> string list \<Rightarrow> (string list \<times> 'u thread) option" where
  "serve_frame J sink r line t out =
     (let request =
        (case serve_request J line of
           Inl e \<Rightarrow> Some (emit_line J sink (to_envelope (Decode (''malformed serve request frame: '' @ e))) out, t)
         | Inr (entry, raw) \<Rightarrow> serve_one J sink r entry raw t out)
      in case frame_kind J line of
           Inr (Some kind) \<Rightarrow>
             (if kind = ''request'' then request
              else if kind = ''prime'' then serve_prime J sink r t out
              else Some (emit_line J sink (to_envelope (Decode (''unknown serve frame kind: '' @ debug_str kind))) out, t))
         | _ \<Rightarrow> request)"

text \<open>Each line of the input, or the error of reading it; the exit code at the end.\<close>

fun run_serve_with_io ::
  "json_lib \<Rightarrow> sink \<Rightarrow> 'u registry \<Rightarrow> (string + string) list \<Rightarrow> 'u thread \<Rightarrow> string list \<Rightarrow>
     ((int \<times> string list) \<times> 'u thread) option" where
  "run_serve_with_io J sink r [] t out = Some ((0, out), t)"
| "run_serve_with_io J sink r (Inl e # rest) t out = Some ((1, out), t)"
| "run_serve_with_io J sink r (Inr line # rest) t out =
     (if trim line = [] then run_serve_with_io J sink r rest t out
      else case serve_frame J sink r line t out of
             None \<Rightarrow> None
           | Some (out', t') \<Rightarrow> run_serve_with_io J sink r rest t' out')"

section \<open>The specification of one answer\<close>

text \<open>
  What the caller of an entrypoint is promised, whatever the mode: the JSON of the input is checked
  first, then the name, then the handler decides.  The flag says whether the call succeeded.
\<close>

definition respond ::
  "json_lib \<Rightarrow> 'u registry \<Rightarrow> string \<Rightarrow> string \<Rightarrow> 'u thread \<Rightarrow> ((json \<times> bool) \<times> 'u thread) option" where
  "respond J r entry raw t =
     (case json_value J raw of
        Inl e \<Rightarrow> Some ((to_envelope (Decode e), False), t)
      | Inr _ \<Rightarrow>
          (case get_handler r entry of
             None \<Rightarrow> Some ((to_envelope (unknown_entrypoint r entry), False), t)
           | Some h \<Rightarrow>
               (case run_handler h raw t of
                  None \<Rightarrow> None
                | Some (Inl err, t') \<Rightarrow> Some ((to_envelope err, False), t')
                | Some (Inr bytes, t') \<Rightarrow>
                    (case json_value J bytes of
                       Inr v \<Rightarrow> Some ((success_envelope v, True), t')
                     | Inl e \<Rightarrow> Some ((to_envelope (Encode (''handler output was not valid JSON: '' @ e)), False), t')))))"

lemma serve_one_respond:
  "serve_one J sink r entry raw t out =
     map_option (\<lambda>((env, ok), t'). (emit_line J sink env out, t')) (respond J r entry raw t)"
  by (auto simp: serve_one_def respond_def split: sum.splits option.splits)

lemma run_cli_respond:
  assumes "parse_args argv = Inr (entry, src)" "read_input os src = Inr raw"
    and "hd argv \<noteq> ''--check-input''" "hd argv \<noteq> ''--web-server''"
  shows "run_cli_with_args J os sink r argv t out =
     map_option (\<lambda>((env, ok), t'). (emit J sink env (if ok then 0 else 1) out, t')) (respond J r entry raw t)"
  using assms by (auto simp: run_cli_with_args_def respond_def split: sum.splits option.splits)

text \<open>A JSON library that prints every value, and a sink that takes every line.\<close>

definition prints :: "json_lib \<Rightarrow> (json \<Rightarrow> string) \<Rightarrow> bool" where
  "prints J text \<longleftrightarrow> (\<forall>v. json_text J v = Inr (text v))"

abbreviation all_lines :: sink where "all_lines \<equiv> \<lambda>_ _. True"

lemma emit_prints: "prints J text \<Longrightarrow> emit J all_lines env code out = (code, out @ [text env])"
  by (simp add: emit_def prints_def)

lemma emit_line_prints: "prints J text \<Longrightarrow> emit_line J all_lines env out = out @ [text env]"
  by (simp add: emit_line_def prints_def)

lemma parse_args_json: "parse_args [''--entrypoint'', entry, ''--input-json'', raw] = Inr (entry, Json raw)"
  by (simp add: parse_args_def)

lemma to_envelope_ne_success [simp]: "to_envelope e \<noteq> success_envelope v"
  by (simp add: to_envelope_def success_envelope_def)

lemma respond_flag: "respond J r entry raw t = Some ((env, ok), t') \<Longrightarrow> ok \<longleftrightarrow> (\<exists>v. env = success_envelope v)"
  by (auto simp: respond_def split: sum.splits option.splits dest: sym)

lemma respond_envelopes:
  assumes "respond J r entry raw t = Some ((env, ok), t')" "json_value J raw = Inr v" "get_handler r entry = Some h"
  shows "(\<exists>v. env = success_envelope v) \<or> (\<exists>m. env = to_envelope (Encode m)) \<or>
    (\<exists>err t'. env = to_envelope err \<and> run_handler h raw t = Some (Inl err, t'))"
  using assms unfolding respond_def by (auto split: option.splits sum.splits)

section \<open>The answers of the serve loop\<close>

definition frame_answer :: "json_lib \<Rightarrow> 'u registry \<Rightarrow> string \<Rightarrow> 'u thread \<Rightarrow> (json \<times> 'u thread) option" where
  "frame_answer J r line t =
     (let request =
        (case serve_request J line of
           Inl e \<Rightarrow> Some (to_envelope (Decode (''malformed serve request frame: '' @ e)), t)
         | Inr (entry, raw) \<Rightarrow> map_option (\<lambda>((env, ok), t'). (env, t')) (respond J r entry raw t))
      in case frame_kind J line of
           Inr (Some kind) \<Rightarrow>
             (if kind = ''request'' then request
              else if kind = ''prime''
              then map_option (\<lambda>((ok, errors), t'). (prime_ack ok errors, t')) (run_primes (primes r) 0 [] t)
              else Some (to_envelope (Decode (''unknown serve frame kind: '' @ debug_str kind)), t))
         | _ \<Rightarrow> request)"

fun answers :: "json_lib \<Rightarrow> 'u registry \<Rightarrow> string list \<Rightarrow> 'u thread \<Rightarrow> (json list \<times> 'u thread) option" where
  "answers J r [] t = Some ([], t)"
| "answers J r (line # rest) t =
     (case frame_answer J r line t of
        None \<Rightarrow> None
      | Some (env, t') \<Rightarrow> map_option (\<lambda>(envs, t''). (env # envs, t'')) (answers J r rest t'))"

lemma serve_frame_answer:
  "serve_frame J sink r line t out =
     map_option (\<lambda>(env, t'). (emit_line J sink env out, t')) (frame_answer J r line t)"
  by (auto simp: serve_frame_def frame_answer_def serve_one_respond serve_prime_def Let_def option.map_comp
      comp_def case_prod_unfold split: sum.splits option.splits)

lemma run_serve_answers:
  assumes "prints J text"
  shows "run_serve_with_io J all_lines r (map Inr lines) t out =
     map_option (\<lambda>(envs, t'). ((0, out @ map text envs), t')) (answers J r (filter (\<lambda>l. trim l \<noteq> []) lines) t)"
proof (induction lines arbitrary: t out)
  case (Cons l ls)
  then show ?case
    by (cases "frame_answer J r l t") (auto simp: serve_frame_answer emit_line_prints [OF assms] option.map_comp comp_def split_beta)
qed simp

text \<open>A registry whose user code returns: it may fail and panic, but it ends.\<close>

definition user_code_returns :: "'u registry \<Rightarrow> bool" where
  "user_code_returns r \<longleftrightarrow>
     (\<forall>h\<in>snd ` set (handlers r). \<forall>i t. h i t \<noteq> None) \<and> (\<forall>p\<in>set (primes r). \<forall>t. p t \<noteq> None)"

lemma run_handler_returns: "(\<And>i t. h i t \<noteq> None) \<Longrightarrow> run_handler h raw t \<noteq> None"
  by (fastforce simp: run_handler_def Let_def split: option.splits ending.splits prod.splits)

lemma respond_returns: "user_code_returns r \<Longrightarrow> respond J r entry raw t \<noteq> None"
proof -
  assume r: "user_code_returns r"
  have "run_handler h raw t \<noteq> None" if "get_handler r entry = Some h" for h
    using r that by (intro run_handler_returns) (auto simp: user_code_returns_def get_handler_def dest!: map_of_SomeD)
  then show ?thesis
    by (fastforce simp: respond_def split: sum.splits option.splits)
qed

lemma run_primes_returns: "\<forall>p\<in>set ps. \<forall>t. p t \<noteq> None \<Longrightarrow> run_primes ps ok errors t \<noteq> None"
  by (induction ps ok errors t rule: run_primes.induct) (auto split: option.splits ending.splits sum.splits)

lemma run_primes_counts:
  "run_primes ps ok errors t = Some ((ok', errors'), t') \<Longrightarrow>
     ok' + length errors' = ok + length errors + length ps"
  by (induction ps ok errors t rule: run_primes.induct) (auto split: option.splits ending.splits sum.splits)

lemma frame_answer_returns: "user_code_returns r \<Longrightarrow> frame_answer J r line t \<noteq> None"
  using respond_returns [of r J] run_primes_returns [of "primes r" 0 "[]" t]
  by (fastforce simp: frame_answer_def Let_def user_code_returns_def split: sum.splits option.splits)

lemma answers_returns: "user_code_returns r \<Longrightarrow> \<exists>envs t'. answers J r frames t = Some (envs, t') \<and> length envs = length frames"
proof (induction frames arbitrary: t)
  case (Cons f fs)
  obtain env t1 where "frame_answer J r f t = Some (env, t1)"
    using frame_answer_returns [OF Cons.prems, of J f t] by auto
  moreover obtain envs t2 where "answers J r fs t1 = Some (envs, t2)" "length envs = length fs"
    using Cons by blast
  ultimately show ?case by simp
qed simp


section \<open>The registry of a program\<close>

lemma register_some:
  "register x r = Some r' \<Longrightarrow>
     map_of (handlers r) (reg_name x) = None \<and> map_of (handlers r') = (map_of (handlers r))(reg_name x \<mapsto> reg_handler x) \<and>
     map_of (checks r') = (case reg_check x of Some c \<Rightarrow> (map_of (checks r))(reg_name x \<mapsto> c) | None \<Rightarrow> map_of (checks r)) \<and>
     primes r' = primes r @ (case reg_snapshot_prime x of Some p \<Rightarrow> [p] | None \<Rightarrow> []) \<and>
     (bt_ok (handlers r) \<longrightarrow> bt_ok (handlers r')) \<and> (bt_ok (checks r) \<longrightarrow> bt_ok (checks r'))"
  by (auto simp: register_def register_function_def function_checked_def snapshot_prime_def bt_insert_ok
      split: option.splits if_splits)

lemma register_none: "register x r = None \<longleftrightarrow> map_of (handlers r) (reg_name x) \<noteq> None"
  by (auto simp: register_def register_function_def function_checked_def split: option.splits)

lemma register_all_some:
  assumes "register_all xs r = Some r'"
  shows "distinct (map reg_name xs)" "\<forall>x\<in>set xs. map_of (handlers r) (reg_name x) = None"
    "map_of (handlers r') = map_of (handlers r) ++ map_of (map (\<lambda>x. (reg_name x, reg_handler x)) xs)"
    "bt_ok (handlers r) \<Longrightarrow> bt_ok (handlers r')"
    "primes r' = primes r @ List.map_filter reg_snapshot_prime xs"
  using assms
proof (atomize(full), induction xs arbitrary: r)
  case (Cons x xs)
  obtain r1 where r1: "register x r = Some r1" "register_all xs r1 = Some r'"
    using Cons.prems by (auto split: option.splits)
  note s = register_some [OF r1(1)] and i = Cons.IH [OF r1(2)]
  have n: "reg_name x \<notin> set (map reg_name xs)"
  proof
    assume "reg_name x \<in> set (map reg_name xs)"
    then obtain y where "y \<in> set xs" "reg_name y = reg_name x" by auto
    with i have "map_of (handlers r1) (reg_name x) = None" by metis
    with s show False by simp
  qed
  have f: "\<forall>y\<in>set (x # xs). map_of (handlers r) (reg_name y) = None"
  proof -
    have "((map_of (handlers r))(reg_name x \<mapsto> reg_handler x)) (reg_name y) = None" if "y \<in> set xs" for y
      using i s that by simp
    then have "map_of (handlers r) (reg_name y) = None" if "y \<in> set xs" for y
      using that by (fastforce split: if_splits)
    with s show ?thesis by simp
  qed
  have m: "map_of (handlers r') = map_of (handlers r) ++ map_of (map (\<lambda>x. (reg_name x, reg_handler x)) (x # xs))"
  proof -
    have "map_of (map (\<lambda>x. (reg_name x, reg_handler x)) xs) (reg_name x) = None"
      using n by (simp add: map_of_eq_None_iff image_image)
    with s i show ?thesis by (auto simp: fun_eq_iff map_add_def split: option.splits)
  qed
  have p: "primes r' = primes r @ List.map_filter reg_snapshot_prime (x # xs)"
    using s i by (cases "reg_snapshot_prime x") (simp_all add: map_filter_simps)
  have d: "distinct (map reg_name (x # xs))" using i n by simp
  have k: "bt_ok (handlers r) \<longrightarrow> bt_ok (handlers r')" using s i by blast
  show ?case by (intro conjI d f m k p)
qed (simp add: map_filter_simps)

lemma register_all_defined:
  assumes "distinct (map reg_name xs)" "\<forall>x\<in>set xs. map_of (handlers r) (reg_name x) = None"
  shows "\<exists>r'. register_all xs r = Some r'"
  using assms
proof (induction xs arbitrary: r)
  case (Cons x xs)
  then obtain r1 where r1: "register x r = Some r1" using register_none [of x r] by auto
  have "\<forall>y\<in>set xs. map_of (handlers r1) (reg_name y) = None"
  proof
    fix y
    assume "y \<in> set xs"
    moreover from this Cons.prems(1) have "reg_name y \<noteq> reg_name x" by (metis distinct.simps(2) imageI list.simps(9) list.set_map)
    moreover have "map_of (handlers r) (reg_name y) = None" using Cons.prems(2) \<open>y \<in> set xs\<close> by simp
    ultimately show "map_of (handlers r1) (reg_name y) = None" using register_some [OF r1] by simp
  qed
  with Cons r1 show ?case by simp
qed simp

lemma from_inventory_spec:
  "from_inventory xs = Some r \<Longrightarrow>
     distinct (map reg_name xs) \<and> map_of (handlers r) = map_of (map (\<lambda>x. (reg_name x, reg_handler x)) xs) \<and>
     bt_ok (handlers r) \<and> primes r = List.map_filter reg_snapshot_prime xs"
  using register_all_some [of xs new_registry r] by (simp add: from_inventory_def new_registry_def)

lemma from_inventory_defined: "(\<exists>r. from_inventory xs = Some r) \<longleftrightarrow> distinct (map reg_name xs)"
  using from_inventory_spec [of xs] register_all_defined [of xs new_registry]
  by (auto simp: from_inventory_def new_registry_def)

section \<open>Properties\<close>

text \<open>C16. The warm path is the cold path: for the same entrypoint, input and state of the process, the serve
  loop writes the very line the one-shot runner writes and leaves the same state, and the one-shot exit
  code is 0 exactly when that line is a success envelope.\<close>

theorem serve_equals_one_shot:
  assumes "prints J text"
  shows "case run_cli_with_args J os all_lines r [''--entrypoint'', entry, ''--input-json'', raw] t out of
      None \<Rightarrow> serve_one J all_lines r entry raw t out = None
    | Some ((code, out'), t') \<Rightarrow>
        serve_one J all_lines r entry raw t out = Some (out', t') \<and>
        (\<exists>env. out' = out @ [text env] \<and> code = (if \<exists>v. env = success_envelope v then 0 else 1))"
proof -
  have run: "run_cli_with_args J os all_lines r [''--entrypoint'', entry, ''--input-json'', raw] t out =
      map_option (\<lambda>((env, ok), t'). (emit J all_lines env (if ok then 0 else 1) out, t')) (respond J r entry raw t)"
    by (rule run_cli_respond [of _ entry "Json raw"]) (simp_all add: parse_args_json read_input_def)
  show ?thesis
  proof (cases "respond J r entry raw t")
    case None
    then show ?thesis by (simp add: run serve_one_respond)
  next
    case (Some x)
    obtain env ok t' where x: "x = ((env, ok), t')" by (metis surj_pair)
    with Some respond_flag [of J r entry raw t env ok t'] show ?thesis
      by (auto simp: run serve_one_respond emit_prints [OF assms] emit_line_prints [OF assms])
  qed
qed

definition line_lib :: json_lib where
  "line_lib = \<lparr>json_value = (\<lambda>s. if s = [] then Inl ''EOF'' else Inr (JNum s)),
     json_text = (\<lambda>v. Inr (case v of JNum s \<Rightarrow> s | _ \<Rightarrow> ''envelope'')), frame_kind = (\<lambda>_. Inr None),
     serve_request = (\<lambda>s. Inr (''f'', s))\<rparr>"

lemma line_lib_prints: "prints line_lib (\<lambda>v. case v of JNum s \<Rightarrow> s | _ \<Rightarrow> ''envelope'')"
  by (simp add: prints_def line_lib_def)

text \<open>A registry of one handler, which panics.\<close>

definition panicking :: "unit registry" where
  "panicking = \<lparr>handlers = [(''f'', \<lambda>_. panic_with ''boom'' ''frame 0'')], checks = [], primes = [], web_servers = []\<rparr>"

theorem serve_equals_one_shot_witness:
  "case run_cli_with_args line_lib \<lparr>read_file = Inl, read_stdin = Inl []\<rparr> all_lines panicking
      [''--entrypoint'', ''f'', ''--input-json'', ''1''] \<lparr>panic_slot = None, user = ()\<rparr> [] of
      None \<Rightarrow> serve_one line_lib all_lines panicking ''f'' ''1'' \<lparr>panic_slot = None, user = ()\<rparr> [] = None
    | Some ((code, out'), t') \<Rightarrow>
        serve_one line_lib all_lines panicking ''f'' ''1'' \<lparr>panic_slot = None, user = ()\<rparr> [] = Some (out', t') \<and>
        (\<exists>env. out' = [] @ [case env of JNum s \<Rightarrow> s | _ \<Rightarrow> ''envelope''] \<and>
               code = (if \<exists>v. env = success_envelope v then 0 else 1))"
  by (rule serve_equals_one_shot [OF line_lib_prints])

text \<open>C18. Every request is answered: whatever the frames say (malformed, of an unknown kind, naming an
  unknown entrypoint) and whatever the handlers do short of never returning (errors, panics), the serve loop
  writes one line per non-blank line of input, in order, and ends with exit code 0.\<close>

theorem serve_answers_every_frame:
  assumes "prints J text" "user_code_returns r"
  shows "\<exists>envs t'. run_serve_with_io J all_lines r (map Inr lines) t out = Some ((0, out @ map text envs), t') \<and>
     answers J r (filter (\<lambda>l. trim l \<noteq> []) lines) t = Some (envs, t') \<and>
     length envs = length (filter (\<lambda>l. trim l \<noteq> []) lines)"
  using answers_returns [OF assms(2), of J "filter (\<lambda>l. trim l \<noteq> []) lines" t]
  by (auto simp: run_serve_answers [OF assms(1)])

lemma panicking_returns: "user_code_returns panicking"
  by (simp add: user_code_returns_def panicking_def panic_with_def)

theorem serve_answers_every_frame_witness:
  "\<exists>envs t'. run_serve_with_io line_lib all_lines panicking (map Inr [''1'', '' '', ''2'']) \<lparr>panic_slot = None, user = ()\<rparr> []
       = Some ((0, [] @ map (\<lambda>v. case v of JNum s \<Rightarrow> s | _ \<Rightarrow> ''envelope'') envs), t') \<and>
     answers line_lib panicking (filter (\<lambda>l. trim l \<noteq> []) [''1'', '' '', ''2'']) \<lparr>panic_slot = None, user = ()\<rparr> = Some (envs, t') \<and>
     length envs = length (filter (\<lambda>l. trim l \<noteq> []) [''1'', '' '', ''2''])"
  by (rule serve_answers_every_frame [OF line_lib_prints panicking_returns])

text \<open>Once the input decodes, no answer of the wrapped function is a \<open>decode_error\<close>.\<close>

lemma to_envelope_kind: "error_kind e \<noteq> error_kind e' \<Longrightarrow> to_envelope e \<noteq> to_envelope e'"
  by (auto simp: to_envelope_def)

lemma accepted_no_decode_error:
  assumes "rd raw = Inr arg" "\<forall>e. error_kind (wrap e) = ''function_error''"
    and "respond J r entry raw t = Some ((env, ok), t')" "json_value J raw = Inr v"
    and "get_handler r entry = Some (typed rd wr wrap f)"
  shows "env \<noteq> to_envelope (Decode m)"
proof -
  have body: "error_kind err \<noteq> ''decode_error''"
    if "run_handler (typed rd wr wrap f) raw t = Some (Inl err, t')" for err t'
    using that assms(1,2)
    by (auto simp: run_handler_def typed_def codec_decode_def codec_encode_def Let_def
        split: option.splits ending.splits sum.splits prod.splits)
  from respond_envelopes [OF assms(3-5)] consider (ok) w where "env = success_envelope w"
    | (enc) m' where "env = to_envelope (Encode m')"
    | (err) err t1 where "env = to_envelope err" "run_handler (typed rd wr wrap f) raw t = Some (Inl err, t1)" by blast
  then show ?thesis
  proof cases
    case ok
    then show ?thesis using to_envelope_ne_success by metis
  next
    case enc
    then show ?thesis using to_envelope_kind [of "Encode m'" "Decode m"] by simp
  next
    case err
    then show ?thesis using to_envelope_kind [of err "Decode m"] body by simp
  qed
qed

text \<open>Local validation is sound: with the handler and checker the macro generates for one function, an
  input the check refuses is refused by the run with the same line and without running the body (the
  user's state is untouched); an input it accepts never gives a \<open>decode_error\<close>.\<close>

lemma check_input_agrees:
  fixes rd :: "string \<Rightarrow> string + 'i" and f :: "'i \<Rightarrow> ('u, 'e + 'o) call"
  assumes "prints J text" "get_handler r entry = Some (typed rd wr wrap f)"
    and "get_check r entry = Some (typed_check rd)" "\<forall>e. error_kind (wrap e) = ''function_error''"
  shows "case run_check_input_inner J all_lines r entry raw out of (code, out') \<Rightarrow>
      (code = 0 \<or> code = 1) \<and>
      (code = 1 \<longrightarrow> (\<exists>t'. user t' = user t \<and>
         run_cli_with_args J os all_lines r [''--entrypoint'', entry, ''--input-json'', raw] t out = Some ((1, out'), t'))) \<and>
      (code = 0 \<longrightarrow> (\<forall>env ok t' m. respond J r entry raw t = Some ((env, ok), t') \<longrightarrow> env \<noteq> to_envelope (Decode m)))"
proof -
  let ?h = "typed rd wr wrap f"
  have run: "run_cli_with_args J os all_lines r [''--entrypoint'', entry, ''--input-json'', raw] t out =
      map_option (\<lambda>((env, ok), t'). (emit J all_lines env (if ok then 0 else 1) out, t')) (respond J r entry raw t)"
    by (rule run_cli_respond [of _ entry "Json raw"]) (simp_all add: parse_args_json read_input_def)
  note emits = emit_prints [OF assms(1)]
  show ?thesis
  proof (cases "json_value J raw")
    case (Inl e)
    then show ?thesis by (auto simp: run_check_input_inner_def emits run respond_def)
  next
    case v: (Inr v)
    show ?thesis
    proof (cases "rd raw")
      case (Inl e)
      then have "run_handler ?h raw t = Some (Inl (Decode e), t\<lparr>panic_slot := None\<rparr>)"
        by (simp add: run_handler_def typed_def codec_decode_def)
      with v Inl assms(2,3) show ?thesis
        by (simp add: run_check_input_inner_def emits run respond_def typed_check_def codec_decode_def)
    next
      case (Inr arg)
      note accepted_no_decode_error [OF Inr assms(4) _ v assms(2)]
      with v Inr assms(2,3) show ?thesis
        by (simp add: run_check_input_inner_def emits typed_check_def codec_decode_def)
    qed
  qed
qed

text \<open>A function that echoes its input, as the macro registers it; the input \<open>x\<close> does not decode.\<close>

definition echo_decode :: "string \<Rightarrow> string + string" where
  "echo_decode s = (if s = ''x'' then Inl ''bad input'' else Inr s)"

definition echo :: "nat registry" where
  "echo = \<lparr>handlers = [(''f'', typed echo_decode Inr (function_opaque id) (\<lambda>i t. Some (Returned (Inr i), t)))],
     checks = [(''f'', typed_check echo_decode)], primes = [], web_servers = []\<rparr>"

lemma check_input_agrees_witness:
  "case run_check_input_inner line_lib all_lines echo ''f'' ''x'' [] of (code, out') \<Rightarrow>
      (code = 0 \<or> code = 1) \<and>
      (code = 1 \<longrightarrow> (\<exists>t'. user t' = user \<lparr>panic_slot = None, user = 7 :: nat\<rparr> \<and>
         run_cli_with_args line_lib \<lparr>read_file = Inl, read_stdin = Inl []\<rparr> all_lines echo
           [''--entrypoint'', ''f'', ''--input-json'', ''x''] \<lparr>panic_slot = None, user = 7\<rparr> [] = Some ((1, out'), t'))) \<and>
      (code = 0 \<longrightarrow> (\<forall>env ok t' m. respond line_lib echo ''f'' ''x'' \<lparr>panic_slot = None, user = 7\<rparr> = Some ((env, ok), t')
         \<longrightarrow> env \<noteq> to_envelope (Decode m)))"
  by (rule check_input_agrees [OF line_lib_prints, where rd = echo_decode and wr = Inr and wrap = "function_opaque id"
        and f = "\<lambda>i t. Some (Returned (Inr i), t)"])
     (simp_all add: echo_def get_handler_def get_check_def function_opaque_def)

text \<open>The registry does not depend on the order in which the linker collected the registrations: it
  exists exactly when no two names are equal, its names are listed sorted, every name leads to its own
  handler, and any other order gives the same table and the same primes.\<close>

lemma registry_order_free:
  assumes "mset ys = mset xs"
  shows "case from_inventory xs of
      None \<Rightarrow> \<not> distinct (map reg_name xs) \<and> from_inventory ys = None
    | Some r \<Rightarrow> distinct (map reg_name xs) \<and> handler_names r = sort (map reg_name xs) \<and>
        (\<forall>x\<in>set xs. get_handler r (reg_name x) = Some (reg_handler x)) \<and>
        (\<exists>r'. from_inventory ys = Some r' \<and> handlers r' = handlers r \<and> mset (primes r') = mset (primes r))"
proof -
  have names: "mset (map reg_name ys) = mset (map reg_name xs)" using assms by simp
  then have d: "distinct (map reg_name ys) \<longleftrightarrow> distinct (map reg_name xs)"
    by (metis distinct_count_atmost_1 set_mset_mset)
  show ?thesis
  proof (cases "from_inventory xs")
    case None
    then show ?thesis using from_inventory_defined [of xs] from_inventory_defined [of ys] d by auto
  next
    case (Some r)
    note r = from_inventory_spec [OF Some]
    then obtain r' where r': "from_inventory ys = Some r'" using from_inventory_defined [of ys] d by auto
    let ?m = "\<lambda>zs. map_of (map (\<lambda>x. (reg_name x, reg_handler x)) zs)"
    have entry: "?m xs (reg_name x) = Some (reg_handler x)" if "x \<in> set xs" for x
      using r that by (intro map_of_is_SomeI) (auto simp: comp_def)
    have "?m ys = ?m xs"
      using r d mset_eq_setD [OF assms] by (subst map_of_inject_set) (simp_all add: comp_def)
    then have "handlers r' = handlers r"
      using r from_inventory_spec [OF r'] by (intro bt_ok_unique) auto
    moreover have "mset (primes r') = mset (primes r)"
      using r from_inventory_spec [OF r'] assms by (simp add: map_filter_def mset_map mset_filter)
    moreover have "handler_names r = sort (map reg_name xs)"
    proof -
      have "set (map fst (handlers r)) = dom (map_of (handlers r))" by (simp add: dom_map_of_conv_image_fst)
      also have "\<dots> = dom (?m xs)" using r by (simp only:)
      also have "\<dots> = set (sort (map reg_name xs))" by (simp add: dom_map_of_conv_image_fst image_image)
      finally have "set (map fst (handlers r)) = set (sort (map reg_name xs))" .
      moreover have "sorted_wrt (<) (sort (map reg_name xs))" using r by (simp add: strict_sorted_iff)
      ultimately show ?thesis unfolding handler_names_def using r by (intro strict_sorted_equal) blast+
    qed
    ultimately show ?thesis using r r' entry by (simp add: Some get_handler_def)
  qed
qed

lemma registry_order_free_witness:
  "case from_inventory
       [\<lparr>reg_name = ''b'', reg_handler = (\<lambda>_. panic_with [] []) :: unit handler, reg_check = None, reg_snapshot_prime = None\<rparr>,
        \<lparr>reg_name = ''a'', reg_handler = (\<lambda>_. panic_with [] []), reg_check = None, reg_snapshot_prime = None\<rparr>] of
      None \<Rightarrow> False
    | Some r \<Rightarrow> handler_names r = sort [''b'', ''a'']"
proof -
  let ?x = "\<lambda>n. \<lparr>reg_name = n, reg_handler = (\<lambda>_. panic_with [] []) :: unit handler, reg_check = None, reg_snapshot_prime = None\<rparr>"
  have "\<exists>r. from_inventory [?x ''b'', ?x ''a''] = Some r" unfolding from_inventory_defined by simp
  then obtain r where "from_inventory [?x ''b'', ?x ''a''] = Some r" by blast
  with registry_order_free [of "[?x ''a'', ?x ''b'']" "[?x ''b'', ?x ''a'']"] show ?thesis by simp
qed

end
