(* ===== verification/Scope.thy ===== *)
theory Scope
  imports Ordered Paths "HOL-Library.AList" "HOL-Library.Product_Lexorder"
begin

text \<open>
  Source scoping (\<open>crates/modal-rust/src/scope.rs\<close>) and the generated runner it injects
  (\<open>crates/modal-rust/src/runner_gen.rs\<close>): which crate directories a package needs, the trimmed manifests
  that go with them, and the stub sources of the prebuild layer.

  \<open>toml_edit\<close> is a parser and a printer around a document of
  ordered tables.  The file system and \<open>cargo metadata\<close> are a record of functions.
\<close>

section \<open>Paths\<close>

text \<open>The paths of \<open>cargo metadata\<close> come out of JSON: every component is UTF-8, and \<open>to_str\<close> drops none.\<close>

definition to_posix :: "path \<Rightarrow> string" where "to_posix p = join_with ''/'' p"

section \<open>Metadata\<close>

record dependency =
  dep_name :: string
  dep_kind :: "string option"
  dep_path :: "path option"

record target =
  tg_kind :: "string list"
  tg_name :: string
  tg_src_path :: "path option" \<comment> \<open>\<open>None\<close> for the empty path an older cargo leaves\<close>

record package =
  pkg_id :: string
  pkg_name :: string
  manifest_path :: path
  dependencies :: "dependency list"
  targets :: "target list"

record metadata =
  workspace_members :: "string list"
  workspace_root :: path
  packages :: "package list"

section \<open>The closure\<close>

definition dir_of :: "package \<Rightarrow> path" where "dir_of p = butlast (manifest_path p)"

definition member_packages :: "metadata \<Rightarrow> package list" where
  "member_packages m = filter (\<lambda>p. pkg_id p \<in> set (workspace_members m)) (packages m)"

definition member_dirs :: "metadata \<Rightarrow> path list" where
  "member_dirs m = map dir_of (member_packages m)"

text \<open>\<open>collect\<close> into a map: the last package of a directory stays.\<close>

definition by_dir :: "metadata \<Rightarrow> path \<Rightarrow> package option" where
  "by_dir m = map_of (rev (map (\<lambda>p. (dir_of p, p)) (member_packages m)))"

definition scope_target :: "metadata \<Rightarrow> string \<Rightarrow> package option" where
  "scope_target m name =
     find (\<lambda>p. pkg_name p = name \<and> pkg_id p \<in> set (workspace_members m)) (packages m)"

type_synonym out_dep = "string \<times> path"

text \<open>One dependency of the crate being visited: the new stack and the escaped dependencies.\<close>

definition visit_dep ::
  "path list \<Rightarrow> path list \<Rightarrow> dependency \<Rightarrow> path list \<times> out_dep list \<Rightarrow> path list \<times> out_dep list" where
  "visit_dep members closure dep = (\<lambda>(stack, escaped).
     if dep_kind dep \<noteq> None then (stack, escaped)
     else case dep_path dep of
            None \<Rightarrow> (stack, escaped)
          | Some q \<Rightarrow>
              if q \<in> set members
              then (if q \<notin> set closure then q # stack else stack, escaped)
              else (stack, if (dep_name dep, q) \<in> set escaped then escaped else escaped @ [(dep_name dep, q)]))"

definition visit_deps ::
  "path list \<Rightarrow> path list \<Rightarrow> dependency list \<Rightarrow> path list \<times> out_dep list \<Rightarrow> path list \<times> out_dep list" where
  "visit_deps members closure deps = fold (visit_dep members closure) deps"

lemma visit_deps_stack:
  "set (fst (visit_deps members closure deps (stack, escaped))) =
     set stack \<union> {q. q \<in> set members \<and> q \<notin> set closure \<and> (\<exists>d\<in>set deps. dep_kind d = None \<and> dep_path d = Some q)}"
  unfolding visit_deps_def
  by (induction deps arbitrary: stack escaped) (auto simp: visit_dep_def split: option.splits)

lemma visit_deps_escaped:
  "set (snd (visit_deps members closure deps (stack, escaped))) =
     set escaped \<union> {(n, q). q \<notin> set members \<and> (\<exists>d\<in>set deps. dep_kind d = None \<and> dep_path d = Some q \<and> dep_name d = n)}"
  unfolding visit_deps_def
  by (induction deps arbitrary: stack escaped) (auto simp: visit_dep_def split: option.splits)

lemma visit_deps_distinct: "distinct escaped \<Longrightarrow> distinct (snd (visit_deps members closure deps (stack, escaped)))"
  unfolding visit_deps_def
  by (induction deps arbitrary: stack escaped) (auto simp: visit_dep_def split: option.splits)

lemma unvisited_shrinks:
  assumes "cur \<notin> closure" "new \<subseteq> members \<union> stack" "finite members" "finite stack"
  shows "card ((members \<union> new) - insert cur closure) < card ((members \<union> insert cur stack) - closure)"
  using assms by (intro psubset_card_mono) auto

text \<open>The depth-first walk.  The head of the list is the top of the stack.\<close>

function closure_walk ::
  "path list \<Rightarrow> (path \<Rightarrow> package option) \<Rightarrow> path list \<Rightarrow> path list \<Rightarrow> out_dep list \<Rightarrow> path list \<times> out_dep list" where
  "closure_walk members index closure [] escaped = (closure, escaped)"
| "closure_walk members index closure (cur # stack) escaped =
     (if cur \<in> set closure then closure_walk members index closure stack escaped
      else case index cur of
             None \<Rightarrow> closure_walk members index (cur # closure) stack escaped
           | Some pkg \<Rightarrow>
               (case visit_deps members (cur # closure) (dependencies pkg) (stack, escaped) of
                  (stack', escaped') \<Rightarrow> closure_walk members index (cur # closure) stack' escaped'))"
  by pat_completeness auto

termination
proof (relation "measures [\<lambda>(members, _, closure, stack, _). card ((set members \<union> set stack) - set closure),
                           \<lambda>(_, _, _, stack, _). length stack]", goal_cases)
  case 1
  then show ?case by simp
next
  case (2 members index closure cur stack escaped)
  then have "(set members \<union> set (cur # stack)) - set closure = (set members \<union> set stack) - set closure" by auto
  then show ?case by simp
next
  case (3 members index closure cur stack escaped)
  then show ?case using unvisited_shrinks [of cur "set closure" "set stack" "set members" "set stack"] by simp
next
  case (4 members index closure cur stack escaped pkg stack' escaped')
  have "set stack' \<subseteq> set members \<union> set stack"
    using visit_deps_stack [of members "cur # closure" "dependencies pkg" stack escaped] 4(3) [symmetric] by auto
  then show ?case using unvisited_shrinks [of cur "set closure" "set stack'" "set members" "set stack"] 4(1)
    by (simp add: 4(3) [symmetric])
qed

record closure_result =
  cr_dirs :: "path list"
  cr_out_of_workspace :: "out_dep list"

definition closure_from_metadata :: "metadata \<Rightarrow> string \<Rightarrow> closure_result option" where
  "closure_from_metadata m name =
     (case scope_target m name of
        None \<Rightarrow> None
      | Some t \<Rightarrow>
          (case closure_walk (member_dirs m) (by_dir m) [] [dir_of t] [] of
             (closure, escaped) \<Rightarrow> Some \<lparr>cr_dirs = sort closure, cr_out_of_workspace = sort escaped\<rparr>))"

section \<open>Manifests\<close>

datatype toml = TStr string | TOther string | TArray "toml list" | TTable "(string \<times> toml) list"
  | TInline "(string \<times> toml) list"

record toml_edit =
  toml_parse :: "string \<Rightarrow> string + (string \<times> toml) list"
  toml_show :: "(string \<times> toml) list \<Rightarrow> string"

fun as_table_like :: "toml \<Rightarrow> (string \<times> toml) list option" where
  "as_table_like (TTable t) = Some t"
| "as_table_like (TInline t) = Some t"
| "as_table_like _ = None"

text \<open>Writing back a table that was changed in place.\<close>

fun with_entries :: "toml \<Rightarrow> (string \<times> toml) list \<Rightarrow> toml" where
  "with_entries (TTable _) t = TTable t"
| "with_entries (TInline _) t = TInline t"
| "with_entries x _ = x"

definition sub_table :: "(string \<times> toml) list \<Rightarrow> string \<Rightarrow> (toml \<times> (string \<times> toml) list) option" where
  "sub_table doc key =
     (case map_of doc key of
        None \<Rightarrow> None
      | Some item \<Rightarrow> (case as_table_like item of None \<Rightarrow> None | Some t \<Rightarrow> Some (item, t)))"

definition strip_cfg :: "string \<times> toml \<Rightarrow> bool \<times> (string \<times> toml)" where
  "strip_cfg = (\<lambda>(cfg, item).
     case as_table_like item of
       None \<Rightarrow> (False, (cfg, item))
     | Some t \<Rightarrow> (map_of t ''dev-dependencies'' \<noteq> None,
                   (cfg, with_entries item (AList.delete ''dev-dependencies'' t))))"

definition strip_dev_dependencies :: "toml_edit \<Rightarrow> string \<Rightarrow> string + string option" where
  "strip_dev_dependencies E original =
     and_then (map_sum (\<lambda>e. ''parse Cargo.toml: '' @ e) id (toml_parse E original)) (\<lambda>doc.
       let removed = (map_of doc ''dev-dependencies'' \<noteq> None);
           doc = AList.delete ''dev-dependencies'' doc;
           (removed, doc) =
             (case sub_table doc ''target'' of
                None \<Rightarrow> (removed, doc)
              | Some (item, t) \<Rightarrow>
                  (let r = map strip_cfg t in
                   (removed \<or> list_ex fst r, AList.update ''target'' (with_entries item (map snd r)) doc)))
       in Inr (if removed then Some (toml_show E doc) else None))"

text \<open>The crate directories as paths relative to the workspace, sorted, without repeats.\<close>

definition relative_members :: "path \<Rightarrow> path list \<Rightarrow> string list" where
  "relative_members base dirs =
     remdups_adj (sort (filter (\<lambda>s. s \<noteq> [])
       (map to_posix (List.map_filter (path_strip_prefix base) dirs))))"

definition scoped_workspace :: "path \<Rightarrow> path list \<Rightarrow> (string \<times> toml) list \<Rightarrow> (string \<times> toml) list" where
  "scoped_workspace base dirs ws =
     (let arr = TArray (map TStr (relative_members base dirs));
          ws = AList.update ''members'' arr ws;
          ws = (if map_of ws ''default-members'' \<noteq> None then AList.update ''default-members'' arr ws else ws)
      in (if map_of ws ''exclude'' \<noteq> None then AList.update ''exclude'' (TArray []) ws else ws))"

definition rewrite_workspace_members :: "toml_edit \<Rightarrow> string \<Rightarrow> path \<Rightarrow> path list \<Rightarrow> string + string" where
  "rewrite_workspace_members E original base dirs =
     and_then (map_sum (\<lambda>e. ''parse Cargo.toml: '' @ e) id (toml_parse E original)) (\<lambda>doc.
       case sub_table doc ''workspace'' of
         None \<Rightarrow> Inr original
       | Some (item, ws) \<Rightarrow>
           Inr (toml_show E (AList.update ''workspace'' (with_entries item (scoped_workspace base dirs ws)) doc)))"

lemma scoped_workspace_entries:
  "map_of (scoped_workspace base dirs ws) k =
     (let arr = TArray (map TStr (relative_members base dirs)) in
      if k = ''members'' then Some arr
      else if k = ''default-members'' then map_option (\<lambda>_. arr) (map_of ws k)
      else if k = ''exclude'' then map_option (\<lambda>_. TArray []) (map_of ws k)
      else map_of ws k)"
  by (auto simp: scoped_workspace_def Let_def update_conv')

section \<open>What the closure is\<close>

text \<open>The reference: the crate at \<open>d\<close> needs the member crate at \<open>d'\<close> by a normal path dependency, and
  the normal path dependencies of \<open>d\<close> that leave the workspace.\<close>

definition normal_deps :: "metadata \<Rightarrow> path \<Rightarrow> (string \<times> path) set" where
  "normal_deps m d = {(n, q). \<exists>pkg dep. by_dir m d = Some pkg \<and> dep \<in> set (dependencies pkg) \<and>
     dep_kind dep = None \<and> dep_path dep = Some q \<and> dep_name dep = n}"

definition needs :: "metadata \<Rightarrow> (path \<times> path) set" where
  "needs m = {(d, d'). d' \<in> set (member_dirs m) \<and> (\<exists>n. (n, d') \<in> normal_deps m d)}"

definition escapes :: "metadata \<Rightarrow> path \<Rightarrow> (string \<times> path) set" where
  "escapes m d = {(n, q). (n, q) \<in> normal_deps m d \<and> q \<notin> set (member_dirs m)}"

definition walk_inv :: "metadata \<Rightarrow> path \<Rightarrow> path list \<Rightarrow> path list \<Rightarrow> out_dep list \<Rightarrow> bool" where
  "walk_inv m t closure stack escaped \<longleftrightarrow>
     set closure \<union> set stack \<subseteq> (needs m)\<^sup>* `` {t} \<and> t \<in> set closure \<union> set stack \<and>
     needs m `` set closure \<subseteq> set closure \<union> set stack \<and>
     set escaped = (\<Union>d\<in>set closure. escapes m d) \<and> distinct escaped \<and> distinct closure"

lemma walk_inv_visit:
  assumes inv: "walk_inv m t closure (cur # stack) escaped" and new: "cur \<notin> set closure"
    and pkg: "by_dir m cur = Some pkg"
    and v: "visit_deps (member_dirs m) (cur # closure) (dependencies pkg) (stack, escaped) = (stack', escaped')"
  shows "walk_inv m t (cur # closure) stack' escaped'"
proof -
  have s: "set stack' = set stack \<union> (needs m `` {cur} - set (cur # closure))"
    using visit_deps_stack [of "member_dirs m" "cur # closure" "dependencies pkg" stack escaped] v pkg
    by (auto simp: needs_def normal_deps_def)
  have e: "set escaped' = set escaped \<union> escapes m cur"
    using visit_deps_escaped [of "member_dirs m" "cur # closure" "dependencies pkg" stack escaped] v pkg
    by (auto simp: escapes_def normal_deps_def)
  have "distinct escaped'"
    using visit_deps_distinct [of escaped "member_dirs m" "cur # closure" "dependencies pkg" stack] v inv
    by (simp add: walk_inv_def)
  moreover have "needs m `` {cur} \<subseteq> (needs m)\<^sup>* `` {t}"
  proof
    fix d
    assume "d \<in> needs m `` {cur}"
    moreover have "(t, cur) \<in> (needs m)\<^sup>*" using inv by (auto simp: walk_inv_def)
    ultimately show "d \<in> (needs m)\<^sup>* `` {t}" by (auto intro: rtrancl.rtrancl_into_rtrancl)
  qed
  ultimately show ?thesis
    using inv new s e unfolding walk_inv_def by auto
qed

lemma walk_inv_leaf:
  assumes "walk_inv m t closure (cur # stack) escaped" "cur \<notin> set closure" "by_dir m cur = None"
  shows "walk_inv m t (cur # closure) stack escaped"
proof -
  have "needs m `` {cur} = {}" "escapes m cur = {}"
    using assms(3) by (auto simp: needs_def escapes_def normal_deps_def)
  with assms(1,2) show ?thesis unfolding walk_inv_def by auto
qed

lemma closure_walk_inv:
  assumes "walk_inv m t closure stack escaped"
    and "closure_walk (member_dirs m) (by_dir m) closure stack escaped = (c, e)"
  shows "walk_inv m t c [] e"
  using assms
proof (induction "member_dirs m" "by_dir m" closure stack escaped rule: closure_walk.induct)
  case (2 closure cur stack escaped)
  show ?case
  proof (cases "cur \<in> set closure")
    case True
    with 2 show ?thesis by (auto simp: walk_inv_def insert_absorb)
  next
    case new: False
    show ?thesis
    proof (cases "by_dir m cur")
      case None
      with 2 new walk_inv_leaf [of m t closure cur stack escaped] show ?thesis by simp
    next
      case (Some pkg)
      obtain stack' escaped' where
        v: "visit_deps (member_dirs m) (cur # closure) (dependencies pkg) (stack, escaped) = (stack', escaped')"
        by fastforce
      from walk_inv_visit [OF 2(4) new Some v] 2 new Some v show ?thesis by simp
    qed
  qed
qed simp

lemma closed_image: "R `` S \<subseteq> S \<Longrightarrow> t \<in> S \<Longrightarrow> R\<^sup>* `` {t} \<subseteq> S"
proof
  fix x
  assume "R `` S \<subseteq> S" "t \<in> S" "x \<in> R\<^sup>* `` {t}"
  then have "(t, x) \<in> R\<^sup>*" by simp
  then show "x \<in> S" using \<open>R `` S \<subseteq> S\<close> \<open>t \<in> S\<close> by (induction rule: rtrancl_induct) auto
qed

lemma closure_spec:
  assumes "closure_from_metadata m name = Some r"
  obtains t where "scope_target m name = Some t"
    and "set (cr_dirs r) = (needs m)\<^sup>* `` {dir_of t}" "sorted (cr_dirs r)" "distinct (cr_dirs r)"
    and "set (cr_out_of_workspace r) = (\<Union>d\<in>set (cr_dirs r). escapes m d)"
    and "sorted (cr_out_of_workspace r)" "distinct (cr_out_of_workspace r)"
proof -
  obtain t c e where t: "scope_target m name = Some t"
    and w: "closure_walk (member_dirs m) (by_dir m) [] [dir_of t] [] = (c, e)"
    and r: "r = \<lparr>cr_dirs = sort c, cr_out_of_workspace = sort e\<rparr>"
    using assms by (auto simp: closure_from_metadata_def split: option.splits prod.splits)
  have "walk_inv m (dir_of t) c [] e"
    by (rule closure_walk_inv [OF _ w]) (simp add: walk_inv_def)
  then have "set c \<subseteq> (needs m)\<^sup>* `` {dir_of t}" "dir_of t \<in> set c" "needs m `` set c \<subseteq> set c"
    "set e = (\<Union>d\<in>set c. escapes m d)" "distinct e" "distinct c"
    by (auto simp: walk_inv_def)
  with closed_image [of "needs m" "set c" "dir_of t"] show thesis
    by (intro that [OF t]) (auto simp: r)
qed

section \<open>Properties\<close>

text \<open>C19. The scoped upload is the dependency closure: the directories are exactly the member crates
  reachable from the target by normal path dependencies, listed sorted and once; the dependencies reported
  as leaving the workspace are exactly those of the crates in the closure.\<close>

theorem closure_is_reachability:
  assumes "closure_from_metadata m name = Some r"
  shows "\<exists>t. scope_target m name = Some t \<and> set (cr_dirs r) = (needs m)\<^sup>* `` {dir_of t} \<and>
     sorted (cr_dirs r) \<and> distinct (cr_dirs r) \<and>
     set (cr_out_of_workspace r) = (\<Union>d\<in>set (cr_dirs r). escapes m d) \<and> distinct (cr_out_of_workspace r)"
  by (rule closure_spec [OF assms]) blast

text \<open>A workspace of three crates: \<open>app\<close> needs \<open>lib\<close>, and \<open>tool\<close> only for its tests.\<close>

definition sample :: metadata where
  "sample = \<lparr>workspace_members = [''a'', ''l'', ''t''], workspace_root = [''ws''],
     packages =
       [\<lparr>pkg_id = ''a'', pkg_name = ''app'', manifest_path = [''ws'', ''app'', ''Cargo.toml''],
         dependencies = [\<lparr>dep_name = ''lib'', dep_kind = None, dep_path = Some [''ws'', ''lib'']\<rparr>,
            \<lparr>dep_name = ''serde'', dep_kind = None, dep_path = None\<rparr>,
            \<lparr>dep_name = ''tool'', dep_kind = Some ''dev'', dep_path = Some [''ws'', ''tool'']\<rparr>],
         targets = []\<rparr>,
        \<lparr>pkg_id = ''l'', pkg_name = ''lib'', manifest_path = [''ws'', ''lib'', ''Cargo.toml''], dependencies = [], targets = []\<rparr>,
        \<lparr>pkg_id = ''t'', pkg_name = ''tool'', manifest_path = [''ws'', ''tool'', ''Cargo.toml''], dependencies = [], targets = []\<rparr>]\<rparr>"

lemma sample_closure: "closure_from_metadata sample ''app'' =
    Some \<lparr>cr_dirs = [[''ws'', ''app''], [''ws'', ''lib'']], cr_out_of_workspace = []\<rparr>"
  by code_simp

theorem closure_is_reachability_witness:
  "\<exists>t. scope_target sample ''app'' = Some t \<and> {[''ws'', ''app''], [''ws'', ''lib'']} = (needs sample)\<^sup>* `` {dir_of t}"
  using closure_is_reachability [OF sample_closure] by auto

end
