(* ===== verification/Workspace.thy ===== *)
theory Workspace
  imports Scope
begin

text \<open>
  The upload set of a package (\<open>workspace_closure\<close>, its lenient and stub variants in
  \<open>crates/modal-rust/src/scope.rs\<close>) and the generated runner it carries
  (\<open>crates/modal-rust/src/runner_gen.rs\<close>).  The disk and cargo are records of functions; a file's bytes
  are a \<open>string\<close>.
\<close>

record disk =
  is_file :: "path \<Rightarrow> bool"
  read_to_string :: "path \<Rightarrow> string + string"

text \<open>\<open>cargo metadata\<close>: the error of spawning it, or its exit status and output; and serde's reading of
  that output.\<close>

record cargo =
  cargo_output :: "path \<Rightarrow> string + bool \<times> string"
  metadata_of_json :: "string \<Rightarrow> string + metadata"

definition run_cargo_metadata :: "cargo \<Rightarrow> path \<Rightarrow> metadata option" where
  "run_cargo_metadata C manifest =
     (case cargo_output C manifest of
        Inl _ \<Rightarrow> None
      | Inr (success, stdout) \<Rightarrow>
          if \<not> success then None
          else (case metadata_of_json C stdout of Inr m \<Rightarrow> Some m | Inl _ \<Rightarrow> None))"

section \<open>The generated runner\<close>

definition RUNNER_BIN_NAME :: string where "RUNNER_BIN_NAME = ''modal_runner''"
definition FACADE_PACKAGE :: string where "FACADE_PACKAGE = ''modal-rust''"

record runner_target =
  rt_package :: string
  lib_ident :: string
  facade_extern :: "string option"
  crate_rel :: string
  has_own_runner_bin :: bool
  bin_targets :: "string list"

definition is_generatable :: "runner_target \<Rightarrow> bool" where
  "is_generatable t \<longleftrightarrow> \<not> has_own_runner_bin t \<and> facade_extern t \<noteq> None"

definition is_runnable :: "runner_target \<Rightarrow> bool" where
  "is_runnable t \<longleftrightarrow> is_generatable t \<or> has_own_runner_bin t"

definition underscores :: "string \<Rightarrow> string" where
  "underscores = map (\<lambda>c. if c = CHR ''-'' then CHR ''_'' else c)"

definition lib_ident_of :: "package \<Rightarrow> string" where
  "lib_ident_of p =
     (case find (\<lambda>t. ''lib'' \<in> set (tg_kind t)) (targets p) of
        Some t \<Rightarrow> tg_name t
      | None \<Rightarrow> underscores (pkg_name p))"

definition has_modal_runner_bin :: "package \<Rightarrow> bool" where
  "has_modal_runner_bin p \<longleftrightarrow>
     list_ex (\<lambda>t. tg_name t = RUNNER_BIN_NAME \<and> ''bin'' \<in> set (tg_kind t)) (targets p)"

definition bin_target_names :: "package \<Rightarrow> string list" where
  "bin_target_names p = map tg_name (filter (\<lambda>t. ''bin'' \<in> set (tg_kind t)) (targets p))"

definition crate_rel_of :: "path \<Rightarrow> package \<Rightarrow> string" where
  "crate_rel_of base p =
     (case path_strip_prefix base (dir_of p) of
        Some rel \<Rightarrow> to_posix rel
      | None \<Rightarrow> if dir_of p = [] then [] else last (dir_of p))"

definition effective_package :: "string \<times> toml \<Rightarrow> string" where
  "effective_package = (\<lambda>(key, item).
     let renamed = (\<lambda>t. case map_of t ''package'' of Some (TStr s) \<Rightarrow> s | _ \<Rightarrow> key) in
     case item of TInline t \<Rightarrow> renamed t | TTable t \<Rightarrow> renamed t | _ \<Rightarrow> key)"

definition facade_extern_name :: "toml_edit \<Rightarrow> string \<Rightarrow> string option" where
  "facade_extern_name E manifest =
     (case toml_parse E manifest of
        Inl _ \<Rightarrow> None
      | Inr doc \<Rightarrow>
          (case sub_table doc ''dependencies'' of
             None \<Rightarrow> None
           | Some (_, deps) \<Rightarrow>
               map_option (\<lambda>(key, _). underscores key)
                 (find (\<lambda>d. effective_package d = FACADE_PACKAGE) deps)))"

definition resolve_from_metadata :: "disk \<Rightarrow> toml_edit \<Rightarrow> metadata \<Rightarrow> string \<Rightarrow> runner_target option" where
  "resolve_from_metadata D E m name =
     (case scope_target m name of
        None \<Rightarrow> None
      | Some p \<Rightarrow>
          Some \<lparr>rt_package = name, lib_ident = lib_ident_of p,
                facade_extern = (case read_to_string D (manifest_path p) of
                                   Inr s \<Rightarrow> facade_extern_name E s | Inl _ \<Rightarrow> None),
                crate_rel = crate_rel_of (workspace_root m) p,
                has_own_runner_bin = has_modal_runner_bin p, bin_targets = bin_target_names p\<rparr>)"

definition resolve_runner_target :: "disk \<Rightarrow> cargo \<Rightarrow> toml_edit \<Rightarrow> path \<Rightarrow> string \<Rightarrow> runner_target option" where
  "resolve_runner_target D C E base name =
     (let manifest = base @ [''Cargo.toml''] in
      if \<not> is_file D manifest then None
      else case run_cargo_metadata C manifest of
             None \<Rightarrow> None
           | Some m \<Rightarrow> resolve_from_metadata D E m name)"

text \<open>\<open>render_runner_main\<close> panics without an extern name; its callers check \<open>is_generatable\<close> first.\<close>

definition render_runner_main :: "runner_target \<Rightarrow> string option" where
  "render_runner_main t =
     (case facade_extern t of
        None \<Rightarrow> None
      | Some facade \<Rightarrow> Some (
          ''// AUTO-GENERATED by modal-rust: the tooling injects this runner bin into the'' @ nl
          @ ''// build/upload copy of the crate so `cargo build -p '' @ rt_package t @ '' --bin '' @ RUNNER_BIN_NAME
          @ ''` resolves'' @ nl
          @ ''// with NO Cargo.toml edit. Do not commit; your crate stays a pure library.'' @ nl
          @ facade @ ''::modal_runner!('' @ lib_ident t @ '');'' @ nl))"

definition injected_runner_rel_path :: "runner_target \<Rightarrow> string" where
  "injected_runner_rel_path t =
     (if crate_rel t = [] then ''src/bin/'' @ RUNNER_BIN_NAME @ ''.rs''
      else crate_rel t @ ''/src/bin/'' @ RUNNER_BIN_NAME @ ''.rs'')"

definition runner_file_for :: "runner_target \<Rightarrow> (string \<times> string) option" where
  "runner_file_for t =
     (if \<not> is_generatable t then None
      else map_option (\<lambda>body. (injected_runner_rel_path t, body)) (render_runner_main t))"

definition injected_runner_file_from_metadata ::
  "disk \<Rightarrow> toml_edit \<Rightarrow> metadata \<Rightarrow> string \<Rightarrow> (string \<times> string) option" where
  "injected_runner_file_from_metadata D E m name =
     (case resolve_from_metadata D E m name of None \<Rightarrow> None | Some t \<Rightarrow> runner_file_for t)"

definition injected_runner_file :: "disk \<Rightarrow> cargo \<Rightarrow> toml_edit \<Rightarrow> path \<Rightarrow> string \<Rightarrow> (string \<times> string) option" where
  "injected_runner_file D C E base name =
     (case resolve_runner_target D C E base name of None \<Rightarrow> None | Some t \<Rightarrow> runner_file_for t)"

section \<open>The upload set\<close>

record closure_upload =
  cu_dirs :: "path list"
  cu_extra_files :: "path list"
  cu_inline_files :: "(string \<times> string) list"

text \<open>The manifest of one member crate without its dev-dependencies, when it declares any.\<close>

definition member_manifest :: "disk \<Rightarrow> toml_edit \<Rightarrow> path \<Rightarrow> path \<Rightarrow> (string \<times> string) option" where
  "member_manifest D E base dir =
     (case path_strip_prefix base dir of
        None \<Rightarrow> None
      | Some rel \<Rightarrow>
          if rel = [] then None
          else case read_to_string D (dir @ [''Cargo.toml'']) of
                 Inl _ \<Rightarrow> None
               | Inr original \<Rightarrow>
                   (case strip_dev_dependencies E original of
                      Inr (Some stripped) \<Rightarrow> Some (to_posix rel @ ''/Cargo.toml'', stripped)
                    | _ \<Rightarrow> None))"

definition build_closure_upload ::
  "disk \<Rightarrow> toml_edit \<Rightarrow> metadata \<Rightarrow> string \<Rightarrow> path list \<Rightarrow> closure_upload option" where
  "build_closure_upload D E m name dirs =
     (let base = workspace_root m in
      case read_to_string D (base @ [''Cargo.toml'']) of
        Inl _ \<Rightarrow> None
      | Inr original \<Rightarrow>
          (case rewrite_workspace_members E original base dirs of
             Inl _ \<Rightarrow> None
           | Inr rewritten \<Rightarrow>
               (let extra_files = filter (is_file D) [base @ [''Cargo.lock'']];
                    inline_files = [(''Cargo.toml'', rewritten)];
                    inline_files = inline_files @ List.map_filter (member_manifest D E base) dirs;
                    inline_files = inline_files @
                      (case injected_runner_file_from_metadata D E m name of Some f \<Rightarrow> [f] | None \<Rightarrow> [])
                in Some \<lparr>cu_dirs = dirs, cu_extra_files = extra_files, cu_inline_files = inline_files\<rparr>)))"

definition path_display :: "path \<Rightarrow> string" where "path_display p = ''/'' @ to_posix p"

definition out_of_workspace_error :: "string \<Rightarrow> out_dep list \<Rightarrow> string" where
  "out_of_workspace_error name deps =
     ''package '' @ [CHR 0x27] @ name @ [CHR 0x27] @ '' depends on '' @ dec (length deps)
     @ '' crate(s) by a path OUTSIDE the uploaded workspace, whose source cannot be uploaded to Modal:'' @ nl
     @ concat (map (\<lambda>(n, q). ''  - '' @ n @ '' (path = '' @ path_display q @ '')'' @ nl) deps)
     @ ''Remote run/deploy uploads only the workspace dependency closure, so an out-of-workspace path-dep ''
     @ ''would make the in-container `cargo build` fail to read its Cargo.toml. Fix by depending on these ''
     @ ''crates via a git or version (crates.io) spec, or by vendoring them into this workspace. (Local ''
     @ ''`--describe` resolves out-of-workspace path-deps against your on-disk tree, so it is unaffected.)''"

text \<open>\<open>Inl\<close> is the hard error; \<open>Inr None\<close> the fall-back to an upload of the whole source root.\<close>

definition workspace_closure ::
  "disk \<Rightarrow> cargo \<Rightarrow> toml_edit \<Rightarrow> path \<Rightarrow> string \<Rightarrow> string + closure_upload option" where
  "workspace_closure D C E base name =
     (let manifest = base @ [''Cargo.toml''] in
      if \<not> is_file D manifest then Inr None
      else case run_cargo_metadata C manifest of
             None \<Rightarrow> Inr None
           | Some m \<Rightarrow>
               (case closure_from_metadata m name of
                  None \<Rightarrow> Inr None
                | Some r \<Rightarrow>
                    if cr_out_of_workspace r \<noteq> []
                    then Inl (out_of_workspace_error name (cr_out_of_workspace r))
                    else Inr (build_closure_upload D E m name (cr_dirs r))))"

definition describe_cache_inputs :: "disk \<Rightarrow> cargo \<Rightarrow> path \<Rightarrow> string \<Rightarrow> path list option" where
  "describe_cache_inputs D C base name =
     (let manifest = base @ [''Cargo.toml''] in
      if \<not> is_file D manifest then None
      else case run_cargo_metadata C manifest of
             None \<Rightarrow> None
           | Some m \<Rightarrow> map_option cr_dirs (closure_from_metadata m name))"

definition workspace_closure_lenient ::
  "disk \<Rightarrow> cargo \<Rightarrow> toml_edit \<Rightarrow> path \<Rightarrow> string \<Rightarrow> closure_upload option" where
  "workspace_closure_lenient D C E base name =
     (let manifest = base @ [''Cargo.toml''] in
      if \<not> is_file D manifest then None
      else case run_cargo_metadata C manifest of
             None \<Rightarrow> None
           | Some m \<Rightarrow>
               (case closure_from_metadata m name of
                  None \<Rightarrow> None
                | Some r \<Rightarrow> build_closure_upload D E m name (cr_dirs r)))"

section \<open>The stub of the prebuild layer\<close>

record stub_upload =
  su_extra_files :: "path list"
  su_inline_files :: "(string \<times> string) list"

definition stub_source_body :: "string list \<Rightarrow> string" where
  "stub_source_body kind = (if ''bin'' \<in> set kind \<or> ''custom-build'' \<in> set kind then ''fn main() {}'' @ nl else [])"

definition add_inline :: "string \<Rightarrow> string \<Rightarrow> (string \<times> string) list \<Rightarrow> (string \<times> string) list" where
  "add_inline p body files = (if p \<in> fst ` set files then files else files @ [(p, body)])"

definition stub_target :: "path \<Rightarrow> target \<Rightarrow> (string \<times> string) list \<Rightarrow> (string \<times> string) list" where
  "stub_target base t files =
     (case tg_src_path t of
        None \<Rightarrow> files
      | Some src \<Rightarrow>
          (case path_strip_prefix base src of
             None \<Rightarrow> files
           | Some rel \<Rightarrow> add_inline (to_posix rel) (stub_source_body (tg_kind t)) files))"

definition stub_package :: "path \<Rightarrow> package \<Rightarrow> (string \<times> string) list \<Rightarrow> (string \<times> string) list" where
  "stub_package base p files =
     (let files = fold (stub_target base) (targets p) files in
      if targets p = []
      then (case path_strip_prefix base (dir_of p) of
              None \<Rightarrow> files
            | Some rel \<Rightarrow>
                add_inline (if to_posix rel = [] then ''src/lib.rs'' else to_posix rel @ ''/src/lib.rs'') [] files)
      else files)"

definition stub_upload_from_closure :: "metadata \<Rightarrow> closure_upload \<Rightarrow> stub_upload" where
  "stub_upload_from_closure m up =
     (let pkgs = sort_key pkg_id (filter (\<lambda>p. dir_of p \<in> set (cu_dirs up)) (member_packages m));
          files = fold (stub_package (workspace_root m)) pkgs (cu_inline_files up)
      in \<lparr>su_extra_files = cu_extra_files up, su_inline_files = sort_key fst files\<rparr>)"

definition workspace_closure_stub ::
  "disk \<Rightarrow> cargo \<Rightarrow> toml_edit \<Rightarrow> path \<Rightarrow> string \<Rightarrow> string + stub_upload option" where
  "workspace_closure_stub D C E base name =
     (let manifest = base @ [''Cargo.toml''] in
      if \<not> is_file D manifest then Inr None
      else case run_cargo_metadata C manifest of
             None \<Rightarrow> Inr None
           | Some m \<Rightarrow>
               (case closure_from_metadata m name of
                  None \<Rightarrow> Inr None
                | Some r \<Rightarrow>
                    if cr_out_of_workspace r \<noteq> []
                    then Inl (out_of_workspace_error name (cr_out_of_workspace r))
                    else (case build_closure_upload D E m name (cr_dirs r) of
                            None \<Rightarrow> Inr None
                          | Some up \<Rightarrow> Inr (Some (stub_upload_from_closure m up)))))"

section \<open>Facts\<close>

lemma build_closure_upload_dirs: "build_closure_upload D E m name dirs = Some up \<Longrightarrow> cu_dirs up = dirs"
  by (auto simp: build_closure_upload_def Let_def split: sum.splits)

lemma normal_deps_split: "normal_deps m d = {(n, q) \<in> normal_deps m d. (d, q) \<in> needs m} \<union> escapes m d"
  by (auto simp: needs_def escapes_def)

lemma relative_members_set:
  "set (relative_members base dirs) = {to_posix rel | rel. base @ rel \<in> set dirs \<and> to_posix rel \<noteq> []}"
  by (auto simp: relative_members_def map_filter_def path_strip_prefix_Some image_iff)

lemma sorted_remdups_adj: "sorted xs \<Longrightarrow> sorted_wrt (<) (remdups_adj xs)" for xs :: "'a :: linorder list"
  by (induction xs rule: remdups_adj.induct) (auto simp: less_le)

lemma relative_members_distinct: "distinct (relative_members base dirs) \<and> sorted (relative_members base dirs)"
  using sorted_remdups_adj [of "sort _"] by (simp add: relative_members_def strict_sorted_iff)

lemma member_manifest_agree:
  assumes "\<And>p. last p = ''Cargo.toml'' \<Longrightarrow> read_to_string D p = read_to_string D' p"
  shows "member_manifest D E base = member_manifest D' E base"
proof -
  have "read_to_string D (d @ [''Cargo.toml'']) = read_to_string D' (d @ [''Cargo.toml''])" for d
    by (rule assms) simp
  then show ?thesis by (simp add: member_manifest_def fun_eq_iff split: option.split)
qed

lemma scope_target_member: "scope_target m name = Some p \<Longrightarrow> p \<in> set (packages m)"
  by (auto simp: scope_target_def find_Some_iff)

lemma build_closure_upload_agree:
  assumes "\<And>p. last p = ''Cargo.toml'' \<Longrightarrow> read_to_string D p = read_to_string D' p"
    and "\<And>p. last p = ''Cargo.lock'' \<Longrightarrow> is_file D p = is_file D' p"
    and "\<And>p. p \<in> set (packages m) \<Longrightarrow> last (manifest_path p) = ''Cargo.toml''"
  shows "build_closure_upload D E m name dirs = build_closure_upload D' E m name dirs"
proof -
  have "resolve_from_metadata D E m name = resolve_from_metadata D' E m name"
    using assms(1,3) scope_target_member by (auto simp: resolve_from_metadata_def split: option.split)
  then have "injected_runner_file_from_metadata D E m name = injected_runner_file_from_metadata D' E m name"
    by (simp add: injected_runner_file_from_metadata_def)
  moreover have "is_file D (base @ [''Cargo.lock'']) = is_file D' (base @ [''Cargo.lock''])" for base
    using assms(2) by simp
  ultimately show ?thesis
    using assms(1) [of "workspace_root m @ [''Cargo.toml'']"] member_manifest_agree [of D D' E, OF assms(1)]
    by (simp add: build_closure_upload_def Let_def split: sum.split)
qed

lemma workspace_closure_computed:
  assumes "run_cargo_metadata C (base @ [''Cargo.toml'']) = Some m" and "closure_from_metadata m name = Some r"
  shows "workspace_closure D C E base name =
     (if \<not> is_file D (base @ [''Cargo.toml'']) then Inr None
      else if cr_out_of_workspace r \<noteq> [] then Inl (out_of_workspace_error name (cr_out_of_workspace r))
      else Inr (build_closure_upload D E m name (cr_dirs r)))"
  by (simp add: workspace_closure_def Let_def assms)

lemma closed_without_escapes:
  assumes "set dirs = (needs m)\<^sup>* `` {t}" and "(\<Union>d\<in>set dirs. escapes m d) = {}"
  shows "\<forall>d\<in>set dirs. snd ` normal_deps m d \<subseteq> set dirs"
proof (intro ballI subsetI)
  fix d q
  assume d: "d \<in> set dirs" and "q \<in> snd ` normal_deps m d"
  moreover from d assms(2) have "escapes m d = {}" by blast
  ultimately have "(d, q) \<in> needs m" by (subst (asm) normal_deps_split) auto
  with d show "q \<in> set dirs" unfolding assms(1) by (auto intro: rtrancl.rtrancl_into_rtrancl)
qed

section \<open>Properties\<close>


text \<open>The uploaded workspace manifest is consistent with the upload: its \<open>members\<close> are exactly the uploaded
  directories below the root, relative to it, sorted and without repeats; \<open>default-members\<close>, when there,
  are the same; and nothing is excluded.\<close>

lemma rewritten_members_are_uploaded:
  assumes "toml_parse E original = Inr doc" and "sub_table doc ''workspace'' = Some (item, ws)"
    and "rewrite_workspace_members E original base dirs = Inr text"
  shows "\<exists>doc' ws' ms. text = toml_show E doc' \<and> map_of doc' ''workspace'' = Some (with_entries item ws') \<and>
     map_of ws' ''members'' = Some (TArray (map TStr ms)) \<and>
     set ms = {to_posix rel | rel. base @ rel \<in> set dirs \<and> to_posix rel \<noteq> []} \<and> distinct ms \<and> sorted ms \<and>
     map_of ws' ''default-members'' \<in> {None, Some (TArray (map TStr ms))} \<and>
     map_of ws' ''exclude'' \<in> {None, Some (TArray [])} \<and>
     (\<forall>k. k \<noteq> ''workspace'' \<longrightarrow> map_of doc' k = map_of doc k) \<and>
     (\<forall>k. k \<notin> {''members'', ''default-members'', ''exclude''} \<longrightarrow> map_of ws' k = map_of ws k)"
proof -
  let ?ws = "scoped_workspace base dirs ws"
  have t: "text = toml_show E (AList.update ''workspace'' (with_entries item ?ws) doc)"
    using assms by (simp add: rewrite_workspace_members_def)
  show ?thesis
    by (rule exI [of _ "AList.update ''workspace'' (with_entries item ?ws) doc"], rule exI [of _ ?ws],
        rule exI [of _ "relative_members base dirs"])
       (auto simp: t update_conv' scoped_workspace_entries Let_def relative_members_set relative_members_distinct)
qed

text \<open>The prebuild layer is not invalidated by source edits: its stub depends on the manifests and the
  lock file only, so two source trees that differ in any other file give the same stub.\<close>

lemma stub_ignores_source:
  assumes "\<And>p. last p = ''Cargo.toml'' \<Longrightarrow> read_to_string D p = read_to_string D' p"
    and "\<And>p. last p \<in> {''Cargo.toml'', ''Cargo.lock''} \<Longrightarrow> is_file D p = is_file D' p"
    and "\<And>m p. run_cargo_metadata C (base @ [''Cargo.toml'']) = Some m \<Longrightarrow> p \<in> set (packages m) \<Longrightarrow>
           last (manifest_path p) = ''Cargo.toml''"
  shows "workspace_closure_stub D C E base name = workspace_closure_stub D' C E base name"
proof -
  have "is_file D (base @ [''Cargo.toml'']) = is_file D' (base @ [''Cargo.toml''])" using assms(2) by simp
  moreover have "build_closure_upload D E m name dirs = build_closure_upload D' E m name dirs"
    if "run_cargo_metadata C (base @ [''Cargo.toml'']) = Some m" for m dirs
    using assms that by (intro build_closure_upload_agree) auto
  ultimately show ?thesis by (simp add: workspace_closure_stub_def Let_def split: option.split)
qed

text \<open>A disk of empty files and a TOML library that reads every text as the same document.\<close>

definition sample_doc :: "(string \<times> toml) list" where
  "sample_doc = [(''workspace'', TTable [(''members'', TArray [TStr ''app'', TStr ''lib'', TStr ''tool''])])]"

definition sample_toml :: toml_edit where
  "sample_toml = \<lparr>toml_parse = (\<lambda>_. Inr sample_doc), toml_show = (\<lambda>_. ''manifest'')\<rparr>"

definition sample_cargo :: cargo where
  "sample_cargo = \<lparr>cargo_output = (\<lambda>_. Inr (True, [])), metadata_of_json = (\<lambda>_. Inr sample)\<rparr>"

definition sample_disk :: disk where
  "sample_disk = \<lparr>is_file = (\<lambda>_. True), read_to_string = (\<lambda>_. Inr [])\<rparr>"

lemma sample_metadata: "run_cargo_metadata sample_cargo p = Some sample"
  by (simp add: run_cargo_metadata_def sample_cargo_def)


lemma rewritten_members_are_uploaded_witness:
  "\<exists>doc' ws' ms. ''manifest'' = toml_show sample_toml doc' \<and>
     map_of doc' ''workspace'' = Some (with_entries (TTable [(''members'', TArray [TStr ''app'', TStr ''lib'', TStr ''tool''])]) ws') \<and>
     map_of ws' ''members'' = Some (TArray (map TStr ms)) \<and>
     set ms = {to_posix rel | rel. [''ws''] @ rel \<in> set [[''ws'', ''app''], [''ws'', ''lib'']] \<and> to_posix rel \<noteq> []} \<and>
     distinct ms \<and> sorted ms"
proof -
  have d: "toml_parse sample_toml [] = Inr sample_doc" by (simp add: sample_toml_def)
  have w: "sub_table sample_doc ''workspace'' =
      Some (TTable [(''members'', TArray [TStr ''app'', TStr ''lib'', TStr ''tool''])],
            [(''members'', TArray [TStr ''app'', TStr ''lib'', TStr ''tool''])])"
    by (simp add: sub_table_def sample_doc_def)
  have "rewrite_workspace_members sample_toml [] [''ws''] [[''ws'', ''app''], [''ws'', ''lib'']] = Inr ''manifest''"
    by (simp add: rewrite_workspace_members_def d w) (simp add: sample_toml_def)
  from rewritten_members_are_uploaded [OF d w this] show ?thesis
    by (elim exE conjE, intro exI conjI) assumption+
qed

lemma stub_ignores_source_witness:
  "workspace_closure_stub \<lparr>is_file = \<lambda>_. True, read_to_string = \<lambda>p. Inr []\<rparr> sample_cargo sample_toml [''ws''] ''app'' =
   workspace_closure_stub \<lparr>is_file = \<lambda>_. True,
     read_to_string = \<lambda>p. Inr (if last p = ''Cargo.toml'' then [] else ''fn edited() {}'')\<rparr> sample_cargo sample_toml [''ws''] ''app''"
proof (rule stub_ignores_source)
  fix m p
  assume "run_cargo_metadata sample_cargo ([''ws''] @ [''Cargo.toml'']) = Some m" "p \<in> set (packages m)"
  then show "last (manifest_path p) = ''Cargo.toml''"
    by (auto simp: run_cargo_metadata_def sample_cargo_def sample_def)
qed simp_all

end
