(* ===== verification/Resources.thy ===== *)
theory Resources
  imports Retry ClientConfig DictQueue Paths
begin

text \<open>
  Apps, hosted mounts and secrets: the request builders and the operations of
  \<open>crates/modal-rust-sdk/src/ops/app.rs\<close>, \<open>ops/mount.rs\<close> and \<open>ops/secret.rs\<close>.  A protocol map is a HOL
  map; the fields the code leaves at their default are left out of the records.
\<close>

section \<open>Apps\<close>

definition APP_STATE_EPHEMERAL :: int where "APP_STATE_EPHEMERAL = 1"
definition APP_STATE_DEPLOYED :: int where "APP_STATE_DEPLOYED = 3"

record app_get_or_create_request =
  ag_app_name :: string
  ag_environment_name :: string
  ag_object_creation_type :: int

record app_create_request =
  ac_client_id :: string
  ac_description :: string
  ac_environment_name :: string
  ac_app_state :: int
  ac_tags :: "string \<rightharpoonup> string"

record app_publish_request =
  ap_app_id :: string
  ap_name :: string
  ap_app_state :: int
  ap_function_ids :: "string \<rightharpoonup> string"
  ap_definition_ids :: "string \<rightharpoonup> string"

record 'f published_app =
  app_url :: string
  deployed_at :: 'f
  app_warnings :: "string list"

definition build_app_get_or_create_request :: "string \<Rightarrow> string \<Rightarrow> app_get_or_create_request" where
  "build_app_get_or_create_request app_name environment_name =
     \<lparr>ag_app_name = app_name, ag_environment_name = environment_name,
      ag_object_creation_type = creation_type_number CreateIfMissing\<rparr>"

definition build_app_create_request :: "string \<Rightarrow> string \<Rightarrow> app_create_request" where
  "build_app_create_request description environment_name =
     \<lparr>ac_client_id = [], ac_description = description, ac_environment_name = environment_name,
      ac_app_state = APP_STATE_EPHEMERAL, ac_tags = Map.empty\<rparr>"

definition build_app_publish_request ::
  "string \<Rightarrow> string \<Rightarrow> int \<Rightarrow> (string \<rightharpoonup> string) \<Rightarrow> (string \<rightharpoonup> string) \<Rightarrow> app_publish_request" where
  "build_app_publish_request app_id app_name app_state function_ids definition_ids =
     \<lparr>ap_app_id = app_id, ap_name = app_name, ap_app_state = app_state, ap_function_ids = function_ids,
      ap_definition_ids = definition_ids\<rparr>"

record ('w, 'f) app_stub =
  app_get_or_create_rpc :: "('w, app_get_or_create_request, string) rpc"
  app_create_rpc :: "('w, app_create_request, string) rpc"
  app_publish_rpc :: "('w, app_publish_request, 'f published_app) rpc"

definition app_get_or_create_id ::
  "'w host \<Rightarrow> ('w, 'f) app_stub \<Rightarrow> modal_config \<Rightarrow> string \<Rightarrow> string option \<Rightarrow> ('w, string) io" where
  "app_get_or_create_id h st c app_name env =
     retry_rpc h (app_get_or_create_rpc st) (build_app_get_or_create_request app_name (env_or_default c env))"

definition app_create_ephemeral ::
  "'w host \<Rightarrow> ('w, 'f) app_stub \<Rightarrow> modal_config \<Rightarrow> string \<Rightarrow> string option \<Rightarrow> ('w, string) io" where
  "app_create_ephemeral h st c description env =
     retry_rpc h (app_create_rpc st) (build_app_create_request description (env_or_default c env))"

text \<open>The response carries the same three fields as the result, its warnings as messages.\<close>

definition app_publish ::
  "'w host \<Rightarrow> ('w, 'f) app_stub \<Rightarrow> string \<Rightarrow> string \<Rightarrow> int \<Rightarrow> (string \<rightharpoonup> string) \<Rightarrow> (string \<rightharpoonup> string) \<Rightarrow>
     ('w, 'f published_app) io" where
  "app_publish h st app_id app_name app_state function_ids definition_ids =
     retry_rpc h (app_publish_rpc st) (build_app_publish_request app_id app_name app_state function_ids definition_ids)"

definition app_publish_ephemeral ::
  "'w host \<Rightarrow> ('w, 'f) app_stub \<Rightarrow> string \<Rightarrow> string \<Rightarrow> (string \<rightharpoonup> string) \<Rightarrow> (string \<rightharpoonup> string) \<Rightarrow>
     ('w, 'f published_app) io" where
  "app_publish_ephemeral h st app_id app_name = app_publish h st app_id app_name APP_STATE_EPHEMERAL"

definition app_publish_deployed ::
  "'w host \<Rightarrow> ('w, 'f) app_stub \<Rightarrow> string \<Rightarrow> string \<Rightarrow> (string \<rightharpoonup> string) \<Rightarrow> (string \<rightharpoonup> string) \<Rightarrow>
     ('w, 'f published_app) io" where
  "app_publish_deployed h st app_id app_name = app_publish h st app_id app_name APP_STATE_DEPLOYED"

section \<open>Mounts\<close>

definition NAMESPACE_WORKSPACE :: int where "NAMESPACE_WORKSPACE = 1"
definition NAMESPACE_GLOBAL :: int where "NAMESPACE_GLOBAL = 3"

record mount_file =
  mf_filename :: string
  mf_sha256_hex :: string
  mf_size :: "nat option"
  mf_mode :: "u32 option"

record mount_get_or_create_request =
  mg_deployment_name :: string
  mg_namespace :: int
  mg_environment_name :: string
  mg_object_creation_type :: int
  mg_files :: "mount_file list"
  mg_app_id :: string

definition build_mount_get_or_create_global_request :: "string \<Rightarrow> string \<Rightarrow> mount_get_or_create_request" where
  "build_mount_get_or_create_global_request deployment_name environment_name =
     \<lparr>mg_deployment_name = deployment_name, mg_namespace = NAMESPACE_GLOBAL, mg_environment_name = environment_name,
      mg_object_creation_type = creation_type_number OctUnspecified, mg_files = [], mg_app_id = []\<rparr>"

definition client_mount_name :: "string \<Rightarrow> string" where
  "client_mount_name version = ''modal-client-mount-'' @ version"

definition PYTHON_STANDALONE_VERSIONS :: "(string \<times> string \<times> string) list" where
  "PYTHON_STANDALONE_VERSIONS =
     [(''3.10'', ''20230826'', ''3.10.13''), (''3.11'', ''20230826'', ''3.11.5''),
      (''3.12'', ''20240107'', ''3.12.1''), (''3.13'', ''20241008'', ''3.13.0'')]"

definition python_standalone_mount_name :: "string \<Rightarrow> string option" where
  "python_standalone_mount_name series =
     map_option (\<lambda>(release, full). ''python-build-standalone.'' @ release @ ''.'' @ full @ ''-gnu'')
       (map_of PYTHON_STANDALONE_VERSIONS series)"

type_synonym 'w mount_rpc = "('w, mount_get_or_create_request, string) rpc"

definition global_mount_id ::
  "'w host \<Rightarrow> 'w mount_rpc \<Rightarrow> modal_config \<Rightarrow> string \<Rightarrow> string option \<Rightarrow> ('w, string option) io" where
  "global_mount_id h rpc c deployment_name env =
     bind_io (retry_rpc h rpc (build_mount_get_or_create_global_request deployment_name (env_or_default c env)))
       (\<lambda>i. ret (if i = [] then None else Some i))"

definition mount_id_for_version ::
  "'w host \<Rightarrow> 'w mount_rpc \<Rightarrow> modal_config \<Rightarrow> string \<Rightarrow> string option \<Rightarrow> ('w, string) io" where
  "mount_id_for_version h rpc c version env =
     (let deployment_name = client_mount_name version in
      bind_io (global_mount_id h rpc c deployment_name env) (\<lambda>i.
        lift_res (ok_or i (Build (''hosted client mount '' @ quoted deployment_name
          @ '' resolved to an empty mount_id; the worker image'' @ [CHR 0x27] @ ''s modal version may differ from ''
          @ CLIENT_VERSION @ '' (fall back to pip install modal via run_commands if needed)'')))))"

definition client_mount_id ::
  "'w host \<Rightarrow> 'w mount_rpc \<Rightarrow> modal_config \<Rightarrow> string option \<Rightarrow> ('w, string) io" where
  "client_mount_id h rpc c env = mount_id_for_version h rpc c CLIENT_VERSION env"

definition python_mount_id ::
  "'w host \<Rightarrow> 'w mount_rpc \<Rightarrow> modal_config \<Rightarrow> string \<Rightarrow> string option \<Rightarrow> ('w, string) io" where
  "python_mount_id h rpc c series env =
     bind_io (lift_res (ok_or (python_standalone_mount_name series)
         (Build (''unsupported standalone python series '' @ debug_str series @ ''; supported series: [''
           @ join_with '', '' (map (debug_str \<circ> fst) PYTHON_STANDALONE_VERSIONS) @ '']'')))) (\<lambda>deployment_name.
     bind_io (global_mount_id h rpc c deployment_name env) (\<lambda>i.
       lift_res (ok_or i (Build (''hosted python-standalone mount '' @ quoted deployment_name
         @ '' resolved to an empty mount_id (is the series supported on this server?)'')))))"

section \<open>Secrets\<close>

record secret_get_or_create_request =
  sg_deployment_name :: string
  sg_environment_name :: string
  sg_object_creation_type :: int
  sg_env_dict :: "string \<rightharpoonup> string"
  sg_required_keys :: "string list"

type_synonym 'w secret_rpc = "('w, secret_get_or_create_request, string) rpc"

definition build_secret_from_name_request :: "string \<Rightarrow> string list \<Rightarrow> string \<Rightarrow> secret_get_or_create_request" where
  "build_secret_from_name_request name required_keys environment_name =
     \<lparr>sg_deployment_name = name, sg_environment_name = environment_name,
      sg_object_creation_type = creation_type_number OctUnspecified, sg_env_dict = Map.empty,
      sg_required_keys = required_keys\<rparr>"

definition build_secret_from_dict_request ::
  "string \<Rightarrow> (string \<rightharpoonup> string) \<Rightarrow> string \<Rightarrow> secret_get_or_create_request" where
  "build_secret_from_dict_request name env environment_name =
     \<lparr>sg_deployment_name = name, sg_environment_name = environment_name,
      sg_object_creation_type = creation_type_number CreateIfMissing, sg_env_dict = env, sg_required_keys = []\<rparr>"

definition secret_get_or_create_inner ::
  "'w host \<Rightarrow> 'w secret_rpc \<Rightarrow> secret_get_or_create_request \<Rightarrow> string \<Rightarrow> ('w, string) io" where
  "secret_get_or_create_inner h rpc req name =
     bind_io (retry_rpc h rpc req) (\<lambda>i.
       if i = [] then throw (Build (''SecretGetOrCreate for '' @ quoted name @ '' returned an empty secret_id''))
       else ret i)"

definition secret_get_or_create ::
  "'w host \<Rightarrow> 'w secret_rpc \<Rightarrow> modal_config \<Rightarrow> string \<Rightarrow> string list \<Rightarrow> string option \<Rightarrow> ('w, string) io" where
  "secret_get_or_create h rpc c name required_keys env =
     secret_get_or_create_inner h rpc (build_secret_from_name_request name required_keys (env_or_default c env)) name"

definition secret_from_dict ::
  "'w host \<Rightarrow> 'w secret_rpc \<Rightarrow> modal_config \<Rightarrow> string \<Rightarrow> (string \<rightharpoonup> string) \<Rightarrow> string option \<Rightarrow> ('w, string) io" where
  "secret_from_dict h rpc c name vars env =
     secret_get_or_create_inner h rpc (build_secret_from_dict_request name vars (env_or_default c env)) name"

section \<open>Facts\<close>

text \<open>What a hosted mount id is: an id the service gave for the mount's name, and not the empty one.\<close>

lemma global_mount_id_genuine:
  assumes "global_mount_id h rpc c name env w = Some (Inr (Some i), w')"
  shows "i \<noteq> [] \<and> (\<exists>w0. rpc (build_mount_get_or_create_global_request name (env_or_default c env)) w0 = Some (Inr i, w'))"
proof -
  from assms have "i \<noteq> []" and
    r: "retry_rpc h rpc (build_mount_get_or_create_global_request name (env_or_default c env)) w = Some (Inr i, w')"
    by (auto simp: global_mount_id_def bind_io_Inr_iff split: if_splits)
  with unary.ok_from_stub [OF r] show ?thesis by blast
qed

lemma secret_inner_genuine:
  assumes "secret_get_or_create_inner h rpc req name w = Some (Inr i, w')"
  shows "i \<noteq> [] \<and> (\<exists>w0. rpc req w0 = Some (Inr i, w'))"
proof -
  from assms have "i \<noteq> []" and r: "retry_rpc h rpc req w = Some (Inr i, w')"
    by (auto simp: secret_get_or_create_inner_def bind_io_Inr_iff split: if_splits)
  with unary.ok_from_stub [OF r] show ?thesis by blast
qed

section \<open>Properties\<close>

text \<open>A resolved mount or secret id is genuine: it is not empty, and the service gave it for the name that was
  asked for; a standalone Python mount is only ever asked for in a supported series.\<close>

lemma resolved_ids_genuine:
  "(client_mount_id h mounts c env w = Some (Inr i, w') \<longrightarrow> i \<noteq> [] \<and>
      (\<exists>w0. mounts (build_mount_get_or_create_global_request (client_mount_name CLIENT_VERSION) (env_or_default c env)) w0 = Some (Inr i, w'))) \<and>
   (python_mount_id h mounts c series env w = Some (Inr i, w') \<longrightarrow> i \<noteq> [] \<and>
      (\<exists>name w0. python_standalone_mount_name series = Some name \<and> series \<in> fst ` set PYTHON_STANDALONE_VERSIONS \<and>
         mounts (build_mount_get_or_create_global_request name (env_or_default c env)) w0 = Some (Inr i, w'))) \<and>
   (secret_get_or_create h secrets c name required_keys env w = Some (Inr i, w') \<longrightarrow> i \<noteq> [] \<and>
      (\<exists>w0. secrets (build_secret_from_name_request name required_keys (env_or_default c env)) w0 = Some (Inr i, w'))) \<and>
   (secret_from_dict h secrets c name vars env w = Some (Inr i, w') \<longrightarrow> i \<noteq> [] \<and>
      (\<exists>w0. secrets (build_secret_from_dict_request name vars (env_or_default c env)) w0 = Some (Inr i, w')))"
proof (intro conjI impI)
  assume "client_mount_id h mounts c env w = Some (Inr i, w')"
  then have "global_mount_id h mounts c (client_mount_name CLIENT_VERSION) env w = Some (Inr (Some i), w')"
    by (auto simp: client_mount_id_def mount_id_for_version_def Let_def bind_io_Inr_iff dest!: sym [of "Inr _"])
  from global_mount_id_genuine [OF this] show "i \<noteq> []"
    and "\<exists>w0. mounts (build_mount_get_or_create_global_request (client_mount_name CLIENT_VERSION) (env_or_default c env)) w0 = Some (Inr i, w')"
    by blast+
next
  assume "python_mount_id h mounts c series env w = Some (Inr i, w')"
  then obtain name where name: "python_standalone_mount_name series = Some name"
    and g: "global_mount_id h mounts c name env w = Some (Inr (Some i), w')"
    by (auto simp: python_mount_id_def bind_io_Inr_iff dest!: sym [of "Inr _"])
  have "series \<in> fst ` set PYTHON_STANDALONE_VERSIONS"
    using name by (auto simp: python_standalone_mount_name_def dest!: map_of_SomeD intro: rev_image_eqI)
  with name global_mount_id_genuine [OF g] show "i \<noteq> []"
    and "\<exists>name w0. python_standalone_mount_name series = Some name \<and> series \<in> fst ` set PYTHON_STANDALONE_VERSIONS \<and>
         mounts (build_mount_get_or_create_global_request name (env_or_default c env)) w0 = Some (Inr i, w')"
    by blast+
qed (auto simp: secret_get_or_create_def secret_from_dict_def dest: secret_inner_genuine)

lemma resolved_ids_genuine_witness:
  "''sc-1'' \<noteq> [] \<and> (\<exists>w0. tick_rpc (Inr ''sc-1'') (build_secret_from_name_request ''s'' [''K''] (env_or_default token_config None)) w0 = Some (Inr ''sc-1'', (1, 1)))"
proof -
  have "secret_get_or_create tick_host (tick_rpc (Inr ''sc-1'')) token_config ''s'' [''K''] None (0, 0) = Some (Inr ''sc-1'', (1, 1))"
    by (simp add: secret_get_or_create_def secret_get_or_create_inner_def bind_io_def ret_def)
  then show ?thesis
    using resolved_ids_genuine [of tick_host "\<lambda>_ _. None" token_config None "(0, 0)" "''sc-1''" "(1, 1)" "[]"
        "tick_rpc (Inr ''sc-1'')" "''s''" "[''K'']" Map.empty]
    by blast
qed

end
