(* ===== verification/Volume.thy ===== *)
theory Volume
  imports Retry ClientConfig DictQueue Paths "HOL-Library.Multiset"
begin

text \<open>
  Volumes (\<open>crates/modal-rust-sdk/src/ops/volume.rs\<close>): resolution by name, the plan of an upload from a
  file or directory, and the two-round block protocol.  The file system is a tree read at a path for
  the plan, and a record of read operations on open files for the upload; SHA-256 is a parameter.
\<close>

unbundle bit_operations_syntax

section \<open>Resolution\<close>

record volume_get_or_create_request =
  vg_deployment_name :: string
  vg_environment_name :: string
  vg_object_creation_type :: int
  vg_version :: int

definition FS_VERSION_UNSPECIFIED :: int where "FS_VERSION_UNSPECIFIED = 0"
definition FS_VERSION_V2 :: int where "FS_VERSION_V2 = 2"

definition build_volume_get_or_create_request ::
  "string \<Rightarrow> bool \<Rightarrow> bool \<Rightarrow> string \<Rightarrow> volume_get_or_create_request" where
  "build_volume_get_or_create_request name v2 create_if_missing environment_name =
     \<lparr>vg_deployment_name = name, vg_environment_name = environment_name,
      vg_object_creation_type = creation_type_number (if create_if_missing then CreateIfMissing else OctUnspecified),
      vg_version = (if v2 then FS_VERSION_V2 else FS_VERSION_UNSPECIFIED)\<rparr>"

record put_block =
  contents_sha256 :: bytes
  put_response :: "bytes option"

record put_file =
  pf_path :: string
  pf_size :: nat
  pf_mode :: "u32 option"
  pf_blocks :: "put_block list"

record volume_put_request =
  vp_volume_id :: string
  vp_files :: "put_file list"
  vp_disallow_overwrite_existing_files :: bool

record missing_block =
  mb_file_index :: nat
  mb_block_index :: nat
  mb_put_url :: string

record 'w volume_stub =
  volume_get_or_create_rpc :: "('w, volume_get_or_create_request, string) rpc"
  volume_put_files2_rpc :: "('w, volume_put_request, missing_block list) rpc"

definition volume_get_or_create ::
  "'w host \<Rightarrow> 'w volume_stub \<Rightarrow> modal_config \<Rightarrow> string \<Rightarrow> bool \<Rightarrow> bool \<Rightarrow> string option \<Rightarrow> ('w, string) io" where
  "volume_get_or_create h st c name v2 create_if_missing env =
     bind_io (retry_rpc h (volume_get_or_create_rpc st)
         (build_volume_get_or_create_request name v2 create_if_missing (env_or_default c env)))
       (\<lambda>i. if i = [] then throw (Build (''VolumeGetOrCreate for '' @ quoted name @ '' returned an empty volume_id''))
            else ret i)"

section \<open>The plan of an upload\<close>

record planned_file =
  pl_local :: path
  pl_remote :: string
  pl_mode :: u32

definition normalize_remote :: "string \<Rightarrow> error + string" where
  "normalize_remote remote =
     (let trimmed = trim_start_matches (\<lambda>c. c = CHR ''/'') remote in
      if trimmed = [] \<or> ends_with CHR ''/'' trimmed
      then Inl (Invalid (''remote path '' @ quoted remote @ '' must refer to a file (cannot be empty or end with '' @ quoted ''/'' @ '')''))
      else if list_ex (\<lambda>c. c = [] \<or> c = ''.'' \<or> c = ''..'') (split_on CHR ''/'' trimmed)
      then Inl (Invalid (''remote path '' @ quoted remote @ '' must not contain empty, '' @ quoted ''.'' @ '' or '' @ quoted ''..'' @ '' components''))
      else Inr trimmed)"

text \<open>What the file system shows below a path: mode bits of regular files, directories with their entries
  in the order \<open>read_dir\<close> gives them, or the errors met on the way.\<close>

datatype node = Regular u32 | Directory "dir_entry list" | UnreadableDir string | Special
and dir_entry = Entry string node | BadEntry string | BadStat string string

definition file_mode :: "u32 \<Rightarrow> u32" where "file_mode mode = mode AND 0xFFF"

definition plan_entry :: "path \<Rightarrow> path \<Rightarrow> string \<Rightarrow> u32 \<Rightarrow> planned_file list \<Rightarrow> error + planned_file list" where
  "plan_entry base p prefix mode out =
     (case path_strip_prefix base p of
        None \<Rightarrow> Inl (Invalid (quoted (show_path p) @ '' escaped the upload root''))
      | Some rel \<Rightarrow>
          (let rel_posix = join_with ''/'' (map to_string_lossy rel);
               remote = (if prefix = [] then rel_posix else prefix @ ''/'' @ rel_posix)
           in and_then (normalize_remote remote) (\<lambda>remote.
                Inr (out @ [\<lparr>pl_local = p, pl_remote = remote, pl_mode = file_mode mode\<rparr>]))))"

fun walk_dir :: "path \<Rightarrow> path \<Rightarrow> string \<Rightarrow> node \<Rightarrow> planned_file list \<Rightarrow> error + planned_file list"
and walk_entries :: "path \<Rightarrow> path \<Rightarrow> string \<Rightarrow> dir_entry list \<Rightarrow> planned_file list \<Rightarrow> error + planned_file list" where
  "walk_dir base dir prefix (Directory es) out = walk_entries base dir prefix es out"
| "walk_dir base dir prefix (UnreadableDir e) out =
     Inl (Invalid (''cannot read dir '' @ quoted (show_path dir) @ '': '' @ e))"
| "walk_dir base dir prefix (Regular mode) out = plan_entry base dir prefix mode out"
| "walk_dir base dir prefix Special out = Inr out"
| "walk_entries base dir prefix [] out = Inr out"
| "walk_entries base dir prefix (BadEntry e # es) out =
     Inl (Invalid (''dir entry in '' @ quoted (show_path dir) @ '': '' @ e))"
| "walk_entries base dir prefix (BadStat name e # es) out =
     Inl (Invalid (''cannot stat '' @ quoted (show_path (dir @ [name])) @ '': '' @ e))"
| "walk_entries base dir prefix (Entry name nd # es) out =
     and_then (walk_dir base (dir @ [name]) prefix nd out) (walk_entries base dir prefix es)"

definition plan_upload :: "(path \<Rightarrow> string + node) \<Rightarrow> path \<Rightarrow> string \<Rightarrow> error + planned_file list" where
  "plan_upload fs local_path remote_path =
     (case fs local_path of
        Inl e \<Rightarrow> Inl (Invalid (''cannot stat '' @ quoted (show_path local_path) @ '': '' @ e))
      | Inr (Regular mode) \<Rightarrow>
          and_then
            (if remote_path = [] \<or> ends_with CHR ''/'' remote_path
             then if local_path \<noteq> [] \<and> utf8_valid (last local_path) then Inr (remote_path @ last local_path)
                  else Inl (Invalid (''local file '' @ quoted (show_path local_path) @ '' has no name''))
             else Inr remote_path) (\<lambda>remote.
          and_then (normalize_remote remote) (\<lambda>remote.
            Inr [\<lparr>pl_local = local_path, pl_remote = remote, pl_mode = file_mode mode\<rparr>]))
      | Inr Special \<Rightarrow> Inl (Invalid (quoted (show_path local_path) @ '' is neither a regular file nor a directory''))
      | Inr nd \<Rightarrow>
          (let prefix = trim_end_matches (\<lambda>c. c = CHR ''/'') (trim_start_matches (\<lambda>c. c = CHR ''/'') remote_path)
           in map_sum id (sort_key pl_remote) (walk_dir local_path local_path prefix nd [])))"

section \<open>The blocks of a file\<close>

definition VOLUME_BLOCK_SIZE :: nat where "VOLUME_BLOCK_SIZE = 8 * 1024 * 1024"

text \<open>Open files: \<open>read_exact\<close> at an offset, after the seek.\<close>

record 'w local_fs =
  open_file :: "path \<Rightarrow> 'w \<Rightarrow> string + nat"
  file_len :: "nat \<Rightarrow> 'w \<Rightarrow> string + nat"
  try_clone :: "nat \<Rightarrow> 'w \<Rightarrow> string + nat"
  seek_start :: "nat \<Rightarrow> nat \<Rightarrow> 'w \<Rightarrow> string + unit"
  read_exact :: "nat \<Rightarrow> nat \<Rightarrow> nat \<Rightarrow> 'w \<Rightarrow> string + bytes"

definition hash_block ::
  "(bytes \<Rightarrow> bytes) \<Rightarrow> 'w local_fs \<Rightarrow> nat \<Rightarrow> nat \<Rightarrow> nat \<Rightarrow> 'w \<Rightarrow> error + bytes \<times> bytes" where
  "hash_block sha256 fs file start len w =
     (case seek_start fs file start w of
        Inl e \<Rightarrow> Inl (Build (''seek failed: '' @ e))
      | Inr _ \<Rightarrow>
          (case read_exact fs file start len w of
             Inl e \<Rightarrow> Inl (Build (''read failed: '' @ e))
           | Inr buf \<Rightarrow> Inr (sha256 buf, buf)))"

function hash_blocks ::
  "(bytes \<Rightarrow> bytes) \<Rightarrow> 'w local_fs \<Rightarrow> nat \<Rightarrow> nat \<Rightarrow> 'w \<Rightarrow> nat \<Rightarrow> (nat \<times> nat \<times> bytes) list \<Rightarrow>
     error + (nat \<times> nat \<times> bytes) list" where
  "hash_blocks sha256 fs file sz w start blocks =
     (if start < sz
      then let len = min VOLUME_BLOCK_SIZE (sz - start) in
           case hash_block sha256 fs file start len w of
             Inl e \<Rightarrow> Inl e
           | Inr (digest, _) \<Rightarrow>
               hash_blocks sha256 fs file sz w (start + len) (blocks @ [(start, len, digest)])
      else Inr blocks)"
  by pat_completeness auto

termination
  by (relation "measure (\<lambda>(_, _, _, sz, _, start, _). sz - start)") (auto simp: VOLUME_BLOCK_SIZE_def)

declare hash_blocks.simps [simp del]

record local_file =
  lf_handle :: nat
  lf_size :: nat
  lf_remote :: string
  lf_mode :: u32
  lf_blocks :: "(nat \<times> nat \<times> bytes) list"

text \<open>One planned file: opened, sized, reported to the progress callback, and hashed.\<close>

definition hash_file ::
  "(bytes \<Rightarrow> bytes) \<Rightarrow> 'w local_fs \<Rightarrow> (string \<Rightarrow> nat \<Rightarrow> 'w \<Rightarrow> 'w) \<Rightarrow> planned_file \<Rightarrow> local_file list \<times> nat \<Rightarrow>
     ('w, local_file list \<times> nat) io" where
  "hash_file sha256 fs on_file pf = (\<lambda>(locals, total_bytes) w.
     case open_file fs (pl_local pf) w of
       Inl e \<Rightarrow> throw (Build (''cannot open '' @ quoted (show_path (pl_local pf)) @ '': '' @ e)) w
     | Inr file \<Rightarrow>
         (case file_len fs file w of
            Inl e \<Rightarrow> throw (Build (''cannot stat '' @ quoted (show_path (pl_local pf)) @ '': '' @ e)) w
          | Inr sz \<Rightarrow>
              (let w = on_file (pl_remote pf) sz w in
               case hash_blocks sha256 fs file sz w 0 [] of
                 Inl e \<Rightarrow> throw e w
               | Inr blocks \<Rightarrow>
                   ret (locals @ [\<lparr>lf_handle = file, lf_size = sz, lf_remote = pl_remote pf, lf_mode = pl_mode pf,
                                   lf_blocks = blocks\<rparr>], total_bytes + sz) w)))"

section \<open>The upload\<close>

record volume_put_stats =
  vs_files :: nat
  vs_bytes :: nat
  vs_blocks_uploaded :: nat

definition build_volume_put_request ::
  "string \<Rightarrow> bool \<Rightarrow> local_file list \<Rightarrow> (bytes \<rightharpoonup> bytes) \<Rightarrow> volume_put_request" where
  "build_volume_put_request volume_id force locals put_responses =
     \<lparr>vp_volume_id = volume_id,
      vp_files = map (\<lambda>lf. \<lparr>pf_path = lf_remote lf, pf_size = lf_size lf, pf_mode = Some (lf_mode lf),
          pf_blocks = map (\<lambda>(_, _, sha). \<lparr>contents_sha256 = sha, put_response = put_responses sha\<rparr>) (lf_blocks lf)\<rparr>)
        locals,
      vp_disallow_overwrite_existing_files = \<not> force\<rparr>"

text \<open>One missing block: found, skipped when its content was already sent, else read again and sent.\<close>

definition put_missing_block ::
  "'w host \<Rightarrow> 'w http \<Rightarrow> (bytes \<Rightarrow> bytes) \<Rightarrow> 'w local_fs \<Rightarrow> local_file list \<Rightarrow> missing_block \<Rightarrow>
     (bytes \<rightharpoonup> bytes) \<times> nat \<Rightarrow> ('w, (bytes \<rightharpoonup> bytes) \<times> nat) io" where
  "put_missing_block h net sha256 fs locals mb = (\<lambda>(put_responses, blocks_uploaded) w.
     if length locals \<le> mb_file_index mb
     then throw (Build (''server returned out-of-range file_index '' @ dec (mb_file_index mb))) w
     else let lf = locals ! mb_file_index mb in
       if length (lf_blocks lf) \<le> mb_block_index mb
       then throw (Build (''server returned out-of-range block_index '' @ dec (mb_block_index mb) @ '' for file ''
                          @ dec (mb_file_index mb))) w
       else let (start, len, sha) = lf_blocks lf ! mb_block_index mb in
         if put_responses sha \<noteq> None then ret (put_responses, blocks_uploaded) w
         else case try_clone fs (lf_handle lf) w of
                Inl e \<Rightarrow> throw (Build (''clone handle: '' @ e)) w
              | Inr file \<Rightarrow>
                  (case hash_block sha256 fs file start len w of
                     Inl e \<Rightarrow> throw e w
                   | Inr (_, bytes) \<Rightarrow>
                       bind_io (put_block_bytes h net (mb_put_url mb) bytes)
                         (\<lambda>body. ret (put_responses(sha \<mapsto> body), blocks_uploaded + 1)) w))"

definition did_not_converge :: error where
  "did_not_converge = Build (''volume put did not converge: server still reports missing blocks after re-uploading them'')"

text \<open>The rounds still to run; running out of them is the \<open>unreachable!\<close> of the code.\<close>

fun put_rounds ::
  "'w host \<Rightarrow> 'w volume_stub \<Rightarrow> 'w http \<Rightarrow> (bytes \<Rightarrow> bytes) \<Rightarrow> 'w local_fs \<Rightarrow> string \<Rightarrow> bool \<Rightarrow> local_file list \<Rightarrow>
     nat \<Rightarrow> nat \<Rightarrow> nat list \<Rightarrow> (bytes \<rightharpoonup> bytes) \<times> nat \<Rightarrow> ('w, volume_put_stats) io" where
  "put_rounds h st net sha256 fs volume_id force locals files total_bytes [] s w = None"
| "put_rounds h st net sha256 fs volume_id force locals files total_bytes (rnd # rounds) s w =
     bind_io (retry_rpc h (volume_put_files2_rpc st) (build_volume_put_request volume_id force locals (fst s)))
       (\<lambda>missing.
          if missing = [] then ret \<lparr>vs_files = files, vs_bytes = total_bytes, vs_blocks_uploaded = snd s\<rparr>
          else if rnd = 1 then throw did_not_converge
          else bind_io (for_io (put_missing_block h net sha256 fs locals) missing s)
                 (put_rounds h st net sha256 fs volume_id force locals files total_bytes rounds)) w"

definition volume_put ::
  "'w host \<Rightarrow> 'w volume_stub \<Rightarrow> 'w http \<Rightarrow> (bytes \<Rightarrow> bytes) \<Rightarrow> 'w local_fs \<Rightarrow> string \<Rightarrow> planned_file list \<Rightarrow> bool \<Rightarrow>
     (string \<Rightarrow> nat \<Rightarrow> 'w \<Rightarrow> 'w) \<Rightarrow> ('w, volume_put_stats) io" where
  "volume_put h st net sha256 fs volume_id files force on_file =
     (if files = [] then throw (Invalid ''no files to upload'')
      else bind_io (for_io (hash_file sha256 fs on_file) files ([], 0))
             (\<lambda>(locals, total_bytes).
                put_rounds h st net sha256 fs volume_id force locals (length files) total_bytes [0, 1] (Map.empty, 0)))"

section \<open>The facade's handle\<close>

text \<open>\<open>crates/modal-rust/src/volume.rs\<close>: a handle is its resolved id; connecting is not modelled.\<close>

definition Volume_from_name :: "'w host \<Rightarrow> 'w volume_stub \<Rightarrow> modal_config \<Rightarrow> string \<Rightarrow> ('w, string) io" where
  "Volume_from_name h st c name = volume_get_or_create h st c name True True None"

definition Volume_lookup :: "'w host \<Rightarrow> 'w volume_stub \<Rightarrow> modal_config \<Rightarrow> string \<Rightarrow> ('w, string) io" where
  "Volume_lookup h st c name = volume_get_or_create h st c name True False None"

definition Volume_from_name_in :: "'w host \<Rightarrow> 'w volume_stub \<Rightarrow> modal_config \<Rightarrow> string \<Rightarrow> string \<Rightarrow> ('w, string) io" where
  "Volume_from_name_in h st c name env = volume_get_or_create h st c name True True (Some env)"

definition Volume_put ::
  "'w host \<Rightarrow> 'w volume_stub \<Rightarrow> 'w http \<Rightarrow> (bytes \<Rightarrow> bytes) \<Rightarrow> 'w local_fs \<Rightarrow> (path \<Rightarrow> string + node) \<Rightarrow> string \<Rightarrow>
     path \<Rightarrow> string \<Rightarrow> bool \<Rightarrow> ('w, volume_put_stats) io" where
  "Volume_put h st net sha256 fs tree volume_id local_path remote_path force =
     bind_io (lift_res (plan_upload tree local_path remote_path)) (\<lambda>files.
       volume_put h st net sha256 fs volume_id files force (\<lambda>_ _ w. w))"

section \<open>Facts about plans\<close>

text \<open>A clean remote path: relative, and no component that is empty or leads elsewhere.\<close>

definition clean_remote :: "string \<Rightarrow> bool" where
  "clean_remote r \<longleftrightarrow> r \<noteq> [] \<and> hd r \<noteq> CHR ''/'' \<and> (\<forall>c\<in>set (split_on CHR ''/'' r). c \<noteq> [] \<and> c \<noteq> ''.'' \<and> c \<noteq> ''..'')"

lemma normalize_remote_clean:
  assumes "normalize_remote remote = Inr r"
  shows "clean_remote r"
proof -
  have r: "r = trim_start_matches (\<lambda>c. c = CHR ''/'') remote" and "r \<noteq> []"
    and parts: "\<forall>c\<in>set (split_on CHR ''/'' r). c \<noteq> [] \<and> c \<noteq> ''.'' \<and> c \<noteq> ''..''"
    using assms by (auto simp: normalize_remote_def Let_def list_ex_iff split: if_splits)
  moreover from \<open>r \<noteq> []\<close> have "hd r \<noteq> CHR ''/''"
    using hd_dropWhile [of "\<lambda>c. c = CHR ''/''" remote] by (simp add: r trim_start_matches_def)
  ultimately show ?thesis by (simp add: clean_remote_def)
qed

text \<open>The regular files below a node, with their raw modes.\<close>

fun regular_files :: "path \<Rightarrow> node \<Rightarrow> (path \<times> u32) list"
and entry_files :: "path \<Rightarrow> dir_entry list \<Rightarrow> (path \<times> u32) list" where
  "regular_files dir (Regular mode) = [(dir, mode)]"
| "regular_files dir (Directory es) = entry_files dir es"
| "regular_files dir (UnreadableDir e) = []"
| "regular_files dir Special = []"
| "entry_files dir [] = []"
| "entry_files dir (Entry name nd # es) = regular_files (dir @ [name]) nd @ entry_files dir es"
| "entry_files dir (BadEntry e # es) = entry_files dir es"
| "entry_files dir (BadStat name e # es) = entry_files dir es"

definition planned :: "path \<Rightarrow> string \<Rightarrow> planned_file \<Rightarrow> bool" where
  "planned base prefix f \<longleftrightarrow>
     (\<exists>rel. pl_local f = base @ rel \<and>
        normalize_remote (if prefix = [] then join_with ''/'' (map to_string_lossy rel)
                          else prefix @ ''/'' @ join_with ''/'' (map to_string_lossy rel)) = Inr (pl_remote f))"

lemma plan_entry_Inr:
  "plan_entry base p prefix mode out = Inr out' \<longleftrightarrow>
     (\<exists>f. out' = out @ [f] \<and> pl_local f = p \<and> pl_mode f = file_mode mode \<and> planned base prefix f)"
  unfolding plan_entry_def planned_def
  by (auto simp: Let_def result_iffs path_strip_prefix_Some split: option.splits intro: planned_file.equality)

lemma walk_files:
  "walk_dir base dir prefix nd out = Inr out' \<Longrightarrow>
     \<exists>fs. out' = out @ fs \<and> map (\<lambda>f. (pl_local f, pl_mode f)) fs = map (\<lambda>(p, m). (p, file_mode m)) (regular_files dir nd) \<and>
       (\<forall>f\<in>set fs. planned base prefix f)"
  "walk_entries base dir prefix es out = Inr out' \<Longrightarrow>
     \<exists>fs. out' = out @ fs \<and> map (\<lambda>f. (pl_local f, pl_mode f)) fs = map (\<lambda>(p, m). (p, file_mode m)) (entry_files dir es) \<and>
       (\<forall>f\<in>set fs. planned base prefix f)"
proof (induction base dir prefix nd out and base dir prefix es out arbitrary: out' and out' rule: walk_dir_walk_entries.induct)
  case (3 base dir prefix mode out)
  then show ?case by (auto simp: plan_entry_Inr)
next
  case (8 base dir prefix name nd es out)
  then obtain mid where "walk_dir base (dir @ [name]) prefix nd out = Inr mid" "walk_entries base dir prefix es mid = Inr out'"
    by (auto simp: result_iffs)
  with 8 show ?case by fastforce
qed simp_all

section \<open>Facts about blocks\<close>

text \<open>A file that reads as \<open>content\<close>, whatever happens in the world meanwhile.\<close>

definition reads_as :: "'w local_fs \<Rightarrow> nat \<Rightarrow> bytes \<Rightarrow> bool" where
  "reads_as fs file content \<longleftrightarrow>
     (\<forall>w start. seek_start fs file start w = Inr ()) \<and>
     (\<forall>w start len. start + len \<le> length content \<longrightarrow> read_exact fs file start len w = Inr (take len (drop start content)))"

lemma hash_block_reads:
  "reads_as fs file content \<Longrightarrow> start + len \<le> length content \<Longrightarrow>
     hash_block sha256 fs file start len w = Inr (sha256 (take len (drop start content)), take len (drop start content))"
  by (simp add: hash_block_def reads_as_def)

text \<open>The list a complete split gives from \<open>start\<close> on.\<close>

function block_list :: "(bytes \<Rightarrow> bytes) \<Rightarrow> bytes \<Rightarrow> nat \<Rightarrow> (nat \<times> nat \<times> bytes) list" where
  "block_list sha256 content start =
     (if start < length content
      then (start, min VOLUME_BLOCK_SIZE (length content - start), sha256 (take VOLUME_BLOCK_SIZE (drop start content)))
           # block_list sha256 content (start + VOLUME_BLOCK_SIZE)
      else [])"
  by pat_completeness auto

termination
  by (relation "measure (\<lambda>(_, content, start). length content - start)") (auto simp: VOLUME_BLOCK_SIZE_def)

declare block_list.simps [simp del]

lemma block_size_pos [simp]: "0 < VOLUME_BLOCK_SIZE"
  by (simp add: VOLUME_BLOCK_SIZE_def)

lemma block_list_end [simp]: "length content \<le> start \<Longrightarrow> block_list sha256 content start = []"
  by (simp add: block_list.simps)

lemma take_block: "take (min VOLUME_BLOCK_SIZE (length content - start)) (drop start content) =
    take VOLUME_BLOCK_SIZE (drop start content)"
  by (simp add: min_def)

lemma hash_blocks_list:
  assumes "reads_as fs file content"
  shows "hash_blocks sha256 fs file (length content) w start blocks = Inr (blocks @ block_list sha256 content start)"
proof (induction "length content - start" arbitrary: start blocks rule: less_induct)
  case less
  show ?case
  proof (cases "start < length content")
    case True
    let ?len = "min VOLUME_BLOCK_SIZE (length content - start)"
    have hb: "hash_block sha256 fs file start ?len w =
        Inr (sha256 (take VOLUME_BLOCK_SIZE (drop start content)), take VOLUME_BLOCK_SIZE (drop start content))"
      using hash_block_reads [OF assms, of start ?len] True unfolding take_block by simp
    have "length content - (start + ?len) < length content - start" using True block_size_pos by (auto simp: min_def simp del: block_size_pos)
    note IH = less [OF this, of "blocks @ [(start, ?len, sha256 (take VOLUME_BLOCK_SIZE (drop start content)))]"]
    have rest: "block_list sha256 content (start + ?len) = block_list sha256 content (start + VOLUME_BLOCK_SIZE)"
      by (cases "VOLUME_BLOCK_SIZE \<le> length content - start") (simp_all add: min_def)
    show ?thesis
      by (subst hash_blocks.simps) (simp add: True hb IH rest block_list.simps [of _ _ start] del: min.absorb1 min.absorb2)
  qed (subst hash_blocks.simps, simp)
qed

text \<open>The blocks, read back.\<close>

definition block_bytes :: "bytes \<Rightarrow> nat \<times> nat \<times> bytes \<Rightarrow> bytes" where
  "block_bytes content = (\<lambda>(start, len, _). take len (drop start content))"

lemma block_list_concat: "concat (map (block_bytes content) (block_list sha256 content start)) = drop start content"
proof (induction "length content - start" arbitrary: start rule: less_induct)
  case less
  show ?case
  proof (cases "start < length content")
    case True
    then have "length content - (start + VOLUME_BLOCK_SIZE) < length content - start"
      using block_size_pos by (metis add_diff_cancel_left' add_leD1 diff_less_mono2 less_add_same_cancel1 not_le)
    note less [OF this]
    then show ?thesis
      using True append_take_drop_id [of VOLUME_BLOCK_SIZE "drop start content"]
      by (subst block_list.simps) (simp add: block_bytes_def take_block add.commute del: append_take_drop_id)
  qed simp
qed

lemma block_list_digests:
  "b \<in> set (block_list sha256 content start) \<Longrightarrow> snd (snd b) = sha256 (block_bytes content b) \<and>
     0 < fst (snd b) \<and> fst (snd b) \<le> VOLUME_BLOCK_SIZE \<and> fst b + fst (snd b) \<le> length content \<and>
     block_bytes content b = take VOLUME_BLOCK_SIZE (drop (fst b) content)"
proof (induction sha256 content start rule: block_list.induct)
  case (1 sha256 content start)
  show ?case
  proof (cases "start < length content")
    case True
    with 1 show ?thesis
      by (subst (asm) block_list.simps) (auto simp: block_bytes_def min_def)
  qed (use 1 in simp)
qed

lemma block_list_length:
  "length (block_list sha256 content start) = (length content - start + VOLUME_BLOCK_SIZE - 1) div VOLUME_BLOCK_SIZE"
proof (induction sha256 content start rule: block_list.induct)
  case (1 sha256 content start)
  show ?case
  proof (cases "start < length content")
    case True
    then obtain k where k: "length content - start = Suc k" by (metis Suc_diff_Suc)
    have "length (block_list sha256 content start) = Suc ((k + 1 - VOLUME_BLOCK_SIZE + VOLUME_BLOCK_SIZE - 1) div VOLUME_BLOCK_SIZE)"
      using 1 [OF True] k diff_diff_left [of "length content" start VOLUME_BLOCK_SIZE]
      by (subst block_list.simps) (simp add: True)
    also have "\<dots> = (k + VOLUME_BLOCK_SIZE) div VOLUME_BLOCK_SIZE"
      by (cases "VOLUME_BLOCK_SIZE \<le> k + 1") auto
    finally show ?thesis by (simp add: k)
  next
    case False
    then show ?thesis by simp
  qed
qed

section \<open>Facts about the upload\<close>

text \<open>Local files that do not change during the upload: what \<open>content\<close> says is what every read gives.\<close>

definition stable_fs :: "'w local_fs \<Rightarrow> (path \<Rightarrow> bytes) \<Rightarrow> bool" where
  "stable_fs fs content \<longleftrightarrow>
     (\<forall>p fd w. open_file fs p w = Inr fd \<longrightarrow>
        reads_as fs fd (content p) \<and> (\<forall>w. file_len fs fd w = Inr (length (content p)))) \<and>
     (\<forall>fd fd' c w. reads_as fs fd c \<longrightarrow> try_clone fs fd w = Inr fd' \<longrightarrow> reads_as fs fd' c)"

definition hashed :: "(bytes \<Rightarrow> bytes) \<Rightarrow> 'w local_fs \<Rightarrow> (path \<Rightarrow> bytes) \<Rightarrow> planned_file \<Rightarrow> local_file \<Rightarrow> bool" where
  "hashed sha256 fs content pf lf \<longleftrightarrow>
     reads_as fs (lf_handle lf) (content (pl_local pf)) \<and> lf_size lf = length (content (pl_local pf)) \<and>
     lf_remote lf = pl_remote pf \<and> lf_mode lf = pl_mode pf \<and>
     lf_blocks lf = block_list sha256 (content (pl_local pf)) 0"

lemma hash_file_result:
  assumes "stable_fs fs content" "hash_file sha256 fs on_file pf (locals, n) w = Some (Inr (locals', n'), w')"
  shows "\<exists>lf. locals' = locals @ [lf] \<and> hashed sha256 fs content pf lf \<and> n' = n + length (content (pl_local pf))"
proof -
  obtain fd where opened: "open_file fs (pl_local pf) w = Inr fd"
    using assms(2) by (auto simp: hash_file_def split: sum.splits)
  then have "reads_as fs fd (content (pl_local pf))" "file_len fs fd w = Inr (length (content (pl_local pf)))"
    using assms(1) by (auto simp: stable_fs_def)
  with assms(2) opened show ?thesis by (auto simp: hash_file_def hash_blocks_list hashed_def)
qed

lemma hash_files_result:
  assumes "stable_fs fs content" "for_io (hash_file sha256 fs on_file) files (locals, n) w = Some (Inr (locals', n'), w')"
  shows "\<exists>ls. locals' = locals @ ls \<and> list_all2 (hashed sha256 fs content) files ls \<and>
     n' = n + (\<Sum>pf\<leftarrow>files. length (content (pl_local pf)))"
  using assms(2)
proof (induction files arbitrary: locals n w)
  case (Cons pf files)
  then obtain l1 n1 w1 where step: "hash_file sha256 fs on_file pf (locals, n) w = Some (Inr (l1, n1), w1)"
    and rest: "for_io (hash_file sha256 fs on_file) files (l1, n1) w1 = Some (Inr (locals', n'), w')"
    by (auto simp: bind_io_Inr_iff)
  from hash_file_result [OF assms(1) step] Cons.IH [OF rest] show ?case
    by (fastforce simp: add.assoc)
qed simp

lemma hash_files_returns:
  assumes "stable_fs fs content" "\<forall>pf\<in>set files. \<forall>w. \<exists>fd. open_file fs (pl_local pf) w = Inr fd"
  shows "\<exists>s' w'. for_io (hash_file sha256 fs on_file) files s w = Some (Inr s', w')"
  using assms(2)
proof (induction files arbitrary: s w)
  case (Cons pf files)
  obtain fd where "open_file fs (pl_local pf) w = Inr fd" using Cons.prems by (meson list.set_intros(1))
  then have "reads_as fs fd (content (pl_local pf))" "file_len fs fd w = Inr (length (content (pl_local pf)))"
    "open_file fs (pl_local pf) w = Inr fd"
    using assms(1) by (auto simp: stable_fs_def)
  then obtain s1 w1 where "hash_file sha256 fs on_file pf s w = Some (Inr s1, w1)"
    by (cases s) (simp add: hash_file_def hash_blocks_list ret_def Let_def)
  with Cons show ?case by (simp add: bind_io_def)
qed (simp add: ret_def)

text \<open>The digests of all declared blocks, and the declared blocks themselves.\<close>

definition digests :: "local_file list \<Rightarrow> bytes set" where
  "digests locals = (\<Union>lf\<in>set locals. (\<lambda>b. snd (snd b)) ` set (lf_blocks lf))"

definition all_blocks :: "volume_put_request \<Rightarrow> put_block list" where
  "all_blocks req = concat (map pf_blocks (vp_files req))"

definition block_at :: "volume_put_request \<Rightarrow> missing_block \<Rightarrow> put_block option" where
  "block_at req mb =
     (if mb_file_index mb < length (vp_files req) \<and>
         mb_block_index mb < length (pf_blocks (vp_files req ! mb_file_index mb))
      then Some (pf_blocks (vp_files req ! mb_file_index mb) ! mb_block_index mb) else None)"

lemma all_blocks_request:
  "set (all_blocks (build_volume_put_request v force locals resp)) =
     (\<lambda>sha. \<lparr>contents_sha256 = sha, put_response = resp sha\<rparr>) ` digests locals"
  by (force simp: all_blocks_def build_volume_put_request_def digests_def)

lemma block_at_request:
  "block_at (build_volume_put_request v force locals resp) mb = Some b \<longleftrightarrow>
     mb_file_index mb < length locals \<and> mb_block_index mb < length (lf_blocks (locals ! mb_file_index mb)) \<and>
     b = (let sha = snd (snd (lf_blocks (locals ! mb_file_index mb) ! mb_block_index mb)) in
          \<lparr>contents_sha256 = sha, put_response = resp sha\<rparr>)"
  by (auto simp: block_at_def build_volume_put_request_def Let_def split_beta)

lemma digests_hashed:
  "list_all2 (hashed sha256 fs content) files locals \<Longrightarrow>
     digests locals = (\<Union>pf\<in>set files. (\<lambda>b. snd (snd b)) ` set (block_list sha256 (content (pl_local pf)) 0))"
proof (induction rule: list_all2_induct)
  case (Cons pf files lf locals)
  then have "lf_blocks lf = block_list sha256 (content (pl_local pf)) 0" by (simp add: hashed_def)
  with Cons show ?case by (simp add: digests_def)
qed (simp add: digests_def)

text \<open>Every recorded response is the answer to a PUT of a block of one of the files.\<close>

definition responses_genuine ::
  "'w host \<Rightarrow> 'w http \<Rightarrow> (bytes \<Rightarrow> bytes) \<Rightarrow> (path \<Rightarrow> bytes) \<Rightarrow> planned_file list \<Rightarrow> (bytes \<rightharpoonup> bytes) \<Rightarrow> bool" where
  "responses_genuine h net sha256 content files resp \<longleftrightarrow>
     (\<forall>sha body. resp sha = Some body \<longrightarrow>
        (\<exists>pf\<in>set files. \<exists>b\<in>set (block_list sha256 (content (pl_local pf)) 0). snd (snd b) = sha \<and>
           (\<exists>url w1 w2. put_block_bytes h net url (block_bytes (content (pl_local pf)) b) w1 = Some (Inr body, w2))))"

lemma list_all2_index: "list_all2 P xs ys \<Longrightarrow> i < length ys \<Longrightarrow> P (xs ! i) (ys ! i) \<and> xs ! i \<in> set xs"
  by (auto simp: list_all2_conv_all_nth)

text \<open>The block a missing entry points to, in a hashed file.\<close>

lemma missing_block_read:
  assumes "stable_fs fs content" "list_all2 (hashed sha256 fs content) files locals"
    and "mb_file_index mb < length locals" "mb_block_index mb < length (lf_blocks (locals ! mb_file_index mb))"
    and "lf_blocks (locals ! mb_file_index mb) ! mb_block_index mb = (start, len, sha)"
    and "try_clone fs (lf_handle (locals ! mb_file_index mb)) w = Inr fd"
  obtains pf where "pf \<in> set files" "(start, len, sha) \<in> set (block_list sha256 (content (pl_local pf)) 0)"
    "hash_block sha256 fs fd start len w = Inr (sha, block_bytes (content (pl_local pf)) (start, len, sha))"
proof -
  let ?pf = "files ! mb_file_index mb"
  from list_all2_index [OF assms(2,3)] have h: "hashed sha256 fs content ?pf (locals ! mb_file_index mb)" "?pf \<in> set files"
    by auto
  from h(1) assms(4,5) have b: "(start, len, sha) \<in> set (block_list sha256 (content (pl_local ?pf)) 0)"
    unfolding hashed_def by (metis nth_mem)
  from h(1) assms(1,6) have "reads_as fs fd (content (pl_local ?pf))" unfolding stable_fs_def hashed_def by blast
  then have "hash_block sha256 fs fd start len w = Inr (sha, block_bytes (content (pl_local ?pf)) (start, len, sha))"
    using block_list_digests [OF b] by (simp add: hash_block_reads block_bytes_def)
  with h(2) b that show thesis by blast
qed

lemma put_missing_block_genuine:
  assumes "stable_fs fs content" "list_all2 (hashed sha256 fs content) files locals"
    and "responses_genuine h net sha256 content files (fst s)"
    and "put_missing_block h net sha256 fs locals mb s w = Some (Inr s', w')"
  shows "responses_genuine h net sha256 content files (fst s')"
proof -
  obtain resp n where s: "s = (resp, n)" by (cases s)
  obtain start len sha where b: "lf_blocks (locals ! mb_file_index mb) ! mb_block_index mb = (start, len, sha)"
    using prod_cases3 by blast
  show ?thesis
  proof (cases "resp sha")
    case None
    with assms(4) s b obtain fd where i: "mb_file_index mb < length locals"
      "mb_block_index mb < length (lf_blocks (locals ! mb_file_index mb))"
      and c: "try_clone fs (lf_handle (locals ! mb_file_index mb)) w = Inr fd"
      by (auto simp: put_missing_block_def Let_def split: if_splits sum.splits)
    from missing_block_read [OF assms(1,2) i b c] obtain pf where pf: "pf \<in> set files"
      "(start, len, sha) \<in> set (block_list sha256 (content (pl_local pf)) 0)"
      "hash_block sha256 fs fd start len w = Inr (sha, block_bytes (content (pl_local pf)) (start, len, sha))" .
    with assms(4) s b i c None obtain body where
      put: "put_block_bytes h net (mb_put_url mb) (block_bytes (content (pl_local pf)) (start, len, sha)) w = Some (Inr body, w')"
      and s': "s' = (resp(sha \<mapsto> body), n + 1)"
      by (auto simp: put_missing_block_def Let_def bind_io_Inr_iff)
    show ?thesis
      unfolding s' responses_genuine_def fst_conv
    proof (intro allI impI)
      fix sha1 body1
      assume r: "(resp(sha \<mapsto> body)) sha1 = Some body1"
      show "\<exists>pf\<in>set files. \<exists>b\<in>set (block_list sha256 (content (pl_local pf)) 0). snd (snd b) = sha1 \<and>
          (\<exists>url w1 w2. put_block_bytes h net url (block_bytes (content (pl_local pf)) b) w1 = Some (Inr body1, w2))"
      proof (cases "sha1 = sha")
        case True
        with r have "body1 = body" by simp
        with True pf put show ?thesis by (intro bexI [OF _ pf(1)] bexI [OF _ pf(2)]) auto
      next
        case False
        with r assms(3) s show ?thesis by (simp add: responses_genuine_def)
      qed
    qed
  next
    case (Some body)
    with assms(3,4) s b show ?thesis by (auto simp: put_missing_block_def Let_def split: if_splits)
  qed
qed

text \<open>A healthy block store: files open and clone, the RPC and the PUTs succeed, and the store, a growing
  set of block digests, answers a request with the blocks it neither has nor was sent.\<close>

definition honest_answer :: "volume_put_request \<Rightarrow> missing_block list \<Rightarrow> bytes set \<Rightarrow> bool" where
  "honest_answer req missing stored \<longleftrightarrow>
     (\<forall>mb\<in>set missing. \<exists>b. block_at req mb = Some b \<and> put_response b = None \<and> contents_sha256 b \<notin> stored) \<and>
     (\<forall>b\<in>set (all_blocks req). contents_sha256 b \<in> stored \<or>
        put_response b = None \<and> (\<exists>mb\<in>set missing. block_at req mb = Some b))"

definition healthy_store ::
  "'w volume_stub \<Rightarrow> 'w http \<Rightarrow> 'w local_fs \<Rightarrow> planned_file list \<Rightarrow> ('w \<Rightarrow> bytes set) \<Rightarrow> bool" where
  "healthy_store st net fs files stored \<longleftrightarrow>
     (\<forall>pf\<in>set files. \<forall>w. \<exists>fd. open_file fs (pl_local pf) w = Inr fd) \<and>
     (\<forall>fd w. \<exists>fd'. try_clone fs fd w = Inr fd') \<and>
     (\<forall>req w. \<exists>missing w1. volume_put_files2_rpc st req w = Some (Inr missing, w1) \<and>
        stored w \<subseteq> stored w1 \<and> honest_answer req missing (stored w1)) \<and>
     (\<forall>url data w. \<exists>code body w1 w2 bytes. http_put net url data w = Some (Response code body, w1) \<and> is_success code \<and>
        read_body net body w1 = Some (Inr bytes, w2) \<and> stored w \<subseteq> stored w2)"

lemma healthy_put:
  assumes "healthy_store st net fs files stored"
  obtains body w' where "put_block_bytes h net url data w = Some (Inr body, w')" "stored w \<subseteq> stored w'"
proof -
  have puts: "\<forall>url data w. \<exists>code body w1 w2 bytes. http_put net url data w = Some (Response code body, w1) \<and> is_success code \<and>
        read_body net body w1 = Some (Inr bytes, w2) \<and> stored w \<subseteq> stored w2"
    using assms unfolding healthy_store_def by (elim conjE)
  obtain code body w1 w2 bytes where "http_put net url data w = Some (Response code body, w1)" "is_success code"
    "read_body net body w1 = Some (Inr bytes, w2)" "stored w \<subseteq> stored w2"
    using puts [rule_format, of url data w] by (elim exE conjE)
  note put = this
  have "put_block_bytes h net url data w = Some (Inr bytes, w2)"
    unfolding put_block_bytes_def backoff_loop_def
    by (subst loop_break) (simp_all add: backoff_step_def block_put_attempt_def put)
  then show thesis using put(4) by (rule that)
qed

lemma healthy_clone: "healthy_store st net fs files stored \<Longrightarrow> \<exists>fd'. try_clone fs fd w = Inr fd'"
  by (simp add: healthy_store_def)

lemma healthy_missing_block:
  assumes "healthy_store st net fs files stored" "stable_fs fs content" "list_all2 (hashed sha256 fs content) files locals"
    and "mb_file_index mb < length locals" "mb_block_index mb < length (lf_blocks (locals ! mb_file_index mb))"
  obtains s' w' where "put_missing_block h net sha256 fs locals mb s w = Some (Inr s', w')" "stored w \<subseteq> stored w'"
    "dom (fst s) \<subseteq> dom (fst s')" "snd (snd (lf_blocks (locals ! mb_file_index mb) ! mb_block_index mb)) \<in> dom (fst s')"
proof -
  obtain resp n where s: "s = (resp, n)" by (cases s)
  obtain start len sha where b: "lf_blocks (locals ! mb_file_index mb) ! mb_block_index mb = (start, len, sha)"
    using prod_cases3 by blast
  show thesis
  proof (cases "resp sha")
    case None
    obtain fd where c: "try_clone fs (lf_handle (locals ! mb_file_index mb)) w = Inr fd"
      using healthy_clone [OF assms(1)] by blast
    obtain pf where "pf \<in> set files" "(start, len, sha) \<in> set (block_list sha256 (content (pl_local pf)) 0)"
      and r: "hash_block sha256 fs fd start len w = Inr (sha, block_bytes (content (pl_local pf)) (start, len, sha))"
      by (rule missing_block_read [OF assms(2-5) b c])
    obtain body w' where "put_block_bytes h net (mb_put_url mb) (block_bytes (content (pl_local pf)) (start, len, sha)) w = Some (Inr body, w')"
      "stored w \<subseteq> stored w'" by (rule healthy_put [OF assms(1)])
    then show thesis
      using assms(4,5) s b c r None
      by (intro that [of "(resp(sha \<mapsto> body), n + 1)" w']) (auto simp: put_missing_block_def bind_io_def ret_def)
  next
    case (Some body)
    then show thesis
      using assms(4,5) s b by (intro that [of s w]) (auto simp: put_missing_block_def ret_def)
  qed
qed

lemma healthy_missing_blocks:
  assumes "healthy_store st net fs files stored" "stable_fs fs content" "list_all2 (hashed sha256 fs content) files locals"
    and "\<forall>mb\<in>set missing. mb_file_index mb < length locals \<and> mb_block_index mb < length (lf_blocks (locals ! mb_file_index mb))"
  shows "\<exists>s' w'. for_io (put_missing_block h net sha256 fs locals) missing s w = Some (Inr s', w') \<and> stored w \<subseteq> stored w' \<and>
     dom (fst s) \<subseteq> dom (fst s') \<and>
     (\<forall>mb\<in>set missing. snd (snd (lf_blocks (locals ! mb_file_index mb) ! mb_block_index mb)) \<in> dom (fst s'))"
  using assms(4)
proof (induction missing arbitrary: s w)
  case (Cons mb missing)
  then have i: "mb_file_index mb < length locals" "mb_block_index mb < length (lf_blocks (locals ! mb_file_index mb))" by simp_all
  obtain s1 w1 where step: "put_missing_block h net sha256 fs locals mb s w = Some (Inr s1, w1)" "stored w \<subseteq> stored w1"
    "dom (fst s) \<subseteq> dom (fst s1)" "snd (snd (lf_blocks (locals ! mb_file_index mb) ! mb_block_index mb)) \<in> dom (fst s1)"
    by (rule healthy_missing_block [OF assms(1-3) i])
  obtain s2 w2 where rest: "for_io (put_missing_block h net sha256 fs locals) missing s1 w1 = Some (Inr s2, w2)"
    "stored w1 \<subseteq> stored w2" "dom (fst s1) \<subseteq> dom (fst s2)"
    "\<forall>mb\<in>set missing. snd (snd (lf_blocks (locals ! mb_file_index mb) ! mb_block_index mb)) \<in> dom (fst s2)"
    using Cons.IH [of s1 w1] Cons.prems by auto
  have "for_io (put_missing_block h net sha256 fs locals) (mb # missing) s w = Some (Inr s2, w2)"
    using step(1) rest(1) by (simp add: bind_io_def)
  moreover have "stored w \<subseteq> stored w2" "dom (fst s) \<subseteq> dom (fst s2)" using step(2,3) rest(2,3) by blast+
  moreover have "\<forall>m\<in>set (mb # missing). snd (snd (lf_blocks (locals ! mb_file_index m) ! mb_block_index m)) \<in> dom (fst s2)"
    using step(4) rest(3,4) by auto
  ultimately show ?case by blast
qed (simp add: ret_def)

lemma honest_first_round:
  assumes "honest_answer (build_volume_put_request v force locals Map.empty) missing S"
  shows "digests locals \<subseteq> S \<union> {sha. \<exists>mb\<in>set missing. sha = snd (snd (lf_blocks (locals ! mb_file_index mb) ! mb_block_index mb))}"
    and "\<forall>mb\<in>set missing. mb_file_index mb < length locals \<and> mb_block_index mb < length (lf_blocks (locals ! mb_file_index mb))"
proof -
  from assms have m: "\<exists>b. block_at (build_volume_put_request v force locals Map.empty) mb = Some b" if "mb \<in> set missing" for mb
    using that unfolding honest_answer_def by blast
  from assms have a: "sha \<in> S \<or> (\<exists>mb\<in>set missing. block_at (build_volume_put_request v force locals Map.empty) mb =
      Some \<lparr>contents_sha256 = sha, put_response = None\<rparr>)" if "sha \<in> digests locals" for sha
    using that unfolding honest_answer_def all_blocks_request by fastforce
  show "digests locals \<subseteq> S \<union> {sha. \<exists>mb\<in>set missing. sha = snd (snd (lf_blocks (locals ! mb_file_index mb) ! mb_block_index mb))}"
    using a by (fastforce simp: block_at_request Let_def)
  show "\<forall>mb\<in>set missing. mb_file_index mb < length locals \<and> mb_block_index mb < length (lf_blocks (locals ! mb_file_index mb))"
    using m by (fastforce simp: block_at_request)
qed

lemma honest_second_round:
  assumes "honest_answer (build_volume_put_request v force locals resp) missing S" and "digests locals \<subseteq> S \<union> dom resp"
  shows "missing = []" and "digests locals \<subseteq> S"
proof -
  have "mb \<notin> set missing" for mb
  proof
    assume "mb \<in> set missing"
    with assms(1) obtain b where b: "block_at (build_volume_put_request v force locals resp) mb = Some b" "put_response b = None"
      "contents_sha256 b \<notin> S" unfolding honest_answer_def by blast
    let ?sha = "snd (snd (lf_blocks (locals ! mb_file_index mb) ! mb_block_index mb))"
    from b(1) have i: "mb_file_index mb < length locals" "mb_block_index mb < length (lf_blocks (locals ! mb_file_index mb))"
      and bb: "b = \<lparr>contents_sha256 = ?sha, put_response = resp ?sha\<rparr>" by (simp_all add: block_at_request Let_def)
    from i have "locals ! mb_file_index mb \<in> set locals" "lf_blocks (locals ! mb_file_index mb) ! mb_block_index mb \<in>
        set (lf_blocks (locals ! mb_file_index mb))" by simp_all
    then have "?sha \<in> digests locals" unfolding digests_def by blast
    with assms(2) b(2,3) bb show False by auto
  qed
  then show none: "missing = []" by (cases missing) auto
  show "digests locals \<subseteq> S"
  proof
    fix sha
    assume "sha \<in> digests locals"
    then have "\<lparr>contents_sha256 = sha, put_response = resp sha\<rparr> \<in> set (all_blocks (build_volume_put_request v force locals resp))"
      by (simp add: all_blocks_request)
    with assms(1) none show "sha \<in> S" unfolding honest_answer_def by fastforce
  qed
qed

lemma healthy_upload:
  assumes "healthy_store st net fs files stored" "stable_fs fs content" "files \<noteq> []"
  shows "\<exists>stats w'. volume_put h st net sha256 fs volume_id files force on_file w = Some (Inr stats, w') \<and>
     vs_files stats = length files \<and>
     (\<forall>pf\<in>set files. \<forall>b\<in>set (block_list sha256 (content (pl_local pf)) 0). snd (snd b) \<in> stored w')"
proof -
  have opens: "\<forall>pf\<in>set files. \<forall>w. \<exists>fd. open_file fs (pl_local pf) w = Inr fd"
    and rpc: "\<exists>missing w1. volume_put_files2_rpc st req w = Some (Inr missing, w1) \<and>
        stored w \<subseteq> stored w1 \<and> honest_answer req missing (stored w1)" for req w
    using assms(1) unfolding healthy_store_def by (elim conjE; blast)+
  obtain locals n w1 where l: "for_io (hash_file sha256 fs on_file) files ([], 0) w = Some (Inr (locals, n), w1)"
    using hash_files_returns [OF assms(2) opens] by force
  then have hs: "list_all2 (hashed sha256 fs content) files locals" using hash_files_result [OF assms(2) l] by auto
  let ?req = "build_volume_put_request volume_id force locals"
  have call: "\<exists>missing w2. retry_rpc h (volume_put_files2_rpc st) (?req resp) w = Some (Inr missing, w2) \<and>
      stored w \<subseteq> stored w2 \<and> honest_answer (?req resp) missing (stored w2)" for resp w
  proof -
    from rpc [of "?req resp" w] obtain missing w2 where m: "volume_put_files2_rpc st (?req resp) w = Some (Inr missing, w2)"
      "stored w \<subseteq> stored w2" "honest_answer (?req resp) missing (stored w2)" by blast
    have "retry_rpc h (volume_put_files2_rpc st) (?req resp) w = Some (Inr missing, w2)"
      using retry_rpc_now [of "volume_put_files2_rpc st" "?req resp" w "Inr missing" w2 h] m(1) by simp
    with m(2,3) show ?thesis by blast
  qed
  obtain missing w2 where c1: "retry_rpc h (volume_put_files2_rpc st) (?req Map.empty) w1 = Some (Inr missing, w2)"
    "honest_answer (?req Map.empty) missing (stored w2)" using call by blast
  note first = honest_first_round [OF c1(2)]
  have "\<exists>stats w'. put_rounds h st net sha256 fs volume_id force locals (length files) n [0, 1] (Map.empty, 0) w1 = Some (Inr stats, w') \<and>
      vs_files stats = length files \<and> digests locals \<subseteq> stored w'"
  proof (cases "missing = []")
    case True
    with c1(1) first(1) show ?thesis by (simp add: bind_io_def ret_def)
  next
    case False
    obtain s w3 where puts: "for_io (put_missing_block h net sha256 fs locals) missing (Map.empty, 0) w2 = Some (Inr s, w3)"
      "stored w2 \<subseteq> stored w3"
      "\<forall>mb\<in>set missing. snd (snd (lf_blocks (locals ! mb_file_index mb) ! mb_block_index mb)) \<in> dom (fst s)"
      using healthy_missing_blocks [OF assms(1,2) hs first(2)] by blast
    obtain missing2 w4 where c2: "retry_rpc h (volume_put_files2_rpc st) (?req (fst s)) w3 = Some (Inr missing2, w4)"
      "stored w3 \<subseteq> stored w4" "honest_answer (?req (fst s)) missing2 (stored w4)" using call by blast
    have "digests locals \<subseteq> stored w4 \<union> dom (fst s)" using first(1) puts(2,3) c2(2) by blast
    note second = honest_second_round [OF c2(3) this]
    show ?thesis
      using False c1(1) puts(1) c2(1) second by (simp add: bind_io_def ret_def)
  qed
  then obtain stats w' where r: "put_rounds h st net sha256 fs volume_id force locals (length files) n [0, 1] (Map.empty, 0) w1 = Some (Inr stats, w')"
    and f: "vs_files stats = length files" and d: "digests locals \<subseteq> stored w'" by blast
  have "volume_put h st net sha256 fs volume_id files force on_file w = Some (Inr stats, w')"
    using l assms(3) r by (simp add: volume_put_def bind_io_def)
  moreover from d have "\<forall>pf\<in>set files. \<forall>b\<in>set (block_list sha256 (content (pl_local pf)) 0). snd (snd b) \<in> stored w'"
    unfolding digests_hashed [OF hs] by blast
  ultimately show ?thesis using f by blast
qed

section \<open>Properties\<close>

text \<open>C39. An upload plan is exact and cannot escape the volume: it lists every regular file below the local path
  once, with its permission bits; every destination is a clean relative path (no empty, \<open>.\<close> or \<open>..\<close> part),
  and the plan is sorted by destination.\<close>

theorem plan_upload_exact:
  assumes "plan_upload fs local_path remote_path = Inr plan" "fs local_path = Inr nd"
  shows "mset (map (\<lambda>f. (pl_local f, pl_mode f)) plan) = mset (map (\<lambda>(p, m). (p, file_mode m)) (regular_files local_path nd)) \<and>
     (\<forall>f\<in>set plan. clean_remote (pl_remote f)) \<and> sorted (map pl_remote plan)"
proof (cases nd)
  case (Directory es)
  with assms obtain prefix fs' where w: "walk_dir local_path local_path prefix nd [] = Inr fs'" and plan: "plan = sort_key pl_remote fs'"
    by (auto simp: plan_upload_def Let_def map_sum_def split: sum.splits)
  from walk_files(1) [OF w] have m: "map (\<lambda>f. (pl_local f, pl_mode f)) fs' = map (\<lambda>(p, m). (p, file_mode m)) (regular_files local_path nd)"
    and p: "\<forall>f\<in>set fs'. planned local_path prefix f" by auto
  from arg_cong [OF m, of mset]
  have "mset (map (\<lambda>f. (pl_local f, pl_mode f)) plan) = mset (map (\<lambda>(p, m). (p, file_mode m)) (regular_files local_path nd))"
    by (simp add: plan)
  moreover from p have "\<forall>f\<in>set plan. clean_remote (pl_remote f)"
    by (auto simp: plan planned_def dest: normalize_remote_clean)
  ultimately show ?thesis by (simp add: plan)
next
  case (Regular mode)
  with assms show ?thesis
    by (auto simp: plan_upload_def result_iffs dest: normalize_remote_clean split: if_splits)
qed (use assms in \<open>auto simp: plan_upload_def\<close>)

text \<open>The blocks of a file partition it: read back in order they are the file, each has the digest declared for
  it, none is empty or longer than the block size, and there are as many as the length needs.\<close>

lemma blocks_partition_file:
  assumes "reads_as fs fd content" "hash_blocks sha256 fs fd (length content) w 0 [] = Inr blocks"
  shows "concat (map (block_bytes content) blocks) = content \<and>
     (\<forall>b\<in>set blocks. snd (snd b) = sha256 (block_bytes content b) \<and> 0 < fst (snd b) \<and> fst (snd b) \<le> VOLUME_BLOCK_SIZE) \<and>
     length blocks = (length content + VOLUME_BLOCK_SIZE - 1) div VOLUME_BLOCK_SIZE"
proof -
  from assms have b: "blocks = block_list sha256 content 0" by (simp add: hash_blocks_list)
  show ?thesis
    unfolding b using block_list_concat [of content sha256 0] block_list_length [of sha256 content 0] block_list_digests
    by (metis diff_zero drop0)
qed

text \<open>What a finished upload has declared: the server accepted, with nothing missing, a request that names every
  file with its size, mode and all its block digests; and every PUT response echoed in it is the answer to
  a PUT of exactly the bytes of that block.\<close>

lemma volume_put_declares:
  assumes "volume_put h st net sha256 fs volume_id files force on_file w = Some (Inr stats, w')" "stable_fs fs content"
  shows "\<exists>resp w0. responses_genuine h net sha256 content files resp \<and> vs_files stats = length files \<and>
     vs_bytes stats = (\<Sum>pf\<leftarrow>files. length (content (pl_local pf))) \<and>
     volume_put_files2_rpc st
       \<lparr>vp_volume_id = volume_id,
        vp_files = map (\<lambda>pf. \<lparr>pf_path = pl_remote pf, pf_size = length (content (pl_local pf)), pf_mode = Some (pl_mode pf),
            pf_blocks = map (\<lambda>(_, _, sha). \<lparr>contents_sha256 = sha, put_response = resp sha\<rparr>)
              (block_list sha256 (content (pl_local pf)) 0)\<rparr>) files,
        vp_disallow_overwrite_existing_files = \<not> force\<rparr> w0 = Some (Inr [], w')"
proof -
  from assms(1) obtain locals n w1 where l: "for_io (hash_file sha256 fs on_file) files ([], 0) w = Some (Inr (locals, n), w1)"
    and r: "put_rounds h st net sha256 fs volume_id force locals (length files) n [0, 1] (Map.empty, 0) w1 = Some (Inr stats, w')"
    by (auto simp: volume_put_def bind_io_Inr_iff split: if_splits)
  from hash_files_result [OF assms(2) l] have hs: "list_all2 (hashed sha256 fs content) files locals"
    and n: "n = (\<Sum>pf\<leftarrow>files. length (content (pl_local pf)))" by auto
  from hs have files: "map (\<lambda>lf. \<lparr>pf_path = lf_remote lf, pf_size = lf_size lf, pf_mode = Some (lf_mode lf),
        pf_blocks = map (\<lambda>(_, _, sha). \<lparr>contents_sha256 = sha, put_response = resp sha\<rparr>) (lf_blocks lf)\<rparr>) locals =
      map (\<lambda>pf. \<lparr>pf_path = pl_remote pf, pf_size = length (content (pl_local pf)), pf_mode = Some (pl_mode pf),
        pf_blocks = map (\<lambda>(_, _, sha). \<lparr>contents_sha256 = sha, put_response = resp sha\<rparr>)
          (block_list sha256 (content (pl_local pf)) 0)\<rparr>) files" for resp
    by (induction rule: list_all2_induct) (auto simp: hashed_def)
  have start: "responses_genuine h net sha256 content files Map.empty" by (simp add: responses_genuine_def)
  have "\<exists>s w0. responses_genuine h net sha256 content files (fst s) \<and>
      retry_rpc h (volume_put_files2_rpc st) (build_volume_put_request volume_id force locals (fst s)) w0 = Some (Inr [], w') \<and>
      stats = \<lparr>vs_files = length files, vs_bytes = n, vs_blocks_uploaded = snd s\<rparr>"
    using r start put_missing_block_genuine [OF assms(2) hs]
    by (fastforce simp: bind_io_Inr_iff split: if_splits
        dest!: for_io_invariant [where P = "\<lambda>s. responses_genuine h net sha256 content files (fst s)"])
  then obtain s w0 where s: "responses_genuine h net sha256 content files (fst s)"
    "retry_rpc h (volume_put_files2_rpc st) (build_volume_put_request volume_id force locals (fst s)) w0 = Some (Inr [], w')"
    "stats = \<lparr>vs_files = length files, vs_bytes = n, vs_blocks_uploaded = snd s\<rparr>" by blast
  from unary.ok_from_stub [OF s(2)] obtain w2 where
    "volume_put_files2_rpc st (build_volume_put_request volume_id force locals (fst s)) w2 = Some (Inr [], w')" by blast
  with s(1,3) n show ?thesis by (auto simp: build_volume_put_request_def files)
qed


section \<open>A concrete store\<close>

text \<open>The world is the set of stored digests; a block whose PUT response is echoed is stored; the digest of a
  block is the block.  Every file reads as three bytes.\<close>

definition sample_missing :: "volume_put_request \<Rightarrow> bytes set \<Rightarrow> missing_block list" where
  "sample_missing req S =
     concat (map (\<lambda>i. map (\<lambda>j. \<lparr>mb_file_index = i, mb_block_index = j, mb_put_url = ''u''\<rparr>)
         (filter (\<lambda>j. let b = pf_blocks (vp_files req ! i) ! j in put_response b = None \<and> contents_sha256 b \<notin> S)
            [0..<length (pf_blocks (vp_files req ! i))]))
       [0..<length (vp_files req)])"

definition sample_volume :: "bytes set volume_stub" where
  "sample_volume = \<lparr>volume_get_or_create_rpc = (\<lambda>req w. Some (Inr ''vo-1'', w)),
     volume_put_files2_rpc = (\<lambda>req w.
       let w' = w \<union> contents_sha256 ` {b \<in> set (all_blocks req). put_response b \<noteq> None}
       in Some (Inr (sample_missing req w'), w'))\<rparr>"

definition sample_http :: "'w http" where
  "sample_http = \<lparr>http_put = (\<lambda>url data w. Some (Response 200 data, w)), read_body = (\<lambda>b w. Some (Inr b, w)),
     show_code = dec\<rparr>"

definition sample_content :: bytes where "sample_content = [1, 2, 3]"

definition sample_fs :: "'w local_fs" where
  "sample_fs = \<lparr>open_file = (\<lambda>p w. Inr 3), file_len = (\<lambda>fd w. Inr 3), try_clone = (\<lambda>fd w. Inr fd),
     seek_start = (\<lambda>fd start w. Inr ()),
     read_exact = (\<lambda>fd start len w. if start + len \<le> 3 then Inr (take len (drop start sample_content)) else Inl ''eof'')\<rparr>"

definition still_host :: "'w host" where
  "still_host = \<lparr>instant_now = (\<lambda>_. 0), sleep_for = (\<lambda>_ w. w), wall_nanos = (\<lambda>_. 0), counter_fetch_add = (\<lambda>_ w. (0, w))\<rparr>"

definition sample_files :: "planned_file list" where
  "sample_files = [\<lparr>pl_local = [''tmp'', ''x''], pl_remote = ''x'', pl_mode = 0x1A4\<rparr>]"

lemma sample_reads: "reads_as sample_fs fd sample_content"
  by (simp add: reads_as_def sample_fs_def sample_content_def)

lemma sample_stable: "stable_fs sample_fs (\<lambda>_. sample_content)"
  using sample_reads by (auto simp: stable_fs_def sample_fs_def sample_content_def)

lemma sample_missing_at:
  "mb \<in> set (sample_missing req S) \<longleftrightarrow> mb_put_url mb = ''u'' \<and>
     (\<exists>b. block_at req mb = Some b \<and> put_response b = None \<and> contents_sha256 b \<notin> S)"
  by (cases mb) (auto simp: sample_missing_def block_at_def Let_def)

lemma sample_honest:
  "honest_answer req (sample_missing req S) S"
  if "\<forall>b\<in>set (all_blocks req). put_response b \<noteq> None \<longrightarrow> contents_sha256 b \<in> S"
  unfolding honest_answer_def
proof (intro conjI ballI)
  fix mb
  assume "mb \<in> set (sample_missing req S)"
  then show "\<exists>b. block_at req mb = Some b \<and> put_response b = None \<and> contents_sha256 b \<notin> S"
    by (simp add: sample_missing_at)
next
  fix b
  assume b: "b \<in> set (all_blocks req)"
  then obtain i j where "i < length (vp_files req)" "j < length (pf_blocks (vp_files req ! i))"
    "pf_blocks (vp_files req ! i) ! j = b"
    by (auto simp: all_blocks_def in_set_conv_nth)
  then have at: "block_at req \<lparr>mb_file_index = i, mb_block_index = j, mb_put_url = ''u''\<rparr> = Some b"
    by (simp add: block_at_def)
  show "contents_sha256 b \<in> S \<or> put_response b = None \<and> (\<exists>mb\<in>set (sample_missing req S). block_at req mb = Some b)"
  proof (cases "contents_sha256 b \<in> S")
    case False
    with that b have n: "put_response b = None" by blast
    have "\<lparr>mb_file_index = i, mb_block_index = j, mb_put_url = ''u''\<rparr> \<in> set (sample_missing req S)"
      unfolding sample_missing_at using at n False by simp
    with at n show ?thesis by blast
  qed simp
qed

lemma sample_healthy: "healthy_store sample_volume sample_http sample_fs files (\<lambda>w. w)"
proof -
  have rpc: "\<exists>missing w1. volume_put_files2_rpc sample_volume req w = Some (Inr missing, w1) \<and> w \<subseteq> w1 \<and> honest_answer req missing w1"
    for req w
    by (simp add: sample_volume_def Let_def) (rule sample_honest, auto)
  have "\<exists>code body w1 w2 bytes. http_put sample_http url data w = Some (Response code body, w1) \<and> is_success code \<and>
      read_body sample_http body w1 = Some (Inr bytes, w2) \<and> w \<subseteq> w2" for url data and w :: "bytes set"
    by (simp add: sample_http_def is_success_def)
  with rpc show ?thesis unfolding healthy_store_def by (auto simp: sample_fs_def)
qed

lemma sample_blocks: "block_list id sample_content 0 = [(0, 3, [1, 2, 3])]"
  by (simp add: block_list.simps VOLUME_BLOCK_SIZE_def sample_content_def)


lemma volume_put_declares_witness:
  "\<exists>(stats :: volume_put_stats) w' resp w0. responses_genuine (still_host :: bytes set host) sample_http id (\<lambda>_. sample_content) sample_files resp \<and>
     vs_files stats = length sample_files \<and> vs_bytes stats = (\<Sum>pf\<leftarrow>sample_files. length sample_content) \<and>
     volume_put_files2_rpc sample_volume
       \<lparr>vp_volume_id = ''vo-1'',
        vp_files = map (\<lambda>pf. \<lparr>pf_path = pl_remote pf, pf_size = length sample_content, pf_mode = Some (pl_mode pf),
            pf_blocks = map (\<lambda>(_, _, sha). \<lparr>contents_sha256 = sha, put_response = resp sha\<rparr>)
              (block_list id sample_content 0)\<rparr>) sample_files,
        vp_disallow_overwrite_existing_files = \<not> True\<rparr> w0 = Some (Inr [], w')"
proof -
  have "sample_files \<noteq> []" by (simp add: sample_files_def)
  from healthy_upload [OF sample_healthy sample_stable this] obtain stats w' where
    "volume_put still_host sample_volume sample_http id sample_fs ''vo-1'' sample_files True (\<lambda>_ _ w. w) {} = Some (Inr stats, w')"
    by blast
  from volume_put_declares [OF this sample_stable] show ?thesis by - (rule exI, rule exI, assumption)
qed

lemma blocks_partition_file_witness:
  "concat (map (block_bytes sample_content) [(0, 3, [1, 2, 3])]) = sample_content \<and>
     list_all (\<lambda>b. snd (snd b) = id (block_bytes sample_content b) \<and> 0 < fst (snd b) \<and> fst (snd b) \<le> VOLUME_BLOCK_SIZE)
       [(0 :: nat, 3 :: nat, [1, 2, 3])] \<and>
     length [(0 :: nat, 3 :: nat, [1, 2, 3] :: bytes)] = (length sample_content + VOLUME_BLOCK_SIZE - 1) div VOLUME_BLOCK_SIZE"
proof -
  have "hash_blocks id sample_fs 0 (length sample_content) () 0 [] = Inr [(0, 3, [1, 2, 3])]"
    by (simp only: hash_blocks_list [OF sample_reads] sample_blocks append_Nil)
  from blocks_partition_file [OF sample_reads this] show ?thesis unfolding list_all_iff .
qed

definition sample_tree :: node where
  "sample_tree = Directory [Entry ''z'' (Regular 0x1A4), Entry ''d'' (Directory [Entry ''a'' (Regular 0x81ED), Entry ''fifo'' Special])]"

definition sample_plan :: "planned_file list" where
  "sample_plan =
     [\<lparr>pl_local = [''w'', ''d'', ''a''], pl_remote = ''dst/d/a'', pl_mode = 0x1ED\<rparr>,
      \<lparr>pl_local = [''w'', ''z''], pl_remote = ''dst/z'', pl_mode = 0x1A4\<rparr>]"

lemma sample_planned: "plan_upload (\<lambda>_. Inr sample_tree) [''w''] ''/dst/'' = Inr sample_plan"
  by code_simp

theorem plan_upload_exact_witness:
  "mset (map (\<lambda>f. (pl_local f, pl_mode f)) sample_plan) = mset (map (\<lambda>(p, m). (p, file_mode m)) (regular_files [''w''] sample_tree)) \<and>
   list_all (\<lambda>f. clean_remote (pl_remote f)) sample_plan \<and> sorted (map pl_remote sample_plan)"
  unfolding list_all_iff by (rule plan_upload_exact [OF sample_planned refl])

end
