(* ===== verification/Upload.thy ===== *)
theory Upload
  imports Resources "HOL-Library.Multiset"
begin

text \<open>
  The upload of local source as a mount (\<open>crates/modal-rust-sdk/src/ops/local_dir.rs\<close>) and the blob path
  for large files (\<open>ops/blob.rs\<close>): which files are selected, under which paths, and that each is confirmed
  by the server before the mount is made.  The directory walker, the gitignore engine, SHA-256 and base64
  are parameters.  The upload tasks are taken to run one at a time, in any order the runtime picks,
  at most sixteen of them spawned; their RPCs are not interleaved.
\<close>

section \<open>Ignore files\<close>

definition DEFAULT_IGNORE_PATTERNS :: "string list" where
  "DEFAULT_IGNORE_PATTERNS = [''target/'', ''.git/'', ''**/*.rlib'', ''tests/'']"

definition DEFAULT_MODALIGNORE_NAME :: string where "DEFAULT_MODALIGNORE_NAME = ''.modalignore''"

text \<open>The \<open>ignore\<close> crate: a builder \<open>'b\<close> that takes lines and files, and the matcher \<open>'g\<close> it builds.\<close>

record ('b, 'g) gitignore =
  builder_new :: "path \<Rightarrow> 'b"
  builder_add_line :: "string \<Rightarrow> 'b \<Rightarrow> string + 'b"
  builder_add :: "path \<Rightarrow> 'b \<Rightarrow> string option \<times> 'b"
  builder_build :: "'b \<Rightarrow> string + 'g"
  matched_is_ignore :: "'g \<Rightarrow> path \<Rightarrow> bool \<Rightarrow> bool"

text \<open>The file system, and the directory walker: what it yields below a directory for a filter that
  prunes.\<close>

record walk_item =
  wi_path :: path
  wi_is_dir :: bool
  wi_is_file :: bool

record source_tree =
  tree_is_dir :: "path \<Rightarrow> bool"
  tree_is_file :: "path \<Rightarrow> bool"
  read_bytes :: "path \<Rightarrow> string + bytes"
  mode_bits :: "path \<Rightarrow> u32 option"
  walk_filtered :: "path \<Rightarrow> (walk_item \<Rightarrow> bool) \<Rightarrow> (string + walk_item) list"

definition build_matcher ::
  "source_tree \<Rightarrow> ('b, 'g) gitignore \<Rightarrow> path \<Rightarrow> string \<Rightarrow> error + 'g" where
  "build_matcher T G base modalignore_name =
     and_then (try_fold (\<lambda>pat b. map_sum (\<lambda>e. Build (''invalid default ignore pattern '' @ quoted pat @ '': '' @ e)) id
         (builder_add_line G pat b)) DEFAULT_IGNORE_PATTERNS (builder_new G base)) (\<lambda>b.
     let add = (\<lambda>file b.
           if tree_is_file T file
           then (case builder_add G file b of
                   (Some e, b) \<Rightarrow> Inl (Build (''failed to parse '' @ quoted (show_path file) @ '': '' @ e))
                 | (None, b) \<Rightarrow> Inr b)
           else Inr b)
     in and_then (add (base @ [''.gitignore'']) b) (\<lambda>b.
        and_then (add (base @ [modalignore_name]) b) (\<lambda>b.
          map_sum (\<lambda>e. Build (''failed to build ignore matcher: '' @ e)) id (builder_build G b))))"

definition is_ignored :: "('b, 'g) gitignore \<Rightarrow> 'g \<Rightarrow> path \<Rightarrow> bool \<Rightarrow> bool" where
  "is_ignored G matcher rel is_dir = (if rel = [] then False else matched_is_ignore G matcher rel is_dir)"

section \<open>Mount paths\<close>

definition normalize_remote_prefix :: "string \<Rightarrow> string" where
  "normalize_remote_prefix remote_path = trim_end_matches (\<lambda>c. c = CHR ''/'') remote_path"

definition mount_path :: "string \<Rightarrow> string \<Rightarrow> string" where
  "mount_path remote_prefix rel_posix =
     (if remote_prefix = [] then ''/'' @ rel_posix else remote_prefix @ ''/'' @ rel_posix)"

text \<open>Components that are not UTF-8 are dropped.\<close>

definition posix_of :: "path \<Rightarrow> string" where
  "posix_of rel = join_with ''/'' (filter utf8_valid rel)"

section \<open>Selection\<close>

record source_file =
  sf_mount_filename :: string
  sf_data :: bytes
  sf_mode :: "u32 option"

definition read_local_file :: "source_tree \<Rightarrow> path \<Rightarrow> string \<Rightarrow> error + source_file" where
  "read_local_file T p mount_filename =
     (case read_bytes T p of
        Inl e \<Rightarrow> Inl (Build (''reading '' @ quoted (show_path p) @ '' failed: '' @ e))
      | Inr data \<Rightarrow>
          Inr \<lparr>sf_mount_filename = mount_filename, sf_data = data, sf_mode = map_option (\<lambda>m. and m 0xFFF) (mode_bits T p)\<rparr>)"

text \<open>The walk keeps what the matcher does not ignore, and everything outside its root.\<close>

definition keep_entry :: "('b, 'g) gitignore \<Rightarrow> 'g \<Rightarrow> path \<Rightarrow> walk_item \<Rightarrow> bool" where
  "keep_entry G matcher base it =
     (case path_strip_prefix base (wi_path it) of
        Some rel \<Rightarrow> \<not> is_ignored G matcher rel (wi_is_dir it)
      | None \<Rightarrow> True)"

type_synonym selection = "source_file list \<times> string set"

definition add_file :: "source_tree \<Rightarrow> string \<Rightarrow> path \<Rightarrow> path \<Rightarrow> selection \<Rightarrow> error + selection" where
  "add_file T prefix p rel = (\<lambda>(files, seen).
     let mount_filename = mount_path prefix (posix_of rel) in
     if mount_filename \<in> seen then Inr (files, seen)
     else map_sum id (\<lambda>f. (files @ [f], insert mount_filename seen)) (read_local_file T p mount_filename))"

definition add_crate_entry :: "source_tree \<Rightarrow> path \<Rightarrow> string \<Rightarrow> string + walk_item \<Rightarrow> selection \<Rightarrow> error + selection" where
  "add_crate_entry T base prefix entry s =
     (case entry of
        Inl e \<Rightarrow> Inl (Build (''walking closure crate dir failed: '' @ e))
      | Inr it \<Rightarrow>
          if \<not> wi_is_file it then Inr s
          else case path_strip_prefix base (wi_path it) of
                 None \<Rightarrow> Inl (Build (''closure crate dir '' @ quoted (show_path (wi_path it))
                           @ '' is outside the workspace root '' @ quoted (show_path base) @ '': prefix not found''))
               | Some rel \<Rightarrow> add_file T prefix (wi_path it) rel s)"

definition add_crate_dir ::
  "source_tree \<Rightarrow> ('b, 'g) gitignore \<Rightarrow> 'g \<Rightarrow> path \<Rightarrow> string \<Rightarrow> path \<Rightarrow> selection \<Rightarrow> error + selection" where
  "add_crate_dir T G matcher base prefix dir s =
     (if \<not> tree_is_dir T dir
      then Inl (Build (''closure crate dir '' @ quoted (show_path dir) @ '' is not a directory''))
      else try_fold (add_crate_entry T base prefix) (walk_filtered T dir (keep_entry G matcher base)) s)"

definition add_extra_file :: "source_tree \<Rightarrow> path \<Rightarrow> string \<Rightarrow> path \<Rightarrow> selection \<Rightarrow> error + selection" where
  "add_extra_file T base prefix p s =
     (if \<not> tree_is_file T p then Inr s
      else case path_strip_prefix base p of
             None \<Rightarrow> Inl (Build (''extra file '' @ quoted (show_path p)
                       @ '' is outside the workspace root '' @ quoted (show_path base) @ '': prefix not found''))
           | Some rel \<Rightarrow> add_file T prefix p rel s)"

definition inline_path :: "string \<Rightarrow> string \<Rightarrow> string" where
  "inline_path prefix rel_posix = mount_path prefix (trim_start_matches (\<lambda>c. c = CHR ''/'') rel_posix)"

definition append_inline_file :: "string \<Rightarrow> string \<times> bytes \<Rightarrow> selection \<Rightarrow> selection" where
  "append_inline_file prefix = (\<lambda>(rel_posix, data) (files, seen).
     let mount_filename = inline_path prefix rel_posix in
     (filter (\<lambda>f. sf_mount_filename f \<noteq> mount_filename) files
        @ [\<lparr>sf_mount_filename = mount_filename, sf_data = data, sf_mode = Some 0x1A4\<rparr>],
      insert mount_filename seen))"

definition append_inline_files :: "string \<Rightarrow> (string \<times> bytes) list \<Rightarrow> selection \<Rightarrow> selection" where
  "append_inline_files prefix inline_files s = fold (append_inline_file prefix) inline_files s"

definition collect_files_for_dirs ::
  "source_tree \<Rightarrow> ('b, 'g) gitignore \<Rightarrow> path \<Rightarrow> path list \<Rightarrow> path list \<Rightarrow> (string \<times> bytes) list \<Rightarrow> string \<Rightarrow> 'g \<Rightarrow>
     error + source_file list" where
  "collect_files_for_dirs T G base crate_dirs extra_files inline_files remote_prefix matcher =
     (let prefix = normalize_remote_prefix remote_prefix in
      and_then (try_fold (add_crate_dir T G matcher base prefix) crate_dirs ([], {})) (\<lambda>s.
      and_then (try_fold (add_extra_file T base prefix) extra_files s) (\<lambda>s.
        Inr (fst (append_inline_files prefix inline_files s)))))"

text \<open>The fallback: the whole directory, without the check for paths already taken.\<close>

definition add_dir_entry :: "source_tree \<Rightarrow> path \<Rightarrow> string \<Rightarrow> string + walk_item \<Rightarrow> selection \<Rightarrow> error + selection" where
  "add_dir_entry T base prefix entry = (\<lambda>(files, seen).
     case entry of
       Inl e \<Rightarrow> Inl (Build (''walking local source dir failed: '' @ e))
     | Inr it \<Rightarrow>
         if \<not> wi_is_file it then Inr (files, seen)
         else case path_strip_prefix base (wi_path it) of
                None \<Rightarrow> Inl (Build ''path prefix error during walk: prefix not found'')
              | Some rel \<Rightarrow>
                  (let mount_filename = mount_path prefix (posix_of rel) in
                   map_sum id (\<lambda>f. (files @ [f], insert mount_filename seen)) (read_local_file T (wi_path it) mount_filename)))"

definition collect_files ::
  "source_tree \<Rightarrow> ('b, 'g) gitignore \<Rightarrow> path \<Rightarrow> string \<Rightarrow> 'g \<Rightarrow> (string \<times> bytes) list \<Rightarrow> error + source_file list" where
  "collect_files T G local_dir remote_prefix matcher inline_files =
     (let prefix = normalize_remote_prefix remote_prefix in
      and_then (try_fold (add_dir_entry T local_dir prefix) (walk_filtered T local_dir (keep_entry G matcher local_dir)) ([], {})) (\<lambda>s.
        Inr (fst (append_inline_files prefix inline_files s))))"

section \<open>Blobs\<close>

definition LARGE_FILE_BLOB_THRESHOLD :: nat where "LARGE_FILE_BLOB_THRESHOLD = 4 * 1024 * 1024"

record blob_create_request =
  bc_content_md5 :: string
  bc_content_sha256_base64 :: string
  bc_content_length :: int

datatype upload_type = UploadUrl string | Multipart

record blob_create_response =
  bc_blob_id :: string
  bc_upload_type :: "upload_type option"

text \<open>SHA-256 and base64.\<close>

record digests_lib =
  sha256_digest :: "bytes \<Rightarrow> bytes"
  base64_encode :: "bytes \<Rightarrow> string"

definition sha256_hex :: "digests_lib \<Rightarrow> bytes \<Rightarrow> string" where
  "sha256_hex X data =
     concat (map (\<lambda>b. [hex_digit (unat b div 16), hex_digit (unat b mod 16)]) (sha256_digest X data))"

definition build_blob_create_request :: "digests_lib \<Rightarrow> bytes \<Rightarrow> blob_create_request" where
  "build_blob_create_request X data =
     \<lparr>bc_content_md5 = [], bc_content_sha256_base64 = base64_encode X (sha256_digest X data),
      bc_content_length = int (length data)\<rparr>"

datatype data_oneof = Data bytes | DataBlobId string

record mount_put_file_request =
  mp_sha256_hex :: string
  mp_data_oneof :: "data_oneof option"

definition build_mount_put_file_request :: "string \<Rightarrow> data_oneof option \<Rightarrow> mount_put_file_request" where
  "build_mount_put_file_request sha data = \<lparr>mp_sha256_hex = sha, mp_data_oneof = data\<rparr>"

record 'w upload_stub =
  blob_create_rpc :: "('w, blob_create_request, blob_create_response) rpc"
  mount_put_file_rpc :: "('w, mount_put_file_request, bool) rpc"
  mount_get_or_create_rpc :: "'w mount_rpc"

definition blob_create_and_put ::
  "'w host \<Rightarrow> 'w http \<Rightarrow> digests_lib \<Rightarrow> 'w upload_stub \<Rightarrow> bytes \<Rightarrow> ('w, string) io" where
  "blob_create_and_put h net X st data =
     bind_io (retry_rpc h (blob_create_rpc st) (build_blob_create_request X data)) (\<lambda>resp.
       case bc_upload_type resp of
         Some (UploadUrl u) \<Rightarrow> bind_io (put_blob_bytes h net u data) (\<lambda>_. ret (bc_blob_id resp))
       | Some Multipart \<Rightarrow> throw (Invalid ''multipart blob uploads not yet supported (file exceeds the single-part limit)'')
       | None \<Rightarrow> throw (Build ''BlobCreate response did not include an upload URL''))"

section \<open>One file\<close>

definition MOUNT_PUT_FILE_CLIENT_TIMEOUT :: nat where "MOUNT_PUT_FILE_CLIENT_TIMEOUT = secs 600"

definition mount_put_file_probe :: "'w host \<Rightarrow> 'w upload_stub \<Rightarrow> string \<Rightarrow> ('w, bool) io" where
  "mount_put_file_probe h st sha = retry_rpc h (mount_put_file_rpc st) (build_mount_put_file_request sha None)"

definition confirm_step :: "'w host \<Rightarrow> 'w upload_stub \<Rightarrow> string \<Rightarrow> nat \<Rightarrow> 'w \<Rightarrow> ('w + (error + unit) \<times> 'w) option" where
  "confirm_step h st sha deadline w =
     (case mount_put_file_probe h st sha w of
        None \<Rightarrow> None
      | Some (Inl e, w1) \<Rightarrow> Some (Inr (Inl e, w1))
      | Some (Inr exists, w1) \<Rightarrow>
          if exists then Some (Inr (Inr (), w1))
          else if deadline \<le> instant_now h w1
          then Some (Inr (Inl (Build (''uploading mount file with sha256 '' @ sha @ '' timed out after 10 minutes'')), w1))
          else Some (Inl w1))"

definition ensure_file_uploaded ::
  "'w host \<Rightarrow> 'w http \<Rightarrow> digests_lib \<Rightarrow> 'w upload_stub \<Rightarrow> string \<times> bytes \<Rightarrow> ('w, unit) io" where
  "ensure_file_uploaded h net X st = (\<lambda>(sha, data).
     bind_io (mount_put_file_probe h st sha) (\<lambda>exists.
       if exists then ret ()
       else bind_io (if LARGE_FILE_BLOB_THRESHOLD \<le> length data
                     then bind_io (blob_create_and_put h net X st data) (\<lambda>i. ret (DataBlobId i))
                     else ret (Data data)) (\<lambda>data_oneof.
            bind_io (retry_rpc h (mount_put_file_rpc st) (build_mount_put_file_request sha (Some data_oneof))) (\<lambda>_ w.
              loop (confirm_step h st sha (instant_now h w + MOUNT_PUT_FILE_CLIENT_TIMEOUT)) w))))"

section \<open>All files\<close>

definition UPLOAD_CONCURRENCY :: nat where "UPLOAD_CONCURRENCY = 16"

definition describe_file :: "digests_lib \<Rightarrow> source_file \<Rightarrow> mount_file" where
  "describe_file X f =
     \<lparr>mf_filename = sf_mount_filename f, mf_sha256_hex = sha256_hex X (sf_data f),
      mf_size = Some (length (sf_data f)), mf_mode = sf_mode f\<rparr>"

type_synonym accounts = "string set \<times> string set \<times> mount_file list \<times> (string \<times> bytes) list"

definition account_file :: "digests_lib \<Rightarrow> source_file \<Rightarrow> accounts \<Rightarrow> error + accounts" where
  "account_file X f = (\<lambda>(accounted_sha, seen_paths, mount_files, to_upload).
     if sf_mount_filename f \<in> seen_paths
     then Inl (Invalid (''duplicate mount path '' @ quoted (sf_mount_filename f)))
     else let sha = sha256_hex X (sf_data f) in
          Inr (insert sha accounted_sha, insert (sf_mount_filename f) seen_paths, mount_files @ [describe_file X f],
               if sha \<in> accounted_sha then to_upload else to_upload @ [(sha, sf_data f)]))"

text \<open>The running tasks and the queue of the others.  \<open>next_done\<close> is the runtime's choice of the task that
  finishes next; an error leaves the loop, and the tasks still running are aborted.\<close>

function run_tasks ::
  "(nat \<Rightarrow> 'w \<Rightarrow> nat) \<Rightarrow> ('t \<Rightarrow> ('w, unit) io) \<Rightarrow> 't list \<Rightarrow> 't list \<Rightarrow> ('w, unit) io" where
  "run_tasks next_done task running queue w =
     (if running = [] then ret () w
      else let i = next_done (length running) w mod length running in
           case task (running ! i) w of
             None \<Rightarrow> None
           | Some (Inl e, w1) \<Rightarrow> Some (Inl e, w1)
           | Some (Inr _, w1) \<Rightarrow>
               run_tasks next_done task (take i running @ drop (Suc i) running @ take 1 queue) (drop 1 queue) w1)"
  by pat_completeness auto

termination
proof (relation "measure (\<lambda>(_, _, running, queue, _). length running + length queue)", goal_cases)
  case prems: (2 next_done task running queue w)
  have "i + (n - Suc i) < n" if "i < n" for i n :: nat using that by simp
  from this [OF mod_less_divisor, of "length running" "next_done (length running) w"] prems show ?case
    by (cases queue) auto
qed simp

declare run_tasks.simps [simp del]

definition upload_files ::
  "'w host \<Rightarrow> 'w http \<Rightarrow> digests_lib \<Rightarrow> 'w upload_stub \<Rightarrow> (nat \<Rightarrow> 'w \<Rightarrow> nat) \<Rightarrow> source_file list \<Rightarrow>
     ('w, mount_file list) io" where
  "upload_files h net X st next_done files =
     bind_io (lift_res (try_fold (account_file X) files ({}, {}, [], []))) (\<lambda>(_, _, mount_files, to_upload).
     bind_io (run_tasks next_done (ensure_file_uploaded h net X st)
                (take UPLOAD_CONCURRENCY to_upload) (drop UPLOAD_CONCURRENCY to_upload)) (\<lambda>_.
       ret (sort_key mf_filename mount_files)))"

definition build_mount_get_or_create_source_request :: "string \<Rightarrow> mount_file list \<Rightarrow> mount_get_or_create_request" where
  "build_mount_get_or_create_source_request environment_name files =
     \<lparr>mg_deployment_name = [], mg_namespace = NAMESPACE_WORKSPACE, mg_environment_name = environment_name,
      mg_object_creation_type = creation_type_number Ephemeral, mg_files = files, mg_app_id = []\<rparr>"

definition finalize_mount ::
  "'w host \<Rightarrow> 'w http \<Rightarrow> digests_lib \<Rightarrow> 'w upload_stub \<Rightarrow> (nat \<Rightarrow> 'w \<Rightarrow> nat) \<Rightarrow> modal_config \<Rightarrow> source_file list \<Rightarrow> path \<Rightarrow>
     string option \<Rightarrow> ('w, string) io" where
  "finalize_mount h net X st next_done c files source_root env =
     (if files = [] then throw (Invalid (''no files to upload under '' @ quoted (show_path source_root) @ '' after applying ignore files''))
      else bind_io (upload_files h net X st next_done files) (\<lambda>mount_files.
           bind_io (retry_rpc h (mount_get_or_create_rpc st)
               (build_mount_get_or_create_source_request (env_or_default c env) mount_files)) (\<lambda>i.
             if i = [] then throw (Build ''MountGetOrCreate returned an empty mount_id for the uploaded local directory'')
             else ret i)))"

record workspace_closure_spec =
  wc_workspace_root :: path
  wc_crate_dirs :: "path list"
  wc_extra_files :: "path list"
  wc_extra_inline_files :: "(string \<times> bytes) list"
  wc_modalignore_name :: string

definition mount_workspace_closure ::
  "'w host \<Rightarrow> 'w http \<Rightarrow> digests_lib \<Rightarrow> 'w upload_stub \<Rightarrow> (nat \<Rightarrow> 'w \<Rightarrow> nat) \<Rightarrow> modal_config \<Rightarrow>
     source_tree \<Rightarrow> ('b, 'g) gitignore \<Rightarrow> workspace_closure_spec \<Rightarrow> string \<Rightarrow> string option \<Rightarrow> ('w, string) io" where
  "mount_workspace_closure h net X st next_done c T G spec remote_path env =
     (if \<not> tree_is_dir T (wc_workspace_root spec)
      then throw (Invalid (''mount_workspace_closure: workspace root '' @ quoted (show_path (wc_workspace_root spec)) @ '' is not a directory''))
      else bind_io (lift_res (
             and_then (build_matcher T G (wc_workspace_root spec) (wc_modalignore_name spec)) (\<lambda>matcher.
             collect_files_for_dirs T G (wc_workspace_root spec) (wc_crate_dirs spec) (wc_extra_files spec)
               (wc_extra_inline_files spec) remote_path matcher)))
             (\<lambda>files. finalize_mount h net X st next_done c files (wc_workspace_root spec) env))"

definition mount_local_dir_with_inline ::
  "'w host \<Rightarrow> 'w http \<Rightarrow> digests_lib \<Rightarrow> 'w upload_stub \<Rightarrow> (nat \<Rightarrow> 'w \<Rightarrow> nat) \<Rightarrow> modal_config \<Rightarrow>
     source_tree \<Rightarrow> ('b, 'g) gitignore \<Rightarrow> path \<Rightarrow> string \<Rightarrow> string \<Rightarrow> string option \<Rightarrow> (string \<times> bytes) list \<Rightarrow> ('w, string) io" where
  "mount_local_dir_with_inline h net X st next_done c T G local_dir remote_path modalignore_name env inline_files =
     (if \<not> tree_is_dir T local_dir
      then throw (Invalid (''mount_local_dir: '' @ quoted (show_path local_dir) @ '' is not a directory''))
      else bind_io (lift_res (
             and_then (build_matcher T G local_dir modalignore_name) (\<lambda>matcher.
             collect_files T G local_dir remote_path matcher inline_files)))
             (\<lambda>files. finalize_mount h net X st next_done c files local_dir env))"

definition mount_local_dir ::
  "'w host \<Rightarrow> 'w http \<Rightarrow> digests_lib \<Rightarrow> 'w upload_stub \<Rightarrow> (nat \<Rightarrow> 'w \<Rightarrow> nat) \<Rightarrow> modal_config \<Rightarrow>
     source_tree \<Rightarrow> ('b, 'g) gitignore \<Rightarrow> path \<Rightarrow> string \<Rightarrow> string \<Rightarrow> string option \<Rightarrow> ('w, string) io" where
  "mount_local_dir h net X st next_done c T G local_dir remote_path modalignore_name env =
     mount_local_dir_with_inline h net X st next_done c T G local_dir remote_path modalignore_name env []"

section \<open>Facts about the selection\<close>

text \<open>The regular files the walks of the crate directories yield, and the extra files that exist.\<close>

definition walked :: "(string + walk_item) list \<Rightarrow> path set" where
  "walked es = {wi_path it | it. Inr it \<in> set es \<and> wi_is_file it}"

definition selected ::
  "source_tree \<Rightarrow> ('b, 'g) gitignore \<Rightarrow> 'g \<Rightarrow> path \<Rightarrow> path list \<Rightarrow> path list \<Rightarrow> path set" where
  "selected T G matcher base dirs extra =
     (\<Union>dir\<in>set dirs. walked (walk_filtered T dir (keep_entry G matcher base))) \<union> {p \<in> set extra. tree_is_file T p}"

definition mount_name :: "path \<Rightarrow> string \<Rightarrow> path \<Rightarrow> string" where
  "mount_name base prefix p = mount_path prefix (posix_of (drop (length base) p))"

definition selection_inv :: "source_tree \<Rightarrow> path \<Rightarrow> string \<Rightarrow> path set \<Rightarrow> selection \<Rightarrow> bool" where
  "selection_inv T base prefix S = (\<lambda>(files, seen).
     distinct (map sf_mount_filename files) \<and> sf_mount_filename ` set files = seen \<and> seen = mount_name base prefix ` S \<and>
     (\<forall>f\<in>set files. \<exists>p\<in>S. sf_mount_filename f = mount_name base prefix p \<and> read_bytes T p = Inr (sf_data f)))"

lemma read_local_file_Inr:
  "read_local_file T p m = Inr f \<Longrightarrow> sf_mount_filename f = m \<and> read_bytes T p = Inr (sf_data f)"
  by (auto simp: read_local_file_def split: sum.splits)

lemma add_file_inv:
  assumes inv: "selection_inv T base prefix S s" and p: "p = base @ rel" and run: "add_file T prefix p rel s = Inr s'"
  shows "selection_inv T base prefix (insert p S) s'"
proof -
  obtain files seen where s: "s = (files, seen)" by (cases s)
  have name: "mount_path prefix (posix_of rel) = mount_name base prefix p" by (simp add: mount_name_def p)
  show ?thesis
  proof (cases "mount_name base prefix p \<in> seen")
    case True
    with run s have "s' = s" by (simp add: add_file_def name Let_def)
    with inv True s show ?thesis by (auto simp: selection_inv_def)
  next
    case False
    with run s obtain f where f: "read_local_file T p (mount_name base prefix p) = Inr f"
      and s': "s' = (files @ [f], insert (mount_name base prefix p) seen)"
      by (auto simp: add_file_def name Let_def map_sum_def split: sum.splits)
    from read_local_file_Inr [OF f] inv False s show ?thesis
      by (auto simp: s' selection_inv_def)
  qed
qed

lemma walked_Cons: "walked (e # es) = walked [e] \<union> walked es"
  by (auto simp: walked_def)

lemma add_crate_entries_inv:
  "selection_inv T base prefix S s \<Longrightarrow> try_fold (add_crate_entry T base prefix) es s = Inr s' \<Longrightarrow>
     selection_inv T base prefix (S \<union> walked es) s'"
proof (induction es arbitrary: S s)
  case (Cons e es)
  from Cons.prems(2) obtain s1 where s1: "add_crate_entry T base prefix e s = Inr s1"
    and rest: "try_fold (add_crate_entry T base prefix) es s1 = Inr s'"
    by (auto simp: result_iffs)
  have "selection_inv T base prefix (S \<union> walked [e]) s1"
    using s1 Cons.prems(1) add_file_inv [OF Cons.prems(1)]
    by (auto simp: add_crate_entry_def walked_def path_strip_prefix_Some split: sum.splits if_splits option.splits)
  from Cons.IH [OF this rest] show ?case by (simp add: walked_Cons [of e es] Un_assoc)
qed (simp add: walked_def)

lemma add_crate_dirs_inv:
  "selection_inv T base prefix S s \<Longrightarrow> try_fold (add_crate_dir T G matcher base prefix) dirs s = Inr s' \<Longrightarrow>
     selection_inv T base prefix (S \<union> (\<Union>dir\<in>set dirs. walked (walk_filtered T dir (keep_entry G matcher base)))) s'"
proof (induction dirs arbitrary: S s)
  case (Cons d dirs)
  from Cons.prems(2) obtain s1 where s1: "add_crate_dir T G matcher base prefix d s = Inr s1"
    and rest: "try_fold (add_crate_dir T G matcher base prefix) dirs s1 = Inr s'"
    by (auto simp: result_iffs)
  from s1 have "try_fold (add_crate_entry T base prefix) (walk_filtered T d (keep_entry G matcher base)) s = Inr s1"
    by (simp add: add_crate_dir_def split: if_splits)
  from Cons.IH [OF add_crate_entries_inv [OF Cons.prems(1) this] rest] show ?case by (simp add: Un_assoc)
qed simp

lemma add_extra_files_inv:
  "selection_inv T base prefix S s \<Longrightarrow> try_fold (add_extra_file T base prefix) extra s = Inr s' \<Longrightarrow>
     selection_inv T base prefix (S \<union> {p \<in> set extra. tree_is_file T p}) s'"
proof (induction extra arbitrary: S s)
  case (Cons p extra)
  from Cons.prems(2) obtain s1 where s1: "add_extra_file T base prefix p s = Inr s1"
    and rest: "try_fold (add_extra_file T base prefix) extra s1 = Inr s'"
    by (auto simp: result_iffs)
  show ?case
  proof (cases "tree_is_file T p")
    case True
    with s1 obtain rel where "p = base @ rel" "add_file T prefix p rel s = Inr s1"
      by (auto simp: add_extra_file_def path_strip_prefix_Some split: option.splits)
    from Cons.IH [OF add_file_inv [OF Cons.prems(1) this] rest]
    have "selection_inv T base prefix (insert p S \<union> {p \<in> set extra. tree_is_file T p}) s'" .
    moreover have "insert p S \<union> {p \<in> set extra. tree_is_file T p} = S \<union> {q \<in> set (p # extra). tree_is_file T q}"
      using True by auto
    ultimately show ?thesis by simp
  next
    case False
    with s1 have "s1 = s" by (simp add: add_extra_file_def)
    moreover from False have "{q \<in> set (p # extra). tree_is_file T q} = {p \<in> set extra. tree_is_file T p}" by auto
    ultimately show ?thesis using Cons.IH [OF Cons.prems(1)] rest by simp
  qed
qed simp

text \<open>The bytes an inline file gives a mount path: the last one wins.\<close>

definition inline_data :: "string \<Rightarrow> (string \<times> bytes) list \<Rightarrow> string \<Rightarrow> bytes option" where
  "inline_data prefix inline_files = map_of (rev (map (\<lambda>(rel, data). (inline_path prefix rel, data)) inline_files))"

lemma append_inline_files_result:
  assumes "distinct (map sf_mount_filename files)"
  shows "case append_inline_files prefix inl (files, seen) of (files', seen') \<Rightarrow>
     distinct (map sf_mount_filename files') \<and>
     sf_mount_filename ` set files' = sf_mount_filename ` set files \<union> (inline_path prefix \<circ> fst) ` set inl \<and>
     (\<forall>f\<in>set files'. case inline_data prefix inl (sf_mount_filename f) of
        Some data \<Rightarrow> sf_data f = data \<and> sf_mode f = Some 0x1A4 | None \<Rightarrow> f \<in> set files)"
proof (induction inl rule: rev_induct)
  case Nil
  then show ?case by (simp add: append_inline_files_def inline_data_def assms)
next
  case (snoc x inl)
  obtain rel data where x: "x = (rel, data)" by (cases x)
  obtain files1 seen1 where s1: "append_inline_files prefix inl (files, seen) = (files1, seen1)" by force
  let ?m = "inline_path prefix rel"
  have s2: "append_inline_files prefix (inl @ [x]) (files, seen) =
      (filter (\<lambda>f. sf_mount_filename f \<noteq> ?m) files1 @ [\<lparr>sf_mount_filename = ?m, sf_data = data, sf_mode = Some 0x1A4\<rparr>], insert ?m seen1)"
    using s1 by (simp add: append_inline_files_def append_inline_file_def x Let_def)
  have look: "inline_data prefix (inl @ [x]) m = (if m = ?m then Some data else inline_data prefix inl m)" for m
    by (simp add: inline_data_def x)
  from snoc s1 have d: "distinct (map sf_mount_filename files1)"
    and n: "sf_mount_filename ` set files1 = sf_mount_filename ` set files \<union> (inline_path prefix \<circ> fst) ` set inl"
    and v: "\<forall>f\<in>set files1. case inline_data prefix inl (sf_mount_filename f) of
        Some data \<Rightarrow> sf_data f = data \<and> sf_mode f = Some 0x1A4 | None \<Rightarrow> f \<in> set files" by simp_all
  have "sf_mount_filename ` set (filter (\<lambda>f. sf_mount_filename f \<noteq> ?m) files1) = sf_mount_filename ` set files1 - {?m}"
    by auto
  then have names: "insert ?m (sf_mount_filename ` set (filter (\<lambda>f. sf_mount_filename f \<noteq> ?m) files1)) =
      sf_mount_filename ` set files \<union> (inline_path prefix \<circ> fst) ` set (inl @ [x])"
    using n by (auto simp: x)
  from d have "distinct (map sf_mount_filename (filter (\<lambda>f. sf_mount_filename f \<noteq> ?m) files1))" by (rule distinct_map_filter)
  with names v show ?case unfolding s2 prod.case by (simp add: look) auto
qed

section \<open>Facts about the upload\<close>

definition account_inv :: "digests_lib \<Rightarrow> source_file list \<Rightarrow> accounts \<Rightarrow> bool" where
  "account_inv X done = (\<lambda>(accounted_sha, seen_paths, mount_files, to_upload).
     accounted_sha = (sha256_hex X \<circ> sf_data) ` set done \<and> seen_paths = sf_mount_filename ` set done \<and>
     distinct (map sf_mount_filename done) \<and> mount_files = map (describe_file X) done \<and> fst ` set to_upload = accounted_sha)"

lemma account_files_inv:
  "account_inv X done s \<Longrightarrow> try_fold (account_file X) files s = Inr s' \<Longrightarrow> account_inv X (done @ files) s'"
proof (induction files arbitrary: "done" s)
  case (Cons f files)
  from Cons.prems(2) obtain s1 where s1: "account_file X f s = Inr s1" and rest: "try_fold (account_file X) files s1 = Inr s'"
    by (auto simp: result_iffs)
  obtain acc seen mfs up where s: "s = (acc, seen, mfs, up)" by (cases s)
  let ?sha = "sha256_hex X (sf_data f)"
  let ?up = "if ?sha \<in> acc then up else up @ [(?sha, sf_data f)]"
  from s1 have new: "sf_mount_filename f \<notin> seen"
    and s1': "s1 = (insert ?sha acc, insert (sf_mount_filename f) seen, mfs @ [describe_file X f], ?up)"
    by (auto simp: s account_file_def Let_def split: if_splits)
  from Cons.prems(1) have inv: "acc = (sha256_hex X \<circ> sf_data) ` set done" "seen = sf_mount_filename ` set done"
    "distinct (map sf_mount_filename done)" "mfs = map (describe_file X) done" "fst ` set up = acc"
    by (simp_all add: account_inv_def s)
  have "fst ` set ?up = insert ?sha acc" using inv(5) by (simp add: insert_absorb)
  with inv(1-4) new have "account_inv X (done @ [f]) s1" by (simp add: account_inv_def s1')
  from Cons.IH [OF this rest] show ?case by simp
qed simp

lemma account_files:
  assumes "try_fold (account_file X) files ({}, {}, [], []) = Inr (acc, seen, mount_files, to_upload)"
  shows "distinct (map sf_mount_filename files)" "mount_files = map (describe_file X) files"
    "fst ` set to_upload = (sha256_hex X \<circ> sf_data) ` set files"
  using account_files_inv [OF _ assms, of "[]"] by (simp_all add: account_inv_def)

lemma set_without_nth: "i < length xs \<Longrightarrow> set xs = insert (xs ! i) (set (take i xs @ drop (Suc i) xs))"
  using arg_cong [OF id_take_nth_drop, of i xs set] by auto

text \<open>When the task set is drained without an error, every task has run to its end.\<close>

lemma run_tasks_all:
  assumes "run_tasks next_done task running queue w = Some (Inr (), w')" "running = [] \<Longrightarrow> queue = []"
  shows "\<forall>t\<in>set running \<union> set queue. \<exists>w0 w1. task t w0 = Some (Inr (), w1)"
  using assms
proof (induction next_done task running queue w rule: run_tasks.induct)
  case (1 next_done task running queue w)
  show ?case
  proof (cases "running = []")
    case False
    let ?i = "next_done (length running) w mod length running"
    let ?rest = "take ?i running @ drop (Suc ?i) running @ take 1 queue"
    from False have i: "?i < length running" by simp
    from 1(2) False obtain w1 where ok: "task (running ! ?i) w = Some (Inr (), w1)"
      and run: "run_tasks next_done task ?rest (drop 1 queue) w1 = Some (Inr (), w')"
      by (subst (asm) run_tasks.simps) (auto simp: Let_def split: option.splits sum.splits)
    have "?rest = [] \<Longrightarrow> drop 1 queue = []" by (cases queue) simp_all
    from 1(1) [OF False refl ok refl refl run this]
    have IH: "\<forall>t\<in>set ?rest \<union> set (drop 1 queue). \<exists>w0 w1. task t w0 = Some (Inr (), w1)" .
    have "t = running ! ?i \<or> t \<in> set ?rest \<union> set (drop 1 queue)" if "t \<in> set running \<union> set queue" for t
    proof -
      have "t \<in> set running \<Longrightarrow> t = running ! ?i \<or> t \<in> set ?rest"
        by (subst (asm) set_without_nth [OF i]) auto
      moreover have "t \<in> set queue \<Longrightarrow> t \<in> set (take 1 queue) \<or> t \<in> set (drop 1 queue)"
        by (cases queue) auto
      ultimately show ?thesis using that by auto
    qed
    with IH ok show ?thesis by blast
  qed (use 1 in simp)
qed

text \<open>What the server says of a digest.\<close>

definition confirmed :: "'w upload_stub \<Rightarrow> string \<Rightarrow> bool" where
  "confirmed st sha \<longleftrightarrow> (\<exists>w0 w1. mount_put_file_rpc st (build_mount_put_file_request sha None) w0 = Some (Inr True, w1))"

lemma probe_confirmed: "mount_put_file_probe h st sha w = Some (Inr True, w') \<Longrightarrow> confirmed st sha"
  unfolding mount_put_file_probe_def confirmed_def by (blast dest: unary.ok_from_stub)

lemma confirm_step_ok: "confirm_step h st sha deadline w = Some (Inr (Inr u, w')) \<Longrightarrow> mount_put_file_probe h st sha w = Some (Inr True, w')"
  by (auto simp: confirm_step_def split: option.splits sum.splits if_splits)

lemma confirm_loop_confirmed:
  assumes "loop (confirm_step h st sha deadline) w = Some (Inr u, w')"
  shows "confirmed st sha"
proof -
  from loop_ends [OF assms] obtain v where "confirm_step h st sha deadline v = Some (Inr (Inr u, w'))" by blast
  then show ?thesis by (rule probe_confirmed [OF confirm_step_ok])
qed

lemma ensure_confirmed:
  assumes "ensure_file_uploaded h net X st (sha, data) w = Some (Inr u, w')"
  shows "confirmed st sha"
proof -
  from assms obtain exists w1 where p: "mount_put_file_probe h st sha w = Some (Inr exists, w1)"
    by (auto simp: ensure_file_uploaded_def bind_io_Inr_iff)
  show ?thesis
  proof (cases exists)
    case True
    with p show ?thesis by (simp add: probe_confirmed)
  next
    case False
    with assms p obtain d w2 where "loop (confirm_step h st sha d) w2 = Some (Inr u, w')"
      by (auto simp: ensure_file_uploaded_def bind_io_Inr_iff)
    then show ?thesis by (rule confirm_loop_confirmed)
  qed
qed

lemma upload_files_result:
  assumes "upload_files h net X st next_done files w = Some (Inr mount_files, w')"
  shows "distinct (map sf_mount_filename files)" "mount_files = sort_key mf_filename (map (describe_file X) files)"
    "\<forall>f\<in>set files. confirmed st (sha256_hex X (sf_data f))"
proof -
  obtain acc seen mfs up where a: "try_fold (account_file X) files ({}, {}, [], []) = Inr (acc, seen, mfs, up)"
  proof (cases "try_fold (account_file X) files ({}, {}, [], [])")
    case (Inl e)
    with assms show thesis by (simp add: upload_files_def bind_io_Inr_iff)
  next
    case (Inr s)
    then show thesis by (cases s) (simp add: that)
  qed
  with assms have
    t: "run_tasks next_done (ensure_file_uploaded h net X st) (take UPLOAD_CONCURRENCY up) (drop UPLOAD_CONCURRENCY up) w = Some (Inr (), w')"
    and m: "mount_files = sort_key mf_filename mfs"
    by (simp_all add: upload_files_def bind_io_Inr_iff)
  from account_files [OF a] m show "distinct (map sf_mount_filename files)"
    "mount_files = sort_key mf_filename (map (describe_file X) files)" by simp_all
  have "take UPLOAD_CONCURRENCY up = [] \<Longrightarrow> drop UPLOAD_CONCURRENCY up = []"
    by (cases up) (simp_all add: UPLOAD_CONCURRENCY_def)
  note ran = run_tasks_all [OF t this]
  show "\<forall>f\<in>set files. confirmed st (sha256_hex X (sf_data f))"
  proof
    fix f
    assume "f \<in> set files"
    then have "sha256_hex X (sf_data f) \<in> fst ` set up" using account_files(3) [OF a] by simp
    then obtain data where "(sha256_hex X (sf_data f), data) \<in> set up" by auto
    then have "(sha256_hex X (sf_data f), data) \<in> set (take UPLOAD_CONCURRENCY up) \<union> set (drop UPLOAD_CONCURRENCY up)"
      by (metis append_take_drop_id set_append)
    with ran obtain w0 w1 where "ensure_file_uploaded h net X st (sha256_hex X (sf_data f), data) w0 = Some (Inr (), w1)" by blast
    then show "confirmed st (sha256_hex X (sf_data f))" by (rule ensure_confirmed)
  qed
qed

section \<open>The upload ends\<close>

lemma live_probe:
  assumes "forward_clock h" "live_rpc h (mount_put_file_rpc st)"
  obtains r w' where "mount_put_file_probe h st sha w = Some (r, w')" "instant_now h w < instant_now h w'"
  using live_retry_rpc [OF assms] unfolding mount_put_file_probe_def by blast

lemma confirm_loop_returns:
  assumes "forward_clock h" "live_rpc h (mount_put_file_rpc st)"
  shows "\<exists>r. loop (confirm_step h st sha deadline) w = Some r"
proof (rule loop_total [where I = "\<lambda>_. True" and m = "\<lambda>v. Suc deadline - instant_now h v"])
  fix v
  show "confirm_step h st sha deadline v \<noteq> None"
    by (rule live_probe [OF assms, of sha v]) (auto simp: confirm_step_def split: sum.splits)
next
  fix v v'
  assume step: "confirm_step h st sha deadline v = Some (Inl v')"
  obtain r v1 where p: "mount_put_file_probe h st sha v = Some (r, v1)" "instant_now h v < instant_now h v1"
    by (rule live_probe [OF assms])
  with step have "v' = v1" "instant_now h v1 < deadline"
    by (auto simp: confirm_step_def split: sum.splits if_splits)
  with p(2) show "True \<and> Suc deadline - instant_now h v' < Suc deadline - instant_now h v" by simp
qed simp

definition live_uploads :: "'w host \<Rightarrow> 'w http \<Rightarrow> 'w upload_stub \<Rightarrow> bool" where
  "live_uploads h net st \<longleftrightarrow> forward_clock h \<and> live_rpc h (mount_put_file_rpc st) \<and>
     (\<forall>req w. blob_create_rpc st req w \<noteq> None) \<and> (\<forall>req w. mount_get_or_create_rpc st req w \<noteq> None) \<and>
     (\<forall>url data w. http_put net url data w \<noteq> None)"

lemma put_blob_returns:
  assumes "\<And>w. http_put net url data w \<noteq> None"
  shows "\<exists>x. put_blob_bytes h net url data w = Some x"
  unfolding put_blob_bytes_def
proof (rule backoff_total)
  show "blob_put_attempt net url data v \<noteq> None" for v
    using assms [of v] by (auto simp: blob_put_attempt_def Let_def split: option.splits http_outcome.splits)
qed simp

lemma blob_returns:
  assumes "live_uploads h net st"
  shows "\<exists>x. blob_create_and_put h net X st data w = Some x"
proof -
  have "\<exists>x. retry_rpc h (blob_create_rpc st) req w = Some x" for req w
    using assms unary.returns [of "blob_create_rpc st" req h w] by (auto simp: live_uploads_def)
  moreover have put: "\<exists>x. put_blob_bytes h net u data w = Some x" for u w
    using assms by (intro put_blob_returns) (simp add: live_uploads_def)
  have "\<exists>x. bind_io (put_blob_bytes h net u data) (\<lambda>_. ret i) w = Some x" for u w and i :: string
    by (rule bind_io_returns [OF put]) (simp add: ret_def)
  ultimately show ?thesis
    unfolding blob_create_and_put_def
    by (intro bind_io_returns) (simp_all add: throw_def split: option.split upload_type.split)
qed

lemma ensure_returns:
  assumes "live_uploads h net st"
  shows "\<exists>x. ensure_file_uploaded h net X st item w = Some x"
proof -
  from assms have l: "forward_clock h" "live_rpc h (mount_put_file_rpc st)" by (simp_all add: live_uploads_def)
  have put: "\<exists>x. retry_rpc h (mount_put_file_rpc st) req w = Some x" for req w
    using live_retry_rpc [OF l] by metis
  let ?data = "if LARGE_FILE_BLOB_THRESHOLD \<le> length (snd item)
     then bind_io (blob_create_and_put h net X st (snd item)) (\<lambda>i. ret (DataBlobId i)) else ret (Data (snd item))"
  have data: "\<exists>x. ?data w = Some x" for w
  proof (cases "LARGE_FILE_BLOB_THRESHOLD \<le> length (snd item)")
    case True
    have "\<exists>x. bind_io (blob_create_and_put h net X st (snd item)) (\<lambda>i. ret (DataBlobId i)) w = Some x"
      by (rule bind_io_returns [OF blob_returns [OF assms]]) (simp add: ret_def)
    with True show ?thesis by simp
  qed (simp add: ret_def)
  show ?thesis
    unfolding ensure_file_uploaded_def mount_put_file_probe_def case_prod_unfold
  proof (rule bind_io_returns [OF put])
    fix exists w1
    let ?send = "bind_io ?data (\<lambda>data_oneof.
        bind_io (retry_rpc h (mount_put_file_rpc st) (build_mount_put_file_request (fst item) (Some data_oneof))) (\<lambda>_ w.
          loop (confirm_step h st (fst item) (instant_now h w + MOUNT_PUT_FILE_CLIENT_TIMEOUT)) w))"
    have "\<exists>x. ?send w1 = Some x"
      by (rule bind_io_returns [OF data], rule bind_io_returns [OF put], rule confirm_loop_returns [OF l])
    then show "\<exists>x. (if exists then ret () else ?send) w1 = Some x"
      by (cases exists) (simp_all add: ret_def)
  qed
qed

lemma run_tasks_returns:
  "(\<And>t w. \<exists>x. task t w = Some x) \<Longrightarrow> \<exists>x. run_tasks next_done task running queue w = Some x"
proof (induction next_done task running queue w rule: run_tasks.induct)
  case (1 next_done task running queue w)
  let ?i = "next_done (length running) w mod length running"
  obtain r w1 where "task (running ! ?i) w = Some (r, w1)" using 1(2) [of "running ! ?i" w] by auto
  then show ?case
    using 1 by (subst run_tasks.simps) (auto simp: Let_def ret_def split: sum.split)
qed

section \<open>Properties\<close>

text \<open>The walker's contract: it yields only what the filter keeps.\<close>

definition prunes :: "source_tree \<Rightarrow> bool" where
  "prunes T \<longleftrightarrow> (\<forall>dir P it. Inr it \<in> set (walk_filtered T dir P) \<longrightarrow> P it)"


text \<open>C24. A mount is made of confirmed content only: the id handed out is not empty and was given by the server for
  exactly the descriptors of the selected files, sorted by path; no path occurs twice; and the server has
  confirmed the digest of every file.\<close>

theorem mount_is_confirmed:
  assumes "finalize_mount h net X st next_done c files base env w = Some (Inr i, w')"
  shows "i \<noteq> [] \<and>
     (\<exists>w0. mount_get_or_create_rpc st (build_mount_get_or_create_source_request (env_or_default c env)
         (sort_key mf_filename (map (describe_file X) files))) w0 = Some (Inr i, w')) \<and>
     distinct (map sf_mount_filename files) \<and>
     (\<forall>f\<in>set files. \<exists>w0 w1. mount_put_file_rpc st (build_mount_put_file_request (sha256_hex X (sf_data f)) None) w0 = Some (Inr True, w1))"
proof -
  from assms obtain mount_files w1 where up: "upload_files h net X st next_done files w = Some (Inr mount_files, w1)"
    and r: "retry_rpc h (mount_get_or_create_rpc st) (build_mount_get_or_create_source_request (env_or_default c env) mount_files) w1 = Some (Inr i, w')"
    and "i \<noteq> []"
    by (auto simp: finalize_mount_def bind_io_Inr_iff split: if_splits)
  with upload_files_result [OF up] unary.ok_from_stub [OF r] show ?thesis by (simp add: confirmed_def)
qed

text \<open>An upload ends: when the calls of the service return and its clock advances, the mount is made or an error
  comes back, at the latest ten minutes after a file was sent and is still not confirmed.\<close>

lemma source_upload_ends:
  assumes "live_uploads h net st"
  shows "\<exists>r. finalize_mount h net X st next_done c files base env w = Some r"
proof -
  have "\<exists>x. upload_files h net X st next_done files w = Some x" for w
    unfolding upload_files_def
  proof (rule bind_io_returns)
    fix s :: accounts and w1
    obtain acc seen mfs up where s: "s = (acc, seen, mfs, up)" by (cases s)
    have "\<exists>x. bind_io (run_tasks next_done (ensure_file_uploaded h net X st) (take UPLOAD_CONCURRENCY up) (drop UPLOAD_CONCURRENCY up))
        (\<lambda>_. ret (sort_key mf_filename mfs)) w1 = Some x"
      by (rule bind_io_returns [OF run_tasks_returns [OF ensure_returns [OF assms]]]) (simp add: ret_def)
    then show "\<exists>x. (case s of (_, _, mount_files, to_upload) \<Rightarrow>
        bind_io (run_tasks next_done (ensure_file_uploaded h net X st) (take UPLOAD_CONCURRENCY to_upload) (drop UPLOAD_CONCURRENCY to_upload))
          (\<lambda>_. ret (sort_key mf_filename mount_files))) w1 = Some x" by (simp add: s)
  qed (simp add: lift_res_def)
  note uploads = this
  have mounts: "\<exists>x. retry_rpc h (mount_get_or_create_rpc st) req w = Some x" for req w
    using assms unary.returns [of "mount_get_or_create_rpc st" req h w] by (auto simp: live_uploads_def)
  show ?thesis
  proof (cases "files = []")
    case False
    have "\<exists>x. bind_io (upload_files h net X st next_done files) (\<lambda>mount_files.
        bind_io (retry_rpc h (mount_get_or_create_rpc st)
            (build_mount_get_or_create_source_request (env_or_default c env) mount_files)) (\<lambda>i.
          if i = [] then throw (Build ''MountGetOrCreate returned an empty mount_id for the uploaded local directory'')
          else ret i)) w = Some x"
      by (rule bind_io_returns [OF uploads], rule bind_io_returns [OF mounts]) (simp add: ret_def throw_def)
    with False show ?thesis by (simp add: finalize_mount_def)
  qed (simp add: finalize_mount_def throw_def)
qed

section \<open>A concrete source tree\<close>

definition sample_source :: source_tree where
  "sample_source = \<lparr>tree_is_dir = (\<lambda>_. True), tree_is_file = (\<lambda>_. True),
     read_bytes = (\<lambda>p. Inr (if last p = ''Cargo.lock'' then [7] else [1])), mode_bits = (\<lambda>_. Some 0x81A4),
     walk_filtered = (\<lambda>dir P. map Inr (filter P
       [\<lparr>wi_path = dir, wi_is_dir = True, wi_is_file = False\<rparr>,
        \<lparr>wi_path = dir @ [''lib.rs''], wi_is_dir = False, wi_is_file = True\<rparr>,
        \<lparr>wi_path = dir @ [''target''], wi_is_dir = True, wi_is_file = False\<rparr>,
        \<lparr>wi_path = dir @ [''Cargo.toml''], wi_is_dir = False, wi_is_file = True\<rparr>]))\<rparr>"

definition sample_ignore :: "(unit, unit) gitignore" where
  "sample_ignore = \<lparr>builder_new = (\<lambda>_. ()), builder_add_line = (\<lambda>_ b. Inr b), builder_add = (\<lambda>_ b. (None, b)),
     builder_build = Inr, matched_is_ignore = (\<lambda>_ rel _. ''target'' \<in> set rel)\<rparr>"

definition sample_selection :: "source_file list" where
  "sample_selection =
     [\<lparr>sf_mount_filename = ''/src/app/lib.rs'', sf_data = [1], sf_mode = Some 0x1A4\<rparr>,
      \<lparr>sf_mount_filename = ''/src/Cargo.lock'', sf_data = [7], sf_mode = Some 0x1A4\<rparr>,
      \<lparr>sf_mount_filename = ''/src/app/Cargo.toml'', sf_data = [9], sf_mode = Some 0x1A4\<rparr>]"

lemma sample_prunes: "prunes sample_source"
  by (auto simp: prunes_def sample_source_def)

lemma sample_collect:
  "collect_files_for_dirs sample_source sample_ignore [''ws''] [[''ws'', ''app'']] [[''ws'', ''Cargo.lock'']]
     [(''app/Cargo.toml'', [9])] ''/src/'' () = Inr sample_selection"
  by code_simp


definition tick_upload :: "(nat \<times> nat) upload_stub" where
  "tick_upload = \<lparr>blob_create_rpc = tick_rpc (Inr \<lparr>bc_blob_id = ''bl-1'', bc_upload_type = Some (UploadUrl ''u'')\<rparr>),
     mount_put_file_rpc = tick_rpc (Inr True), mount_get_or_create_rpc = tick_rpc (Inr ''mo-1'')\<rparr>"

definition plain_digests :: digests_lib where
  "plain_digests = \<lparr>sha256_digest = id, base64_encode = (\<lambda>_. ''b64'')\<rparr>"

lemma tick_finalize:
  "finalize_mount tick_host refusing_http plain_digests tick_upload (\<lambda>_ _. 0) c
     [\<lparr>sf_mount_filename = ''/src/x'', sf_data = [1], sf_mode = None\<rparr>] [''ws''] None (0, 0) = Some (Inr ''mo-1'', (2, 2))"
proof -
  have "ensure_file_uploaded tick_host refusing_http plain_digests tick_upload (''01'', [1]) (0, 0) = Some (Inr (), (1, 1))"
    by (simp add: ensure_file_uploaded_def mount_put_file_probe_def tick_upload_def bind_io_def ret_def)
  then have "run_tasks (\<lambda>_ _. 0) (ensure_file_uploaded tick_host refusing_http plain_digests tick_upload) [(''01'', [1])] [] (0, 0) =
      Some (Inr (), (1, 1))"
    by (subst run_tasks.simps) (simp add: run_tasks.simps ret_def)
  moreover have "sha256_hex plain_digests [1] = ''01''" by code_simp
  ultimately have "upload_files tick_host refusing_http plain_digests tick_upload (\<lambda>_ _. 0)
      [\<lparr>sf_mount_filename = ''/src/x'', sf_data = [1], sf_mode = None\<rparr>] (0, 0) =
      Some (Inr [\<lparr>mf_filename = ''/src/x'', mf_sha256_hex = ''01'', mf_size = Some 1, mf_mode = None\<rparr>], (1, 1))"
    by (simp add: upload_files_def account_file_def bind_io_def lift_res_def ret_def UPLOAD_CONCURRENCY_def describe_file_def Let_def)
  then show ?thesis
    by (simp add: finalize_mount_def bind_io_def ret_def tick_upload_def)
qed

theorem mount_is_confirmed_witness:
  "''mo-1'' \<noteq> [] \<and>
     (\<exists>w0. mount_get_or_create_rpc tick_upload (build_mount_get_or_create_source_request (env_or_default token_config None)
         (sort_key mf_filename (map (describe_file plain_digests) [\<lparr>sf_mount_filename = ''/src/x'', sf_data = [1], sf_mode = None\<rparr>]))) w0 =
       Some (Inr ''mo-1'', (2, 2)))"
  using mount_is_confirmed [OF tick_finalize [of token_config]] by blast

lemma source_upload_ends_witness:
  "\<exists>r. finalize_mount tick_host refusing_http plain_digests tick_upload (\<lambda>_ _. 0) token_config sample_selection [''ws''] None (0, 0) = Some r"
proof (rule source_upload_ends)
  show "live_uploads tick_host refusing_http tick_upload"
    by (simp add: live_uploads_def tick_upload_def refusing_http_def) (simp add: tick_rpc_def)
qed

end
