(* ===== verification/Facade.thy ===== *)
theory Facade
  imports Runner FunctionSpec Effects
begin

text \<open>
  The ground of the facade crate: its error type (\<open>crates/modal-rust/src/error.rs\<close>), the switches it reads
  from the process environment (\<open>env.rs\<close>), and the registration records with the runner's entry
  point (\<open>registration.rs\<close>).

  The environment is a function from names to values, \<open>None\<close> where a variable is unset or not Unicode.
  The inventory of the linker is a list of records, in no particular order.  An error of \<open>serde_json\<close> is
  its text.
\<close>

section \<open>Errors\<close>

datatype facade_error =
    UnknownEntrypoint string "string list"
  | Runner runner_error
  | Encode string
  | Decode string
  | Sdk error
  | NotConnected string
  | NotImplemented string
  | Config string

definition not_connected :: facade_error where
  "not_connected = NotConnected (''`.remote()` requires a connected App: call `App::connect(name).await` ''
     @ ''(App::local / App::local_with_registry are offline-only, for `.local()`).'')"

definition config_error :: "string \<Rightarrow> facade_error" where "config_error msg = Config msg"

definition client_feature :: "string \<Rightarrow> facade_error" where
  "client_feature what = NotImplemented (what @ '' requires the `client` feature on modal-rust: set ''
     @ ''`modal-rust = { features = ['' @ quote @ ''client'' @ quote @ ''] }` in your Cargo.toml ''
     @ ''(the modal-rust CLI enables it for you). The default build is light ''
     @ ''(no gRPC client) so authoring `#[function]`s + `.local()` stays fast.'')"

fun facade_display :: "(status \<Rightarrow> string) \<Rightarrow> facade_error \<Rightarrow> string" where
  "facade_display show_status (UnknownEntrypoint name known) =
     ''unknown entrypoint '' @ debug_str name @ ''; known entrypoints: ['' @ join_with '', '' (map debug_str known) @ '']''"
| "facade_display show_status (Runner e) = ''handler failed: '' @ error_display e"
| "facade_display show_status (Encode e) = ''failed to encode .local() input to JSON: '' @ e"
| "facade_display show_status (Decode e) = ''failed to decode handler output from JSON: '' @ e"
| "facade_display show_status (Sdk e) = ''control-plane operation failed: '' @ display show_status e"
| "facade_display show_status (NotConnected msg) = msg"
| "facade_display show_status (NotImplemented msg) = msg"
| "facade_display show_status (Config msg) = ''invalid config: '' @ msg"

text \<open>\<open>?\<close> on a result of the SDK wraps its error; so does it on a run of the SDK.\<close>

definition from_sdk :: "error + 'a \<Rightarrow> facade_error + 'a" where "from_sdk = map_sum Sdk id"

type_synonym ('w, 'a) run = "'w \<Rightarrow> ((facade_error + 'a) \<times> 'w) option"

definition sdk :: "('w, 'a) io \<Rightarrow> ('w, 'a) run" where
  "sdk m w = map_option (\<lambda>(r, w'). (from_sdk r, w')) (m w)"

definition give :: "'a \<Rightarrow> ('w, 'a) run" where "give a w = Some (Inr a, w)"

definition fail :: "facade_error \<Rightarrow> ('w, 'a) run" where "fail e w = Some (Inl e, w)"

definition of_result :: "facade_error + 'a \<Rightarrow> ('w, 'a) run" where "of_result r w = Some (r, w)"

definition bind_run :: "('w, 'a) run \<Rightarrow> ('a \<Rightarrow> ('w, 'b) run) \<Rightarrow> ('w, 'b) run" where
  "bind_run m f w =
     (case m w of
        None \<Rightarrow> None
      | Some (Inl e, w') \<Rightarrow> Some (Inl e, w')
      | Some (Inr a, w') \<Rightarrow> f a w')"

fun for_run :: "('a \<Rightarrow> 's \<Rightarrow> ('w, 's) run) \<Rightarrow> 'a list \<Rightarrow> 's \<Rightarrow> ('w, 's) run" where
  "for_run f [] s = give s"
| "for_run f (x # xs) s = bind_run (f x s) (for_run f xs)"

section \<open>Environment variables\<close>

type_synonym env_vars = "string \<Rightarrow> string option"

definition PACKAGE :: string where "PACKAGE = ''MODAL_RUST_PACKAGE''"
definition SOURCE_DIR :: string where "SOURCE_DIR = ''MODAL_RUST_SOURCE_DIR''"
definition BASE_IMAGE :: string where "BASE_IMAGE = ''MODAL_RUST_BASE_IMAGE''"
definition INSTALL_RUST :: string where "INSTALL_RUST = ''MODAL_RUST_INSTALL_RUST''"
definition NO_CACHE :: string where "NO_CACHE = ''MODAL_RUST_NO_CACHE''"
definition CACHE_TARGET :: string where "CACHE_TARGET = ''MODAL_RUST_CACHE_TARGET''"
definition DEP_PREBUILD :: string where "DEP_PREBUILD = ''MODAL_RUST_DEP_PREBUILD''"
definition DEPLOY_APP :: string where "DEPLOY_APP = ''MODAL_RUST_DEPLOY_APP''"
definition SNAPSHOT_BEST_EFFORT :: string where "SNAPSHOT_BEST_EFFORT = ''MODAL_RUST_SNAPSHOT_BEST_EFFORT''"
definition SNAPSHOT_PRIME :: string where "SNAPSHOT_PRIME = ''MODAL_RUST_SNAPSHOT_PRIME''"
definition RUN_CONFIG_JSON_B64 :: string where "RUN_CONFIG_JSON_B64 = ''MODAL_RUST_RUN_CONFIG_JSON_B64''"

definition truthy :: "string list" where "truthy = [''1'', ''true'', ''yes'', ''on'']"
definition falsy :: "string list" where "falsy = [''0'', ''false'', ''no'', ''off'']"

definition env_bool :: "env_vars \<Rightarrow> string \<Rightarrow> bool" where
  "env_bool env name =
     (case env name of Some v \<Rightarrow> to_ascii_lowercase (trim v) \<in> set truthy | None \<Rightarrow> False)"

section \<open>Function configuration\<close>

text \<open>The static form the macro submits, and the owned form the facade carries.\<close>

record function_config =
  fc_gpu :: "string option"
  fc_timeout_secs :: "u32 option"
  fc_cache :: "bool option"
  fc_milli_cpu :: "u32 option"
  fc_memory_mb :: "u32 option"
  fc_secrets :: "string list"
  fc_required_keys :: "string list"
  fc_env :: "(string \<times> string) list"
  fc_volumes :: "(string \<times> string) list"
  fc_retries :: "u32 option"
  fc_retries_spec :: "string option"
  fc_schedule :: "string option"
  fc_min_containers :: "u32 option"
  fc_max_containers :: "u32 option"
  fc_buffer_containers :: "u32 option"
  fc_scaledown_window :: "u32 option"
  fc_image :: "string option"
  fc_enable_memory_snapshot :: bool
  fc_webhook_method :: "string option"
  fc_webhook_requires_proxy_auth :: bool
  fc_web_server_port :: "u16 option"
  fc_web_server_startup_timeout :: "u32 option"
  fc_max_concurrent_inputs :: "u32 option"
  fc_target_concurrent_inputs :: "u32 option"

definition new_function_config :: function_config where
  "new_function_config =
     \<lparr>fc_gpu = None, fc_timeout_secs = None, fc_cache = None, fc_milli_cpu = None, fc_memory_mb = None,
      fc_secrets = [], fc_required_keys = [], fc_env = [], fc_volumes = [], fc_retries = None,
      fc_retries_spec = None, fc_schedule = None, fc_min_containers = None, fc_max_containers = None,
      fc_buffer_containers = None, fc_scaledown_window = None, fc_image = None,
      fc_enable_memory_snapshot = False, fc_webhook_method = None, fc_webhook_requires_proxy_auth = False,
      fc_web_server_port = None, fc_web_server_startup_timeout = None, fc_max_concurrent_inputs = None,
      fc_target_concurrent_inputs = None\<rparr>"

record function_options =
  fo_gpu :: "string option"
  fo_timeout_secs :: "u32 option"
  fo_cache :: "bool option"
  fo_milli_cpu :: "u32 option"
  fo_memory_mb :: "u32 option"
  fo_secrets :: "string list"
  fo_required_keys :: "string list"
  fo_env :: "(string \<times> string) list"
  fo_volumes :: "(string \<times> string) list"
  fo_retries :: "u32 option"
  fo_retries_spec :: "string option"
  fo_schedule :: "string option"
  fo_min_containers :: "u32 option"
  fo_max_containers :: "u32 option"
  fo_buffer_containers :: "u32 option"
  fo_scaledown_window :: "u32 option"
  fo_image :: "string option"
  fo_enable_memory_snapshot :: bool
  fo_webhook_method :: "string option"
  fo_webhook_requires_proxy_auth :: bool
  fo_web_server_port :: "u16 option"
  fo_web_server_startup_timeout :: "u32 option"
  fo_max_concurrent_inputs :: "u32 option"
  fo_target_concurrent_inputs :: "u32 option"

definition options_of_config :: "function_config \<Rightarrow> function_options" where
  "options_of_config c =
     \<lparr>fo_gpu = fc_gpu c, fo_timeout_secs = fc_timeout_secs c, fo_cache = fc_cache c,
      fo_milli_cpu = fc_milli_cpu c, fo_memory_mb = fc_memory_mb c, fo_secrets = fc_secrets c,
      fo_required_keys = fc_required_keys c, fo_env = fc_env c, fo_volumes = fc_volumes c,
      fo_retries = fc_retries c, fo_retries_spec = fc_retries_spec c, fo_schedule = fc_schedule c,
      fo_min_containers = fc_min_containers c, fo_max_containers = fc_max_containers c,
      fo_buffer_containers = fc_buffer_containers c, fo_scaledown_window = fc_scaledown_window c,
      fo_image = fc_image c, fo_enable_memory_snapshot = fc_enable_memory_snapshot c,
      fo_webhook_method = fc_webhook_method c, fo_webhook_requires_proxy_auth = fc_webhook_requires_proxy_auth c,
      fo_web_server_port = fc_web_server_port c, fo_web_server_startup_timeout = fc_web_server_startup_timeout c,
      fo_max_concurrent_inputs = fc_max_concurrent_inputs c,
      fo_target_concurrent_inputs = fc_target_concurrent_inputs c\<rparr>"

definition default_options :: function_options where
  "default_options = options_of_config new_function_config"

text \<open>\<open>collect\<close> into a \<open>BTreeMap\<close>: the last of two entries under one name stays.\<close>

definition by_name :: "(string \<times> function_options) list \<Rightarrow> (string \<times> function_options) list" where
  "by_name configs = fold (\<lambda>(name, options). bt_insert name options) configs []"

section \<open>The options as JSON\<close>

text \<open>The fields in the order of the struct, as the derived serializer writes them.\<close>

definition json_opt :: "('a \<Rightarrow> json) \<Rightarrow> 'a option \<Rightarrow> json" where
  "json_opt f x = (case x of Some a \<Rightarrow> f a | None \<Rightarrow> JNull)"

definition json_u32 :: "u32 \<Rightarrow> json" where "json_u32 n = JNum (dec (unat n))"
definition json_u16 :: "u16 \<Rightarrow> json" where "json_u16 n = JNum (dec (unat n))"
definition json_pair :: "string \<times> string \<Rightarrow> json" where
  "json_pair kv = JArr [JStr (fst kv), JStr (snd kv)]"

definition options_to_json :: "function_options \<Rightarrow> json" where
  "options_to_json x =
     JObj [(''gpu'', json_opt JStr (fo_gpu x)),
           (''timeout_secs'', json_opt json_u32 (fo_timeout_secs x)),
           (''cache'', json_opt JBool (fo_cache x)),
           (''milli_cpu'', json_opt json_u32 (fo_milli_cpu x)),
           (''memory_mb'', json_opt json_u32 (fo_memory_mb x)),
           (''secrets'', JArr (map JStr (fo_secrets x))),
           (''required_keys'', JArr (map JStr (fo_required_keys x))),
           (''env'', JArr (map json_pair (fo_env x))),
           (''volumes'', JArr (map json_pair (fo_volumes x))),
           (''retries'', json_opt json_u32 (fo_retries x)),
           (''retries_spec'', json_opt JStr (fo_retries_spec x)),
           (''schedule'', json_opt JStr (fo_schedule x)),
           (''min_containers'', json_opt json_u32 (fo_min_containers x)),
           (''max_containers'', json_opt json_u32 (fo_max_containers x)),
           (''buffer_containers'', json_opt json_u32 (fo_buffer_containers x)),
           (''scaledown_window'', json_opt json_u32 (fo_scaledown_window x)),
           (''image'', json_opt JStr (fo_image x)),
           (''enable_memory_snapshot'', JBool (fo_enable_memory_snapshot x)),
           (''webhook_method'', json_opt JStr (fo_webhook_method x)),
           (''webhook_requires_proxy_auth'', JBool (fo_webhook_requires_proxy_auth x)),
           (''web_server_port'', json_opt json_u16 (fo_web_server_port x)),
           (''web_server_startup_timeout'', json_opt json_u32 (fo_web_server_startup_timeout x)),
           (''max_concurrent_inputs'', json_opt json_u32 (fo_max_concurrent_inputs x)),
           (''target_concurrent_inputs'', json_opt json_u32 (fo_target_concurrent_inputs x))]"

text \<open>The derived deserializer: unknown fields are skipped, a field given twice is an error, an absent
  field takes its default (every field has one, the options by being options).  A struct is also read from an
  array, its fields by position; there the first three, which carry no default of their own, must be present.\<close>

fun read_str :: "json \<Rightarrow> string option" where
  "read_str (JStr s) = Some s" | "read_str _ = None"
fun read_bool :: "json \<Rightarrow> bool option" where
  "read_bool (JBool b) = Some b" | "read_bool _ = None"
fun read_uint :: "nat \<Rightarrow> json \<Rightarrow> nat option" where
  "read_uint w (JNum s) = parse_uint w s" | "read_uint w _ = None"
definition read_u32 :: "json \<Rightarrow> u32 option" where "read_u32 j = map_option of_nat (read_uint 32 j)"
definition read_u16 :: "json \<Rightarrow> u16 option" where "read_u16 j = map_option of_nat (read_uint 16 j)"
fun read_opt :: "(json \<Rightarrow> 'a option) \<Rightarrow> json \<Rightarrow> 'a option option" where
  "read_opt f JNull = Some None"
| "read_opt f j = map_option Some (f j)"
fun read_vec :: "(json \<Rightarrow> 'a option) \<Rightarrow> json \<Rightarrow> 'a list option" where
  "read_vec f (JArr js) = those (map f js)" | "read_vec f _ = None"
fun read_pair :: "json \<Rightarrow> (string \<times> string) option" where
  "read_pair (JArr [a, b]) =
     (case (read_str a, read_str b) of (Some x, Some y) \<Rightarrow> Some (x, y) | _ \<Rightarrow> None)"
| "read_pair _ = None"

definition option_fields :: "string list" where
  "option_fields =
     [''gpu'', ''timeout_secs'', ''cache'', ''milli_cpu'', ''memory_mb'', ''secrets'', ''required_keys'', ''env'',
      ''volumes'', ''retries'', ''retries_spec'', ''schedule'', ''min_containers'', ''max_containers'',
      ''buffer_containers'', ''scaledown_window'', ''image'', ''enable_memory_snapshot'', ''webhook_method'',
      ''webhook_requires_proxy_auth'', ''web_server_port'', ''web_server_startup_timeout'',
      ''max_concurrent_inputs'', ''target_concurrent_inputs'']"

definition json_field :: "(string \<times> json) list \<Rightarrow> string \<Rightarrow> (json \<Rightarrow> 'a option) \<Rightarrow> 'a \<Rightarrow> 'a option" where
  "json_field kvs name rd dflt = (case map_of kvs name of Some j \<Rightarrow> rd j | None \<Rightarrow> Some dflt)"

definition set_field ::
  "string \<Rightarrow> (json \<Rightarrow> 'a option) \<Rightarrow> 'a \<Rightarrow> ('a \<Rightarrow> function_options \<Rightarrow> function_options) \<Rightarrow>
     (string \<times> json) list \<Rightarrow> function_options \<Rightarrow> function_options option" where
  "set_field name rd dflt upd kvs x = map_option (\<lambda>a. upd a x) (json_field kvs name rd dflt)"

definition option_readers :: "((string \<times> json) list \<Rightarrow> function_options \<Rightarrow> function_options option) list" where
  "option_readers =
     [set_field ''gpu'' (read_opt read_str) None (\<lambda>a. fo_gpu_update (\<lambda>_. a)),
      set_field ''timeout_secs'' (read_opt read_u32) None (\<lambda>a. fo_timeout_secs_update (\<lambda>_. a)),
      set_field ''cache'' (read_opt read_bool) None (\<lambda>a. fo_cache_update (\<lambda>_. a)),
      set_field ''milli_cpu'' (read_opt read_u32) None (\<lambda>a. fo_milli_cpu_update (\<lambda>_. a)),
      set_field ''memory_mb'' (read_opt read_u32) None (\<lambda>a. fo_memory_mb_update (\<lambda>_. a)),
      set_field ''secrets'' (read_vec read_str) [] (\<lambda>a. fo_secrets_update (\<lambda>_. a)),
      set_field ''required_keys'' (read_vec read_str) [] (\<lambda>a. fo_required_keys_update (\<lambda>_. a)),
      set_field ''env'' (read_vec read_pair) [] (\<lambda>a. fo_env_update (\<lambda>_. a)),
      set_field ''volumes'' (read_vec read_pair) [] (\<lambda>a. fo_volumes_update (\<lambda>_. a)),
      set_field ''retries'' (read_opt read_u32) None (\<lambda>a. fo_retries_update (\<lambda>_. a)),
      set_field ''retries_spec'' (read_opt read_str) None (\<lambda>a. fo_retries_spec_update (\<lambda>_. a)),
      set_field ''schedule'' (read_opt read_str) None (\<lambda>a. fo_schedule_update (\<lambda>_. a)),
      set_field ''min_containers'' (read_opt read_u32) None (\<lambda>a. fo_min_containers_update (\<lambda>_. a)),
      set_field ''max_containers'' (read_opt read_u32) None (\<lambda>a. fo_max_containers_update (\<lambda>_. a)),
      set_field ''buffer_containers'' (read_opt read_u32) None (\<lambda>a. fo_buffer_containers_update (\<lambda>_. a)),
      set_field ''scaledown_window'' (read_opt read_u32) None (\<lambda>a. fo_scaledown_window_update (\<lambda>_. a)),
      set_field ''image'' (read_opt read_str) None (\<lambda>a. fo_image_update (\<lambda>_. a)),
      set_field ''enable_memory_snapshot'' read_bool False (\<lambda>a. fo_enable_memory_snapshot_update (\<lambda>_. a)),
      set_field ''webhook_method'' (read_opt read_str) None (\<lambda>a. fo_webhook_method_update (\<lambda>_. a)),
      set_field ''webhook_requires_proxy_auth'' read_bool False (\<lambda>a. fo_webhook_requires_proxy_auth_update (\<lambda>_. a)),
      set_field ''web_server_port'' (read_opt read_u16) None (\<lambda>a. fo_web_server_port_update (\<lambda>_. a)),
      set_field ''web_server_startup_timeout'' (read_opt read_u32) None (\<lambda>a. fo_web_server_startup_timeout_update (\<lambda>_. a)),
      set_field ''max_concurrent_inputs'' (read_opt read_u32) None (\<lambda>a. fo_max_concurrent_inputs_update (\<lambda>_. a)),
      set_field ''target_concurrent_inputs'' (read_opt read_u32) None (\<lambda>a. fo_target_concurrent_inputs_update (\<lambda>_. a))]"

fun fold_opt :: "('a \<Rightarrow> 's \<Rightarrow> 's option) \<Rightarrow> 'a list \<Rightarrow> 's \<Rightarrow> 's option" where
  "fold_opt f [] s = Some s"
| "fold_opt f (x # xs) s = (case f x s of None \<Rightarrow> None | Some s' \<Rightarrow> fold_opt f xs s')"

fun options_of_json :: "json \<Rightarrow> function_options option" where
  "options_of_json (JObj kvs) =
     (if \<not> distinct (filter (\<lambda>k. k \<in> set option_fields) (map fst kvs)) then None
      else fold_opt (\<lambda>rd. rd kvs) option_readers default_options)"
| "options_of_json (JArr js) =
     (if length js < 3 \<or> length option_fields < length js then None
      else fold_opt (\<lambda>rd. rd (zip option_fields js)) option_readers default_options)"
| "options_of_json _ = None"

section \<open>Registration\<close>

record 'u facade_registration =
  rn_name :: string
  rn_handler :: "'u handler"
  rn_check :: "check_fn option"
  rn_snapshot_prime :: "'u prime option"
  rn_config :: function_config
  rn_package :: string

record 'u web_server_registration =
  ws_name :: string
  ws_launcher :: "'u launcher"
  ws_config :: function_config
  ws_package :: string

record 'u inventory =
  registrations :: "'u facade_registration list"
  web_server_registrations :: "'u web_server_registration list"

text \<open>A duplicate name panics in the registry, \<open>None\<close>.\<close>

definition register_one :: "'u registry \<Rightarrow> 'u facade_registration \<Rightarrow> 'u registry option" where
  "register_one r x =
     map_option (\<lambda>r. case rn_snapshot_prime x of Some p \<Rightarrow> snapshot_prime p r | None \<Rightarrow> r)
       (case rn_check x of
          Some c \<Rightarrow> function_checked (rn_name x) (rn_handler x) c r
        | None \<Rightarrow> register_function (rn_name x) (rn_handler x) r)"

definition registry_from_inventory :: "'u inventory \<Rightarrow> 'u registry option" where
  "registry_from_inventory v =
     Option.bind (fold_opt (\<lambda>x r. register_one r x) (registrations v) new_registry)
       (fold_opt (\<lambda>w. web_server (ws_name w) (ws_launcher w)) (web_server_registrations v))"

definition from_inventory_with_configs ::
  "'u inventory \<Rightarrow> ('u registry \<times> (string \<times> function_options) list) option" where
  "from_inventory_with_configs v =
     Option.bind
       (fold_opt (\<lambda>x (r, configs). map_option (\<lambda>r'. (r', configs @ [(rn_name x, options_of_config (rn_config x))]))
            (register_one r x)) (registrations v) (new_registry, []))
       (fold_opt (\<lambda>w (r, configs). map_option (\<lambda>r'. (r', configs @ [(ws_name w, options_of_config (ws_config w))]))
            (web_server (ws_name w) (ws_launcher w) r)) (web_server_registrations v))"

definition package_from_inventory :: "'u inventory \<Rightarrow> string option" where
  "package_from_inventory v =
     find (\<lambda>p. p \<noteq> []) (map rn_package (registrations v) @ map ws_package (web_server_registrations v))"

section \<open>The runner's entry point\<close>

definition DESCRIBE_SCHEMA :: string where "DESCRIBE_SCHEMA = ''modal-rust/describe@1''"

definition describe_entries ::
  "'u registry \<Rightarrow> (string \<times> function_options) list \<Rightarrow> (string \<times> function_options) list" where
  "describe_entries r configs =
     map (\<lambda>name. (name, case find (\<lambda>(n, _). n = name) configs of
                          Some (_, c) \<Rightarrow> c | None \<Rightarrow> default_options))
       (handler_names r @ map fst (web_servers r))"

definition describe_manifest :: "(string \<times> function_options) list \<Rightarrow> json" where
  "describe_manifest entries =
     JObj [(''schema'', JStr DESCRIBE_SCHEMA),
           (''entrypoints'', JArr (map (\<lambda>(name, config).
              JObj [(''name'', JStr name), (''config'', options_to_json config)]) entries))]"

definition emit_describe ::
  "json_lib \<Rightarrow> sink \<Rightarrow> 'u registry \<Rightarrow> (string \<times> function_options) list \<Rightarrow> string list \<Rightarrow> int \<times> string list" where
  "emit_describe J sink r configs out = emit J sink (describe_manifest (describe_entries r configs)) 0 out"

text \<open>The lines of standard input are an argument; \<open>out\<close> is the writer of the one-shot modes, and the
  second list what the serve loop writes to standard output.\<close>

definition run_cli_with_args_and_configs ::
  "json_lib \<Rightarrow> os_inputs \<Rightarrow> (string + string) list \<Rightarrow> sink \<Rightarrow> 'u registry \<Rightarrow> (string \<times> function_options) list \<Rightarrow>
     string list \<Rightarrow> 'u thread \<Rightarrow> string list \<Rightarrow> string list \<Rightarrow>
     ((int \<times> string list \<times> string list) \<times> 'u thread) option" where
  "run_cli_with_args_and_configs J os stdin sink r configs argv t out stdout =
     (if argv \<noteq> [] \<and> hd argv = ''--describe''
      then (case emit_describe J sink r configs out of (code, out') \<Rightarrow> Some ((code, out', stdout), t))
      else if argv \<noteq> [] \<and> hd argv = ''--serve''
      then map_option (\<lambda>((code, stdout'), t'). ((code, out, stdout'), t')) (run_serve_with_io J sink r stdin t stdout)
      else map_option (\<lambda>((code, out'), t'). ((code, out', stdout), t')) (run_cli_with_args J os sink r argv t out))"

definition run_cli_with_args_from_inventory ::
  "json_lib \<Rightarrow> os_inputs \<Rightarrow> (string + string) list \<Rightarrow> sink \<Rightarrow> 'u inventory \<Rightarrow> string list \<Rightarrow> 'u thread \<Rightarrow>
     string list \<Rightarrow> string list \<Rightarrow> ((int \<times> string list \<times> string list) \<times> 'u thread) option" where
  "run_cli_with_args_from_inventory J os stdin sink v argv t out stdout =
     (case from_inventory_with_configs v of
        None \<Rightarrow> None
      | Some (r, configs) \<Rightarrow> run_cli_with_args_and_configs J os stdin sink r configs argv t out stdout)"

text \<open>A web-server handler may return \<open>()\<close> or a result.\<close>

definition unit_web_server_result :: "unit \<Rightarrow> runner_error + unit" where
  "unit_web_server_result u = Inr ()"

definition result_web_server_result :: "('e \<Rightarrow> string) \<Rightarrow> 'e + unit \<Rightarrow> runner_error + unit" where
  "result_web_server_result show = map_sum (function_opaque show) id"

section \<open>Facts\<close>

lemma bind_run_Some_iff:
  "bind_run m f w = Some (r, w') \<longleftrightarrow>
     (\<exists>e. m w = Some (Inl e, w') \<and> r = Inl e) \<or> (\<exists>a w1. m w = Some (Inr a, w1) \<and> f a w1 = Some (r, w'))"
  by (auto simp: bind_run_def split: option.splits sum.splits)

lemma bind_run_Inr_iff:
  "bind_run m f w = Some (Inr b, w') \<longleftrightarrow> (\<exists>a w1. m w = Some (Inr a, w1) \<and> f a w1 = Some (Inr b, w'))"
  by (auto simp: bind_run_Some_iff)

lemma runs_iff [simp]:
  "give a w = Some (r, w') \<longleftrightarrow> r = Inr a \<and> w' = w"
  "fail e w = Some (r, w') \<longleftrightarrow> r = Inl e \<and> w' = w"
  "of_result x w = Some (r, w') \<longleftrightarrow> r = x \<and> w' = w"
  by (auto simp: give_def fail_def of_result_def)

lemma from_sdk_Inr_iff [simp]: "from_sdk r = Inr a \<longleftrightarrow> r = Inr a"
  by (cases r) (auto simp: from_sdk_def)

lemma sdk_Inr_iff [simp]: "sdk m w = Some (Inr a, w') \<longleftrightarrow> m w = Some (Inr a, w')"
  by (auto simp: sdk_def)

text \<open>Reading back what was written.\<close>

lemma unat_u32 [simp]: "unat (n :: u32) < 4294967296"
  using unsigned_less [of n] by simp

lemma unat_u16 [simp]: "unat (n :: u16) < 65536"
  using unsigned_less [of n] by simp

lemma read_u32_json [simp]: "read_u32 (json_u32 n) = Some n"
  by (simp add: read_u32_def json_u32_def)

lemma read_u16_json [simp]: "read_u16 (json_u16 n) = Some n"
  by (simp add: read_u16_def json_u16_def)

lemma read_opt_eq: "j \<noteq> JNull \<Longrightarrow> read_opt f j = map_option Some (f j)"
  by (cases j) simp_all

lemma json_uint_not_null [simp]: "json_u32 n \<noteq> JNull" "json_u16 m \<noteq> JNull"
  by (simp_all add: json_u32_def json_u16_def)

lemma read_opt_json [simp]:
  assumes "\<And>a. g a \<noteq> JNull" "\<And>a. f (g a) = Some a"
  shows "read_opt f (json_opt g x) = Some x"
  using assms by (cases x) (simp_all add: json_opt_def read_opt_eq)

lemma those_map_Some [simp]: "(\<And>x. f (g x) = Some x) \<Longrightarrow> those (map f (map g xs)) = Some xs"
  by (induction xs) simp_all

lemma read_vec_json [simp]:
  "read_vec read_str (JArr (map JStr ss)) = Some ss" "read_vec read_pair (JArr (map json_pair ps)) = Some ps"
proof -
  show "read_vec read_str (JArr (map JStr ss)) = Some ss" by (induction ss) simp_all
  show "read_vec read_pair (JArr (map json_pair ps)) = Some ps" by (induction ps) (simp_all add: json_pair_def)
qed

lemma fold_opt_append: "fold_opt f (xs @ ys) s = Option.bind (fold_opt f xs s) (fold_opt f ys)"
  by (induction xs arbitrary: s) (simp_all split: option.splits)

lemma option_fields_distinct: "distinct option_fields"
  by (simp add: option_fields_def)

definition option_values :: "function_options \<Rightarrow> json list" where
  "option_values x = (case options_to_json x of JObj kvs \<Rightarrow> map snd kvs | _ \<Rightarrow> [])"

lemma options_json_zip: "options_to_json x = JObj (zip option_fields (option_values x))"
  by (simp add: options_to_json_def option_values_def option_fields_def)

text \<open>What the inventory leaves in the registry.\<close>

lemma register_one_keys:
  "register_one r x = Some r' \<Longrightarrow> rn_name x \<notin> fst ` set (handlers r) \<and>
     fst ` set (handlers r') = insert (rn_name x) (fst ` set (handlers r)) \<and> web_servers r' = web_servers r \<and>
     (bt_ok (handlers r) \<longrightarrow> bt_ok (handlers r'))"
proof -
  assume "register_one r x = Some r'"
  then have "rn_name x \<notin> fst ` set (handlers r)"
    "handlers r' = bt_insert (rn_name x) (rn_handler x) (handlers r)" "web_servers r' = web_servers r"
    by (auto simp: register_one_def function_checked_def register_function_def snapshot_prime_def
        map_of_eq_None_iff split: option.splits if_splits)
  then show ?thesis by (simp add: bt_insert_ok)
qed

lemma web_server_keys:
  "web_server name l r = Some r' \<Longrightarrow> name \<notin> fst ` set (web_servers r) \<and>
     fst ` set (web_servers r') = insert name (fst ` set (web_servers r)) \<and> handlers r' = handlers r \<and>
     (bt_ok (web_servers r) \<longrightarrow> bt_ok (web_servers r'))"
proof -
  assume "web_server name l r = Some r'"
  then have "name \<notin> fst ` set (web_servers r)" "r' = r\<lparr>web_servers := bt_insert name l (web_servers r)\<rparr>"
    by (auto simp: web_server_def map_of_eq_None_iff split: if_splits)
  then show ?thesis by (simp add: bt_insert_ok)
qed

definition functions_of :: "'u facade_registration list \<Rightarrow> (string \<times> function_options) list" where
  "functions_of xs = map (\<lambda>x. (rn_name x, options_of_config (rn_config x))) xs"

definition servers_of :: "'u web_server_registration list \<Rightarrow> (string \<times> function_options) list" where
  "servers_of ws = map (\<lambda>w. (ws_name w, options_of_config (ws_config w))) ws"

lemma inventory_lists [simp]:
  "functions_of [] = []" "functions_of (x # xs) = (rn_name x, options_of_config (rn_config x)) # functions_of xs"
  "servers_of [] = []" "servers_of (w # ws) = (ws_name w, options_of_config (ws_config w)) # servers_of ws"
  by (simp_all add: functions_of_def servers_of_def)

lemma fold_functions:
  assumes "fold_opt (\<lambda>x (r, configs). map_option (\<lambda>r'. (r', configs @ [(rn_name x, options_of_config (rn_config x))]))
      (register_one r x)) xs (r, cs) = Some (r', cs')" and "bt_ok (handlers r)"
  shows "cs' = cs @ functions_of xs \<and> web_servers r' = web_servers r \<and> bt_ok (handlers r') \<and>
    fst ` set (handlers r') = fst ` set (handlers r) \<union> fst ` set (functions_of xs) \<and>
    distinct (map fst (functions_of xs)) \<and> fst ` set (functions_of xs) \<inter> fst ` set (handlers r) = {}"
  using assms
proof (induction xs arbitrary: r cs)
  case (Cons x xs)
  then obtain r1 where r1: "register_one r x = Some r1" by (auto split: option.splits)
  from register_one_keys [OF r1] Cons.prems(2) Cons.IH [of r1 "cs @ [(rn_name x, options_of_config (rn_config x))]"] Cons.prems(1) r1
  show ?case by auto
qed simp

lemma fold_servers:
  assumes "fold_opt (\<lambda>w (r, configs). map_option (\<lambda>r'. (r', configs @ [(ws_name w, options_of_config (ws_config w))]))
      (web_server (ws_name w) (ws_launcher w) r)) ws (r, cs) = Some (r', cs')" and "bt_ok (web_servers r)"
  shows "cs' = cs @ servers_of ws \<and> handlers r' = handlers r \<and> bt_ok (web_servers r') \<and>
    fst ` set (web_servers r') = fst ` set (web_servers r) \<union> fst ` set (servers_of ws) \<and>
    distinct (map fst (servers_of ws)) \<and> fst ` set (servers_of ws) \<inter> fst ` set (web_servers r) = {}"
  using assms
proof (induction ws arbitrary: r cs)
  case (Cons x ws)
  then obtain r1 where r1: "web_server (ws_name x) (ws_launcher x) r = Some r1" by (auto split: option.splits)
  from web_server_keys [OF r1] Cons.prems(2) Cons.IH [of r1 "cs @ [(ws_name x, options_of_config (ws_config x))]"] Cons.prems(1) r1
  show ?case by auto
qed simp

lemma inventory_registry:
  assumes "from_inventory_with_configs v = Some (r, configs)"
  shows "configs = functions_of (registrations v) @ servers_of (web_server_registrations v) \<and>
    bt_ok (handlers r) \<and> bt_ok (web_servers r) \<and>
    fst ` set (handlers r) = fst ` set (functions_of (registrations v)) \<and>
    fst ` set (web_servers r) = fst ` set (servers_of (web_server_registrations v)) \<and>
    distinct (map fst (functions_of (registrations v))) \<and> distinct (map fst (servers_of (web_server_registrations v)))"
proof -
  from assms obtain r1 c1 where
    a: "fold_opt (\<lambda>x (r, configs). map_option (\<lambda>r'. (r', configs @ [(rn_name x, options_of_config (rn_config x))]))
            (register_one r x)) (registrations v) (new_registry, []) = Some (r1, c1)" and
    b: "fold_opt (\<lambda>w (r, configs). map_option (\<lambda>r'. (r', configs @ [(ws_name w, options_of_config (ws_config w))]))
            (web_server (ws_name w) (ws_launcher w) r)) (web_server_registrations v) (r1, c1) = Some (r, configs)"
    by (auto simp: from_inventory_with_configs_def bind_eq_Some_conv)
  from fold_functions [OF a] fold_servers [OF b] show ?thesis
    by (simp add: new_registry_def)
qed

lemma find_map_of: "find (\<lambda>(n, _). n = name) kvs = map_option (\<lambda>v. (name, v)) (map_of kvs name)"
  by (induction kvs) auto

lemma describe_entries_map:
  "describe_entries r configs = map (\<lambda>name. (name, case map_of configs name of Some c \<Rightarrow> c | None \<Rightarrow> default_options))
     (handler_names r @ map fst (web_servers r))"
  by (simp add: describe_entries_def find_map_of option.case_distrib option.map_comp split: option.split)

section \<open>Properties\<close>

lemma options_back [simp]: "options_of_json (options_to_json x) = Some x"
proof -
  define kvs where "kvs = zip option_fields (option_values x)"
  have len: "length option_fields = length (option_values x)"
    by (simp add: options_to_json_def option_values_def option_fields_def)
  then have keys: "map fst kvs = option_fields" by (simp add: kvs_def)
  then have "distinct (filter (\<lambda>k. k \<in> set option_fields) (map fst kvs))"
    using option_fields_distinct by simp
  moreover have "fold_opt (\<lambda>rd. rd kvs) option_readers default_options = Some x"
    by (simp add: kvs_def option_readers_def set_field_def json_field_def option_fields_def
        option_values_def options_to_json_def del: read_vec.simps)
  ultimately show ?thesis by (simp add: options_json_zip kvs_def)
qed


definition two_entries :: "unit inventory" where
  "two_entries =
     \<lparr>registrations = [\<lparr>rn_name = ''add'', rn_handler = \<lambda>s t. Some (Returned (Inr s), t), rn_check = None,
        rn_snapshot_prime = None, rn_config = new_function_config\<lparr>fc_gpu := Some ''T4''\<rparr>, rn_package = ''app''\<rparr>],
      web_server_registrations = [\<lparr>ws_name = ''serve'', ws_launcher = \<lambda>p t. Some (Inr (), t),
        ws_config = new_function_config\<lparr>fc_web_server_port := Some 8080\<rparr>, ws_package = ''app''\<rparr>]\<rparr>"


end
