(* ===== verification/Remote.thy ===== *)
theory Remote
  imports Facade Image Workspace
begin

text \<open>
  The pure parts of the run path (\<open>crates/modal-rust/src/remote.rs\<close>): object tags, image steps and per-function
  images, the run configuration and its discovery from the environment, and the reading of the runner's
  envelope.

  What the crate takes from outside is a record: \<open>serde_json\<close>, base64, the process environment, the
  text of a serde type error, and the texts of the two Python wrappers the crate embeds.
\<close>

record facade_lib =
  fl_json :: json_lib
  fl_b64 :: "string \<Rightarrow> string"
  fl_env :: env_vars
  fl_mismatch :: "json \<Rightarrow> string"
  run_wrapper_py :: string
  deploy_wrapper_py :: string

section \<open>Names\<close>

definition WRAPPER_MODULE :: string where "WRAPPER_MODULE = ''modal_rust_run_wrapper''"
definition WRAPPER_CALLABLE :: string where "WRAPPER_CALLABLE = ''handler''"
definition REMOTE_SRC :: string where "REMOTE_SRC = ''/src''"
definition RUST_VER :: string where "RUST_VER = ''1''"
definition PYTHON_SERIES :: string where "PYTHON_SERIES = ''3.12''"
definition REMOTE_TIMEOUT_SECS :: u32 where "REMOTE_TIMEOUT_SECS = 1800"
definition DEFAULT_PACKAGE :: string where "DEFAULT_PACKAGE = ''example-add''"
definition CACHE_MOUNT :: string where "CACHE_MOUNT = ''/cache''"
definition CACHE_ARCHIVE_NAME :: string where "CACHE_ARCHIVE_NAME = ''cache.tar.zst''"
definition CACHE_VOLUME_NAME :: string where "CACHE_VOLUME_NAME = ''modal-rust-cargo-cache''"
definition DEFAULT_MODALIGNORE_NAME :: string where "DEFAULT_MODALIGNORE_NAME = ''.modalignore''"

definition is_ascii_alphanumeric :: "char \<Rightarrow> bool" where
  "is_ascii_alphanumeric c \<longleftrightarrow>
     (let n = byte c in (48 \<le> n \<and> n \<le> 57) \<or> (65 \<le> n \<and> n \<le> 90) \<or> (97 \<le> n \<and> n \<le> 122))"

text \<open>One underscore for each character that is not allowed: the continuation bytes of a longer
  character go with its first byte.\<close>

definition sanitize :: "(char \<Rightarrow> bool) \<Rightarrow> string \<Rightarrow> string" where
  "sanitize ok s = map (\<lambda>c. if ok c then c else CHR ''_'') (filter (\<lambda>c. \<not> utf8_cont (byte c)) s)"

definition tag_char :: "char \<Rightarrow> bool" where
  "tag_char c \<longleftrightarrow> is_ascii_alphanumeric c \<or> c = CHR ''_'' \<or> c = CHR ''-'' \<or> c = CHR ''.''"

definition identifier_char :: "char \<Rightarrow> bool" where
  "identifier_char c \<longleftrightarrow> is_ascii_alphanumeric c \<or> c = CHR ''_''"

definition sanitize_object_tag :: "string \<Rightarrow> string" where
  "sanitize_object_tag entrypoint =
     (let tag = sanitize tag_char entrypoint in if tag = [] then WRAPPER_CALLABLE else tag)"

definition web_endpoint_attr :: "string \<Rightarrow> string" where
  "web_endpoint_attr entrypoint = ''web_'' @ sanitize identifier_char entrypoint"

definition web_server_attr :: "string \<Rightarrow> string" where
  "web_server_attr entrypoint = ''web_server_'' @ sanitize identifier_char entrypoint"

section \<open>The wrapper's configuration\<close>

definition run_wrapper_config :: "string \<Rightarrow> bool \<Rightarrow> string \<Rightarrow> json" where
  "run_wrapper_config package cache remote_src =
     JObj [(''package'', JStr package), (''cache'', JBool cache), (''remote_src'', JStr remote_src),
           (''cache_mount'', JStr CACHE_MOUNT), (''cache_archive_name'', JStr CACHE_ARCHIVE_NAME)]"

text \<open>\<open>None\<close> is the panic of \<open>expect\<close>.\<close>

definition run_wrapper_config_env :: "facade_lib \<Rightarrow> string \<Rightarrow> bool \<Rightarrow> string \<Rightarrow> string option" where
  "run_wrapper_config_env L package cache remote_src =
     (case json_text (fl_json L) (run_wrapper_config package cache remote_src) of
        Inr text \<Rightarrow> Some (''ENV '' @ RUN_CONFIG_JSON_B64 @ ''='' @ fl_b64 L text)
      | Inl _ \<Rightarrow> None)"

section \<open>Image steps\<close>

datatype image_step = Apt "string list" | Pip "string list" | Run "string list"

fun apply_step :: "image_step \<Rightarrow> image_spec \<Rightarrow> image_spec" where
  "apply_step (Apt pkgs) spec = with_apt_install pkgs spec"
| "apply_step (Pip pkgs) spec = with_pip_install pkgs spec"
| "apply_step (Run cmds) spec = with_run_commands cmds spec"

definition apply_image_steps :: "image_step list \<Rightarrow> image_spec \<Rightarrow> image_spec" where
  "apply_image_steps steps spec = fold apply_step steps spec"

record image_options =
  io_base :: "string option"
  io_install_rust :: "bool option"
  io_apt :: "string list"
  io_pip :: "string list"
  io_run :: "string list"

definition image_options_steps :: "image_options \<Rightarrow> image_step list" where
  "image_options_steps x =
     (if io_apt x \<noteq> [] then [Apt (io_apt x)] else []) @
     (if io_pip x \<noteq> [] then [Pip (io_pip x)] else []) @
     (if io_run x \<noteq> [] then [Run (io_run x)] else [])"

definition image_fields :: "string list" where
  "image_fields = [''base'', ''install_rust'', ''apt'', ''pip'', ''run'']"

definition read_image :: "(string \<times> json) list \<Rightarrow> image_options option" where
  "read_image kvs =
     (case (json_field kvs ''base'' (read_opt read_str) None,
            json_field kvs ''install_rust'' (read_opt read_bool) None,
            json_field kvs ''apt'' (read_vec read_str) [],
            json_field kvs ''pip'' (read_vec read_str) [],
            json_field kvs ''run'' (read_vec read_str) []) of
        (Some b, Some r, Some a, Some p, Some c) \<Rightarrow>
          Some \<lparr>io_base = b, io_install_rust = r, io_apt = a, io_pip = p, io_run = c\<rparr>
      | _ \<Rightarrow> None)"

fun image_of_json :: "json \<Rightarrow> image_options option" where
  "image_of_json (JObj kvs) =
     (if \<not> distinct (filter (\<lambda>k. k \<in> set image_fields) (map fst kvs)) then None else read_image kvs)"
| "image_of_json (JArr js) =
     (if length image_fields < length js then None else read_image (zip image_fields js))"
| "image_of_json _ = None"

definition parse_image_spec :: "facade_lib \<Rightarrow> string \<Rightarrow> facade_error + image_options" where
  "parse_image_spec L spec =
     (let bad = (\<lambda>e. Inl (config_error (''invalid `image = Image(..)` spec '' @ debug_str spec @ '': '' @ e))) in
      case json_value (fl_json L) spec of
        Inl e \<Rightarrow> bad e
      | Inr j \<Rightarrow> (case image_of_json j of Some x \<Rightarrow> Inr x | None \<Rightarrow> bad (fl_mismatch L j)))"

section \<open>The run configuration\<close>

record remote_config =
  rc_local_root :: path
  rc_package :: string
  rc_remote_src :: string
  rc_use_cargo_scoping :: bool
  rc_modalignore_name :: string
  rc_base_image :: string
  rc_timeout_secs :: u32
  rc_install_rust :: bool
  rc_image_steps :: "image_step list"
  rc_cache :: bool
  rc_options :: function_options

definition apply_function_image ::
  "facade_lib \<Rightarrow> remote_config \<Rightarrow> string option \<Rightarrow> facade_error + remote_config" where
  "apply_function_image L config image_spec =
     (case image_spec of
        None \<Rightarrow> Inr config
      | Some spec \<Rightarrow>
          and_then (parse_image_spec L spec) (\<lambda>image.
            let steps = image_options_steps image;
                config = (if steps \<noteq> [] then config\<lparr>rc_image_steps := steps @ rc_image_steps config\<rparr> else config);
                config = (case io_base image of Some b \<Rightarrow> config\<lparr>rc_base_image := b\<rparr> | None \<Rightarrow> config);
                config = (case io_install_rust image of Some r \<Rightarrow> config\<lparr>rc_install_rust := r\<rparr> | None \<Rightarrow> config)
            in Inr config))"

definition with_detected_package :: "string option \<Rightarrow> string option \<Rightarrow> remote_config \<Rightarrow> remote_config" where
  "with_detected_package env_override detected config =
     (if env_override = None
      then (case detected of Some pkg \<Rightarrow> config\<lparr>rc_package := pkg\<rparr> | None \<Rightarrow> config)
      else config)"

text \<open>The machine the command runs on: the current directory (\<open>.\<close> when it has none), the disk, and the
  path a string denotes.\<close>

record machine =
  mc_cwd :: path
  mc_disk :: disk
  mc_path :: "string \<Rightarrow> path"

text \<open>The walk up from a directory, given in reverse.\<close>

fun local_root_walk :: "disk \<Rightarrow> string list \<Rightarrow> path option \<Rightarrow> path option" where
  "local_root_walk D rdir nearest =
     (let dir = rev rdir; manifest = dir @ [''Cargo.toml''];
          nearest' = (if is_file D manifest \<and> nearest = None then Some dir else nearest)
      in if is_file D manifest \<and> (case read_to_string D manifest of Inr s \<Rightarrow> contains s ''[workspace]'' | Inl _ \<Rightarrow> False)
         then Some dir
         else case rdir of [] \<Rightarrow> nearest' | _ # up \<Rightarrow> local_root_walk D up nearest')"

declare local_root_walk.simps [simp del]

definition discover_local_root :: "facade_lib \<Rightarrow> machine \<Rightarrow> path" where
  "discover_local_root L M =
     (case fl_env L SOURCE_DIR of
        Some dir \<Rightarrow> mc_path M dir
      | None \<Rightarrow> (case local_root_walk (mc_disk M) (rev (mc_cwd M)) None of Some d \<Rightarrow> d | None \<Rightarrow> mc_cwd M))"

definition discover_package :: "facade_lib \<Rightarrow> string" where
  "discover_package L = (case fl_env L PACKAGE of Some p \<Rightarrow> p | None \<Rightarrow> DEFAULT_PACKAGE)"

definition discover_base_image :: "facade_lib \<Rightarrow> string" where
  "discover_base_image L =
     (case fl_env L BASE_IMAGE of Some i \<Rightarrow> i | None \<Rightarrow> ''rust:'' @ RUST_VER @ ''-slim'')"

definition discover_install_rust :: "facade_lib \<Rightarrow> bool" where
  "discover_install_rust L = env_bool (fl_env L) INSTALL_RUST"

definition discover_cache :: "facade_lib \<Rightarrow> bool" where
  "discover_cache L \<longleftrightarrow> \<not> env_bool (fl_env L) NO_CACHE"

definition discover_cache_target :: "facade_lib \<Rightarrow> bool" where
  "discover_cache_target L =
     (case fl_env L CACHE_TARGET of Some v \<Rightarrow> to_ascii_lowercase (trim v) \<notin> set falsy | None \<Rightarrow> True)"

definition default_remote_config :: "facade_lib \<Rightarrow> machine \<Rightarrow> remote_config" where
  "default_remote_config L M =
     \<lparr>rc_local_root = discover_local_root L M, rc_package = discover_package L, rc_remote_src = REMOTE_SRC,
      rc_use_cargo_scoping = True, rc_modalignore_name = DEFAULT_MODALIGNORE_NAME,
      rc_base_image = discover_base_image L, rc_timeout_secs = REMOTE_TIMEOUT_SECS,
      rc_install_rust = discover_install_rust L, rc_image_steps = [], rc_cache = discover_cache L,
      rc_options = default_options\<rparr>"

section \<open>The runner's envelope\<close>

fun json_get :: "json \<Rightarrow> string \<Rightarrow> json option" where
  "json_get (JObj kvs) key = map_of kvs key"
| "json_get _ key = None"

fun as_str :: "json \<Rightarrow> string option" where
  "as_str (JStr s) = Some s"
| "as_str _ = None"

definition str_field :: "json \<Rightarrow> string \<Rightarrow> string" where
  "str_field j key = (case Option.bind (json_get j key) as_str of Some s \<Rightarrow> s | None \<Rightarrow> [])"

definition reconstruct_runner_error :: "json \<Rightarrow> runner_error" where
  "reconstruct_runner_error error =
     (let kind = str_field error ''kind''; message = str_field error ''message'' in
      if kind = ''decode_error'' then runner_error.Decode message
      else if kind = ''unknown_entrypoint'' then runner_error.UnknownEntrypoint message
      else if kind = ''function_error''
        then Function message (case json_get error ''details'' of
                                 None \<Rightarrow> None | Some JNull \<Rightarrow> None | Some other \<Rightarrow> Some other)
      else if kind = ''encode_error'' then runner_error.Encode message
      else if kind = ''panic'' then Panic message (str_field error ''backtrace'')
      else runner_error.Decode (''unrecognized error kind: '' @ kind))"

definition parse_envelope :: "json_lib \<Rightarrow> (json \<Rightarrow> string + 'o) \<Rightarrow> string \<Rightarrow> facade_error + 'o" where
  "parse_envelope J from_value envelope =
     and_then (map_sum facade_error.Decode id (json_value J envelope)) (\<lambda>v.
       if json_get v ''ok'' = Some (JBool True)
       then map_sum facade_error.Decode id
              (from_value (case json_get v ''value'' of Some x \<Rightarrow> x | None \<Rightarrow> JNull))
       else Inl (Runner (reconstruct_runner_error
              (case json_get v ''error'' of Some x \<Rightarrow> x | None \<Rightarrow> JNull))))"

end
