(* ===== verification/ControlPlane.thy ===== *)
theory ControlPlane
  imports Remote FunctionRpc Resources Upload Volume Invoke
begin

text \<open>
  The provisioning sequence (\<open>crates/modal-rust/src/control_plane.rs\<close>) behind run, deploy and dump: the boundary
  that separates run from deploy, the image and function specs it builds, the control plane as a record of
  operations on a world (Rust's trait), the sequence itself, and the live control plane over the SDK.

  The accumulator the caller threads (\<open>&mut Published\<close>) is part of the state of the sequence, so what a failed
  run recorded stays recorded.
\<close>

section \<open>The boundary\<close>

datatype app_state = EphemeralApp | DeployedApp

datatype source_delivery = RunMount | DeployContext

record boundary =
  app_state_of :: app_state
  delivery :: source_delivery

definition RUN_BOUNDARY :: boundary where
  "RUN_BOUNDARY = \<lparr>app_state_of = EphemeralApp, delivery = RunMount\<rparr>"

definition DEPLOY_BOUNDARY :: boundary where
  "DEPLOY_BOUNDARY = \<lparr>app_state_of = DeployedApp, delivery = DeployContext\<rparr>"

record entrypoint =
  ep_name :: string
  ep_options :: function_options
  ep_timeout_secs :: u32

datatype provision_plan = Single entrypoint | Many

definition plan :: "boundary \<Rightarrow> entrypoint list \<Rightarrow> facade_error + provision_plan" where
  "plan b entrypoints =
     (case delivery b of
        RunMount \<Rightarrow> (case entrypoints of
                       ep # _ \<Rightarrow> Inr (Single ep)
                     | [] \<Rightarrow> Inl (config_error ''RUN provision requires exactly one entrypoint''))
      | DeployContext \<Rightarrow> Inr Many)"

record gates =
  bake_snapshot_prime :: bool
  endpoint_entrypoints :: "string list"
  web_server_entrypoints :: "(string \<times> u16) list"

definition deploy_gates :: "entrypoint list \<Rightarrow> gates" where
  "deploy_gates entrypoints =
     \<lparr>bake_snapshot_prime = list_ex (\<lambda>ep. fo_enable_memory_snapshot (ep_options ep)) entrypoints,
      endpoint_entrypoints =
        map ep_name (filter (\<lambda>ep. fo_webhook_method (ep_options ep) \<noteq> None \<and>
                                  fo_web_server_port (ep_options ep) = None) entrypoints),
      web_server_entrypoints =
        List.map_filter (\<lambda>ep. map_option (\<lambda>p. (ep_name ep, p)) (fo_web_server_port (ep_options ep))) entrypoints\<rparr>"

record source_inputs =
  si_local_root :: path
  si_package :: string
  si_use_cargo_scoping :: bool
  si_modalignore_name :: string
  si_remote_src :: string

record provision_inputs =
  pi_app_name :: string
  pi_app_id :: "string option"
  pi_source :: source_inputs
  pi_base_image :: string
  pi_install_rust :: bool
  pi_image_steps :: "image_step list"
  pi_cache :: bool
  pi_snapshot_best_effort :: bool
  pi_dep_prebuild :: bool
  pi_entrypoints :: "entrypoint list"

section \<open>Constants and the baked wrapper of the deploy path\<close>

text \<open>From \<open>deploy.rs\<close>.\<close>

definition DEPLOY_WRAPPER_MODULE :: string where "DEPLOY_WRAPPER_MODULE = ''modal_rust_deploy_wrapper''"
definition DEPLOY_WRAPPER_CALLABLE :: string where "DEPLOY_WRAPPER_CALLABLE = ''handler''"
definition DEPLOY_SRC :: string where "DEPLOY_SRC = ''/app/src''"
definition DEPLOY_RUNNER :: string where "DEPLOY_RUNNER = ''/app/modal_runner''"

definition web_adapter_suffix :: "string list \<Rightarrow> string" where
  "web_adapter_suffix eps =
     concat (map (\<lambda>ep. web_endpoint_attr ep @ '' = _make_web_handler('' @ quote @ ep @ quote @ '')'' @ nl) eps)"

definition web_server_adapter_suffix :: "(string \<times> u16) list \<Rightarrow> string" where
  "web_server_adapter_suffix servers =
     concat (map (\<lambda>(ep, port). web_server_attr ep @ '' = _make_web_server_handler('' @ dec (unat port) @ '', ''
       @ quote @ ep @ quote @ '')'' @ nl) servers)"

definition baked_deploy_wrapper_src :: "facade_lib \<Rightarrow> string list \<Rightarrow> (string \<times> u16) list \<Rightarrow> string" where
  "baked_deploy_wrapper_src L eps servers =
     (if eps = [] \<and> servers = [] then deploy_wrapper_py L
      else deploy_wrapper_py L @ nl @ web_adapter_suffix eps @ web_server_adapter_suffix servers)"

section \<open>Image specs\<close>

definition zstd_line :: string where
  "zstd_line = ''RUN apt-get update && apt-get install -y --no-install-recommends zstd && rm -rf /var/lib/apt/lists/*''"

definition build_image_spec :: "facade_lib \<Rightarrow> boundary \<Rightarrow> provision_inputs \<Rightarrow> string \<Rightarrow> image_spec option" where
  "build_image_spec L b inp py_mount_id =
     (let base = with_python_standalone_mount_id py_mount_id (with_add_python PYTHON_SERIES
                   (from_registry (pi_base_image inp))) in
      case delivery b of
        RunMount \<Rightarrow>
          (let spec = (if pi_cache inp then with_command zstd_line base else base);
               spec = (if pi_install_rust inp then with_rust_toolchain spec else spec);
               spec = apply_image_steps (pi_image_steps inp) spec;
               spec = with_wrapper_module WRAPPER_MODULE (run_wrapper_py L) spec
           in map_option (\<lambda>config_env.
                let spec = with_command ''ENV RUST_BACKTRACE=1'' (with_command config_env spec);
                    spec = (if pi_cache inp \<and> \<not> discover_cache_target L
                            then with_command (''ENV '' @ CACHE_TARGET @ ''=0'') spec else spec)
                in with_command ''ENTRYPOINT []'' spec)
              (run_wrapper_config_env L (si_package (pi_source inp)) (pi_cache inp) (si_remote_src (pi_source inp))))
      | DeployContext \<Rightarrow>
          (let spec = (if pi_install_rust inp then with_rust_toolchain base else base)
           in Some (apply_image_steps (pi_image_steps inp) spec)))"

definition deploy_runner_build_command :: "string \<Rightarrow> string" where
  "deploy_runner_build_command package =
     ''RUN cd '' @ DEPLOY_SRC @ '' && cargo build --release -p '' @ package @ '' --bin modal_runner''"

definition build_deploy_top_layer_spec ::
  "facade_lib \<Rightarrow> string \<Rightarrow> string \<Rightarrow> string \<Rightarrow> bool \<Rightarrow> bool \<Rightarrow> string list \<Rightarrow> (string \<times> u16) list \<Rightarrow> image_spec" where
  "build_deploy_top_layer_spec L base_id source_mount_id package prime best_effort eps servers =
     (let spec = with_base_image base_id (from_registry []);
          spec = with_wrapper_module DEPLOY_WRAPPER_MODULE (baked_deploy_wrapper_src L eps servers) spec;
          spec = with_context_mount source_mount_id spec;
          spec = with_command ''COPY . /'' spec;
          spec = with_command (deploy_runner_build_command package) spec;
          spec = with_command (''RUN cp '' @ DEPLOY_SRC @ ''/target/release/modal_runner '' @ DEPLOY_RUNNER
                   @ '' && chmod +x '' @ DEPLOY_RUNNER) spec;
          spec = with_command ''ENV RUST_BACKTRACE=1'' spec;
          spec = (if prime
                  then let spec = with_command (''ENV '' @ SNAPSHOT_PRIME @ ''=1'') spec
                       in if best_effort then with_command (''ENV '' @ SNAPSHOT_BEST_EFFORT @ ''=1'') spec else spec
                  else spec)
      in with_command ''ENTRYPOINT []'' spec)"

definition build_deploy_dep_layer_spec :: "string \<Rightarrow> string \<Rightarrow> string \<Rightarrow> image_spec" where
  "build_deploy_dep_layer_spec base_id stub_mount_id package =
     with_command ''ENTRYPOINT []'' (with_command (deploy_runner_build_command package)
       (with_command ''COPY . /'' (with_context_mount stub_mount_id (with_base_image base_id (from_registry [])))))"

section \<open>Function specs\<close>

record attached_resources =
  ar_client_mount_id :: string
  ar_source_mount_id :: string
  ar_cache_vol_id :: "string option"
  ar_secret_ids :: "string list"
  ar_user_volume_mounts :: "(string \<times> string) list"

definition webhook_of :: "boundary \<Rightarrow> function_options \<Rightarrow> webhook_spec option" where
  "webhook_of b opts =
     (case (fo_web_server_port opts, fo_webhook_method opts, app_state_of b) of
        (Some port, _, DeployedApp) \<Rightarrow>
          Some \<lparr>wh_method = [], wh_requires_proxy_auth = fo_webhook_requires_proxy_auth opts,
                wh_web_server_port = Some port,
                wh_web_server_startup_timeout = fo_web_server_startup_timeout opts\<rparr>
      | (None, Some m, DeployedApp) \<Rightarrow>
          Some \<lparr>wh_method = m, wh_requires_proxy_auth = fo_webhook_requires_proxy_auth opts,
                wh_web_server_port = None, wh_web_server_startup_timeout = None\<rparr>
      | _ \<Rightarrow> None)"

definition callable_of :: "boundary \<Rightarrow> entrypoint \<Rightarrow> string \<times> string" where
  "callable_of b ep =
     (let webhook = webhook_of b (ep_options ep);
          is_web_server = (case webhook of Some w \<Rightarrow> wh_web_server_port w \<noteq> None | None \<Rightarrow> False) in
      case delivery b of
        RunMount \<Rightarrow> (WRAPPER_MODULE, WRAPPER_CALLABLE)
      | DeployContext \<Rightarrow>
          (DEPLOY_WRAPPER_MODULE,
           if is_web_server then web_server_attr (ep_name ep)
           else if webhook \<noteq> None then web_endpoint_attr (ep_name ep)
           else DEPLOY_WRAPPER_CALLABLE))"

definition mounts_of :: "boundary \<Rightarrow> attached_resources \<Rightarrow> string list" where
  "mounts_of b res =
     (case delivery b of
        RunMount \<Rightarrow> [ar_client_mount_id res, ar_source_mount_id res]
      | DeployContext \<Rightarrow> [ar_client_mount_id res])"

definition autoscaler_of :: "function_options \<Rightarrow> function_autoscaler" where
  "autoscaler_of opts =
     \<lparr>min_containers = fo_min_containers opts, max_containers = fo_max_containers opts,
      buffer_containers = fo_buffer_containers opts, scaledown_window = fo_scaledown_window opts\<rparr>"

definition attach :: "attached_resources \<Rightarrow> 'f function_spec \<Rightarrow> 'f function_spec" where
  "attach res s =
     (let s = (case ar_cache_vol_id res of Some vid \<Rightarrow> with_volume_mount vid CACHE_MOUNT s | None \<Rightarrow> s);
          s = fold (\<lambda>(vid, mount_path). with_volume_mount vid mount_path) (ar_user_volume_mounts res) s
      in if ar_secret_ids res \<noteq> [] then with_secret_ids (ar_secret_ids res) s else s)"

definition build_function_spec ::
  "'f f32_ops \<Rightarrow> boundary \<Rightarrow> entrypoint \<Rightarrow> string \<Rightarrow> attached_resources \<Rightarrow> facade_error + 'f function_spec" where
  "build_function_spec F b ep img res =
     (let opts = ep_options ep; tag = sanitize_object_tag (ep_name ep); webhook = webhook_of b opts;
          (module, callable) = callable_of b ep;
          s = with_timeout_secs (ep_timeout_secs ep) (with_mount_client_dependencies True
                (with_mount_ids (mounts_of b res) (with_app_function_name tag
                  (new_function_spec module callable img)))) in
      and_then (from_sdk (with_gpu (fo_gpu opts) s)) (\<lambda>s.
      let s = with_memory_mb (fo_memory_mb opts) (with_milli_cpu (fo_milli_cpu opts) s) in
      and_then (from_sdk (with_concurrency (fo_max_concurrent_inputs opts) (fo_target_concurrent_inputs opts) s)) (\<lambda>s.
      and_then (from_sdk (with_schedule F (fo_schedule opts) s)) (\<lambda>s.
      and_then (from_sdk (with_autoscaler (autoscaler_of opts) s)) (\<lambda>s.
      let s = with_memory_snapshot (fo_enable_memory_snapshot opts \<and> app_state_of b = DeployedApp) s in
      and_then (from_sdk (with_webhook webhook s)) (\<lambda>s.
      and_then (case fo_retries_spec opts of
                  Some spec \<Rightarrow> from_sdk (with_retry_policy F (Some spec) s)
                | None \<Rightarrow> Inr (with_retries F (fo_retries opts) s)) (\<lambda>s.
      Inr (attach res s))))))))"

section \<open>The control plane\<close>

record created =
  cr_function_id :: string
  cr_definition_id :: string
  cr_web_url :: string

record provisioned =
  pr_image_id :: string
  publish_url :: string

record published =
  pub_function_ids :: "string \<rightharpoonup> string"
  pub_definition_ids :: "string \<rightharpoonup> string"
  pub_endpoint_urls :: "(string \<times> string) list"

record ('w, 'f) control_plane =
  ensure_app :: "string \<Rightarrow> string option \<Rightarrow> app_state \<Rightarrow> ('w, string) run"
  ensure_volume :: "string \<Rightarrow> bool \<Rightarrow> ('w, string) run"
  ensure_secret :: "string \<Rightarrow> string list \<Rightarrow> ('w, string) run"
  ensure_inline_secret :: "string \<Rightarrow> (string \<times> string) list \<Rightarrow> ('w, string) run"
  ensure_client_mount :: "('w, string) run"
  ensure_source_mount :: "source_inputs \<Rightarrow> string \<Rightarrow> ('w, string) run"
  ensure_prebuild_mount :: "source_inputs \<Rightarrow> string \<Rightarrow> ('w, string option) run"
  ensure_python_mount :: "string \<Rightarrow> ('w, string) run"
  ensure_image :: "string \<Rightarrow> image_spec \<Rightarrow> nat \<Rightarrow> ('w, string) run"
  precreate :: "string \<Rightarrow> string \<Rightarrow> ('w, string) run"
  create :: "string \<Rightarrow> string \<Rightarrow> 'f function_spec \<Rightarrow> ('w, created) run"
  publish :: "string \<Rightarrow> string \<Rightarrow> (string \<rightharpoonup> string) \<Rightarrow> (string \<rightharpoonup> string) \<Rightarrow> app_state \<Rightarrow> ('w, string) run"

definition no_published :: published where
  "no_published = \<lparr>pub_function_ids = Map.empty, pub_definition_ids = Map.empty, pub_endpoint_urls = []\<rparr>"

definition record_created :: "string \<Rightarrow> created \<Rightarrow> published \<Rightarrow> published" where
  "record_created tag c p =
     \<lparr>pub_function_ids = (pub_function_ids p)(tag \<mapsto> cr_function_id c),
      pub_definition_ids = (if cr_definition_id c \<noteq> []
        then (pub_definition_ids p)(cr_function_id c \<mapsto> cr_definition_id c) else pub_definition_ids p),
      pub_endpoint_urls = (if cr_web_url c \<noteq> []
        then bt_insert tag (cr_web_url c) (pub_endpoint_urls p) else pub_endpoint_urls p)\<rparr>"

definition inline_secret_name :: "string \<Rightarrow> string \<Rightarrow> string" where
  "inline_secret_name app_name tag = ''modal-rust-inline-env-'' @ app_name @ ''-'' @ tag"

definition resolve_entrypoint_secrets ::
  "('w, 'f) control_plane \<Rightarrow> string \<Rightarrow> string \<Rightarrow> function_options \<Rightarrow> ('w, string list) run" where
  "resolve_entrypoint_secrets cp app_name tag opts =
     bind_run (for_run (\<lambda>name ids. bind_run (ensure_secret cp name (fo_required_keys opts)) (\<lambda>i. give (ids @ [i])))
                 (fo_secrets opts) []) (\<lambda>secret_ids.
       if fo_env opts \<noteq> []
       then bind_run (ensure_inline_secret cp (inline_secret_name app_name tag) (fo_env opts))
              (\<lambda>i. give (secret_ids @ [i]))
       else give secret_ids)"

definition reject_cache_collision :: "bool \<Rightarrow> string \<Rightarrow> facade_error + unit" where
  "reject_cache_collision cache mount =
     (if cache \<and> mount = CACHE_MOUNT
      then Inl (config_error (''user volume mount path '' @ debug_str CACHE_MOUNT @ '' collides with the cargo-cache ''
             @ ''volume; choose a different mount path (or disable the cache)''))
      else Inr ())"

section \<open>The sequence\<close>

text \<open>The state of the sequence is the world and the caller's accumulator; an operation of the plane
  touches the world only.\<close>

definition on_plane :: "('w, 'a) run \<Rightarrow> ('w \<times> published, 'a) run" where
  "on_plane m = (\<lambda>(w, p). map_option (\<lambda>(r, w'). (r, (w', p))) (m w))"

definition get_published :: "('w \<times> published, published) run" where
  "get_published = (\<lambda>(w, p). Some (Inr p, (w, p)))"

definition note_created :: "string \<Rightarrow> created \<Rightarrow> ('w \<times> published, unit) run" where
  "note_created tag c = (\<lambda>(w, p). Some (Inr (), (w, record_created tag c p)))"

text \<open>What the run path resolves before the mounts: the app, the cache volume, and the secrets and volumes of
  its entrypoint.\<close>

definition resolve_run ::
  "('w, 'f) control_plane \<Rightarrow> provision_inputs \<Rightarrow> boundary \<Rightarrow> entrypoint \<Rightarrow>
     ('w, string \<times> string option \<times> string list \<times> (string \<times> string) list) run" where
  "resolve_run cp inp b ep =
     bind_run (ensure_app cp (pi_app_name inp) (pi_app_id inp) (app_state_of b)) (\<lambda>app_id.
     bind_run (if pi_cache inp then bind_run (ensure_volume cp CACHE_VOLUME_NAME True) (\<lambda>i. give (Some i))
               else give None) (\<lambda>cache_vol_id.
     bind_run (resolve_entrypoint_secrets cp (pi_app_name inp) (sanitize_object_tag (ep_name ep)) (ep_options ep)) (\<lambda>secret_ids.
     bind_run (for_run (\<lambda>(mount_path, name) mounts.
                 bind_run (of_result (reject_cache_collision (pi_cache inp) mount_path)) (\<lambda>_.
                 bind_run (ensure_volume cp name False) (\<lambda>vid. give (mounts @ [(vid, mount_path)]))))
               (fo_volumes (ep_options ep)) []) (\<lambda>mounts.
     give (app_id, cache_vol_id, secret_ids, mounts)))))"

definition panic :: "('w, 'a) run" where "panic w = None"

definition provision_image ::
  "facade_lib \<Rightarrow> ('w, 'f) control_plane \<Rightarrow> provision_inputs \<Rightarrow> boundary \<Rightarrow> string \<Rightarrow> string \<Rightarrow> string \<Rightarrow> string \<Rightarrow>
     ('w, string) run" where
  "provision_image L cp inp b source_remote app_id source_mount_id py_mount_id =
     (case build_image_spec L b inp py_mount_id of
        None \<Rightarrow> panic
      | Some base_spec \<Rightarrow>
          (case delivery b of
             RunMount \<Rightarrow> ensure_image cp app_id base_spec 0
           | DeployContext \<Rightarrow>
               bind_run (ensure_image cp app_id base_spec 0) (\<lambda>base_id.
               bind_run (if pi_dep_prebuild inp
                         then bind_run (ensure_prebuild_mount cp (pi_source inp) source_remote) (\<lambda>stub.
                                case stub of
                                  Some stub_mount_id \<Rightarrow>
                                    ensure_image cp app_id (build_deploy_dep_layer_spec base_id stub_mount_id
                                      (si_package (pi_source inp))) 1
                                | None \<Rightarrow> give base_id)
                         else give base_id) (\<lambda>top_base.
               let top_layer_ordinal = (if top_base = base_id then 1 else 2);
                   g = deploy_gates (pi_entrypoints inp);
                   top_spec = build_deploy_top_layer_spec L top_base source_mount_id (si_package (pi_source inp))
                     (bake_snapshot_prime g) (pi_snapshot_best_effort inp) (endpoint_entrypoints g)
                     (web_server_entrypoints g)
               in ensure_image cp app_id top_spec top_layer_ordinal))))"

definition publish_union ::
  "('w, 'f) control_plane \<Rightarrow> provision_inputs \<Rightarrow> boundary \<Rightarrow> string \<Rightarrow> ('w \<times> published, string) run" where
  "publish_union cp inp b app_id =
     bind_run get_published (\<lambda>p.
       on_plane (publish cp app_id (pi_app_name inp) (pub_function_ids p) (pub_definition_ids p) (app_state_of b)))"

definition entrypoint_resources ::
  "('w, 'f) control_plane \<Rightarrow> provision_inputs \<Rightarrow> provision_plan \<Rightarrow>
     string option \<times> string list \<times> (string \<times> string) list \<Rightarrow> entrypoint \<Rightarrow>
     ('w, string option \<times> string list \<times> (string \<times> string) list) run" where
  "entrypoint_resources cp inp pl run_resources ep =
     (case pl of
        Single _ \<Rightarrow> give run_resources
      | Many \<Rightarrow>
          bind_run (resolve_entrypoint_secrets cp (pi_app_name inp) (sanitize_object_tag (ep_name ep)) (ep_options ep))
            (\<lambda>secret_ids.
          bind_run (for_run (\<lambda>(mount_path, name) mounts.
                      bind_run (ensure_volume cp name False) (\<lambda>vid. give (mounts @ [(vid, mount_path)])))
                    (fo_volumes (ep_options ep)) []) (\<lambda>mounts.
          give (None, secret_ids, mounts))))"

definition create_entrypoint ::
  "'f f32_ops \<Rightarrow> ('w, 'f) control_plane \<Rightarrow> provision_inputs \<Rightarrow> boundary \<Rightarrow> provision_plan \<Rightarrow>
     string option \<times> string list \<times> (string \<times> string) list \<Rightarrow> string \<Rightarrow> string \<Rightarrow> string \<Rightarrow> string \<Rightarrow>
     entrypoint \<Rightarrow> string \<Rightarrow> ('w \<times> published, string) run" where
  "create_entrypoint F cp inp b pl run_resources app_id img client_mount source_mount ep url =
     (let tag = sanitize_object_tag (ep_name ep) in
      bind_run (on_plane (precreate cp app_id tag)) (\<lambda>precreate_id.
      bind_run (on_plane (entrypoint_resources cp inp pl run_resources ep)) (\<lambda>(cache_vol_id, secret_ids, mounts).
      let res = \<lparr>ar_client_mount_id = client_mount, ar_source_mount_id = source_mount,
                 ar_cache_vol_id = cache_vol_id, ar_secret_ids = secret_ids, ar_user_volume_mounts = mounts\<rparr> in
      bind_run (of_result (build_function_spec F b ep img res)) (\<lambda>fn_spec.
      bind_run (on_plane (create cp app_id precreate_id fn_spec)) (\<lambda>c.
      bind_run (note_created tag c) (\<lambda>_.
      case pl of Single _ \<Rightarrow> publish_union cp inp b app_id | Many \<Rightarrow> give url))))))"

definition provision ::
  "facade_lib \<Rightarrow> 'f f32_ops \<Rightarrow> ('w, 'f) control_plane \<Rightarrow> provision_inputs \<Rightarrow> boundary \<Rightarrow>
     ('w \<times> published, provisioned) run" where
  "provision L F cp inp b =
     bind_run (of_result (plan b (pi_entrypoints inp))) (\<lambda>pl.
     bind_run (case pl of
                 Single ep \<Rightarrow> bind_run (on_plane (resolve_run cp inp b ep)) (\<lambda>(app_id, resources). give (Some app_id, resources))
               | Many \<Rightarrow> give (None, (None, [], []))) (\<lambda>(app, run_resources).
     bind_run (on_plane (ensure_client_mount cp)) (\<lambda>client_mount_id.
     let source_remote = (case delivery b of RunMount \<Rightarrow> si_remote_src (pi_source inp) | DeployContext \<Rightarrow> DEPLOY_SRC) in
     bind_run (on_plane (ensure_source_mount cp (pi_source inp) source_remote)) (\<lambda>source_mount_id.
     bind_run (on_plane (ensure_python_mount cp PYTHON_SERIES)) (\<lambda>py_mount_id.
     bind_run (case app of
                 Some i \<Rightarrow> give i
               | None \<Rightarrow> on_plane (ensure_app cp (pi_app_name inp) (pi_app_id inp) (app_state_of b))) (\<lambda>app_id.
     bind_run (on_plane (provision_image L cp inp b source_remote app_id source_mount_id py_mount_id)) (\<lambda>img.
     bind_run (for_run (create_entrypoint F cp inp b pl run_resources app_id img client_mount_id source_mount_id)
                 (pi_entrypoints inp) []) (\<lambda>url.
     bind_run (case pl of Many \<Rightarrow> publish_union cp inp b app_id | Single _ \<Rightarrow> give url) (\<lambda>url.
     give \<lparr>pr_image_id = img, publish_url = url\<rparr>)))))))))"

section \<open>The live control plane\<close>

text \<open>The client: the stubs and libraries the SDK operations take, the disk and tools of the source
  upload, and the CBOR codec at the types of a wrapper call.  Its only mutable field is the cached image builder version, beside the world.\<close>

record ('w, 'f, 'b, 'g) live_client =
  lc_host :: "'w host"
  lc_config :: modal_config
  lc_apps :: "('w, 'f) app_stub"
  lc_mounts :: "'w mount_rpc"
  lc_secrets :: "'w secret_rpc"
  lc_volumes :: "'w volume_stub"
  lc_images :: "'w image_stub"
  lc_functions :: "('w, 'f) function_stub"
  lc_http :: "'w http"
  lc_digests :: digests_lib
  lc_uploads :: "'w upload_stub"
  lc_next_done :: "nat \<Rightarrow> 'w \<Rightarrow> nat"
  lc_tree :: source_tree
  lc_gitignore :: "('b, 'g) gitignore"
  lc_disk :: disk
  lc_cargo :: cargo
  lc_toml :: toml_edit
  lc_invoke :: "'w invoke_stub"
  lc_encode :: "(string \<times> string) \<times> (string \<rightharpoonup> unit) \<Rightarrow> error + bytes"
  lc_decode :: "bytes \<Rightarrow> error + string"

type_synonym 'w client_state = "'w \<times> string option"

definition client_op :: "('w, 'a) io \<Rightarrow> ('w client_state, 'a) run" where
  "client_op m = (\<lambda>(w, cache). map_option (\<lambda>(r, w'). (from_sdk r, (w', cache))) (m w))"

definition to_bytes :: "string \<Rightarrow> bytes" where "to_bytes s = map (\<lambda>c. of_nat (byte c)) s"

definition inline_bytes :: "(string \<times> string) list \<Rightarrow> (string \<times> bytes) list" where
  "inline_bytes = map (\<lambda>(p, s). (p, to_bytes s))"

definition mount_closure ::
  "('w, 'f, 'b, 'g) live_client \<Rightarrow> workspace_closure_spec \<Rightarrow> string \<Rightarrow> ('w client_state, string) run" where
  "mount_closure K spec remote_path =
     client_op (mount_workspace_closure (lc_host K) (lc_http K) (lc_digests K) (lc_uploads K) (lc_next_done K)
       (lc_config K) (lc_tree K) (lc_gitignore K) spec remote_path None)"

definition live_ensure_app ::
  "('w, 'f, 'b, 'g) live_client \<Rightarrow> string \<Rightarrow> string option \<Rightarrow> app_state \<Rightarrow> ('w client_state, string) run" where
  "live_ensure_app K app_name pre_resolved state =
     (case (state, pre_resolved) of
        (EphemeralApp, Some i) \<Rightarrow> give i
      | (EphemeralApp, None) \<Rightarrow> client_op (app_create_ephemeral (lc_host K) (lc_apps K) (lc_config K) app_name None)
      | (DeployedApp, _) \<Rightarrow> client_op (app_get_or_create_id (lc_host K) (lc_apps K) (lc_config K) app_name None))"

definition live_source_mount ::
  "('w, 'f, 'b, 'g) live_client \<Rightarrow> source_inputs \<Rightarrow> string \<Rightarrow> ('w client_state, string) run" where
  "live_source_mount K source remote_path =
     bind_run (if si_use_cargo_scoping source
               then of_result (map_sum facade_error.Config id
                      (workspace_closure (lc_disk K) (lc_cargo K) (lc_toml K) (si_local_root source) (si_package source)))
               else give None) (\<lambda>scoped.
     case (si_use_cargo_scoping source, scoped) of
       (True, Some up) \<Rightarrow>
         mount_closure K \<lparr>wc_workspace_root = si_local_root source, wc_crate_dirs = cu_dirs up,
           wc_extra_files = cu_extra_files up, wc_extra_inline_files = inline_bytes (cu_inline_files up),
           wc_modalignore_name = si_modalignore_name source\<rparr> remote_path
     | _ \<Rightarrow>
         (let inline = (case injected_runner_file (lc_disk K) (lc_cargo K) (lc_toml K) (si_local_root source) (si_package source) of
                          Some f \<Rightarrow> [f] | None \<Rightarrow> [])
          in client_op (mount_local_dir_with_inline (lc_host K) (lc_http K) (lc_digests K) (lc_uploads K) (lc_next_done K)
               (lc_config K) (lc_tree K) (lc_gitignore K) (si_local_root source) remote_path
               (si_modalignore_name source) None (inline_bytes inline))))"

definition live_prebuild_mount ::
  "('w, 'f, 'b, 'g) live_client \<Rightarrow> source_inputs \<Rightarrow> string \<Rightarrow> ('w client_state, string option) run" where
  "live_prebuild_mount K source remote_path =
     (if \<not> si_use_cargo_scoping source then give None
      else bind_run (of_result (map_sum facade_error.Config id
             (workspace_closure_stub (lc_disk K) (lc_cargo K) (lc_toml K) (si_local_root source) (si_package source)))) (\<lambda>stub.
           case stub of
             None \<Rightarrow> give None
           | Some st \<Rightarrow>
               bind_run (mount_closure K \<lparr>wc_workspace_root = si_local_root source, wc_crate_dirs = [],
                   wc_extra_files = su_extra_files st, wc_extra_inline_files = inline_bytes (su_inline_files st),
                   wc_modalignore_name = si_modalignore_name source\<rparr> remote_path) (\<lambda>i. give (Some i))))"

definition live_ensure_image ::
  "facade_lib \<Rightarrow> ('w, 'f, 'b, 'g) live_client \<Rightarrow> string \<Rightarrow> image_spec \<Rightarrow> nat \<Rightarrow> ('w client_state, string) run" where
  "live_ensure_image L K app_id spec layer = (\<lambda>(w, cache).
     map_option (\<lambda>((r, cache'), w'). (from_sdk r, (w', cache')))
       (image_get_or_create (lc_host K) (lc_images K) (fl_b64 L) (lc_config K) cache app_id spec w))"

definition live_create ::
  "'f f32_ops \<Rightarrow> ('w, 'f, 'b, 'g) live_client \<Rightarrow> string \<Rightarrow> string \<Rightarrow> 'f function_spec \<Rightarrow> ('w client_state, created) run" where
  "live_create F K app_id precreate_id spec =
     bind_run (client_op (function_create (lc_host K) F (lc_functions K) app_id precreate_id spec)) (\<lambda>c.
       give \<lparr>cr_function_id = cf_function_id c, cr_definition_id = cf_definition_id c, cr_web_url = cf_web_url c\<rparr>)"

definition live_publish ::
  "('w, 'f, 'b, 'g) live_client \<Rightarrow> string \<Rightarrow> string \<Rightarrow> (string \<rightharpoonup> string) \<Rightarrow> (string \<rightharpoonup> string) \<Rightarrow> app_state \<Rightarrow>
     ('w client_state, string) run" where
  "live_publish K app_id app_name function_ids definition_ids state =
     bind_run (client_op
       (case state of
          EphemeralApp \<Rightarrow> app_publish_ephemeral (lc_host K) (lc_apps K) app_id app_name function_ids definition_ids
        | DeployedApp \<Rightarrow> app_publish_deployed (lc_host K) (lc_apps K) app_id app_name function_ids definition_ids))
       (\<lambda>a. give (app_url a))"

definition live_control_plane ::
  "facade_lib \<Rightarrow> 'f f32_ops \<Rightarrow> ('w, 'f, 'b, 'g) live_client \<Rightarrow> ('w client_state, 'f) control_plane" where
  "live_control_plane L F K =
     \<lparr>ensure_app = live_ensure_app K,
      ensure_volume = (\<lambda>name v2. client_op (volume_get_or_create (lc_host K) (lc_volumes K) (lc_config K) name v2 True None)),
      ensure_secret = (\<lambda>name keys. client_op (secret_get_or_create (lc_host K) (lc_secrets K) (lc_config K) name keys None)),
      ensure_inline_secret = (\<lambda>name env.
        client_op (secret_from_dict (lc_host K) (lc_secrets K) (lc_config K) name (map_of (rev env)) None)),
      ensure_client_mount = client_op (client_mount_id (lc_host K) (lc_mounts K) (lc_config K) None),
      ensure_source_mount = live_source_mount K,
      ensure_prebuild_mount = live_prebuild_mount K,
      ensure_python_mount = (\<lambda>series. client_op (python_mount_id (lc_host K) (lc_mounts K) (lc_config K) series None)),
      ensure_image = live_ensure_image L K,
      precreate = (\<lambda>app_id tag. client_op (function_precreate (lc_host K) (lc_functions K) app_id tag)),
      create = live_create F K,
      publish = live_publish K\<rparr>"

end
