(* ===== verification/Provision.thy ===== *)
theory Provision
  imports ControlPlane "HOL-Library.Sublist"
begin

text \<open>
  What the provisioning sequence of \<open>ControlPlane\<close> guarantees.  The interface is the locale \<open>traced_plane\<close>: a
  control plane whose operations leave a trace of what was asked of them.  Over it the sequence is
  proved to follow a schedule computed from the inputs alone, completely when it succeeds and up to a
  prefix when it fails.
\<close>

section \<open>The function spec of an entrypoint\<close>

lemma fold_volume_mounts:
  "fold (\<lambda>(vid, p). with_volume_mount vid p) ms s =
     s\<lparr>volume_mounts := volume_mounts s @ map (\<lambda>(vid, p). new_volume_mount vid p) ms\<rparr>"
  by (induction ms arbitrary: s) (auto simp: with_volume_mount_def)

definition attached_volumes :: "attached_resources \<Rightarrow> function_volume_mount list" where
  "attached_volumes res =
     (case ar_cache_vol_id res of Some vid \<Rightarrow> [new_volume_mount vid CACHE_MOUNT] | None \<Rightarrow> []) @
     map (\<lambda>(vid, p). new_volume_mount vid p) (ar_user_volume_mounts res)"

lemma attach_eq:
  "secret_ids s = [] \<Longrightarrow>
   attach res s = s\<lparr>volume_mounts := volume_mounts s @ attached_volumes res, secret_ids := ar_secret_ids res\<rparr>"
  by (cases "ar_cache_vol_id res")
     (simp_all add: attach_def attached_volumes_def fold_volume_mounts with_volume_mount_def with_secret_ids_def Let_def)

text \<open>The spec the chain of setters ends in, and when it is accepted.\<close>

definition final_spec ::
  "boundary \<Rightarrow> entrypoint \<Rightarrow> string \<Rightarrow> attached_resources \<Rightarrow> 'f schedule option \<Rightarrow> 'f function_retry_policy option \<Rightarrow>
     'f function_spec" where
  "final_spec b ep img res sched retry =
     (let opts = ep_options ep in
      \<lparr>spec_module_name = fst (callable_of b ep), function_name = snd (callable_of b ep),
       app_function_name = Some (sanitize_object_tag (ep_name ep)), image_id = img, mount_ids = mounts_of b res,
       timeout_secs = ep_timeout_secs ep,
       resources = \<lparr>memory_mb = (case fo_memory_mb opts of Some n \<Rightarrow> n | None \<Rightarrow> 0),
                    milli_cpu = (case fo_milli_cpu opts of Some n \<Rightarrow> n | None \<Rightarrow> 0), gpu = fo_gpu opts\<rparr>,
       mount_client_dependencies = True, volume_mounts = attached_volumes res, secret_ids = ar_secret_ids res,
       retry_policy = retry, schedule = sched, autoscaler = autoscaler_of opts,
       checkpointing_enabled = (fo_enable_memory_snapshot opts \<and> app_state_of b = DeployedApp),
       webhook = webhook_of b opts, max_concurrent_inputs = fo_max_concurrent_inputs opts,
       target_concurrent_inputs = fo_target_concurrent_inputs opts\<rparr>)"

definition options_ok ::
  "'f f32_ops \<Rightarrow> boundary \<Rightarrow> function_options \<Rightarrow> 'f schedule option \<Rightarrow> 'f function_retry_policy option \<Rightarrow> bool" where
  "options_ok F b opts sched retry \<longleftrightarrow>
     gpu_ok (fo_gpu opts) \<and> concurrency_ok (fo_max_concurrent_inputs opts) (fo_target_concurrent_inputs opts) \<and>
     autoscaler_ok (autoscaler_of opts) \<and> webhook_ok (webhook_of b opts) \<and>
     transpose_map (parse_schedule F) (fo_schedule opts) = Inr sched \<and>
     (case fo_retries_spec opts of
        Some spec \<Rightarrow> transpose_map (parse_retries_spec F) (Some spec) = Inr retry
      | None \<Rightarrow> retry = retry_policy (with_retries F (fo_retries opts) (new_function_spec [] [] [])))"

lemma build_function_spec_iff:
  "build_function_spec F b ep img res = Inr s \<longleftrightarrow>
     (\<exists>sched retry. options_ok F b (ep_options ep) sched retry \<and> s = final_spec b ep img res sched retry)"
  apply (cases "fo_retries_spec (ep_options ep)")
   apply (auto simp: build_function_spec_def options_ok_def Let_def and_then_Inr_iff with_gpu_iff with_concurrency_iff
      with_autoscaler_iff with_webhook_iff with_schedule_def with_retry_policy_def attach_eq final_spec_def
      new_function_spec_def with_timeout_secs_def with_mount_client_dependencies_def with_mount_ids_def
      with_app_function_name_def with_memory_mb_def with_milli_cpu_def with_memory_snapshot_def with_retries_def
      default_resources_def split: prod.splits)
  done

text \<open>An accepted spec satisfies the builder's invariant.\<close>

lemma build_function_spec_ok:
  assumes "build_function_spec F b ep img res = Inr s"
  shows "spec_ok s"
proof -
  from assms obtain sched retry where ok: "options_ok F b (ep_options ep) sched retry"
    and s: "s = final_spec b ep img res sched retry" by (auto simp: build_function_spec_iff)
  from ok have "sched \<noteq> Some None"
    by (cases "fo_schedule (ep_options ep)") (auto simp: options_ok_def transpose_map_def and_then_Inr_iff dest: parse_schedule_Some)
  with ok s show ?thesis by (simp add: spec_ok_def options_ok_def final_spec_def Let_def)
qed

section \<open>Steps without ids\<close>

definition erase_ids :: "'f function_spec \<Rightarrow> 'f function_spec" where
  "erase_ids s =
     s\<lparr>image_id := [], mount_ids := map (\<lambda>_. []) (mount_ids s),
       volume_mounts := map (\<lambda>m. m\<lparr>volume_id := []\<rparr>) (volume_mounts s), secret_ids := map (\<lambda>_. []) (secret_ids s)\<rparr>"

definition erase_resources :: "attached_resources \<Rightarrow> attached_resources" where
  "erase_resources res =
     \<lparr>ar_client_mount_id = [], ar_source_mount_id = [], ar_cache_vol_id = map_option (\<lambda>_. []) (ar_cache_vol_id res),
      ar_secret_ids = map (\<lambda>_. []) (ar_secret_ids res),
      ar_user_volume_mounts = map (\<lambda>(_, p). ([], p)) (ar_user_volume_mounts res)\<rparr>"

lemma erase_final:
  "erase_ids (final_spec b ep img res sched retry) = final_spec b ep [] (erase_resources res) sched retry"
  by (cases "ar_cache_vol_id res"; cases "delivery b")
     (auto simp: erase_ids_def final_spec_def erase_resources_def mounts_of_def attached_volumes_def new_volume_mount_def Let_def)

lemma build_erased:
  "build_function_spec F b ep img res = Inr s \<Longrightarrow>
   build_function_spec F b ep [] (erase_resources res) = Inr (erase_ids s)"
  unfolding build_function_spec_iff using erase_final by blast

datatype 'f step =
    AppStep string app_state
  | VolumeStep string bool
  | SecretStep string "string list"
  | InlineSecretStep string
  | ClientMountStep
  | SourceMountStep string
  | StubMountStep string
  | PythonMountStep string
  | ImageStep "string list"
  | PrecreateStep string
  | CreateStep "'f function_spec"
  | PublishStep app_state "string set"

section \<open>Runs and their traces\<close>

lemma bind_run_unit [simp]: "bind_run (of_result (Inr a)) f = f a" "bind_run (give a) f = f a"
  "bind_run (of_result (Inl e)) f = fail e"
  by (simp_all add: bind_run_def of_result_def give_def fail_def fun_eq_iff)


text \<open>\<open>T s us\<close> says that the steps \<open>us\<close> have left their traces in \<open>s\<close>.  From a state in \<open>P\<close> a run takes
  exactly the steps \<open>xs\<close> and ends in \<open>Q\<close>, or fails after a prefix of \<open>xs\<close>.\<close>

definition follows ::
  "('s \<Rightarrow> 'x list \<Rightarrow> bool) \<Rightarrow> ('s \<Rightarrow> bool) \<Rightarrow> ('s, 'a) run \<Rightarrow> 'x list \<Rightarrow> ('a \<Rightarrow> 's \<Rightarrow> bool) \<Rightarrow> bool" where
  "follows T P m xs Q \<longleftrightarrow>
     (\<forall>s us s'. P s \<longrightarrow> T s us \<longrightarrow>
        (\<forall>e. m s = Some (Inl e, s') \<longrightarrow> (\<exists>ys. prefix ys xs \<and> T s' (us @ ys))) \<and>
        (\<forall>a. m s = Some (Inr a, s') \<longrightarrow> T s' (us @ xs) \<and> Q a s'))"

lemma followsI:
  assumes "\<And>s us e s'. P s \<Longrightarrow> T s us \<Longrightarrow> m s = Some (Inl e, s') \<Longrightarrow> \<exists>ys. prefix ys xs \<and> T s' (us @ ys)"
    and "\<And>s us a s'. P s \<Longrightarrow> T s us \<Longrightarrow> m s = Some (Inr a, s') \<Longrightarrow> T s' (us @ xs) \<and> Q a s'"
  shows "follows T P m xs Q"
  using assms unfolding follows_def by blast

lemma follows_ok: "follows T P m xs Q \<Longrightarrow> P s \<Longrightarrow> T s us \<Longrightarrow> m s = Some (Inr a, s') \<Longrightarrow> T s' (us @ xs) \<and> Q a s'"
  unfolding follows_def by blast

lemma follows_fail:
  "follows T P m xs Q \<Longrightarrow> P s \<Longrightarrow> T s us \<Longrightarrow> m s = Some (Inl e, s') \<Longrightarrow> \<exists>ys. prefix ys xs \<and> T s' (us @ ys)"
  unfolding follows_def by blast

text \<open>A run that takes no step and leaves the state alone; one step of which only success leaves a trace.\<close>

lemma follows_stay:
  "(\<And>s r s'. m s = Some (r, s') \<Longrightarrow> s' = s \<and> (\<forall>a. r = Inr a \<longrightarrow> P s \<longrightarrow> Q a s)) \<Longrightarrow> follows T P m [] Q"
  by (rule followsI) fastforce+

lemma follows_bind:
  assumes m: "follows T P m xs Q" and f: "\<And>a. follows T (Q a) (f a) ys R"
  shows "follows T P (bind_run m f) (xs @ ys) R"
proof (rule followsI)
  fix s us e s'
  assume P: "P s" and T: "T s us" and run: "bind_run m f s = Some (Inl e, s')"
  from run consider "m s = Some (Inl e, s')" | a s1 where "m s = Some (Inr a, s1)" "f a s1 = Some (Inl e, s')"
    by (auto simp: bind_run_Some_iff)
  then show "\<exists>zs. prefix zs (xs @ ys) \<and> T s' (us @ zs)"
  proof cases
    case 1
    from follows_fail [OF m P T 1] show ?thesis using prefix_prefix by blast
  next
    case 2
    from follows_ok [OF m P T 2(1)] have T1: "T s1 (us @ xs)" and Q: "Q a s1" by auto
    from follows_fail [OF f Q T1 2(2)] obtain zs where "prefix zs ys" "T s' ((us @ xs) @ zs)" by auto
    then have "prefix (xs @ zs) (xs @ ys) \<and> T s' (us @ xs @ zs)" by simp
    then show ?thesis by blast
  qed
next
  fix s us r s'
  assume P: "P s" and T: "T s us" and run: "bind_run m f s = Some (Inr r, s')"
  then obtain a s1 where ms: "m s = Some (Inr a, s1)" and fs: "f a s1 = Some (Inr r, s')"
    by (auto simp: bind_run_Inr_iff)
  from follows_ok [OF m P T ms] have T1: "T s1 (us @ xs)" and Q: "Q a s1" by auto
  from follows_ok [OF f Q T1 fs] show "T s' (us @ xs @ ys) \<and> R r s'" by simp
qed

text \<open>What holds of the failures alone: the last thing a run does may fail without a trace.\<close>

definition fails_within ::
  "('s \<Rightarrow> 'x list \<Rightarrow> bool) \<Rightarrow> ('s \<Rightarrow> bool) \<Rightarrow> ('s, 'a) run \<Rightarrow> 'x list \<Rightarrow> bool" where
  "fails_within T P m xs \<longleftrightarrow>
     (\<forall>s us e s'. P s \<longrightarrow> T s us \<longrightarrow> m s = Some (Inl e, s') \<longrightarrow> (\<exists>ys. prefix ys xs \<and> T s' (us @ ys)))"

lemma fails_withinD:
  "fails_within T P m xs \<Longrightarrow> P s \<Longrightarrow> T s us \<Longrightarrow> m s = Some (Inl e, s') \<Longrightarrow> \<exists>ys. prefix ys xs \<and> T s' (us @ ys)"
  unfolding fails_within_def by blast

lemma fails_bind:
  assumes m: "follows T P m xs Q" and f: "\<And>a. fails_within T (Q a) (f a) ys"
  shows "fails_within T P (bind_run m f) (xs @ ys)"
  unfolding fails_within_def
proof (intro allI impI)
  fix s us e s'
  assume P: "P s" and T: "T s us" and run: "bind_run m f s = Some (Inl e, s')"
  from run consider "m s = Some (Inl e, s')" | a s1 where "m s = Some (Inr a, s1)" "f a s1 = Some (Inl e, s')"
    by (auto simp: bind_run_Some_iff)
  then show "\<exists>zs. prefix zs (xs @ ys) \<and> T s' (us @ zs)"
  proof cases
    case 1
    from follows_fail [OF m P T 1] show ?thesis using prefix_prefix by blast
  next
    case 2
    from follows_ok [OF m P T 2(1)] have "T s1 (us @ xs)" and "Q a s1" by auto
    with f [of a] 2(2) obtain zs where "prefix zs ys" "T s' ((us @ xs) @ zs)"
      unfolding fails_within_def by blast
    then have "prefix (xs @ zs) (xs @ ys) \<and> T s' (us @ xs @ zs)" by simp
    then show ?thesis by blast
  qed
qed

lemma fails_pure: "(C \<Longrightarrow> fails_within T P m xs) \<Longrightarrow> fails_within T (\<lambda>s. C \<and> P s) m xs"
  unfolding fails_within_def by blast

lemma follows_give: "(\<And>s. P s \<Longrightarrow> Q a s) \<Longrightarrow> follows tr P (give a) [] Q"
  by (rule followsI) auto

lemma follows_fails: "follows T P (fail e) xs Q"
proof (rule followsI)
  show "\<exists>ys. prefix ys xs \<and> T s' (us @ ys)" if "T s us" "fail e s = Some (Inl e', s')" for s us e' s'
    using that by (intro exI [of _ "[]"]) (simp add: fail_def)
qed (simp add: fail_def)

lemma follows_panic: "follows tr P panic xs Q"
  by (rule followsI) (auto simp: panic_def)

lemma follows_result:
  "(\<And>a s. r = Inr a \<Longrightarrow> P s \<Longrightarrow> Q a s) \<Longrightarrow> follows tr P (of_result r) [] Q"
  by (rule followsI) auto

lemma follows_weaken: "follows tr P m xs Q \<Longrightarrow> (\<And>a s. Q a s \<Longrightarrow> R a s) \<Longrightarrow> follows tr P m xs R"
  unfolding follows_def by blast

lemma follows_strengthen: "follows tr P m xs Q \<Longrightarrow> (\<And>s. P' s \<Longrightarrow> P s) \<Longrightarrow> follows tr P' m xs Q"
  unfolding follows_def by blast

text \<open>The common case: what is known of the result does not speak of the state.\<close>

lemma follows_bind_any:
  assumes "follows tr P m xs (\<lambda>a s. C a)" and "\<And>a. C a \<Longrightarrow> follows tr (\<lambda>_. True) (f a) ys R"
  shows "follows tr P (bind_run m f) (xs @ ys) R"
proof (rule follows_bind [OF assms(1)])
  show "follows tr (\<lambda>_. C a) (f a) ys R" for a using assms(2) [of a] unfolding follows_def by blast
qed

lemma follows_bind_end:
  assumes "follows tr P m xs (\<lambda>a s. C a)" and "\<And>a. C a \<Longrightarrow> follows tr (\<lambda>_. True) (f a) [] R"
  shows "follows tr P (bind_run m f) xs R"
  using follows_bind_any [OF assms] by simp

text \<open>A loop: the state condition may depend on a ghost value that each element moves on.\<close>

fun walk :: "('g \<Rightarrow> 'a \<Rightarrow> 'g) \<Rightarrow> ('g \<Rightarrow> 'a \<Rightarrow> 'x list) \<Rightarrow> 'g \<Rightarrow> 'a list \<Rightarrow> 'x list" where
  "walk next out g [] = []"
| "walk next out g (x # xs) = out g x @ walk next out (next g x) xs"

lemma follows_for:
  assumes "\<And>g x a. x \<in> set xs \<Longrightarrow> follows tr (I g a) (f x a) (out g x) (I (next g x))"
  shows "follows tr (I g a) (for_run f xs a) (walk next out g xs) (I (foldl next g xs))"
  using assms
proof (induction xs arbitrary: g a)
  case Nil
  then show ?case by (simp add: follows_give)
next
  case (Cons x xs)
  have "follows tr (I g a) (bind_run (f x a) (for_run f xs)) (out g x @ walk next out (next g x) xs) (I (foldl next (next g x) xs))"
  proof (rule follows_bind)
    show "follows tr (I g a) (f x a) (out g x) (I (next g x))" by (rule Cons.prems) simp
    show "follows tr (I (next g x) b) (for_run f xs b) (walk next out (next g x) xs) (I (foldl next (next g x) xs))" for b
      by (rule Cons.IH) (simp add: Cons.prems)
  qed
  then show ?case by simp
qed

lemma follows_pure: "(C \<Longrightarrow> follows tr P m xs Q) \<Longrightarrow> follows tr (\<lambda>s. C \<and> P s) m xs Q"
  unfolding follows_def by blast

lemma follows_on_plane:
  assumes "follows tr (\<lambda>_. True) m xs Q"
  shows "follows (tr \<circ> fst) (\<lambda>s. R (snd s)) (on_plane m) xs (\<lambda>a s. Q a (fst s) \<and> R (snd s))"
proof (rule followsI)
  fix s us e s'
  assume T: "(tr \<circ> fst) s us" and "on_plane m s = Some (Inl e, s')"
  then have "m (fst s) = Some (Inl e, fst s')" by (auto simp: on_plane_def split: prod.splits)
  from follows_fail [OF assms _ _ this] T show "\<exists>ys. prefix ys xs \<and> (tr \<circ> fst) s' (us @ ys)" by simp
next
  fix s us a s'
  assume R: "R (snd s)" and T: "(tr \<circ> fst) s us" and "on_plane m s = Some (Inr a, s')"
  then have "m (fst s) = Some (Inr a, fst s')" "snd s' = snd s" by (auto simp: on_plane_def split: prod.splits)
  with follows_ok [OF assms _ _ this(1)] R T show "(tr \<circ> fst) s' (us @ xs) \<and> Q a (fst s') \<and> R (snd s')" by simp
qed

section \<open>Dockerfiles do not show ids\<close>

lemma dockerfile_python_id:
  "dockerfile_commands b64 (with_python_standalone_mount_id m s) = dockerfile_commands b64 s"
  by (simp add: dockerfile_commands_def with_python_standalone_mount_id_def Let_def cong: option.case_cong)

lemma python_id_commutes:
  "with_command c (with_python_standalone_mount_id m s) = with_python_standalone_mount_id m (with_command c s)"
  "with_rust_toolchain (with_python_standalone_mount_id m s) = with_python_standalone_mount_id m (with_rust_toolchain s)"
  "with_wrapper_module n t (with_python_standalone_mount_id m s) = with_python_standalone_mount_id m (with_wrapper_module n t s)"
  "apply_step x (with_python_standalone_mount_id m s) = with_python_standalone_mount_id m (apply_step x s)"
  by (simp_all add: with_command_def with_python_standalone_mount_id_def with_rust_toolchain_def with_wrapper_module_def)
     (cases x; simp add: with_apt_install_def with_pip_install_def with_run_commands_steps)

lemma python_id_steps:
  "apply_image_steps xs (with_python_standalone_mount_id m s) = with_python_standalone_mount_id m (apply_image_steps xs s)"
  unfolding apply_image_steps_def by (induction xs arbitrary: s) (simp_all add: python_id_commutes)

lemma build_image_python_id:
  "map_option (dockerfile_commands b64) (build_image_spec L b inp m) =
   map_option (dockerfile_commands b64) (build_image_spec L b inp n)"
  by (cases "delivery b"; cases "pi_cache inp"; cases "pi_install_rust inp"; cases "discover_cache_target L";
      cases "run_wrapper_config_env L (si_package (pi_source inp)) (pi_cache inp) (si_remote_src (pi_source inp))")
     (simp_all add: build_image_spec_def Let_def python_id_commutes python_id_steps dockerfile_python_id)

lemma dockerfile_layer_ids:
  "dockerfile_commands b64 (s\<lparr>base_image_id := Some i, context_mount_id := Some j\<rparr>) =
   dockerfile_commands b64 (s\<lparr>base_image_id := Some i', context_mount_id := Some j'\<rparr>)"
  by (simp add: dockerfile_commands_def cong: option.case_cong)

lemmas layer_setters = with_command_def with_context_mount_def with_wrapper_module_def with_base_image_def from_registry_def

lemma top_layer_ids:
  "build_deploy_top_layer_spec L i j package prime best eps servers =
   (build_deploy_top_layer_spec L [] [] package prime best eps servers)\<lparr>base_image_id := Some i, context_mount_id := Some j\<rparr>"
  unfolding build_deploy_top_layer_spec_def Let_def layer_setters by (cases prime; cases best) simp_all

lemma dep_layer_ids:
  "build_deploy_dep_layer_spec i j package =
   (build_deploy_dep_layer_spec [] [] package)\<lparr>base_image_id := Some i, context_mount_id := Some j\<rparr>"
  unfolding build_deploy_dep_layer_spec_def layer_setters by simp

lemma dockerfile_top_ids:
  "dockerfile_commands b64 (build_deploy_top_layer_spec L i j package prime best eps servers) =
   dockerfile_commands b64 (build_deploy_top_layer_spec L [] [] package prime best eps servers)"
  by (subst (1 2) top_layer_ids) (rule dockerfile_layer_ids)

lemma dockerfile_dep_ids:
  "dockerfile_commands b64 (build_deploy_dep_layer_spec i j package) =
   dockerfile_commands b64 (build_deploy_dep_layer_spec [] [] package)"
  by (subst (1 2) dep_layer_ids) (rule dockerfile_layer_ids)

section \<open>The schedule\<close>

definition secret_steps :: "provision_inputs \<Rightarrow> entrypoint \<Rightarrow> 'f step list" where
  "secret_steps inp ep =
     map (\<lambda>name. SecretStep name (fo_required_keys (ep_options ep))) (fo_secrets (ep_options ep)) @
     (if fo_env (ep_options ep) \<noteq> []
      then [InlineSecretStep (inline_secret_name (pi_app_name inp) (sanitize_object_tag (ep_name ep)))] else [])"

definition volume_steps :: "entrypoint \<Rightarrow> 'f step list" where
  "volume_steps ep = map (\<lambda>(_, name). VolumeStep name False) (fo_volumes (ep_options ep))"

definition run_steps :: "provision_inputs \<Rightarrow> boundary \<Rightarrow> entrypoint \<Rightarrow> 'f step list" where
  "run_steps inp b ep =
     [AppStep (pi_app_name inp) (app_state_of b)] @
     (if pi_cache inp then [VolumeStep CACHE_VOLUME_NAME True] else []) @ secret_steps inp ep @ volume_steps ep"

definition layer_steps :: "facade_lib \<Rightarrow> provision_inputs \<Rightarrow> boundary \<Rightarrow> bool \<Rightarrow> 'f step list" where
  "layer_steps L inp b stub =
     (let layer = (\<lambda>s. ImageStep (dockerfile_commands (fl_b64 L) s)); g = deploy_gates (pi_entrypoints inp);
          package = si_package (pi_source inp) in
      case build_image_spec L b inp [] of
        None \<Rightarrow> []
      | Some base \<Rightarrow>
          layer base #
          (case delivery b of
             RunMount \<Rightarrow> []
           | DeployContext \<Rightarrow>
               (if pi_dep_prebuild inp \<and> stub
                then [StubMountStep DEPLOY_SRC, layer (build_deploy_dep_layer_spec [] [] package)] else []) @
               [layer (build_deploy_top_layer_spec L [] [] package (bake_snapshot_prime g)
                  (pi_snapshot_best_effort inp) (endpoint_entrypoints g) (web_server_entrypoints g))]))"

definition resource_shape :: "provision_inputs \<Rightarrow> provision_plan \<Rightarrow> entrypoint \<Rightarrow> attached_resources" where
  "resource_shape inp pl ep =
     (let opts = ep_options (case pl of Single ep0 \<Rightarrow> ep0 | Many \<Rightarrow> ep) in
      \<lparr>ar_client_mount_id = [], ar_source_mount_id = [],
       ar_cache_vol_id = (if pl \<noteq> Many \<and> pi_cache inp then Some [] else None),
       ar_secret_ids = replicate (length (fo_secrets opts) + (if fo_env opts \<noteq> [] then 1 else 0)) [],
       ar_user_volume_mounts = map (\<lambda>(p, _). ([], p)) (fo_volumes opts)\<rparr>)"

lemma erase_shape:
  assumes "length ids = length (fo_secrets opts) + (if fo_env opts \<noteq> [] then 1 else 0)"
    and "map snd mounts = map fst (fo_volumes opts)"
  shows "erase_resources \<lparr>ar_client_mount_id = c, ar_source_mount_id = s, ar_cache_vol_id = cache,
      ar_secret_ids = ids, ar_user_volume_mounts = mounts\<rparr> =
    \<lparr>ar_client_mount_id = [], ar_source_mount_id = [], ar_cache_vol_id = map_option (\<lambda>_. []) cache,
     ar_secret_ids = replicate (length (fo_secrets opts) + (if fo_env opts \<noteq> [] then 1 else 0)) [],
     ar_user_volume_mounts = map (\<lambda>(p, _). ([], p)) (fo_volumes opts)\<rparr>"
proof -
  have "map (\<lambda>(_, p). ([] :: string, p)) mounts = map (Pair []) (map snd mounts)" by (simp add: split_beta comp_def)
  also have "\<dots> = map (\<lambda>(p, _). ([], p)) (fo_volumes opts)" using assms(2) by (simp add: split_beta comp_def)
  finally show ?thesis using assms(1) by (simp add: erase_resources_def map_replicate_const)
qed

lemma shape_of:
  assumes "length ids = length (fo_secrets (ep_options ep)) + (if fo_env (ep_options ep) \<noteq> [] then 1 else 0)"
    and "map snd mounts = map fst (fo_volumes (ep_options ep))"
  shows "erase_resources \<lparr>ar_client_mount_id = c, ar_source_mount_id = s, ar_cache_vol_id = None,
      ar_secret_ids = ids, ar_user_volume_mounts = mounts\<rparr> = resource_shape inp Many ep"
  using erase_shape [OF assms, of c s None] by (simp add: resource_shape_def Let_def)

definition entrypoint_steps ::
  "'f f32_ops \<Rightarrow> provision_inputs \<Rightarrow> boundary \<Rightarrow> provision_plan \<Rightarrow> string set \<Rightarrow> entrypoint \<Rightarrow> 'f step list" where
  "entrypoint_steps F inp b pl tags ep =
     (let tag = sanitize_object_tag (ep_name ep) in
      PrecreateStep tag # (if pl = Many then secret_steps inp ep @ volume_steps ep else []) @
      (case build_function_spec F b ep [] (resource_shape inp pl ep) of
         Inl _ \<Rightarrow> []
       | Inr s \<Rightarrow> CreateStep s # (if pl = Many then [] else [PublishStep (app_state_of b) (insert tag tags)])))"

definition add_tag :: "string set \<Rightarrow> entrypoint \<Rightarrow> string set" where
  "add_tag tags ep = insert (sanitize_object_tag (ep_name ep)) tags"

definition schedule_for ::
  "facade_lib \<Rightarrow> 'f f32_ops \<Rightarrow> provision_inputs \<Rightarrow> boundary \<Rightarrow> bool \<Rightarrow> string set \<Rightarrow> 'f step list" where
  "schedule_for L F inp b stub tags =
     (case plan b (pi_entrypoints inp) of
        Inl _ \<Rightarrow> []
      | Inr pl \<Rightarrow>
          (case pl of Single ep \<Rightarrow> run_steps inp b ep | Many \<Rightarrow> []) @
          [ClientMountStep,
           SourceMountStep (case delivery b of RunMount \<Rightarrow> si_remote_src (pi_source inp) | DeployContext \<Rightarrow> DEPLOY_SRC),
           PythonMountStep PYTHON_SERIES] @
          (if pl = Many then [AppStep (pi_app_name inp) (app_state_of b)] else []) @
          layer_steps L inp b stub @
          walk add_tag (entrypoint_steps F inp b pl) tags (pi_entrypoints inp) @
          (if pl = Many then [PublishStep (app_state_of b) (foldl add_tag tags (pi_entrypoints inp))] else []))"

section \<open>The interface\<close>

text \<open>A control plane that shows what was asked of it: an operation that returns leaves its step in the trace; one
  that fails may fail before it.  Whether there is a stub for the prebuild layer is decided by the sources.\<close>

abbreviation (input) "any s \<equiv> True"

locale traced_plane =
  fixes b64 :: "string \<Rightarrow> string"
    and cp :: "('w, 'f) control_plane"
    and trace :: "'w \<Rightarrow> 'f step list \<Rightarrow> bool"
    and stub :: "source_inputs \<Rightarrow> bool"
  assumes app: "follows trace any (ensure_app cp n pre st) [AppStep n st] (\<lambda>_. any)"
    and volume: "follows trace any (ensure_volume cp n v2) [VolumeStep n v2] (\<lambda>_. any)"
    and secret: "follows trace any (ensure_secret cp n keys) [SecretStep n keys] (\<lambda>_. any)"
    and inline_secret: "follows trace any (ensure_inline_secret cp n env) [InlineSecretStep n] (\<lambda>_. any)"
    and client_mount: "follows trace any (ensure_client_mount cp) [ClientMountStep] (\<lambda>_. any)"
    and source_mount: "follows trace any (ensure_source_mount cp src remote) [SourceMountStep remote] (\<lambda>_. any)"
    and prebuild_mount: "follows trace any (ensure_prebuild_mount cp src remote)
          (if stub src then [StubMountStep remote] else []) (\<lambda>r _. (r \<noteq> None) = stub src)"
    and python_mount: "follows trace any (ensure_python_mount cp series) [PythonMountStep series] (\<lambda>_. any)"
    and layer: "follows trace any (ensure_image cp app_id spec k) [ImageStep (dockerfile_commands b64 spec)] (\<lambda>_. any)"
    and precreated: "follows trace any (precreate cp app_id tag) [PrecreateStep tag] (\<lambda>_. any)"
    and created: "follows trace any (create cp app_id pre_id fspec) [CreateStep (erase_ids fspec)] (\<lambda>_. any)"
    and published: "follows trace any (publish cp app_id app_name fids dids st) [PublishStep st (dom fids)] (\<lambda>_. any)"
    and unpublished: "publish cp app_id app_name fids dids st s = Some (Inl e, s') \<Longrightarrow> trace s us \<Longrightarrow> trace s' us"
begin

text \<open>Resolving one thing and adding its id to a list.\<close>

lemma push_follows:
  assumes "follows trace any m xs (\<lambda>_. any)"
  shows "follows trace (\<lambda>_. C acc) (bind_run m (\<lambda>i. give (acc @ [g i]))) xs (\<lambda>acc' _. \<exists>i. acc' = acc @ [g i] \<and> C acc)"
proof -
  have "follows trace (\<lambda>_. C acc) (bind_run m (\<lambda>i. give (acc @ [g i]))) (xs @ []) (\<lambda>acc' _. \<exists>i. acc' = acc @ [g i] \<and> C acc)"
  proof (rule follows_bind)
    show "follows trace (\<lambda>_. C acc) m xs (\<lambda>_ _. C acc)"
      using assms unfolding follows_def by blast
  qed (auto intro: follows_give)
  then show ?thesis by simp
qed

lemma secrets_follow:
  "follows trace any (resolve_entrypoint_secrets cp (pi_app_name inp) (sanitize_object_tag (ep_name ep)) (ep_options ep))
     (secret_steps inp ep)
     (\<lambda>ids _. length ids = length (fo_secrets (ep_options ep)) + (if fo_env (ep_options ep) \<noteq> [] then 1 else 0))"
proof -
  let ?keys = "fo_required_keys (ep_options ep)" and ?names = "fo_secrets (ep_options ep)"
  have named: "follows trace (\<lambda>_. length ([] :: string list) = 0)
      (for_run (\<lambda>name ids. bind_run (ensure_secret cp name ?keys) (\<lambda>i. give (ids @ [i]))) ?names [])
      (walk (\<lambda>n _. Suc n) (\<lambda>_ name. [SecretStep name ?keys]) 0 ?names)
      (\<lambda>ids _. length ids = foldl (\<lambda>n _. Suc n) 0 ?names)"
    by (rule follows_for [where I = "\<lambda>n ids _. length ids = n"], rule follows_weaken, rule push_follows, rule secret) auto
  have steps: "walk (\<lambda>n _. Suc n) (\<lambda>_ name. [SecretStep name ?keys]) n ns = map (\<lambda>name. SecretStep name ?keys) ns"
    and count: "foldl (\<lambda>n _. Suc n) n ns = n + length ns" for n and ns :: "string list"
    by (induction ns arbitrary: n) auto
  show ?thesis
    unfolding resolve_entrypoint_secrets_def secret_steps_def
  proof (rule follows_bind)
    show "follows trace any (for_run (\<lambda>name ids. bind_run (ensure_secret cp name ?keys) (\<lambda>i. give (ids @ [i]))) ?names [])
        (map (\<lambda>name. SecretStep name ?keys) ?names) (\<lambda>ids _. length ids = length ?names)"
      using named by (simp add: steps count)
    show "follows trace (\<lambda>_. length ids = length ?names)
        (if fo_env (ep_options ep) \<noteq> []
         then bind_run (ensure_inline_secret cp (inline_secret_name (pi_app_name inp) (sanitize_object_tag (ep_name ep)))
                (fo_env (ep_options ep))) (\<lambda>i. give (ids @ [i]))
         else give ids)
        (if fo_env (ep_options ep) \<noteq> []
         then [InlineSecretStep (inline_secret_name (pi_app_name inp) (sanitize_object_tag (ep_name ep)))] else [])
        (\<lambda>ids' _. length ids' = length ?names + (if fo_env (ep_options ep) \<noteq> [] then 1 else 0))" for ids
      by (auto intro!: follows_give follows_weaken [OF push_follows [OF inline_secret]])
  qed
qed

lemma volumes_follow:
  fixes guard :: "string \<Rightarrow> ('w, unit) run" and vols :: "(string \<times> string) list"
  assumes guarded: "\<And>p. follows trace any (guard p) [] (\<lambda>_. any)"
  defines "f \<equiv> \<lambda>(p, name) mounts. bind_run (guard p) (\<lambda>_. bind_run (ensure_volume cp name False)
        (\<lambda>vid. give (mounts @ [(vid, p)])))"
  shows "follows trace any (for_run f vols []) (map (\<lambda>(_, name). VolumeStep name False) vols)
     (\<lambda>mounts _. map snd mounts = map fst vols)"
proof -
  define nxt where "nxt = (\<lambda>g (x :: string \<times> string). g @ [fst x])"
  define out where "out = (\<lambda>(_ :: string list) (x :: string \<times> string). [VolumeStep (snd x) False :: 'f step])"
  have "follows trace (\<lambda>_. map snd ([] :: (string \<times> string) list) = []) (for_run f vols [])
     (walk nxt out [] vols) (\<lambda>mounts _. map snd mounts = foldl nxt [] vols)"
  proof (rule follows_for [where I = "\<lambda>g mounts _. map snd mounts = g"])
    fix g x and mounts :: "(string \<times> string) list"
    have "follows trace (\<lambda>_. map snd mounts = g)
        (bind_run (guard (fst x)) (\<lambda>_. bind_run (ensure_volume cp (snd x) False) (\<lambda>vid. give (mounts @ [(vid, fst x)]))))
        ([] @ [VolumeStep (snd x) False]) (\<lambda>mounts' _. map snd mounts' = g @ [fst x])"
    proof (rule follows_bind)
      show "follows trace (\<lambda>_. map snd mounts = g) (guard (fst x)) [] (\<lambda>_ _. map snd mounts = g)"
        using guarded [of "fst x"] unfolding follows_def by blast
      show "follows trace (\<lambda>_. map snd mounts = g) (bind_run (ensure_volume cp (snd x) False) (\<lambda>vid. give (mounts @ [(vid, fst x)])))
          [VolumeStep (snd x) False] (\<lambda>mounts' _. map snd mounts' = g @ [fst x])"
        by (rule follows_weaken [OF push_follows [OF volume, where C = "\<lambda>mounts. map snd mounts = g"]]) auto
    qed
    then show "follows trace (\<lambda>_. map snd mounts = g) (f x mounts) (out g x) (\<lambda>mounts' _. map snd mounts' = nxt g x)"
      by (simp add: f_def nxt_def out_def split_beta)
  qed
  moreover have "walk nxt out g vols = map (\<lambda>(_, name). VolumeStep name False) vols" for g
    by (induction vols arbitrary: g) (auto simp: out_def)
  moreover have "foldl nxt g vols = g @ map fst vols" for g
    by (induction vols arbitrary: g) (auto simp: nxt_def)
  ultimately show ?thesis by simp
qed

lemma resolve_run_follows:
  "follows trace any (resolve_run cp inp b ep) (run_steps inp b ep)
     (\<lambda>(app_id, cache, ids, mounts) _. (cache \<noteq> None) = pi_cache inp \<and>
        length ids = length (fo_secrets (ep_options ep)) + (if fo_env (ep_options ep) \<noteq> [] then 1 else 0) \<and>
        map snd mounts = map fst (fo_volumes (ep_options ep)))"
  unfolding resolve_run_def run_steps_def volume_steps_def append_assoc
proof (rule follows_bind_any [OF app], rule follows_bind_any)
  show "follows trace any (if pi_cache inp then bind_run (ensure_volume cp CACHE_VOLUME_NAME True) (\<lambda>i. give (Some i)) else give None)
      (if pi_cache inp then [VolumeStep CACHE_VOLUME_NAME True] else []) (\<lambda>cache _. (cache \<noteq> None) = pi_cache inp)"
    using follows_bind [OF volume, of "\<lambda>i. give (Some i)" "[]" "\<lambda>cache _. cache \<noteq> None" CACHE_VOLUME_NAME True]
    by (auto intro: follows_give)
next
  fix app_id :: string and cache :: "string option"
  assume cache: "(cache \<noteq> None) = pi_cache inp"
  have guard: "follows trace any (of_result (reject_cache_collision (pi_cache inp) p)) [] (\<lambda>_. any)" for p
    by (rule follows_result) simp
  show "follows trace any
      (bind_run (resolve_entrypoint_secrets cp (pi_app_name inp) (sanitize_object_tag (ep_name ep)) (ep_options ep)) (\<lambda>secret_ids.
       bind_run (for_run (\<lambda>(mount_path, name) mounts.
                 bind_run (of_result (reject_cache_collision (pi_cache inp) mount_path)) (\<lambda>_.
                 bind_run (ensure_volume cp name False) (\<lambda>vid. give (mounts @ [(vid, mount_path)]))))
               (fo_volumes (ep_options ep)) []) (\<lambda>mounts. give (app_id, cache, secret_ids, mounts))))
      (secret_steps inp ep @ map (\<lambda>(_, name). VolumeStep name False) (fo_volumes (ep_options ep)))
      (\<lambda>(app_id, cache, ids, mounts) _. (cache \<noteq> None) = pi_cache inp \<and>
        length ids = length (fo_secrets (ep_options ep)) + (if fo_env (ep_options ep) \<noteq> [] then 1 else 0) \<and>
        map snd mounts = map fst (fo_volumes (ep_options ep)))"
    by (rule follows_bind_any [OF secrets_follow], rule follows_bind_end [OF volumes_follow [OF guard]])
       (insert cache, auto intro!: follows_give)
qed

lemma image_follows:
  assumes b64: "fl_b64 L = b64" and remote: "delivery b = DeployContext \<Longrightarrow> remote = DEPLOY_SRC"
  shows "follows trace any (provision_image L cp inp b remote app_id source py)
     (layer_steps L inp b (stub (pi_source inp))) (\<lambda>_. any)"
proof (cases "build_image_spec L b inp py")
  case None
  then show ?thesis by (simp add: provision_image_def follows_panic)
next
  case (Some base)
  then obtain base0 where base0: "build_image_spec L b inp [] = Some base0"
    and eq: "dockerfile_commands b64 base = dockerfile_commands b64 base0"
    using build_image_python_id [of b64 L b inp py "[]"] by (cases "build_image_spec L b inp []") auto
  have base_layer: "follows trace any (ensure_image cp app_id base 0) [ImageStep (dockerfile_commands b64 base0)] (\<lambda>_. any)"
    using layer [of app_id base 0] by (simp add: eq)
  show ?thesis
  proof (cases "delivery b")
    case RunMount
    with Some base0 base_layer b64 show ?thesis by (simp add: provision_image_def layer_steps_def Let_def)
  next
    case DeployContext
    let ?dep = "ImageStep (dockerfile_commands b64 (build_deploy_dep_layer_spec [] [] (si_package (pi_source inp)))) :: 'f step"
    have dep: "follows trace any
        (if pi_dep_prebuild inp
         then bind_run (ensure_prebuild_mount cp (pi_source inp) remote) (\<lambda>st. case st of
                Some m \<Rightarrow> ensure_image cp app_id (build_deploy_dep_layer_spec base_id m (si_package (pi_source inp))) 1
              | None \<Rightarrow> give base_id)
         else give base_id)
        (if pi_dep_prebuild inp \<and> stub (pi_source inp) then [StubMountStep DEPLOY_SRC, ?dep] else []) (\<lambda>_. any)" for base_id
    proof (cases "pi_dep_prebuild inp")
      case True
      have "follows trace any
          (bind_run (ensure_prebuild_mount cp (pi_source inp) remote) (\<lambda>st. case st of
                Some m \<Rightarrow> ensure_image cp app_id (build_deploy_dep_layer_spec base_id m (si_package (pi_source inp))) 1
              | None \<Rightarrow> give base_id))
          ((if stub (pi_source inp) then [StubMountStep remote] else []) @ (if stub (pi_source inp) then [?dep] else [])) (\<lambda>_. any)"
      proof (rule follows_bind_any [OF prebuild_mount])
        fix st :: "string option"
        assume st: "(st \<noteq> None) = stub (pi_source inp)"
        show "follows trace any (case st of
                Some m \<Rightarrow> ensure_image cp app_id (build_deploy_dep_layer_spec base_id m (si_package (pi_source inp))) 1
              | None \<Rightarrow> give base_id) (if stub (pi_source inp) then [?dep] else []) (\<lambda>_. any)"
        proof (cases st)
          case None
          with st show ?thesis by (auto intro: follows_give)
        next
          case (Some m)
          with st layer [of app_id "build_deploy_dep_layer_spec base_id m (si_package (pi_source inp))" 1]
          show ?thesis by (simp add: dockerfile_dep_ids [of b64 base_id m])
        qed
      qed
      with True remote [OF DeployContext] show ?thesis
        by (cases "stub (pi_source inp)") (simp_all del: One_nat_def)
    qed (auto intro: follows_give)
    have top: "follows trace any (let top_layer_ordinal = (if top_base = base_id then 1 else 2); g = deploy_gates (pi_entrypoints inp);
                   top_spec = build_deploy_top_layer_spec L top_base source (si_package (pi_source inp))
                     (bake_snapshot_prime g) (pi_snapshot_best_effort inp) (endpoint_entrypoints g) (web_server_entrypoints g)
               in ensure_image cp app_id top_spec top_layer_ordinal)
        [let g = deploy_gates (pi_entrypoints inp) in ImageStep (dockerfile_commands b64
           (build_deploy_top_layer_spec L [] [] (si_package (pi_source inp)) (bake_snapshot_prime g)
              (pi_snapshot_best_effort inp) (endpoint_entrypoints g) (web_server_entrypoints g)))] (\<lambda>_. any)" for top_base base_id
      unfolding Let_def by (subst dockerfile_top_ids [of b64 L top_base source, symmetric]) (rule layer)
    have steps: "layer_steps L inp b (stub (pi_source inp)) =
        [ImageStep (dockerfile_commands b64 base0)] @
        (if pi_dep_prebuild inp \<and> stub (pi_source inp) then [StubMountStep DEPLOY_SRC, ?dep] else []) @
        [let g = deploy_gates (pi_entrypoints inp) in ImageStep (dockerfile_commands b64
           (build_deploy_top_layer_spec L [] [] (si_package (pi_source inp)) (bake_snapshot_prime g)
              (pi_snapshot_best_effort inp) (endpoint_entrypoints g) (web_server_entrypoints g)))]"
      using DeployContext base0 b64 by (simp add: layer_steps_def Let_def)
    show ?thesis
      unfolding steps provision_image_def Some DeployContext option.case source_delivery.case
      by (rule follows_bind_any [OF base_layer], rule follows_bind_any [OF dep], rule top)
  qed
qed

lemma resources_follow:
  assumes run: "pl \<noteq> Many \<Longrightarrow> erase_resources \<lparr>ar_client_mount_id = c, ar_source_mount_id = s, ar_cache_vol_id = fst rr,
      ar_secret_ids = fst (snd rr), ar_user_volume_mounts = snd (snd rr)\<rparr> = resource_shape inp pl ep"
  shows "follows trace any (entrypoint_resources cp inp pl rr ep)
     (if pl = Many then secret_steps inp ep @ volume_steps ep else [])
     (\<lambda>(cache, ids, mounts) _. erase_resources \<lparr>ar_client_mount_id = c, ar_source_mount_id = s, ar_cache_vol_id = cache,
        ar_secret_ids = ids, ar_user_volume_mounts = mounts\<rparr> = resource_shape inp pl ep)"
proof (cases pl)
  case (Single ep0)
  with run show ?thesis by (auto simp: entrypoint_resources_def split_beta intro: follows_give)
next
  case Many
  have nothing: "follows trace any (give ()) [] (\<lambda>_. any)" by (rule follows_give) simp
  have shape: "erase_resources \<lparr>ar_client_mount_id = c, ar_source_mount_id = s, ar_cache_vol_id = None,
        ar_secret_ids = ids, ar_user_volume_mounts = mounts\<rparr> = resource_shape inp Many ep"
    if "length ids = length (fo_secrets (ep_options ep)) + (if fo_env (ep_options ep) \<noteq> [] then 1 else 0)"
      and "map snd mounts = map fst (fo_volumes (ep_options ep))" for ids mounts
    using that by (rule shape_of)
  have "follows trace any
      (bind_run (resolve_entrypoint_secrets cp (pi_app_name inp) (sanitize_object_tag (ep_name ep)) (ep_options ep)) (\<lambda>ids.
       bind_run (for_run (\<lambda>(p, name) mounts. bind_run (give ()) (\<lambda>_. bind_run (ensure_volume cp name False)
           (\<lambda>vid. give (mounts @ [(vid, p)])))) (fo_volumes (ep_options ep)) []) (\<lambda>mounts. give (None, ids, mounts))))
      (secret_steps inp ep @ map (\<lambda>(_, name). VolumeStep name False) (fo_volumes (ep_options ep)))
      (\<lambda>(cache, ids, mounts) _. erase_resources \<lparr>ar_client_mount_id = c, ar_source_mount_id = s, ar_cache_vol_id = cache,
        ar_secret_ids = ids, ar_user_volume_mounts = mounts\<rparr> = resource_shape inp Many ep)"
    by (rule follows_bind_any [OF secrets_follow], rule follows_bind_end [OF volumes_follow [where guard = "\<lambda>_. give ()", OF nothing]],
        auto intro!: follows_give shape)
  then show ?thesis by (simp add: Many entrypoint_resources_def volume_steps_def)
qed

text \<open>Precreate, resolve, create, and on the run path publish.\<close>

lemma on_plane_follows:
  "follows trace any m xs (\<lambda>a _. C a) \<Longrightarrow>
   follows (trace \<circ> fst) (\<lambda>s. R (snd s)) (on_plane m) xs (\<lambda>a s. C a \<and> R (snd s))"
  by (rule follows_on_plane)

lemma publish_follows:
  "follows (trace \<circ> fst) (\<lambda>s. dom (pub_function_ids (snd s)) = tags) (publish_union cp inp b app_id)
     [PublishStep (app_state_of b) tags] (\<lambda>_ s. dom (pub_function_ids (snd s)) = tags)"
proof -
  have "follows (trace \<circ> fst) (\<lambda>s. dom (pub_function_ids (snd s)) = tags)
      (bind_run get_published (\<lambda>p. on_plane (publish cp app_id (pi_app_name inp) (pub_function_ids p) (pub_definition_ids p)
        (app_state_of b)))) ([] @ [PublishStep (app_state_of b) tags]) (\<lambda>_ s. dom (pub_function_ids (snd s)) = tags)"
  proof (rule follows_bind)
    show "follows (trace \<circ> fst) (\<lambda>s. dom (pub_function_ids (snd s)) = tags) get_published []
        (\<lambda>p s. dom (pub_function_ids p) = tags \<and> dom (pub_function_ids (snd s)) = tags)"
      by (rule followsI) (auto simp: get_published_def split: prod.splits)
    show "follows (trace \<circ> fst) (\<lambda>s. dom (pub_function_ids p) = tags \<and> dom (pub_function_ids (snd s)) = tags)
        (on_plane (publish cp app_id (pi_app_name inp) (pub_function_ids p) (pub_definition_ids p) (app_state_of b)))
        [PublishStep (app_state_of b) tags] (\<lambda>_ s. dom (pub_function_ids (snd s)) = tags)" for p
      using on_plane_follows [OF published, where R = "\<lambda>q. dom (pub_function_ids q) = tags"]
      by (intro follows_pure) (auto intro: follows_weaken)
  qed
  then show ?thesis by (simp add: publish_union_def)
qed

lemma entrypoint_follows:
  assumes run: "pl \<noteq> Many \<Longrightarrow> \<forall>c s. erase_resources \<lparr>ar_client_mount_id = c, ar_source_mount_id = s, ar_cache_vol_id = fst rr,
      ar_secret_ids = fst (snd rr), ar_user_volume_mounts = snd (snd rr)\<rparr> = resource_shape inp pl ep"
  shows "follows (trace \<circ> fst) (\<lambda>s. dom (pub_function_ids (snd s)) = tags)
     (create_entrypoint F cp inp b pl rr app_id img client source ep url) (entrypoint_steps F inp b pl tags ep)
     (\<lambda>_ s. dom (pub_function_ids (snd s)) = add_tag tags ep)"
proof -
  let ?tag = "sanitize_object_tag (ep_name ep)"
  let ?R = "\<lambda>p. dom (pub_function_ids p) = tags"
  define finish where "finish = (\<lambda>pre res. bind_run (of_result (build_function_spec F b ep img res)) (\<lambda>fn_spec.
      bind_run (on_plane (create cp app_id pre fn_spec)) (\<lambda>c.
      bind_run (note_created ?tag c) (\<lambda>_. case pl of Single _ \<Rightarrow> publish_union cp inp b app_id | Many \<Rightarrow> give url))))"
  have noted: "follows (trace \<circ> fst) (\<lambda>s. ?R (snd s)) (note_created ?tag c) [] (\<lambda>_ s. dom (pub_function_ids (snd s)) = insert ?tag tags)" for c
    by (rule followsI) (auto simp: note_created_def record_created_def split: prod.splits)
  have rest: "follows (trace \<circ> fst) (\<lambda>s. ?R (snd s)) (finish pre res)
      (case build_function_spec F b ep [] (resource_shape inp pl ep) of
         Inl _ \<Rightarrow> [] | Inr s \<Rightarrow> CreateStep s # (if pl = Many then [] else [PublishStep (app_state_of b) (insert ?tag tags)]))
      (\<lambda>_ s. dom (pub_function_ids (snd s)) = add_tag tags ep)"
    if shape: "erase_resources res = resource_shape inp pl ep" for pre res
  proof (cases "build_function_spec F b ep img res")
    case (Inl e)
    then have "finish pre res = fail e" by (simp add: finish_def)
    then show ?thesis by (simp add: follows_fails)
  next
    case (Inr s)
    from build_erased [OF this] have e: "build_function_spec F b ep [] (resource_shape inp pl ep) = Inr (erase_ids s)"
      by (simp add: shape)
    have final: "follows (trace \<circ> fst) (\<lambda>s. dom (pub_function_ids (snd s)) = insert ?tag tags)
        (case pl of Single _ \<Rightarrow> publish_union cp inp b app_id | Many \<Rightarrow> give url)
        (if pl = Many then [] else [PublishStep (app_state_of b) (insert ?tag tags)])
        (\<lambda>_ s. dom (pub_function_ids (snd s)) = add_tag tags ep)"
      using publish_follows by (cases pl) (auto simp: add_tag_def intro: follows_give)
    have "finish pre res = bind_run (on_plane (create cp app_id pre s)) (\<lambda>c.
        bind_run (note_created ?tag c) (\<lambda>_. case pl of Single _ \<Rightarrow> publish_union cp inp b app_id | Many \<Rightarrow> give url))"
      by (simp add: finish_def Inr)
    moreover have "follows (trace \<circ> fst) (\<lambda>s. ?R (snd s)) \<dots> ([CreateStep (erase_ids s)] @
        ([] @ (if pl = Many then [] else [PublishStep (app_state_of b) (insert ?tag tags)])))
        (\<lambda>_ s. dom (pub_function_ids (snd s)) = add_tag tags ep)"
      by (rule follows_bind, rule on_plane_follows [where C = "\<lambda>_. True" and R = ?R], rule created,
          simp only: simp_thms, rule follows_bind [OF noted final])
    ultimately show ?thesis by (simp add: e)
  qed
  have "follows (trace \<circ> fst) (\<lambda>s. ?R (snd s)) (create_entrypoint F cp inp b pl rr app_id img client source ep url)
      ([PrecreateStep ?tag] @ (if pl = Many then secret_steps inp ep @ volume_steps ep else []) @
       (case build_function_spec F b ep [] (resource_shape inp pl ep) of
         Inl _ \<Rightarrow> [] | Inr s \<Rightarrow> CreateStep s # (if pl = Many then [] else [PublishStep (app_state_of b) (insert ?tag tags)])))
      (\<lambda>_ s. dom (pub_function_ids (snd s)) = add_tag tags ep)"
    unfolding create_entrypoint_def Let_def
  proof (rule follows_bind)
    show "follows (trace \<circ> fst) (\<lambda>s. ?R (snd s)) (on_plane (precreate cp app_id ?tag)) [PrecreateStep ?tag] (\<lambda>_ s. ?R (snd s))"
      using on_plane_follows [OF precreated, where R = ?R] by simp
    fix pre
    let ?C = "\<lambda>(cache, ids, mounts). erase_resources \<lparr>ar_client_mount_id = client, ar_source_mount_id = source,
        ar_cache_vol_id = cache, ar_secret_ids = ids, ar_user_volume_mounts = mounts\<rparr> = resource_shape inp pl ep"
    have res: "follows trace any (entrypoint_resources cp inp pl rr ep)
        (if pl = Many then secret_steps inp ep @ volume_steps ep else []) (\<lambda>a _. ?C a)"
      by (rule follows_weaken [OF resources_follow]) (use run in auto)
    show "follows (trace \<circ> fst) (\<lambda>s. ?R (snd s))
        (bind_run (on_plane (entrypoint_resources cp inp pl rr ep)) (\<lambda>(cache_vol_id, secret_ids, mounts).
          bind_run (of_result (build_function_spec F b ep img \<lparr>ar_client_mount_id = client, ar_source_mount_id = source,
            ar_cache_vol_id = cache_vol_id, ar_secret_ids = secret_ids, ar_user_volume_mounts = mounts\<rparr>)) (\<lambda>fn_spec.
          bind_run (on_plane (create cp app_id pre fn_spec)) (\<lambda>c.
          bind_run (note_created ?tag c) (\<lambda>_. case pl of Single _ \<Rightarrow> publish_union cp inp b app_id | Many \<Rightarrow> give url)))))
        ((if pl = Many then secret_steps inp ep @ volume_steps ep else []) @
         (case build_function_spec F b ep [] (resource_shape inp pl ep) of
           Inl _ \<Rightarrow> [] | Inr s \<Rightarrow> CreateStep s # (if pl = Many then [] else [PublishStep (app_state_of b) (insert ?tag tags)])))
        (\<lambda>_ s. dom (pub_function_ids (snd s)) = add_tag tags ep)"
    proof (rule follows_bind [OF on_plane_follows [OF res, where R = ?R]], rule follows_pure)
      fix a
      assume C: "?C a"
      obtain cache ids mounts where a: "a = (cache, ids, mounts)" by (cases a)
      from C a rest show "follows (trace \<circ> fst) (\<lambda>s. ?R (snd s))
          (case a of (cache_vol_id, ids, mounts) \<Rightarrow>
            bind_run (of_result (build_function_spec F b ep img \<lparr>ar_client_mount_id = client, ar_source_mount_id = source,
              ar_cache_vol_id = cache_vol_id, ar_secret_ids = ids, ar_user_volume_mounts = mounts\<rparr>)) (\<lambda>fn_spec.
            bind_run (on_plane (create cp app_id pre fn_spec)) (\<lambda>c.
            bind_run (note_created ?tag c) (\<lambda>_. case pl of Single _ \<Rightarrow> publish_union cp inp b app_id | Many \<Rightarrow> give url))))
          (case build_function_spec F b ep [] (resource_shape inp pl ep) of
             Inl _ \<Rightarrow> [] | Inr s \<Rightarrow> CreateStep s # (if pl = Many then [] else [PublishStep (app_state_of b) (insert ?tag tags)]))
          (\<lambda>_ s. dom (pub_function_ids (snd s)) = add_tag tags ep)"
        by (simp add: finish_def)
    qed
  qed
  then show ?thesis by (simp add: entrypoint_steps_def Let_def)
qed

text \<open>The whole sequence.\<close>

definition run_shape ::
  "provision_inputs \<Rightarrow> provision_plan \<Rightarrow> string option \<times> string list \<times> (string \<times> string) list \<Rightarrow> bool" where
  "run_shape inp pl rr \<longleftrightarrow> (case pl of Many \<Rightarrow> True | Single ep0 \<Rightarrow> (\<forall>c s ep.
     erase_resources \<lparr>ar_client_mount_id = c, ar_source_mount_id = s, ar_cache_vol_id = fst rr,
       ar_secret_ids = fst (snd rr), ar_user_volume_mounts = snd (snd rr)\<rparr> = resource_shape inp pl ep))"

lemma run_resources_follow:
  "follows (trace \<circ> fst) (\<lambda>s. R (snd s))
     (case pl of
        Single ep \<Rightarrow> bind_run (on_plane (resolve_run cp inp b ep)) (\<lambda>(app_id, resources). give (Some app_id, resources))
      | Many \<Rightarrow> give (None, (None, [], [])))
     (case pl of Single ep \<Rightarrow> run_steps inp b ep | Many \<Rightarrow> [])
     (\<lambda>(app, rr) s. ((app = None) = (pl = Many) \<and> run_shape inp pl rr) \<and> R (snd s))"
proof (cases pl)
  case Many
  then show ?thesis by (auto simp: run_shape_def intro: follows_give)
next
  case (Single ep)
  have resolved: "follows trace any (resolve_run cp inp b ep) (run_steps inp b ep) (\<lambda>a _. run_shape inp pl (snd a))"
  proof (rule follows_weaken [OF resolve_run_follows])
    fix a :: "string \<times> string option \<times> string list \<times> (string \<times> string) list" and s :: 'w
    obtain i cache ids mounts where a: "a = (i, cache, ids, mounts)" by (cases a)
    assume "(\<lambda>(app_id, cache, ids, mounts) _. (cache \<noteq> None) = pi_cache inp \<and>
        length ids = length (fo_secrets (ep_options ep)) + (if fo_env (ep_options ep) \<noteq> [] then 1 else 0) \<and>
        map snd mounts = map fst (fo_volumes (ep_options ep))) a s"
    then show "run_shape inp pl (snd a)"
      using erase_shape [of ids "ep_options ep" mounts _ _ cache]
      by (cases cache) (simp_all add: a Single run_shape_def resource_shape_def Let_def)
  qed
  have "follows (trace \<circ> fst) (\<lambda>s. R (snd s))
     (bind_run (on_plane (resolve_run cp inp b ep)) (\<lambda>(app_id, resources). give (Some app_id, resources)))
     (run_steps inp b ep @ [])
     (\<lambda>(app, rr) s. ((app = None) = (pl = Many) \<and> run_shape inp pl rr) \<and> R (snd s))"
    by (rule follows_bind [OF on_plane_follows [OF resolved]], rule follows_pure) (auto simp: Single intro: follows_give)
  then show ?thesis by (simp add: Single)
qed

lemma entrypoints_follow:
  assumes "run_shape inp pl rr"
  shows "follows (trace \<circ> fst) (\<lambda>s. dom (pub_function_ids (snd s)) = tags)
     (for_run (create_entrypoint F cp inp b pl rr app_id img client source) eps url)
     (walk add_tag (entrypoint_steps F inp b pl) tags eps)
     (\<lambda>_ s. dom (pub_function_ids (snd s)) = foldl add_tag tags eps)"
  by (rule follows_for [where I = "\<lambda>g _ s. dom (pub_function_ids (snd s)) = g"], rule entrypoint_follows)
     (insert assms, auto simp: run_shape_def split: provision_plan.splits)

lemma plane_follows:
  "follows trace any m xs (\<lambda>_. any) \<Longrightarrow>
   follows (trace \<circ> fst) (\<lambda>s. R (snd s)) (on_plane m) xs (\<lambda>_ s. R (snd s))"
  using on_plane_follows [where C = "\<lambda>_. True"] by simp

lemma late_app_follows:
  "(app = None) = (pl = Many) \<Longrightarrow>
   follows (trace \<circ> fst) (\<lambda>s. R (snd s))
     (case app of Some i \<Rightarrow> give i | None \<Rightarrow> on_plane (ensure_app cp (pi_app_name inp) (pi_app_id inp) (app_state_of b)))
     (if pl = Many then [AppStep (pi_app_name inp) (app_state_of b)] else []) (\<lambda>_ s. R (snd s))"
  using plane_follows [OF app, where R = R] by (cases app) (auto intro: follows_give)

lemma image_on_plane:
  assumes "fl_b64 L = b64"
  shows "follows (trace \<circ> fst) (\<lambda>s. R (snd s))
     (on_plane (provision_image L cp inp b (case delivery b of RunMount \<Rightarrow> si_remote_src (pi_source inp) | DeployContext \<Rightarrow> DEPLOY_SRC)
        app_id source py))
     (layer_steps L inp b (stub (pi_source inp))) (\<lambda>_ s. R (snd s))"
  by (rule plane_follows, rule image_follows) (simp_all add: assms)

lemma finish_follows:
  "follows (trace \<circ> fst) (\<lambda>s. dom (pub_function_ids (snd s)) = ts)
     (bind_run (case pl of Many \<Rightarrow> publish_union cp inp b app_id | Single _ \<Rightarrow> give url) (\<lambda>url.
        give \<lparr>pr_image_id = img, publish_url = url\<rparr>))
     ((if pl = Many then [PublishStep (app_state_of b) ts] else []) @ [])
     (\<lambda>_ s. dom (pub_function_ids (snd s)) = ts)"
  by (rule follows_bind [where Q = "\<lambda>_ s. dom (pub_function_ids (snd s)) = ts"])
     (auto intro: follows_give publish_follows split: provision_plan.split)

lemma finish_fails:
  "fails_within (trace \<circ> fst) P
     (bind_run (case pl of Many \<Rightarrow> publish_union cp inp b app_id | Single _ \<Rightarrow> give url) (\<lambda>url.
        give \<lparr>pr_image_id = img, publish_url = url\<rparr>)) []"
proof -
  have "(trace \<circ> fst) s' us"
    if "publish_union cp inp b app_id s = Some (Inl e, s')" and "(trace \<circ> fst) s us" for s us e s'
    using that by (cases s; cases s')
      (auto simp: publish_union_def bind_run_Some_iff get_published_def on_plane_def dest: unpublished)
  then show ?thesis
    by (cases pl) (auto simp: fails_within_def bind_run_Some_iff)
qed

lemma provision_follows:
  assumes b64: "fl_b64 L = b64"
  shows "follows (trace \<circ> fst) (\<lambda>s. dom (pub_function_ids (snd s)) = tags) (provision L F cp inp b)
     (schedule_for L F inp b (stub (pi_source inp)) tags)
     (\<lambda>_ s. dom (pub_function_ids (snd s)) = foldl add_tag tags (pi_entrypoints inp))"
proof (cases "plan b (pi_entrypoints inp)")
  case (Inl e)
  then show ?thesis by (simp add: provision_def follows_fails)
next
  case (Inr pl)
  let ?R = "\<lambda>p. dom (pub_function_ids p) = tags"
  let ?remote = "case delivery b of RunMount \<Rightarrow> si_remote_src (pi_source inp) | DeployContext \<Rightarrow> DEPLOY_SRC"
  have "follows (trace \<circ> fst) (\<lambda>s. ?R (snd s)) (provision L F cp inp b)
      ((case pl of Single ep \<Rightarrow> run_steps inp b ep | Many \<Rightarrow> []) @
       [ClientMountStep] @ [SourceMountStep ?remote] @ [PythonMountStep PYTHON_SERIES] @
       (if pl = Many then [AppStep (pi_app_name inp) (app_state_of b)] else []) @
       layer_steps L inp b (stub (pi_source inp)) @ walk add_tag (entrypoint_steps F inp b pl) tags (pi_entrypoints inp) @
       (if pl = Many then [PublishStep (app_state_of b) (foldl add_tag tags (pi_entrypoints inp))] else []) @ [])
      (\<lambda>_ s. dom (pub_function_ids (snd s)) = foldl add_tag tags (pi_entrypoints inp))"
    unfolding provision_def Inr bind_run_unit Let_def split_beta
  proof (rule follows_bind [OF run_resources_follow [where R = ?R, unfolded split_beta]], rule follows_pure, goal_cases)
    case (1 x)
    then show ?case
      by (intro follows_bind [OF plane_follows [OF client_mount, where R = ?R]] follows_bind [OF plane_follows [OF source_mount, where R = ?R]]
          follows_bind [OF plane_follows [OF python_mount, where R = ?R]] follows_bind [OF late_app_follows [where R = ?R]]
          follows_bind [OF image_on_plane [where R = ?R]] follows_bind [OF entrypoints_follow] finish_follows)
         (simp_all add: b64)
  qed
  then show ?thesis by (simp add: schedule_for_def Inr)
qed

text \<open>A deploy publishes last, so one that fails has published nothing.\<close>

lemma deploy_fails_unpublished:
  assumes b64: "fl_b64 L = b64" and deploy: "delivery b = DeployContext"
  shows "fails_within (trace \<circ> fst) (\<lambda>s. dom (pub_function_ids (snd s)) = tags) (provision L F cp inp b)
     (butlast (schedule_for L F inp b (stub (pi_source inp)) tags))"
proof -
  let ?R = "\<lambda>p. dom (pub_function_ids p) = tags"
  let ?remote = "case delivery b of RunMount \<Rightarrow> si_remote_src (pi_source inp) | DeployContext \<Rightarrow> DEPLOY_SRC"
  have plan: "plan b (pi_entrypoints inp) = Inr Many" by (simp add: plan_def deploy)
  have "fails_within (trace \<circ> fst) (\<lambda>s. ?R (snd s)) (provision L F cp inp b)
      ((case Many of Single ep \<Rightarrow> run_steps inp b ep | Many \<Rightarrow> []) @
       [ClientMountStep] @ [SourceMountStep ?remote] @ [PythonMountStep PYTHON_SERIES] @
       (if Many = Many then [AppStep (pi_app_name inp) (app_state_of b)] else []) @
       layer_steps L inp b (stub (pi_source inp)) @ walk add_tag (entrypoint_steps F inp b Many) tags (pi_entrypoints inp) @ [])"
    unfolding provision_def plan bind_run_unit(1) Let_def split_beta
  proof (rule fails_bind [OF run_resources_follow [where R = ?R, unfolded split_beta]], rule fails_pure, goal_cases)
    case (1 x)
    then show ?case
      by (intro fails_bind [OF plane_follows [OF client_mount, where R = ?R]] fails_bind [OF plane_follows [OF source_mount, where R = ?R]]
          fails_bind [OF plane_follows [OF python_mount, where R = ?R]] fails_bind [OF late_app_follows [where R = ?R]]
          fails_bind [OF image_on_plane [where R = ?R]] fails_bind [OF entrypoints_follow] finish_fails)
         (simp_all add: b64)
  qed
  then show ?thesis by (simp add: schedule_for_def plan butlast_append)
qed

end

section \<open>Logging a plane\<close>

text \<open>Any plane can be made to log: each operation that returns adds its step.\<close>

definition log_step :: "'x \<Rightarrow> ('w, 'a) run \<Rightarrow> ('w \<times> 'x list, 'a) run" where
  "log_step x m = (\<lambda>(w, log). map_option (\<lambda>(r, w'). (r, (w', case r of Inr _ \<Rightarrow> log @ [x] | Inl _ \<Rightarrow> log))) (m w))"

definition log_some :: "'x \<Rightarrow> ('w, 'a option) run \<Rightarrow> ('w \<times> 'x list, 'a option) run" where
  "log_some x m = (\<lambda>(w, log). map_option (\<lambda>(r, w'). (r, (w', case r of Inr (Some _) \<Rightarrow> log @ [x] | _ \<Rightarrow> log))) (m w))"

definition logged :: "(string \<Rightarrow> string) \<Rightarrow> ('w, 'f) control_plane \<Rightarrow> ('w \<times> 'f step list, 'f) control_plane" where
  "logged b64 cp =
     \<lparr>ensure_app = (\<lambda>n pre st. log_step (AppStep n st) (ensure_app cp n pre st)),
      ensure_volume = (\<lambda>n v2. log_step (VolumeStep n v2) (ensure_volume cp n v2)),
      ensure_secret = (\<lambda>n keys. log_step (SecretStep n keys) (ensure_secret cp n keys)),
      ensure_inline_secret = (\<lambda>n env. log_step (InlineSecretStep n) (ensure_inline_secret cp n env)),
      ensure_client_mount = log_step ClientMountStep (ensure_client_mount cp),
      ensure_source_mount = (\<lambda>src remote. log_step (SourceMountStep remote) (ensure_source_mount cp src remote)),
      ensure_prebuild_mount = (\<lambda>src remote. log_some (StubMountStep remote) (ensure_prebuild_mount cp src remote)),
      ensure_python_mount = (\<lambda>series. log_step (PythonMountStep series) (ensure_python_mount cp series)),
      ensure_image = (\<lambda>app_id spec k. log_step (ImageStep (dockerfile_commands b64 spec)) (ensure_image cp app_id spec k)),
      precreate = (\<lambda>app_id tag. log_step (PrecreateStep tag) (precreate cp app_id tag)),
      create = (\<lambda>app_id pre fspec. log_step (CreateStep (erase_ids fspec)) (create cp app_id pre fspec)),
      publish = (\<lambda>app_id n fids dids st. log_step (PublishStep st (dom fids)) (publish cp app_id n fids dids st))\<rparr>"

lemma log_step_follows: "follows (\<lambda>s us. snd s = us) (\<lambda>_. True) (log_step x m) [x] (\<lambda>_ _. True)"
  by (rule followsI) (auto simp: log_step_def split: prod.splits)

lemma log_step_fails: "log_step x m s = Some (Inl e, s') \<Longrightarrow> snd s' = snd s"
  by (auto simp: log_step_def split: prod.splits)

lemma log_some_follows:
  assumes "\<And>w r w'. m w = Some (Inr r, w') \<Longrightarrow> (r \<noteq> None) = c"
  shows "follows (\<lambda>s us. snd s = us) (\<lambda>_. True) (log_some x m) (if c then [x] else []) (\<lambda>r _. (r \<noteq> None) = c)"
proof (rule followsI)
  fix s us r s'
  assume "snd s = us" "log_some x m s = Some (Inr r, s')"
  then obtain w' where "m (fst s) = Some (Inr r, w')" and "snd s' = (case r of Some _ \<Rightarrow> us @ [x] | None \<Rightarrow> us)"
    by (auto simp: log_some_def split: prod.splits option.splits)
  with assms [OF this(1)] show "snd s' = us @ (if c then [x] else []) \<and> (r \<noteq> None) = c" by (cases r) auto
qed (auto simp: log_some_def split: prod.splits)

text \<open>Forgetting the log gives the plane back: \<open>m'\<close> does on the richer state what \<open>m\<close> does on its image.\<close>

named_theorems mirror_rules

definition mirrors :: "('t \<Rightarrow> 's) \<Rightarrow> ('s, 'a) run \<Rightarrow> ('t, 'a) run \<Rightarrow> bool" where
  "mirrors h m m' \<longleftrightarrow> (\<forall>t. map_option (map_prod id h) (m' t) = m (h t))"

lemma mirrorsD: "mirrors h m m' \<Longrightarrow> map_option (map_prod id h) (m' t) = m (h t)"
  by (simp add: mirrors_def)

lemma mirrors_pure [mirror_rules]:
  "mirrors h (give a) (give a)" "mirrors h (of_result r) (of_result r)" "mirrors h panic panic"
  by (simp_all add: mirrors_def give_def of_result_def panic_def)

lemma mirrors_bind [mirror_rules]:
  assumes "mirrors h m m'" and "\<And>a. mirrors h (f a) (f' a)"
  shows "mirrors h (bind_run m f) (bind_run m' f')"
  unfolding mirrors_def
proof
  fix t
  from mirrorsD [OF assms(1), of t, symmetric] show "map_option (map_prod id h) (bind_run m' f' t) = bind_run m f (h t)"
    by (auto simp: bind_run_def mirrorsD [OF assms(2)] split: option.splits sum.splits)
qed

lemma mirrors_for [mirror_rules]:
  assumes "\<And>x a. mirrors h (f x a) (f' x a)"
  shows "mirrors h (for_run f xs a) (for_run f' xs a)"
  by (induction xs arbitrary: a) (auto intro: mirror_rules assms)

lemma mirrors_on_plane [mirror_rules]:
  assumes "mirrors h m m'"
  shows "mirrors (map_prod h id) (on_plane m) (on_plane m')"
  unfolding mirrors_def
proof
  fix t :: "'a \<times> published"
  obtain w p where t: "t = (w, p)" by (cases t)
  from mirrorsD [OF assms, of w, symmetric]
  show "map_option (map_prod id (map_prod h id)) (on_plane m' t) = on_plane m (map_prod h id t)"
    by (cases "m' w") (auto simp: on_plane_def t)
qed

lemma mirrors_published [mirror_rules]:
  "mirrors (map_prod h id) get_published get_published" "mirrors (map_prod h id) (note_created tag c) (note_created tag c)"
  by (auto simp: mirrors_def get_published_def note_created_def)

lemma mirrors_log [mirror_rules]: "mirrors fst m (log_step x m)" "mirrors fst q (log_some x q)"
  by (simp_all add: mirrors_def log_step_def log_some_def option.map_comp comp_def split_beta option.map_ident)

lemma mirrors_case [mirror_rules]:
  "(\<And>e. mirrors h (f e) (f' e)) \<Longrightarrow> mirrors h g g' \<Longrightarrow>
     mirrors h (case pl of Single e \<Rightarrow> f e | Many \<Rightarrow> g) (case pl of Single e \<Rightarrow> f' e | Many \<Rightarrow> g')"
  "(\<And>x. mirrors h (f2 x) (f2' x)) \<Longrightarrow> mirrors h g2 g2' \<Longrightarrow>
     mirrors h (case o1 of Some x \<Rightarrow> f2 x | None \<Rightarrow> g2) (case o1 of Some x \<Rightarrow> f2' x | None \<Rightarrow> g2')"
  "mirrors h m1 m1' \<Longrightarrow> mirrors h m2 m2' \<Longrightarrow>
     mirrors h (case d of RunMount \<Rightarrow> m1 | DeployContext \<Rightarrow> m2) (case d of RunMount \<Rightarrow> m1' | DeployContext \<Rightarrow> m2')"
  "mirrors h m1 m1' \<Longrightarrow> mirrors h m2 m2' \<Longrightarrow> mirrors h (if c then m1 else m2) (if c then m1' else m2')"
  "(\<And>x y. mirrors h (f3 x y) (f3' x y)) \<Longrightarrow> mirrors h (case p of (x, y) \<Rightarrow> f3 x y) (case p of (x, y) \<Rightarrow> f3' x y)"
  "(\<And>x y. mirrors h (f4 x y z) (f4' x y z)) \<Longrightarrow> mirrors h ((case p of (x, y) \<Rightarrow> f4 x y) z) ((case p of (x, y) \<Rightarrow> f4' x y) z)"
  by (simp_all split: provision_plan.split option.split source_delivery.split prod.split)

lemma logged_mirrors [mirror_rules]:
  "mirrors fst (ensure_app cp n pre st) (ensure_app (logged b64 cp) n pre st)"
  "mirrors fst (ensure_volume cp n v2) (ensure_volume (logged b64 cp) n v2)"
  "mirrors fst (ensure_secret cp n keys) (ensure_secret (logged b64 cp) n keys)"
  "mirrors fst (ensure_inline_secret cp n env) (ensure_inline_secret (logged b64 cp) n env)"
  "mirrors fst (ensure_client_mount cp) (ensure_client_mount (logged b64 cp))"
  "mirrors fst (ensure_source_mount cp src remote) (ensure_source_mount (logged b64 cp) src remote)"
  "mirrors fst (ensure_prebuild_mount cp src remote) (ensure_prebuild_mount (logged b64 cp) src remote)"
  "mirrors fst (ensure_python_mount cp n) (ensure_python_mount (logged b64 cp) n)"
  "mirrors fst (ensure_image cp n spec k) (ensure_image (logged b64 cp) n spec k)"
  "mirrors fst (precreate cp n tag) (precreate (logged b64 cp) n tag)"
  "mirrors fst (create cp n i fspec) (create (logged b64 cp) n i fspec)"
  "mirrors fst (publish cp n i fids dids st) (publish (logged b64 cp) n i fids dids st)"
  by (simp_all add: logged_def mirrors_log)

lemma provision_logged:
  "mirrors (map_prod fst id) (provision L F cp inp b) (provision L F (logged b64 cp) inp b)"
  unfolding provision_def resolve_run_def provision_image_def publish_union_def create_entrypoint_def
    entrypoint_resources_def resolve_entrypoint_secrets_def Let_def
  by (intro mirror_rules)

section \<open>The live plane\<close>

definition live_stub :: "('w, 'f, 'b, 'g) live_client \<Rightarrow> source_inputs \<Rightarrow> bool" where
  "live_stub K src \<longleftrightarrow> si_use_cargo_scoping src \<and>
     (case workspace_closure_stub (lc_disk K) (lc_cargo K) (lc_toml K) (si_local_root src) (si_package src) of
        Inr (Some _) \<Rightarrow> True | _ \<Rightarrow> False)"

lemma live_prebuild_stub:
  "live_prebuild_mount K src remote s = Some (Inr r, s') \<Longrightarrow> (r \<noteq> None) = live_stub K src"
  by (auto simp: live_prebuild_mount_def live_stub_def bind_run_Inr_iff map_sum_def split: if_splits option.splits sum.splits)

interpretation live: traced_plane "fl_b64 L" "logged (fl_b64 L) (live_control_plane L F K)" "\<lambda>s us. snd s = us" "live_stub K"
  for L :: facade_lib and F :: "'f f32_ops" and K :: "('w, 'f, 'b, 'g) live_client"
proof unfold_locales
  show "follows (\<lambda>s us. snd s = us) (\<lambda>_. True)
      (ensure_prebuild_mount (logged (fl_b64 L) (live_control_plane L F K)) src remote)
      (if live_stub K src then [StubMountStep remote] else []) (\<lambda>r _. (r \<noteq> None) = live_stub K src)" for src remote
    unfolding logged_def live_control_plane_def control_plane.select_convs
    by (rule log_some_follows) (rule live_prebuild_stub)
qed (auto simp: logged_def log_step_follows dest: log_step_fails)

section \<open>Properties\<close>

text \<open>A run of the live sequence with its log.\<close>

definition live_log ::
  "facade_lib \<Rightarrow> 'f f32_ops \<Rightarrow> ('w, 'f, 'b, 'g) live_client \<Rightarrow> provision_inputs \<Rightarrow> boundary \<Rightarrow> 'w client_state \<Rightarrow>
     published \<Rightarrow> ((facade_error + provisioned) \<times> ('w client_state \<times> 'f step list) \<times> published) option" where
  "live_log L F K inp b w p = provision L F (logged (fl_b64 L) (live_control_plane L F K)) inp b ((w, []), p)"

lemma live_log_cases:
  assumes "live_log L F K inp b w p = Some (r, (w', us), p')"
  defines "steps \<equiv> schedule_for L F inp b (live_stub K (pi_source inp)) (dom (pub_function_ids p))"
  shows "prefix us steps"
    and "r = Inr a \<Longrightarrow> us = steps \<and> dom (pub_function_ids p') = foldl add_tag (dom (pub_function_ids p)) (pi_entrypoints inp)"
proof -
  have fol: "follows ((\<lambda>s us. snd s = us) \<circ> fst) (\<lambda>s. dom (pub_function_ids (snd s)) = dom (pub_function_ids p))
      (provision L F (logged (fl_b64 L) (live_control_plane L F K)) inp b) steps
      (\<lambda>_ s. dom (pub_function_ids (snd s)) = foldl add_tag (dom (pub_function_ids p)) (pi_entrypoints inp))"
    unfolding steps_def by (rule live.provision_follows) simp
  show ok: "us = steps \<and> dom (pub_function_ids p') = foldl add_tag (dom (pub_function_ids p)) (pi_entrypoints inp)"
    if "r = Inr a" for a
    using follows_ok [OF fol, of "((w, []), p)" "[]"] assms that by (simp add: live_log_def)
  show "prefix us steps"
  proof (cases r)
    case (Inl e)
    with follows_fail [OF fol, of "((w, []), p)" "[]"] assms show ?thesis by (simp add: live_log_def)
  next
    case (Inr a)
    with ok show ?thesis by simp
  qed
qed

text \<open>The steps of a deploy before the last publish nothing.\<close>

fun publishes :: "'f step \<Rightarrow> bool" where
  "publishes (PublishStep _ _) = True"
| "publishes _ = False"

lemma quiet_steps:
  "list_all (\<lambda>x. \<not> publishes x) (secret_steps inp ep)" "list_all (\<lambda>x. \<not> publishes x) (volume_steps ep)"
  "list_all (\<lambda>x. \<not> publishes x) (layer_steps L inp b st)" "list_all (\<lambda>x. \<not> publishes x) (entrypoint_steps F inp b Many tags ep)"
proof -
  show secrets: "list_all (\<lambda>x. \<not> publishes x) (secret_steps inp ep)" and volumes: "list_all (\<lambda>x. \<not> publishes x) (volume_steps ep)"
    by (auto simp: secret_steps_def volume_steps_def list_all_iff)
  show "list_all (\<lambda>x. \<not> publishes x) (layer_steps L inp b st)"
    by (auto simp: layer_steps_def Let_def split: option.split source_delivery.split)
  show "list_all (\<lambda>x. \<not> publishes x) (entrypoint_steps F inp b Many tags ep)"
    using secrets volumes by (auto simp: entrypoint_steps_def Let_def split: sum.split)
qed

lemma quiet_walk: "list_all (\<lambda>x. \<not> publishes x) (walk add_tag (entrypoint_steps F inp b Many) tags eps)"
  by (induction eps arbitrary: tags) (simp_all add: quiet_steps)

lemma quiet_deploy:
  "delivery b = DeployContext \<Longrightarrow> list_all (\<lambda>x. \<not> publishes x) (butlast (schedule_for L F inp b st tags))"
  by (simp add: schedule_for_def plan_def butlast_append quiet_steps quiet_walk)


lemma drop_log: "(\<lambda>(r, (w', us), p'). (r, w', p')) = map_prod id (map_prod fst id)"
  by (auto simp: fun_eq_iff)

text \<open>C4. What provisioning asks of Modal, and in which order, is fixed by the inputs: when it succeeds it has
  issued exactly the steps of the schedule (app, cache, secrets and volumes first on the run path;
  mounts, image layers, then precreate, create and publish), when it fails it has issued a prefix of them.
  The published functions are those there were and one per entrypoint.\<close>

theorem provision_keeps_to_schedule:
  "case live_log L F K inp b w p of
     None \<Rightarrow> True
   | Some (r, (w', us), p') \<Rightarrow>
       (let steps = schedule_for L F inp b (live_stub K (pi_source inp)) (dom (pub_function_ids p)) in
        case r of
          Inl e \<Rightarrow> prefix us steps
        | Inr a \<Rightarrow> us = steps \<and>
            dom (pub_function_ids p') = dom (pub_function_ids p) \<union> (\<lambda>ep. sanitize_object_tag (ep_name ep)) ` set (pi_entrypoints inp))"
proof -
  have tags: "foldl add_tag T eps = T \<union> (\<lambda>ep. sanitize_object_tag (ep_name ep)) ` set eps" for T eps
    by (induction eps arbitrary: T) (auto simp: add_tag_def)
  show ?thesis
    using live_log_cases [of L F K inp b w p] by (auto simp: tags Let_def split: option.split prod.split sum.split)
qed

text \<open>Keeping the log changes nothing: dropping it from the logged run gives the run of the live plane.\<close>

lemma logging_is_transparent:
  "map_option (\<lambda>(r, (w', us), p'). (r, w', p')) (live_log L F K inp b w p) =
   provision L F (live_control_plane L F K) inp b (w, p)"
  using mirrorsD [OF provision_logged [of L F "live_control_plane L F K" inp b "fl_b64 L"], of "((w, []), p)"]
  by (simp only: live_log_def map_prod_simp fst_conv id_apply drop_log)

text \<open>C13. A function that is created is valid, has its own object tag, and attaches exactly what was resolved for
  it: on the run path the client and the source mount and neither webhook nor snapshot, on the deploy
  path the client mount alone, the cache volume first where there is one, then the user's volumes at
  their paths, and every secret.\<close>

theorem function_attaches:
  "case build_function_spec F b ep img res of
     Inl e \<Rightarrow> True
   | Inr s \<Rightarrow>
       spec_ok s \<and> object_tag s = sanitize_object_tag (ep_name ep) \<and> image_id s = img \<and>
       timeout_secs s = ep_timeout_secs ep \<and>
       mount_ids s = (if delivery b = RunMount then [ar_client_mount_id res, ar_source_mount_id res]
                      else [ar_client_mount_id res]) \<and>
       map (\<lambda>m. (volume_id m, FunctionSpec.mount_path m)) (volume_mounts s) =
         (case ar_cache_vol_id res of Some i \<Rightarrow> [(i, CACHE_MOUNT)] | None \<Rightarrow> []) @ ar_user_volume_mounts res \<and>
       secret_ids s = ar_secret_ids res \<and>
       (case app_state_of b of EphemeralApp \<Rightarrow> webhook s = None \<and> \<not> checkpointing_enabled s | DeployedApp \<Rightarrow> True)"
proof (cases "build_function_spec F b ep img res")
  case (Inr s)
  then obtain sched retry where ok: "options_ok F b (ep_options ep) sched retry"
    and s: "s = final_spec b ep img res sched retry" by (auto simp: build_function_spec_iff)
  have "map (\<lambda>m. (volume_id m, FunctionSpec.mount_path m)) (attached_volumes res) =
      (case ar_cache_vol_id res of Some i \<Rightarrow> [(i, CACHE_MOUNT)] | None \<Rightarrow> []) @ ar_user_volume_mounts res"
    by (simp add: attached_volumes_def new_volume_mount_def split_beta comp_def split: option.split)
  moreover have "app_state_of b = EphemeralApp \<Longrightarrow> webhook_of b (ep_options ep) = None"
    by (simp add: webhook_of_def split: option.split prod.split)
  ultimately show ?thesis
    using build_function_spec_ok [OF Inr]
    by (auto simp: Inr s final_spec_def Let_def mounts_of_def object_tag_def split: source_delivery.split app_state.split)
qed simp

text \<open>On the run path a user volume can never shadow the cargo cache: with the cache on, resolution
  succeeds only when no volume of the entrypoint is mounted at the cache's path.\<close>

lemma cache_is_not_shadowed:
  "case resolve_run cp inp b ep w of
     Some (Inr (app_id, cache, ids, mounts), w') \<Rightarrow>
       (cache \<noteq> None) = pi_cache inp \<and> map snd mounts = map fst (fo_volumes (ep_options ep)) \<and>
       (case cache of None \<Rightarrow> True | Some _ \<Rightarrow> CACHE_MOUNT \<notin> snd ` set mounts)
   | _ \<Rightarrow> True"
proof -
  have loop: "map snd ms' = map snd ms @ map fst vols \<and> (pi_cache inp \<longrightarrow> CACHE_MOUNT \<notin> fst ` set vols)"
    if "for_run (\<lambda>(mount_path, name) mounts.
          bind_run (of_result (reject_cache_collision (pi_cache inp) mount_path)) (\<lambda>_.
          bind_run (ensure_volume cp name False) (\<lambda>vid. give (mounts @ [(vid, mount_path)])))) vols ms s = Some (Inr ms', s')"
    for vols ms ms' s s'
    using that
  proof (induction vols arbitrary: ms s)
    case (Cons x xs)
    from Cons.prems obtain vid s1 where
      rest: "for_run (\<lambda>(mount_path, name) mounts.
          bind_run (of_result (reject_cache_collision (pi_cache inp) mount_path)) (\<lambda>_.
          bind_run (ensure_volume cp name False) (\<lambda>vid. give (mounts @ [(vid, mount_path)])))) xs (ms @ [(vid, fst x)]) s1 = Some (Inr ms', s')"
      and ok: "reject_cache_collision (pi_cache inp) (fst x) = Inr ()"
      by (cases x) (fastforce simp: bind_run_Inr_iff)
    from Cons.IH [OF rest] ok show ?case by (auto simp: reject_cache_collision_def split: if_splits)
  qed simp
  show ?thesis
  proof (cases "resolve_run cp inp b ep w")
    case (Some x)
    show ?thesis
    proof (cases "fst x")
      case (Inr y)
      obtain app_id cache ids mounts where y: "y = (app_id, cache, ids, mounts)" by (cases y)
      from Some Inr y obtain w1 w2 where
        vols: "for_run (\<lambda>(mount_path, name) mounts.
          bind_run (of_result (reject_cache_collision (pi_cache inp) mount_path)) (\<lambda>_.
          bind_run (ensure_volume cp name False) (\<lambda>vid. give (mounts @ [(vid, mount_path)])))) (fo_volumes (ep_options ep)) [] w1 = Some (Inr mounts, w2)"
        and cache: "(cache \<noteq> None) = pi_cache inp"
        by (cases x) (auto simp: resolve_run_def bind_run_Inr_iff split: if_splits)
      from loop [OF vols] have m: "map snd mounts = map fst (fo_volumes (ep_options ep))"
        and c: "pi_cache inp \<Longrightarrow> CACHE_MOUNT \<notin> fst ` set (fo_volumes (ep_options ep))" by auto
      from m have "snd ` set mounts = fst ` set (fo_volumes (ep_options ep))"
        by (metis set_map)
      with m c cache Some Inr y show ?thesis by (cases x) auto
    qed (use Some in \<open>auto split: prod.split\<close>)
  qed simp
qed

end
