(* ===== verification/Deploy.thy ===== *)
theory Deploy
  imports ControlPlane
begin

text \<open>
  The deploy path (\<open>crates/modal-rust/src/deploy.rs\<close>): its configuration and the discovery of it from the
  environment, the functions it plans, the image it prepares, the persistent deploy and the call of a
  deployed function; and the run path's counterpart \<open>ensure_function\<close> (\<open>remote.rs\<close>), which drives the same
  sequence for one entrypoint of an ephemeral app.

  Both drive the sequence of \<open>ControlPlane\<close> on the live plane, the deploy with an accumulator of its own, the
  run path with the one its caller keeps.
\<close>

section \<open>Configuration\<close>

definition DEFAULT_DEPLOY_APP :: string where "DEFAULT_DEPLOY_APP = ''modal-rust-add-deploy''"
definition DEPLOY_CALL_DEADLINE :: nat where "DEPLOY_CALL_DEADLINE = secs 600"

record deploy_config =
  dc_app_name :: string
  dc_local_root :: path
  dc_package :: string
  dc_use_cargo_scoping :: bool
  dc_modalignore_name :: string
  dc_base_image :: string
  dc_timeout_secs :: u32
  dc_install_rust :: bool
  dc_image_steps :: "image_step list"
  dc_snapshot_best_effort :: bool
  dc_dep_prebuild :: bool
  dc_options :: function_options

definition discover_snapshot_best_effort :: "facade_lib \<Rightarrow> bool" where
  "discover_snapshot_best_effort L = env_bool (fl_env L) SNAPSHOT_BEST_EFFORT"

definition discover_dep_prebuild :: "facade_lib \<Rightarrow> bool" where
  "discover_dep_prebuild L =
     (case fl_env L DEP_PREBUILD of Some v \<Rightarrow> to_ascii_lowercase (trim v) \<notin> set falsy | None \<Rightarrow> True)"

definition for_app :: "facade_lib \<Rightarrow> machine \<Rightarrow> string \<Rightarrow> deploy_config" where
  "for_app L M app_name =
     (let base = default_remote_config L M in
      \<lparr>dc_app_name = app_name, dc_local_root = rc_local_root base, dc_package = rc_package base,
       dc_use_cargo_scoping = rc_use_cargo_scoping base, dc_modalignore_name = rc_modalignore_name base,
       dc_base_image = rc_base_image base, dc_timeout_secs = 300, dc_install_rust = rc_install_rust base,
       dc_image_steps = rc_image_steps base, dc_snapshot_best_effort = discover_snapshot_best_effort L,
       dc_dep_prebuild = discover_dep_prebuild L, dc_options = default_options\<rparr>)"

definition default_deploy_config :: "facade_lib \<Rightarrow> machine \<Rightarrow> deploy_config" where
  "default_deploy_config L M =
     for_app L M (case fl_env L DEPLOY_APP of Some n \<Rightarrow> n | None \<Rightarrow> DEFAULT_DEPLOY_APP)"

text \<open>The first image declared by an entrypoint goes into the shared image.\<close>

definition with_function_image ::
  "facade_lib \<Rightarrow> machine \<Rightarrow> string option list \<Rightarrow> deploy_config \<Rightarrow> facade_error + deploy_config" where
  "with_function_image L M entrypoint_images config =
     (case List.map_filter id entrypoint_images of
        [] \<Rightarrow> Inr config
      | spec # _ \<Rightarrow>
          (let view = (default_remote_config L M)\<lparr>rc_base_image := dc_base_image config,
                 rc_install_rust := dc_install_rust config, rc_image_steps := dc_image_steps config\<rparr>
           in and_then (apply_function_image L view (Some spec)) (\<lambda>view.
                Inr (config\<lparr>dc_base_image := rc_base_image view, dc_install_rust := rc_install_rust view,
                  dc_image_steps := rc_image_steps view\<rparr>))))"

section \<open>Web endpoints need FastAPI\<close>

record deploy_entrypoint =
  de_name :: string
  de_options :: function_options

definition ENDPOINT_FASTAPI_REQUIREMENT :: string where
  "ENDPOINT_FASTAPI_REQUIREMENT = ''fastapi[standard]''"

definition pip_package_name :: "string \<Rightarrow> string" where
  "pip_package_name pkg = trim (takeWhile (\<lambda>c. c \<notin> set ''[=<>!~ ;'') pkg)"

definition pip_installs_fastapi :: "image_step \<Rightarrow> bool" where
  "pip_installs_fastapi step =
     (case step of
        Pip pkgs \<Rightarrow> list_ex (\<lambda>pkg. to_ascii_lowercase (pip_package_name pkg) = ''fastapi'') pkgs
      | _ \<Rightarrow> False)"

definition append_endpoint_pip_step :: "function_options list \<Rightarrow> image_step list \<Rightarrow> image_step list" where
  "append_endpoint_pip_step entrypoint_options image_steps =
     (if \<not> list_ex (\<lambda>x. fo_webhook_method x \<noteq> None) entrypoint_options then image_steps
      else if list_ex pip_installs_fastapi image_steps then image_steps
      else image_steps @ [Pip [ENDPOINT_FASTAPI_REQUIREMENT]])"

section \<open>Deploy\<close>

record deployed_app =
  da_name :: string
  da_function_id :: string
  da_image_id :: string
  da_url :: string
  da_endpoint_urls :: "(string \<times> string) list"

definition deploy_plan :: "deploy_config \<Rightarrow> deploy_entrypoint list \<Rightarrow> entrypoint list" where
  "deploy_plan config entrypoints =
     (if entrypoints = []
      then [\<lparr>ep_name = DEPLOY_WRAPPER_CALLABLE, ep_options = dc_options config,
             ep_timeout_secs = dc_timeout_secs config\<rparr>]
      else map (\<lambda>ep. \<lparr>ep_name = de_name ep, ep_options = de_options ep,
             ep_timeout_secs = (case fo_timeout_secs (de_options ep) of Some t \<Rightarrow> t | None \<Rightarrow> dc_timeout_secs config)\<rparr>)
           entrypoints)"

definition deploy_inputs :: "deploy_config \<Rightarrow> entrypoint list \<Rightarrow> provision_inputs" where
  "deploy_inputs config entrypoints =
     \<lparr>pi_app_name = dc_app_name config, pi_app_id = None,
      pi_source = \<lparr>si_local_root = dc_local_root config, si_package = dc_package config,
        si_use_cargo_scoping = dc_use_cargo_scoping config, si_modalignore_name = dc_modalignore_name config,
        si_remote_src = DEPLOY_SRC\<rparr>,
      pi_base_image = dc_base_image config, pi_install_rust = dc_install_rust config,
      pi_image_steps = dc_image_steps config, pi_cache = False,
      pi_snapshot_best_effort = dc_snapshot_best_effort config, pi_dep_prebuild = dc_dep_prebuild config,
      pi_entrypoints = entrypoints\<rparr>"

text \<open>The sequence with an accumulator lent to it: what it recorded comes back whether it failed or not.\<close>

definition lend :: "published \<Rightarrow> ('w \<times> published, 'a) run \<Rightarrow> 'w \<Rightarrow> ((facade_error + 'a) \<times> published \<times> 'w) option" where
  "lend p m w = map_option (\<lambda>(r, w', p'). (r, p', w')) (m (w, p))"

definition from_name ::
  "('w, 'f, 'b, 'g) live_client \<Rightarrow> string \<Rightarrow> string \<Rightarrow> ('w client_state, string) run" where
  "from_name K app_name tag =
     client_op (function_from_name (lc_host K) (lc_functions K) (lc_config K) app_name tag None)"

definition deploy_function ::
  "facade_lib \<Rightarrow> machine \<Rightarrow> 'f f32_ops \<Rightarrow> ('w, 'f, 'b, 'g) live_client \<Rightarrow> deploy_config \<Rightarrow> deploy_entrypoint list \<Rightarrow>
     ('w client_state, deployed_app) run" where
  "deploy_function L M F K config entrypoints =
     bind_run (of_result (with_function_image L M (map (\<lambda>ep. fo_image (de_options ep)) entrypoints) config)) (\<lambda>config.
     let entries = deploy_plan config entrypoints;
         config = config\<lparr>dc_image_steps := append_endpoint_pip_step (map ep_options entries) (dc_image_steps config)\<rparr>;
         first_tag = sanitize_object_tag (ep_name (hd entries)) in
     bind_run (\<lambda>s. map_option (\<lambda>(r, p, s'). (map_sum id (\<lambda>a. (a, p)) r, s'))
                (lend no_published (provision L F (live_control_plane L F K) (deploy_inputs config entries) DEPLOY_BOUNDARY) s))
       (\<lambda>(provisioned, published).
     bind_run (from_name K (dc_app_name config) first_tag) (\<lambda>fid.
     give \<lparr>da_name = dc_app_name config, da_function_id = fid, da_image_id = pr_image_id provisioned,
           da_url = publish_url provisioned,
           da_endpoint_urls = fold (\<lambda>ep urls.
               case map_of (pub_endpoint_urls published) (sanitize_object_tag (ep_name ep)) of
                 Some url \<Rightarrow> bt_insert (ep_name ep) url urls
               | None \<Rightarrow> urls) entries []\<rparr>)))"

section \<open>Calls\<close>

definition no_kwargs :: "string \<rightharpoonup> unit" where "no_kwargs = Map.empty"

definition call_function ::
  "('w, 'f, 'b, 'g) live_client \<Rightarrow> string \<Rightarrow> string \<Rightarrow> string \<Rightarrow> ('w client_state, string) run" where
  "call_function K app_name entrypoint input_json =
     bind_run (from_name K app_name (sanitize_object_tag entrypoint)) (\<lambda>fid.
       client_op (invoke_cbor_with_deadline (lc_host K) (lc_invoke K) (lc_encode K) (lc_decode K) fid
         (entrypoint, input_json) no_kwargs DEPLOY_CALL_DEADLINE))"

definition call_with ::
  "facade_lib \<Rightarrow> ('w, 'f, 'b, 'g) live_client \<Rightarrow> ('i \<Rightarrow> string + string) \<Rightarrow> (json \<Rightarrow> string + 'o) \<Rightarrow>
     deployed_app \<Rightarrow> string \<Rightarrow> 'i \<Rightarrow> ('w client_state, 'o) run" where
  "call_with L K enc from_value deployed entrypoint input =
     bind_run (of_result (map_sum facade_error.Encode id (enc input))) (\<lambda>input_json.
     bind_run (call_function K (da_name deployed) entrypoint input_json) (\<lambda>envelope.
     of_result (parse_envelope (fl_json L) from_value envelope)))"

section \<open>The run path's function\<close>

definition run_inputs :: "string \<Rightarrow> string option \<Rightarrow> string \<Rightarrow> remote_config \<Rightarrow> provision_inputs" where
  "run_inputs app_name app_id entrypoint config =
     \<lparr>pi_app_name = app_name, pi_app_id = app_id,
      pi_source = \<lparr>si_local_root = rc_local_root config, si_package = rc_package config,
        si_use_cargo_scoping = rc_use_cargo_scoping config, si_modalignore_name = rc_modalignore_name config,
        si_remote_src = rc_remote_src config\<rparr>,
      pi_base_image = rc_base_image config, pi_install_rust = rc_install_rust config,
      pi_image_steps = rc_image_steps config,
      pi_cache = (case fo_cache (rc_options config) of Some c \<Rightarrow> c | None \<Rightarrow> rc_cache config),
      pi_snapshot_best_effort = False, pi_dep_prebuild = False,
      pi_entrypoints = [\<lparr>ep_name = entrypoint, ep_options = rc_options config,
        ep_timeout_secs = (case fo_timeout_secs (rc_options config) of Some t \<Rightarrow> t | None \<Rightarrow> rc_timeout_secs config)\<rparr>]\<rparr>"

definition ensure_function ::
  "facade_lib \<Rightarrow> 'f f32_ops \<Rightarrow> ('w, 'f) control_plane \<Rightarrow> string \<Rightarrow> string \<Rightarrow> string \<Rightarrow> remote_config \<Rightarrow>
     ('w \<times> published, string) run" where
  "ensure_function L F cp app_id app_name entrypoint config =
     bind_run (provision L F cp (run_inputs app_name (Some app_id) entrypoint config) RUN_BOUNDARY) (\<lambda>_.
     bind_run get_published (\<lambda>p.
       of_result (case pub_function_ids p (sanitize_object_tag entrypoint) of
         Some i \<Rightarrow> Inr i
       | None \<Rightarrow> Inl (config_error (''provision did not yield a function id for '' @ debug_str entrypoint)))))"

end
