(* ===== verification/App.thy ===== *)
theory App
  imports Deploy
begin

text \<open>
  The user's handle (\<open>crates/modal-rust/src/app.rs\<close>) and the handle of one function (\<open>function.rs\<close>): the
  constructors, local dispatch, the run path with its memo of created functions, the deploy plan and the call
  of a deployed function.

  What the handle never changes is the record \<open>app\<close>; what it keeps behind its mutexes is the record
  \<open>handle_state\<close>: the client, the memo, and the functions published so far.  A cell of the memo that was never
  filled is not observable and is left out of it.  The operations run one at a time, as the client's mutex
  makes them.  The serializers of the user's types are arguments, as is the control plane.
\<close>

section \<open>The handle\<close>

record remote_handle =
  rh_app_id :: string
  rh_app_name :: string
  rh_config :: remote_config

record 'u app =
  app_registry :: "'u registry"
  app_configs :: "(string \<times> function_options) list"
  app_remote :: "remote_handle option"

type_synonym run_function_key = "string \<times> function_options"

record 's handle_state =
  hs_client :: 's
  hs_function_ids :: "run_function_key \<rightharpoonup> string"
  hs_published :: published

definition local_with_registry :: "'u registry \<Rightarrow> 'u app" where
  "local_with_registry r = \<lparr>app_registry = r, app_configs = [], app_remote = None\<rparr>"

definition app_local :: "'u inventory \<Rightarrow> 'u app option" where
  "app_local v = map_option (\<lambda>(r, configs).
     \<lparr>app_registry = r, app_configs = by_name configs, app_remote = None\<rparr>) (from_inventory_with_configs v)"

definition from_manifest :: "(string \<times> function_options) list \<Rightarrow> 'u app" where
  "from_manifest configs = \<lparr>app_registry = new_registry, app_configs = by_name configs, app_remote = None\<rparr>"

definition new_handle_state :: "'s \<Rightarrow> 's handle_state" where
  "new_handle_state client = \<lparr>hs_client = client, hs_function_ids = Map.empty, hs_published = no_published\<rparr>"

definition connect_inner_with_client ::
  "('w, 'f, 'b, 'g) live_client \<Rightarrow> string \<Rightarrow> 'u registry \<Rightarrow> (string \<times> function_options) list \<Rightarrow> remote_config \<Rightarrow>
     ('w client_state, 'u app) run" where
  "connect_inner_with_client K name r configs run_config =
     bind_run (client_op (app_create_ephemeral (lc_host K) (lc_apps K) (lc_config K) name None)) (\<lambda>app_id.
       give \<lparr>app_registry = r, app_configs = configs,
             app_remote = Some \<lparr>rh_app_id = app_id, rh_app_name = name, rh_config = run_config\<rparr>\<rparr>)"

definition connect ::
  "facade_lib \<Rightarrow> machine \<Rightarrow> ('w, 'f, 'b, 'g) live_client \<Rightarrow> 'u inventory \<Rightarrow> string \<Rightarrow> ('w client_state, 'u app) run" where
  "connect L M K v name =
     (case from_inventory_with_configs v of
        None \<Rightarrow> panic
      | Some (r, configs) \<Rightarrow>
          connect_inner_with_client K name r (by_name configs)
            (with_detected_package (fl_env L PACKAGE) (package_from_inventory v) (default_remote_config L M)))"

definition connect_with_registry ::
  "facade_lib \<Rightarrow> machine \<Rightarrow> ('w, 'f, 'b, 'g) live_client \<Rightarrow> string \<Rightarrow> 'u registry \<Rightarrow> ('w client_state, 'u app) run" where
  "connect_with_registry L M K name r = connect_inner_with_client K name r [] (default_remote_config L M)"

definition connect_from_manifest ::
  "('w, 'f, 'b, 'g) live_client \<Rightarrow> string \<Rightarrow> (string \<times> function_options) list \<Rightarrow> remote_config \<Rightarrow>
     ('w client_state, 'u app) run" where
  "connect_from_manifest K name configs run_config =
     connect_inner_with_client K name new_registry (by_name configs) run_config"

definition config_for :: "'u app \<Rightarrow> string \<Rightarrow> function_options" where
  "config_for a name = (case map_of (app_configs a) name of Some x \<Rightarrow> x | None \<Rightarrow> default_options)"

definition known_names :: "'u app \<Rightarrow> string list" where
  "known_names a = handler_names (app_registry a)"

definition dump_app_name :: "'u app \<Rightarrow> string \<Rightarrow> string" where
  "dump_app_name a fallback = (case app_remote a of Some h \<Rightarrow> rh_app_name h | None \<Rightarrow> fallback)"

definition deploy_entrypoints :: "'u app \<Rightarrow> deploy_entrypoint list" where
  "deploy_entrypoints a =
     (if app_configs a \<noteq> [] then map (\<lambda>(name, cfg). \<lparr>de_name = name, de_options = cfg\<rparr>) (app_configs a)
      else map (\<lambda>name. \<lparr>de_name = name, de_options = default_options\<rparr>) (known_names a))"

definition deploy_entrypoints_for_dump :: "'u app \<Rightarrow> deploy_config \<Rightarrow> deploy_entrypoint list" where
  "deploy_entrypoints_for_dump a config =
     (if deploy_entrypoints a = []
      then [\<lparr>de_name = DEPLOY_WRAPPER_CALLABLE, de_options = dc_options config\<rparr>]
      else deploy_entrypoints a)"

section \<open>Functions of the run path\<close>

definition handle_of :: "'u app \<Rightarrow> ('s, remote_handle) run" where
  "handle_of a = of_result (ok_or (app_remote a) not_connected)"

definition with_client :: "('s, 'a) run \<Rightarrow> ('s handle_state, 'a) run" where
  "with_client m = (\<lambda>s. map_option (\<lambda>(r, c). (r, s\<lparr>hs_client := c\<rparr>)) (m (hs_client s)))"

definition with_published :: "('s \<times> published, 'a) run \<Rightarrow> ('s handle_state, 'a) run" where
  "with_published m = (\<lambda>s. map_option (\<lambda>(r, c, p). (r, s\<lparr>hs_client := c, hs_published := p\<rparr>))
     (m (hs_client s, hs_published s)))"

text \<open>\<open>OnceCell::get_or_try_init\<close> on the cell of a key.\<close>

definition get_or_try_init :: "run_function_key \<Rightarrow> ('s handle_state, string) run \<Rightarrow> ('s handle_state, string) run" where
  "get_or_try_init key m = (\<lambda>s.
     case hs_function_ids s key of
       Some i \<Rightarrow> Some (Inr i, s)
     | None \<Rightarrow>
         (case m s of
            None \<Rightarrow> None
          | Some (Inl e, s') \<Rightarrow> Some (Inl e, s')
          | Some (Inr i, s') \<Rightarrow> Some (Inr i, s'\<lparr>hs_function_ids := (hs_function_ids s')(key \<mapsto> i)\<rparr>)))"

text \<open>The options with the effective cache and timeout filled in are part of the key.\<close>

definition effective_options :: "remote_config \<Rightarrow> function_options \<Rightarrow> function_options" where
  "effective_options config x =
     x\<lparr>fo_cache := Some (case fo_cache x of Some c \<Rightarrow> c | None \<Rightarrow> rc_cache config),
       fo_timeout_secs := Some (case fo_timeout_secs x of Some t \<Rightarrow> t | None \<Rightarrow> rc_timeout_secs config)\<rparr>"

definition run_deadline :: "function_options \<Rightarrow> nat" where
  "run_deadline x = secs ((case fo_timeout_secs x of Some t \<Rightarrow> unat t | None \<Rightarrow> 0) + 120)"

definition create_function ::
  "facade_lib \<Rightarrow> 'f f32_ops \<Rightarrow> ('s, 'f) control_plane \<Rightarrow> remote_handle \<Rightarrow> string \<Rightarrow> function_options \<Rightarrow>
     ('s handle_state, string) run" where
  "create_function L F cp h entrypoint x =
     bind_run (of_result (apply_function_image L (rh_config h) (fo_image x))) (\<lambda>run_config.
       with_published (ensure_function L F cp (rh_app_id h) (rh_app_name h) entrypoint (run_config\<lparr>rc_options := x\<rparr>)))"

definition resolve_options ::
  "facade_lib \<Rightarrow> 'f f32_ops \<Rightarrow> ('s, 'f) control_plane \<Rightarrow> remote_handle \<Rightarrow> string \<Rightarrow> function_options \<Rightarrow>
     ('s handle_state, string \<times> nat) run" where
  "resolve_options L F cp h entrypoint options =
     (let x = effective_options (rh_config h) options in
      bind_run (get_or_try_init (entrypoint, x) (create_function L F cp h entrypoint x)) (\<lambda>fid.
        give (fid, run_deadline x)))"

definition resolve_function ::
  "facade_lib \<Rightarrow> 'f f32_ops \<Rightarrow> ('s, 'f) control_plane \<Rightarrow> 'u app \<Rightarrow> remote_handle \<Rightarrow> string \<Rightarrow>
     ('s handle_state, string \<times> nat) run" where
  "resolve_function L F cp a h entrypoint = resolve_options L F cp h entrypoint (config_for a entrypoint)"

definition remote_invoke ::
  "facade_lib \<Rightarrow> 'f f32_ops \<Rightarrow> ('w, 'f, 'b, 'g) live_client \<Rightarrow> 'u app \<Rightarrow> string \<Rightarrow> string \<Rightarrow>
     ('w client_state handle_state, string) run" where
  "remote_invoke L F K a entrypoint input_json =
     bind_run (handle_of a) (\<lambda>h.
     bind_run (resolve_function L F (live_control_plane L F K) a h entrypoint) (\<lambda>(fid, deadline).
     with_client (client_op (invoke_cbor_with_deadline (lc_host K) (lc_invoke K) (lc_encode K) (lc_decode K) fid
       (entrypoint, input_json) no_kwargs deadline))))"

definition remote_spawn ::
  "facade_lib \<Rightarrow> 'f f32_ops \<Rightarrow> ('w, 'f, 'b, 'g) live_client \<Rightarrow> 'u app \<Rightarrow> string \<Rightarrow> string \<Rightarrow>
     ('w client_state handle_state, string) run" where
  "remote_spawn L F K a entrypoint input_json =
     bind_run (handle_of a) (\<lambda>h.
     bind_run (resolve_function L F (live_control_plane L F K) a h entrypoint) (\<lambda>(fid, _).
     with_client (client_op (spawn_cbor (lc_host K) (lc_invoke K) (lc_encode K) fid (entrypoint, input_json) no_kwargs))))"

definition remote_get ::
  "('w, 'f, 'b, 'g) live_client \<Rightarrow> 'u app \<Rightarrow> string \<Rightarrow> i32 \<Rightarrow> nat option \<Rightarrow> ('w client_state handle_state, string) run" where
  "remote_get K a function_call_id index timeout =
     bind_run (handle_of a) (\<lambda>h.
     let deadline = (case timeout of Some d \<Rightarrow> d | None \<Rightarrow> secs (unat (rc_timeout_secs (rh_config h)) + 120)) in
     with_client (client_op (get_by_call_cbor (lc_host K) (lc_invoke K) (lc_decode K) function_call_id index deadline)))"

definition map_inputs :: "string \<Rightarrow> string list \<Rightarrow> ((string \<times> string) \<times> (string \<rightharpoonup> unit)) list" where
  "map_inputs entrypoint inputs_json = map (\<lambda>j. ((entrypoint, j), no_kwargs)) inputs_json"

definition remote_map ::
  "facade_lib \<Rightarrow> 'f f32_ops \<Rightarrow> ('w, 'f, 'b, 'g) live_client \<Rightarrow> 'u app \<Rightarrow> string \<Rightarrow> string list \<Rightarrow>
     ('w client_state handle_state, string list) run" where
  "remote_map L F K a entrypoint inputs_json =
     bind_run (handle_of a) (\<lambda>h.
     bind_run (resolve_function L F (live_control_plane L F K) a h entrypoint) (\<lambda>(fid, deadline).
     with_client (client_op (map_cbor (lc_host K) (lc_invoke K) (lc_encode K) (lc_decode K) fid
       (map_inputs entrypoint inputs_json) deadline))))"

definition remote_spawn_map ::
  "facade_lib \<Rightarrow> 'f f32_ops \<Rightarrow> ('w, 'f, 'b, 'g) live_client \<Rightarrow> 'u app \<Rightarrow> string \<Rightarrow> string list \<Rightarrow>
     ('w client_state handle_state, string) run" where
  "remote_spawn_map L F K a entrypoint inputs_json =
     bind_run (handle_of a) (\<lambda>h.
     bind_run (resolve_function L F (live_control_plane L F K) a h entrypoint) (\<lambda>(fid, _).
     bind_run (with_client (client_op (spawn_map_cbor (lc_host K) (lc_invoke K) (lc_encode K) fid
       (map_inputs entrypoint inputs_json)))) (\<lambda>(cid, _). give cid)))"

definition remote_envelope ::
  "facade_lib \<Rightarrow> 'f f32_ops \<Rightarrow> ('w, 'f, 'b, 'g) live_client \<Rightarrow> 'u app \<Rightarrow> string \<Rightarrow> string \<Rightarrow>
     ('w client_state handle_state, string) run" where
  "remote_envelope L F K a entrypoint input_json = remote_invoke L F K a entrypoint input_json"

definition DESCRIBE_TAG :: string where "DESCRIBE_TAG = ''__describe__''"
definition DESCRIBE_SENTINEL :: string where "DESCRIBE_SENTINEL = ''__modal_rust_describe__''"

definition remote_describe_manifest ::
  "facade_lib \<Rightarrow> 'f f32_ops \<Rightarrow> ('w, 'f, 'b, 'g) live_client \<Rightarrow> 'u app \<Rightarrow> ('w client_state handle_state, string) run" where
  "remote_describe_manifest L F K a =
     bind_run (handle_of a) (\<lambda>h.
     bind_run (resolve_options L F (live_control_plane L F K) h DESCRIBE_TAG (default_options\<lparr>fo_memory_mb := Some 4096\<rparr>))
       (\<lambda>(fid, deadline).
     with_client (client_op (invoke_cbor_with_deadline (lc_host K) (lc_invoke K) (lc_encode K) (lc_decode K) fid
       (DESCRIBE_SENTINEL, []) no_kwargs deadline))))"

section \<open>Deployed functions\<close>

definition call_envelope ::
  "('w, 'f, 'b, 'g) live_client \<Rightarrow> 'u app \<Rightarrow> string \<Rightarrow> string \<Rightarrow> string \<Rightarrow> ('w client_state handle_state, string) run" where
  "call_envelope K a app_name entrypoint input_json =
     bind_run (handle_of a) (\<lambda>h. with_client (call_function K app_name entrypoint input_json))"

definition deploy_with ::
  "facade_lib \<Rightarrow> machine \<Rightarrow> 'f f32_ops \<Rightarrow> ('w, 'f, 'b, 'g) live_client \<Rightarrow> 'u app \<Rightarrow> deploy_config \<Rightarrow>
     ('w client_state handle_state, deployed_app) run" where
  "deploy_with L M F K a config =
     bind_run (handle_of a) (\<lambda>h. with_client (deploy_function L M F K config (deploy_entrypoints a)))"

definition deploy ::
  "facade_lib \<Rightarrow> machine \<Rightarrow> 'f f32_ops \<Rightarrow> ('w, 'f, 'b, 'g) live_client \<Rightarrow> 'u app \<Rightarrow>
     ('w client_state handle_state, deployed_app) run" where
  "deploy L M F K a = deploy_with L M F K a (default_deploy_config L M)"

definition call_deployed_name ::
  "facade_lib \<Rightarrow> ('w, 'f, 'b, 'g) live_client \<Rightarrow> ('i \<Rightarrow> string + string) \<Rightarrow> (json \<Rightarrow> string + 'o) \<Rightarrow> 'u app \<Rightarrow>
     string \<Rightarrow> string \<Rightarrow> 'i \<Rightarrow> ('w client_state handle_state, 'o) run" where
  "call_deployed_name L K enc from_value a app_name entrypoint input =
     bind_run (handle_of a) (\<lambda>h.
     bind_run (of_result (map_sum facade_error.Encode id (enc input))) (\<lambda>input_json.
     bind_run (with_client (call_function K app_name entrypoint input_json)) (\<lambda>envelope.
     of_result (parse_envelope (fl_json L) from_value envelope))))"

definition call_deployed ::
  "facade_lib \<Rightarrow> ('w, 'f, 'b, 'g) live_client \<Rightarrow> ('i \<Rightarrow> string + string) \<Rightarrow> (json \<Rightarrow> string + 'o) \<Rightarrow> 'u app \<Rightarrow>
     deployed_app \<Rightarrow> string \<Rightarrow> 'i \<Rightarrow> ('w client_state handle_state, 'o) run" where
  "call_deployed L K enc from_value a deployed entrypoint input =
     bind_run (handle_of a) (\<lambda>h. with_client (call_with L K enc from_value deployed entrypoint input))"

section \<open>One function\<close>

text \<open>In process: the handler runs in the caller's thread, and a panic of it unwinds through.\<close>

definition function_local ::
  "('i \<Rightarrow> string + string) \<Rightarrow> (string \<Rightarrow> string + 'o) \<Rightarrow> 'u app \<Rightarrow> string \<Rightarrow> 'i \<Rightarrow>
     ('u, facade_error + 'o) call" where
  "function_local enc from_slice a name input t =
     (case get_handler (app_registry a) name of
        None \<Rightarrow> Some (Returned (Inl (facade_error.UnknownEntrypoint name (known_names a))), t)
      | Some handler \<Rightarrow>
          (case enc input of
             Inl e \<Rightarrow> Some (Returned (Inl (facade_error.Encode e)), t)
           | Inr bs \<Rightarrow>
               (case handler bs t of
                  None \<Rightarrow> None
                | Some (Unwound, t') \<Rightarrow> Some (Unwound, t')
                | Some (Returned r, t') \<Rightarrow>
                    Some (Returned (and_then (map_sum Runner id r) (\<lambda>out. map_sum facade_error.Decode id (from_slice out))), t'))))"

definition function_remote ::
  "facade_lib \<Rightarrow> 'f f32_ops \<Rightarrow> ('w, 'f, 'b, 'g) live_client \<Rightarrow> ('i \<Rightarrow> string + string) \<Rightarrow> (json \<Rightarrow> string + 'o) \<Rightarrow>
     'u app \<Rightarrow> string \<Rightarrow> 'i \<Rightarrow> ('w client_state handle_state, 'o) run" where
  "function_remote L F K enc from_value a name input =
     bind_run (of_result (map_sum facade_error.Encode id (enc input))) (\<lambda>input_json.
     bind_run (remote_invoke L F K a name input_json) (\<lambda>envelope.
     of_result (parse_envelope (fl_json L) from_value envelope)))"

definition function_spawn ::
  "facade_lib \<Rightarrow> 'f f32_ops \<Rightarrow> ('w, 'f, 'b, 'g) live_client \<Rightarrow> ('i \<Rightarrow> string + string) \<Rightarrow> 'u app \<Rightarrow> string \<Rightarrow> 'i \<Rightarrow>
     ('w client_state handle_state, string) run" where
  "function_spawn L F K enc a name input =
     bind_run (of_result (map_sum facade_error.Encode id (enc input))) (remote_spawn L F K a name)"

text \<open>\<open>collect\<close> into a result: the first error stops.\<close>

definition collect_results :: "('a \<Rightarrow> facade_error + 'b) \<Rightarrow> 'a list \<Rightarrow> facade_error + 'b list" where
  "collect_results f xs = try_fold (\<lambda>x ys. and_then (f x) (\<lambda>y. Inr (ys @ [y]))) xs []"

definition function_map ::
  "facade_lib \<Rightarrow> 'f f32_ops \<Rightarrow> ('w, 'f, 'b, 'g) live_client \<Rightarrow> ('i \<Rightarrow> string + string) \<Rightarrow> (json \<Rightarrow> string + 'o) \<Rightarrow>
     'u app \<Rightarrow> string \<Rightarrow> 'i list \<Rightarrow> ('w client_state handle_state, 'o list) run" where
  "function_map L F K enc from_value a name inputs =
     bind_run (of_result (collect_results (\<lambda>i. map_sum facade_error.Encode id (enc i)) inputs)) (\<lambda>inputs_json.
     bind_run (remote_map L F K a name inputs_json) (\<lambda>envelopes.
     of_result (collect_results (parse_envelope (fl_json L) from_value) envelopes)))"

definition function_starmap ::
  "facade_lib \<Rightarrow> 'f f32_ops \<Rightarrow> ('w, 'f, 'b, 'g) live_client \<Rightarrow> ('i \<Rightarrow> string + string) \<Rightarrow> (json \<Rightarrow> string + 'o) \<Rightarrow>
     'u app \<Rightarrow> string \<Rightarrow> 'i list \<Rightarrow> ('w client_state handle_state, 'o list) run" where
  "function_starmap L F K enc from_value a name inputs = function_map L F K enc from_value a name inputs"

text \<open>The outputs are decoded as \<open>IgnoredAny\<close>, which takes any value.\<close>

definition function_for_each ::
  "facade_lib \<Rightarrow> 'f f32_ops \<Rightarrow> ('w, 'f, 'b, 'g) live_client \<Rightarrow> ('i \<Rightarrow> string + string) \<Rightarrow> 'u app \<Rightarrow> string \<Rightarrow> 'i list \<Rightarrow>
     ('w client_state handle_state, unit) run" where
  "function_for_each L F K enc a name inputs =
     bind_run (function_map L F K enc (\<lambda>_. Inr ()) a name inputs) (\<lambda>_. give ())"

definition function_spawn_map ::
  "facade_lib \<Rightarrow> 'f f32_ops \<Rightarrow> ('w, 'f, 'b, 'g) live_client \<Rightarrow> ('i \<Rightarrow> string + string) \<Rightarrow> 'u app \<Rightarrow> string \<Rightarrow> 'i list \<Rightarrow>
     ('w client_state handle_state, string) run" where
  "function_spawn_map L F K enc a name inputs =
     bind_run (of_result (collect_results (\<lambda>i. map_sum facade_error.Encode id (enc i)) inputs)) (remote_spawn_map L F K a name)"

definition function_call_get ::
  "facade_lib \<Rightarrow> ('w, 'f, 'b, 'g) live_client \<Rightarrow> (json \<Rightarrow> string + 'o) \<Rightarrow> 'u app \<Rightarrow> string \<Rightarrow> nat option \<Rightarrow>
     ('w client_state handle_state, 'o) run" where
  "function_call_get L K from_value a function_call_id timeout =
     bind_run (remote_get K a function_call_id 0 timeout) (\<lambda>envelope.
     of_result (parse_envelope (fl_json L) from_value envelope))"

section \<open>Reading the runner's envelope\<close>

text \<open>The one thing an envelope cannot carry: details that are \<open>null\<close> read back as none.\<close>

fun without_null :: "runner_error \<Rightarrow> runner_error" where
  "without_null (Function m (Some JNull)) = Function m None"
| "without_null e = e"

lemma parse_success:
  "json_value J line = Inr (success_envelope v) \<Longrightarrow>
   parse_envelope J from_value line = map_sum facade_error.Decode id (from_value v)"
  by (simp add: parse_envelope_def success_envelope_def)

lemma parse_failure:
  "json_value J line = Inr (to_envelope e) \<Longrightarrow> parse_envelope J from_value line = Inl (Runner (without_null e))"
proof -
  have "reconstruct_runner_error (JObj [(''kind'', JStr (error_kind e)), (''message'', JStr (error_message e)),
      (''details'', case error_details e of Some d \<Rightarrow> d | None \<Rightarrow> JNull), (''backtrace'', JStr (error_backtrace e))]) = without_null e"
  proof (cases e)
    case (Function m d)
    then show ?thesis
      by (cases "e" rule: without_null.cases) (auto simp: reconstruct_runner_error_def str_field_def Let_def split: option.split json.split)
  qed (simp_all add: reconstruct_runner_error_def str_field_def Let_def)
  then show "json_value J line = Inr (to_envelope e) \<Longrightarrow> parse_envelope J from_value line = Inl (Runner (without_null e))"
    by (simp add: parse_envelope_def to_envelope_def)
qed

lemma respond_handler:
  assumes "get_handler r name = Some h" and "json_value J raw = Inr j" and "respond J r name raw t = Some ((env, ok), t')"
  obtains (good) out v where "run_handler h raw t = Some (Inr out, t')" "json_value J out = Inr v" "env = success_envelope v"
  | (garbage) out e where "run_handler h raw t = Some (Inr out, t')" "json_value J out = Inl e"
      "env = to_envelope (runner_error.Encode (''handler output was not valid JSON: '' @ e))"
  | (bad) e where "run_handler h raw t = Some (Inl e, t')" "env = to_envelope e"
  using assms by (auto simp: respond_def split: option.splits sum.splits)


text \<open>A library and an app for the witness: one handler that echoes its input.\<close>

definition echo_lib :: json_lib where
  "echo_lib = \<lparr>json_value = (\<lambda>s. if s = ''line'' then Inr (success_envelope (JStr ''hi'')) else Inr (JStr s)),
     json_text = (\<lambda>_. Inr ''line''), frame_kind = (\<lambda>_. Inr None), serve_request = (\<lambda>s. Inl s)\<rparr>"

definition echo_app :: "unit app" where
  "echo_app = local_with_registry (new_registry\<lparr>handlers := [(''echo'', \<lambda>s t. Some (Returned (Inr s), t))]\<rparr>)"

definition echo_value :: "json \<Rightarrow> string + string" where
  "echo_value j = (case j of JStr s \<Rightarrow> Inr s | _ \<Rightarrow> Inl ''not a string'')"


end
