(* ===== verification/Handle.thy ===== *)
theory Handle
  imports App Provision
begin

text \<open>
  What holds of a connected handle over its whole life: the operations as transitions of its state, the memo of
  created functions as a cache that never forgets, and the published set as a union that never loses a
  function the memo still hands out.
\<close>

section \<open>What a run keeps\<close>

text \<open>\<open>keeps I m C\<close>: \<open>m\<close> preserves \<open>I\<close> whether it succeeds or fails, and its results satisfy \<open>C\<close>.\<close>

definition keeps :: "('s \<Rightarrow> bool) \<Rightarrow> ('s, 'a) run \<Rightarrow> ('a \<Rightarrow> bool) \<Rightarrow> bool" where
  "keeps I m C \<longleftrightarrow> (\<forall>s r s'. m s = Some (r, s') \<longrightarrow> I s \<longrightarrow> I s' \<and> (\<forall>a. r = Inr a \<longrightarrow> C a))"

abbreviation (input) "always \<equiv> \<lambda>_. True"

named_theorems keeps_rules

lemma keepsD: "keeps I m C \<Longrightarrow> m s = Some (r, s') \<Longrightarrow> I s \<Longrightarrow> I s' \<and> (\<forall>a. r = Inr a \<longrightarrow> C a)"
  unfolding keeps_def by blast

lemma keeps_bind:
  assumes "keeps I m C" and "\<And>a. C a \<Longrightarrow> keeps I (f a) D"
  shows "keeps I (bind_run m f) D"
  unfolding keeps_def
proof (intro allI impI)
  fix s r s'
  assume run: "bind_run m f s = Some (r, s')" and I: "I s"
  from run consider e where "m s = Some (Inl e, s')" "r = Inl e" | a s1 where "m s = Some (Inr a, s1)" "f a s1 = Some (r, s')"
    by (auto simp: bind_run_Some_iff)
  then show "I s' \<and> (\<forall>a. r = Inr a \<longrightarrow> D a)"
  proof cases
    case 1
    with keepsD [OF assms(1) 1(1) I] show ?thesis by simp
  next
    case 2
    from keepsD [OF assms(1) 2(1) I] have "I s1" "C a" by auto
    with keepsD [OF assms(2) 2(2)] show ?thesis by blast
  qed
qed

lemma keeps_bind_any [keeps_rules]:
  "keeps I m always \<Longrightarrow> (\<And>a. keeps I (f a) D) \<Longrightarrow> keeps I (bind_run m f) D"
  by (rule keeps_bind)

lemma keeps_pure [keeps_rules]:
  "keeps I (give a) always" "keeps I (of_result q) always" "keeps I panic C" "keeps I (fail e) C"
  by (auto simp: keeps_def panic_def)

lemma keeps_for [keeps_rules]: "(\<And>x a. keeps I (f x a) always) \<Longrightarrow> keeps I (for_run f xs a) always"
  by (induction xs arbitrary: a) (auto intro: keeps_rules)

lemma keeps_case [keeps_rules]:
  "(\<And>e. keeps I (f e) C) \<Longrightarrow> keeps I g C \<Longrightarrow> keeps I (case pl of Single e \<Rightarrow> f e | Many \<Rightarrow> g) C"
  "(\<And>x. keeps I (f2 x) C) \<Longrightarrow> keeps I g2 C \<Longrightarrow> keeps I (case o1 of Some x \<Rightarrow> f2 x | None \<Rightarrow> g2) C"
  "keeps I m1 C \<Longrightarrow> keeps I m2 C \<Longrightarrow> keeps I (if c then m1 else m2) C"
  "(\<And>x y. keeps I (f3 x y) C) \<Longrightarrow> keeps I (case p of (x, y) \<Rightarrow> f3 x y) C"
  by (simp_all split: provision_plan.split option.split prod.split)

section \<open>The published set\<close>

text \<open>Every published id is a real one, and the set covers the tags \<open>T\<close>.\<close>

definition covers :: "string set \<Rightarrow> published \<Rightarrow> bool" where
  "covers T p \<longleftrightarrow> T \<subseteq> dom (pub_function_ids p) \<and> [] \<notin> ran (pub_function_ids p)"

lemma keeps_plane [keeps_rules]: "keeps (\<lambda>s. covers T (snd s)) (on_plane m) always"
  by (auto simp: keeps_def on_plane_def)

lemma keeps_get_published [keeps_rules]: "keeps (\<lambda>s. covers T (snd s)) get_published always"
  by (auto simp: keeps_def get_published_def)

lemma covers_record: "covers T p \<Longrightarrow> cr_function_id c \<noteq> [] \<Longrightarrow> covers T (record_created tag c p)"
  by (auto simp: covers_def record_created_def ran_def)

definition real_ids :: "('w, 'f) control_plane \<Rightarrow> bool" where
  "real_ids cp \<longleftrightarrow> (\<forall>app_id pre fspec w c w'. create cp app_id pre fspec w = Some (Inr c, w') \<longrightarrow> cr_function_id c \<noteq> [])"

lemma keeps_create:
  "real_ids cp \<Longrightarrow> keeps (\<lambda>s. covers T (snd s)) (on_plane (create cp app_id pre fspec)) (\<lambda>c. cr_function_id c \<noteq> [])"
  unfolding keeps_def on_plane_def real_ids_def by (auto split: prod.splits) blast

lemma keeps_note: "cr_function_id c \<noteq> [] \<Longrightarrow> keeps (\<lambda>s. covers T (snd s)) (note_created tag c) always"
  by (auto simp: keeps_def note_created_def covers_record)

lemma keeps_entrypoint [keeps_rules]:
  assumes "real_ids cp"
  shows "keeps (\<lambda>s. covers T (snd s)) (create_entrypoint F cp inp b pl rr app_id img client source ep url) always"
proof -
  have finish: "keeps (\<lambda>s. covers T (snd s)) (bind_run (on_plane (create cp app_id pre fspec)) (\<lambda>c.
      bind_run (note_created tag c) (\<lambda>_. case pl of Single _ \<Rightarrow> publish_union cp inp b app_id | Many \<Rightarrow> give url))) always"
    for pre fspec tag
    unfolding publish_union_def
    by (rule keeps_bind [OF keeps_create [OF assms]], rule keeps_bind [OF keeps_note]) (assumption | intro keeps_rules)+
  show ?thesis
    unfolding create_entrypoint_def Let_def by (intro keeps_rules finish)
qed

lemma keeps_provision:
  assumes "real_ids cp"
  shows "keeps (\<lambda>s. covers T (snd s)) (provision L F cp inp b) always"
  unfolding provision_def publish_union_def Let_def by (intro keeps_rules assms)

lemma created_real: "created_function_from_response resp = Inr c \<Longrightarrow> cf_function_id c \<noteq> []"
  by (cases "fr_handle_metadata resp") (auto simp: created_function_from_response_def split: if_splits)

lemma live_real_ids: "real_ids (live_control_plane L F K)"
  by (auto simp: real_ids_def live_control_plane_def live_create_def bind_run_Inr_iff client_op_def function_create_def
      bind_io_Inr_iff dest: created_real [OF sym])

section \<open>The operations as transitions\<close>

datatype handle_op =
    RemoteOp string string
  | SpawnOp string string
  | GetOp string i32 "nat option"
  | MapOp string "string list"
  | SpawnMapOp string "string list"
  | DescribeOp
  | CallOp string string string
  | DeployOp deploy_config

definition discard :: "('s, 'a) run \<Rightarrow> ('s, unit) run" where
  "discard m = bind_run m (\<lambda>_. give ())"

fun run_op ::
  "facade_lib \<Rightarrow> machine \<Rightarrow> 'f f32_ops \<Rightarrow> ('w, 'f, 'b, 'g) live_client \<Rightarrow> 'u app \<Rightarrow> handle_op \<Rightarrow>
     ('w client_state handle_state, unit) run" where
  "run_op L M F K a (RemoteOp e j) = discard (remote_invoke L F K a e j)"
| "run_op L M F K a (SpawnOp e j) = discard (remote_spawn L F K a e j)"
| "run_op L M F K a (GetOp cid i d) = discard (remote_get K a cid i d)"
| "run_op L M F K a (MapOp e js) = discard (remote_map L F K a e js)"
| "run_op L M F K a (SpawnMapOp e js) = discard (remote_spawn_map L F K a e js)"
| "run_op L M F K a DescribeOp = discard (remote_describe_manifest L F K a)"
| "run_op L M F K a (CallOp n e j) = discard (call_envelope K a n e j)"
| "run_op L M F K a (DeployOp c) = discard (deploy_with L M F K a c)"

inductive handle_step ::
  "facade_lib \<Rightarrow> machine \<Rightarrow> 'f f32_ops \<Rightarrow> ('w, 'f, 'b, 'g) live_client \<Rightarrow> 'u app \<Rightarrow>
     'w client_state handle_state \<Rightarrow> 'w client_state handle_state \<Rightarrow> bool"
  for L M F K a where
  operation: "run_op L M F K a op s = Some (r, s') \<Longrightarrow> handle_step L M F K a s s'"
| elsewhere: "handle_step L M F K a s (s\<lparr>hs_client := c\<rparr>)"
  \<comment> \<open>the world moves on by itself\<close>

inductive_cases handle_stepE: "handle_step L M F K a s s'"

inductive reaches ::
  "facade_lib \<Rightarrow> machine \<Rightarrow> 'f f32_ops \<Rightarrow> ('w, 'f, 'b, 'g) live_client \<Rightarrow> 'u app \<Rightarrow>
     'w client_state handle_state \<Rightarrow> 'w client_state handle_state \<Rightarrow> bool"
  for L M F K a s where
  here: "reaches L M F K a s s"
| further: "reaches L M F K a s s1 \<Longrightarrow> handle_step L M F K a s1 s2 \<Longrightarrow> reaches L M F K a s s2"

section \<open>The handle's invariant\<close>

text \<open>The memo extends \<open>m0\<close>, its ids are real, and the published set has the tag of every key in it.\<close>

definition handle_ok :: "(run_function_key \<rightharpoonup> string) \<Rightarrow> 's handle_state \<Rightarrow> bool" where
  "handle_ok m0 s \<longleftrightarrow>
     m0 \<subseteq>\<^sub>m hs_function_ids s \<and> [] \<notin> ran (hs_function_ids s) \<and>
     covers ((\<lambda>(e, _). sanitize_object_tag e) ` dom (hs_function_ids s)) (hs_published s)"

lemma ok_with_client [keeps_rules]: "keeps (handle_ok m0) (with_client m) always"
  by (auto simp: keeps_def with_client_def handle_ok_def)

text \<open>One creation: it publishes the tag, keeps the memo, and its id is real.\<close>

lemma ensure_keeps:
  assumes "real_ids cp"
  shows "keeps (\<lambda>s. covers T (snd s)) (ensure_function L F cp app_id n e cfg) always"
  unfolding ensure_function_def by (intro keeps_rules keeps_provision assms)

lemma ensure_real:
  assumes "real_ids cp" and "ensure_function L F cp app_id n e cfg s = Some (Inr i, s')" and "covers T (snd s)"
  shows "i \<noteq> [] \<and> covers (insert (sanitize_object_tag e) T) (snd s')"
proof -
  from assms(2) have i: "pub_function_ids (snd s') (sanitize_object_tag e) = Some i"
    by (auto simp: ensure_function_def bind_run_Inr_iff get_published_def split: prod.splits option.splits)
  from keepsD [OF ensure_keeps [OF assms(1)] assms(2), of T] assms(3) have "covers T (snd s')" by simp
  with i show ?thesis by (auto simp: covers_def ran_def)
qed

lemma map_le_fresh: "m \<subseteq>\<^sub>m f \<Longrightarrow> f k = None \<Longrightarrow> m \<subseteq>\<^sub>m f(k \<mapsto> v)"
  unfolding map_le_def by (metis domIff fun_upd_other)

lemma resolve_keeps [keeps_rules]:
  assumes "real_ids cp"
  shows "keeps (handle_ok m0) (resolve_options L F cp h e x) always"
proof -
  let ?key = "(e, effective_options (rh_config h) x)"
  let ?create = "create_function L F cp h e (effective_options (rh_config h) x)"
  let ?tags = "\<lambda>s. (\<lambda>(e, _). sanitize_object_tag e) ` dom (hs_function_ids s)"
  have create: "handle_ok m0 s' \<and> hs_function_ids s' = hs_function_ids s \<and>
      (\<forall>i. r = Inr i \<longrightarrow> i \<noteq> [] \<and> covers (insert (sanitize_object_tag e) (?tags s)) (hs_published s'))"
    if run: "?create s = Some (r, s')" and ok: "handle_ok m0 s" for s r s'
  proof (cases "apply_function_image L (rh_config h) (fo_image (effective_options (rh_config h) x))")
    case (Inl err)
    with run ok show ?thesis by (simp add: create_function_def)
  next
    case (Inr cfg)
    let ?m = "ensure_function L F cp (rh_app_id h) (rh_app_name h) e (cfg\<lparr>rc_options := effective_options (rh_config h) x\<rparr>)"
    from run Inr obtain c p where m: "?m (hs_client s, hs_published s) = Some (r, (c, p))"
      and s': "s' = s\<lparr>hs_client := c, hs_published := p\<rparr>"
      by (auto simp: create_function_def with_published_def)
    from ok have cov: "covers (?tags s) (snd (hs_client s, hs_published s))" by (simp add: handle_ok_def)
    have "i \<noteq> [] \<and> covers (insert (sanitize_object_tag e) (?tags s)) p" if "r = Inr i" for i
      using ensure_real [OF assms m [unfolded that] cov] by simp
    with keepsD [OF ensure_keeps [OF assms] m cov] ok show ?thesis
      by (auto simp: s' handle_ok_def)
  qed
  have "keeps (handle_ok m0) (get_or_try_init ?key ?create) always"
    unfolding keeps_def
  proof (intro allI impI conjI)
    fix s r s'
    assume run: "get_or_try_init ?key ?create s = Some (r, s')" and ok: "handle_ok m0 s"
    show "handle_ok m0 s'"
    proof (cases "hs_function_ids s ?key")
      case None
      with run obtain r1 s1 where c: "?create s = Some (r1, s1)"
        and s': "s' = (case r1 of Inl _ \<Rightarrow> s1 | Inr i \<Rightarrow> s1\<lparr>hs_function_ids := (hs_function_ids s1)(?key \<mapsto> i)\<rparr>)"
        by (auto simp: get_or_try_init_def split: option.splits sum.splits)
      from create [OF c ok] None ok s' show ?thesis
        by (cases r1) (auto simp: handle_ok_def map_le_fresh ran_map_upd)
    next
      case (Some i)
      with run ok show ?thesis by (simp add: get_or_try_init_def)
    qed
  qed simp
  then show ?thesis unfolding resolve_options_def Let_def by (intro keeps_rules)
qed

lemma run_op_keeps: "keeps (handle_ok m0) (run_op L M F K a op) always"
  by (cases op)
     (simp_all add: discard_def remote_invoke_def remote_spawn_def remote_get_def remote_map_def remote_spawn_map_def
       remote_describe_manifest_def call_envelope_def deploy_with_def handle_of_def resolve_function_def Let_def,
      (intro keeps_rules live_real_ids)+)

lemma step_ok: "handle_step L M F K a s s' \<Longrightarrow> handle_ok m0 s \<Longrightarrow> handle_ok m0 s'"
  by (erule handle_stepE) (use keepsD [OF run_op_keeps] in blast, simp add: handle_ok_def)

lemma reaches_ok: "reaches L M F K a s s' \<Longrightarrow> handle_ok m0 s \<Longrightarrow> handle_ok m0 s'"
  by (induction rule: reaches.induct) (auto intro: step_ok)

section \<open>Properties\<close>

lemma fresh_ok: "handle_ok Map.empty (new_handle_state c)"
  by (simp add: handle_ok_def new_handle_state_def covers_def no_published_def)

text \<open>A history: operations of the handle and moves of the world.  \<open>None\<close> is an operation that never returns.\<close>

datatype 'c event = Operation handle_op | Elsewhere 'c

fun run_events ::
  "facade_lib \<Rightarrow> machine \<Rightarrow> 'f f32_ops \<Rightarrow> ('w, 'f, 'b, 'g) live_client \<Rightarrow> 'u app \<Rightarrow> 'w client_state event list \<Rightarrow>
     'w client_state handle_state \<Rightarrow> 'w client_state handle_state option" where
  "run_events L M F K a [] s = Some s"
| "run_events L M F K a (Operation op # evs) s =
     (case run_op L M F K a op s of None \<Rightarrow> None | Some (_, s') \<Rightarrow> run_events L M F K a evs s')"
| "run_events L M F K a (Elsewhere c # evs) s = run_events L M F K a evs (s\<lparr>hs_client := c\<rparr>)"

lemma reaches_trans: "reaches L M F K a s1 s2 \<Longrightarrow> reaches L M F K a s s1 \<Longrightarrow> reaches L M F K a s s2"
  by (induction rule: reaches.induct) (auto intro: reaches.further)

lemma reaches_step: "handle_step L M F K a s s1 \<Longrightarrow> reaches L M F K a s1 s2 \<Longrightarrow> reaches L M F K a s s2"
  by (rule reaches_trans) (auto intro: reaches.intros)

lemma run_events_reaches: "run_events L M F K a evs s = Some s' \<Longrightarrow> reaches L M F K a s s'"
proof (induction evs arbitrary: s)
  case (Cons ev evs)
  then show ?case
    by (cases ev) (auto split: option.splits intro: reaches_step handle_step.intros)
qed (simp add: reaches.here)


lemma resolve_memo:
  "hs_function_ids s (e, effective_options (rh_config h) x) = Some i \<Longrightarrow>
   resolve_options L F cp h e x s = Some (Inr (i, run_deadline (effective_options (rh_config h) x)), s)"
  by (simp add: resolve_options_def Let_def bind_run_def get_or_try_init_def give_def)

lemma resolve_fills:
  "resolve_options L F cp h e x s = Some (Inr (i, d), s') \<Longrightarrow>
   hs_function_ids s' (e, effective_options (rh_config h) x) = Some i \<and> d = run_deadline (effective_options (rh_config h) x)"
  by (auto simp: resolve_options_def Let_def bind_run_Inr_iff get_or_try_init_def split: option.splits sum.splits)

lemma resolved_again:
  assumes "reaches L M F K a (new_handle_state c) s"
    and "resolve_options L F (live_control_plane L F K) h e x s = Some (Inr (i, d), s1)"
    and "reaches L M F K a s1 s2"
  shows "resolve_options L F (live_control_plane L F K) h e x s2 = Some (Inr (i, d), s2)"
proof -
  from resolve_fills [OF assms(2)] have i: "hs_function_ids s1 (e, effective_options (rh_config h) x) = Some i"
    and d: "d = run_deadline (effective_options (rh_config h) x)" by auto
  from reaches_ok [OF assms(1) fresh_ok] have "handle_ok Map.empty s" .
  with keepsD [OF resolve_keeps [OF live_real_ids] assms(2)] have "handle_ok Map.empty s1" by blast
  then have "handle_ok (hs_function_ids s1) s1" by (simp add: handle_ok_def)
  with reaches_ok [OF assms(3)] have "hs_function_ids s1 \<subseteq>\<^sub>m hs_function_ids s2" by (auto simp: handle_ok_def)
  with i have "hs_function_ids s2 (e, effective_options (rh_config h) x) = Some i"
    unfolding map_le_def by (metis domI)
  from resolve_memo [OF this] show ?thesis by (simp add: d)
qed

text \<open>C10. A function is created once: after a first resolution, resolving the same entrypoint again gives the same id
  at once, without touching the client, however much has been done with the handle in between.\<close>

theorem resolved_once:
  "case run_events L M F K a evs (new_handle_state c) of
     None \<Rightarrow> True
   | Some s \<Rightarrow>
       (case resolve_function L F (live_control_plane L F K) a h e s of
          Some (Inr found, s1) \<Rightarrow>
            (case run_events L M F K a later s1 of
               None \<Rightarrow> True
             | Some s2 \<Rightarrow> resolve_function L F (live_control_plane L F K) a h e s2 = Some (Inr found, s2))
        | _ \<Rightarrow> True)"
  by (auto simp: resolve_function_def split: option.split sum.split prod.split
      dest!: run_events_reaches intro: resolved_again)

end
