(* ===== verification/Dump.thy ===== *)
theory Dump
  imports App Planning Provision
begin

text \<open>
  The offline dump (\<open>crates/modal-rust/src/dump.rs\<close>): the provisioning sequence run on a control plane that
  records what it is asked for and hands out numbered ids, the manifest of the run and of the deploy path, and
  its rendering.

  The futures of the recording plane are always ready, so driving them is running them.
\<close>

section \<open>Manifests\<close>

datatype run_mode = RunMode | DeployMode

datatype mount_role = ClientRole | SourceRole | PrebuildStubRole | PythonStandaloneRole

text \<open>The fields of \<open>PlannedRequest::FunctionCreate\<close>.\<close>

record 'f planned_create =
  pn_module :: string
  pn_function :: string
  pn_mount_ids_count :: nat
  pn_gpu :: "string option"
  pn_milli_cpu :: u32
  pn_memory_mb :: u32
  pn_timeout_secs :: u32
  pn_volume_mounts :: "(string \<times> string) list"
  pn_secret_count :: nat
  pn_retries :: "u32 option"
  pn_retry_backoff_coefficient :: "'f option"
  pn_retry_initial_delay_ms :: "u32 option"
  pn_retry_max_delay_ms :: "u32 option"
  pn_schedule :: "string option"
  pn_min_containers :: "u32 option"
  pn_max_containers :: "u32 option"
  pn_buffer_containers :: "u32 option"
  pn_scaledown_window :: "u32 option"
  pn_checkpointing_enabled :: bool
  pn_webhook_method :: "string option"
  pn_function_data_is_none :: bool

datatype 'f planned_request =
    AppCreate string
  | AppGetOrCreate string
  | VolumeGetOrCreate string bool
  | SecretGetOrCreate string "string list" bool
  | MountGetOrCreate mount_role
  | ImageGetOrCreate "string list" nat
  | FunctionPrecreate string
  | FunctionCreate "'f planned_create"
  | AppPublish string

record 'f manifest =
  mf_mode :: run_mode
  mf_app_name :: string
  mf_requests :: "'f planned_request list"

section \<open>The recording plane\<close>

record 'f recording =
  rp_counter :: nat
  rp_requests :: "'f planned_request list"

definition new_recording :: "'f recording" where "new_recording = \<lparr>rp_counter = 0, rp_requests = []\<rparr>"

definition push_request :: "'f planned_request \<Rightarrow> 'a \<Rightarrow> ('f recording, 'a) run" where
  "push_request q a s = Some (Inr a, s\<lparr>rp_requests := rp_requests s @ [q]\<rparr>)"

definition push_numbered :: "'f planned_request \<Rightarrow> string \<Rightarrow> ('f recording, string) run" where
  "push_numbered q kind s =
     (let n = Suc (rp_counter s)
      in Some (Inr (kind @ dec n), s\<lparr>rp_counter := n, rp_requests := rp_requests s @ [q]\<rparr>))"

definition create_request_of :: "'f planned_function \<Rightarrow> 'f planned_create" where
  "create_request_of p =
     \<lparr>pn_module = pl_module_name p, pn_function = pl_function_name p, pn_mount_ids_count = pl_mount_ids_count p,
      pn_gpu = pl_gpu p, pn_milli_cpu = pl_milli_cpu p, pn_memory_mb = pl_memory_mb p,
      pn_timeout_secs = pl_timeout_secs p, pn_volume_mounts = pl_volume_mounts p,
      pn_secret_count = pl_secret_ids_count p, pn_retries = pl_retries p,
      pn_retry_backoff_coefficient = pl_retry_backoff_coefficient p,
      pn_retry_initial_delay_ms = pl_retry_initial_delay_ms p, pn_retry_max_delay_ms = pl_retry_max_delay_ms p,
      pn_schedule = pl_schedule p, pn_min_containers = pl_min_containers p, pn_max_containers = pl_max_containers p,
      pn_buffer_containers = pl_buffer_containers p, pn_scaledown_window = pl_scaledown_window p,
      pn_checkpointing_enabled = pl_checkpointing_enabled p, pn_webhook_method = pl_webhook_method p,
      pn_function_data_is_none = pl_function_data_is_none p\<rparr>"

definition recording_plane :: "facade_lib \<Rightarrow> 'f f32_ops \<Rightarrow> ('f recording, 'f) control_plane" where
  "recording_plane L F =
     \<lparr>ensure_app = (\<lambda>app_name _ state.
        push_request (case state of EphemeralApp \<Rightarrow> AppCreate app_name | DeployedApp \<Rightarrow> AppGetOrCreate app_name) ''ap-1''),
      ensure_volume = (\<lambda>name v2. push_numbered (VolumeGetOrCreate name v2) ''vo-''),
      ensure_secret = (\<lambda>name keys. push_numbered (SecretGetOrCreate name keys False) ''se-''),
      ensure_inline_secret = (\<lambda>name _. push_numbered (SecretGetOrCreate name [] True) ''se-''),
      ensure_client_mount = push_numbered (MountGetOrCreate ClientRole) ''mo-'',
      ensure_source_mount = (\<lambda>_ _. push_numbered (MountGetOrCreate SourceRole) ''mo-''),
      ensure_prebuild_mount = (\<lambda>source _.
        if \<not> si_use_cargo_scoping source then give None
        else bind_run (push_numbered (MountGetOrCreate PrebuildStubRole) ''mo-'') (\<lambda>i. give (Some i))),
      ensure_python_mount = (\<lambda>_. push_numbered (MountGetOrCreate PythonStandaloneRole) ''mo-''),
      ensure_image = (\<lambda>app_id spec layer.
        push_numbered (ImageGetOrCreate (plan_image_request (fl_b64 L) spec app_id ''2025.06'') layer) ''im-''),
      precreate = (\<lambda>_ tag. push_request (FunctionPrecreate tag) ''fu-pre-1''),
      create = (\<lambda>app_id precreate_id spec.
        case plan_function_request F app_id precreate_id spec of
          None \<Rightarrow> panic
        | Some p \<Rightarrow> push_request (FunctionCreate (create_request_of p))
            \<lparr>cr_function_id = ''fu-1'', cr_definition_id = [], cr_web_url = []\<rparr>),
      publish = (\<lambda>_ _ _ _ state.
        push_request (AppPublish (case state of EphemeralApp \<Rightarrow> ''ephemeral'' | DeployedApp \<Rightarrow> ''deployed'')) [])\<rparr>"

text \<open>\<open>None\<close> is a panic of one of the builders.\<close>

definition record_provision ::
  "facade_lib \<Rightarrow> 'f f32_ops \<Rightarrow> provision_inputs \<Rightarrow> boundary \<Rightarrow> (facade_error + 'f planned_request list) option" where
  "record_provision L F inputs b =
     map_option (\<lambda>(r, s, _). map_sum id (\<lambda>_. rp_requests s) r)
       (provision L F (recording_plane L F) inputs b (new_recording, no_published))"

definition dry_run ::
  "facade_lib \<Rightarrow> 'f f32_ops \<Rightarrow> 'u app \<Rightarrow> string \<Rightarrow> remote_config \<Rightarrow> (facade_error + 'f manifest) option" where
  "dry_run L F a entrypoint config =
     (let options = config_for a entrypoint;
          options = options\<lparr>fo_cache := Some (case fo_cache options of Some c \<Rightarrow> c | None \<Rightarrow> rc_cache config)\<rparr> in
      case apply_function_image L config (fo_image options) of
        Inl e \<Rightarrow> Some (Inl e)
      | Inr c \<Rightarrow>
          (let cfg = c\<lparr>rc_options := options\<rparr>; app_name = dump_app_name a (rc_package cfg)
           in map_option (map_sum id (\<lambda>requests. \<lparr>mf_mode = RunMode, mf_app_name = app_name, mf_requests = requests\<rparr>))
                (record_provision L F (run_inputs app_name None entrypoint cfg) RUN_BOUNDARY)))"

definition dump_plan :: "deploy_config \<Rightarrow> deploy_entrypoint list \<Rightarrow> entrypoint list" where
  "dump_plan config entries =
     map (\<lambda>ep. \<lparr>ep_name = de_name ep, ep_options = de_options ep,
       ep_timeout_secs = (case fo_timeout_secs (de_options ep) of Some t \<Rightarrow> t | None \<Rightarrow> dc_timeout_secs config)\<rparr>) entries"

definition dump_deploy_manifest ::
  "facade_lib \<Rightarrow> machine \<Rightarrow> 'f f32_ops \<Rightarrow> 'u app \<Rightarrow> deploy_config \<Rightarrow> (facade_error + 'f manifest) option" where
  "dump_deploy_manifest L M F a config =
     (let entries = deploy_entrypoints_for_dump a config in
      case with_function_image L M (map (\<lambda>ep. fo_image (de_options ep)) entries) config of
        Inl e \<Rightarrow> Some (Inl e)
      | Inr config \<Rightarrow>
          map_option (map_sum id (\<lambda>requests.
              \<lparr>mf_mode = DeployMode, mf_app_name = dc_app_name config, mf_requests = requests\<rparr>))
            (record_provision L F (deploy_inputs config (dump_plan config entries)) DEPLOY_BOUNDARY))"

section \<open>Rendering\<close>

definition debug_list :: "('a \<Rightarrow> string) \<Rightarrow> 'a list \<Rightarrow> string" where
  "debug_list f xs = ''['' @ join_with '', '' (map f xs) @ '']''"

definition debug_option :: "('a \<Rightarrow> string) \<Rightarrow> 'a option \<Rightarrow> string" where
  "debug_option f x = (case x of None \<Rightarrow> ''None'' | Some a \<Rightarrow> ''Some('' @ f a @ '')'')"

definition show_bool :: "bool \<Rightarrow> string" where "show_bool b = (if b then ''true'' else ''false'')"
definition show_u32 :: "u32 \<Rightarrow> string" where "show_u32 n = dec (unat n)"
definition debug_str_pair :: "string \<times> string \<Rightarrow> string" where
  "debug_str_pair p = ''('' @ debug_str (fst p) @ '', '' @ debug_str (snd p) @ '')''"

fun role_name :: "mount_role \<Rightarrow> string" where
  "role_name ClientRole = ''Client''"
| "role_name SourceRole = ''Source''"
| "role_name PrebuildStubRole = ''PrebuildStub''"
| "role_name PythonStandaloneRole = ''PythonStandalone''"

definition abbreviate_command :: "string \<Rightarrow> string" where
  "abbreviate_command c = (if contains c ''b64decode('' then ''RUN <baked wrapper>'' else c)"

definition render_create :: "('f \<Rightarrow> string) \<Rightarrow> 'f planned_create \<Rightarrow> string" where
  "render_create debug_f32 p =
     ''FunctionCreate         module='' @ debug_str (pn_module p) @ '' function='' @ debug_str (pn_function p)
     @ '' mount_ids='' @ dec (pn_mount_ids_count p) @ '' gpu='' @ debug_option debug_str (pn_gpu p)
     @ '' cpu='' @ show_u32 (pn_milli_cpu p) @ ''m memory='' @ show_u32 (pn_memory_mb p)
     @ ''MiB timeout='' @ show_u32 (pn_timeout_secs p) @ ''s volumes='' @ debug_list debug_str_pair (pn_volume_mounts p)
     @ '' secrets='' @ dec (pn_secret_count p) @ '' retries='' @ debug_option show_u32 (pn_retries p)
     @ '' backoff='' @ debug_option debug_f32 (pn_retry_backoff_coefficient p)
     @ '' initial_ms='' @ debug_option show_u32 (pn_retry_initial_delay_ms p)
     @ '' max_ms='' @ debug_option show_u32 (pn_retry_max_delay_ms p)
     @ '' schedule='' @ debug_option debug_str (pn_schedule p)
     @ '' min_containers='' @ debug_option show_u32 (pn_min_containers p)
     @ '' max_containers='' @ debug_option show_u32 (pn_max_containers p)
     @ '' buffer_containers='' @ debug_option show_u32 (pn_buffer_containers p)
     @ '' scaledown_window='' @ debug_option show_u32 (pn_scaledown_window p)
     @ '' checkpointing_enabled='' @ show_bool (pn_checkpointing_enabled p)
     @ '' webhook_method='' @ debug_option debug_str (pn_webhook_method p)
     @ '' function_data_is_none='' @ show_bool (pn_function_data_is_none p)"

fun render_request :: "('f \<Rightarrow> string) \<Rightarrow> 'f planned_request \<Rightarrow> string" where
  "render_request g (AppCreate description) =
     ''AppCreate              description='' @ debug_str description @ '' (ephemeral)''"
| "render_request g (AppGetOrCreate app_name) =
     ''AppGetOrCreate         app_name='' @ debug_str app_name @ '' (persistent)''"
| "render_request g (VolumeGetOrCreate name v2) =
     ''VolumeGetOrCreate      name='' @ debug_str name @ '' v2='' @ show_bool v2"
| "render_request g (SecretGetOrCreate name keys inline) =
     ''SecretGetOrCreate      name='' @ debug_str name @ '' kind='' @ (if inline then ''inline'' else ''from_name'')
     @ '' required_keys='' @ debug_list debug_str keys"
| "render_request g (MountGetOrCreate role) = ''MountGetOrCreate       role='' @ role_name role"
| "render_request g (ImageGetOrCreate cmds layer) =
     ''ImageGetOrCreate       layer='' @ dec layer @ ''  ['' @ join_with ''; '' (map abbreviate_command cmds) @ '']''"
| "render_request g (FunctionPrecreate name) = ''FunctionPrecreate      function='' @ debug_str name"
| "render_request g (FunctionCreate p) = render_create g p"
| "render_request g (AppPublish st) = ''AppPublish             state='' @ st"

definition render :: "('f \<Rightarrow> string) \<Rightarrow> 'f manifest \<Rightarrow> string" where
  "render g m =
     (case mf_mode m of RunMode \<Rightarrow> ''RUN'' | DeployMode \<Rightarrow> ''DEPLOY'') @ '' manifest for app ''
     @ debug_str (mf_app_name m) @ nl
     @ concat (map (\<lambda>(n, q). ''  '' @ dec n @ ''. '' @ render_request g q @ nl) (List.enumerate 1 (mf_requests m)))"

section \<open>What a recorded request shows of a step\<close>

text \<open>A request with its canned ids and its layer number taken out, and the request of a step.\<close>

fun erase_request :: "'f planned_request \<Rightarrow> 'f planned_request" where
  "erase_request (FunctionCreate p) = FunctionCreate (p\<lparr>pn_volume_mounts := map (\<lambda>(m, _). (m, [])) (pn_volume_mounts p)\<rparr>)"
| "erase_request (ImageGetOrCreate cmds _) = ImageGetOrCreate cmds 0"
| "erase_request q = q"

fun step_request :: "'f f32_ops \<Rightarrow> 'f step \<Rightarrow> 'f planned_request" where
  "step_request F (AppStep n st) = (case st of EphemeralApp \<Rightarrow> AppCreate n | DeployedApp \<Rightarrow> AppGetOrCreate n)"
| "step_request F (VolumeStep n v2) = VolumeGetOrCreate n v2"
| "step_request F (SecretStep n keys) = SecretGetOrCreate n keys False"
| "step_request F (InlineSecretStep n) = SecretGetOrCreate n [] True"
| "step_request F ClientMountStep = MountGetOrCreate ClientRole"
| "step_request F (SourceMountStep _) = MountGetOrCreate SourceRole"
| "step_request F (StubMountStep _) = MountGetOrCreate PrebuildStubRole"
| "step_request F (PythonMountStep _) = MountGetOrCreate PythonStandaloneRole"
| "step_request F (ImageStep cmds) = ImageGetOrCreate cmds 0"
| "step_request F (PrecreateStep tag) = FunctionPrecreate tag"
| "step_request F (CreateStep s) =
     erase_request (FunctionCreate (create_request_of (the (plan_function_request F [] [] s))))"
| "step_request F (PublishStep st _) =
     AppPublish (case st of EphemeralApp \<Rightarrow> ''ephemeral'' | DeployedApp \<Rightarrow> ''deployed'')"

section \<open>The recording plane keeps to the schedule\<close>

text \<open>A projection never fails, and depends on the ids in a spec only through the volumes.\<close>

lemma plan_ids:
  "\<exists>q. plan_function_request F app_id pre s = Some q \<and>
       (\<forall>app_id' pre'. \<exists>q'. plan_function_request F app_id' pre' (erase_ids s) = Some q' \<and>
          create_request_of q' = (create_request_of q)\<lparr>pn_volume_mounts := map (\<lambda>(m, _). (m, [])) (pl_volume_mounts q)\<rparr>)"
  by (cases "app_function_name s"; cases "autoscaler_is_empty (autoscaler s)")
     (simp_all add: plan_function_request_def build_function_create_request_def Let_def create_request_of_def erase_ids_def
      object_tag_def volume_mount_to_proto_def split_beta comp_def autoscaler_is_empty_def to_settings_def)

lemma plan_image_eq: "plan_image_request b64 s app_id v = dockerfile_commands b64 s"
  by (simp add: plan_image_request_def build_image_get_or_create_request_def image_to_proto_def Let_def)

definition shown :: "'f f32_ops \<Rightarrow> 'f recording \<Rightarrow> 'f step list \<Rightarrow> bool" where
  "shown F s us \<longleftrightarrow> map erase_request (rp_requests s) = map (step_request F) us"

lemma recorded_follows:
  "erase_request q = step_request F x \<Longrightarrow> follows (shown F) (\<lambda>_. True) (push_request q a) [x] (\<lambda>_ _. True)"
  "erase_request q = step_request F x \<Longrightarrow> follows (shown F) (\<lambda>_. True) (push_numbered q kind) [x] (\<lambda>_ _. True)"
  by (rule followsI; auto simp: push_request_def push_numbered_def shown_def Let_def)+

lemma recorded_create:
  "follows (shown F) (\<lambda>_. True) (create (recording_plane L F) app_id pre fspec) [CreateStep (erase_ids fspec)] (\<lambda>_ _. True)"
proof -
  obtain q q' where q: "plan_function_request F app_id pre fspec = Some q"
    and q': "plan_function_request F [] [] (erase_ids fspec) = Some q'"
    and eq: "create_request_of q' = (create_request_of q)\<lparr>pn_volume_mounts := map (\<lambda>(m, _). (m, [])) (pl_volume_mounts q)\<rparr>"
    using plan_ids [of F app_id pre fspec] by metis
  have "erase_request (FunctionCreate (create_request_of q)) = step_request F (CreateStep (erase_ids fspec))"
    unfolding step_request.simps q' option.sel eq by (simp add: create_request_of_def split_beta comp_def)
  from recorded_follows(1) [OF this] show ?thesis by (simp add: recording_plane_def q)
qed

interpretation recorded: traced_plane "fl_b64 L" "recording_plane L F" "shown F" si_use_cargo_scoping
  for L :: facade_lib and F :: "'f f32_ops"
proof unfold_locales
  show "follows (shown F) (\<lambda>_. True) (ensure_prebuild_mount (recording_plane L F) src remote)
      (if si_use_cargo_scoping src then [StubMountStep remote] else []) (\<lambda>r _. (r \<noteq> None) = si_use_cargo_scoping src)" for src remote
  proof (cases "si_use_cargo_scoping src")
    case True
    have "follows (shown F) (\<lambda>_. True) (bind_run (push_numbered (MountGetOrCreate PrebuildStubRole) ''mo-'') (\<lambda>i. give (Some i)))
        ([StubMountStep remote] @ []) (\<lambda>r _. r \<noteq> None)"
      by (rule follows_bind [OF recorded_follows(2)]) (auto intro: follows_give)
    with True show ?thesis by (simp add: recording_plane_def)
  next
    case False
    then show ?thesis by (auto simp: recording_plane_def intro: follows_give)
  qed
  show "follows (shown F) (\<lambda>_. True) (ensure_image (recording_plane L F) app_id spec k)
      [ImageStep (dockerfile_commands (fl_b64 L) spec)] (\<lambda>_ _. True)" for app_id spec k
    by (simp add: recording_plane_def plan_image_eq recorded_follows)
  show "publish (recording_plane L F) app_id app_name fids dids st s = Some (Inl e, s') \<Longrightarrow> shown F s us \<Longrightarrow> shown F s' us"
    for app_id app_name fids dids st s e s' us
    by (simp add: recording_plane_def push_request_def)
qed (simp_all add: recorded_create, simp_all add: recording_plane_def recorded_follows split: app_state.split)

section \<open>The dump and the live path\<close>

lemma map_sum_Inr: "map_sum f g r = Inr b \<Longrightarrow> (\<And>a. r = Inr a \<Longrightarrow> b = g a \<Longrightarrow> Q) \<Longrightarrow> Q"
  by (cases r) auto

lemma recorded_schedule:
  assumes "record_provision L F inp b = Some (Inr rs)"
  shows "map erase_request rs = map (step_request F) (schedule_for L F inp b (si_use_cargo_scoping (pi_source inp)) {})"
proof -
  from assms obtain a s p where run: "provision L F (recording_plane L F) inp b (new_recording, no_published) = Some (Inr a, (s, p))"
    and rs: "rs = rp_requests s"
    by (auto simp: record_provision_def elim!: map_sum_Inr)
  have "(shown F \<circ> fst) (s, p) ([] @ schedule_for L F inp b (si_use_cargo_scoping (pi_source inp)) {}) \<and>
      dom (pub_function_ids (snd (s, p))) = foldl add_tag {} (pi_entrypoints inp)"
    by (rule follows_ok [OF recorded.provision_follows [OF refl] _ _ run])
       (simp_all add: no_published_def shown_def new_recording_def)
  then show ?thesis by (simp add: shown_def rs)
qed

text \<open>What is shown of the schedule does not depend on the functions published before.\<close>

lemma shown_entrypoints:
  "map (step_request F) (walk add_tag (entrypoint_steps F inp b pl) tags eps) =
   map (step_request F) (walk add_tag (entrypoint_steps F inp b pl) tags' eps)"
proof (induction eps arbitrary: tags tags')
  case (Cons ep eps)
  have "map (step_request F) (entrypoint_steps F inp b pl tags ep) = map (step_request F) (entrypoint_steps F inp b pl tags' ep)"
    by (simp add: entrypoint_steps_def Let_def split: sum.split)
  with Cons show ?case by simp
qed simp

lemma shown_schedule:
  "map (step_request F) (schedule_for L F inp b st tags) = map (step_request F) (schedule_for L F inp b st tags')"
  using shown_entrypoints [of F inp b _ tags "pi_entrypoints inp" tags'] by (simp add: schedule_for_def split: sum.split)

text \<open>The timeout of a function is the entrypoint's, not its options'; the app's id is never shown.\<close>

abbreviation with_timeout :: "u32 option \<Rightarrow> entrypoint \<Rightarrow> entrypoint" where
  "with_timeout t ep \<equiv> ep\<lparr>ep_options := (ep_options ep)\<lparr>fo_timeout_secs := t\<rparr>\<rparr>"

lemma timeout_unused [simp]:
  "webhook_of b (x\<lparr>fo_timeout_secs := t\<rparr>) = webhook_of b x" "autoscaler_of (x\<lparr>fo_timeout_secs := t\<rparr>) = autoscaler_of x"
  by (cases "fo_web_server_port x"; cases "fo_webhook_method x"; cases "app_state_of b"; simp add: webhook_of_def)
     (simp add: autoscaler_of_def)

lemma callable_timeout [simp]: "callable_of b (with_timeout t ep) = callable_of b ep"
  by (cases "delivery b") (simp_all add: callable_of_def Let_def)

lemma build_timeout [simp]:
  "build_function_spec F b (with_timeout t ep) img res = build_function_spec F b ep img res"
  by (cases "fo_retries_spec (ep_options ep)") (simp_all add: build_function_spec_def Let_def)

definition fill_timeout :: "string option \<Rightarrow> u32 option \<Rightarrow> provision_inputs \<Rightarrow> provision_inputs" where
  "fill_timeout i t inp = inp\<lparr>pi_app_id := i, pi_entrypoints := map (with_timeout t) (pi_entrypoints inp)\<rparr>"

lemma fill_fields [simp]:
  "pi_app_name (fill_timeout i t inp) = pi_app_name inp" "pi_source (fill_timeout i t inp) = pi_source inp"
  "pi_cache (fill_timeout i t inp) = pi_cache inp" "pi_dep_prebuild (fill_timeout i t inp) = pi_dep_prebuild inp"
  "pi_snapshot_best_effort (fill_timeout i t inp) = pi_snapshot_best_effort inp"
  "pi_entrypoints (fill_timeout i t inp) = map (with_timeout t) (pi_entrypoints inp)"
  by (simp_all add: fill_timeout_def)

lemma gates_timeout [simp]: "deploy_gates (map (with_timeout t) eps) = deploy_gates eps"
  by (induction eps) (simp_all add: deploy_gates_def list_ex_iff List.map_filter_def)

lemma image_fill [simp]: "build_image_spec L b (fill_timeout i t inp) py = build_image_spec L b inp py"
  by (cases "delivery b") (simp_all add: build_image_spec_def fill_timeout_def)

lemma layers_fill [simp]: "layer_steps L (fill_timeout i t inp) b st = layer_steps L inp b st"
  by (cases "build_image_spec L b inp []"; cases "delivery b") (simp_all add: layer_steps_def Let_def)

lemma steps_fill:
  "secret_steps (fill_timeout i t inp) (with_timeout u ep) = secret_steps inp ep"
  "volume_steps (with_timeout u ep) = volume_steps ep"
  "resource_shape (fill_timeout i t inp) Many (with_timeout u ep) = resource_shape inp Many ep"
  "resource_shape (fill_timeout i t inp) (Single (with_timeout u ep0)) ep1 = resource_shape inp (Single ep0) ep"
  "add_tag tags (with_timeout u ep) = add_tag tags ep"
  by (simp_all add: secret_steps_def volume_steps_def resource_shape_def add_tag_def Let_def)

lemma entrypoint_fill:
  "entrypoint_steps F (fill_timeout i t inp) b Many tags (with_timeout u ep) = entrypoint_steps F inp b Many tags ep"
  "entrypoint_steps F (fill_timeout i t inp) b (Single (with_timeout v ep0)) tags (with_timeout u ep) =
     entrypoint_steps F inp b (Single ep0) tags ep"
  by (simp_all add: entrypoint_steps_def steps_fill(1-3) steps_fill(4) [where ep = ep] Let_def)

lemma walk_fill:
  "walk add_tag (entrypoint_steps F (fill_timeout i t inp) b Many) tags (map (with_timeout u) eps) =
     walk add_tag (entrypoint_steps F inp b Many) tags eps"
  "walk add_tag (entrypoint_steps F (fill_timeout i t inp) b (Single (with_timeout v ep0))) tags (map (with_timeout u) eps) =
     walk add_tag (entrypoint_steps F inp b (Single ep0)) tags eps"
  "foldl add_tag tags (map (with_timeout u) eps) = foldl add_tag tags eps"
  by (induction eps arbitrary: tags) (simp_all add: entrypoint_fill steps_fill)

lemma schedule_fill: "schedule_for L F (fill_timeout i t inp) b st tags = schedule_for L F inp b st tags"
  by (cases "delivery b"; cases "pi_entrypoints inp")
     (simp_all add: schedule_for_def plan_def walk_fill entrypoint_fill steps_fill run_steps_def)

section \<open>Properties\<close>

text \<open>The logged run of what the first call of an entrypoint provisions, and of what a deploy provisions.\<close>

definition create_log ::
  "facade_lib \<Rightarrow> 'f f32_ops \<Rightarrow> ('w, 'f, 'b, 'g) live_client \<Rightarrow> remote_handle \<Rightarrow> string \<Rightarrow> function_options \<Rightarrow>
     'w client_state \<Rightarrow> published \<Rightarrow> ((facade_error + provisioned) \<times> ('w client_state \<times> 'f step list) \<times> published) option" where
  "create_log L F K h entrypoint options w p =
     (let x = effective_options (rh_config h) options in
      case apply_function_image L (rh_config h) (fo_image x) of
        Inl e \<Rightarrow> Some (Inl e, (w, []), p)
      | Inr cfg \<Rightarrow> live_log L F K (run_inputs (rh_app_name h) (Some (rh_app_id h)) entrypoint (cfg\<lparr>rc_options := x\<rparr>)) RUN_BOUNDARY w p)"

definition deploy_log ::
  "facade_lib \<Rightarrow> machine \<Rightarrow> 'f f32_ops \<Rightarrow> ('w, 'f, 'b, 'g) live_client \<Rightarrow> deploy_config \<Rightarrow> deploy_entrypoint list \<Rightarrow>
     'w client_state \<Rightarrow> ((facade_error + provisioned) \<times> ('w client_state \<times> 'f step list) \<times> published) option" where
  "deploy_log L M F K config entrypoints w =
     (case with_function_image L M (map (\<lambda>ep. fo_image (de_options ep)) entrypoints) config of
        Inl e \<Rightarrow> Some (Inl e, (w, []), no_published)
      | Inr config \<Rightarrow>
          (let entries = deploy_plan config entrypoints;
               config = config\<lparr>dc_image_steps := append_endpoint_pip_step (map ep_options entries) (dc_image_steps config)\<rparr>
           in live_log L F K (deploy_inputs config entries) DEPLOY_BOUNDARY w no_published))"

lemma function_image_timeout: "apply_function_image L base img = Inr cfg \<Longrightarrow> rc_timeout_secs cfg = rc_timeout_secs base"
  by (auto simp: apply_function_image_def and_then_Inr_iff Let_def split: option.splits if_splits)

lemma run_inputs_fill:
  assumes "rc_timeout_secs cfg = rc_timeout_secs base"
  shows "run_inputs n i e (cfg\<lparr>rc_options := effective_options base x\<rparr>) =
     fill_timeout i (Some (case fo_timeout_secs x of Some t \<Rightarrow> t | None \<Rightarrow> rc_timeout_secs base))
       (run_inputs n None e (cfg\<lparr>rc_options := x\<lparr>fo_cache := Some (case fo_cache x of Some c \<Rightarrow> c | None \<Rightarrow> rc_cache base)\<rparr>\<rparr>))"
  using assms by (cases "fo_timeout_secs x") (simp_all add: run_inputs_def effective_options_def fill_timeout_def)

lemma run_schedule_stub:
  fixes F :: "'f f32_ops"
  shows "schedule_for L F inp RUN_BOUNDARY st tags = schedule_for L F inp RUN_BOUNDARY st' tags"
proof -
  have "(layer_steps L inp RUN_BOUNDARY st :: 'f step list) = layer_steps L inp RUN_BOUNDARY st'"
    by (cases "build_image_spec L RUN_BOUNDARY inp []") (simp_all add: layer_steps_def RUN_BOUNDARY_def Let_def)
  then show ?thesis by (simp add: schedule_for_def split: sum.split)
qed

text \<open>C11. The dry run of an entrypoint shows what its first remote call provisions: whenever both succeed, the
  recorded requests are the steps the live path takes, in the same order, up to the ids that only
  the server can assign.\<close>

theorem dry_run_shows_remote:
  "case app_remote a of
     None \<Rightarrow> True
   | Some h \<Rightarrow>
       (case (dry_run L F a e (rh_config h), create_log L F K h e (config_for a e) w p) of
          (Some (Inr m), Some (Inr r, (w', us), p')) \<Rightarrow>
            mf_app_name m = rh_app_name h \<and> map erase_request (mf_requests m) = map (step_request F) us
        | _ \<Rightarrow> True)"
proof (cases "app_remote a")
  case (Some h)
  let ?x = "config_for a e"
  let ?y = "?x\<lparr>fo_cache := Some (case fo_cache ?x of Some c \<Rightarrow> c | None \<Rightarrow> rc_cache (rh_config h))\<rparr>"
  have "mf_app_name m = rh_app_name h \<and> map erase_request (mf_requests m) = map (step_request F) us"
    if dry: "dry_run L F a e (rh_config h) = Some (Inr m)"
      and live: "create_log L F K h e ?x w p = Some (Inr r, (w', us), p')" for m r w' us p'
  proof -
    from dry obtain cfg where cfg: "apply_function_image L (rh_config h) (fo_image ?x) = Inr cfg"
      and name: "mf_app_name m = rh_app_name h"
      and rec: "record_provision L F (run_inputs (rh_app_name h) None e (cfg\<lparr>rc_options := ?y\<rparr>)) RUN_BOUNDARY = Some (Inr (mf_requests m))"
      by (auto simp: dry_run_def Let_def dump_app_name_def Some split: sum.splits elim!: map_sum_Inr)
    let ?inp = "run_inputs (rh_app_name h) None e (cfg\<lparr>rc_options := ?y\<rparr>)"
    obtain t where fill: "run_inputs (rh_app_name h) (Some (rh_app_id h)) e (cfg\<lparr>rc_options := effective_options (rh_config h) ?x\<rparr>) =
        fill_timeout (Some (rh_app_id h)) t ?inp"
      using run_inputs_fill [OF function_image_timeout [OF cfg]] by blast
    have "fo_image (effective_options (rh_config h) ?x) = fo_image ?x" by (simp add: effective_options_def)
    with live cfg fill have "live_log L F K (fill_timeout (Some (rh_app_id h)) t ?inp) RUN_BOUNDARY w p = Some (Inr r, (w', us), p')"
      by (simp add: create_log_def Let_def)
    from live_log_cases(2) [OF this] obtain st where "us = schedule_for L F ?inp RUN_BOUNDARY st (dom (pub_function_ids p))"
      by (auto simp: schedule_fill)
    then have "map (step_request F) us = map (step_request F) (schedule_for L F ?inp RUN_BOUNDARY (si_use_cargo_scoping (pi_source ?inp)) {})"
      using shown_schedule run_schedule_stub by metis
    with name recorded_schedule [OF rec] show ?thesis by simp
  qed
  then show ?thesis by (auto simp: Some split: option.split sum.split prod.split)
qed simp

lemma dump_follows_deploy:
  assumes plain: "deploy_entrypoints a \<noteq> []" "list_all (\<lambda>ep. fo_webhook_method (de_options ep) = None) (deploy_entrypoints a)"
    and stub: "live_stub K (pi_source (deploy_inputs config [])) = dc_use_cargo_scoping config"
    and dump: "dump_deploy_manifest L M F a config = Some (Inr m)"
    and live: "deploy_log L M F K config (deploy_entrypoints a) w = Some (Inr r, (w', us), p')"
  shows "map erase_request (mf_requests m) = map (step_request F) us"
proof -
  let ?eps = "deploy_entrypoints a"
  from dump plain(1) obtain cfg where cfg: "with_function_image L M (map (\<lambda>ep. fo_image (de_options ep)) ?eps) config = Inr cfg"
    and rec: "record_provision L F (deploy_inputs cfg (dump_plan cfg ?eps)) DEPLOY_BOUNDARY = Some (Inr (mf_requests m))"
    by (auto simp: dump_deploy_manifest_def deploy_entrypoints_for_dump_def Let_def split: sum.splits elim!: map_sum_Inr)
  have entries: "deploy_plan cfg ?eps = dump_plan cfg ?eps" using plain(1) by (simp add: deploy_plan_def dump_plan_def)
  have "append_endpoint_pip_step (map ep_options (dump_plan cfg ?eps)) steps = steps" for steps
    using plain(2) by (auto simp: append_endpoint_pip_step_def dump_plan_def list_ex_iff list_all_iff)
  with live cfg entries have log: "live_log L F K (deploy_inputs cfg (dump_plan cfg ?eps)) DEPLOY_BOUNDARY w no_published = Some (Inr r, (w', us), p')"
    by (simp add: deploy_log_def Let_def)
  from cfg have src: "pi_source (deploy_inputs cfg eps) = pi_source (deploy_inputs config [])" for eps
    by (auto simp: with_function_image_def and_then_Inr_iff Let_def deploy_inputs_def split: list.splits)
  from cfg have "dc_use_cargo_scoping cfg = dc_use_cargo_scoping config"
    by (auto simp: with_function_image_def and_then_Inr_iff Let_def split: list.splits)
  with stub src have "live_stub K (pi_source (deploy_inputs cfg (dump_plan cfg ?eps))) =
      si_use_cargo_scoping (pi_source (deploy_inputs cfg (dump_plan cfg ?eps)))"
    by (simp add: deploy_inputs_def)
  with live_log_cases(2) [OF log] recorded_schedule [OF rec] show ?thesis
    by (simp add: no_published_def)
qed


lemma pip_step_shows: "length (dockerfile_commands b64 (with_pip_install [x] s)) = Suc (length (dockerfile_commands b64 s))"
  by (cases "add_python s"; cases "install_rust s") (simp_all add: dockerfile_commands_def with_pip_install_def Let_def)

lemma deploy_base_layer:
  "build_image_spec L DEPLOY_BOUNDARY (deploy_inputs (config\<lparr>dc_image_steps := steps @ [Pip [x]]\<rparr>) eps) py =
   map_option (with_pip_install [x]) (build_image_spec L DEPLOY_BOUNDARY (deploy_inputs (config\<lparr>dc_image_steps := steps\<rparr>) eps) py)"
  by (simp add: build_image_spec_def DEPLOY_BOUNDARY_def deploy_inputs_def apply_image_steps_def Let_def)

definition deploy_shown :: "facade_lib \<Rightarrow> 'f f32_ops \<Rightarrow> deploy_config \<Rightarrow> entrypoint list \<Rightarrow> bool \<Rightarrow> 'f planned_request list" where
  "deploy_shown L F config eps st = map (step_request F) (schedule_for L F (deploy_inputs config eps) DEPLOY_BOUNDARY st {})"

text \<open>Where an entrypoint is a web endpoint and the image does not install FastAPI itself, the deploy adds
  the install to the base image and the dump does not: their steps differ.\<close>

lemma dump_misses_fastapi:
  "if list_ex (\<lambda>ep. fo_webhook_method (ep_options ep) \<noteq> None) eps \<and> \<not> list_ex pip_installs_fastapi (dc_image_steps config)
    then deploy_shown L F (config\<lparr>dc_image_steps := append_endpoint_pip_step (map ep_options eps) (dc_image_steps config)\<rparr>) eps st
         \<noteq> deploy_shown L F config eps st'
    else append_endpoint_pip_step (map ep_options eps) (dc_image_steps config) = dc_image_steps config"
proof (cases "list_ex (\<lambda>ep. fo_webhook_method (ep_options ep) \<noteq> None) eps \<and> \<not> list_ex pip_installs_fastapi (dc_image_steps config)")
  case True
  let ?c = "config\<lparr>dc_image_steps := dc_image_steps config @ [Pip [ENDPOINT_FASTAPI_REQUIREMENT]]\<rparr>"
  have deploy: "plan DEPLOY_BOUNDARY eps' = Inr Many" for eps' by (simp add: plan_def DEPLOY_BOUNDARY_def)
  obtain base where base: "build_image_spec L DEPLOY_BOUNDARY (deploy_inputs config eps) [] = Some base"
    by (simp add: build_image_spec_def DEPLOY_BOUNDARY_def Let_def)
  have base': "build_image_spec L DEPLOY_BOUNDARY (deploy_inputs ?c eps) [] = Some (with_pip_install [ENDPOINT_FASTAPI_REQUIREMENT] base)"
    using deploy_base_layer [of L "dc_image_steps config" ENDPOINT_FASTAPI_REQUIREMENT config eps "[]"] base by simp
  have "deploy_shown L F ?c eps st ! 4 = ImageGetOrCreate (dockerfile_commands (fl_b64 L) (with_pip_install [ENDPOINT_FASTAPI_REQUIREMENT] base)) 0"
    and "deploy_shown L F config eps st' ! 4 = ImageGetOrCreate (dockerfile_commands (fl_b64 L) base) 0"
    by (simp_all add: deploy_shown_def schedule_for_def deploy layer_steps_def base base' Let_def)
  with pip_step_shows [of "fl_b64 L" ENDPOINT_FASTAPI_REQUIREMENT base] have "deploy_shown L F ?c eps st \<noteq> deploy_shown L F config eps st'"
    by (metis n_not_Suc_n planned_request.inject(6))
  moreover have "append_endpoint_pip_step (map ep_options eps) (dc_image_steps config) = dc_image_steps config @ [Pip [ENDPOINT_FASTAPI_REQUIREMENT]]"
    using True by (auto simp: append_endpoint_pip_step_def list_ex_iff)
  ultimately show ?thesis using True by simp
next
  case False
  then show ?thesis by (auto simp: append_endpoint_pip_step_def list_ex_iff)
qed

end
