(* ===== verification/FileSystem.thy ===== *)
theory FileSystem
  imports Workspace "HOL-Library.AList" "HOL-Library.Sublist"
begin

text \<open>
  The part of \<open>std::fs\<close> the command line uses, on a file system that changes: what is at each path, which
  accesses the system refuses, and how long a path may get.  A path is absolute; the operations take it
  literally, and only \<open>canonicalize\<close> gives \<open>.\<close> and \<open>..\<close> a meaning.  There are no symbolic links:
  \<open>FsOther\<close> is an entry that is neither a file nor a directory.  A hard link starts out as a copy.
\<close>

section \<open>The state\<close>

datatype file_node = FsFile string | FsDir | FsOther

record filesystem =
  fs_nodes :: "(path \<times> file_node) list"
  fs_denied :: "path \<Rightarrow> bool"
  fs_read_only :: "path \<Rightarrow> bool"
  fs_path_limit :: nat
  fs_error :: "path \<Rightarrow> string"

type_synonym 'a fs_result = "(string + 'a) \<times> filesystem"

definition node_at :: "filesystem \<Rightarrow> path \<Rightarrow> file_node option" where
  "node_at h p = map_of (fs_nodes h) p"

definition set_node :: "path \<Rightarrow> file_node \<Rightarrow> filesystem \<Rightarrow> filesystem" where
  "set_node p n h = h\<lparr>fs_nodes := AList.update p n (fs_nodes h)\<rparr>"

definition drop_nodes :: "(path \<Rightarrow> bool) \<Rightarrow> filesystem \<Rightarrow> filesystem" where
  "drop_nodes P h = h\<lparr>fs_nodes := filter (\<lambda>(q, _). \<not> P q) (fs_nodes h)\<rparr>"

section \<open>Reading\<close>

definition fs_is_file :: "filesystem \<Rightarrow> path \<Rightarrow> bool" where
  "fs_is_file h p = (case node_at h p of Some (FsFile _) \<Rightarrow> True | _ \<Rightarrow> False)"

definition fs_is_dir :: "filesystem \<Rightarrow> path \<Rightarrow> bool" where
  "fs_is_dir h p \<longleftrightarrow> p = [] \<or> node_at h p = Some FsDir"

definition fs_read :: "filesystem \<Rightarrow> path \<Rightarrow> string + string" where
  "fs_read h p =
     (case node_at h p of
        Some (FsFile s) \<Rightarrow> if fs_denied h p then Inl (fs_error h p) else Inr s
      | _ \<Rightarrow> Inl (fs_error h p))"

definition fs_read_to_string :: "filesystem \<Rightarrow> path \<Rightarrow> string + string" where
  "fs_read_to_string h p =
     and_then (fs_read h p) (\<lambda>s. if utf8_valid s then Inr s else Inl (fs_error h p))"

definition fs_disk :: "filesystem \<Rightarrow> disk" where
  "fs_disk h = \<lparr>is_file = fs_is_file h, read_to_string = fs_read_to_string h\<rparr>"

text \<open>The entries of a directory, by name.\<close>

definition fs_read_dir :: "filesystem \<Rightarrow> path \<Rightarrow> string + (string \<times> file_node) list" where
  "fs_read_dir h p =
     (if fs_is_dir h p \<and> \<not> fs_denied h p
      then Inr (List.map_filter (\<lambda>name. map_option (Pair name) (node_at h (p @ [name])))
             (remdups (map last (filter (\<lambda>q. q \<noteq> [] \<and> butlast q = p) (map fst (fs_nodes h))))))
      else Inl (fs_error h p))"

text \<open>\<open>canonicalize\<close> walks the path from the root; every component but the last must be a directory, the last
  one must exist.\<close>

fun canonical_walk :: "filesystem \<Rightarrow> path \<Rightarrow> path \<Rightarrow> path option" where
  "canonical_walk h done [] = (if done = [] \<or> node_at h done \<noteq> None then Some done else None)"
| "canonical_walk h done (c # cs) =
     (if \<not> fs_is_dir h done then None
      else if c = [] \<or> c = ''.'' then canonical_walk h done cs
      else if c = ''..'' then canonical_walk h (butlast done) cs
      else canonical_walk h (done @ [c]) cs)"

definition fs_canonicalize :: "filesystem \<Rightarrow> path \<Rightarrow> string + path" where
  "fs_canonicalize h p = (case canonical_walk h [] p of Some q \<Rightarrow> Inr q | None \<Rightarrow> Inl (fs_error h p))"

section \<open>Writing\<close>

definition may_create :: "filesystem \<Rightarrow> path \<Rightarrow> bool" where
  "may_create h p \<longleftrightarrow>
     p \<noteq> [] \<and> length p \<le> fs_path_limit h \<and> \<not> fs_read_only h p \<and> fs_is_dir h (butlast p)"

definition fs_write :: "path \<Rightarrow> string \<Rightarrow> filesystem \<Rightarrow> unit fs_result" where
  "fs_write p s h =
     (if may_create h p \<and> node_at h p \<notin> {Some FsDir, Some FsOther}
      then (Inr (), set_node p (FsFile s) h) else (Inl (fs_error h p), h))"

definition fs_create_dir :: "path \<Rightarrow> filesystem \<Rightarrow> unit fs_result" where
  "fs_create_dir p h =
     (if fs_is_dir h p then (Inr (), h)
      else if may_create h p \<and> node_at h p = None then (Inr (), set_node p FsDir h)
      else (Inl (fs_error h p), h))"

text \<open>A sequence of operations stops at the first error.\<close>

fun fs_each :: "('a \<Rightarrow> filesystem \<Rightarrow> unit fs_result) \<Rightarrow> 'a list \<Rightarrow> filesystem \<Rightarrow> unit fs_result" where
  "fs_each f [] h = (Inr (), h)"
| "fs_each f (x # xs) h = (case f x h of (Inl e, h') \<Rightarrow> (Inl e, h') | (Inr _, h') \<Rightarrow> fs_each f xs h')"

definition fs_then :: "'a fs_result \<Rightarrow> ('a \<Rightarrow> filesystem \<Rightarrow> 'b fs_result) \<Rightarrow> 'b fs_result" where
  "fs_then r f = (case r of (Inl e, h) \<Rightarrow> (Inl e, h) | (Inr a, h) \<Rightarrow> f a h)"

definition fs_create_dir_all :: "path \<Rightarrow> filesystem \<Rightarrow> unit fs_result" where
  "fs_create_dir_all p h = fs_each fs_create_dir (prefixes p) h"

definition fs_copy :: "path \<Rightarrow> path \<Rightarrow> filesystem \<Rightarrow> unit fs_result" where
  "fs_copy src dst h = (case fs_read h src of Inl e \<Rightarrow> (Inl e, h) | Inr s \<Rightarrow> fs_write dst s h)"

definition fs_hard_link :: "path \<Rightarrow> path \<Rightarrow> filesystem \<Rightarrow> unit fs_result" where
  "fs_hard_link src dst h =
     (case node_at h src of
        Some (FsFile s) \<Rightarrow>
          if may_create h dst \<and> node_at h dst = None then (Inr (), set_node dst (FsFile s) h)
          else (Inl (fs_error h dst), h)
      | _ \<Rightarrow> (Inl (fs_error h src), h))"

definition fs_remove_file :: "path \<Rightarrow> filesystem \<Rightarrow> unit fs_result" where
  "fs_remove_file p h =
     (if fs_is_file h p \<and> \<not> fs_read_only h p then (Inr (), drop_nodes (\<lambda>q. q = p) h)
      else (Inl (fs_error h p), h))"

text \<open>Nothing is removed when a part of the tree may not be: a removal that stops half way is not modelled.\<close>

definition fs_remove_dir_all :: "path \<Rightarrow> filesystem \<Rightarrow> unit fs_result" where
  "fs_remove_dir_all p h =
     (if p \<noteq> [] \<and> fs_is_dir h p \<and> \<not> list_ex (fs_read_only h) (filter (prefix p) (map fst (fs_nodes h)))
      then (Inr (), drop_nodes (prefix p) h) else (Inl (fs_error h p), h))"

section \<open>Facts\<close>

lemma node_at_set [simp]: "node_at (set_node p n h) q = (if q = p then Some n else node_at h q)"
  by (simp add: node_at_def set_node_def update_conv')

lemma map_of_filter_key: "map_of (filter (\<lambda>(q, _). \<not> P q) xs) q = (if P q then None else map_of xs q)"
  by (induction xs) auto

lemma node_at_drop [simp]: "node_at (drop_nodes P h) q = (if P q then None else node_at h q)"
  by (simp add: node_at_def drop_nodes_def map_of_filter_key)

lemma fs_constants [simp]:
  "fs_denied (set_node p n h) = fs_denied h" "fs_read_only (set_node p n h) = fs_read_only h"
  "fs_path_limit (set_node p n h) = fs_path_limit h" "fs_error (set_node p n h) = fs_error h"
  "fs_denied (drop_nodes P h) = fs_denied h" "fs_read_only (drop_nodes P h) = fs_read_only h"
  "fs_path_limit (drop_nodes P h) = fs_path_limit h" "fs_error (drop_nodes P h) = fs_error h"
  by (simp_all add: set_node_def drop_nodes_def)

text \<open>The frame of an operation: what is not under a directory stays as it is, except that a missing parent of
  the directory may have been created.\<close>

definition only_under :: "path \<Rightarrow> filesystem \<Rightarrow> filesystem \<Rightarrow> bool" where
  "only_under d h h' \<longleftrightarrow>
     (\<forall>q. prefix d q \<or> node_at h' q = node_at h q \<or>
        (prefix q d \<and> node_at h q = None \<and> node_at h' q = Some FsDir)) \<and>
     fs_denied h' = fs_denied h \<and> fs_read_only h' = fs_read_only h \<and>
     fs_path_limit h' = fs_path_limit h \<and> fs_error h' = fs_error h"

lemma only_under_refl [simp]: "only_under d h h"
  by (simp add: only_under_def)

lemma only_under_trans [trans]: "only_under d h h' \<Longrightarrow> only_under d h' h'' \<Longrightarrow> only_under d h h''"
  unfolding only_under_def by (smt (verit) option.distinct(1))

lemma only_under_set: "prefix d p \<Longrightarrow> only_under d h (set_node p n h)"
  by (auto simp: only_under_def)

lemma only_under_new_dir: "node_at h p = None \<Longrightarrow> prefix d p \<or> prefix p d \<Longrightarrow> only_under d h (set_node p FsDir h)"
  by (auto simp: only_under_def)

lemma only_under_drop: "(\<And>q. Q q \<Longrightarrow> prefix d q) \<Longrightarrow> only_under d h (drop_nodes Q h)"
  by (auto simp: only_under_def)

named_theorems frame_intros \<open>what the operations change\<close>

lemma frame_basic [frame_intros]:
  "prefix d p \<Longrightarrow> only_under d h (snd (fs_write p s h))"
  "prefix d p \<or> prefix p d \<Longrightarrow> only_under d h (snd (fs_create_dir p h))"
  "prefix d dst \<Longrightarrow> only_under d h (snd (fs_copy src dst h))"
  "prefix d dst \<Longrightarrow> only_under d h (snd (fs_hard_link src dst h))"
  "prefix d p \<Longrightarrow> only_under d h (snd (fs_remove_file p h))"
  "prefix d p \<Longrightarrow> only_under d h (snd (fs_remove_dir_all p h))"
  "only_under d h (snd (r, h))"
  by (auto simp: fs_write_def fs_create_dir_def fs_copy_def fs_hard_link_def fs_remove_file_def
      fs_remove_dir_all_def intro: only_under_set only_under_new_dir only_under_drop prefix_order.trans
      split: sum.split option.split file_node.split)

lemma frame_each [frame_intros]:
  "(\<And>x h. x \<in> set xs \<Longrightarrow> only_under d h (snd (f x h))) \<Longrightarrow> only_under d h (snd (fs_each f xs h))"
proof (induction xs arbitrary: h)
  case (Cons x xs)
  obtain r h1 where r: "f x h = (r, h1)" by force
  with Cons.prems [of x h] have "only_under d h h1" by simp
  moreover have "only_under d h1 (snd (fs_each f xs h1))" using Cons by simp
  ultimately show ?case by (auto simp: r split: sum.split intro: only_under_trans)
qed simp

lemma frame_then [frame_intros]:
  assumes "only_under d h (snd r)" and "\<And>a h. only_under d h (snd (f a h))"
  shows "only_under d h (snd (fs_then r f))"
proof (cases r)
  case (Pair x h1)
  with assms show ?thesis by (cases x) (auto simp: fs_then_def intro: only_under_trans)
qed

lemma frame_create_dir_all [frame_intros]:
  assumes "prefix d p \<or> prefix p d"
  shows "only_under d h (snd (fs_create_dir_all p h))"
  unfolding fs_create_dir_all_def
proof (rule frame_each)
  fix q h
  assume "q \<in> set (prefixes p)"
  then have "prefix q p" by simp
  with assms have "prefix d q \<or> prefix q d" by (metis prefix_order.trans prefix_same_cases)
  then show "only_under d h (snd (fs_create_dir q h))" by (rule frame_basic)
qed

lemma write_then_read:
  "fs_write p s h = (Inr (), h') \<Longrightarrow> \<not> fs_denied h p \<Longrightarrow> fs_read h' p = Inr s"
  by (auto simp: fs_write_def fs_read_def split: if_splits)

end
