(* ===== verification/Shadow.thy ===== *)
theory Shadow
  imports FileSystem
begin

text \<open>
  The shadow build tree of \<open>crates/modal-rust/src/runner_gen.rs\<close>: a copy of the dependency closure of a
  crate with the generated runner in it, whose path dependencies outside the copy are made absolute.
  The walk down a directory has as fuel the number of components a path may still grow by: past that the system
  refuses the name.
\<close>

section \<open>Copying\<close>

definition dir_is_pruned :: "string \<Rightarrow> bool" where
  "dir_is_pruned name \<longleftrightarrow> to_string_lossy name = ''target'' \<or> to_string_lossy name = ''.git''"

primrec copy_dir_recursive :: "nat \<Rightarrow> path \<Rightarrow> path \<Rightarrow> filesystem \<Rightarrow> unit fs_result" where
  "copy_dir_recursive 0 src dst h = (Inl (fs_error h dst), h)"
| "copy_dir_recursive (Suc n) src dst h =
     fs_then (fs_create_dir_all dst h) (\<lambda>_ h.
       case fs_read_dir h src of
         Inl e \<Rightarrow> (Inl e, h)
       | Inr entries \<Rightarrow>
           fs_each (\<lambda>(name, node) h.
             case node of
               FsDir \<Rightarrow>
                 if dir_is_pruned name then (Inr (), h)
                 else copy_dir_recursive n (src @ [name]) (dst @ [name]) h
             | FsFile _ \<Rightarrow> fs_copy (src @ [name]) (dst @ [name]) h
             | FsOther \<Rightarrow> (Inr (), h)) entries h)"

text \<open>A path in text, as components: empty ones and \<open>.\<close> do not count.\<close>

definition path_components :: "string \<Rightarrow> path" where
  "path_components s = filter (\<lambda>c. c \<noteq> [] \<and> c \<noteq> ''.'') (split_on CHR ''/'' s)"

definition write_inline :: "path \<Rightarrow> string \<Rightarrow> string \<Rightarrow> filesystem \<Rightarrow> unit fs_result" where
  "write_inline base rel body h =
     (let p = base @ path_components (trim_start_matches (\<lambda>c. c = CHR ''/'') rel) in
      fs_then (if p = [] then (Inr (), h) else fs_create_dir_all (butlast p) h) (\<lambda>_. fs_write p body))"

section \<open>Path dependencies\<close>

definition lexically_normalize :: "path \<Rightarrow> path" where
  "lexically_normalize p =
     foldl (\<lambda>out c. if c = [] \<or> c = ''.'' then out else if c = ''..'' then butlast out else out @ [c]) [] p"

definition resolve_dep :: "filesystem \<Rightarrow> path \<Rightarrow> string \<Rightarrow> path" where
  "resolve_dep h real_crate_dir path_str =
     (let joined = real_crate_dir @ path_components path_str in
      case fs_canonicalize h joined of Inr p \<Rightarrow> p | Inl _ \<Rightarrow> lexically_normalize joined)"

fun dep_path_str :: "toml \<Rightarrow> string option" where
  "dep_path_str (TInline t) = (case map_of t ''path'' of Some (TStr s) \<Rightarrow> Some s | _ \<Rightarrow> None)"
| "dep_path_str (TTable t) = (case map_of t ''path'' of Some (TStr s) \<Rightarrow> Some s | _ \<Rightarrow> None)"
| "dep_path_str _ = None"

fun set_path :: "string \<Rightarrow> toml \<Rightarrow> toml" where
  "set_path s (TInline t) = TInline (AList.update ''path'' (TStr s) t)"
| "set_path s (TTable t) = TTable (AList.update ''path'' (TStr s) t)"
| "set_path s item = item"

definition is_absolute :: "string \<Rightarrow> bool" where
  "is_absolute s \<longleftrightarrow> s \<noteq> [] \<and> hd s = CHR ''/''"

definition rewrite_dep :: "filesystem \<Rightarrow> path \<Rightarrow> path list \<Rightarrow> toml \<Rightarrow> bool \<times> toml" where
  "rewrite_dep h real_crate_dir shadow_dirs item =
     (case dep_path_str item of
        None \<Rightarrow> (False, item)
      | Some s \<Rightarrow>
          if is_absolute s then (False, item)
          else let resolved = resolve_dep h real_crate_dir s in
               if resolved \<in> set shadow_dirs then (False, item)
               else (True, set_path (show_path resolved) item))"

definition rewrite_dep_table ::
  "filesystem \<Rightarrow> path \<Rightarrow> path list \<Rightarrow> (string \<times> toml) list \<Rightarrow> bool \<times> (string \<times> toml) list" where
  "rewrite_dep_table h real_crate_dir shadow_dirs tbl =
     (let r = map (\<lambda>(key, item). (key, rewrite_dep h real_crate_dir shadow_dirs item)) tbl in
      (list_ex (\<lambda>(_, c, _). c) r, map (\<lambda>(key, _, item). (key, item)) r))"

definition dep_sections :: "string list" where
  "dep_sections = [''dependencies'', ''build-dependencies'', ''dev-dependencies'']"

definition rewrite_section ::
  "filesystem \<Rightarrow> path \<Rightarrow> path list \<Rightarrow> string \<Rightarrow> bool \<times> (string \<times> toml) list \<Rightarrow> bool \<times> (string \<times> toml) list" where
  "rewrite_section h real_crate_dir shadow_dirs section_name = (\<lambda>(changed, doc).
     case sub_table doc section_name of
       None \<Rightarrow> (changed, doc)
     | Some (item, tbl) \<Rightarrow>
         (case rewrite_dep_table h real_crate_dir shadow_dirs tbl of
            (c, tbl') \<Rightarrow> (changed \<or> c, AList.update section_name (with_entries item tbl') doc)))"

definition rewrite_sections ::
  "filesystem \<Rightarrow> path \<Rightarrow> path list \<Rightarrow> (string \<times> toml) list \<Rightarrow> bool \<times> (string \<times> toml) list" where
  "rewrite_sections h real_crate_dir shadow_dirs doc =
     fold (rewrite_section h real_crate_dir shadow_dirs) dep_sections (False, doc)"

definition rewrite_cfg ::
  "filesystem \<Rightarrow> path \<Rightarrow> path list \<Rightarrow> string \<times> toml \<Rightarrow> bool \<times> (string \<times> toml)" where
  "rewrite_cfg h real_crate_dir shadow_dirs = (\<lambda>(cfg, item).
     case as_table_like item of
       None \<Rightarrow> (False, (cfg, item))
     | Some t \<Rightarrow>
         (case rewrite_sections h real_crate_dir shadow_dirs t of (c, t') \<Rightarrow> (c, (cfg, with_entries item t'))))"

definition rewrite_doc :: "filesystem \<Rightarrow> path \<Rightarrow> path list \<Rightarrow> (string \<times> toml) list \<Rightarrow> bool \<times> (string \<times> toml) list" where
  "rewrite_doc h real_crate_dir shadow_dirs doc =
     (case rewrite_sections h real_crate_dir shadow_dirs doc of
        (changed, doc) \<Rightarrow>
          (case sub_table doc ''target'' of
             None \<Rightarrow> (changed, doc)
           | Some (item, t) \<Rightarrow>
               (let r = map (rewrite_cfg h real_crate_dir shadow_dirs) t in
                (changed \<or> list_ex fst r, AList.update ''target'' (with_entries item (map snd r)) doc))))"

definition rewrite_path_deps_to_absolute ::
  "toml_edit \<Rightarrow> filesystem \<Rightarrow> string \<Rightarrow> path \<Rightarrow> path list \<Rightarrow> string option" where
  "rewrite_path_deps_to_absolute E h manifest real_crate_dir shadow_dirs =
     (case toml_parse E manifest of
        Inl _ \<Rightarrow> None
      | Inr doc \<Rightarrow>
          (case rewrite_doc h real_crate_dir shadow_dirs doc of
             (changed, doc') \<Rightarrow> if changed then Some (toml_show E doc') else None))"

definition rewrite_shadow_manifest_path_deps ::
  "toml_edit \<Rightarrow> path \<Rightarrow> path \<Rightarrow> path list \<Rightarrow> filesystem \<Rightarrow> unit fs_result" where
  "rewrite_shadow_manifest_path_deps E shadow_manifest real_crate_dir shadow_dirs h =
     (case fs_read_to_string h shadow_manifest of
        Inl _ \<Rightarrow> (Inr (), h)
      | Inr original \<Rightarrow>
          (let base = (case fs_canonicalize h real_crate_dir of Inr p \<Rightarrow> p | Inl _ \<Rightarrow> real_crate_dir) in
           case rewrite_path_deps_to_absolute E h original base shadow_dirs of
             Some rewritten \<Rightarrow> fs_write shadow_manifest rewritten h
           | None \<Rightarrow> (Inr (), h)))"

section \<open>The shadow\<close>

definition shadow_closure_dirs :: "filesystem \<Rightarrow> closure_upload \<Rightarrow> path list" where
  "shadow_closure_dirs h up =
     map (\<lambda>d. case fs_canonicalize h d of Inr p \<Rightarrow> p | Inl _ \<Rightarrow> d) (cu_dirs up)"

definition copy_crates :: "path \<Rightarrow> path \<Rightarrow> path list \<Rightarrow> filesystem \<Rightarrow> unit fs_result" where
  "copy_crates base dest dirs = fs_each (\<lambda>dir h.
     case path_strip_prefix base dir of
       None \<Rightarrow> (Inr (), h)
     | Some rel \<Rightarrow> copy_dir_recursive (fs_path_limit h) dir (dest @ rel) h) dirs"

definition copy_extra_files :: "path \<Rightarrow> path \<Rightarrow> path list \<Rightarrow> filesystem \<Rightarrow> unit fs_result" where
  "copy_extra_files base dest files = fs_each (\<lambda>p h.
     case path_strip_prefix base p of
       None \<Rightarrow> (Inr (), h)
     | Some rel \<Rightarrow>
         fs_then (fs_create_dir_all (butlast (dest @ rel)) h) (\<lambda>_. fs_copy p (dest @ rel))) files"

definition write_inline_files :: "path \<Rightarrow> (string \<times> string) list \<Rightarrow> filesystem \<Rightarrow> unit fs_result" where
  "write_inline_files dest files = fs_each (\<lambda>(rel, body). write_inline dest rel body) files"

definition rewrite_manifests ::
  "toml_edit \<Rightarrow> path \<Rightarrow> path \<Rightarrow> path list \<Rightarrow> path list \<Rightarrow> filesystem \<Rightarrow> unit fs_result" where
  "rewrite_manifests E base dest dirs shadow_dirs = fs_each (\<lambda>dir h.
     case path_strip_prefix base dir of
       None \<Rightarrow> (Inr (), h)
     | Some rel \<Rightarrow>
         rewrite_shadow_manifest_path_deps E (dest @ rel @ [''Cargo.toml'']) dir shadow_dirs h) dirs"

text \<open>The copies and the inline files, which gives the directories that are in the shadow; then the runner and the
  rewritten manifests.\<close>

definition copy_shadow :: "path \<Rightarrow> closure_upload \<Rightarrow> path \<Rightarrow> filesystem \<Rightarrow> path list fs_result" where
  "copy_shadow base up dest h =
     fs_then (fs_create_dir_all dest h) (\<lambda>_ h.
       let shadow_dirs = shadow_closure_dirs h up in
       fs_then (copy_crates base dest (cu_dirs up) h) (\<lambda>_ h.
       fs_then (copy_extra_files base dest (cu_extra_files up) h) (\<lambda>_ h.
       fs_then (write_inline_files dest (cu_inline_files up) h) (\<lambda>_ h.
       (Inr shadow_dirs, h)))))"

definition finish_shadow ::
  "toml_edit \<Rightarrow> path \<Rightarrow> closure_upload \<Rightarrow> string \<Rightarrow> string \<Rightarrow> path \<Rightarrow> path list \<Rightarrow> filesystem \<Rightarrow> path fs_result" where
  "finish_shadow E base up runner_rel body dest shadow_dirs h =
     fs_then (write_inline dest runner_rel body h) (\<lambda>_ h.
       fs_then (rewrite_manifests E base dest (cu_dirs up) shadow_dirs h) (\<lambda>_ h. (Inr dest, h)))"

text \<open>\<open>cargo metadata\<close> depends on the state of the file system.  \<open>None\<close> is the panic of \<open>render_runner_main\<close>.\<close>

definition materialize_shadow ::
  "(filesystem \<Rightarrow> cargo) \<Rightarrow> toml_edit \<Rightarrow> path \<Rightarrow> runner_target \<Rightarrow> path \<Rightarrow> filesystem \<Rightarrow> path fs_result option" where
  "materialize_shadow C E base target dest h =
     (case workspace_closure_lenient (fs_disk h) (C h) E base (rt_package target) of
        None \<Rightarrow> Some (Inl (''cargo metadata unavailable for shadow build of package '' @ quoted (rt_package target)), h)
      | Some up \<Rightarrow>
          (case copy_shadow base up dest h of
             (Inl e, h) \<Rightarrow> Some (Inl e, h)
           | (Inr shadow_dirs, h) \<Rightarrow>
               map_option (\<lambda>body. finish_shadow E base up (injected_runner_rel_path target) body dest shadow_dirs h)
                 (render_runner_main target)))"

section \<open>The shadow stays in its directory\<close>

lemma frame_copy_dir [frame_intros]: "prefix d dst \<Longrightarrow> only_under d h (snd (copy_dir_recursive n src dst h))"
proof (induction n arbitrary: src dst h)
  case (Suc n)
  have sub: "prefix d (dst @ [x])" for x using Suc.prems by (meson prefix_append)
  have rest: "only_under d h (snd (copy_dir_recursive n (src @ [x]) (dst @ [x]) h))" for x h
    using Suc.IH sub by blast
  show ?case
    unfolding copy_dir_recursive.simps
    by (intro frame_then frame_create_dir_all)
      (auto simp: Suc.prems sub rest split: sum.split file_node.split intro!: frame_each frame_basic)
qed simp

lemma frame_parent [frame_intros]:
  assumes "prefix d p"
  shows "only_under d h (snd (fs_create_dir_all (butlast p) h))"
proof (rule frame_create_dir_all, cases "p = []")
  case False
  then show "prefix d (butlast p) \<or> prefix (butlast p) d"
    using assms by (metis append_butlast_last_id prefixI prefix_snoc)
qed simp

lemma frame_write_inline [frame_intros]: "prefix d dest \<Longrightarrow> only_under d h (snd (write_inline dest rel body h))"
  unfolding write_inline_def Let_def
  by (intro frame_then) (simp_all add: frame_parent frame_basic prefix_prefix)

lemma frame_rewrite_manifest [frame_intros]:
  "prefix d m \<Longrightarrow> only_under d h (snd (rewrite_shadow_manifest_path_deps E m crate dirs h))"
  by (auto simp: rewrite_shadow_manifest_path_deps_def Let_def frame_basic split: sum.split option.split)

lemma frame_steps [frame_intros]:
  "only_under dest h (snd (copy_crates base dest dirs h))"
  "only_under dest h (snd (copy_extra_files base dest files h))"
  "only_under dest h (snd (write_inline_files dest inline h))"
  "only_under dest h (snd (rewrite_manifests E base dest dirs shadow_dirs h))"
proof -
  show "only_under dest h (snd (copy_crates base dest dirs h))"
    unfolding copy_crates_def by (rule frame_each) (auto split: option.split intro: frame_copy_dir)
  show "only_under dest h (snd (copy_extra_files base dest files h))"
    unfolding copy_extra_files_def
    by (rule frame_each) (auto split: option.split simp del: butlast_append intro!: frame_then frame_parent frame_basic)
  show "only_under dest h (snd (write_inline_files dest inline h))"
    unfolding write_inline_files_def by (rule frame_each) (auto intro: frame_write_inline)
  show "only_under dest h (snd (rewrite_manifests E base dest dirs shadow_dirs h))"
    unfolding rewrite_manifests_def by (rule frame_each) (auto split: option.split intro: frame_rewrite_manifest)
qed

text \<open>What a rewritten path dependency denotes.\<close>

lemma is_absolute_show_path: "is_absolute (show_path p)"
  by (simp add: is_absolute_def show_path_def)

lemma dep_path_set_path: "dep_path_str item \<noteq> None \<Longrightarrow> dep_path_str (set_path s item) = Some s"
  by (cases item) (auto simp: update_conv')

lemma rewrite_dep_settled:
  "dep_path_str (snd (rewrite_dep h real_dir dirs item)) =
     map_option (\<lambda>s. if is_absolute s \<or> resolve_dep h real_dir s \<in> set dirs then s
                     else show_path (resolve_dep h real_dir s)) (dep_path_str item)"
  by (auto simp: rewrite_dep_def Let_def dep_path_set_path split: option.split)

lemma frame_copy_shadow: "only_under dest h (snd (copy_shadow base up dest h))"
  unfolding copy_shadow_def Let_def by (intro frame_intros) simp_all

lemma frame_finish_shadow: "only_under dest h (snd (finish_shadow E base up rel body dest dirs h))"
  unfolding finish_shadow_def by (intro frame_intros) simp_all

lemma materialize_shadow_frame:
  assumes "materialize_shadow C E base target dest h = Some (r, h')"
  shows "only_under dest h h'"
proof (cases "workspace_closure_lenient (fs_disk h) (C h) E base (rt_package target)")
  case (Some up)
  obtain r1 h1 where c: "copy_shadow base up dest h = (r1, h1)" by force
  then have "only_under dest h h1" using frame_copy_shadow [of dest h base up] by simp
  moreover have "h' = h1 \<or> (\<exists>body dirs. finish_shadow E base up (injected_runner_rel_path target) body dest dirs h1 = (r, h'))"
    using assms by (auto simp: materialize_shadow_def Some c split: sum.splits)
  ultimately show ?thesis
    using frame_finish_shadow [of dest h1 E base up "injected_runner_rel_path target"] by (metis only_under_trans snd_conv)
qed (use assms in \<open>simp add: materialize_shadow_def\<close>)

section \<open>Properties\<close>

text \<open>The shadow build never touches the user's tree: whatever happens, materializing the shadow leaves
  everything outside its directory as it was, and only creates the missing parents of that directory.\<close>

lemma shadow_is_confined:
  "case materialize_shadow C E base target dest h of
     None \<Rightarrow> True
   | Some (r, h') \<Rightarrow>
       \<forall>q. prefix dest q \<or> node_at h' q = node_at h q \<or>
           (prefix q dest \<and> node_at h q = None \<and> node_at h' q = Some FsDir)"
  by (auto simp: only_under_def dest!: materialize_shadow_frame split: option.split)

end
