(* ===== verification/DescribeCache.thy ===== *)
theory DescribeCache
  imports FileSystem Pickle Upload ControlPlane
begin

text \<open>
  The manifest cache of the command line (\<open>crates/modal-rust-cli/src/describe_cache.rs\<close>): the hashed message
  over the package, the lock file and the sources of the closure, and the files the entries are kept in.
  SHA-256 is a parameter.
\<close>

definition DESCRIBE_CACHE_VERSION :: nat where "DESCRIBE_CACHE_VERSION = 1"

section \<open>The message\<close>

definition update_field :: "string \<Rightarrow> bytes" where
  "update_field s = to_le_bytes 8 (length s) @ to_bytes s"

definition is_cache_input :: "string \<Rightarrow> bool" where
  "is_cache_input name \<longleftrightarrow> name = ''Cargo.toml'' \<or> suffix ''.rs'' name"

text \<open>The walk's fuel is the number of components the system allows in a path.  \<open>None\<close>: no caching.\<close>

primrec walk_sources ::
  "nat \<Rightarrow> filesystem \<Rightarrow> path \<Rightarrow> path \<Rightarrow> (string \<times> path) list \<Rightarrow> (string \<times> path) list option" where
  "walk_sources 0 h key_root dir out = None"
| "walk_sources (Suc n) h key_root dir out =
     (case fs_read_dir h dir of
        Inl _ \<Rightarrow> None
      | Inr entries \<Rightarrow>
          fold_opt (\<lambda>(file_name, node) out.
            let name = to_string_lossy file_name; p = dir @ [file_name] in
            case node of
              FsDir \<Rightarrow>
                if name = ''target'' \<or> name = ''.git'' then Some out else walk_sources n h key_root p out
            | FsFile _ \<Rightarrow>
                if is_cache_input name
                then Some (out @ [(join_with ''/'' (filter utf8_valid
                       (case path_strip_prefix key_root p of Some rel \<Rightarrow> rel | None \<Rightarrow> p)), p)])
                else Some out
            | FsOther \<Rightarrow> Some out) entries out)"

definition collect_closure_files :: "filesystem \<Rightarrow> path \<Rightarrow> path list \<Rightarrow> (string \<times> path) list option" where
  "collect_closure_files h base dirs =
     fold_opt (\<lambda>dir out.
       let key_root = (if path_strip_prefix base dir \<noteq> None then base else dir)
       in walk_sources (fs_path_limit h) h key_root dir out) dirs []"

record key_inputs =
  ki_package :: string
  ki_generatable :: bool
  ki_lock :: "string option"
  ki_files :: "(string \<times> string) list"

definition key_inputs_of :: "cargo \<Rightarrow> path \<Rightarrow> string \<Rightarrow> bool \<Rightarrow> filesystem \<Rightarrow> key_inputs option" where
  "key_inputs_of C base package generatable h =
     (case describe_cache_inputs (fs_disk h) C base package of
        None \<Rightarrow> None
      | Some dirs \<Rightarrow>
          (case collect_closure_files h base dirs of
             None \<Rightarrow> None
           | Some files \<Rightarrow>
               (let lock = (case fs_read h (base @ [''Cargo.lock'']) of Inr s \<Rightarrow> Some s | Inl _ \<Rightarrow> None) in
                map_option (\<lambda>contents. \<lparr>ki_package = package, ki_generatable = generatable, ki_lock = lock,
                    ki_files = contents\<rparr>)
                  (those (map (\<lambda>(rel, p). case fs_read h p of Inr s \<Rightarrow> Some (rel, s) | Inl _ \<Rightarrow> None)
                    (sort_key fst files))))))"

definition key_message :: "key_inputs \<Rightarrow> bytes" where
  "key_message x =
     to_le_bytes 4 DESCRIBE_CACHE_VERSION
     @ update_field (ki_package x) @ [if ki_generatable x then 1 else 0]
     @ (case ki_lock x of Some s \<Rightarrow> 1 # update_field s | None \<Rightarrow> [0])
     @ to_le_bytes 8 (length (ki_files x))
     @ concat (map (\<lambda>(rel, s). update_field rel @ update_field s) (ki_files x))"

definition key :: "digests_lib \<Rightarrow> cargo \<Rightarrow> path \<Rightarrow> string \<Rightarrow> bool \<Rightarrow> filesystem \<Rightarrow> string option" where
  "key X C base package generatable h =
     map_option (\<lambda>x. sha256_hex X (key_message x)) (key_inputs_of C base package generatable h)"

section \<open>The entries\<close>

definition cache_file_name :: "string \<Rightarrow> string" where
  "cache_file_name k = ''describe-'' @ k @ ''.json''"

definition cache_path :: "path \<Rightarrow> string \<Rightarrow> path" where
  "cache_path shared_target k = shared_target @ [''.modal-rust'', cache_file_name k]"

definition load :: "path \<Rightarrow> string \<Rightarrow> filesystem \<Rightarrow> string option" where
  "load shared_target k h = (case fs_read h (cache_path shared_target k) of Inr s \<Rightarrow> Some s | Inl _ \<Rightarrow> None)"

definition store :: "path \<Rightarrow> string \<Rightarrow> string \<Rightarrow> filesystem \<Rightarrow> filesystem" where
  "store shared_target k manifest_bytes h =
     (let p = cache_path shared_target k in
      case fs_create_dir_all (butlast p) h of
        (Inl _, h) \<Rightarrow> h
      | (Inr _, h) \<Rightarrow> snd (fs_write p manifest_bytes h))"

section \<open>The message determines its inputs\<close>

lemma to_le_bytes_inj:
  "to_le_bytes k m = to_le_bytes k n \<Longrightarrow> m < 256 ^ k \<Longrightarrow> n < 256 ^ k \<Longrightarrow> m = n"
  by (metis of_to_le_bytes)

lemma byte_word_inj: "(of_nat (byte c) :: 8 word) = of_nat (byte d) \<longleftrightarrow> c = d"
proof
  assume "(of_nat (byte c) :: 8 word) = of_nat (byte d)"
  then have "byte c mod 256 = byte d mod 256" by (simp add: word_of_nat_eq_iff take_bit_eq_mod)
  then have "(of_char c :: nat) = of_char d" by (simp add: byte_def)
  then show "c = d" by simp
qed simp

lemma to_bytes_inj: "to_bytes s = to_bytes t \<longleftrightarrow> s = t"
  by (induction s t rule: list_induct2') (auto simp: to_bytes_def byte_word_inj)

definition small :: "string \<Rightarrow> bool" where "small s \<longleftrightarrow> length s < 2 ^ 64"

lemma update_field_append_inj:
  assumes "small s" and "small t"
  shows "update_field s @ xs = update_field t @ ys \<longleftrightarrow> s = t \<and> xs = ys"
proof
  assume eq: "update_field s @ xs = update_field t @ ys"
  then have n: "to_le_bytes 8 (length s) = to_le_bytes 8 (length t)"
    and rest: "to_bytes s @ xs = to_bytes t @ ys"
    by (simp_all add: update_field_def append_eq_append_conv)
  have "length s = length t"
    by (rule to_le_bytes_inj [OF n]) (use assms in \<open>simp_all add: small_def\<close>)
  then have "length (to_bytes s) = length (to_bytes t)" by (simp add: to_bytes_def)
  with rest show "s = t \<and> xs = ys" by (simp add: append_eq_append_conv to_bytes_inj)
qed simp

lemma files_message_inj:
  assumes "list_all (\<lambda>(r, s). small r \<and> small s) fs" and "list_all (\<lambda>(r, s). small r \<and> small s) gs"
    and "length fs = length gs"
    and "concat (map (\<lambda>(rel, s). update_field rel @ update_field s) fs) =
         concat (map (\<lambda>(rel, s). update_field rel @ update_field s) gs)"
  shows "fs = gs"
  using assms(3,1,2,4)
  by (induction fs gs rule: list_induct2) (auto simp: update_field_append_inj)

text \<open>What fits a machine of 64 bits.\<close>

definition bounded_inputs :: "key_inputs set" where
  "bounded_inputs = {x. small (ki_package x) \<and> (case ki_lock x of None \<Rightarrow> True | Some s \<Rightarrow> small s) \<and>
     length (ki_files x) < 2 ^ 64 \<and> list_all (\<lambda>(r, s). small r \<and> small s) (ki_files x)}"

lemma key_message_determines:
  assumes "x \<in> bounded_inputs" and "y \<in> bounded_inputs" and eq: "key_message x = key_message y"
  shows "x = y"
proof -
  let ?files = "\<lambda>x. to_le_bytes 8 (length (ki_files x)) @
    concat (map (\<lambda>(rel, s). update_field rel @ update_field s) (ki_files x))"
  from eq have a: "ki_package x = ki_package y"
    and b: "(if ki_generatable x then 1 else 0 :: 8 word) = (if ki_generatable y then 1 else 0)"
    and c: "(case ki_lock x of Some s \<Rightarrow> 1 # update_field s | None \<Rightarrow> [0]) @ ?files x =
            (case ki_lock y of Some s \<Rightarrow> 1 # update_field s | None \<Rightarrow> [0]) @ ?files y"
    using assms by (simp_all add: key_message_def bounded_inputs_def update_field_append_inj)
  from c have d: "ki_lock x = ki_lock y" and e: "?files x = ?files y"
    using assms by (auto simp: bounded_inputs_def update_field_append_inj split: option.splits)
  from e have n: "to_le_bytes 8 (length (ki_files x)) = to_le_bytes 8 (length (ki_files y))"
    and f: "concat (map (\<lambda>(rel, s). update_field rel @ update_field s) (ki_files x)) =
            concat (map (\<lambda>(rel, s). update_field rel @ update_field s) (ki_files y))"
    by (simp_all add: append_eq_append_conv)
  have "length (ki_files x) = length (ki_files y)"
    by (rule to_le_bytes_inj [OF n]) (use assms in \<open>simp_all add: bounded_inputs_def\<close>)
  with f assms have "ki_files x = ki_files y" by (intro files_message_inj) (simp_all add: bounded_inputs_def)
  with a b d show ?thesis by (simp split: if_splits)
qed

section \<open>Entries are kept apart\<close>

lemma fs_read_new_dir: "node_at h p = None \<Longrightarrow> fs_read (set_node p FsDir h) = fs_read h"
  by (auto simp: fs_read_def fun_eq_iff split: option.split file_node.split)

lemma fs_read_set_file:
  "fs_read (set_node p (FsFile s) h) q = (if q = p then if fs_denied h p then Inl (fs_error h p) else Inr s else fs_read h q)"
  by (auto simp: fs_read_def split: option.split file_node.split)

lemma create_dir_reads: "fs_read (snd (fs_create_dir p h)) = fs_read h"
  by (simp add: fs_create_dir_def fs_read_new_dir)

lemma create_dirs_read: "fs_read (snd (fs_each fs_create_dir ps h)) = fs_read h"
proof (induction ps arbitrary: h)
  case (Cons p ps)
  obtain r h1 where r: "fs_create_dir p h = (r, h1)" by force
  with create_dir_reads [of p h] have "fs_read h1 = fs_read h" by simp
  with Cons.IH [of h1] show ?case by (auto simp: r split: sum.split)
qed simp

lemma write_reads:
  "load d k' (snd (fs_write p s h)) = load d k' h \<or> (cache_path d k' = p \<and> load d k' (snd (fs_write p s h)) = Some s)"
  by (auto simp: load_def fs_write_def fs_read_set_file) (auto simp: fs_read_def split: option.split file_node.split)

lemma store_load:
  "load d k' (store d k b h) = load d k' h \<or> (k' = k \<and> load d k' (store d k b h) = Some b)"
proof -
  obtain r h1 where r: "fs_create_dir_all (butlast (cache_path d k)) h = (r, h1)" by force
  with create_dirs_read [of "prefixes (butlast (cache_path d k))" h] have "fs_read h1 = fs_read h"
    by (simp add: fs_create_dir_all_def)
  moreover have "cache_path d k' = cache_path d k \<longleftrightarrow> k' = k"
    by (simp add: cache_path_def cache_file_name_def)
  ultimately show ?thesis
    using write_reads [of d k' "cache_path d k" b h1]
    by (cases r) (auto simp: load_def store_def Let_def r)
qed

section \<open>Properties\<close>

text \<open>C31. The cache cannot serve a manifest of other sources: the hashed messages of two builds are equal only
  when the package, the runner decision, the lock file (present or not) and every source file of the closure,
  path and contents, are equal.  Fields cannot run into each other.\<close>

theorem cache_key_separates: "inj_on key_message bounded_inputs"
  by (rule inj_onI) (rule key_message_determines)

end
