(* ===== verification/ProjectFiles.thy ===== *)
theory ProjectFiles
  imports Shadow Deploy
begin

text \<open>
  The errors of the command line (\<open>anyhow\<close>: a cause under the contexts it was given, outermost first) and its
  line scans of manifests: the workspace root and the package name (\<open>crates/modal-rust-cli/src/workspace.rs\<close>)
  and the panic strategy of the release profile (\<open>doctor.rs\<close>).
\<close>

section \<open>Errors\<close>

datatype cause = Message string | Io string | Facade facade_error | SdkCause error | Json string | ParseInt

type_synonym cli_error = "string list \<times> cause"

definition bail :: "string \<Rightarrow> cli_error + 'a" where "bail msg = Inl ([], Message msg)"

definition with_context :: "string \<Rightarrow> cli_error + 'a \<Rightarrow> cli_error + 'a" where
  "with_context msg = map_sum (\<lambda>(ctx, c). (msg # ctx, c)) id"

definition caused :: "('e \<Rightarrow> cause) \<Rightarrow> 'e + 'a \<Rightarrow> cli_error + 'a" where
  "caused f = map_sum (\<lambda>e. ([], f e)) id"

definition option_context :: "string \<Rightarrow> 'a option \<Rightarrow> cli_error + 'a" where
  "option_context msg x = (case x of Some a \<Rightarrow> Inr a | None \<Rightarrow> bail msg)"

section \<open>Lines\<close>

text \<open>\<open>str::lines\<close>: a line ends at a newline, a carriage return before it goes too.\<close>

definition strip_cr :: "string \<Rightarrow> string" where
  "strip_cr l = (if l \<noteq> [] \<and> last l = CHR 0x0D then butlast l else l)"

definition str_lines :: "string \<Rightarrow> string list" where
  "str_lines s =
     (let parts = split_on CHR 0x0A s in
      map strip_cr (butlast parts) @ (if last parts = [] then [] else [last parts]))"

definition trim_matches :: "(char \<Rightarrow> bool) \<Rightarrow> string \<Rightarrow> string" where
  "trim_matches p s = trim_end_matches p (trim_start_matches p s)"

definition is_quote :: "char \<Rightarrow> bool" where "is_quote c \<longleftrightarrow> c = CHR 0x22 \<or> c = CHR 0x27"

definition is_header :: "string \<Rightarrow> bool" where
  "is_header line \<longleftrightarrow> prefix ''['' line \<and> suffix '']'' line"

text \<open>The value of \<open>name = "..."\<close> in a line.\<close>

definition line_value :: "string \<Rightarrow> string \<Rightarrow> string option" where
  "line_value name line =
     (case strip_prefix name line of
        None \<Rightarrow> None
      | Some rest \<Rightarrow>
          (case strip_prefix ''='' (trim_start_matches is_ws rest) of
             None \<Rightarrow> None
           | Some rest \<Rightarrow> Some (trim_matches is_quote (trim rest))))"

section \<open>Manifests\<close>

definition declares_workspace :: "string \<Rightarrow> bool" where
  "declares_workspace text \<longleftrightarrow>
     list_ex (\<lambda>l. prefix ''[workspace]'' l \<or> prefix ''[workspace.'' l) (map trim (str_lines text))"

fun scan_package_name :: "string list \<Rightarrow> bool \<Rightarrow> string option" where
  "scan_package_name [] in_package = None"
| "scan_package_name (raw # rest) in_package =
     (let line = trim raw in
      if is_header line then scan_package_name rest (line = ''[package]'')
      else if in_package
      then (case line_value ''name'' line of
              Some v \<Rightarrow> if v \<noteq> [] then Some v else scan_package_name rest in_package
            | None \<Rightarrow> scan_package_name rest in_package)
      else scan_package_name rest in_package)"

definition package_name_in_manifest :: "string \<Rightarrow> string option" where
  "package_name_in_manifest text = scan_package_name (str_lines text) False"

fun scan_release_panic :: "string list \<Rightarrow> bool \<Rightarrow> string option" where
  "scan_release_panic [] in_release = None"
| "scan_release_panic (raw # rest) in_release =
     (let line = trim raw in
      if is_header line then scan_release_panic rest (line = ''[profile.release]'')
      else if in_release
      then (case line_value ''panic'' line of
              Some v \<Rightarrow> Some v
            | None \<Rightarrow> scan_release_panic rest in_release)
      else scan_release_panic rest in_release)"

definition release_profile_panic :: "string \<Rightarrow> string option" where
  "release_profile_panic text = scan_release_panic (str_lines text) False"

section \<open>Path arguments\<close>

text \<open>A path of the command line as it was written; a relative one is read against the current directory.
  \<open>Relative []\<close> is the empty path, the parent of a relative path of one component.\<close>

datatype given_path = Absolute path | Relative path

fun against :: "path \<Rightarrow> given_path \<Rightarrow> path" where
  "against cwd (Absolute p) = p"
| "against cwd (Relative p) = cwd @ p"

fun show_given :: "given_path \<Rightarrow> string" where
  "show_given (Absolute p) = show_path p"
| "show_given (Relative p) = join_with ''/'' (map to_string_lossy p)"

fun given_join :: "given_path \<Rightarrow> path \<Rightarrow> given_path" where
  "given_join (Absolute p) q = Absolute (p @ q)"
| "given_join (Relative p) q = Relative (p @ q)"

section \<open>The workspace root\<close>

text \<open>The walk up, the directory in reverse.\<close>

fun root_walk :: "filesystem \<Rightarrow> string list \<Rightarrow> path option \<Rightarrow> cli_error + path option" where
  "root_walk h rdir nearest =
     (let d = rev rdir; manifest = d @ [''Cargo.toml''];
          up = (\<lambda>nearest. case rdir of [] \<Rightarrow> Inr nearest | _ # rest \<Rightarrow> root_walk h rest nearest) in
      if fs_is_file h manifest
      then let nearest' = (if nearest = None then Some d else nearest) in
           and_then (with_context (''could not read '' @ show_path manifest)
                       (caused Io (fs_read_to_string h manifest))) (\<lambda>text.
             if declares_workspace text then Inr (Some d) else up nearest')
      else up nearest)"

declare root_walk.simps [simp del]

definition cli_workspace_root :: "path \<Rightarrow> given_path \<Rightarrow> filesystem \<Rightarrow> cli_error + path" where
  "cli_workspace_root cwd start h =
     and_then (with_context (''project dir does not exist: '' @ show_given start)
                 (caused Io (fs_canonicalize h (against cwd start)))) (\<lambda>start.
     and_then (root_walk h (rev start) None) (\<lambda>nearest.
     case nearest of
       Some d \<Rightarrow> Inr d
     | None \<Rightarrow> bail (''no Cargo.toml found in '' @ show_path start @ '' or any parent directory'')))"

definition package_name :: "path \<Rightarrow> given_path \<Rightarrow> filesystem \<Rightarrow> cli_error + string" where
  "package_name cwd project h =
     and_then (with_context (''project dir does not exist: '' @ show_given project)
                 (caused Io (fs_canonicalize h (against cwd project)))) (\<lambda>project.
     let manifest = project @ [''Cargo.toml''] in
     and_then (with_context (''could not read '' @ show_path manifest) (caused Io (fs_read_to_string h manifest))) (\<lambda>text.
     case package_name_in_manifest text of
       Some name \<Rightarrow> Inr name
     | None \<Rightarrow> bail (''no [package].name in '' @ show_path manifest
         @ '' '' @ emdash @ '' point --project at a concrete package directory (e.g. examples/add), ''
         @ ''not a workspace/virtual manifest'')))"

section \<open>The root that is found\<close>

definition is_crate :: "filesystem \<Rightarrow> path \<Rightarrow> bool" where
  "is_crate h d \<longleftrightarrow> fs_is_file h (d @ [''Cargo.toml''])"

definition is_workspace :: "filesystem \<Rightarrow> path \<Rightarrow> bool" where
  "is_workspace h d \<longleftrightarrow>
     is_crate h d \<and> (case fs_read_to_string h (d @ [''Cargo.toml'']) of Inr s \<Rightarrow> declares_workspace s | Inl _ \<Rightarrow> False)"

lemma ancestors_snoc: "rev (prefixes (rev (x # xs))) = rev (x # xs) # rev (prefixes (rev xs))"
  by (simp add: prefixes_snoc)

lemma root_walk_result:
  "root_walk h rdir nearest = Inr r \<Longrightarrow>
   r = (case find (is_workspace h) (rev (prefixes (rev rdir))) of
          Some d \<Rightarrow> Some d
        | None \<Rightarrow> (case nearest of Some n \<Rightarrow> Some n | None \<Rightarrow> find (is_crate h) (rev (prefixes (rev rdir)))))"
proof (induction rdir arbitrary: nearest)
  case Nil
  then show ?case
    by (cases "fs_read_to_string h [''Cargo.toml'']"; cases nearest)
      (auto simp: root_walk.simps [of _ "[]"] Let_def is_workspace_def is_crate_def with_context_def caused_def
        split: if_splits)
next
  case (Cons x rdir)
  let ?d = "rev (x # rdir)"
  from Cons.prems consider
      (here) s where "is_crate h ?d" "fs_read_to_string h (?d @ [''Cargo.toml'']) = Inr s"
        "declares_workspace s" "r = Some ?d"
    | (on) s where "is_crate h ?d" "fs_read_to_string h (?d @ [''Cargo.toml'']) = Inr s"
        "\<not> declares_workspace s" "root_walk h rdir (if nearest = None then Some ?d else nearest) = Inr r"
    | (up) "\<not> is_crate h ?d" "root_walk h rdir nearest = Inr r"
    by (cases "fs_read_to_string h (?d @ [''Cargo.toml''])")
      (auto simp: root_walk.simps [of _ "x # rdir"] Let_def is_crate_def with_context_def caused_def split: if_splits)
  then show ?case
  proof cases
    case here
    then show ?thesis unfolding ancestors_snoc by (simp add: is_workspace_def)
  next
    case on
    then show ?thesis
      unfolding ancestors_snoc using Cons.IH [OF on(4)]
      by (cases nearest) (simp_all add: is_workspace_def split: option.split)
  next
    case up
    then show ?thesis
      unfolding ancestors_snoc using Cons.IH [OF up(2)] by (simp add: is_workspace_def split: option.split)
  qed
qed

section \<open>Properties\<close>

text \<open>The root that is mounted or copied is the nearest enclosing directory whose manifest declares a
  workspace; where there is none it is the nearest directory with a manifest.\<close>

lemma workspace_root_is_nearest:
  "case (cli_workspace_root cwd start h, fs_canonicalize h (against cwd start)) of
     (Inr d, Inr p) \<Rightarrow>
       (let ancestors = rev (prefixes p) in
        Some d = (case find (is_workspace h) ancestors of Some w \<Rightarrow> Some w | None \<Rightarrow> find (is_crate h) ancestors))
   | (Inr d, Inl _) \<Rightarrow> False
   | (Inl _, _) \<Rightarrow> True"
proof (cases "fs_canonicalize h (against cwd start)")
  case (Inr p)
  show ?thesis
  proof (cases "root_walk h (rev p) None")
    case walk: (Inr r)
    from root_walk_result [OF walk]
    have r: "r = (case find (is_workspace h) (rev (prefixes p)) of Some w \<Rightarrow> Some w | None \<Rightarrow> find (is_crate h) (rev (prefixes p)))"
      by (simp split: option.split)
    show ?thesis
    proof (cases r)
      case (Some d)
      with r walk have c: "Some d = (case find (is_workspace h) (rev (prefixes p)) of Some w \<Rightarrow> Some w
          | None \<Rightarrow> find (is_crate h) (rev (prefixes p)))"
        and w: "root_walk h (rev p) None = Inr (Some d)"
        by simp_all
      show ?thesis by (simp add: cli_workspace_root_def with_context_def caused_def Inr Let_def w c [symmetric])
    qed (use walk in \<open>simp add: cli_workspace_root_def with_context_def caused_def bail_def Inr\<close>)
  qed (simp add: cli_workspace_root_def with_context_def caused_def Inr)
qed (simp add: cli_workspace_root_def with_context_def caused_def)

end
