(* ===== verification/Shell.thy ===== *)
theory Shell
  imports ProjectFiles
begin

text \<open>
  What a command of the command line runs in: its state is the file system, the world of the SDK, the
  lines printed so far and the counter of shadow directories; the processes it starts are a record of functions on the
  file system.  \<open>None\<close> means that a process or an operation of the SDK does not return.  A variable
  that is set but not Unicode is taken as unset.
\<close>

section \<open>State and processes\<close>

record 'w cli_state =
  cs_fs :: filesystem
  cs_world :: 'w
  cs_out :: "string list"
  cs_err :: "string list"
  cs_shadows :: nat

datatype program = OnPath string | AtPath path

record exec_output =
  ex_code :: "int option"
  ex_stdout :: string
  ex_stderr :: string

definition ex_success :: "exec_output \<Rightarrow> bool" where "ex_success o' \<longleftrightarrow> ex_code o' = Some 0"

record build_command =
  bc_package :: string
  bc_cwd :: path
  bc_target_dir :: "given_path option"

datatype build_outcome = SpawnFailed string | ReadFailed string | WaitFailed string | Exited "int option" string

record processes =
  ps_exec :: "program \<Rightarrow> string list \<Rightarrow> path option \<Rightarrow> filesystem \<Rightarrow> ((string + exec_output) \<times> filesystem) option"
  ps_build :: "build_command \<Rightarrow> filesystem \<Rightarrow> (build_outcome \<times> filesystem) option"
  ps_metadata :: "filesystem \<Rightarrow> cargo"
  ps_path :: "string \<Rightarrow> given_path"
  ps_cwd :: path
  ps_temp_dir :: path
  ps_pid :: nat

text \<open>What a path of the command line refers to: the system reads its \<open>.\<close> and \<open>..\<close>.\<close>

definition given_file :: "processes \<Rightarrow> filesystem \<Rightarrow> given_path \<Rightarrow> bool" where
  "given_file P h g = (case canonical_walk h [] (against (ps_cwd P) g) of Some q \<Rightarrow> fs_is_file h q | None \<Rightarrow> False)"

definition the_path :: "processes \<Rightarrow> given_path \<Rightarrow> path" where "the_path P g = against (ps_cwd P) g"

section \<open>Commands\<close>

type_synonym ('w, 'a) cmd = "'w cli_state \<Rightarrow> ((cli_error + 'a) \<times> 'w cli_state) option"

definition yields :: "'a \<Rightarrow> ('w, 'a) cmd" where "yields a s = Some (Inr a, s)"

definition of_cli :: "cli_error + 'a \<Rightarrow> ('w, 'a) cmd" where "of_cli r s = Some (r, s)"

definition bind_cmd :: "('w, 'a) cmd \<Rightarrow> ('a \<Rightarrow> ('w, 'b) cmd) \<Rightarrow> ('w, 'b) cmd" where
  "bind_cmd m f s =
     (case m s of
        None \<Rightarrow> None
      | Some (Inl e, s') \<Rightarrow> Some (Inl e, s')
      | Some (Inr a, s') \<Rightarrow> f a s')"

definition on_fs :: "(filesystem \<Rightarrow> 'a fs_result) \<Rightarrow> ('w, string + 'a) cmd" where
  "on_fs m s = (case m (cs_fs s) of (r, h) \<Rightarrow> Some (Inr r, s\<lparr>cs_fs := h\<rparr>))"

definition look :: "(filesystem \<Rightarrow> cli_error + 'a) \<Rightarrow> ('w, 'a) cmd" where
  "look f s = Some (f (cs_fs s), s)"

definition println :: "string \<Rightarrow> ('w, unit) cmd" where
  "println l s = Some (Inr (), s\<lparr>cs_out := cs_out s @ [l]\<rparr>)"

definition eprintln :: "string \<Rightarrow> ('w, unit) cmd" where
  "eprintln l s = Some (Inr (), s\<lparr>cs_err := cs_err s @ [l]\<rparr>)"

definition exec :: "processes \<Rightarrow> program \<Rightarrow> string list \<Rightarrow> path option \<Rightarrow> ('w, string + exec_output) cmd" where
  "exec P prog args cwd s =
     (case ps_exec P prog args cwd (cs_fs s) of
        None \<Rightarrow> None
      | Some (r, h) \<Rightarrow> Some (Inr r, s\<lparr>cs_fs := h\<rparr>))"

text \<open>An operation of the SDK or of the facade, under a context.\<close>

definition in_world :: "string \<Rightarrow> ('w, 'a) run \<Rightarrow> ('w, 'a) cmd" where
  "in_world ctx m s =
     (case m (cs_world s) of
        None \<Rightarrow> None
      | Some (r, w) \<Rightarrow> Some (with_context ctx (caused Facade r), s\<lparr>cs_world := w\<rparr>))"

fun each_cmd :: "('a \<Rightarrow> ('w, unit) cmd) \<Rightarrow> 'a list \<Rightarrow> ('w, unit) cmd" where
  "each_cmd f [] = yields ()"
| "each_cmd f (x # xs) = bind_cmd (f x) (\<lambda>_. each_cmd f xs)"

section \<open>Facts\<close>

lemma bind_cmd_Inr_iff:
  "bind_cmd m f s = Some (Inr b, s') \<longleftrightarrow> (\<exists>a s1. m s = Some (Inr a, s1) \<and> f a s1 = Some (Inr b, s'))"
  by (auto simp: bind_cmd_def split: option.splits sum.splits)

lemma bind_cmd_Some_iff:
  "bind_cmd m f s = Some (r, s') \<longleftrightarrow>
     (\<exists>e. m s = Some (Inl e, s') \<and> r = Inl e) \<or> (\<exists>a s1. m s = Some (Inr a, s1) \<and> f a s1 = Some (r, s'))"
  by (auto simp: bind_cmd_def split: option.splits sum.splits)

lemma cmd_iff [simp]:
  "yields a s = Some (r, s') \<longleftrightarrow> r = Inr a \<and> s' = s"
  "of_cli x s = Some (x', s') \<longleftrightarrow> x' = x \<and> s' = s"
  "look g s = Some (y, s') \<longleftrightarrow> y = g (cs_fs s) \<and> s' = s"
  "println l s = Some (u, s') \<longleftrightarrow> u = Inr () \<and> s' = s\<lparr>cs_out := cs_out s @ [l]\<rparr>"
  "eprintln l s = Some (u, s') \<longleftrightarrow> u = Inr () \<and> s' = s\<lparr>cs_err := cs_err s @ [l]\<rparr>"
  by (auto simp: yields_def of_cli_def look_def println_def eprintln_def)

lemma bind_look [simp]: "bind_cmd (look g) f s = (case g (cs_fs s) of Inl e \<Rightarrow> Some (Inl e, s) | Inr a \<Rightarrow> f a s)"
  by (simp add: bind_cmd_def look_def split: sum.split)

lemma bind_prints [simp]:
  "bind_cmd (println l) f s = f () (s\<lparr>cs_out := cs_out s @ [l]\<rparr>)"
  "bind_cmd (eprintln l) f s = f () (s\<lparr>cs_err := cs_err s @ [l]\<rparr>)"
  by (simp_all add: bind_cmd_def println_def eprintln_def)

lemma bind_yields [simp]: "bind_cmd (yields a) f s = f a s"
  by (simp add: bind_cmd_def yields_def)

lemma bind_of_cli [simp]: "bind_cmd (of_cli x) f s = (case x of Inl e \<Rightarrow> Some (Inl e, s) | Inr a \<Rightarrow> f a s)"
  by (simp add: bind_cmd_def of_cli_def split: sum.split)

lemma bind_assoc [simp]: "bind_cmd (bind_cmd m f) g s = bind_cmd m (\<lambda>a. bind_cmd (f a) g) s"
  by (simp add: bind_cmd_def split: option.split sum.split)

lemma bind_each_eprintln [simp]:
  "bind_cmd (each_cmd eprintln ls) f s = f () (s\<lparr>cs_err := cs_err s @ ls\<rparr>)"
  by (induction ls arbitrary: s) simp_all

end
