(* ===== verification/Doctor.thy ===== *)
theory Doctor
  imports Shell
begin

text \<open>
  The offline preflight (\<open>crates/modal-rust-cli/src/doctor.rs\<close>): its checks, the report and the exit code.
\<close>

section \<open>Checks\<close>

datatype check_outcome = CheckOk string | CheckWarn string | CheckFail json

definition fail_envelope :: "string \<Rightarrow> string \<Rightarrow> json \<Rightarrow> json" where
  "fail_envelope kind message details =
     JObj [(''ok'', JBool False),
           (''error'', JObj [(''kind'', JStr kind), (''message'', JStr message), (''details'', details),
              (''backtrace'', JStr [])])]"

definition which :: "facade_lib \<Rightarrow> processes \<Rightarrow> filesystem \<Rightarrow> string \<Rightarrow> given_path option" where
  "which L P h bin =
     (case fl_env L ''PATH'' of
        None \<Rightarrow> None
      | Some path \<Rightarrow> find (given_file P h) (map (\<lambda>dir. given_join (ps_path P dir) [bin]) (split_on CHR '':'' path)))"

definition capture_version :: "processes \<Rightarrow> string \<Rightarrow> string list \<Rightarrow> ('w, string option) cmd" where
  "capture_version P bin args =
     bind_cmd (exec P (OnPath bin) args None) (\<lambda>r. yields
       (case r of
          Inl _ \<Rightarrow> None
        | Inr out \<Rightarrow>
            if \<not> ex_success out then None
            else let s = trim (to_string_lossy (ex_stdout out));
                     s = (if s = [] then trim (to_string_lossy (ex_stderr out)) else s)
                 in if s = [] then None else Some s))"

definition check_modal_credentials :: "facade_lib \<Rightarrow> processes \<Rightarrow> filesystem \<Rightarrow> check_outcome" where
  "check_modal_credentials L P h =
     (let home_toml = map_option (\<lambda>d. given_join (ps_path P d) [''.modal.toml'']) (fl_env L ''HOME'');
          toml_present = (case home_toml of Some p \<Rightarrow> given_file P h p | None \<Rightarrow> False);
          env_id = (fl_env L ''MODAL_TOKEN_ID'' \<noteq> None);
          env_secret = (fl_env L ''MODAL_TOKEN_SECRET'' \<noteq> None)
      in if toml_present
         then CheckOk (''Modal credentials: '' @ (case home_toml of Some p \<Rightarrow> show_given p | None \<Rightarrow> []))
         else if env_id \<and> env_secret
         then CheckOk ''Modal credentials: MODAL_TOKEN_ID + MODAL_TOKEN_SECRET (env)''
         else CheckFail (fail_envelope ''missing_prerequisite''
           ''no Modal credentials found (~/.modal.toml or MODAL_TOKEN_ID/MODAL_TOKEN_SECRET)''
           (JObj [(''prerequisite'', JStr ''Modal credentials''),
              (''checked'', JObj [(''~/.modal.toml'', JBool toml_present), (''MODAL_TOKEN_ID'', JBool env_id),
                 (''MODAL_TOKEN_SECRET'', JBool env_secret)]),
              (''remediation'', JStr (''Run `modal token new` to create ~/.modal.toml, or export ''
                 @ ''MODAL_TOKEN_ID and MODAL_TOKEN_SECRET.''))])))"

text \<open>The checks of \<open>cargo\<close> and \<open>rustc\<close> differ in the name and in the remediation.\<close>

definition check_tool :: "facade_lib \<Rightarrow> processes \<Rightarrow> string \<Rightarrow> string \<Rightarrow> ('w, check_outcome) cmd" where
  "check_tool L P bin remediation =
     bind_cmd (look (\<lambda>h. Inr (which L P h bin))) (\<lambda>found.
     bind_cmd (capture_version P bin [''--version'']) (\<lambda>ver. yields
       (case (found, ver) of
          (Some p, Some v) \<Rightarrow> CheckOk (bin @ '': '' @ v @ '' ('' @ show_given p @ '')'')
        | _ \<Rightarrow> CheckFail (fail_envelope ''missing_prerequisite''
            (''`'' @ bin @ ''` not found on $PATH (required for the run/deploy build stage)'')
            (JObj [(''prerequisite'', JStr bin), (''remediation'', JStr remediation)])))))"

definition check_cargo :: "facade_lib \<Rightarrow> processes \<Rightarrow> ('w, check_outcome) cmd" where
  "check_cargo L P = check_tool L P ''cargo''
     (''Install Rust via https://rustup.rs (`curl --proto '' @ quoted ''=https'' @ '' --tlsv1.2 -sSf https://sh.rustup.rs | sh`).'')"

definition check_rustc :: "facade_lib \<Rightarrow> processes \<Rightarrow> ('w, check_outcome) cmd" where
  "check_rustc L P = check_tool L P ''rustc'' ''Install Rust via https://rustup.rs.''"

section \<open>The panic strategy\<close>

text \<open>The system reads \<open>.\<close> and \<open>..\<close> in the path of a manifest.\<close>

definition manifest_text :: "filesystem \<Rightarrow> path \<Rightarrow> string option" where
  "manifest_text h p =
     (case canonical_walk h [] p of
        None \<Rightarrow> None
      | Some q \<Rightarrow> (case fs_read_to_string h q of Inr s \<Rightarrow> Some s | Inl _ \<Rightarrow> None))"

text \<open>The walk goes up the path as it was given: a relative one ends at the current directory.\<close>

fun panic_walk :: "filesystem \<Rightarrow> (path \<Rightarrow> path) \<Rightarrow> string list \<Rightarrow> (string \<times> path) option \<Rightarrow> (string \<times> path) option \<times> bool" where
  "panic_walk h base rdir found =
     (let manifest = rev rdir @ [''Cargo.toml''];
          up = (\<lambda>found. case rdir of [] \<Rightarrow> (found, False) | _ # rest \<Rightarrow> panic_walk h base rest found) in
      case manifest_text h (base manifest) of
        None \<Rightarrow> up found
      | Some s \<Rightarrow>
          (let is_root = declares_workspace s;
               found' = (case release_profile_panic s of
                           Some v \<Rightarrow> if is_root \<or> found = None then Some (v, manifest) else found
                         | None \<Rightarrow> found)
           in if is_root then (found', True) else up found'))"

declare panic_walk.simps [simp del]

fun given_comps :: "given_path \<Rightarrow> path" where
  "given_comps (Absolute p) = p"
| "given_comps (Relative p) = p"

fun like :: "given_path \<Rightarrow> path \<Rightarrow> given_path" where
  "like (Absolute _) p = Absolute p"
| "like (Relative _) p = Relative p"

definition check_panic_profile :: "path \<Rightarrow> given_path \<Rightarrow> filesystem \<Rightarrow> check_outcome" where
  "check_panic_profile cwd manifest_dir h =
     (case panic_walk h (\<lambda>p. against cwd (like manifest_dir p)) (rev (given_comps manifest_dir)) None of
        (Some (val, manifest), _) \<Rightarrow>
          if val = ''abort''
          then CheckFail (fail_envelope ''panic_abort_profile''
            (''release profile is `panic = '' @ quote @ ''abort'' @ quote @ ''` '' @ emdash @ '' this breaks the `panic` error envelope'')
            (JObj [(''manifest'', JStr (show_given (like manifest_dir manifest))),
               (''resolved_release_panic'', JStr val),
               (''why'', JStr (''catch_unwind requires the unwind strategy; abort degrades the structured `panic` ''
                  @ ''kind into a raw process abort (boundaries.md '' @ [CHR 0xC2, CHR 0xA7] @ ''6).'')),
               (''remediation'', JStr (''Set `[profile.release] panic = '' @ quote @ ''unwind'' @ quote
                  @ ''` in the workspace-root Cargo.toml (or remove the abort override).''))]))
          else CheckOk (''release profile panic = '' @ quote @ val @ quote @ '' ('' @ show_given (like manifest_dir manifest) @ '')'')
      | (None, is_root) \<Rightarrow>
          CheckOk (''release profile panic = '' @ quote @ ''unwind'' @ quote @ '' (cargo default; no override in ''
            @ (if is_root then ''workspace root'' else ''manifest chain'') @ '')''))"

section \<open>Duplicated crates\<close>

definition FACADE_IDENTITY_CRATES :: "string list" where
  "FACADE_IDENTITY_CRATES = [''modal-rust'', ''modal-rust-runtime'', ''inventory'']"

fun as_array :: "json \<Rightarrow> json list option" where
  "as_array (JArr js) = Some js"
| "as_array _ = None"

definition str_or :: "json \<Rightarrow> string \<Rightarrow> string \<Rightarrow> string" where
  "str_or j field dflt = (case Option.bind (json_get j field) as_str of Some s \<Rightarrow> s | None \<Rightarrow> dflt)"

text \<open>A map of sets, both kept sorted.\<close>

definition set_insert :: "string \<Rightarrow> string list \<Rightarrow> string list" where
  "set_insert x xs = (if x \<in> set xs then xs else insort x xs)"

definition add_instance :: "json \<Rightarrow> (string \<times> string list) list \<Rightarrow> (string \<times> string list) list" where
  "add_instance p by_crate =
     (let name = str_or p ''name'' [] in
      if name \<notin> set FACADE_IDENTITY_CRATES then by_crate
      else bt_insert name (set_insert (str_or p ''version'' ''?'' @ '' ('' @ str_or p ''source'' ''path/local'' @ '')'')
             (case map_of by_crate name of Some xs \<Rightarrow> xs | None \<Rightarrow> [])) by_crate)"

definition duplicate_facade_instances :: "json \<Rightarrow> (string \<times> string list) list" where
  "duplicate_facade_instances metadata =
     filter (\<lambda>(_, xs). 1 < length xs)
       (case Option.bind (json_get metadata ''packages'') as_array of
          Some pkgs \<Rightarrow> fold add_instance pkgs []
        | None \<Rightarrow> [])"

definition check_duplicate_facade :: "facade_lib \<Rightarrow> processes \<Rightarrow> given_path \<Rightarrow> ('w, check_outcome) cmd" where
  "check_duplicate_facade L P project_dir =
     bind_cmd (exec P (OnPath ''cargo'') [''metadata'', ''--format-version'', ''1'', ''--quiet'']
                 (Some (against (ps_cwd P) project_dir))) (\<lambda>r. yields
       (case r of
          Inl _ \<Rightarrow> CheckOk ''duplicate-modal-rust check skipped (cargo metadata unavailable)''
        | Inr out \<Rightarrow>
            if \<not> ex_success out then CheckOk ''duplicate-modal-rust check skipped (cargo metadata unavailable)''
            else (case json_value (fl_json L) (ex_stdout out) of
                    Inl _ \<Rightarrow> CheckOk ''duplicate-modal-rust check skipped (unparseable cargo metadata)''
                  | Inr meta \<Rightarrow>
                      (let dups = duplicate_facade_instances meta in
                       if dups = [] then CheckOk ''single modal-rust in the resolved graph (registrations will link)''
                       else CheckWarn (''duplicate identity crate(s) resolved '' @ emdash @ '' ''
                         @ join_with ''; '' (map (\<lambda>(n, xs). n @ '' = '' @ join_with '' + '' xs) dups)
                         @ ''. #[function] registrations route through one instance and the generated runner collects ''
                         @ ''from the other, so functions may NOT register (a silently empty registry ''
                         @ [CHR 0xE2, CHR 0x86, CHR 0x92] @ '' '' @ quote @ ''no entrypoints'' @ quote
                         @ ''). Pin a single modal-rust major, and don'' @ [CHR 0x27]
                         @ ''t also depend on modal-rust-runtime/inventory directly at a different version.'')))))"

section \<open>The report\<close>

definition report :: "check_outcome \<Rightarrow> json option \<Rightarrow> ('w, json option) cmd" where
  "report c first_failure =
     (case c of
        CheckOk msg \<Rightarrow> bind_cmd (println (''  [ok]   '' @ msg)) (\<lambda>_. yields first_failure)
      | CheckWarn msg \<Rightarrow> bind_cmd (println (''  [warn] '' @ msg)) (\<lambda>_. yields first_failure)
      | CheckFail env \<Rightarrow>
          (let msg = (case Option.bind (Option.bind (json_get env ''error'') (\<lambda>e. json_get e ''message'')) as_str of
                        Some s \<Rightarrow> s | None \<Rightarrow> ''preflight failure'') in
           bind_cmd (println (''  [FAIL] '' @ msg)) (\<lambda>_.
           yields (if first_failure = None then Some env else first_failure))))"

fun report_all :: "check_outcome list \<Rightarrow> json option \<Rightarrow> ('w, json option) cmd" where
  "report_all [] first_failure = yields first_failure"
| "report_all (c # cs) first_failure = bind_cmd (report c first_failure) (report_all cs)"

definition run_checks :: "facade_lib \<Rightarrow> processes \<Rightarrow> bool \<Rightarrow> given_path \<Rightarrow> ('w, check_outcome list) cmd" where
  "run_checks L P with_rust project_dir =
     bind_cmd (look (\<lambda>h. Inr (check_modal_credentials L P h))) (\<lambda>credentials.
     if \<not> with_rust then yields [credentials]
     else bind_cmd (check_cargo L P) (\<lambda>c.
          bind_cmd (check_rustc L P) (\<lambda>r.
          bind_cmd (look (\<lambda>h. Inr (check_panic_profile (ps_cwd P) project_dir h))) (\<lambda>p.
          bind_cmd (check_duplicate_facade L P project_dir) (\<lambda>d.
          yields [credentials, c, r, p, d])))))"

definition doctor_run :: "facade_lib \<Rightarrow> processes \<Rightarrow> bool \<Rightarrow> given_path \<Rightarrow> ('w, int) cmd" where
  "doctor_run L P with_rust project_dir =
     bind_cmd (println (''modal-rust doctor '' @ emdash @ '' preflight (OFFLINE)'')) (\<lambda>_.
     bind_cmd (println (''(programmatic path; the modal CLI is not required '' @ emdash @ '' auth + --rust cargo/rustc only)'')) (\<lambda>_.
     bind_cmd (if with_rust then println ''(--rust: also checking cargo/rustc and the release panic profile)'' else yields ()) (\<lambda>_.
     bind_cmd (println []) (\<lambda>_.
     bind_cmd (run_checks L P with_rust project_dir) (\<lambda>checks.
     bind_cmd (report_all checks None) (\<lambda>first_failure.
     bind_cmd (println []) (\<lambda>_.
     case first_failure of
       None \<Rightarrow> bind_cmd (println ''All preflight checks passed.'') (\<lambda>_. yields 0)
     | Some env \<Rightarrow>
         bind_cmd (println ''Preflight FAILED. Structured error (runner-envelope shape) on stderr.'') (\<lambda>_.
         bind_cmd (eprintln (case json_text (fl_json L) env of Inr s \<Rightarrow> s | Inl _ \<Rightarrow> [])) (\<lambda>_. yields 1)))))))))"

section \<open>The default project\<close>

lemma canonical_walk_dot: "canonical_walk h d (p @ ''.'' # c # cs) = canonical_walk h d (p @ c # cs)"
  by (induction p arbitrary: d) (auto split: if_splits)

lemma manifest_text_dot: "manifest_text h (p @ [''.'', ''Cargo.toml'']) = manifest_text h (p @ [''Cargo.toml''])"
  by (simp add: manifest_text_def canonical_walk_dot)

text \<open>With the default \<open>--project .\<close> the check of the panic strategy reads the manifest of the current directory and
  no other: it fails exactly when that one sets \<open>abort\<close>, whatever the workspace root above it sets.\<close>

lemma doctor_reads_the_current_directory:
  "(\<exists>j. check_panic_profile cwd (Relative [''.'']) h = CheckFail j) \<longleftrightarrow>
     (case manifest_text h (cwd @ [''Cargo.toml'']) of
        Some s \<Rightarrow> release_profile_panic s = Some ''abort''
      | None \<Rightarrow> False)"
proof -
  have own: "manifest_text h (against cwd (like (Relative [''.'']) [''.'', ''Cargo.toml''])) = manifest_text h (cwd @ [''Cargo.toml''])"
    by (simp add: manifest_text_dot)
  show ?thesis
  proof (cases "manifest_text h (cwd @ [''Cargo.toml''])")
    case None
    with own show ?thesis by (simp add: check_panic_profile_def panic_walk.simps [of _ _ "[''.'']"] panic_walk.simps [of _ _ "[]"])
  next
    case (Some s)
    with own show ?thesis
      by (cases "release_profile_panic s")
        (simp_all add: check_panic_profile_def panic_walk.simps [of _ _ "[''.'']"] panic_walk.simps [of _ _ "[]"] Let_def)
  qed
qed

end
