(* ===== verification/Describe.thy ===== *)
theory Describe
  imports Shell DescribeCache App
begin

text \<open>
  How the command line learns what a crate has to offer (\<open>crates/modal-rust-cli/src/programmatic.rs\<close>): the
  manifest and its schema, the local build with its cache and its shadow tree, the build on Modal, the
  comparison of the two, and the check of an input by the built runner.
\<close>

section \<open>Manifests\<close>

definition DESCRIBE_SCHEMA_FAMILY :: string where "DESCRIBE_SCHEMA_FAMILY = ''modal-rust/describe@''"
definition DESCRIBE_SCHEMA_MAJOR :: u32 where "DESCRIBE_SCHEMA_MAJOR = 1"

record manifest_entry =
  me_name :: string
  me_config :: function_options

record cli_manifest =
  cm_schema :: string
  cm_entrypoints :: "manifest_entry list"

text \<open>The flags that override the configuration of an entrypoint.\<close>

record inline_config =
  ic_gpu :: "string option"
  ic_timeout :: "u32 option"
  ic_cpu :: "u32 option"
  ic_memory :: "u32 option"

definition manifest_entry_of :: "cli_manifest \<Rightarrow> string \<Rightarrow> cli_error + manifest_entry" where
  "manifest_entry_of m name =
     option_context (''unknown entrypoint '' @ debug_str name @ ''; known entrypoints: [''
         @ join_with '', '' (map (\<lambda>e. debug_str (me_name e)) (cm_entrypoints m)) @ '']'')
       (find (\<lambda>e. me_name e = name) (cm_entrypoints m))"

definition manifest_configs :: "cli_manifest \<Rightarrow> (string \<times> function_options) list" where
  "manifest_configs m = map (\<lambda>e. (me_name e, me_config e)) (cm_entrypoints m)"

definition check_schema :: "string \<Rightarrow> cli_error + unit" where
  "check_schema schema =
     and_then (option_context (''unrecognized --describe schema '' @ debug_str schema)
                 (strip_prefix DESCRIBE_SCHEMA_FAMILY schema)) (\<lambda>version.
     and_then (with_context (''unparseable --describe schema version in '' @ debug_str schema)
                 (case parse_uint 32 (hd (split_on CHR ''.'' version)) of
                    Some n \<Rightarrow> Inr n | None \<Rightarrow> Inl ([], ParseInt))) (\<lambda>major.
     if major \<noteq> unat DESCRIBE_SCHEMA_MAJOR
     then bail (''incompatible --describe schema major '' @ dec major @ '' (this modal-rust expects ''
       @ DESCRIBE_SCHEMA_FAMILY @ dec (unat DESCRIBE_SCHEMA_MAJOR) @ ''); rebuild your crate against a matching modal-rust-runtime'')
     else Inr ()))"

definition function_options_from_inline :: "inline_config \<Rightarrow> function_options" where
  "function_options_from_inline i = default_options
     \<lparr>fo_gpu := ic_gpu i, fo_timeout_secs := ic_timeout i, fo_milli_cpu := ic_cpu i, fo_memory_mb := ic_memory i\<rparr>"

definition synthesize_manifest_from_flags :: "string \<Rightarrow> inline_config \<Rightarrow> cli_manifest" where
  "synthesize_manifest_from_flags entrypoint i =
     \<lparr>cm_schema = DESCRIBE_SCHEMA_FAMILY @ dec (unat DESCRIBE_SCHEMA_MAJOR),
      cm_entrypoints = [\<lparr>me_name = entrypoint, me_config = function_options_from_inline i\<rparr>]\<rparr>"

definition apply_inline_overrides :: "inline_config \<Rightarrow> function_options \<Rightarrow> function_options" where
  "apply_inline_overrides i x =
     (let x = (if ic_gpu i \<noteq> None then x\<lparr>fo_gpu := ic_gpu i\<rparr> else x);
          x = (if ic_timeout i \<noteq> None then x\<lparr>fo_timeout_secs := ic_timeout i\<rparr> else x);
          x = (if ic_cpu i \<noteq> None then x\<lparr>fo_milli_cpu := ic_cpu i\<rparr> else x)
      in if ic_memory i \<noteq> None then x\<lparr>fo_memory_mb := ic_memory i\<rparr> else x)"

text \<open>The first entry of the name is changed.\<close>

fun update_first :: "('a \<Rightarrow> bool) \<Rightarrow> ('a \<Rightarrow> 'a) \<Rightarrow> 'a list \<Rightarrow> 'a list" where
  "update_first P f [] = []"
| "update_first P f (x # xs) = (if P x then f x # xs else x # update_first P f xs)"

definition apply_inline_to_entry :: "string \<Rightarrow> inline_config \<Rightarrow> cli_manifest \<Rightarrow> cli_manifest" where
  "apply_inline_to_entry entrypoint i m =
     m\<lparr>cm_entrypoints := update_first (\<lambda>e. me_name e = entrypoint)
         (\<lambda>e. e\<lparr>me_config := apply_inline_overrides i (me_config e)\<rparr>) (cm_entrypoints m)\<rparr>"

section \<open>Reading a manifest\<close>

definition entry_of_parts :: "json \<Rightarrow> json \<Rightarrow> manifest_entry option" where
  "entry_of_parts n c =
     (case (read_str n, options_of_json c) of
        (Some name, Some config) \<Rightarrow> Some \<lparr>me_name = name, me_config = config\<rparr>
      | _ \<Rightarrow> None)"

fun entry_of_json :: "json \<Rightarrow> manifest_entry option" where
  "entry_of_json (JObj kvs) =
     (if \<not> distinct (filter (\<lambda>k. k \<in> {''name'', ''config''}) (map fst kvs)) then None
      else case (map_of kvs ''name'', map_of kvs ''config'') of
             (Some n, Some c) \<Rightarrow> entry_of_parts n c
           | _ \<Rightarrow> None)"
| "entry_of_json (JArr [n, c]) = entry_of_parts n c"
| "entry_of_json _ = None"

definition manifest_of_parts :: "json \<Rightarrow> json \<Rightarrow> cli_manifest option" where
  "manifest_of_parts sch es =
     (case (read_str sch, read_vec entry_of_json es) of
        (Some schema, Some entrypoints) \<Rightarrow> Some \<lparr>cm_schema = schema, cm_entrypoints = entrypoints\<rparr>
      | _ \<Rightarrow> None)"

fun manifest_of_json :: "json \<Rightarrow> cli_manifest option" where
  "manifest_of_json (JObj kvs) =
     (if \<not> distinct (filter (\<lambda>k. k \<in> {''schema'', ''entrypoints''}) (map fst kvs)) then None
      else case (map_of kvs ''schema'', map_of kvs ''entrypoints'') of
             (Some sch, Some es) \<Rightarrow> manifest_of_parts sch es
           | _ \<Rightarrow> None)"
| "manifest_of_json (JArr [sch, es]) = manifest_of_parts sch es"
| "manifest_of_json _ = None"

definition parse_and_check :: "facade_lib \<Rightarrow> string \<Rightarrow> cli_error + cli_manifest" where
  "parse_and_check L bs =
     and_then (with_context ''failed to parse `modal_runner --describe` manifest JSON''
       (case json_value (fl_json L) bs of
          Inl e \<Rightarrow> Inl ([], Json e)
        | Inr j \<Rightarrow> (case manifest_of_json j of Some m \<Rightarrow> Inr m | None \<Rightarrow> Inl ([], Json (fl_mismatch L j))))) (\<lambda>m.
     and_then (check_schema (cm_schema m)) (\<lambda>_. Inr m))"

definition load_manifest_from_file :: "facade_lib \<Rightarrow> path \<Rightarrow> given_path \<Rightarrow> filesystem \<Rightarrow> cli_error + cli_manifest" where
  "load_manifest_from_file L cwd p h =
     and_then (with_context (''failed to read manifest file: '' @ show_given p)
       (caused Io (case canonical_walk h [] (against cwd p) of
                     Some q \<Rightarrow> fs_read h q | None \<Rightarrow> Inl (fs_error h (against cwd p))))) (\<lambda>bs.
     with_context (''invalid manifest file: '' @ show_given p) (parse_and_check L bs))"

section \<open>Messages\<close>

definition build_failure_diagnostic :: "string \<Rightarrow> string" where
  "build_failure_diagnostic e =
     ''Your Rust crate may compile on Modal (Linux) but not on your laptop,'' @ nl
     @ ''usually because of platform-specific compile-time dependencies (e.g. a'' @ nl
     @ ''-sys crate, a build.rs script probing system headers, or a'' @ nl
     @ ''#[cfg(target_os = '' @ quote @ ''linux'' @ quote @ '')] #[function] entrypoint).'' @ nl @ nl
     @ ''Three escape hatches are available:'' @ nl @ nl
     @ ''  1. Let Modal build + describe the crate for you (cached afterwards):'' @ nl
     @ ''     modal-rust run '' @ e @ '' --project . --remote-describe --input '' @ quoted ''{...}'' @ nl @ nl
     @ ''  2. Provide a hand-written describe@1 manifest:'' @ nl
     @ ''     modal-rust run '' @ e @ '' --project . --manifest manifest.json --input '' @ quoted ''{...}'' @ nl @ nl
     @ ''  3. Supply inline flags to skip the describe build:'' @ nl
     @ ''     modal-rust run '' @ e @ '' --project . --no-local-build --gpu T4 --timeout 600 --input '' @ quoted ''{...}'' @ nl @ nl
     @ ''For compile-everywhere crates (the cudarc pattern), see:'' @ nl
     @ ''  docs/getting-started.md '' @ [CHR 0xC2, CHR 0xA7] @ '' Troubleshooting: Platform-dependent dependencies''"

definition unrunnable_crate_error :: "string \<Rightarrow> string list \<Rightarrow> string" where
  "unrunnable_crate_error package bins =
     (let own_bin = (case bins of [only] \<Rightarrow> only | _ \<Rightarrow> ''<bin>'');
          ships = (if bins = [] then ''ships no bin targets'' else ''ships bin target(s): '' @ join_with '', '' bins)
      in ''cannot run crate '' @ quoted package @ '': it exposes no #[modal_rust::function] entrypoints ''
         @ ''(so the CLI cannot generate a runner) and ships no `modal_runner` bin ('' @ ships @ ''). ''
         @ ''If this is a manual-registry crate, run it via its own bin (e.g. ''
         @ ''`cargo run -p '' @ package @ '' --bin '' @ own_bin @ '' -- --entrypoint <fn> --input-json <json>`). ''
         @ ''To use `modal-rust run`, add a #[modal_rust::function] (see examples/quickstart) ''
         @ ''or ship a `modal_runner` bin.'')"

definition no_entrypoints_error :: "string \<Rightarrow> string" where
  "no_entrypoints_error package =
     ''no #[modal_rust::function] entrypoints found in crate '' @ quoted package @ '': the runner built ''
     @ ''but reported zero entrypoints. Add a #[modal_rust::function] fn (see ''
     @ ''examples/quickstart) so `modal-rust run`/`deploy` has something to invoke.''"

section \<open>What the commands are given\<close>

text \<open>The libraries, the processes, the opening of a client on the files as they are, the tree and the open files
  of a volume upload, a size in MiB with two decimals, and the text of a cause with its sources.\<close>

record ('w, 'f, 'b, 'g) tools =
  tl_lib :: facade_lib
  tl_processes :: processes
  tl_digests :: digests_lib
  tl_toml :: toml_edit
  tl_f32 :: "'f f32_ops"
  tl_connect :: "filesystem \<Rightarrow> ('w, ('w, 'f, 'b, 'g) live_client) io"
  tl_tree :: "filesystem \<Rightarrow> path \<Rightarrow> string + node"
  tl_open_files :: "'w local_fs"
  tl_mib :: "nat \<Rightarrow> string"
  tl_cause_text :: "cause \<Rightarrow> string"

record describe_outcome =
  do_manifest :: cli_manifest
  do_root :: path
  do_package :: string
  do_runner_bin :: "given_path option"

definition machine_of :: "processes \<Rightarrow> filesystem \<Rightarrow> machine" where
  "machine_of P h = \<lparr>mc_cwd = ps_cwd P, mc_disk = fs_disk h, mc_path = the_path P \<circ> ps_path P\<rparr>"

text \<open>A handle of the facade for one operation.\<close>

definition with_app ::
  "('w, 'f, 'b, 'g) tools \<Rightarrow> string \<Rightarrow> string \<Rightarrow> (string \<times> function_options) list \<Rightarrow> (machine \<Rightarrow> remote_config) \<Rightarrow>
     string \<Rightarrow> (machine \<Rightarrow> ('w, 'f, 'b, 'g) live_client \<Rightarrow> unit app \<Rightarrow> ('w client_state handle_state, 'a) run) \<Rightarrow>
     ('w, 'a) cmd" where
  "with_app T connecting name configs run_config doing f s =
     (let M = machine_of (tl_processes T) (cs_fs s) in
      case tl_connect T (cs_fs s) (cs_world s) of
        None \<Rightarrow> None
      | Some (Inl e, w) \<Rightarrow> Some (with_context connecting (caused Facade (from_sdk (Inl e))), s\<lparr>cs_world := w\<rparr>)
      | Some (Inr K, w) \<Rightarrow>
          (case connect_from_manifest K name configs (run_config M) (w, None) of
             None \<Rightarrow> None
           | Some (Inl e, (w, _)) \<Rightarrow> Some (with_context connecting (caused Facade (Inl e)), s\<lparr>cs_world := w\<rparr>)
           | Some (Inr a, client) \<Rightarrow>
               (case f M K a (new_handle_state client) of
                  None \<Rightarrow> None
                | Some (r, hs) \<Rightarrow>
                    Some (with_context doing (caused Facade r), s\<lparr>cs_world := fst (hs_client hs)\<rparr>))))"

section \<open>Without a build\<close>

definition resolve_manifest_no_build ::
  "('w, 'f, 'b, 'g) tools \<Rightarrow> given_path \<Rightarrow> string \<Rightarrow> given_path option \<Rightarrow> inline_config \<Rightarrow> ('w, describe_outcome) cmd" where
  "resolve_manifest_no_build T project entrypoint manifest_file i =
     (let cwd = ps_cwd (tl_processes T) in
      bind_cmd (look (cli_workspace_root cwd project)) (\<lambda>base.
      bind_cmd (look (package_name cwd project)) (\<lambda>pkg.
      bind_cmd (case manifest_file of
                  Some p \<Rightarrow> look (load_manifest_from_file (tl_lib T) cwd p)
                | None \<Rightarrow> yields (synthesize_manifest_from_flags entrypoint i)) (\<lambda>m.
      yields \<lparr>do_manifest = m, do_root = base, do_package = pkg, do_runner_bin = None\<rparr>))))"

section \<open>The cache\<close>

text \<open>A target directory given through the environment has no \<open>..\<close>.\<close>

definition shared_target_of :: "('w, 'f, 'b, 'g) tools \<Rightarrow> path \<Rightarrow> given_path" where
  "shared_target_of T base =
     (case fl_env (tl_lib T) ''CARGO_TARGET_DIR'' of
        Some d \<Rightarrow> ps_path (tl_processes T) d
      | None \<Rightarrow> Absolute (base @ [''target'']))"

definition runner_target_of :: "('w, 'f, 'b, 'g) tools \<Rightarrow> path \<Rightarrow> string \<Rightarrow> filesystem \<Rightarrow> runner_target option" where
  "runner_target_of T base pkg h =
     resolve_runner_target (fs_disk h) (ps_metadata (tl_processes T) h) (tl_toml T) base pkg"

definition generates :: "runner_target option \<Rightarrow> bool" where
  "generates target = (case target of Some t \<Rightarrow> is_generatable t | None \<Rightarrow> False)"

definition cache_key_of :: "('w, 'f, 'b, 'g) tools \<Rightarrow> path \<Rightarrow> string \<Rightarrow> bool \<Rightarrow> filesystem \<Rightarrow> string option" where
  "cache_key_of T base pkg generate h = key (tl_digests T) (ps_metadata (tl_processes T) h) base pkg generate h"

definition cached_manifest ::
  "('w, 'f, 'b, 'g) tools \<Rightarrow> given_path \<Rightarrow> string option \<Rightarrow> filesystem \<Rightarrow> cli_manifest option" where
  "cached_manifest T target cache_key h =
     Option.bind cache_key (\<lambda>k.
     Option.bind (load (the_path (tl_processes T) target) k h) (\<lambda>bs.
     case parse_and_check (tl_lib T) bs of Inr m \<Rightarrow> Some m | Inl _ \<Rightarrow> None))"

definition store_manifest ::
  "('w, 'f, 'b, 'g) tools \<Rightarrow> given_path \<Rightarrow> string option \<Rightarrow> string \<Rightarrow> ('w, unit) cmd" where
  "store_manifest T target cache_key bs s =
     (case cache_key of
        None \<Rightarrow> Some (Inr (), s)
      | Some k \<Rightarrow> Some (Inr (), s\<lparr>cs_fs := store (the_path (tl_processes T) target) k bs (cs_fs s)\<rparr>))"

text \<open>The parsed manifest must have an entrypoint.\<close>

definition nonempty :: "string \<Rightarrow> cli_manifest \<Rightarrow> ('w, unit) cmd" where
  "nonempty pkg m = (if cm_entrypoints m = [] then of_cli (bail (no_entrypoints_error pkg)) else yields ())"

section \<open>The local build\<close>

definition shadow_dir_for :: "processes \<Rightarrow> string \<Rightarrow> nat \<Rightarrow> path" where
  "shadow_dir_for P pkg n = ps_temp_dir P @ [''modal-rust-shadow-'' @ pkg @ ''-'' @ dec (ps_pid P) @ ''-'' @ dec n]"

text \<open>What is built in: the shadow tree, which goes away with \<open>ShadowDir\<close>, or the workspace itself.\<close>

definition in_build_root ::
  "('w, 'f, 'b, 'g) tools \<Rightarrow> path \<Rightarrow> string \<Rightarrow> runner_target option \<Rightarrow> (path \<Rightarrow> ('w, 'a) cmd) \<Rightarrow> ('w, 'a) cmd" where
  "in_build_root T base pkg target body s =
     (if \<not> generates target then body base s
      else let dest = shadow_dir_for (tl_processes T) pkg (cs_shadows s);
               s = s\<lparr>cs_shadows := Suc (cs_shadows s), cs_fs := snd (fs_remove_dir_all dest (cs_fs s))\<rparr> in
           case materialize_shadow (ps_metadata (tl_processes T)) (tl_toml T) base (the target) dest (cs_fs s) of
             None \<Rightarrow> None
           | Some (Inl e, h) \<Rightarrow>
               Some (with_context (''failed to materialize shadow build tree at '' @ show_path dest) (Inl ([], Io e)),
                 s\<lparr>cs_fs := h\<rparr>)
           | Some (Inr _, h) \<Rightarrow>
               (case body dest (s\<lparr>cs_fs := h\<rparr>) of
                  None \<Rightarrow> None
                | Some (r, s) \<Rightarrow> Some (r, s\<lparr>cs_fs := snd (fs_remove_dir_all dest (cs_fs s))\<rparr>)))"

definition ellipsis :: string where "ellipsis = [CHR 0xE2, CHR 0x80, CHR 0xA6]"

definition code_or_minus_one :: "int option \<Rightarrow> string" where
  "code_or_minus_one c = dec_int (case c of Some n \<Rightarrow> n | None \<Rightarrow> - 1)"

definition cargo_build ::
  "('w, 'f, 'b, 'g) tools \<Rightarrow> string \<Rightarrow> bool \<Rightarrow> given_path \<Rightarrow> path \<Rightarrow> ('w, string) cmd" where
  "cargo_build T pkg generate target build_root s =
     (case ps_build (tl_processes T)
             \<lparr>bc_package = pkg, bc_cwd = build_root, bc_target_dir = (if generate then Some target else None)\<rparr> (cs_fs s) of
        None \<Rightarrow> None
      | Some (outcome, h) \<Rightarrow>
          (let s = s\<lparr>cs_fs := h\<rparr> in
           case outcome of
             SpawnFailed e \<Rightarrow>
               Some (with_context ''failed to spawn `cargo` (is it on $PATH? run `modal-rust doctor --rust`)'' (Inl ([], Io e)), s)
           | ReadFailed e \<Rightarrow> Some (with_context (''failed to read cargo'' @ [CHR 0x27] @ ''s artifact messages'') (Inl ([], Io e)), s)
           | WaitFailed e \<Rightarrow> Some (with_context ''failed to wait for `cargo build`'' (Inl ([], Io e)), s)
           | Exited code stdout \<Rightarrow>
               if code = Some 0 then Some (Inr stdout, s)
               else bind_cmd (each_cmd eprintln
                      [[], ''modal-rust: cargo build failed for `'' @ pkg @ ''` modal_runner'', [],
                       build_failure_diagnostic ''<entrypoint>'', []]) (\<lambda>_.
                    of_cli (bail (''cargo build of `'' @ pkg @ ''` modal_runner failed (exit '' @ code_or_minus_one code @ '')''))) s))"

text \<open>The last artifact message of the runner wins; lines that are not JSON are skipped.\<close>

definition runner_artifact :: "json \<Rightarrow> string option" where
  "runner_artifact v =
     (if Option.bind (json_get v ''reason'') as_str \<noteq> Some ''compiler-artifact'' then None
      else if Option.bind (Option.bind (json_get v ''target'') (\<lambda>t. json_get t ''name'')) as_str \<noteq> Some ''modal_runner'' then None
      else Option.bind (json_get v ''executable'') as_str)"

definition runner_artifact_path :: "facade_lib \<Rightarrow> string \<Rightarrow> string option" where
  "runner_artifact_path L build_json =
     fold (\<lambda>line found. case json_value (fl_json L) line of
         Inl _ \<Rightarrow> found
       | Inr v \<Rightarrow> (case runner_artifact v of Some e \<Rightarrow> Some e | None \<Rightarrow> found))
       (str_lines build_json) None"

definition runner_pin :: "given_path \<Rightarrow> string \<Rightarrow> given_path" where
  "runner_pin target pkg = given_join target [''.modal-rust'', ''runner-'' @ pkg]"

definition scope_runner_artifact ::
  "processes \<Rightarrow> given_path \<Rightarrow> string \<Rightarrow> given_path \<Rightarrow> filesystem \<Rightarrow> given_path \<times> filesystem" where
  "scope_runner_artifact P target pkg artifact h =
     (let dest = the_path P (runner_pin target pkg);
          h = snd (fs_create_dir_all (butlast dest) h);
          h = snd (fs_remove_file dest h) in
      case fs_hard_link (the_path P artifact) dest h of
        (Inr _, h) \<Rightarrow> (runner_pin target pkg, h)
      | (Inl _, h) \<Rightarrow>
          (case fs_copy (the_path P artifact) dest h of
             (Inr _, h) \<Rightarrow> (runner_pin target pkg, h)
           | (Inl _, h) \<Rightarrow> (artifact, h)))"

definition pin_runner :: "('w, 'f, 'b, 'g) tools \<Rightarrow> given_path \<Rightarrow> string \<Rightarrow> string \<Rightarrow> ('w, given_path) cmd" where
  "pin_runner T target pkg build_json s =
     (case runner_artifact_path (tl_lib T) build_json of
        None \<Rightarrow> Some (Inr (given_join target [''debug'', ''modal_runner'']), s)
      | Some exe \<Rightarrow>
          (case scope_runner_artifact (tl_processes T) target pkg (ps_path (tl_processes T) exe) (cs_fs s) of
             (runner_bin, h) \<Rightarrow> Some (Inr runner_bin, s\<lparr>cs_fs := h\<rparr>)))"

definition runner_describe :: "('w, 'f, 'b, 'g) tools \<Rightarrow> given_path \<Rightarrow> ('w, string) cmd" where
  "runner_describe T runner_bin =
     bind_cmd (exec (tl_processes T) (AtPath (the_path (tl_processes T) runner_bin)) [''--describe''] None) (\<lambda>r.
     bind_cmd (of_cli (with_context (''failed to run '' @ show_given runner_bin @ '' --describe'') (caused Io r))) (\<lambda>out.
     of_cli (if ex_success out then Inr (ex_stdout out)
             else bail (show_given runner_bin @ '' --describe exited '' @ code_or_minus_one (ex_code out)
               @ '' (stderr: '' @ trim (to_string_lossy (ex_stderr out)) @ '')''))))"

definition fresh_describe ::
  "('w, 'f, 'b, 'g) tools \<Rightarrow> string \<Rightarrow> bool \<Rightarrow> given_path \<Rightarrow> string option \<Rightarrow> path \<Rightarrow> ('w, cli_manifest \<times> given_path) cmd" where
  "fresh_describe T pkg generate target cache_key build_root =
     bind_cmd (eprintln (if generate
       then ''modal-rust: generating '' @ pkg @ '' modal_runner (shadow build) for --describe '' @ ellipsis
       else ''modal-rust: building '' @ pkg @ '' modal_runner (cargo) for --describe '' @ ellipsis)) (\<lambda>_.
     bind_cmd (cargo_build T pkg generate target build_root) (\<lambda>build_json.
     bind_cmd (pin_runner T target pkg build_json) (\<lambda>runner_bin.
     bind_cmd (runner_describe T runner_bin) (\<lambda>stdout.
     bind_cmd (of_cli (parse_and_check (tl_lib T) stdout)) (\<lambda>m.
     bind_cmd (nonempty pkg m) (\<lambda>_.
     bind_cmd (store_manifest T target cache_key stdout) (\<lambda>_.
     yields (m, runner_bin))))))))"

definition build_target ::
  "('w, 'f, 'b, 'g) tools \<Rightarrow> path \<Rightarrow> string \<Rightarrow> runner_target option \<Rightarrow> ('w, describe_outcome) cmd" where
  "build_target T base pkg target =
     (let P = tl_processes T; generate = generates target; shared_target = shared_target_of T base in
      bind_cmd (look (\<lambda>h. Inr (cache_key_of T base pkg generate h))) (\<lambda>cache_key.
      bind_cmd (look (\<lambda>h. Inr (cached_manifest T shared_target cache_key h))) (\<lambda>cached.
      case cached of
        Some m \<Rightarrow>
          bind_cmd (nonempty pkg m) (\<lambda>_.
          bind_cmd (eprintln (''modal-rust: describe cache hit ('' @ pkg @ ''); skipping build'')) (\<lambda>_.
          bind_cmd (look (\<lambda>h. Inr (given_file P h (runner_pin shared_target pkg)))) (\<lambda>present.
          yields \<lparr>do_manifest = m, do_root = base, do_package = pkg,
            do_runner_bin = (if present then Some (runner_pin shared_target pkg) else None)\<rparr>)))
      | None \<Rightarrow>
          bind_cmd (in_build_root T base pkg target (fresh_describe T pkg generate shared_target cache_key)) (\<lambda>(m, runner_bin).
          yields \<lparr>do_manifest = m, do_root = base, do_package = pkg, do_runner_bin = Some runner_bin\<rparr>))))"

definition build_and_describe :: "('w, 'f, 'b, 'g) tools \<Rightarrow> given_path \<Rightarrow> ('w, describe_outcome) cmd" where
  "build_and_describe T project =
     (let P = tl_processes T in
      bind_cmd (look (cli_workspace_root (ps_cwd P) project)) (\<lambda>base.
      bind_cmd (look (package_name (ps_cwd P) project)) (\<lambda>pkg.
      bind_cmd (look (\<lambda>h. Inr (runner_target_of T base pkg h))) (\<lambda>target.
      case target of
        Some t \<Rightarrow> if is_runnable t then build_target T base pkg target
                  else of_cli (bail (unrunnable_crate_error pkg (bin_targets t)))
      | None \<Rightarrow> build_target T base pkg target))))"

section \<open>The build on Modal\<close>

definition remote_describe_fresh ::
  "('w, 'f, 'b, 'g) tools \<Rightarrow> path \<Rightarrow> string \<Rightarrow> given_path \<Rightarrow> string option \<Rightarrow> ('w, cli_manifest) cmd" where
  "remote_describe_fresh T base pkg target cache_key =
     bind_cmd (eprintln (''modal-rust: building '' @ pkg @ '' modal_runner ON MODAL for --describe '' @ ellipsis)) (\<lambda>_.
     bind_cmd (with_app T ''failed to connect to Modal for the remote-describe path'' ''modal-rust-cli-describe'' []
         (\<lambda>M. (default_remote_config (tl_lib T) M)\<lparr>rc_local_root := base, rc_package := pkg\<rparr>)
         ''remote describe failed'' (\<lambda>M K a. remote_describe_manifest (tl_lib T) (tl_f32 T) K a)) (\<lambda>manifest_json.
     bind_cmd (of_cli (parse_and_check (tl_lib T) manifest_json)) (\<lambda>m.
     bind_cmd (nonempty pkg m) (\<lambda>_.
     bind_cmd (store_manifest T target cache_key manifest_json) (\<lambda>_.
     yields m)))))"

definition remote_describe_outcome :: "('w, 'f, 'b, 'g) tools \<Rightarrow> given_path \<Rightarrow> ('w, describe_outcome) cmd" where
  "remote_describe_outcome T project =
     (let cwd = ps_cwd (tl_processes T); outcome = (\<lambda>base pkg m.
            \<lparr>do_manifest = m, do_root = base, do_package = pkg, do_runner_bin = None\<rparr>) in
      bind_cmd (look (cli_workspace_root cwd project)) (\<lambda>base.
      bind_cmd (look (package_name cwd project)) (\<lambda>pkg.
      bind_cmd (look (\<lambda>h. Inr (cache_key_of T base pkg (generates (runner_target_of T base pkg h)) h))) (\<lambda>cache_key.
      bind_cmd (look (\<lambda>h. Inr (cached_manifest T (shared_target_of T base) cache_key h))) (\<lambda>cached.
      case cached of
        Some m \<Rightarrow>
          bind_cmd (nonempty pkg m) (\<lambda>_.
          bind_cmd (eprintln (''modal-rust: describe cache hit ('' @ pkg @ ''); skipping remote describe'')) (\<lambda>_.
          yields (outcome base pkg m)))
      | None \<Rightarrow>
          bind_cmd (remote_describe_fresh T base pkg (shared_target_of T base) cache_key) (\<lambda>m.
          yields (outcome base pkg m)))))))"

section \<open>Comparing two manifests\<close>

definition config_text :: "facade_lib \<Rightarrow> function_options \<Rightarrow> string" where
  "config_text L x = (case json_text (fl_json L) (options_to_json x) of Inr s \<Rightarrow> s | Inl _ \<Rightarrow> [])"

text \<open>Sorted by name; the last of two entries of one name stays.\<close>

definition manifest_texts :: "facade_lib \<Rightarrow> cli_manifest \<Rightarrow> (string \<times> string) list" where
  "manifest_texts L m =
     fold (\<lambda>e. bt_insert (me_name e) (config_text L (me_config e))) (cm_entrypoints m) []"

definition manifest_diffs :: "(string \<times> string) list \<Rightarrow> (string \<times> string) list \<Rightarrow> string list" where
  "manifest_diffs l r =
     List.map_filter (\<lambda>(name, lcfg). case map_of r name of
         None \<Rightarrow> Some (''  '' @ debug_str name @ '': present locally, ABSENT on Modal'')
       | Some rcfg \<Rightarrow>
           if rcfg \<noteq> lcfg
           then Some (''  '' @ debug_str name @ '': config differs'' @ nl @ ''      local : '' @ lcfg @ nl
             @ ''      remote: '' @ rcfg)
           else None) l
     @ map (\<lambda>(name, _). ''  '' @ debug_str name @ '': present on Modal, ABSENT locally'')
         (filter (\<lambda>(name, _). map_of l name = None) r)"

definition diff_manifests :: "facade_lib \<Rightarrow> cli_manifest \<Rightarrow> cli_manifest \<Rightarrow> cli_error + unit" where
  "diff_manifests L local remote =
     (let diffs = manifest_diffs (manifest_texts L local) (manifest_texts L remote) in
      if diffs \<noteq> []
      then bail (''--verify-manifest: local and remote describe manifests DIVERGE:'' @ nl @ join_with nl diffs @ nl @ nl
        @ ''The manifest your laptop produced does not match what Modal produces. Investigate ''
        @ ''platform-dependent #[function] config (e.g. a #[cfg(target_os)] entrypoint or a ''
        @ ''build.rs that changes config by platform).'')
      else Inr ())"

definition verify_manifest_outcome :: "('w, 'f, 'b, 'g) tools \<Rightarrow> given_path \<Rightarrow> ('w, describe_outcome) cmd" where
  "verify_manifest_outcome T project =
     bind_cmd (build_and_describe T project) (\<lambda>local.
     bind_cmd (remote_describe_outcome T project) (\<lambda>remote.
     bind_cmd (of_cli (diff_manifests (tl_lib T) (do_manifest local) (do_manifest remote))) (\<lambda>_.
     bind_cmd (eprintln ''modal-rust: --verify-manifest: local and remote describe manifests AGREE.'') (\<lambda>_.
     yields local))))"

section \<open>The source of the manifest\<close>

record manifest_opts =
  mo_no_local_build :: bool
  mo_manifest_file :: "given_path option"
  mo_remote_describe :: bool
  mo_verify_manifest :: bool
  mo_inline_config :: inline_config

definition describe_source ::
  "('w, 'f, 'b, 'g) tools \<Rightarrow> given_path \<Rightarrow> string \<Rightarrow> manifest_opts \<Rightarrow> ('w, describe_outcome) cmd" where
  "describe_source T project entrypoint opts =
     (if mo_no_local_build opts
      then resolve_manifest_no_build T project entrypoint (mo_manifest_file opts) (mo_inline_config opts)
      else if mo_verify_manifest opts then verify_manifest_outcome T project
      else if mo_remote_describe opts then remote_describe_outcome T project
      else build_and_describe T project)"

section \<open>The check of an input\<close>

definition last_json :: "facade_lib \<Rightarrow> string \<Rightarrow> json option" where
  "last_json L stdout =
     List.find (\<lambda>_. True) (List.map_filter (\<lambda>line. case json_value (fl_json L) line of Inr v \<Rightarrow> Some v | Inl _ \<Rightarrow> None)
       (rev (str_lines stdout)))"

definition error_field :: "json option \<Rightarrow> string \<Rightarrow> string option" where
  "error_field envelope field =
     Option.bind (Option.bind (Option.bind envelope (\<lambda>v. json_get v ''error'')) (\<lambda>e. json_get e field)) as_str"

text \<open>What the output of the checker means; no output is a checker that could not be started.\<close>

definition input_verdict :: "facade_lib \<Rightarrow> string \<Rightarrow> string + exec_output \<Rightarrow> cli_error + unit" where
  "input_verdict L entrypoint r =
     (case r of
        Inl _ \<Rightarrow> Inr ()
      | Inr out \<Rightarrow>
          if ex_success out then Inr ()
          else (let stdout = to_string_lossy (ex_stdout out); envelope = last_json L stdout in
                if error_field envelope ''kind'' = Some ''unknown_entrypoint'' then Inr ()
                else bail (''input does not match entrypoint '' @ quoted entrypoint @ '': ''
                  @ (case error_field envelope ''message'' of Some m \<Rightarrow> m | None \<Rightarrow> trim stdout)
                  @ ''. The input did not decode locally, so the call was NOT sent to Modal. ''
                  @ ''Pass a matching --input '' @ quoted ''{...}'' @ '' (see the example'' @ [CHR 0x27] @ ''s README, e.g. ''
                  @ ''examples/autoscaling/README.md).'')))"

definition validate_input_locally ::
  "('w, 'f, 'b, 'g) tools \<Rightarrow> given_path \<Rightarrow> string \<Rightarrow> string \<Rightarrow> ('w, unit) cmd" where
  "validate_input_locally T runner_bin entrypoint input_json =
     bind_cmd (exec (tl_processes T) (AtPath (the_path (tl_processes T) runner_bin))
         [''--check-input'', ''--entrypoint'', entrypoint, ''--input-json'', input_json] None) (\<lambda>r.
     of_cli (input_verdict (tl_lib T) entrypoint r))"

end
