(* ===== verification/Described.thy ===== *)
theory Described
  imports Describe
begin

text \<open>
  What a description of a crate gives and what it leaves alone: rules for commands, the files that may change, and
  the manifests that come out.
\<close>

section \<open>What a description leaves alone\<close>

text \<open>Outside some directories the files stay as they are, except that missing parents may have been created.\<close>

definition untouched :: "path list \<Rightarrow> filesystem \<Rightarrow> filesystem \<Rightarrow> bool" where
  "untouched D h h' \<longleftrightarrow>
     (\<forall>q. (\<exists>d\<in>set D. prefix d q) \<or> node_at h' q = node_at h q \<or>
        ((\<exists>d\<in>set D. prefix q d) \<and> node_at h q = None \<and> node_at h' q = Some FsDir))"

lemma untouched_refl [simp]: "untouched D h h"
  by (simp add: untouched_def)

lemma untouched_trans: "untouched D h h' \<Longrightarrow> untouched D h' h'' \<Longrightarrow> untouched D h h''"
  unfolding untouched_def by (smt (verit) option.distinct(1))

lemma untouched_mono: "untouched D h h' \<Longrightarrow> set D \<subseteq> set E \<Longrightarrow> untouched E h h'"
  unfolding untouched_def by (meson subsetD)

lemma only_under_untouched: "only_under d h h' \<Longrightarrow> prefix e d \<Longrightarrow> e \<in> set D \<Longrightarrow> untouched D h h'"
  unfolding only_under_def untouched_def by (metis prefix_order.trans prefix_same_cases)

definition leaves :: "path list \<Rightarrow> ('w, 'a) cmd \<Rightarrow> bool" where
  "leaves D m \<longleftrightarrow> (\<forall>s r s'. m s = Some (r, s') \<longrightarrow> untouched D (cs_fs s) (cs_fs s'))"

lemma leaves_basic [simp]:
  "leaves D (yields a)" "leaves D (of_cli x)" "leaves D (look g)" "leaves D (println l)" "leaves D (eprintln l)"
  by (simp_all add: leaves_def)

lemma leaves_bind: "leaves D m \<Longrightarrow> (\<And>a. leaves D (f a)) \<Longrightarrow> leaves D (bind_cmd m f)"
  unfolding leaves_def bind_cmd_Some_iff by (blast intro: untouched_trans)

lemma leaves_each: "(\<And>x. leaves D (f x)) \<Longrightarrow> leaves D (each_cmd f xs)"
  by (induction xs) (auto intro!: leaves_bind)


lemma leaves_exec: "(\<And>h r h'. ps_exec P prog args cwd h = Some (r, h') \<Longrightarrow> untouched D h h') \<Longrightarrow> leaves D (exec P prog args cwd)"
  by (auto simp: leaves_def exec_def split: option.splits)

lemma the_path_join [simp]: "the_path P (given_join g q) = the_path P g @ q"
  by (cases g) (simp_all add: the_path_def)

lemma store_frame: "only_under d h (store d k b h)"
proof -
  obtain r h1 where c: "fs_create_dir_all (butlast (cache_path d k)) h = (r, h1)" by force
  have p: "prefix d (butlast (cache_path d k))" by (simp add: cache_path_def butlast_append)
  from c frame_create_dir_all [of d "butlast (cache_path d k)" h] p have "only_under d h h1" by simp
  moreover have "only_under d h1 (snd (fs_write (cache_path d k) b h1))"
    by (rule frame_basic) (simp add: cache_path_def)
  ultimately show ?thesis
    by (cases r) (auto simp: store_def c Let_def intro: only_under_trans)
qed

lemma leaves_store: "the_path (tl_processes T) target \<in> set D \<Longrightarrow> leaves D (store_manifest T target k bs)"
  by (auto simp: leaves_def store_manifest_def split: option.splits
      intro: only_under_untouched [OF store_frame prefix_order.refl])

lemma scope_frame: "only_under (the_path P target) h (snd (scope_runner_artifact P target pkg artifact h))"
proof -
  let ?d = "the_path P target" and ?dest = "the_path P (runner_pin target pkg)"
  have dest: "prefix ?d ?dest" "prefix ?d (butlast ?dest)" by (simp_all add: runner_pin_def butlast_append)
  define h1 where "h1 = snd (fs_create_dir_all (butlast ?dest) h)"
  define h2 where "h2 = snd (fs_remove_file ?dest h1)"
  have "only_under ?d h h1" unfolding h1_def using dest by (intro frame_create_dir_all) simp
  also have "only_under ?d h1 h2" unfolding h2_def using dest by (intro frame_basic)
  finally have h2: "only_under ?d h h2" .
  obtain r3 h3 where l: "fs_hard_link (the_path P artifact) ?dest h2 = (r3, h3)" by force
  have h3: "only_under ?d h2 h3" using frame_basic(4) [OF dest(1), of h2 "the_path P artifact"] l by simp
  obtain r4 h4 where c: "fs_copy (the_path P artifact) ?dest h3 = (r4, h4)" by force
  have h4: "only_under ?d h3 h4" using frame_basic(3) [OF dest(1), of h3 "the_path P artifact"] c by simp
  have "snd (scope_runner_artifact P target pkg artifact h) \<in> {h3, h4}"
    by (cases r3; cases r4) (simp_all add: scope_runner_artifact_def Let_def h1_def [symmetric] h2_def [symmetric] l c)
  with h2 h3 h4 show ?thesis by (auto intro: only_under_trans)
qed

lemma leaves_pin:
  assumes "the_path (tl_processes T) target \<in> set D"
  shows "leaves D (pin_runner T target pkg js)"
  unfolding leaves_def
proof (intro allI impI)
  fix s r s'
  assume "pin_runner T target pkg js s = Some (r, s')"
  then have "s' = s \<or> (\<exists>exe. cs_fs s' = snd (scope_runner_artifact (tl_processes T) target pkg exe (cs_fs s)))"
    by (auto simp: pin_runner_def split: option.splits prod.splits) (metis snd_conv)
  then show "untouched D (cs_fs s) (cs_fs s')"
    using only_under_untouched [OF scope_frame prefix_order.refl assms] by auto
qed

text \<open>What cargo and the built runner are relied on for: cargo writes in the directory it runs in and in its
  target directory; describing and checking an input write nothing.\<close>

definition quiet_processes :: "processes \<Rightarrow> bool" where
  "quiet_processes P \<longleftrightarrow>
     (\<forall>b h r h'. ps_build P b h = Some (r, h') \<longrightarrow>
        untouched (bc_cwd b # (case bc_target_dir b of Some t \<Rightarrow> [the_path P t] | None \<Rightarrow> [])) h h') \<and>
     (\<forall>bin args h r h'. ps_exec P (AtPath bin) args None h = Some (r, h') \<longrightarrow> h' = h)"

lemma leaves_build:
  assumes "quiet_processes (tl_processes T)" and "build_root \<in> set D" and "the_path (tl_processes T) target \<in> set D"
  shows "leaves D (cargo_build T pkg generate target build_root)"
  unfolding leaves_def
proof (intro allI impI)
  fix s r s'
  assume m: "cargo_build T pkg generate target build_root s = Some (r, s')"
  let ?b = "\<lparr>bc_package = pkg, bc_cwd = build_root, bc_target_dir = (if generate then Some target else None)\<rparr>"
  from m obtain out h where b: "ps_build (tl_processes T) ?b (cs_fs s) = Some (out, h)"
    by (auto simp: cargo_build_def split: option.splits)
  with assms(1) have "untouched (build_root # (if generate then [the_path (tl_processes T) target] else [])) (cs_fs s) h"
    unfolding quiet_processes_def by (fastforce split: if_splits)
  then have "untouched D (cs_fs s) h" by (rule untouched_mono) (use assms in auto)
  moreover have "cs_fs s' = h"
    using m by (auto simp: cargo_build_def b Let_def split: build_outcome.splits if_splits)
  ultimately show "untouched D (cs_fs s) (cs_fs s')" by simp
qed

lemma leaves_runner: "quiet_processes P \<Longrightarrow> leaves D (exec P (AtPath bin) args None)"
  by (rule leaves_exec) (metis quiet_processes_def untouched_refl)

lemma leaves_fresh:
  assumes "quiet_processes (tl_processes T)" and "build_root \<in> set D" and "the_path (tl_processes T) target \<in> set D"
  shows "leaves D (fresh_describe T pkg generate target k build_root)"
  unfolding fresh_describe_def runner_describe_def nonempty_def
  using assms by (intro leaves_bind) (auto intro: leaves_build leaves_pin leaves_runner leaves_store leaves_bind)


lemma in_shadow_frame:
  assumes "generates target" and "dest = shadow_dir_for (tl_processes T) pkg (cs_shadows s)"
    and "dest \<in> set D" and "leaves D (body dest)"
    and "in_build_root T base pkg target body s = Some (r, s')"
  shows "untouched D (cs_fs s) (cs_fs s')"
proof -
  note under = only_under_untouched [OF _ prefix_order.refl assms(3)]
  define s1 where "s1 = s\<lparr>cs_shadows := Suc (cs_shadows s), cs_fs := snd (fs_remove_dir_all dest (cs_fs s))\<rparr>"
  have s1: "untouched D (cs_fs s) (cs_fs s1)"
    unfolding s1_def by (simp add: under [OF frame_basic(6)])
  have run: "in_build_root T base pkg target body s =
      (case materialize_shadow (ps_metadata (tl_processes T)) (tl_toml T) base (the target) dest (cs_fs s1) of
         None \<Rightarrow> None
       | Some (Inl e, h) \<Rightarrow>
           Some (with_context (''failed to materialize shadow build tree at '' @ show_path dest) (Inl ([], Io e)), s1\<lparr>cs_fs := h\<rparr>)
       | Some (Inr _, h) \<Rightarrow>
           (case body dest (s1\<lparr>cs_fs := h\<rparr>) of
              None \<Rightarrow> None
            | Some (r, s) \<Rightarrow> Some (r, s\<lparr>cs_fs := snd (fs_remove_dir_all dest (cs_fs s))\<rparr>)))"
    unfolding in_build_root_def s1_def assms(2) Let_def using assms(1) by simp
  from assms(5) obtain x h where m: "materialize_shadow (ps_metadata (tl_processes T)) (tl_toml T) base (the target) dest (cs_fs s1) = Some (x, h)"
    by (auto simp: run split: option.splits)
  have h: "untouched D (cs_fs s1) h" using under [OF materialize_shadow_frame [OF m]] .
  show ?thesis
  proof (cases x)
    case (Inl e)
    with assms(5) m have "cs_fs s' = h"
      by (auto simp: run)
    with s1 h show ?thesis by (auto intro: untouched_trans)
  next
    case (Inr y)
    with assms(5) m obtain s2 where b: "body dest (s1\<lparr>cs_fs := h\<rparr>) = Some (r, s2)"
      and s': "cs_fs s' = snd (fs_remove_dir_all dest (cs_fs s2))"
      by (auto simp: run split: option.splits)
    have "untouched D h (cs_fs s2)" using assms(4) b by (fastforce simp: leaves_def)
    moreover have "untouched D (cs_fs s2) (cs_fs s')" unfolding s' by (rule under [OF frame_basic(6)]) simp
    ultimately show ?thesis using s1 h by (blast intro: untouched_trans)
  qed
qed

text \<open>Where a description may write: the target directory, and the shadow tree when the runner is generated, else
  the workspace that cargo is run in.\<close>

definition may_write :: "('w, 'f, 'b, 'g) tools \<Rightarrow> path \<Rightarrow> string \<Rightarrow> runner_target option \<Rightarrow> nat \<Rightarrow> path list" where
  "may_write T base pkg target n =
     [the_path (tl_processes T) (shared_target_of T base),
      if generates target then shadow_dir_for (tl_processes T) pkg n else base]"

lemma build_target_frame:
  assumes "quiet_processes (tl_processes T)" and "build_target T base pkg target s = Some (r, s')"
  shows "untouched (may_write T base pkg target (cs_shadows s)) (cs_fs s) (cs_fs s')"
proof -
  let ?D = "may_write T base pkg target (cs_shadows s)"
  let ?k = "cache_key_of T base pkg (generates target) (cs_fs s)"
  let ?fresh = "fresh_describe T pkg (generates target) (shared_target_of T base) ?k"
  have fresh: "b \<in> set ?D \<Longrightarrow> leaves ?D (?fresh b)" for b
    by (rule leaves_fresh [OF assms(1)]) (simp_all add: may_write_def)
  show ?thesis
  proof (cases "cached_manifest T (shared_target_of T base) ?k (cs_fs s)")
    case (Some m)
    with assms(2) have "cs_fs s' = cs_fs s"
      by (auto simp: build_target_def Let_def nonempty_def split: if_splits sum.splits)
    then show ?thesis by simp
  next
    case None
    with assms(2) obtain r1 s1 where b: "in_build_root T base pkg target ?fresh s = Some (r1, s1)" and "cs_fs s' = cs_fs s1"
      by (auto simp: build_target_def Let_def bind_cmd_Some_iff split: prod.splits)
    moreover have "untouched ?D (cs_fs s) (cs_fs s1)"
    proof (cases "generates target")
      case True
      show ?thesis
        by (rule in_shadow_frame [OF True refl _ fresh b]) (simp_all add: may_write_def True)
    next
      case False
      with b fresh [of base] show ?thesis by (auto simp: in_build_root_def leaves_def may_write_def)
    qed
    ultimately show ?thesis by simp
  qed
qed


section \<open>Manifests that come out\<close>

text \<open>What every result of a command satisfies.\<close>

definition gives :: "('a \<Rightarrow> bool) \<Rightarrow> ('w, 'a) cmd \<Rightarrow> bool" where
  "gives Q m \<longleftrightarrow> (\<forall>s a s'. m s = Some (Inr a, s') \<longrightarrow> Q a)"

lemma gives_basic [simp]:
  "gives Q (yields a) \<longleftrightarrow> Q a" "gives Q (of_cli x) \<longleftrightarrow> (\<forall>a. x = Inr a \<longrightarrow> Q a)"
  by (auto simp: gives_def)

lemma gives_look: "(\<And>h a. g h = Inr a \<Longrightarrow> Q a) \<Longrightarrow> gives Q (look g)"
  by (auto simp: gives_def)

lemma gives_bind: "gives R m \<Longrightarrow> (\<And>a. R a \<Longrightarrow> gives Q (f a)) \<Longrightarrow> gives Q (bind_cmd m f)"
  unfolding gives_def bind_cmd_Inr_iff by blast

lemma gives_then: "(\<And>a. gives Q (f a)) \<Longrightarrow> gives Q (bind_cmd m f)"
  by (rule gives_bind [where R = "\<lambda>_. True"]) (auto simp: gives_def)

definition sound_manifest :: "cli_manifest \<Rightarrow> bool" where
  "sound_manifest m \<longleftrightarrow> check_schema (cm_schema m) = Inr ()"

lemma parse_and_check_sound: "parse_and_check L bs = Inr m \<Longrightarrow> sound_manifest m"
  by (auto simp: parse_and_check_def sound_manifest_def and_then_Inr_iff)

lemma ok_case [simp]: "(case r of Inl _ \<Rightarrow> None | Inr a \<Rightarrow> Some a) = Some b \<longleftrightarrow> r = Inr b"
  by (cases r) auto

lemma context_Inr [simp]: "with_context msg r = Inr a \<longleftrightarrow> r = Inr a" "caused f q = Inr b \<longleftrightarrow> q = Inr b"
  by (cases r; simp add: with_context_def) (cases q; simp add: caused_def)

lemma cached_manifest_sound: "cached_manifest T target k h = Some m \<Longrightarrow> sound_manifest m"
  by (auto simp: cached_manifest_def bind_eq_Some_conv intro: parse_and_check_sound)

lemma nonempty_gives: "gives (\<lambda>_. cm_entrypoints m \<noteq> []) (nonempty pkg m)"
  by (auto simp: gives_def nonempty_def bail_def)

lemma own_schema: "check_schema (DESCRIBE_SCHEMA_FAMILY @ dec (unat DESCRIBE_SCHEMA_MAJOR)) = Inr ()"
proof -
  have major: "unat DESCRIBE_SCHEMA_MAJOR = 1" by (simp add: DESCRIBE_SCHEMA_MAJOR_def)
  have "strip_prefix DESCRIBE_SCHEMA_FAMILY (DESCRIBE_SCHEMA_FAMILY @ dec 1) = Some (dec 1)"
    by (simp add: DESCRIBE_SCHEMA_FAMILY_def)
  moreover have "split_on CHR ''.'' (dec 1) = [dec 1]" by code_simp
  ultimately show ?thesis unfolding check_schema_def major by (simp add: with_context_def option_context_def)
qed

definition described :: "cli_manifest \<Rightarrow> bool" where
  "described m \<longleftrightarrow> sound_manifest m \<and> cm_entrypoints m \<noteq> []"

lemma checked_then:
  "(\<And>m. described m \<Longrightarrow> gives Q (f m)) \<Longrightarrow>
   gives Q (bind_cmd (of_cli (parse_and_check L bs)) (\<lambda>m. bind_cmd (nonempty pkg m) (\<lambda>_. f m)))"
  by (intro gives_bind [where R = sound_manifest] gives_bind [OF nonempty_gives])
     (auto simp: described_def intro: parse_and_check_sound)

lemma fresh_described: "gives (\<lambda>(m, _). described m) (fresh_describe T pkg generate target k b)"
  unfolding fresh_describe_def by (intro gives_then checked_then) simp

lemma in_build_root_gives: "(\<And>b. gives Q (body b)) \<Longrightarrow> gives Q (in_build_root T base pkg target body)"
  unfolding gives_def in_build_root_def Let_def
  by (fastforce simp: with_context_def split: if_splits option.splits sum.splits)

lemma cached_then:
  assumes "\<And>m. described m \<Longrightarrow> gives Q (f m)" and "gives Q g"
  shows "gives Q (bind_cmd (look (\<lambda>h. Inr (cached_manifest T target k h))) (\<lambda>cached.
      case cached of Some m \<Rightarrow> bind_cmd (nonempty pkg m) (\<lambda>_. f m) | None \<Rightarrow> g))"
proof (rule gives_bind [where R = "\<lambda>c. \<forall>m. c = Some m \<longrightarrow> sound_manifest m"])
  show "gives (\<lambda>c. \<forall>m. c = Some m \<longrightarrow> sound_manifest m) (look (\<lambda>h. Inr (cached_manifest T target k h)))"
    by (rule gives_look) (auto intro: cached_manifest_sound)
  fix c :: "cli_manifest option"
  assume c: "\<forall>m. c = Some m \<longrightarrow> sound_manifest m"
  show "gives Q (case c of Some m \<Rightarrow> bind_cmd (nonempty pkg m) (\<lambda>_. f m) | None \<Rightarrow> g)"
  proof (cases c)
    case (Some m)
    with c assms(1) show ?thesis by (auto intro!: gives_bind [OF nonempty_gives] simp: described_def)
  qed (simp add: assms(2))
qed

lemma build_target_described: "gives (described \<circ> do_manifest) (build_target T base pkg target)"
  unfolding build_target_def Let_def
proof (rule gives_then, rule cached_then)
  fix k
  show "gives (described \<circ> do_manifest) (bind_cmd (in_build_root T base pkg target
      (fresh_describe T pkg (generates target) (shared_target_of T base) k)) (\<lambda>(m, runner_bin).
        yields \<lparr>do_manifest = m, do_root = base, do_package = pkg, do_runner_bin = Some runner_bin\<rparr>))"
    by (rule gives_bind [OF in_build_root_gives [OF fresh_described]]) auto
qed (intro gives_then, simp)

lemma build_described: "gives (described \<circ> do_manifest) (build_and_describe T project)"
  unfolding build_and_describe_def Let_def
  by (intro gives_then) (auto simp: build_target_described bail_def split: option.split)

lemma remote_fresh_described: "gives described (remote_describe_fresh T base pkg target k)"
  unfolding remote_describe_fresh_def
  by (rule gives_then, rule gives_then, rule checked_then) (intro gives_then, simp)

lemma remote_described: "gives (described \<circ> do_manifest) (remote_describe_outcome T project)"
  unfolding remote_describe_outcome_def Let_def
  by (rule gives_then, rule gives_then, rule gives_then, rule cached_then, (intro gives_then, simp)[1],
      rule gives_bind [OF remote_fresh_described], simp)

text \<open>C29. No command works on a manifest that was not checked: whatever its source (a build, a build on Modal, the
  cache, a file, or the flags) its schema is accepted, and unless the build was skipped it has an entrypoint.\<close>

theorem described_manifests_are_checked:
  "case describe_source T project entrypoint opts s of
     Some (Inr d, s') \<Rightarrow>
       check_schema (cm_schema (do_manifest d)) = Inr () \<and>
       (if mo_no_local_build opts then True else cm_entrypoints (do_manifest d) \<noteq> [])
   | _ \<Rightarrow> True"
proof -
  have "gives (sound_manifest \<circ> do_manifest) (resolve_manifest_no_build T project entrypoint f i)" for f i
    unfolding resolve_manifest_no_build_def Let_def
  proof (rule gives_then, rule gives_then, rule gives_bind [where R = sound_manifest])
    show "gives sound_manifest (case f of Some p \<Rightarrow> look (load_manifest_from_file (tl_lib T) (ps_cwd (tl_processes T)) p)
        | None \<Rightarrow> yields (synthesize_manifest_from_flags entrypoint i))"
      by (auto simp: synthesize_manifest_from_flags_def sound_manifest_def own_schema load_manifest_from_file_def
          and_then_Inr_iff intro!: gives_look dest!: parse_and_check_sound split: option.split)
  qed simp
  moreover have "gives (described \<circ> do_manifest) (verify_manifest_outcome T project)"
    unfolding verify_manifest_outcome_def
    by (intro gives_bind [OF build_described] gives_then) simp
  ultimately show ?thesis
    using build_described [of T project] remote_described [of T project]
    by (auto simp: describe_source_def gives_def described_def sound_manifest_def split: option.split sum.split)
qed

section \<open>The manifest through the pipe\<close>

definition entry_of :: "string \<times> function_options \<Rightarrow> manifest_entry" where
  "entry_of = (\<lambda>(name, config). \<lparr>me_name = name, me_config = config\<rparr>)"

lemma entries_read_back:
  "those (map (\<lambda>e. entry_of_json (case e of (name, config) \<Rightarrow> JObj [(''name'', JStr name), (''config'', options_to_json config)])) es)
     = Some (map entry_of es)"
  by (induction es) (auto simp: entry_of_parts_def entry_of_def options_back)

text \<open>C28. The CLI reads what the runner describes: the manifest that \<open>modal_runner --describe\<close> writes is accepted,
  and gives every entrypoint with the options it was registered with, in the runner's order.\<close>

theorem manifest_read_back:
  assumes "json_value (fl_json L) line = Inr (describe_manifest entries)"
  shows "\<exists>m. parse_and_check L line = Inr m \<and> cm_schema m = DESCRIBE_SCHEMA \<and> manifest_configs m = entries"
proof (intro exI conjI)
  let ?m = "\<lparr>cm_schema = DESCRIBE_SCHEMA, cm_entrypoints = map entry_of entries\<rparr>"
  have "manifest_of_json (describe_manifest entries) = Some ?m"
    by (simp add: describe_manifest_def manifest_of_parts_def comp_def entries_read_back)
  moreover have one: "dec 1 = ''1''" by code_simp
  have "check_schema DESCRIBE_SCHEMA = Inr ()"
    using own_schema unfolding DESCRIBE_SCHEMA_def DESCRIBE_SCHEMA_FAMILY_def DESCRIBE_SCHEMA_MAJOR_def
    by (simp add: one [simplified])
  ultimately show "parse_and_check L line = Inr ?m"
    by (simp add: parse_and_check_def assms with_context_def)
qed (simp_all add: manifest_configs_def entry_of_def comp_def case_prod_beta)

section \<open>Two manifests\<close>

definition described_config :: "cli_manifest \<Rightarrow> string \<Rightarrow> function_options option" where
  "described_config m name = map_option me_config (find (\<lambda>e. me_name e = name) (rev (cm_entrypoints m)))"

lemma find_append: "find P (xs @ ys) = (case find P xs of Some x \<Rightarrow> Some x | None \<Rightarrow> find P ys)"
  by (induction xs) auto

lemma manifest_texts_lookup:
  "map_of (manifest_texts L m) name = map_option (config_text L) (described_config m name)"
proof -
  have "map_of (fold (\<lambda>e. bt_insert (me_name e) (config_text L (me_config e))) es xs) name =
      (case find (\<lambda>e. me_name e = name) (rev es) of Some e \<Rightarrow> Some (config_text L (me_config e)) | None \<Rightarrow> map_of xs name)" for es :: "manifest_entry list" and xs
    by (induction es arbitrary: xs) (auto simp: find_append split: option.split)
  then show ?thesis by (simp add: manifest_texts_def described_config_def option.map_comp comp_def split: option.split)
qed

lemma manifest_texts_sorted: "bt_ok (manifest_texts L m)"
proof -
  have "bt_ok xs \<Longrightarrow> bt_ok (fold (\<lambda>e. bt_insert (me_name e) (config_text L (me_config e))) es xs)" for es :: "manifest_entry list" and xs
    by (induction es arbitrary: xs) (simp_all add: bt_insert_ok)
  then show ?thesis by (simp add: manifest_texts_def)
qed

lemma no_diffs:
  assumes "distinct (map fst l)" "distinct (map fst r)"
  shows "manifest_diffs l r = [] \<longleftrightarrow> map_of l = map_of r"
proof
  assume "manifest_diffs l r = []"
  then have l: "\<forall>(name, c)\<in>set l. map_of r name = Some c" and r: "\<forall>(name, c)\<in>set r. map_of l name \<noteq> None"
    by (auto simp: manifest_diffs_def map_filter_def filter_empty_conv split: option.splits if_splits)
  show "map_of l = map_of r"
  proof
    fix name
    show "map_of l name = map_of r name"
    proof (cases "map_of l name")
      case (Some c)
      then have "(name, c) \<in> set l" by (rule map_of_SomeD)
      with l Some show ?thesis by auto
    next
      case None
      then have "map_of r name \<noteq> Some c" for c using r map_of_SomeD [of r name c] by fastforce
      with None show ?thesis by (cases "map_of r name") auto
    qed
  qed
next
  assume eq: "map_of l = map_of r"
  have "map_of r name = Some c" if "(name, c) \<in> set l" for name c
    using that assms(1) by (simp add: eq [symmetric])
  moreover have "map_of l name = Some c" if "(name, c) \<in> set r" for name c
    using that assms(2) by (simp add: eq)
  ultimately show "manifest_diffs l r = []"
    by (auto simp: manifest_diffs_def map_filter_def filter_empty_conv)
qed

text \<open>\<open>--verify-manifest\<close> goes on exactly when the local and the remote manifest describe the same entrypoints
  with the same options.\<close>

lemma verify_accepts_equal_manifests:
  assumes "\<And>x. json_value (fl_json L) (config_text L x) = Inr (options_to_json x)"
  shows "diff_manifests L l r = Inr () \<longleftrightarrow> described_config l = described_config r"
proof -
  have inj: "config_text L x = config_text L y \<longleftrightarrow> x = y" for x y
    by (metis assms sum.inject(2) options_back option.inject)
  have "diff_manifests L l r = Inr () \<longleftrightarrow> map_of (manifest_texts L l) = map_of (manifest_texts L r)"
    by (simp add: diff_manifests_def bail_def no_diffs bt_ok_distinct [OF manifest_texts_sorted])
  also have "\<dots> \<longleftrightarrow> (\<forall>name. map_option (config_text L) (described_config l name) = map_option (config_text L) (described_config r name))"
    by (simp add: fun_eq_iff manifest_texts_lookup)
  also have "\<dots> \<longleftrightarrow> described_config l = described_config r"
    by (auto simp: fun_eq_iff option.inj_map_strong inj) (metis inj option.inj_map_strong)
  finally show ?thesis .
qed

section \<open>A library for the witnesses\<close>

text \<open>JSON in unary.\<close>

definition unary_text :: "json \<Rightarrow> string" where "unary_text v = replicate (Suc (to_nat v)) CHR ''1''"

definition unary_lib :: facade_lib where
  "unary_lib = \<lparr>fl_json = \<lparr>json_value = (\<lambda>s. Inr (from_nat (length s - 1))), json_text = (\<lambda>v. Inr (unary_text v)),
       frame_kind = (\<lambda>_. Inr None), serve_request = Inl\<rparr>,
     fl_b64 = id, fl_env = (\<lambda>_. None), fl_mismatch = (\<lambda>_. []), run_wrapper_py = [], deploy_wrapper_py = []\<rparr>"

lemma unary_reads [simp]: "json_value (fl_json unary_lib) (unary_text v) = Inr v"
  by (simp add: unary_lib_def unary_text_def)

lemma manifest_read_back_witness:
  "\<exists>m. parse_and_check unary_lib (unary_text (describe_manifest [(''add'', default_options)])) = Inr m \<and>
     cm_schema m = DESCRIBE_SCHEMA \<and> manifest_configs m = [(''add'', default_options)]"
  by (rule manifest_read_back) simp

lemma unary_config: "config_text unary_lib x = unary_text (options_to_json x)"
  by (simp add: config_text_def unary_lib_def)

definition no_flags :: inline_config where "no_flags = \<lparr>ic_gpu = None, ic_timeout = None, ic_cpu = None, ic_memory = None\<rparr>"

lemma verify_accepts_equal_manifests_witness:
  "diff_manifests unary_lib (synthesize_manifest_from_flags ''f'' no_flags) (synthesize_manifest_from_flags ''g'' no_flags) \<noteq> Inr ()"
proof -
  have "described_config (synthesize_manifest_from_flags ''f'' no_flags) ''g'' \<noteq> described_config (synthesize_manifest_from_flags ''g'' no_flags) ''g''"
    by (simp add: described_config_def synthesize_manifest_from_flags_def)
  then show ?thesis using verify_accepts_equal_manifests [of unary_lib] by (auto simp: unary_config)
qed

text \<open>A cargo that writes a lock file where it runs and a file in the target directory it is given.\<close>

definition plain_processes :: processes where
  "plain_processes = \<lparr>ps_exec = (\<lambda>_ _ _ h. Some (Inl ''no such file'', h)),
     ps_build = (\<lambda>b h. let h = snd (fs_write (bc_cwd b @ [''Cargo.lock'']) ''lock'' h) in
       Some (Exited (Some 0) [], case bc_target_dir b of
          Some t \<Rightarrow> snd (fs_write (against [''w''] t @ [''runner'']) ''elf'' h) | None \<Rightarrow> h)),
     ps_metadata = (\<lambda>_. sample_cargo), ps_path = (\<lambda>s. Absolute [s]), ps_cwd = [''w''], ps_temp_dir = [''tmp''], ps_pid = 1\<rparr>"

lemma plain_write: "d \<in> set D \<Longrightarrow> untouched D h (snd (fs_write (d @ [f]) x h))"
  by (rule only_under_untouched [OF frame_basic(1) prefix_order.refl]) simp_all

lemma plain_quiet: "quiet_processes plain_processes"
  unfolding quiet_processes_def
proof (intro conjI allI impI)
  fix b h r h'
  assume b: "ps_build plain_processes b h = Some (r, h')"
  let ?D = "bc_cwd b # (case bc_target_dir b of Some t \<Rightarrow> [the_path plain_processes t] | None \<Rightarrow> [])"
  define h1 where "h1 = snd (fs_write (bc_cwd b @ [''Cargo.lock'']) ''lock'' h)"
  have h1: "untouched ?D h h1" unfolding h1_def by (rule plain_write) simp
  show "untouched ?D h h'"
  proof (cases "bc_target_dir b")
    case None
    with b h1 show ?thesis by (simp add: plain_processes_def Let_def h1_def)
  next
    case (Some t)
    with b have "h' = snd (fs_write (against [''w''] t @ [''runner'']) ''elf'' h1)"
      by (simp add: plain_processes_def Let_def h1_def)
    moreover have "untouched ?D h1 (snd (fs_write (against [''w''] t @ [''runner'']) ''elf'' h1))"
      by (rule plain_write) (simp add: Some the_path_def plain_processes_def)
    ultimately show ?thesis using h1 by (blast intro: untouched_trans)
  qed
qed (simp add: plain_processes_def)

definition plain_tools :: "(unit, nat, unit, unit) tools" where
  "plain_tools = \<lparr>tl_lib = unary_lib, tl_processes = plain_processes, tl_digests = plain_digests, tl_toml = sample_toml,
     tl_f32 = whole_f32, tl_connect = (\<lambda>_ _. None), tl_tree = (\<lambda>_ _. Inl ''no such file''),
     tl_open_files = \<lparr>open_file = (\<lambda>_ _. Inl []), file_len = (\<lambda>_ _. Inl []), try_clone = (\<lambda>_ _. Inl []),
       seek_start = (\<lambda>_ _ _. Inl []), read_exact = (\<lambda>_ _ _ _. Inl [])\<rparr>,
     tl_mib = (\<lambda>_. []), tl_cause_text = (\<lambda>_. [])\<rparr>"


definition plain_files :: filesystem where
  "plain_files = \<lparr>fs_nodes = [([''w''], FsDir), ([''w'', ''Cargo.toml''], FsFile (''[workspace]'' @ nl @ ''[package]'' @ nl @ ''name = x'' @ nl))],
     fs_denied = (\<lambda>_. False), fs_read_only = (\<lambda>_. False), fs_path_limit = 100, fs_error = (\<lambda>_. [])\<rparr>"


end
