(* ===== verification/LocalCheck.thy ===== *)
theory LocalCheck
  imports Described
begin

text \<open>
  The input check of the command line against the runner: \<open>validate_input_locally\<close> reads what
  \<open>modal_runner --check-input\<close> answers.
\<close>

section \<open>The check of an input\<close>

text \<open>What a process of the model's runner prints: its lines, each with its newline.\<close>

definition checker_output :: "json_lib \<Rightarrow> os_inputs \<Rightarrow> 'u registry \<Rightarrow> string \<Rightarrow> string \<Rightarrow> exec_output" where
  "checker_output J os r entry raw =
     (case run_check_input J os all_lines r [''--entrypoint'', entry, ''--input-json'', raw] [] of
        (code, ls) \<Rightarrow> \<lparr>ex_code = Some code, ex_stdout = concat (map (\<lambda>l. l @ nl) ls), ex_stderr = []\<rparr>)"

definition plain_line :: "string \<Rightarrow> bool" where
  "plain_line l \<longleftrightarrow> l \<noteq> [] \<and> utf8_valid (l @ nl) \<and> CHR 0x0A \<notin> set l \<and> CHR 0x0D \<notin> set l"

lemma plain_line_lossy: "plain_line l \<Longrightarrow> to_string_lossy (l @ nl) = l @ nl"
  by (simp add: plain_line_def lossy_valid)

lemma str_lines_one: "plain_line l \<Longrightarrow> str_lines (l @ nl) = [l]"
  by (simp add: str_lines_def plain_line_def nl_def split_on_append split_on_no_sep strip_cr_def)
    (metis last_in_set)

lemma error_field_envelope: "error_field (Some (to_envelope e)) ''kind'' = Some (error_kind e)"
  by (simp add: error_field_def to_envelope_def)

text \<open>C15. The local check only refuses what Modal would refuse: when the built runner is the one that runs on Modal, an
  input that is refused locally makes the runner answer with an error, with the user's function never started; and
  an input that is let through is never answered with a \<open>decode_error\<close>.\<close>

theorem local_check_is_sound:
  fixes rd :: "string \<Rightarrow> string + 'i" and f :: "'i \<Rightarrow> ('u, 'e + 'o) call"
  assumes "prints (fl_json L) text" and "get_handler r entry = Some (typed rd wr wrap f)"
    and "get_check r entry = Some (typed_check rd)" and "\<forall>e. error_kind (wrap e) = ''function_error''"
    and line: "\<And>m. json_value (fl_json L) raw = Inl m \<or> rd raw = Inl m \<Longrightarrow>
      plain_line (text (to_envelope (runner_error.Decode m))) \<and>
      json_value (fl_json L) (text (to_envelope (runner_error.Decode m))) = Inr (to_envelope (runner_error.Decode m))"
  shows "case input_verdict L entry (Inr (checker_output (fl_json L) os r entry raw)) of
      Inl _ \<Rightarrow> \<exists>t' line. user t' = user t \<and>
        run_cli_with_args (fl_json L) os all_lines r [''--entrypoint'', entry, ''--input-json'', raw] t [] = Some ((1, [line]), t')
    | Inr _ \<Rightarrow> \<forall>env ok t' m. respond (fl_json L) r entry raw t = Some ((env, ok), t') \<longrightarrow> env \<noteq> to_envelope (runner_error.Decode m)"
proof -
  let ?J = "fl_json L"
  note agree = check_input_agrees [OF assms(1-4), where raw = raw and out = "[]" and os = os and t = t]
  have inner: "run_check_input ?J os all_lines r [''--entrypoint'', entry, ''--input-json'', raw] [] =
      run_check_input_inner ?J all_lines r entry raw []"
    by (simp add: run_check_input_def parse_args_json read_input_def)
  note emits = emit_prints [OF assms(1)]
  consider (bad) m where "json_value ?J raw = Inl m \<or> rd raw = Inl m"
      "run_check_input_inner ?J all_lines r entry raw [] = (1, [text (to_envelope (runner_error.Decode m))])"
    | (good) l where "run_check_input_inner ?J all_lines r entry raw [] = (0, [l])"
    using assms(2,3)
    by (cases "json_value ?J raw"; cases "rd raw")
      (auto simp: run_check_input_inner_def emits typed_check_def codec_decode_def)
  then show ?thesis
  proof cases
    case bad
    let ?l = "text (to_envelope (runner_error.Decode m))"
    note l = line [OF bad(1)]
    have "checker_output ?J os r entry raw = \<lparr>ex_code = Some 1, ex_stdout = ?l @ nl, ex_stderr = []\<rparr>"
      by (simp add: checker_output_def inner bad)
    moreover have "last_json L (?l @ nl) = Some (to_envelope (runner_error.Decode m))"
      using l by (simp add: last_json_def str_lines_one map_filter_def)
    ultimately have "\<exists>e. input_verdict L entry (Inr (checker_output ?J os r entry raw)) = Inl e"
      using l by (simp add: input_verdict_def ex_success_def plain_line_lossy Let_def error_field_envelope bail_def)
    with agree bad(2) show ?thesis by auto
  next
    case good
    then have "input_verdict L entry (Inr (checker_output ?J os r entry raw)) = Inr ()"
      by (simp add: checker_output_def inner input_verdict_def ex_success_def)
    with agree good show ?thesis by auto
  qed
qed

lemma unary_prints: "prints (fl_json unary_lib) unary_text"
  by (simp add: prints_def unary_lib_def)

lemma utf8_ascii: "utf8_valid s \<Longrightarrow> byte c < 128 \<Longrightarrow> utf8_valid (c # s)"
  by (subst utf8_valid.simps) (simp add: utf8_step_def utf8_width_def Let_def)

lemma unary_plain: "plain_line (unary_text v)"
proof -
  have "utf8_valid (replicate n CHR ''1'' @ nl)" for n
    by (induction n) (simp_all add: nl_def utf8_ascii byte_def)
  then show ?thesis unfolding plain_line_def unary_text_def by (simp del: replicate.simps)
qed


lemma local_check_is_sound_witness:
  "case input_verdict unary_lib ''f'' (Inr (checker_output (fl_json unary_lib) \<lparr>read_file = Inl, read_stdin = Inl []\<rparr> echo ''f'' ''x'')) of
      Inl _ \<Rightarrow> \<exists>t' line. user t' = user \<lparr>panic_slot = None, user = 7 :: nat\<rparr> \<and>
        run_cli_with_args (fl_json unary_lib) \<lparr>read_file = Inl, read_stdin = Inl []\<rparr> all_lines echo
          [''--entrypoint'', ''f'', ''--input-json'', ''x''] \<lparr>panic_slot = None, user = 7\<rparr> [] = Some ((1, [line]), t')
    | Inr _ \<Rightarrow> \<forall>env ok t' m. respond (fl_json unary_lib) echo ''f'' ''x'' \<lparr>panic_slot = None, user = 7\<rparr> = Some ((env, ok), t') \<longrightarrow>
        env \<noteq> to_envelope (runner_error.Decode m)"
  by (rule local_check_is_sound [OF unary_prints, where rd = echo_decode and wr = Inr and wrap = "function_opaque id"
        and f = "\<lambda>i t. Some (Returned (Inr i), t)"])
     (simp_all add: echo_def get_handler_def get_check_def function_opaque_def unary_plain)

end
