(* ===== verification/Commands.thy ===== *)
theory Commands
  imports Described Doctor Volume
begin

text \<open>
  The commands (\<open>crates/modal-rust-cli/src/programmatic.rs\<close>) and the exit code (\<open>main.rs\<close>).  Parsing the
  arguments is clap's; the runtime is taken to start; the local path of a volume upload is absolute.
\<close>

section \<open>Run, deploy and call\<close>

definition envelope_ok :: "facade_lib \<Rightarrow> string \<Rightarrow> bool" where
  "envelope_ok L envelope \<longleftrightarrow>
     (case json_value (fl_json L) envelope of Inr v \<Rightarrow> json_get v ''ok'' = Some (JBool True) | Inl _ \<Rightarrow> False)"

definition print_envelope_and_exit_code :: "facade_lib \<Rightarrow> string \<Rightarrow> ('w, int) cmd" where
  "print_envelope_and_exit_code L envelope =
     bind_cmd (println envelope) (\<lambda>_. yields (if envelope_ok L envelope then 0 else 1))"

definition check_input_first ::
  "('w, 'f, 'b, 'g) tools \<Rightarrow> string \<Rightarrow> string \<Rightarrow> describe_outcome \<Rightarrow> ('w, unit) cmd" where
  "check_input_first T entrypoint input_json d =
     (case do_runner_bin d of
        Some bin \<Rightarrow> validate_input_locally T bin entrypoint input_json
      | None \<Rightarrow> yields ())"

definition run_on_modal ::
  "('w, 'f, 'b, 'g) tools \<Rightarrow> string \<Rightarrow> string \<Rightarrow> inline_config \<Rightarrow> describe_outcome \<Rightarrow> ('w, int) cmd" where
  "run_on_modal T entrypoint input_json i d =
     bind_cmd (with_app T ''failed to connect to Modal for the run path'' ''modal-rust-cli-run''
         (manifest_configs (apply_inline_to_entry entrypoint i (do_manifest d)))
         (\<lambda>M. (default_remote_config (tl_lib T) M)\<lparr>rc_local_root := do_root d, rc_package := do_package d\<rparr>)
         ''remote run failed'' (\<lambda>M K a. remote_envelope (tl_lib T) (tl_f32 T) K a entrypoint input_json))
       (print_envelope_and_exit_code (tl_lib T))"

definition cmd_run_programmatic ::
  "('w, 'f, 'b, 'g) tools \<Rightarrow> string \<Rightarrow> given_path \<Rightarrow> string \<Rightarrow> manifest_opts \<Rightarrow> ('w, int) cmd" where
  "cmd_run_programmatic T entrypoint project input_json opts =
     bind_cmd (describe_source T project entrypoint opts) (\<lambda>d.
     bind_cmd (of_cli (manifest_entry_of (do_manifest d) entrypoint)) (\<lambda>_.
     bind_cmd (check_input_first T entrypoint input_json d) (\<lambda>_.
     run_on_modal T entrypoint input_json (mo_inline_config opts) d)))"

definition deployed_lines :: "deployed_app \<Rightarrow> string list" where
  "deployed_lines d =
     (''modal-rust: deployed app '' @ debug_str (da_name d) @ '' (function_id='' @ da_function_id d @ '', image_id=''
        @ da_image_id d @ '', url='' @ debug_str (da_url d) @ '')'')
     # map (\<lambda>(name, url). ''modal-rust: endpoint '' @ name @ '' => '' @ url) (da_endpoint_urls d)"

definition cmd_deploy_programmatic ::
  "('w, 'f, 'b, 'g) tools \<Rightarrow> string \<Rightarrow> given_path \<Rightarrow> string \<Rightarrow> manifest_opts \<Rightarrow> ('w, int) cmd" where
  "cmd_deploy_programmatic T entrypoint project app_name opts =
     bind_cmd (describe_source T project entrypoint opts) (\<lambda>d.
     bind_cmd (of_cli (manifest_entry_of (do_manifest d) entrypoint)) (\<lambda>_.
     let m = apply_inline_to_entry entrypoint (mo_inline_config opts) (do_manifest d) in
     bind_cmd (eprintln (''modal-rust: note: entrypoint '' @ debug_str entrypoint
         @ '' is bound at call time, not deploy time.'')) (\<lambda>_.
     bind_cmd (with_app T ''failed to connect to Modal for the deploy path'' app_name (manifest_configs m)
         (default_remote_config (tl_lib T)) ''deploy failed''
         (\<lambda>M K a. deploy_with (tl_lib T) M (tl_f32 T) K a
            ((for_app (tl_lib T) M app_name)\<lparr>dc_local_root := do_root d, dc_package := do_package d\<rparr>))) (\<lambda>deployed.
     bind_cmd (each_cmd eprintln (deployed_lines deployed)) (\<lambda>_.
     bind_cmd (println (''deployed: '' @ da_name deployed)) (\<lambda>_. yields 0))))))"

definition cmd_call_programmatic :: "('w, 'f, 'b, 'g) tools \<Rightarrow> string \<Rightarrow> string \<Rightarrow> string \<Rightarrow> ('w, int) cmd" where
  "cmd_call_programmatic T entrypoint app_name input_json =
     bind_cmd (with_app T ''failed to connect to Modal for the call path'' ''modal-rust-cli-call'' []
         (default_remote_config (tl_lib T)) ''call failed''
         (\<lambda>M K a. call_envelope K a app_name entrypoint input_json)) (\<lambda>envelope.
     print_envelope_and_exit_code (tl_lib T) envelope)"

section \<open>Volume put\<close>

definition planned_bytes :: "filesystem \<Rightarrow> planned_file list \<Rightarrow> nat" where
  "planned_bytes h files =
     sum_list (List.map_filter (\<lambda>f. case node_at h (pl_local f) of Some (FsFile s) \<Rightarrow> Some (length s) | _ \<Rightarrow> None) files)"

text \<open>The handle of a volume opens its own client.\<close>

definition with_volume ::
  "('w, 'f, 'b, 'g) tools \<Rightarrow> string \<Rightarrow> (('w, 'f, 'b, 'g) live_client \<Rightarrow> string \<Rightarrow> ('w, 'a) io) \<Rightarrow> ('w, 'a) cmd" where
  "with_volume T volume_name put s =
     (case bind_io (tl_connect T (cs_fs s)) (\<lambda>K.
             bind_io (Volume_from_name (lc_host K) (lc_volumes K) (lc_config K) volume_name) (\<lambda>i. ret (K, i))) (cs_world s) of
        None \<Rightarrow> None
      | Some (Inl e, w) \<Rightarrow>
          Some (with_context (''failed to resolve volume '' @ quoted volume_name) (caused Facade (from_sdk (Inl e))), s\<lparr>cs_world := w\<rparr>)
      | Some (Inr (K, i), w) \<Rightarrow>
          (case put K i w of
             None \<Rightarrow> None
           | Some (r, w) \<Rightarrow> Some (with_context ''volume put failed'' (caused Facade (from_sdk r)), s\<lparr>cs_world := w\<rparr>)))"

definition cmd_volume_put_programmatic ::
  "('w, 'f, 'b, 'g) tools \<Rightarrow> string \<Rightarrow> path \<Rightarrow> string \<Rightarrow> bool \<Rightarrow> ('w, int) cmd" where
  "cmd_volume_put_programmatic T volume_name local_path remote_path force =
     bind_cmd (look (\<lambda>h. with_context (''cannot plan upload of '' @ quoted (show_path local_path))
       (caused SdkCause (plan_upload (tl_tree T h) local_path remote_path)))) (\<lambda>files.
     bind_cmd (look (\<lambda>h. Inr (planned_bytes h files, tl_tree T h))) (\<lambda>(total_bytes, tree).
     bind_cmd (eprintln (''modal-rust: uploading '' @ dec (length files) @ '' file(s), '' @ tl_mib T total_bytes
         @ '' MiB to volume '' @ quoted volume_name)) (\<lambda>_.
     bind_cmd (each_cmd eprintln (map (\<lambda>f. ''modal-rust:   '' @ show_path (pl_local f) @ '' -> '' @ pl_remote f) files)) (\<lambda>_.
     bind_cmd (with_volume T volume_name (\<lambda>K i.
         Volume_put (lc_host K) (lc_volumes K) (lc_http K) (sha256_digest (tl_digests T)) (tl_open_files T) tree i local_path remote_path force)) (\<lambda>stats.
     bind_cmd (println (''uploaded '' @ dec (vs_files stats) @ '' file(s), '' @ dec (vs_bytes stats) @ '' byte(s), ''
         @ dec (vs_blocks_uploaded stats) @ '' block(s) sent to volume '' @ quoted volume_name)) (\<lambda>_. yields 0))))))"

section \<open>The program\<close>

text \<open>The value of \<open>--input\<close>: JSON, or \<open>@\<close> and the path of a file.\<close>

definition resolve_input :: "('w, 'f, 'b, 'g) tools \<Rightarrow> string option \<Rightarrow> filesystem \<Rightarrow> cli_error + string" where
  "resolve_input T input h =
     (case input of
        None \<Rightarrow> Inr (''{'' @ quote @ ''a'' @ quote @ '':40,'' @ quote @ ''b'' @ quote @ '':2}'')
      | Some s \<Rightarrow>
          (case strip_prefix ''@'' s of
             None \<Rightarrow> Inr s
           | Some p \<Rightarrow>
               (let q = the_path (tl_processes T) (ps_path (tl_processes T) p) in
                and_then (with_context (''failed to read --input file: '' @ p)
                  (caused Io (case canonical_walk h [] q of Some q \<Rightarrow> fs_read_to_string h q | None \<Rightarrow> Inl (fs_error h q))))
                  (\<lambda>body. Inr (trim body)))))"

datatype command =
    Doctor bool given_path
  | Run string given_path "string option" manifest_opts
  | Deploy string given_path string manifest_opts
  | Call string string "string option"
  | VolumePut string path "string option" bool

definition manifest_implies_no_build :: "manifest_opts \<Rightarrow> manifest_opts" where
  "manifest_implies_no_build opts = (if mo_manifest_file opts \<noteq> None then opts\<lparr>mo_no_local_build := True\<rparr> else opts)"

definition default_remote :: "filesystem \<Rightarrow> path \<Rightarrow> string" where
  "default_remote h local_path =
     (if fs_is_dir h local_path then []
      else if local_path \<noteq> [] \<and> utf8_valid (last local_path) then last local_path else ''uploaded'')"

fun cli_run :: "('w, 'f, 'b, 'g) tools \<Rightarrow> command \<Rightarrow> ('w, int) cmd" where
  "cli_run T (Doctor rust project) = doctor_run (tl_lib T) (tl_processes T) rust project"
| "cli_run T (Run entrypoint project input opts) =
     bind_cmd (look (resolve_input T input)) (\<lambda>input_json.
     cmd_run_programmatic T entrypoint project input_json (manifest_implies_no_build opts))"
| "cli_run T (Deploy entrypoint project app_name opts) =
     cmd_deploy_programmatic T entrypoint project app_name (manifest_implies_no_build opts)"
| "cli_run T (Call entrypoint app_name input) =
     bind_cmd (look (resolve_input T input)) (cmd_call_programmatic T entrypoint app_name)"
| "cli_run T (VolumePut volume_name local_path remote_path force) =
     bind_cmd (look (\<lambda>h. Inr (case remote_path of Some r \<Rightarrow> r | None \<Rightarrow> default_remote h local_path))) (\<lambda>remote.
     cmd_volume_put_programmatic T volume_name local_path remote force)"

text \<open>\<open>{e:#}\<close>: the contexts and the cause, outermost first.\<close>

definition error_line :: "('w, 'f, 'b, 'g) tools \<Rightarrow> cli_error \<Rightarrow> string" where
  "error_line T e = ''modal-rust: error: '' @ join_with '': '' (fst e @ [tl_cause_text T (snd e)])"

definition cli_main :: "('w, 'f, 'b, 'g) tools \<Rightarrow> command \<Rightarrow> 'w cli_state \<Rightarrow> (8 word \<times> 'w cli_state) option" where
  "cli_main T c s =
     (case cli_run T c s of
        None \<Rightarrow> None
      | Some (Inr code, s) \<Rightarrow> Some (word_of_int code, s)
      | Some (Inl e, s) \<Rightarrow> Some (1, s\<lparr>cs_err := cs_err s @ [error_line T e]\<rparr>))"

section \<open>When Modal is called\<close>

text \<open>Commands that leave the world of the SDK alone.\<close>

definition offline :: "('w, 'a) cmd \<Rightarrow> bool" where
  "offline m \<longleftrightarrow> (\<forall>s r s'. m s = Some (r, s') \<longrightarrow> cs_world s' = cs_world s)"

lemma offline_basic [simp]:
  "offline (yields a)" "offline (of_cli x)" "offline (look g)" "offline (println l)" "offline (eprintln l)"
  "offline (exec P prog args cwd)"
  by (auto simp: offline_def exec_def split: option.splits)

lemma offline_bind: "offline m \<Longrightarrow> (\<And>a. offline (f a)) \<Longrightarrow> offline (bind_cmd m f)"
  unfolding offline_def bind_cmd_Some_iff by metis

lemma offline_steps [simp]:
  "offline (nonempty pkg m)" "offline (store_manifest T target k bs)" "offline (pin_runner T target pkg js)"
  "offline (cargo_build T pkg generate target b)"
  by (auto simp: offline_def nonempty_def store_manifest_def pin_runner_def cargo_build_def Let_def
      split: option.splits prod.splits build_outcome.splits if_splits)

lemma offline_build: "offline (build_and_describe T project)"
proof -
  have fresh: "offline (fresh_describe T pkg generate target k b)" for pkg generate target k b
    unfolding fresh_describe_def runner_describe_def by (intro offline_bind) simp_all
  have build: "offline (in_build_root T base pkg target (fresh_describe T pkg g tg k))" for base pkg target g tg k
    using fresh unfolding offline_def in_build_root_def Let_def
    by (fastforce split: if_splits option.splits sum.splits)
  have "offline (build_target T base pkg target)" for base pkg target
    unfolding build_target_def Let_def by (intro offline_bind) (auto intro!: offline_bind simp: build split: option.split)
  then show ?thesis
    unfolding build_and_describe_def Let_def by (intro offline_bind) (auto split: option.split)
qed

lemma offline_resolve: "offline (resolve_manifest_no_build T project entrypoint f i)"
  unfolding resolve_manifest_no_build_def Let_def by (intro offline_bind) (auto split: option.split)


lemma offline_first:
  assumes "offline m" and "bind_cmd m f s = Some (r, s')" and "cs_world s' \<noteq> cs_world s"
  obtains a s1 where "m s = Some (Inr a, s1)" "cs_world s1 = cs_world s" "f a s1 = Some (r, s')"
  using assms unfolding offline_def bind_cmd_Some_iff by metis

lemma validate_offline: "offline (validate_input_locally T bin entrypoint input_json)"
  unfolding validate_input_locally_def by (intro offline_bind) simp_all

lemma known_entrypoint: "manifest_entry_of m entrypoint = Inr e \<Longrightarrow> entrypoint \<in> me_name ` set (cm_entrypoints m)"
  by (auto simp: manifest_entry_of_def option_context_def bail_def find_Some_iff split: option.splits)

definition describes_on_modal :: "manifest_opts \<Rightarrow> bool" where
  "describes_on_modal opts \<longleftrightarrow> \<not> mo_no_local_build opts \<and> (mo_remote_describe opts \<or> mo_verify_manifest opts)"


section \<open>The exit code\<close>

lemma gives_exit_code: "gives (\<lambda>code. code = 0 \<or> code = 1) (cli_run T c)"
proof -
  have envelope: "gives (\<lambda>code. code = 0 \<or> code = (1 :: int)) (print_envelope_and_exit_code L envelope)" for L envelope
    unfolding print_envelope_and_exit_code_def by (intro gives_then) simp
  have doctor: "gives (\<lambda>code. code = 0 \<or> code = (1 :: int)) (doctor_run L P rust project)" for L P rust project
    unfolding doctor_run_def by (intro gives_then) (auto intro!: gives_then split: option.split)
  show ?thesis
  proof (cases c)
    case (Run entrypoint project input opts)
    then show ?thesis
      by (simp add: cmd_run_programmatic_def run_on_modal_def) (intro gives_then envelope)
  next
    case (Deploy entrypoint project app_name opts)
    then show ?thesis by (simp add: cmd_deploy_programmatic_def Let_def) (intro gives_then, simp)
  next
    case (Call entrypoint app_name input)
    then show ?thesis by (simp add: cmd_call_programmatic_def [abs_def]) (intro gives_then envelope)
  next
    case (VolumePut volume_name local_path remote_path force)
    then show ?thesis
      by (simp add: cmd_volume_put_programmatic_def) (intro gives_then, auto intro!: gives_then split: prod.split)
  qed (simp add: doctor)
qed

definition shows_envelope :: "facade_lib \<Rightarrow> ('w, int) cmd \<Rightarrow> bool" where
  "shows_envelope L m \<longleftrightarrow>
     (\<forall>s s'. m s = Some (Inr 0, s') \<longrightarrow> (\<exists>ls envelope. cs_out s' = ls @ [envelope] \<and> envelope_ok L envelope))"

lemma shows_envelope_bind: "(\<And>a. shows_envelope L (f a)) \<Longrightarrow> shows_envelope L (bind_cmd m f)"
  unfolding shows_envelope_def bind_cmd_Inr_iff by blast

lemma shows_envelope_last: "shows_envelope L (print_envelope_and_exit_code L envelope)"
  by (auto simp: shows_envelope_def print_envelope_and_exit_code_def split: if_splits)

lemma cli_run_shows_envelope:
  "shows_envelope (tl_lib T) (cli_run T (Run entrypoint project input opts))"
  "shows_envelope (tl_lib T) (cli_run T (Call entrypoint app_name input))"
  by (simp_all add: cmd_run_programmatic_def run_on_modal_def cmd_call_programmatic_def [abs_def])
    (intro shows_envelope_bind shows_envelope_last)+

text \<open>C40. The exit status is never cut short: a command answers 0 or 1, and the process exits with 0 exactly
  when the command answered 0; a run or a call then has printed, as its last line, an envelope that is ok.\<close>

theorem exit_status_is_faithful:
  "case (cli_run T c s, cli_main T c s) of
     (Some (r, s1), Some (status, s2)) \<Rightarrow>
       if status = 0
       then r = Inr 0 \<and> (case c of
          Run _ _ _ _ \<Rightarrow> \<exists>ls envelope. cs_out s2 = ls @ [envelope] \<and> envelope_ok (tl_lib T) envelope
        | Call _ _ _ \<Rightarrow> \<exists>ls envelope. cs_out s2 = ls @ [envelope] \<and> envelope_ok (tl_lib T) envelope
        | _ \<Rightarrow> True)
       else status = 1 \<and> r \<noteq> Inr 0
   | (None, None) \<Rightarrow> True
   | _ \<Rightarrow> False"
proof (cases "cli_run T c s")
  case None
  then show ?thesis by (simp add: cli_main_def)
next
  case (Some x)
  obtain r s1 where x: "x = (r, s1)" by force
  show ?thesis
  proof (cases r)
    case (Inl e)
    with Some x show ?thesis by (simp add: cli_main_def)
  next
    case (Inr code)
    with gives_exit_code [of T c] Some x have code: "code = 0 \<or> code = 1" by (auto simp: gives_def)
    from cli_run_shows_envelope [of T] Some x Inr
    have last: "code = 0 \<Longrightarrow> (\<exists>a b d e. c = Run a b d e) \<or> (\<exists>a b d. c = Call a b d) \<Longrightarrow>
        \<exists>ls envelope. cs_out s1 = ls @ [envelope] \<and> envelope_ok (tl_lib T) envelope"
      unfolding shows_envelope_def by blast
    from code show ?thesis
      using last by (auto simp: cli_main_def Some x Inr split: command.split)
  qed
qed

end
