(* ===== verification/MockFlow.thy ===== *)
theory MockFlow
  imports MockService App
begin

text \<open>
  The mock backend as one servicer (\<open>crates/modal-rust-testkit/src/\<close>): the typed request log of
  \<open>record.rs\<close>, the configuration of \<open>responder.rs\<close> and \<open>builder.rs\<close>, and the arms of \<open>servicer.rs\<close>
  that serve the run, deploy and call paths.  The Dict and Queue arms of \<open>MockService\<close> are lifted
  to the typed log.  An override of the configuration is a function from the request to a status or a
  response.  What the crate takes from outside is a record: the JSON parser and the text of a
  value (\<open>serde_json\<close>), the CBOR codec (\<open>serde_cbor\<close>), and the default of a wire float.
\<close>

record 'f mock_lib =
  ml_json :: "string \<Rightarrow> string + json"
  ml_show :: "json \<Rightarrow> string"
  ml_to_vec :: "string \<Rightarrow> string + bytes"
  ml_from_slice :: "bytes \<Rightarrow> string + (string \<times> string)"
    \<comment> \<open>at the type \<open>((String, String), Value)\<close>, without the second component\<close>
  ml_zero :: 'f

section \<open>The codec\<close>

definition cbor_encode :: "('a \<Rightarrow> string + bytes) \<Rightarrow> 'a \<Rightarrow> error + bytes" where
  "cbor_encode to_vec v = map_sum (\<lambda>e. Codec (''cbor encode: '' @ e)) id (to_vec v)"

definition cbor_decode :: "(bytes \<Rightarrow> string + 'a) \<Rightarrow> bytes \<Rightarrow> error + 'a" where
  "cbor_decode from_slice bs = map_sum (\<lambda>e. Codec (''cbor decode: '' @ e)) id (from_slice bs)"

section \<open>The request log\<close>

text \<open>A request whose message is a single name or id, and the client hello, are recorded as such.\<close>

datatype 'f recorded_request =
    ClientHello
  | AppGetOrCreate app_get_or_create_request
  | AppCreate app_create_request
  | AppPublish app_publish_request
  | EnvironmentGetOrCreate string
  | BlobCreate blob_create_request
  | MountGetOrCreate mount_get_or_create_request
  | MountPutFile mount_put_file_request
  | ImageGetOrCreate image_get_or_create_request
  | FunctionPrecreate function_precreate_request
  | FunctionCreate "'f function_create_request"
  | FunctionGet function_get_request
  | FunctionMap function_map_request
  | FunctionPutInputs put_inputs_request
  | FunctionGetOutputs get_outputs_request
  | SecretGetOrCreate secret_get_or_create_request
  | VolumeGetOrCreate volume_get_or_create_request
  | VolumePutFiles2 volume_put_request
  | DictGetOrCreate resolve_request
  | DictGet dict_key_request
  | DictUpdate dict_update_request
  | DictPop dict_key_request
  | DictContains dict_key_request
  | DictLen string
  | DictClear string
  | DictDelete string
  | QueueGetOrCreate resolve_request
  | QueuePut queue_put_request
  | QueueGet queue_get_request
  | QueueLen queue_len_request
  | QueueClear queue_clear_request
  | QueueDelete string

type_synonym 'f request_log = "'f recorded_request list"

definition log_len :: "'f request_log \<Rightarrow> nat" where "log_len l = length l"

definition log_is_empty :: "'f request_log \<Rightarrow> bool" where "log_is_empty l \<longleftrightarrow> log_len l = 0"

definition requests :: "('f recorded_request \<Rightarrow> 'a option) \<Rightarrow> 'f request_log \<Rightarrow> 'a list" where
  "requests extract l = List.map_filter extract l"

definition last_request :: "('f recorded_request \<Rightarrow> 'a option) \<Rightarrow> 'f request_log \<Rightarrow> 'a option" where
  "last_request extract l = (case requests extract l of [] \<Rightarrow> None | r # rs \<Rightarrow> Some (last (r # rs)))"

definition took :: "('f recorded_request \<Rightarrow> 'a option) \<Rightarrow> 'f request_log \<Rightarrow> nat" where
  "took extract l = length (requests extract l)"

text \<open>One \<open>extract\<close> for each recorded message type.\<close>

definition as_app_get_or_create :: "'f recorded_request \<Rightarrow> app_get_or_create_request option" where
  "as_app_get_or_create r = (case r of AppGetOrCreate v \<Rightarrow> Some v | _ \<Rightarrow> None)"

definition as_app_create :: "'f recorded_request \<Rightarrow> app_create_request option" where
  "as_app_create r = (case r of AppCreate v \<Rightarrow> Some v | _ \<Rightarrow> None)"

definition as_app_publish :: "'f recorded_request \<Rightarrow> app_publish_request option" where
  "as_app_publish r = (case r of AppPublish v \<Rightarrow> Some v | _ \<Rightarrow> None)"

definition as_environment_get_or_create :: "'f recorded_request \<Rightarrow> string option" where
  "as_environment_get_or_create r = (case r of EnvironmentGetOrCreate v \<Rightarrow> Some v | _ \<Rightarrow> None)"

definition as_blob_create :: "'f recorded_request \<Rightarrow> blob_create_request option" where
  "as_blob_create r = (case r of BlobCreate v \<Rightarrow> Some v | _ \<Rightarrow> None)"

definition as_mount_get_or_create :: "'f recorded_request \<Rightarrow> mount_get_or_create_request option" where
  "as_mount_get_or_create r = (case r of MountGetOrCreate v \<Rightarrow> Some v | _ \<Rightarrow> None)"

definition as_mount_put_file :: "'f recorded_request \<Rightarrow> mount_put_file_request option" where
  "as_mount_put_file r = (case r of MountPutFile v \<Rightarrow> Some v | _ \<Rightarrow> None)"

definition as_image_get_or_create :: "'f recorded_request \<Rightarrow> image_get_or_create_request option" where
  "as_image_get_or_create r = (case r of ImageGetOrCreate v \<Rightarrow> Some v | _ \<Rightarrow> None)"

definition as_function_precreate :: "'f recorded_request \<Rightarrow> function_precreate_request option" where
  "as_function_precreate r = (case r of FunctionPrecreate v \<Rightarrow> Some v | _ \<Rightarrow> None)"

definition as_function_create :: "'f recorded_request \<Rightarrow> ('f function_create_request) option" where
  "as_function_create r = (case r of FunctionCreate v \<Rightarrow> Some v | _ \<Rightarrow> None)"

definition as_function_get :: "'f recorded_request \<Rightarrow> function_get_request option" where
  "as_function_get r = (case r of FunctionGet v \<Rightarrow> Some v | _ \<Rightarrow> None)"

definition as_function_map :: "'f recorded_request \<Rightarrow> function_map_request option" where
  "as_function_map r = (case r of FunctionMap v \<Rightarrow> Some v | _ \<Rightarrow> None)"

definition as_function_put_inputs :: "'f recorded_request \<Rightarrow> put_inputs_request option" where
  "as_function_put_inputs r = (case r of FunctionPutInputs v \<Rightarrow> Some v | _ \<Rightarrow> None)"

definition as_function_get_outputs :: "'f recorded_request \<Rightarrow> get_outputs_request option" where
  "as_function_get_outputs r = (case r of FunctionGetOutputs v \<Rightarrow> Some v | _ \<Rightarrow> None)"

definition as_secret_get_or_create :: "'f recorded_request \<Rightarrow> secret_get_or_create_request option" where
  "as_secret_get_or_create r = (case r of SecretGetOrCreate v \<Rightarrow> Some v | _ \<Rightarrow> None)"

definition as_volume_get_or_create :: "'f recorded_request \<Rightarrow> volume_get_or_create_request option" where
  "as_volume_get_or_create r = (case r of VolumeGetOrCreate v \<Rightarrow> Some v | _ \<Rightarrow> None)"

definition as_volume_put_files2 :: "'f recorded_request \<Rightarrow> volume_put_request option" where
  "as_volume_put_files2 r = (case r of VolumePutFiles2 v \<Rightarrow> Some v | _ \<Rightarrow> None)"

definition as_dict_get_or_create :: "'f recorded_request \<Rightarrow> resolve_request option" where
  "as_dict_get_or_create r = (case r of DictGetOrCreate v \<Rightarrow> Some v | _ \<Rightarrow> None)"

definition as_dict_get :: "'f recorded_request \<Rightarrow> dict_key_request option" where
  "as_dict_get r = (case r of DictGet v \<Rightarrow> Some v | _ \<Rightarrow> None)"

definition as_dict_update :: "'f recorded_request \<Rightarrow> dict_update_request option" where
  "as_dict_update r = (case r of DictUpdate v \<Rightarrow> Some v | _ \<Rightarrow> None)"

definition as_dict_pop :: "'f recorded_request \<Rightarrow> dict_key_request option" where
  "as_dict_pop r = (case r of DictPop v \<Rightarrow> Some v | _ \<Rightarrow> None)"

definition as_dict_contains :: "'f recorded_request \<Rightarrow> dict_key_request option" where
  "as_dict_contains r = (case r of DictContains v \<Rightarrow> Some v | _ \<Rightarrow> None)"

definition as_dict_len :: "'f recorded_request \<Rightarrow> string option" where
  "as_dict_len r = (case r of DictLen v \<Rightarrow> Some v | _ \<Rightarrow> None)"

definition as_dict_clear :: "'f recorded_request \<Rightarrow> string option" where
  "as_dict_clear r = (case r of DictClear v \<Rightarrow> Some v | _ \<Rightarrow> None)"

definition as_dict_delete :: "'f recorded_request \<Rightarrow> string option" where
  "as_dict_delete r = (case r of DictDelete v \<Rightarrow> Some v | _ \<Rightarrow> None)"

definition as_queue_get_or_create :: "'f recorded_request \<Rightarrow> resolve_request option" where
  "as_queue_get_or_create r = (case r of QueueGetOrCreate v \<Rightarrow> Some v | _ \<Rightarrow> None)"

definition as_queue_put :: "'f recorded_request \<Rightarrow> queue_put_request option" where
  "as_queue_put r = (case r of QueuePut v \<Rightarrow> Some v | _ \<Rightarrow> None)"

definition as_queue_get :: "'f recorded_request \<Rightarrow> queue_get_request option" where
  "as_queue_get r = (case r of QueueGet v \<Rightarrow> Some v | _ \<Rightarrow> None)"

definition as_queue_len :: "'f recorded_request \<Rightarrow> queue_len_request option" where
  "as_queue_len r = (case r of QueueLen v \<Rightarrow> Some v | _ \<Rightarrow> None)"

definition as_queue_clear :: "'f recorded_request \<Rightarrow> queue_clear_request option" where
  "as_queue_clear r = (case r of QueueClear v \<Rightarrow> Some v | _ \<Rightarrow> None)"

definition as_queue_delete :: "'f recorded_request \<Rightarrow> string option" where
  "as_queue_delete r = (case r of QueueDelete v \<Rightarrow> Some v | _ \<Rightarrow> None)"

section \<open>The configuration\<close>

datatype result_mode = EchoInput | Value json | Envelope string | Body "string \<Rightarrow> json"

record 'f flow_responses =
  fr_result_mode :: result_mode
  on_app_get_or_create :: "(app_get_or_create_request \<Rightarrow> status + string) option"
  on_app_create :: "(app_create_request \<Rightarrow> status + string) option"
  on_environment_get_or_create :: "(string \<Rightarrow> status + string) option"
  on_image_get_or_create :: "(image_get_or_create_request \<Rightarrow> status + image_response) option"
  on_function_precreate :: "(function_precreate_request \<Rightarrow> status + string) option"
  on_function_create :: "('f function_create_request \<Rightarrow> status + function_create_response) option"
  on_function_get :: "(function_get_request \<Rightarrow> status + string) option"
  on_function_map :: "(function_map_request \<Rightarrow> status + function_map_response) option"
  on_function_get_outputs :: "(get_outputs_request \<Rightarrow> status + get_outputs_response) option"
  on_secret_get_or_create :: "(secret_get_or_create_request \<Rightarrow> status + string) option"
  on_volume_get_or_create :: "(volume_get_or_create_request \<Rightarrow> status + string) option"
  on_volume_put_files2 :: "(volume_put_request \<Rightarrow> status + missing_block list) option"
  fr_objects :: responses

definition default_responses :: "'f flow_responses" where
  "default_responses =
     \<lparr>fr_result_mode = EchoInput, on_app_get_or_create = None, on_app_create = None,
      on_environment_get_or_create = None, on_image_get_or_create = None, on_function_precreate = None,
      on_function_create = None, on_function_get = None, on_function_map = None, on_function_get_outputs = None,
      on_secret_get_or_create = None, on_volume_get_or_create = None, on_volume_put_files2 = None,
      fr_objects = no_overrides\<rparr>"

definition wrap_success :: "'f mock_lib \<Rightarrow> json \<Rightarrow> string" where
  "wrap_success X value = ml_show X (success_envelope value)"

definition envelope_for :: "'f mock_lib \<Rightarrow> 'f flow_responses \<Rightarrow> string \<Rightarrow> string" where
  "envelope_for X R input_json =
     (case fr_result_mode R of
        EchoInput \<Rightarrow> wrap_success X (case ml_json X input_json of Inr v \<Rightarrow> v | Inl _ \<Rightarrow> JNull)
      | Value v \<Rightarrow> wrap_success X v
      | Envelope s \<Rightarrow> s
      | Body f \<Rightarrow> wrap_success X (f input_json))"

section \<open>The builder\<close>

definition function_result_value :: "json \<Rightarrow> 'f flow_responses \<Rightarrow> 'f flow_responses" where
  "function_result_value v R = R\<lparr>fr_result_mode := Value v\<rparr>"

definition function_result_envelope :: "string \<Rightarrow> 'f flow_responses \<Rightarrow> 'f flow_responses" where
  "function_result_envelope s R = R\<lparr>fr_result_mode := Envelope s\<rparr>"

definition function_body :: "(string \<Rightarrow> json) \<Rightarrow> 'f flow_responses \<Rightarrow> 'f flow_responses" where
  "function_body f R = R\<lparr>fr_result_mode := Body f\<rparr>"

definition with_app_get_or_create ::
  "(app_get_or_create_request \<Rightarrow> status + string) \<Rightarrow> 'f flow_responses \<Rightarrow> 'f flow_responses" where
  "with_app_get_or_create f R = R\<lparr>on_app_get_or_create := Some f\<rparr>"

definition with_app_create ::
  "(app_create_request \<Rightarrow> status + string) \<Rightarrow> 'f flow_responses \<Rightarrow> 'f flow_responses" where
  "with_app_create f R = R\<lparr>on_app_create := Some f\<rparr>"

definition with_environment_get_or_create ::
  "(string \<Rightarrow> status + string) \<Rightarrow> 'f flow_responses \<Rightarrow> 'f flow_responses" where
  "with_environment_get_or_create f R = R\<lparr>on_environment_get_or_create := Some f\<rparr>"

definition with_image_get_or_create ::
  "(image_get_or_create_request \<Rightarrow> status + image_response) \<Rightarrow> 'f flow_responses \<Rightarrow> 'f flow_responses" where
  "with_image_get_or_create f R = R\<lparr>on_image_get_or_create := Some f\<rparr>"

definition with_function_precreate ::
  "(function_precreate_request \<Rightarrow> status + string) \<Rightarrow> 'f flow_responses \<Rightarrow> 'f flow_responses" where
  "with_function_precreate f R = R\<lparr>on_function_precreate := Some f\<rparr>"

definition with_function_create ::
  "('f function_create_request \<Rightarrow> status + function_create_response) \<Rightarrow> 'f flow_responses \<Rightarrow> 'f flow_responses" where
  "with_function_create f R = R\<lparr>on_function_create := Some f\<rparr>"

definition with_function_get ::
  "(function_get_request \<Rightarrow> status + string) \<Rightarrow> 'f flow_responses \<Rightarrow> 'f flow_responses" where
  "with_function_get f R = R\<lparr>on_function_get := Some f\<rparr>"

definition with_function_map ::
  "(function_map_request \<Rightarrow> status + function_map_response) \<Rightarrow> 'f flow_responses \<Rightarrow> 'f flow_responses" where
  "with_function_map f R = R\<lparr>on_function_map := Some f\<rparr>"

definition with_function_get_outputs ::
  "(get_outputs_request \<Rightarrow> status + get_outputs_response) \<Rightarrow> 'f flow_responses \<Rightarrow> 'f flow_responses" where
  "with_function_get_outputs f R = R\<lparr>on_function_get_outputs := Some f\<rparr>"

definition with_secret_get_or_create ::
  "(secret_get_or_create_request \<Rightarrow> status + string) \<Rightarrow> 'f flow_responses \<Rightarrow> 'f flow_responses" where
  "with_secret_get_or_create f R = R\<lparr>on_secret_get_or_create := Some f\<rparr>"

definition with_volume_get_or_create ::
  "(volume_get_or_create_request \<Rightarrow> status + string) \<Rightarrow> 'f flow_responses \<Rightarrow> 'f flow_responses" where
  "with_volume_get_or_create f R = R\<lparr>on_volume_get_or_create := Some f\<rparr>"

definition with_volume_put_files2 ::
  "(volume_put_request \<Rightarrow> status + missing_block list) \<Rightarrow> 'f flow_responses \<Rightarrow> 'f flow_responses" where
  "with_volume_put_files2 f R = R\<lparr>on_volume_put_files2 := Some f\<rparr>"

definition with_dict_get_or_create ::
  "(resolve_request \<Rightarrow> status + string) \<Rightarrow> 'f flow_responses \<Rightarrow> 'f flow_responses" where
  "with_dict_get_or_create f R = R\<lparr>fr_objects := (fr_objects R)\<lparr>on_dict_get_or_create := Some f\<rparr>\<rparr>"

definition with_queue_get_or_create ::
  "(resolve_request \<Rightarrow> status + string) \<Rightarrow> 'f flow_responses \<Rightarrow> 'f flow_responses" where
  "with_queue_get_or_create f R = R\<lparr>fr_objects := (fr_objects R)\<lparr>on_queue_get_or_create := Some f\<rparr>\<rparr>"

section \<open>The servicer\<close>

text \<open>The state of the object arms, the typed log, and the build-log streams handed out: whether their one
  item is still to come.\<close>

record 'f servicer =
  sv_mock :: mock
  sv_log :: "'f request_log"
  sv_streams :: "bool list"

definition new_servicer :: "'f servicer" where
  "new_servicer =
     \<lparr>sv_mock = \<lparr>mk_clock = 0, mk_logged = 0, mk_counter = 0, mk_store = empty_store, mk_drops = 0\<rparr>, sv_log = [],
      sv_streams = []\<rparr>"

definition servicer_host :: "'f servicer host" where
  "servicer_host =
     \<lparr>instant_now = mk_clock \<circ> sv_mock,
      sleep_for = (\<lambda>d s. s\<lparr>sv_mock := (sv_mock s)\<lparr>mk_clock := mk_clock (sv_mock s) + d\<rparr>\<rparr>),
      wall_nanos = (\<lambda>_. 0), counter_fetch_add = (\<lambda>_ s. (0, s))\<rparr>"

definition push :: "'f recorded_request \<Rightarrow> 'f servicer \<Rightarrow> 'f servicer" where
  "push r s = s\<lparr>sv_mock := log_push (sv_mock s), sv_log := sv_log s @ [r]\<rparr>"

definition fresh_id :: "string \<Rightarrow> 'f servicer \<Rightarrow> string \<times> 'f servicer" where
  "fresh_id kind s = (let (n, m) = next_id (sv_mock s) in (kind @ dec n, s\<lparr>sv_mock := m\<rparr>))"

text \<open>The shape of most arms: record, then the override if there is one, else the canned answer.\<close>

definition arm ::
  "('req \<Rightarrow> 'f recorded_request) \<Rightarrow> ('req \<Rightarrow> status + 'resp) option \<Rightarrow> ('f servicer, 'req, 'resp) rpc \<Rightarrow>
     ('f servicer, 'req, 'resp) rpc" where
  "arm record_as override deflt req s =
     (let s = push (record_as req) s in
      case override of Some f \<Rightarrow> Some (f req, s) | None \<Rightarrow> deflt req s)"

definition canned :: "('req \<Rightarrow> 'resp) \<Rightarrow> ('f servicer, 'req, 'resp) rpc" where
  "canned f req s = Some (Inr (f req), s)"

definition canned_fresh :: "string \<Rightarrow> (string \<Rightarrow> 'resp) \<Rightarrow> ('f servicer, 'req, 'resp) rpc" where
  "canned_fresh kind f req s = (let (i, s) = fresh_id kind s in Some (Inr (f i), s))"

definition serve_client_hello :: "('f servicer, unit, unit) rpc" where
  "serve_client_hello req s = Some (Inr (), push ClientHello s)"

definition serve_app_get_or_create :: "'f flow_responses \<Rightarrow> ('f servicer, app_get_or_create_request, string) rpc" where
  "serve_app_get_or_create R = arm AppGetOrCreate (on_app_get_or_create R) (canned (\<lambda>_. ''ap-1''))"

definition serve_app_create :: "'f flow_responses \<Rightarrow> ('f servicer, app_create_request, string) rpc" where
  "serve_app_create R = arm AppCreate (on_app_create R) (canned (\<lambda>_. ''ap-1''))"

definition serve_app_publish :: "'f mock_lib \<Rightarrow> ('f servicer, app_publish_request, 'f published_app) rpc" where
  "serve_app_publish X =
     arm AppPublish None (canned (\<lambda>_. \<lparr>app_url = [], deployed_at = ml_zero X, app_warnings = []\<rparr>))"

definition serve_environment_get_or_create :: "'f flow_responses \<Rightarrow> ('f servicer, string, string) rpc" where
  "serve_environment_get_or_create R =
     arm EnvironmentGetOrCreate (on_environment_get_or_create R) (canned (\<lambda>_. ''2025.06''))"

definition serve_blob_create :: "('f servicer, blob_create_request, blob_create_response) rpc" where
  "serve_blob_create = arm BlobCreate None (canned (\<lambda>_. \<lparr>bc_blob_id = ''bl-1'', bc_upload_type = None\<rparr>))"

definition serve_mount_get_or_create :: "'f servicer mount_rpc" where
  "serve_mount_get_or_create = arm MountGetOrCreate None (canned_fresh ''mo-'' id)"

definition serve_mount_put_file :: "('f servicer, mount_put_file_request, bool) rpc" where
  "serve_mount_put_file = arm MountPutFile None (canned (\<lambda>_. True))"

definition success_result :: "result_data option \<Rightarrow> generic_result" where
  "success_result data = \<lparr>gr_status = 1, gr_exception = [], gr_traceback = [], gr_data_oneof = data\<rparr>"

definition serve_image_get_or_create :: "'f flow_responses \<Rightarrow> ('f servicer, image_get_or_create_request, image_response) rpc" where
  "serve_image_get_or_create R =
     arm ImageGetOrCreate (on_image_get_or_create R)
       (canned_fresh ''im-'' (\<lambda>i. \<lparr>ir_image_id = i, ir_result = Some (success_result None)\<rparr>))"

definition serve_function_precreate :: "'f flow_responses \<Rightarrow> ('f servicer, function_precreate_request, string) rpc" where
  "serve_function_precreate R = arm FunctionPrecreate (on_function_precreate R) (canned (\<lambda>_. ''fu-pre-1''))"

definition serve_function_create ::
  "'f flow_responses \<Rightarrow> ('f servicer, 'f function_create_request, function_create_response) rpc" where
  "serve_function_create R =
     arm FunctionCreate (on_function_create R)
       (canned (\<lambda>_. \<lparr>fr_function_id = ''fu-1'',
          fr_handle_metadata = Some \<lparr>hm_definition_id = ''de-1'', hm_web_url = []\<rparr>, fr_server_warnings = []\<rparr>))"

definition serve_function_get :: "'f flow_responses \<Rightarrow> ('f servicer, function_get_request, string) rpc" where
  "serve_function_get R = arm FunctionGet (on_function_get R) (canned (\<lambda>_. ''fu-1''))"

definition accept_item :: "put_inputs_item \<Rightarrow> accepted_input" where
  "accept_item item = \<lparr>ai_idx = pi_idx item, ai_input_id = ''in-'' @ dec_int (sint (pi_idx item))\<rparr>"

text \<open>The one arm that runs its override first: a request whose override refuses is not recorded.\<close>

definition serve_function_map :: "'f flow_responses \<Rightarrow> ('f servicer, function_map_request, function_map_response) rpc" where
  "serve_function_map R req s =
     (case on_function_map R of
        Some f \<Rightarrow>
          (case f req of
             Inl e \<Rightarrow> Some (Inl e, s)
           | Inr resp \<Rightarrow> Some (Inr resp, push (FunctionMap req) s))
      | None \<Rightarrow>
          Some (Inr \<lparr>mr_function_call_id = ''fc-1'', mr_pipelined_inputs = map accept_item (fm_pipelined_inputs req)\<rparr>,
                push (FunctionMap req) s))"

definition serve_function_put_inputs :: "('f servicer, put_inputs_request, accepted_input list) rpc" where
  "serve_function_put_inputs = arm FunctionPutInputs None (canned (\<lambda>req. map accept_item (pr_inputs req)))"

definition serve_secret_get_or_create :: "'f flow_responses \<Rightarrow> 'f servicer secret_rpc" where
  "serve_secret_get_or_create R = arm SecretGetOrCreate (on_secret_get_or_create R) (canned (\<lambda>_. ''sc-1''))"

definition serve_volume_get_or_create :: "'f flow_responses \<Rightarrow> ('f servicer, volume_get_or_create_request, string) rpc" where
  "serve_volume_get_or_create R = arm VolumeGetOrCreate (on_volume_get_or_create R) (canned_fresh ''vo-'' id)"

definition serve_volume_put_files2 :: "'f flow_responses \<Rightarrow> ('f servicer, volume_put_request, missing_block list) rpc" where
  "serve_volume_put_files2 R = arm VolumePutFiles2 (on_volume_put_files2 R) (canned (\<lambda>_. []))"

section \<open>The canned result\<close>

definition decode_input_json :: "'f mock_lib \<Rightarrow> bytes \<Rightarrow> string" where
  "decode_input_json X args_bytes =
     (case cbor_decode (ml_from_slice X) args_bytes of Inr (_, input_json) \<Rightarrow> input_json | Inl _ \<Rightarrow> ''null'')"

definition invoke_args_bytes :: "function_input \<Rightarrow> bytes option" where
  "invoke_args_bytes input = fi_args input"

fun find_args :: "put_inputs_item list \<Rightarrow> bytes option" where
  "find_args [] = None"
| "find_args (i # is) =
     (case Option.bind (pi_input i) invoke_args_bytes of Some b \<Rightarrow> Some b | None \<Rightarrow> find_args is)"

fun last_input :: "'f mock_lib \<Rightarrow> 'f request_log \<Rightarrow> string" where
  \<comment> \<open>over the log with the latest request first\<close>
  "last_input X [] = ''null''"
| "last_input X (r # rs) =
     (case (case r of
              FunctionMap m \<Rightarrow> find_args (fm_pipelined_inputs m)
            | FunctionPutInputs p \<Rightarrow> find_args (pr_inputs p)
            | _ \<Rightarrow> None) of
        Some bs \<Rightarrow> decode_input_json X bs
      | None \<Rightarrow> last_input X rs)"

definition last_invoked_input_json :: "'f mock_lib \<Rightarrow> 'f servicer \<Rightarrow> string" where
  "last_invoked_input_json X s = last_input X (rev (sv_log s))"

definition canned_outputs :: "bytes \<Rightarrow> get_outputs_response" where
  "canned_outputs cbor =
     \<lparr>or_outputs = [\<lparr>oi_idx = 0, oi_data_format = DATA_FORMAT_CBOR,
                     oi_result = Some (success_result (Some (result_data.Data cbor)))\<rparr>],
      or_last_entry_id = ''1-0''\<rparr>"

definition serve_function_get_outputs ::
  "'f mock_lib \<Rightarrow> 'f flow_responses \<Rightarrow> ('f servicer, get_outputs_request, get_outputs_response) rpc" where
  "serve_function_get_outputs X R =
     arm FunctionGetOutputs (on_function_get_outputs R) (\<lambda>_ s.
       case cbor_encode (ml_to_vec X) (envelope_for X R (last_invoked_input_json X s)) of
         Inl e \<Rightarrow> Some (Inl \<lparr>st_code = Internal,
             st_message = ''mock: failed to encode envelope: '' @ display st_message e\<rparr>, s)
       | Inr cbor \<Rightarrow> Some (Inr (canned_outputs cbor), s))"

section \<open>Streams and the procedures left out\<close>

definition serve_image_join_streaming :: "('f servicer, join_request, nat) rpc" where
  "serve_image_join_streaming req s = Some (Inr (length (sv_streams s)), s\<lparr>sv_streams := sv_streams s @ [True]\<rparr>)"

definition once_message :: "nat \<Rightarrow> 'f servicer \<Rightarrow> ((status + join_item option) \<times> 'f servicer) option" where
  "once_message i s =
     (if i < length (sv_streams s) \<and> sv_streams s ! i
      then Some (Inr (Some \<lparr>ji_entry_id = [], ji_result = Some (success_result None)\<rparr>),
                 s\<lparr>sv_streams := (sv_streams s)[i := False]\<rparr>)
      else Some (Inr None, s))"

definition mock_unimplemented :: "string \<Rightarrow> ('f servicer, 'req, 'resp) rpc" where
  "mock_unimplemented name req s =
     Some (Inl \<lparr>st_code = Unimplemented, st_message = ''mock: '' @ name @ '' is not implemented''\<rparr>, s)"

section \<open>The Dict and Queue arms\<close>

definition object_arm ::
  "('req \<Rightarrow> 'f recorded_request) \<Rightarrow> (mock, 'req, 'resp) rpc \<Rightarrow> ('f servicer, 'req, 'resp) rpc" where
  "object_arm record_as rpc req s =
     map_option (\<lambda>(r, m). (r, s\<lparr>sv_mock := m, sv_log := sv_log s @ [record_as req]\<rparr>)) (rpc req (sv_mock s))"

section \<open>The stubs of the SDK on the mock\<close>

definition servicer_apps :: "'f mock_lib \<Rightarrow> 'f flow_responses \<Rightarrow> ('f servicer, 'f) app_stub" where
  "servicer_apps X R =
     \<lparr>app_get_or_create_rpc = serve_app_get_or_create R, app_create_rpc = serve_app_create R,
      app_publish_rpc = serve_app_publish X\<rparr>"

definition servicer_images :: "'f flow_responses \<Rightarrow> 'f servicer image_stub" where
  "servicer_images R =
     \<lparr>image_get_or_create_rpc = serve_image_get_or_create R, image_join_rpc = serve_image_join_streaming,
      stream_message = once_message, environment_get_or_create_rpc = serve_environment_get_or_create R\<rparr>"

definition servicer_functions :: "'f flow_responses \<Rightarrow> ('f servicer, 'f) function_stub" where
  "servicer_functions R =
     \<lparr>function_precreate_rpc = serve_function_precreate R, function_create_rpc = serve_function_create R,
      function_get_rpc = serve_function_get R\<rparr>"

definition servicer_uploads :: "'f servicer upload_stub" where
  "servicer_uploads =
     \<lparr>blob_create_rpc = serve_blob_create, mount_put_file_rpc = serve_mount_put_file,
      mount_get_or_create_rpc = serve_mount_get_or_create\<rparr>"

definition servicer_volumes :: "'f flow_responses \<Rightarrow> 'f servicer volume_stub" where
  "servicer_volumes R =
     \<lparr>volume_get_or_create_rpc = serve_volume_get_or_create R, volume_put_files2_rpc = serve_volume_put_files2 R\<rparr>"

definition servicer_invoke :: "'f mock_lib \<Rightarrow> 'f flow_responses \<Rightarrow> 'f servicer invoke_stub" where
  "servicer_invoke X R =
     \<lparr>function_map_rpc = serve_function_map R, function_put_inputs_rpc = serve_function_put_inputs,
      function_get_outputs_rpc = serve_function_get_outputs X R\<rparr>"

definition servicer_objects :: "'f flow_responses \<Rightarrow> 'f servicer object_stub" where
  "servicer_objects R =
     \<lparr>dict_get_or_create_rpc = object_arm DictGetOrCreate (serve_dict_get_or_create (fr_objects R)),
      dict_get_rpc = object_arm DictGet serve_dict_get, dict_update_rpc = object_arm DictUpdate serve_dict_update,
      dict_pop_rpc = object_arm DictPop serve_dict_pop, dict_contains_rpc = object_arm DictContains serve_dict_contains,
      dict_len_rpc = object_arm DictLen serve_dict_len, dict_clear_rpc = object_arm DictClear serve_dict_clear,
      dict_delete_rpc = object_arm DictDelete serve_dict_delete,
      queue_get_or_create_rpc = object_arm QueueGetOrCreate (serve_queue_get_or_create (fr_objects R)),
      queue_put_rpc = object_arm QueuePut serve_queue_put, queue_get_rpc = object_arm QueueGet serve_queue_get,
      queue_len_rpc = object_arm QueueLen serve_queue_len, queue_clear_rpc = object_arm QueueClear serve_queue_clear,
      queue_delete_rpc = object_arm QueueDelete serve_queue_delete\<rparr>"

text \<open>\<open>modal_config\<close> of the handle, and a client whose every stub is the mock's.\<close>

definition mock_config :: "string \<Rightarrow> modal_config" where
  "mock_config url =
     \<lparr>profile = ''mock'', server_url = url, token_id = ''ak-mock'', token_secret = ''as-mock'',
      environment = Some ''main'', image_builder_version = None, is_container = False\<rparr>"

definition on_mock ::
  "'f mock_lib \<Rightarrow> 'f flow_responses \<Rightarrow> ('f servicer, 'f, 'b, 'g) live_client \<Rightarrow> ('f servicer, 'f, 'b, 'g) live_client" where
  "on_mock X R K = K\<lparr>lc_host := servicer_host, lc_apps := servicer_apps X R, lc_mounts := serve_mount_get_or_create,
      lc_secrets := serve_secret_get_or_create R, lc_volumes := servicer_volumes R, lc_images := servicer_images R,
      lc_functions := servicer_functions R, lc_uploads := servicer_uploads, lc_invoke := servicer_invoke X R\<rparr>"

end
