(* ===== verification/MockCalls.thy ===== *)
theory MockCalls
  imports MockFlow
begin

text \<open>
  The SDK and the facade end to end against the mock servicer: a typed call of a deployed function reads
  back the configured result, a source upload sends no bytes, and a volume upload finishes in one round.
  Each statement gives the requests the mock has recorded.
\<close>

section \<open>Recording\<close>

lemma push_simps [simp]:
  "sv_log (push r s) = sv_log s @ [r]" "mk_clock (sv_mock (push r s)) = mk_clock (sv_mock s)"
  "sv_streams (push r s) = sv_streams s" "mk_counter (sv_mock (push r s)) = mk_counter (sv_mock s)"
  "mk_logged (sv_mock (push r s)) = Suc (mk_logged (sv_mock s))"
  by (simp_all add: push_def log_push_def)

lemma servicer_host_simps [simp]: "instant_now servicer_host s = mk_clock (sv_mock s)"
  by (simp add: servicer_host_def)

lemma retry_answered:
  "rpc req s = Some (Inr v, s') \<Longrightarrow> retry_rpc h rpc req s = Some (Inr v, s')"
  using retry_rpc_now [of rpc req s "Inr v" s' h] by simp

lemma fresh_id_eq: "fresh_id kind s = (kind @ dec (mk_counter (sv_mock s) + 1),
    s\<lparr>sv_mock := (sv_mock s)\<lparr>mk_counter := mk_counter (sv_mock s) + 1\<rparr>\<rparr>)"
  by (simp add: fresh_id_def next_id_def)

lemmas arm_defs = arm_def canned_def canned_fresh_def fresh_id_eq Let_def

section \<open>Calls\<close>

lemma find_args_cbor: "find_args [cbor_item i b] = Some b"
  by (subst find_args.simps) (simp add: cbor_item_def invoke_args_bytes_def)

lemma enqueue_on_mock:
  assumes "on_function_map R = None"
  shows "enqueue_pipelined servicer_host (servicer_invoke X R) fid it (cbor_item 0 b) s =
    Some (Inr ''fc-1'', push (FunctionMap (build_function_map_request fid Unary it [cbor_item 0 b])) s)"
proof -
  let ?req = "build_function_map_request fid Unary it [cbor_item 0 b]"
  have "retry_rpc servicer_host (function_map_rpc (servicer_invoke X R)) ?req s =
      Some (Inr \<lparr>mr_function_call_id = ''fc-1'', mr_pipelined_inputs = map accept_item (fm_pipelined_inputs ?req)\<rparr>,
            push (FunctionMap ?req) s)"
    by (rule retry_answered) (use assms in \<open>simp add: servicer_invoke_def serve_function_map_def\<close>)
  then show ?thesis
    by (simp add: enqueue_pipelined_def bind_io_def ret_def build_function_map_request_def)
qed

lemma outputs_on_mock:
  assumes "on_function_get_outputs R = None" "last_invoked_input_json X s = j"
    and "ml_to_vec X (envelope_for X R j) = Inr c" "index = None \<or> index = Some 0"
  shows "poll_outputs_indexed servicer_host (servicer_invoke X R) cid index d s =
    Some (Inr \<lparr>inv_data = c, inv_data_format = DfCbor\<rparr>,
      push (FunctionGetOutputs (build_function_get_outputs_request cid 1 LAST_ENTRY_ID_INITIAL index)) s)"
proof -
  let ?req = "build_function_get_outputs_request cid 1 LAST_ENTRY_ID_INITIAL index"
  have "last_invoked_input_json X (push (FunctionGetOutputs ?req) s) = j"
    using assms(2) by (simp add: last_invoked_input_json_def)
  then have "retry_rpc servicer_host (function_get_outputs_rpc (servicer_invoke X R)) ?req s =
      Some (Inr (canned_outputs c), push (FunctionGetOutputs ?req) s)"
    using assms(1,3)
    by (intro retry_answered)
       (simp add: servicer_invoke_def serve_function_get_outputs_def arm_def Let_def cbor_encode_def)
  then have "poll_one_output servicer_host (servicer_invoke X R) cid 1 LAST_ENTRY_ID_INITIAL index s =
      Some (Inr (canned_outputs c, ''1-0''), push (FunctionGetOutputs ?req) s)"
    by (simp add: poll_one_output_def bind_io_def ret_def canned_outputs_def)
  then show ?thesis
    unfolding poll_outputs_indexed_def using assms(4)
    by (intro loop_break)
       (auto simp: poll_outputs_step_def elapsed_def canned_outputs_def read_output_def success_result_def
         result_status_def generic_status_try_from_def DATA_FORMAT_CBOR_def data_format_try_from_def)
qed

lemma invoke_on_mock:
  assumes "on_function_map R = None" "on_function_get_outputs R = None"
    and "ml_from_slice X b = Inr (entry, j)" "ml_to_vec X (envelope_for X R j) = Inr c"
    and "encode (args, kwargs) = Inr b" "decode c = Inr (envelope_for X R j)"
  shows "invoke_cbor_with_deadline servicer_host (servicer_invoke X R) encode decode fid args kwargs d s =
    Some (Inr (envelope_for X R j),
      push (FunctionGetOutputs (build_function_get_outputs_request ''fc-1'' 1 LAST_ENTRY_ID_INITIAL None))
        (push (FunctionMap (build_function_map_request fid Unary Sync [cbor_item 0 b])) s))"
proof -
  let ?req = "build_function_map_request fid Unary Sync [cbor_item 0 b]"
  have "fm_pipelined_inputs ?req = [cbor_item 0 b]" by (simp add: build_function_map_request_def)
  then have "last_invoked_input_json X (push (FunctionMap ?req) s) = j"
    using assms(3)
    by (simp add: last_invoked_input_json_def decode_input_json_def cbor_decode_def find_args_cbor del: find_args.simps)
  from outputs_on_mock [OF assms(2) this assms(4)] show ?thesis
    using assms(5,6)
    by (simp add: invoke_cbor_with_deadline_def invoke_raw_with_deadline_def bind_io_def lift_res_def
        enqueue_on_mock [OF assms(1)] decode_cbor_def)
qed

lemma from_name_on_mock:
  assumes "on_function_get R = None"
  shows "function_from_name servicer_host (servicer_functions R) conf app_name tag env s =
    Some (Inr ''fu-1'', push (FunctionGet (build_function_get_request app_name tag (env_or_default conf env))) s)"
proof -
  let ?req = "build_function_get_request app_name tag (env_or_default conf env)"
  have "retry_rpc servicer_host (function_get_rpc (servicer_functions R)) ?req s = Some (Inr ''fu-1'', push (FunctionGet ?req) s)"
    by (rule retry_answered) (use assms in \<open>simp add: servicer_functions_def serve_function_get_def arm_defs\<close>)
  then show ?thesis
    by (simp add: function_from_name_def bind_io_def ret_def)
qed

text \<open>The servicer inside the state of a connected handle, and the requests of one call.\<close>

definition mock_log :: "'f servicer client_state handle_state \<Rightarrow> 'f request_log" where
  "mock_log s = sv_log (fst (hs_client s))"

definition invoke_requests :: "string \<Rightarrow> bytes \<Rightarrow> 'f request_log" where
  "invoke_requests fid b =
     [FunctionMap (build_function_map_request fid Unary Sync [cbor_item 0 b]),
      FunctionGetOutputs (build_function_get_outputs_request ''fc-1'' 1 LAST_ENTRY_ID_INITIAL None)]"

lemma on_mock_fields [simp]:
  "lc_host (on_mock X R K) = servicer_host" "lc_functions (on_mock X R K) = servicer_functions R"
  "lc_invoke (on_mock X R K) = servicer_invoke X R" "lc_config (on_mock X R K) = lc_config K"
  "lc_encode (on_mock X R K) = lc_encode K" "lc_decode (on_mock X R K) = lc_decode K"
  "lc_apps (on_mock X R K) = servicer_apps X R" "lc_mounts (on_mock X R K) = serve_mount_get_or_create"
  "lc_secrets (on_mock X R K) = serve_secret_get_or_create R" "lc_volumes (on_mock X R K) = servicer_volumes R"
  "lc_images (on_mock X R K) = servicer_images R" "lc_uploads (on_mock X R K) = servicer_uploads"
  by (simp_all add: on_mock_def)

text \<open>What the typed caller reads in each mode of the mock.\<close>

definition mock_reads ::
  "'f mock_lib \<Rightarrow> 'f flow_responses \<Rightarrow> json_lib \<Rightarrow> (json \<Rightarrow> string + 'o) \<Rightarrow> string \<Rightarrow> facade_error + 'o" where
  "mock_reads X R J from_value input_json =
     (case fr_result_mode R of
        EchoInput \<Rightarrow> map_sum facade_error.Decode id (from_value (case ml_json X input_json of Inr v \<Rightarrow> v | Inl _ \<Rightarrow> JNull))
      | Value v \<Rightarrow> map_sum facade_error.Decode id (from_value v)
      | Envelope e \<Rightarrow> parse_envelope J from_value e
      | Body f \<Rightarrow> map_sum facade_error.Decode id (from_value (f input_json)))"

lemma parse_on_mock:
  assumes "\<And>v. json_value J (ml_show X (success_envelope v)) = Inr (success_envelope v)"
  shows "parse_envelope J from_value (envelope_for X R j) = mock_reads X R J from_value j"
  using parse_success [OF assms, of from_value]
  by (simp add: envelope_for_def mock_reads_def wrap_success_def split: result_mode.split)

text \<open>The facade takes the client from its state and puts it back.\<close>

lemma with_client_op:
  "m (fst (hs_client s)) = Some (Inr a, w') \<Longrightarrow>
   with_client (client_op m) s = Some (Inr a, s\<lparr>hs_client := (w', snd (hs_client s))\<rparr>)"
  by (cases "hs_client s") (simp add: with_client_def client_op_def from_sdk_def)

text \<open>C9. A typed call of a deployed function against the mock returns what the mock is configured with,
  whatever was called before: the input read back, the pinned value, the body's value for this call's input,
  or the error of the pinned envelope.  It resolves the function, opens one call and polls once, and the
  mock has recorded exactly those requests, with the entrypoint's tag and the encoded input.  The serde
  codecs are assumed to read back what they wrote.\<close>

theorem mock_call_end_to_end:
  assumes "app_remote a = Some h" and "enc input = Inr j"
    and "on_function_get R = None" "on_function_map R = None" "on_function_get_outputs R = None"
    and "lc_encode K ((entrypoint, j), no_kwargs) = Inr b" "ml_from_slice X b = Inr (entrypoint, j)"
    and "ml_to_vec X (envelope_for X R j) = Inr c" "lc_decode K c = Inr (envelope_for X R j)"
    and "\<And>v. json_value (fl_json L) (ml_show X (success_envelope v)) = Inr (success_envelope v)"
  shows "\<exists>s'. call_deployed_name L (on_mock X R K) enc from_value a app_name entrypoint input s =
      Some (mock_reads X R (fl_json L) from_value j, s') \<and>
    mock_log s' = mock_log s
      @ FunctionGet (build_function_get_request app_name (sanitize_object_tag entrypoint) (env_or_default (lc_config K) None))
      # invoke_requests ''fu-1'' b"
proof -
  obtain w cache where s: "hs_client s = (w, cache)" by (cases "hs_client s")
  note inv = invoke_on_mock [where encode = "lc_encode K" and decode = "lc_decode K" and args = "(entrypoint, j)"
      and kwargs = no_kwargs, OF assms(4,5,7,8,6,9)]
  have "call_function (on_mock X R K) app_name entrypoint j (w, cache) =
      Some (Inr (envelope_for X R j),
        (push (FunctionGetOutputs (build_function_get_outputs_request ''fc-1'' 1 LAST_ENTRY_ID_INITIAL None))
          (push (FunctionMap (build_function_map_request ''fu-1'' Unary Sync [cbor_item 0 b]))
            (push (FunctionGet (build_function_get_request app_name (sanitize_object_tag entrypoint)
               (env_or_default (lc_config K) None))) w)), cache))"
    by (simp add: call_function_def from_name_def client_op_def bind_run_def from_name_on_mock [OF assms(3)] from_sdk_def inv)
  then show ?thesis
    using assms(1,2) parse_on_mock [OF assms(10)]
    by (auto simp: call_deployed_name_def handle_of_def ok_or_def of_result_def bind_run_def with_client_def s mock_log_def
        invoke_requests_def)
qed

text \<open>Codecs for the witness: a JSON text and a run of CBOR bytes are as long as the number of the value.\<close>

definition tally :: "'x \<Rightarrow> 'a :: countable \<Rightarrow> 'x list" where "tally x v = replicate (to_nat v) x"

definition untally :: "'x list \<Rightarrow> 'a :: countable" where "untally l = from_nat (length l)"

lemma untally [simp]: "untally (tally x v) = v"
  by (simp add: tally_def untally_def)

definition tally_mock :: "unit mock_lib" where
  "tally_mock = \<lparr>ml_json = (\<lambda>s. Inr (untally s)), ml_show = tally CHR ''i'', ml_to_vec = (\<lambda>s. Inr (tally 1 s)),
     ml_from_slice = (\<lambda>b. Inr (untally b)), ml_zero = ()\<rparr>"

definition tally_json :: json_lib where
  "tally_json = \<lparr>json_value = (\<lambda>s. Inr (untally s)), json_text = (\<lambda>v. Inr (tally CHR ''i'' v)),
     frame_kind = (\<lambda>_. Inr None), serve_request = (\<lambda>s. Inl s)\<rparr>"

definition tally_client :: "('w, 'f, 'b, 'g) live_client \<Rightarrow> ('w, 'f, 'b, 'g) live_client" where
  "tally_client K = K\<lparr>lc_encode := \<lambda>(args, _). Inr (tally 1 args), lc_decode := \<lambda>b. Inr (untally b)\<rparr>"

lemma tally_simps [simp]:
  "ml_json tally_mock s = Inr (untally s)" "ml_show tally_mock = tally CHR ''i''" "ml_to_vec tally_mock t = Inr (tally 1 t)"
  "ml_from_slice tally_mock b = Inr (untally b)" "json_value tally_json s = Inr (untally s)"
  "lc_encode (tally_client K) (args, kw) = Inr (tally 1 args)" "lc_decode (tally_client K) b = Inr (untally b)"
  by (simp_all add: tally_mock_def tally_json_def tally_client_def)

lemma no_steering [simp]:
  "fr_result_mode default_responses = EchoInput" "on_function_get default_responses = None"
  "on_function_map default_responses = None" "on_function_get_outputs default_responses = None"
  by (simp_all add: default_responses_def)

lemma mock_call_end_to_end_witness:
  "\<forall>L (K :: (unit servicer, unit, 'b, 'g) live_client) (a :: 'u app) h s.
    \<exists>s'. call_deployed_name (L\<lparr>fl_json := tally_json\<rparr>) (on_mock tally_mock default_responses (tally_client K))
      (\<lambda>i. Inr (tally CHR ''i'' (JStr i))) echo_value (a\<lparr>app_remote := Some h\<rparr>) ''shop'' ''price'' ''tea'' s
    = Some (Inr ''tea'', s') \<and> length (mock_log s') = length (mock_log s) + 3"
proof (intro allI)
  fix L :: facade_lib and K :: "(unit servicer, unit, 'b, 'g) live_client" and a :: "'u app" and h s
  let ?L = "L\<lparr>fl_json := tally_json\<rparr>" and ?K = "tally_client K" and ?j = "tally CHR ''i'' (JStr ''tea'')"
  have "\<exists>s'. call_deployed_name ?L (on_mock tally_mock default_responses ?K)
      (\<lambda>i. Inr (tally CHR ''i'' (JStr i))) echo_value (a\<lparr>app_remote := Some h\<rparr>) ''shop'' ''price'' ''tea'' s =
      Some (mock_reads tally_mock default_responses (fl_json ?L) echo_value ?j, s') \<and>
    mock_log s' = mock_log s
      @ FunctionGet (build_function_get_request ''shop'' (sanitize_object_tag ''price'') (env_or_default (lc_config ?K) None))
      # invoke_requests ''fu-1'' (tally 1 (''price'', ?j))"
    by (rule mock_call_end_to_end [where c = "tally 1 (envelope_for tally_mock default_responses ?j)"]) simp_all
  then show "\<exists>s'. call_deployed_name ?L (on_mock tally_mock default_responses ?K)
      (\<lambda>i. Inr (tally CHR ''i'' (JStr i))) echo_value (a\<lparr>app_remote := Some h\<rparr>) ''shop'' ''price'' ''tea'' s
    = Some (Inr ''tea'', s') \<and> length (mock_log s') = length (mock_log s) + 3"
    by (auto simp: mock_reads_def echo_value_def invoke_requests_def)
qed

section \<open>Source uploads\<close>

definition probe :: "string \<times> bytes \<Rightarrow> 'f recorded_request" where
  "probe = (\<lambda>(sha, _). MountPutFile \<lparr>mp_sha256_hex = sha, mp_data_oneof = None\<rparr>)"

lemma upload_on_mock: "ensure_file_uploaded servicer_host net D servicer_uploads t s = Some (Inr (), push (probe t) s)"
proof -
  obtain sha data where t: "t = (sha, data)" by (cases t)
  have "mount_put_file_probe servicer_host servicer_uploads sha s = Some (Inr True, push (probe t) s)"
    unfolding mount_put_file_probe_def
    by (rule retry_answered)
       (simp add: servicer_uploads_def serve_mount_put_file_def arm_defs probe_def t build_mount_put_file_request_def)
  then show ?thesis by (simp add: ensure_file_uploaded_def t bind_io_def ret_def)
qed

lemma mset_without_nth: "i < length xs \<Longrightarrow> mset xs = add_mset (xs ! i) (mset (take i xs @ drop (Suc i) xs))"
  using arg_cong [OF id_take_nth_drop, of i xs mset] by simp

text \<open>Tasks that only record, under any scheduler: each records once, in some order.\<close>

lemma run_recording_tasks:
  assumes task: "\<And>t s. task t s = Some (Inr (), push (record_as t) s)" and "running = [] \<Longrightarrow> queue = []"
  shows "\<exists>ts. run_tasks next_done task running queue s = Some (Inr (), fold (push \<circ> record_as) ts s) \<and>
    mset ts = mset (running @ queue)"
  using assms(2)
proof (induction "length running + length queue" arbitrary: running queue s rule: less_induct)
  case less
  show ?case
  proof (cases "running = []")
    case True
    then show ?thesis using less.prems by (simp add: run_tasks.simps ret_def)
  next
    case False
    define i where "i = next_done (length running) s mod length running"
    let ?rest = "take i running @ drop (Suc i) running @ take 1 queue"
    have i: "i < length running" using False by (simp add: i_def)
    have "length ?rest + length (drop 1 queue) < length running + length queue" using i by (cases queue) auto
    moreover have "?rest = [] \<Longrightarrow> drop 1 queue = []" by simp
    ultimately obtain ts where ts: "run_tasks next_done task ?rest (drop 1 queue) (push (record_as (running ! i)) s) =
        Some (Inr (), fold (push \<circ> record_as) ts (push (record_as (running ! i)) s))" "mset ts = mset (?rest @ drop 1 queue)"
      using less.hyps by blast
    have "run_tasks next_done task running queue s =
        Some (Inr (), fold (push \<circ> record_as) (running ! i # ts) s)"
      using False ts(1) by (subst run_tasks.simps) (simp add: Let_def task i_def)
    moreover have "mset (running ! i # ts) = mset (running @ queue)"
      using ts(2) mset_without_nth [OF i] by (cases queue) simp_all
    ultimately show ?thesis by blast
  qed
qed

lemma log_of_fold: "sv_log (fold (push \<circ> record_as) ts s) = sv_log s @ map record_as ts"
  and counter_of_fold: "mk_counter (sv_mock (fold (push \<circ> record_as) ts s)) = mk_counter (sv_mock s)"
  by (induction ts arbitrary: s) simp_all

lemma account_distinct:
  assumes "distinct (map sf_mount_filename files)"
  shows "\<exists>acc seen up. try_fold (account_file D) files ({}, {}, [], []) = Inr (acc, seen, map (describe_file D) files, up) \<and>
    distinct (map fst up) \<and> fst ` set up = acc \<and> acc = (sha256_hex D \<circ> sf_data) ` set files \<and> seen = sf_mount_filename ` set files"
  using assms
proof (induction files rule: rev_induct)
  case (snoc f files)
  then obtain acc seen up where a: "try_fold (account_file D) files ({}, {}, [], []) = Inr (acc, seen, map (describe_file D) files, up)"
    "distinct (map fst up)" "fst ` set up = acc" "acc = (sha256_hex D \<circ> sf_data) ` set files" "seen = sf_mount_filename ` set files"
    by auto
  let ?sha = "sha256_hex D (sf_data f)"
  have "account_file D f (acc, seen, map (describe_file D) files, up) = Inr (insert ?sha acc, insert (sf_mount_filename f) seen,
      map (describe_file D) (files @ [f]), if ?sha \<in> acc then up else up @ [(?sha, sf_data f)])"
    using snoc.prems a(5) by (auto simp: account_file_def Let_def)
  with a show ?case by (auto simp: try_fold_append and_then_def)
qed simp

lemma take_drop_upload: "take UPLOAD_CONCURRENCY up = [] \<Longrightarrow> drop UPLOAD_CONCURRENCY up = []"
  by (cases up) (simp_all add: UPLOAD_CONCURRENCY_def)

lemma finalize_on_mock:
  assumes "files \<noteq> []" "distinct (map sf_mount_filename files)"
  shows "\<exists>s' shas. finalize_mount servicer_host net D servicer_uploads next_done conf files base env s =
      Some (Inr (''mo-'' @ dec (mk_counter (sv_mock s) + 1)), s') \<and>
    distinct shas \<and> set shas = (sha256_hex D \<circ> sf_data) ` set files \<and>
    sv_log s' = sv_log s @ map (\<lambda>sha. MountPutFile \<lparr>mp_sha256_hex = sha, mp_data_oneof = None\<rparr>) shas
      @ [MountGetOrCreate (build_mount_get_or_create_source_request (env_or_default conf env)
           (sort_key mf_filename (map (describe_file D) files)))]"
proof -
  let ?mfs = "sort_key mf_filename (map (describe_file D) files)"
  let ?req = "build_mount_get_or_create_source_request (env_or_default conf env) ?mfs"
  obtain acc seen up where a: "try_fold (account_file D) files ({}, {}, [], []) = Inr (acc, seen, map (describe_file D) files, up)"
    "distinct (map fst up)" "fst ` set up = (sha256_hex D \<circ> sf_data) ` set files"
    using account_distinct [OF assms(2), of D] by auto
  have "\<exists>ts. run_tasks next_done (ensure_file_uploaded servicer_host net D servicer_uploads)
      (take UPLOAD_CONCURRENCY up) (drop UPLOAD_CONCURRENCY up) s = Some (Inr (), fold (push \<circ> probe) ts s) \<and>
      mset ts = mset (take UPLOAD_CONCURRENCY up @ drop UPLOAD_CONCURRENCY up)"
    by (rule run_recording_tasks [OF upload_on_mock take_drop_upload])
  then obtain ts where ts: "run_tasks next_done (ensure_file_uploaded servicer_host net D servicer_uploads)
      (take UPLOAD_CONCURRENCY up) (drop UPLOAD_CONCURRENCY up) s = Some (Inr (), fold (push \<circ> probe) ts s)" "mset ts = mset up"
    unfolding append_take_drop_id by blast
  let ?s1 = "fold (push \<circ> probe) ts s"
  have up: "upload_files servicer_host net D servicer_uploads next_done files s = Some (Inr ?mfs, ?s1)"
    using ts(1) by (simp add: upload_files_def bind_io_def lift_res_def ret_def a(1))
  let ?s2 = "snd (fresh_id ''mo-'' (push (MountGetOrCreate ?req) ?s1))"
  have id: "retry_rpc servicer_host (mount_get_or_create_rpc servicer_uploads) ?req ?s1 =
      Some (Inr (''mo-'' @ dec (mk_counter (sv_mock s) + 1)), ?s2)"
    by (rule retry_answered) (simp add: servicer_uploads_def serve_mount_get_or_create_def arm_defs counter_of_fold)
  have "finalize_mount servicer_host net D servicer_uploads next_done conf files base env s =
      Some (Inr (''mo-'' @ dec (mk_counter (sv_mock s) + 1)), ?s2)"
    by (simp add: finalize_mount_def bind_io_def ret_def up id assms(1))
  moreover have "sv_log ?s2 = sv_log s @ map probe ts @ [MountGetOrCreate ?req]"
    by (simp add: fresh_id_eq log_of_fold)
  moreover have "map probe ts = map (\<lambda>sha. MountPutFile \<lparr>mp_sha256_hex = sha, mp_data_oneof = None\<rparr>) (map fst ts)"
    by (simp add: probe_def split_beta)
  moreover have "distinct (map fst ts)" "set (map fst ts) = (sha256_hex D \<circ> sf_data) ` set files"
    using a(2,3) ts(2) by (metis mset_map mset_eq_imp_distinct_iff, metis mset_eq_setD set_map)
  ultimately show ?thesis by metis
qed

text \<open>C23. Against the mock the upload of a selection with distinct names always succeeds, whatever the
  order in which its concurrent tasks finish: each distinct content is probed once and never sent, then the
  mount is created from all the files in name order, under the next mount id.\<close>

theorem mock_upload_sends_no_bytes:
  assumes "files \<noteq> []" "distinct (map sf_mount_filename files)"
  shows "\<exists>s' shas. finalize_mount servicer_host net D servicer_uploads next_done conf files base env s =
      Some (Inr (''mo-'' @ dec (mk_counter (sv_mock s) + 1)), s') \<and>
    distinct shas \<and> set shas = (sha256_hex D \<circ> sf_data) ` set files \<and>
    sv_log s' = sv_log s @ map (\<lambda>sha. MountPutFile \<lparr>mp_sha256_hex = sha, mp_data_oneof = None\<rparr>) shas
      @ [MountGetOrCreate (build_mount_get_or_create_source_request (env_or_default conf env)
           (sort_key mf_filename (map (describe_file D) files)))]"
  using assms by (rule finalize_on_mock)

lemma mock_upload_sends_no_bytes_witness:
  "\<forall>(net :: unit servicer http). \<exists>s'. finalize_mount servicer_host net plain_digests servicer_uploads (\<lambda>n _. n) token_config
      [\<lparr>sf_mount_filename = ''/src/a'', sf_data = [1], sf_mode = None\<rparr>, \<lparr>sf_mount_filename = ''/src/b'', sf_data = [1], sf_mode = None\<rparr>]
      [''ws''] None new_servicer = Some (Inr ''mo-1'', s') \<and> length (sv_log s') = 2"
proof
  fix net :: "unit servicer http"
  let ?files = "[\<lparr>sf_mount_filename = ''/src/a'', sf_data = [1], sf_mode = None\<rparr>,
      \<lparr>sf_mount_filename = ''/src/b'', sf_data = [1], sf_mode = None\<rparr>]"
  let ?run = "finalize_mount servicer_host net plain_digests servicer_uploads (\<lambda>n _. n) token_config ?files [''ws''] None new_servicer"
  have "\<exists>s' shas. ?run = Some (Inr (''mo-'' @ dec (mk_counter (sv_mock (new_servicer :: unit servicer)) + 1)), s') \<and> distinct shas \<and>
      set shas = (sha256_hex plain_digests \<circ> sf_data) ` set ?files \<and>
      sv_log s' = sv_log new_servicer @ map (\<lambda>sha. MountPutFile \<lparr>mp_sha256_hex = sha, mp_data_oneof = None\<rparr>) shas
        @ [MountGetOrCreate (build_mount_get_or_create_source_request (env_or_default token_config None)
             (sort_key mf_filename (map (describe_file plain_digests) ?files)))]"
    by (rule mock_upload_sends_no_bytes) simp_all
  then obtain s' shas where run: "?run = Some (Inr (''mo-'' @ dec 1), s')" and d: "distinct shas"
      "set shas = {sha256_hex plain_digests [1]}" and l: "length (sv_log s') = length shas + 1"
    by (auto simp: new_servicer_def)
  from d have "length shas = 1" by (metis distinct_card card_1_singleton_iff One_nat_def)
  moreover have "dec 1 = ''1''" by code_simp
  ultimately show "\<exists>s'. ?run = Some (Inr ''mo-1'', s') \<and> length (sv_log s') = 2" using run l by simp
qed

section \<open>Volume uploads\<close>

lemma put_rounds_on_mock:
  assumes "on_volume_put_files2 R = None"
  shows "put_rounds servicer_host (servicer_volumes R) net sha fs i force locals n total_bytes (rnd # rounds) (rs, k) s =
    Some (Inr \<lparr>vs_files = n, vs_bytes = total_bytes, vs_blocks_uploaded = k\<rparr>,
      push (VolumePutFiles2 (build_volume_put_request i force locals rs)) s)"
proof -
  have "retry_rpc servicer_host (volume_put_files2_rpc (servicer_volumes R)) (build_volume_put_request i force locals rs) s =
      Some (Inr [], push (VolumePutFiles2 (build_volume_put_request i force locals rs)) s)"
    by (rule retry_answered) (use assms in \<open>simp add: servicer_volumes_def serve_volume_put_files2_def arm_defs\<close>)
  then show ?thesis by (simp add: bind_io_def ret_def)
qed

lemma volume_put_on_mock:
  assumes "on_volume_put_files2 R = None" "files \<noteq> []"
    and "for_io (hash_file sha fs on_file) files ([], 0) s = Some (Inr (locals, total_bytes), s1)"
  shows "volume_put servicer_host (servicer_volumes R) net sha fs i files force on_file s =
    Some (Inr \<lparr>vs_files = length files, vs_bytes = total_bytes, vs_blocks_uploaded = 0\<rparr>,
      push (VolumePutFiles2 (build_volume_put_request i force locals Map.empty)) s1)"
  using assms by (simp add: volume_put_def bind_io_def put_rounds_on_mock del: put_rounds.simps)

end
