(* ===== verification/Healthy.thy ===== *)
theory Healthy
  imports Provision
begin

text \<open>
  Liveness of provisioning: on a control plane whose operations succeed, provisioning succeeds for every
  input that has nothing wrong with it, in every state.  What can be wrong is listed by
  \<open>provisionable\<close>: an empty run, a volume on the cache's mount point, a configuration serde cannot write,
  options the SDK refuses, and sources that cannot be uploaded.
\<close>

section \<open>Runs that succeed\<close>

definition works :: "('s, 'a) run \<Rightarrow> bool" where "works m \<longleftrightarrow> (\<forall>s. \<exists>a s'. m s = Some (Inr a, s'))"

named_theorems works_rules

lemma worksD: "works m \<Longrightarrow> \<exists>a s'. m s = Some (Inr a, s')"
  by (simp add: works_def)

lemma works_basic [works_rules]: "works (give a)" "works (of_result (Inr a))" "works get_published" "works (note_created tag c)"
  by (simp_all add: works_def give_def of_result_def get_published_def note_created_def)

lemma works_bind [works_rules]: "works m \<Longrightarrow> (\<And>a. works (f a)) \<Longrightarrow> works (bind_run m f)"
  unfolding works_def bind_run_def by (metis (mono_tags, lifting) option.simps(5) prod.case sum.case(2))

lemma works_on_plane [works_rules]: "works m \<Longrightarrow> works (on_plane m)"
  by (fastforce simp: works_def on_plane_def)

lemma works_for: "(\<And>x a. x \<in> set xs \<Longrightarrow> works (f x a)) \<Longrightarrow> works (for_run f xs a)"
  by (induction xs arbitrary: a) (auto intro!: works_rules)

lemma works_if [works_rules]: "(c \<Longrightarrow> works m) \<Longrightarrow> (\<not> c \<Longrightarrow> works m') \<Longrightarrow> works (if c then m else m')"
  by simp

lemma works_prod [works_rules]: "(\<And>a b. x = (a, b) \<Longrightarrow> works (f a b)) \<Longrightarrow> works (case x of (a, b) \<Rightarrow> f a b)"
  by (cases x) simp

lemma works_prod_arg [works_rules]: "(\<And>a b. x = (a, b) \<Longrightarrow> works (f a b c)) \<Longrightarrow> works ((case x of (a, b) \<Rightarrow> f a b) c)"
  by (cases x) simp

lemma works_option [works_rules]: "(x = None \<Longrightarrow> works m) \<Longrightarrow> (\<And>a. x = Some a \<Longrightarrow> works (f a)) \<Longrightarrow>
   works (case x of None \<Rightarrow> m | Some a \<Rightarrow> f a)"
  by (cases x) simp_all

lemma works_plan [works_rules]: "(\<And>ep. pl = Single ep \<Longrightarrow> works (f ep)) \<Longrightarrow> (pl = Many \<Longrightarrow> works m) \<Longrightarrow>
   works (case pl of Single ep \<Rightarrow> f ep | Many \<Rightarrow> m)"
  by (cases pl) simp_all

section \<open>Inputs with nothing wrong\<close>

definition source_remote :: "provision_inputs \<Rightarrow> boundary \<Rightarrow> string" where
  "source_remote inp b = (case delivery b of RunMount \<Rightarrow> si_remote_src (pi_source inp) | DeployContext \<Rightarrow> DEPLOY_SRC)"

definition options_accepted :: "'f f32_ops \<Rightarrow> boundary \<Rightarrow> function_options \<Rightarrow> bool" where
  "options_accepted F b opts \<longleftrightarrow> (\<exists>sched retry. options_ok F b opts sched retry)"

definition provisionable ::
  "facade_lib \<Rightarrow> 'f f32_ops \<Rightarrow> (source_inputs \<Rightarrow> string \<Rightarrow> bool) \<Rightarrow> (source_inputs \<Rightarrow> string \<Rightarrow> bool) \<Rightarrow> provision_inputs \<Rightarrow>
     boundary \<Rightarrow> bool" where
  "provisionable L F sources stubs inp b \<longleftrightarrow>
     (\<forall>ep \<in> set (pi_entrypoints inp). options_accepted F b (ep_options ep)) \<and> sources (pi_source inp) (source_remote inp b) \<and>
     (case delivery b of
        RunMount \<Rightarrow> pi_entrypoints inp \<noteq> [] \<and>
          (pi_cache inp \<longrightarrow> CACHE_MOUNT \<notin> fst ` set (fo_volumes (ep_options (hd (pi_entrypoints inp))))) \<and>
          run_wrapper_config_env L (si_package (pi_source inp)) (pi_cache inp) (si_remote_src (pi_source inp)) \<noteq> None
      | DeployContext \<Rightarrow> pi_dep_prebuild inp \<longrightarrow> stubs (pi_source inp) DEPLOY_SRC)"

lemma build_accepted:
  "options_accepted F b (ep_options ep) \<Longrightarrow> works (of_result (build_function_spec F b ep img res))"
proof -
  assume "options_accepted F b (ep_options ep)"
  then obtain sp where "build_function_spec F b ep img res = Inr sp"
    by (meson options_accepted_def build_function_spec_iff)
  then show ?thesis by (simp add: works_rules)
qed

section \<open>Planes that succeed\<close>

locale healthy_plane =
  fixes cp :: "('w, 'f) control_plane" and sources stubs :: "source_inputs \<Rightarrow> string \<Rightarrow> bool"
  assumes app: "works (ensure_app cp name pre state)"
    and volume: "works (ensure_volume cp name v2)"
    and secret: "works (ensure_secret cp name keys)"
    and inline_secret: "works (ensure_inline_secret cp name vars)"
    and client_mount: "works (ensure_client_mount cp)"
    and source_mount: "sources src remote \<Longrightarrow> works (ensure_source_mount cp src remote)"
    and prebuild_mount: "stubs src remote \<Longrightarrow> works (ensure_prebuild_mount cp src remote)"
    and python_mount: "works (ensure_python_mount cp PYTHON_SERIES)"
    and image: "works (ensure_image cp app_id spec layer)"
    and precreates: "works (precreate cp app_id tag)"
    and creates: "works (create cp app_id pre_id fspec)"
    and publishes: "works (publish cp app_id name ids defs state)"
begin

lemmas ops = app volume secret inline_secret client_mount python_mount image precreates creates publishes

lemma secrets_work: "works (resolve_entrypoint_secrets cp app_name tag opts)"
  unfolding resolve_entrypoint_secrets_def by (intro works_rules works_for ops)

lemma volumes_work:
  "works (for_run (\<lambda>(mount_path, name) mounts. bind_run (ensure_volume cp name False) (\<lambda>vid. give (mounts @ [(vid, mount_path)])))
     vols mounts)"
  by (intro works_rules works_for ops)

lemma run_volumes_work:
  assumes "cache \<Longrightarrow> CACHE_MOUNT \<notin> fst ` set vols"
  shows "works (for_run (\<lambda>(mount_path, name) mounts.
      bind_run (of_result (reject_cache_collision cache mount_path)) (\<lambda>_.
      bind_run (ensure_volume cp name False) (\<lambda>vid. give (mounts @ [(vid, mount_path)])))) vols mounts)"
proof (rule works_for)
  fix x mounts
  assume x: "x \<in> set vols"
  obtain p n where p: "x = (p, n)" by (cases x)
  with assms x have "reject_cache_collision cache p = Inr ()" by (force simp: reject_cache_collision_def)
  then have "works (bind_run (of_result (reject_cache_collision cache p)) (\<lambda>_.
      bind_run (ensure_volume cp n False) (\<lambda>vid. give (mounts @ [(vid, p)]))))"
    by (simp add: works_rules ops)
  then show "works ((case x of (path, name) \<Rightarrow> \<lambda>mounts.
      bind_run (of_result (reject_cache_collision cache path)) (\<lambda>_.
      bind_run (ensure_volume cp name False) (\<lambda>vid. give (mounts @ [(vid, path)])))) mounts)"
    by (simp add: p)
qed

lemma resolve_run_works:
  "(pi_cache inp \<Longrightarrow> CACHE_MOUNT \<notin> fst ` set (fo_volumes (ep_options ep))) \<Longrightarrow> works (resolve_run cp inp b ep)"
  unfolding resolve_run_def by (intro works_rules ops secrets_work run_volumes_work) blast+

lemma build_image_defined:
  "provisionable L F sources stubs inp b \<Longrightarrow> build_image_spec L b inp py \<noteq> None"
  by (auto simp: build_image_spec_def provisionable_def Let_def split: source_delivery.split_asm source_delivery.split)

lemma image_works:
  assumes "provisionable L F sources stubs inp b"
  shows "works (provision_image L cp inp b (source_remote inp b) app_id source_id py)"
proof -
  obtain spec where spec: "build_image_spec L b inp py = Some spec" using build_image_defined [OF assms] by blast
  show ?thesis
  proof (cases "delivery b")
    case RunMount
    then show ?thesis by (simp add: provision_image_def spec image)
  next
    case DeployContext
    with assms have st: "pi_dep_prebuild inp \<Longrightarrow> works (ensure_prebuild_mount cp (pi_source inp) (source_remote inp b))"
      by (simp add: provisionable_def source_remote_def prebuild_mount)
    show ?thesis
      unfolding provision_image_def spec DeployContext option.case source_delivery.case Let_def
      by (intro works_rules ops st)
  qed
qed

lemma entrypoint_works:
  assumes "options_accepted F b (ep_options ep)"
  shows "works (create_entrypoint F cp inp b pl rr app_id img cm sm ep url)"
  unfolding create_entrypoint_def publish_union_def entrypoint_resources_def Let_def
  by (intro works_rules ops secrets_work volumes_work build_accepted assms)

theorem provision_works:
  assumes ok: "provisionable L F sources stubs inp b"
  shows "works (provision L F cp inp b)"
proof -
  obtain pl where pl: "plan b (pi_entrypoints inp) = Inr pl" and
    no_clash: "\<And>ep. pl = Single ep \<Longrightarrow> pi_cache inp \<Longrightarrow> CACHE_MOUNT \<notin> fst ` set (fo_volumes (ep_options ep))"
    using ok by (cases "pi_entrypoints inp"; cases "delivery b") (auto simp: provisionable_def plan_def)
  have src: "works (ensure_source_mount cp (pi_source inp) (source_remote inp b))"
    using ok by (simp add: provisionable_def source_mount)
  have eps: "works (for_run (create_entrypoint F cp inp b pl rr app_id img cm sm) (pi_entrypoints inp) [])" for rr app_id img cm sm
    using ok by (intro works_for entrypoint_works) (simp add: provisionable_def)
  show ?thesis
    unfolding provision_def pl bind_run_unit publish_union_def Let_def source_remote_def [symmetric]
    by (intro works_rules ops eps src resolve_run_works image_works [OF ok]) (rule no_clash)
qed

end

end
