(* ===== verification/MockRun.thy ===== *)
theory MockRun
  imports MockCalls Healthy
begin

text \<open>
  The run path end to end against the mock: the mock is a healthy control plane, so the first remote call of
  a function provisions it and then reads back what the mock is configured with.
\<close>

section \<open>The mock answers\<close>

text \<open>A configuration that leaves every procedure of the control plane to its canned answer.\<close>

definition unsteered :: "'f flow_responses \<Rightarrow> bool" where
  "unsteered R \<longleftrightarrow> on_app_get_or_create R = None \<and> on_app_create R = None \<and> on_environment_get_or_create R = None \<and>
     on_image_get_or_create R = None \<and> on_function_precreate R = None \<and> on_function_create R = None \<and>
     on_function_get R = None \<and> on_function_map R = None \<and> on_function_get_outputs R = None \<and>
     on_secret_get_or_create R = None \<and> on_volume_get_or_create R = None \<and> on_volume_put_files2 R = None"

definition answers_io :: "('w, 'a) io \<Rightarrow> bool" where "answers_io m \<longleftrightarrow> (\<forall>w. \<exists>a w'. m w = Some (Inr a, w'))"

lemma answers_works: "answers_io m \<Longrightarrow> works (client_op m)"
  unfolding answers_io_def works_def client_op_def from_sdk_def by (force split: prod.split)

lemma answers_bind: "answers_io m \<Longrightarrow> (\<And>a. answers_io (f a)) \<Longrightarrow> answers_io (bind_io m f)"
  unfolding answers_io_def bind_io_def by (metis (mono_tags, lifting) option.simps(5) prod.case sum.case(2))

lemma answers_basic: "answers_io (ret a)" "answers_io (lift_res (Inr a))"
  by (simp_all add: answers_io_def ret_def lift_res_def)

lemma bind_lifted [simp]: "bind_io (lift_res (Inr a)) f = f a"
  by (simp add: bind_io_def lift_res_def fun_eq_iff)

text \<open>A procedure that answers every request with a response in \<open>Q\<close>.\<close>

definition serves_all :: "('w, 'req, 'resp) rpc \<Rightarrow> ('resp \<Rightarrow> bool) \<Rightarrow> bool" where
  "serves_all rpc Q \<longleftrightarrow> (\<forall>req w. \<exists>v w'. rpc req w = Some (Inr v, w') \<and> Q v)"

lemma serves_all_bind:
  assumes "serves_all rpc Q" and "\<And>v. Q v \<Longrightarrow> answers_io (f v)"
  shows "answers_io (bind_io (retry_rpc h rpc req) f)"
  unfolding answers_io_def
proof
  fix w
  obtain v w' where "rpc req w = Some (Inr v, w')" "Q v" using assms(1) unfolding serves_all_def by blast
  with retry_answered [of rpc req w v w' h] assms(2) [of v]
  show "\<exists>a w''. bind_io (retry_rpc h rpc req) f w = Some (Inr a, w'')" by (simp add: bind_io_def answers_io_def)
qed

lemma serves_all_answers: "serves_all rpc Q \<Longrightarrow> answers_io (retry_rpc h rpc req)"
  unfolding serves_all_def answers_io_def by (meson retry_answered)

lemma mock_serves:
  assumes "unsteered R"
  shows "serves_all (serve_app_get_or_create R) (\<lambda>i. i \<noteq> [])" "serves_all (serve_app_create R) (\<lambda>i. i \<noteq> [])"
    "serves_all (serve_app_publish X) (\<lambda>_. True)" "serves_all serve_mount_get_or_create (\<lambda>i. i \<noteq> [])"
    "serves_all (serve_secret_get_or_create R) (\<lambda>i. i \<noteq> [])" "serves_all (serve_volume_get_or_create R) (\<lambda>i. i \<noteq> [])"
    "serves_all (serve_image_get_or_create R) (\<lambda>r. ir_image_id r \<noteq> [] \<and> result_status (ir_result r) = Success)"
    "serves_all (serve_function_precreate R) (\<lambda>i. i \<noteq> [])" "serves_all (serve_function_create R) (\<lambda>r. fr_function_id r \<noteq> [])"
    "serves_all (serve_environment_get_or_create R) (\<lambda>_. True)"
  using assms
  by (auto simp: unsteered_def serve_app_get_or_create_def serve_app_create_def serve_app_publish_def
      serve_mount_get_or_create_def serve_secret_get_or_create_def serve_volume_get_or_create_def
      serve_image_get_or_create_def serve_function_precreate_def serve_function_create_def
      serve_environment_get_or_create_def success_result_def result_status_def generic_status_try_from_def
      serves_all_def arm_defs)

section \<open>Sources that can be uploaded\<close>

definition uploads :: "source_file list \<Rightarrow> bool" where
  "uploads files \<longleftrightarrow> files \<noteq> [] \<and> distinct (map sf_mount_filename files)"

definition closure_uploads :: "('w, 'f, 'b, 'g) live_client \<Rightarrow> workspace_closure_spec \<Rightarrow> string \<Rightarrow> bool" where
  "closure_uploads K spec remote \<longleftrightarrow> tree_is_dir (lc_tree K) (wc_workspace_root spec) \<and>
     (case and_then (build_matcher (lc_tree K) (lc_gitignore K) (wc_workspace_root spec) (wc_modalignore_name spec)) (\<lambda>matcher.
          collect_files_for_dirs (lc_tree K) (lc_gitignore K) (wc_workspace_root spec) (wc_crate_dirs spec)
            (wc_extra_files spec) (wc_extra_inline_files spec) remote matcher) of
        Inl _ \<Rightarrow> False | Inr files \<Rightarrow> uploads files)"

definition dir_uploads :: "('w, 'f, 'b, 'g) live_client \<Rightarrow> source_inputs \<Rightarrow> string \<Rightarrow> bool" where
  "dir_uploads K src remote \<longleftrightarrow> tree_is_dir (lc_tree K) (si_local_root src) \<and>
     (case and_then (build_matcher (lc_tree K) (lc_gitignore K) (si_local_root src) (si_modalignore_name src)) (\<lambda>matcher.
          collect_files (lc_tree K) (lc_gitignore K) (si_local_root src) remote matcher
            (inline_bytes (case injected_runner_file (lc_disk K) (lc_cargo K) (lc_toml K) (si_local_root src) (si_package src) of
                             Some f \<Rightarrow> [f] | None \<Rightarrow> []))) of
        Inl _ \<Rightarrow> False | Inr files \<Rightarrow> uploads files)"

definition source_uploads :: "('w, 'f, 'b, 'g) live_client \<Rightarrow> source_inputs \<Rightarrow> string \<Rightarrow> bool" where
  "source_uploads K src remote \<longleftrightarrow>
     (if \<not> si_use_cargo_scoping src then dir_uploads K src remote
      else case workspace_closure (lc_disk K) (lc_cargo K) (lc_toml K) (si_local_root src) (si_package src) of
             Inl _ \<Rightarrow> False
           | Inr None \<Rightarrow> dir_uploads K src remote
           | Inr (Some up) \<Rightarrow>
               closure_uploads K \<lparr>wc_workspace_root = si_local_root src, wc_crate_dirs = cu_dirs up,
                 wc_extra_files = cu_extra_files up, wc_extra_inline_files = inline_bytes (cu_inline_files up),
                 wc_modalignore_name = si_modalignore_name src\<rparr> remote)"

definition stub_uploads :: "('w, 'f, 'b, 'g) live_client \<Rightarrow> source_inputs \<Rightarrow> string \<Rightarrow> bool" where
  "stub_uploads K src remote \<longleftrightarrow>
     (if \<not> si_use_cargo_scoping src then True
      else case workspace_closure_stub (lc_disk K) (lc_cargo K) (lc_toml K) (si_local_root src) (si_package src) of
             Inl _ \<Rightarrow> False
           | Inr None \<Rightarrow> True
           | Inr (Some st) \<Rightarrow>
               closure_uploads K \<lparr>wc_workspace_root = si_local_root src, wc_crate_dirs = [],
                 wc_extra_files = su_extra_files st, wc_extra_inline_files = inline_bytes (su_inline_files st),
                 wc_modalignore_name = si_modalignore_name src\<rparr> remote)"

lemma on_mock_disk [simp]:
  "lc_tree (on_mock X R K) = lc_tree K" "lc_gitignore (on_mock X R K) = lc_gitignore K" "lc_disk (on_mock X R K) = lc_disk K"
  "lc_cargo (on_mock X R K) = lc_cargo K" "lc_toml (on_mock X R K) = lc_toml K" "lc_http (on_mock X R K) = lc_http K"
  "lc_digests (on_mock X R K) = lc_digests K" "lc_next_done (on_mock X R K) = lc_next_done K"
  by (simp_all add: on_mock_def)

lemma finalize_answers: "uploads files \<Longrightarrow> answers_io (finalize_mount servicer_host net D servicer_uploads nd conf files base env)"
  unfolding uploads_def answers_io_def using finalize_on_mock by blast

lemma closure_answers: "closure_uploads K spec remote \<Longrightarrow> works (mount_closure (on_mock X R K) spec remote)"
  unfolding mount_closure_def closure_uploads_def
  by (intro answers_works)
     (auto simp: mount_workspace_closure_def intro!: finalize_answers split: sum.splits)

lemma dir_answers:
  assumes "dir_uploads K src remote"
  shows "works (client_op (mount_local_dir_with_inline servicer_host (lc_http K) (lc_digests K) servicer_uploads (lc_next_done K)
    conf (lc_tree K) (lc_gitignore K) (si_local_root src) remote (si_modalignore_name src) None
    (inline_bytes (case injected_runner_file (lc_disk K) (lc_cargo K) (lc_toml K) (si_local_root src) (si_package src) of
                     Some f \<Rightarrow> [f] | None \<Rightarrow> []))))"
  using assms unfolding dir_uploads_def mount_local_dir_with_inline_def
  by (intro answers_works) (auto intro!: finalize_answers split: sum.splits)

section \<open>The mock is a healthy control plane\<close>

lemma source_answers:
  assumes "source_uploads K src remote"
  shows "works (live_source_mount (on_mock X R K) src remote)"
proof (cases "si_use_cargo_scoping src")
  case False
  with assms show ?thesis by (simp add: live_source_mount_def source_uploads_def dir_answers Let_def bind_run_unit)
next
  case True
  with assms obtain up where "workspace_closure (lc_disk K) (lc_cargo K) (lc_toml K) (si_local_root src) (si_package src) = Inr up"
    by (auto simp: source_uploads_def split: sum.splits)
  with True assms show ?thesis
    by (cases up) (simp_all add: live_source_mount_def source_uploads_def dir_answers closure_answers Let_def)
qed

lemma stub_answers:
  assumes "stub_uploads K src remote"
  shows "works (live_prebuild_mount (on_mock X R K) src remote)"
proof (cases "si_use_cargo_scoping src")
  case False
  then show ?thesis by (simp add: live_prebuild_mount_def works_rules)
next
  case True
  with assms obtain st where "workspace_closure_stub (lc_disk K) (lc_cargo K) (lc_toml K) (si_local_root src) (si_package src) = Inr st"
    by (auto simp: stub_uploads_def split: sum.splits)
  with True assms show ?thesis
    by (cases st) (simp_all add: live_prebuild_mount_def stub_uploads_def closure_answers works_rules)
qed

lemma id_answers: "(\<And>i. i \<noteq> [] \<Longrightarrow> answers_io (f i)) \<Longrightarrow> serves_all rpc (\<lambda>i. i \<noteq> []) \<Longrightarrow> answers_io (bind_io (retry_rpc h rpc req) f)"
  by (rule serves_all_bind)

lemma image_answers:
  fixes R :: "'f flow_responses"
  assumes "unsteered R"
  shows "works (live_ensure_image L (on_mock X R K) app_id spec layer)"
proof -
  note serves = mock_serves [OF assms]
  have "answers_io (image_create_with servicer_host (servicer_images R) (fl_b64 L) app_id spec v)" for v
    unfolding image_create_with_def servicer_images_def image_stub.select_convs
    by (rule serves_all_bind [OF serves(7)]) (simp add: answers_basic)
  then have build: "\<exists>i w'. image_create_with servicer_host (servicer_images R) (fl_b64 L) app_id spec v w = Some (Inr i, w')" for v w
    by (simp add: answers_io_def)
  have version: "\<exists>v cache' w'. resolved_image_builder_version servicer_host (servicer_images R) conf cache w = Some ((v, cache'), w')"
    for conf cache w
  proof -
    have "answers_io (fetch_environment_builder_version servicer_host (servicer_images R) conf)"
      unfolding fetch_environment_builder_version_def servicer_images_def image_stub.select_convs
      by (rule serves_all_answers [OF serves(10)])
    then obtain v w' where "fetch_environment_builder_version servicer_host (servicer_images R) conf w = Some (Inr v, w')"
      unfolding answers_io_def by blast
    then show ?thesis
      by (auto simp: resolved_image_builder_version_def split: option.split list.split)
  qed
  show ?thesis
    unfolding works_def
  proof
    fix s :: "'f servicer client_state"
    obtain w cache where s: "s = (w, cache)" by (cases s)
    obtain v cache' w1 where v: "resolved_image_builder_version servicer_host (servicer_images R) (lc_config K) cache w =
        Some ((v, cache'), w1)" using version by blast
    obtain i w2 where "image_create_with servicer_host (servicer_images R) (fl_b64 L) app_id spec v w1 = Some (Inr i, w2)"
      using build by blast
    with v show "\<exists>a s'. live_ensure_image L (on_mock X R K) app_id spec layer s = Some (Inr a, s')"
      by (simp add: s live_ensure_image_def image_get_or_create_def from_sdk_def)
  qed
qed

lemma app_answers:
  assumes "unsteered R"
  shows "works (live_ensure_app (on_mock X R K) name pre state)"
  using serves_all_answers [OF mock_serves(1) [OF assms]] serves_all_answers [OF mock_serves(2) [OF assms]]
  by (simp add: live_ensure_app_def app_create_ephemeral_def app_get_or_create_id_def servicer_apps_def answers_works
      works_rules split: app_state.split option.split)

lemma mount_id_answers: "answers_io (global_mount_id h serve_mount_get_or_create conf name env)"
  "answers_io (client_mount_id h serve_mount_get_or_create conf env)"
  "answers_io (python_mount_id h serve_mount_get_or_create conf PYTHON_SERIES env)"
proof -
  have g: "\<exists>i w'. global_mount_id h serve_mount_get_or_create conf name env w = Some (Inr (Some i), w')" for name w
  proof -
    obtain i w' where "serve_mount_get_or_create (build_mount_get_or_create_global_request name (env_or_default conf env)) w =
        Some (Inr i, w')" "i \<noteq> []"
      by (auto simp: serve_mount_get_or_create_def arm_defs)
    then show ?thesis by (auto simp: global_mount_id_def bind_io_def ret_def retry_answered)
  qed
  then show "answers_io (global_mount_id h serve_mount_get_or_create conf name env)" unfolding answers_io_def by blast
  show "answers_io (client_mount_id h serve_mount_get_or_create conf env)"
    unfolding answers_io_def
  proof
    fix w
    obtain i w' where "global_mount_id h serve_mount_get_or_create conf (client_mount_name CLIENT_VERSION) env w = Some (Inr (Some i), w')"
      using g by blast
    then show "\<exists>a w'. client_mount_id h serve_mount_get_or_create conf env w = Some (Inr a, w')"
      by (simp add: client_mount_id_def mount_id_for_version_def bind_io_def lift_res_def ok_or_def Let_def)
  qed
  have series: "python_standalone_mount_name PYTHON_SERIES = Some (the (python_standalone_mount_name PYTHON_SERIES))" by code_simp
  show "answers_io (python_mount_id h serve_mount_get_or_create conf PYTHON_SERIES env)"
    unfolding answers_io_def
  proof
    fix w
    obtain i w' where "global_mount_id h serve_mount_get_or_create conf (the (python_standalone_mount_name PYTHON_SERIES)) env w = Some (Inr (Some i), w')"
      using g by blast
    then show "\<exists>a w'. python_mount_id h serve_mount_get_or_create conf PYTHON_SERIES env w = Some (Inr a, w')"
      by (subst python_mount_id_def, subst series) (simp add: bind_io_def lift_res_def ok_or_def)
  qed
qed

lemma mock_healthy:
  assumes "unsteered R"
  shows "healthy_plane (live_control_plane L F (on_mock X R K)) (source_uploads K) (stub_uploads K)"
proof -
  note serves = mock_serves [OF assms]
  show ?thesis
    unfolding live_control_plane_def
  proof (unfold_locales, unfold control_plane.select_convs on_mock_fields)
    show "works (client_op (volume_get_or_create servicer_host (servicer_volumes R) (lc_config K) name v2 True None))" for name v2
      unfolding volume_get_or_create_def servicer_volumes_def volume_stub.select_convs
      by (rule answers_works, rule serves_all_bind [OF serves(6)]) (simp add: answers_basic)
    show "works (client_op (secret_get_or_create servicer_host (serve_secret_get_or_create R) (lc_config K) name keys None))" for name keys
      unfolding secret_get_or_create_def secret_get_or_create_inner_def
      by (rule answers_works, rule serves_all_bind [OF serves(5)]) (simp add: answers_basic)
    show "works (client_op (secret_from_dict servicer_host (serve_secret_get_or_create R) (lc_config K) name (map_of (rev vars)) None))" for name vars
      unfolding secret_from_dict_def secret_get_or_create_inner_def
      by (rule answers_works, rule serves_all_bind [OF serves(5)]) (simp add: answers_basic)
    show "works (client_op (function_precreate servicer_host (servicer_functions R) app_id tag))" for app_id tag
      unfolding function_precreate_def servicer_functions_def function_stub.select_convs
      by (rule answers_works, rule serves_all_bind [OF serves(8)]) (simp add: answers_basic)
    show "works (live_create F (on_mock X R K) app_id pre_id fspec)" for app_id pre_id fspec
      unfolding live_create_def on_mock_fields function_create_def servicer_functions_def function_stub.select_convs
      by (intro works_bind answers_works serves_all_bind [OF serves(9)] works_basic)
         (auto simp: created_function_from_response_def answers_basic split: prod.split)
    show "works (live_publish (on_mock X R K) app_id name ids defs state)" for app_id name ids defs state
      using serves_all_answers [OF serves(3)]
      by (cases state) (auto simp: live_publish_def app_publish_ephemeral_def app_publish_deployed_def app_publish_def
          servicer_apps_def intro!: works_bind answers_works works_basic)
  qed (auto intro: app_answers assms answers_works mount_id_answers source_answers stub_answers image_answers)
qed

text \<open>The configurations the builder makes with its three result setters alone.\<close>

definition responding :: "result_mode \<Rightarrow> 'f flow_responses" where
  "responding mode = default_responses\<lparr>fr_result_mode := mode\<rparr>"

lemma responding_simps [simp]:
  "unsteered (responding mode)" "fr_result_mode (responding mode) = mode" "on_function_map (responding mode) = None"
  "on_function_get_outputs (responding mode) = None" "on_function_get (responding mode) = None"
  "function_result_value v default_responses = responding (Value v)"
  "function_result_envelope e default_responses = responding (Envelope e)"
  "function_body f default_responses = responding (Body f)"
  by (simp_all add: unsteered_def responding_def default_responses_def function_result_value_def
      function_result_envelope_def function_body_def)

interpretation mock: healthy_plane "live_control_plane L F (on_mock X (responding mode) K)" "source_uploads K" "stub_uploads K"
  for L :: facade_lib and F :: "'f f32_ops" and X and mode and K :: "('f servicer, 'f, 'b, 'g) live_client"
  by (rule mock_healthy) simp

section \<open>The run path\<close>

lemma provision_tags:
  assumes "provision L F (live_control_plane L F K) inp b (w, p) = Some (Inr a, (w', p'))" "ep \<in> set (pi_entrypoints inp)"
  shows "pub_function_ids p' (sanitize_object_tag (ep_name ep)) \<noteq> None"
proof -
  have tags: "foldl add_tag T eps = T \<union> (\<lambda>ep. sanitize_object_tag (ep_name ep)) ` set eps" for T eps
    by (induction eps arbitrary: T) (auto simp: add_tag_def)
  from assms(1) obtain us where "live_log L F K inp b w p = Some (Inr a, (w', us), p')"
    using logging_is_transparent [of L F K inp b w p] by auto
  from live_log_cases(2) [OF this refl] assms(2)
  have "sanitize_object_tag (ep_name ep) \<in> dom (pub_function_ids p')" unfolding tags by blast
  then show ?thesis by auto
qed

text \<open>What the first call of an entrypoint provisions, and when nothing is wrong with it.\<close>

definition callable_on :: "facade_lib \<Rightarrow> 'f f32_ops \<Rightarrow> ('w, 'f, 'b, 'g) live_client \<Rightarrow> 'u app \<Rightarrow> string \<Rightarrow> bool" where
  "callable_on L F K a entrypoint \<longleftrightarrow>
     (case app_remote a of
        None \<Rightarrow> False
      | Some h \<Rightarrow>
          (let x = effective_options (rh_config h) (config_for a entrypoint) in
           case apply_function_image L (rh_config h) (fo_image x) of
             Inl _ \<Rightarrow> False
           | Inr rc \<Rightarrow>
               provisionable L F (source_uploads K) (stub_uploads K)
                 (run_inputs (rh_app_name h) (Some (rh_app_id h)) entrypoint (rc\<lparr>rc_options := x\<rparr>)) RUN_BOUNDARY))"

lemma ensure_works:
  assumes "provisionable L F (source_uploads K) (stub_uploads K) (run_inputs app_name (Some app_id) entrypoint config) RUN_BOUNDARY"
  shows "works (ensure_function L F (live_control_plane L F (on_mock X (responding mode) K)) app_id app_name entrypoint config)"
  unfolding works_def
proof
  fix s :: "'a servicer client_state \<times> published"
  let ?K = "on_mock X (responding mode) K" and ?inp = "run_inputs app_name (Some app_id) entrypoint config"
  obtain w p where s: "s = (w, p)" by (cases s)
  from worksD [OF mock.provision_works [OF assms], where s = s]
  obtain a w' p' where prov: "provision L F (live_control_plane L F ?K) ?inp RUN_BOUNDARY (w, p) = Some (Inr a, (w', p'))"
    unfolding s by (metis prod.collapse)
  have "pub_function_ids p' (sanitize_object_tag entrypoint) \<noteq> None"
    using provision_tags [OF prov] by (simp add: run_inputs_def)
  with prov show "\<exists>i s'. ensure_function L F (live_control_plane L F ?K) app_id app_name entrypoint config s = Some (Inr i, s')"
    by (auto simp: s ensure_function_def bind_run_def get_published_def of_result_def)
qed

lemma resolve_works:
  assumes "callable_on L F K a entrypoint" "app_remote a = Some h"
  shows "\<exists>fid d s'. resolve_function L F (live_control_plane L F (on_mock X (responding mode) K)) a h entrypoint s = Some (Inr (fid, d), s')"
proof -
  let ?cp = "live_control_plane L F (on_mock X (responding mode) K)"
  let ?x = "effective_options (rh_config h) (config_for a entrypoint)"
  obtain rc where rc: "apply_function_image L (rh_config h) (fo_image ?x) = Inr rc"
    and ok: "provisionable L F (source_uploads K) (stub_uploads K)
      (run_inputs (rh_app_name h) (Some (rh_app_id h)) entrypoint (rc\<lparr>rc_options := ?x\<rparr>)) RUN_BOUNDARY"
    using assms by (auto simp: callable_on_def Let_def split: sum.splits)
  obtain i s1 where create: "create_function L F ?cp h entrypoint ?x s = Some (Inr i, s1)"
  proof -
    obtain i c p where "ensure_function L F ?cp (rh_app_id h) (rh_app_name h) entrypoint (rc\<lparr>rc_options := ?x\<rparr>)
        (hs_client s, hs_published s) = Some (Inr i, (c, p))"
      using worksD [OF ensure_works [OF ok]] by (metis prod.collapse)
    then show thesis by (intro that) (simp add: create_function_def rc with_published_def)
  qed
  obtain j s2 where "get_or_try_init (entrypoint, ?x) (create_function L F ?cp h entrypoint ?x) s = Some (Inr j, s2)"
    using create by (cases "hs_function_ids s (entrypoint, ?x)") (simp_all add: get_or_try_init_def)
  then show ?thesis
    by (simp add: resolve_function_def resolve_options_def Let_def bind_run_def give_def)
qed


text \<open>A deploy answers with the function the mock resolves, once nothing is wrong with what it provisions.\<close>

lemma deploy_on_mock:
  assumes "with_function_image L M (map (\<lambda>ep. fo_image (de_options ep)) eps) config = Inr config'"
    and "provisionable L F (source_uploads K) (stub_uploads K)
      (deploy_inputs (config'\<lparr>dc_image_steps := append_endpoint_pip_step (map ep_options (deploy_plan config' eps)) (dc_image_steps config')\<rparr>)
        (deploy_plan config' eps)) DEPLOY_BOUNDARY"
  shows "\<exists>d s'. deploy_function L M F (on_mock X (responding mode) K) config eps s = Some (Inr d, s') \<and>
    da_name d = dc_app_name config' \<and> da_function_id d = ''fu-1''"
proof -
  let ?K = "on_mock X (responding mode) K" and ?entries = "deploy_plan config' eps"
  let ?config = "config'\<lparr>dc_image_steps := append_endpoint_pip_step (map ep_options ?entries) (dc_image_steps config')\<rparr>"
  from worksD [OF mock.provision_works [OF assms(2)], where s = "(s, no_published)"]
  obtain a w cache p where "provision L F (live_control_plane L F ?K) (deploy_inputs ?config ?entries) DEPLOY_BOUNDARY (s, no_published) =
      Some (Inr a, ((w, cache), p))"
    by (metis prod.collapse)
  then show ?thesis
    by (simp add: from_name_on_mock [OF responding_simps(5)] deploy_function_def assms(1) Let_def bind_run_def lend_def from_name_def client_op_def from_sdk_def give_def of_result_def)
qed

text \<open>A project for the witness: the two files of a crate, in a directory that cargo does not know.\<close>

definition plain_project :: "('w, 'f, unit, unit) live_client \<Rightarrow> ('w, 'f, unit, unit) live_client" where
  "plain_project K = (tally_client K)\<lparr>lc_tree := sample_source, lc_gitignore := sample_ignore,
     lc_cargo := \<lparr>cargo_output = (\<lambda>_. Inl ''no cargo''), metadata_of_json = (\<lambda>_. Inl [])\<rparr>\<rparr>"

definition shop_handle :: remote_handle where
  "shop_handle = \<lparr>rh_app_id = ''ap-1'', rh_app_name = ''shop'', rh_config =
     \<lparr>rc_local_root = [''ws''], rc_package = ''shop'', rc_remote_src = ''/src'', rc_use_cargo_scoping = False,
      rc_modalignore_name = ''.modalignore'', rc_base_image = ''rust:1'', rc_timeout_secs = 1800, rc_install_rust = False,
      rc_image_steps = [], rc_cache = True, rc_options = default_options\<rparr>\<rparr>"

lemma plain_project_uploads:
  "case and_then (build_matcher sample_source sample_ignore [''ws''] ''.modalignore'') (\<lambda>matcher.
        collect_files sample_source sample_ignore [''ws''] ''/src'' matcher []) of Inl _ \<Rightarrow> False | Inr files \<Rightarrow> uploads files"
  by code_simp

lemma no_runner: "injected_runner_file D \<lparr>cargo_output = (\<lambda>_. Inl e), metadata_of_json = f\<rparr> E base name = None"
  by (simp add: injected_runner_file_def resolve_runner_target_def run_cargo_metadata_def Let_def)

lemma default_fields:
  "fo_gpu default_options = None" "fo_max_concurrent_inputs default_options = None" "fo_schedule default_options = None"
  "fo_target_concurrent_inputs default_options = None" "autoscaler_of default_options = \<lparr>min_containers = None,
     max_containers = None, buffer_containers = None, scaledown_window = None\<rparr>"
  "fo_web_server_port default_options = None" "fo_webhook_method default_options = None" "fo_retries_spec default_options = None"
  "fo_volumes default_options = []" "fo_image default_options = None"
  by (simp_all add: default_options_def options_of_config_def new_function_config_def autoscaler_of_def)

lemma effective_fields:
  "fo_gpu (effective_options c x) = fo_gpu x" "fo_max_concurrent_inputs (effective_options c x) = fo_max_concurrent_inputs x"
  "fo_schedule (effective_options c x) = fo_schedule x" "fo_target_concurrent_inputs (effective_options c x) = fo_target_concurrent_inputs x"
  "autoscaler_of (effective_options c x) = autoscaler_of x"
  "fo_retries_spec (effective_options c x) = fo_retries_spec x" "fo_volumes (effective_options c x) = fo_volumes x"
  "fo_image (effective_options c x) = fo_image x"
  by (simp_all add: effective_options_def autoscaler_of_def)

lemma effective_webhook: "webhook_of b (effective_options c x) = webhook_of b x"
  by (cases "fo_web_server_port x"; cases "fo_webhook_method x"; cases "app_state_of b")
     (simp_all add: webhook_of_def effective_options_def)

lemma default_accepted: "options_accepted F b (effective_options c default_options)"
  unfolding options_accepted_def options_ok_def effective_fields effective_webhook default_fields
  by (simp add: gpu_ok_def concurrency_ok_def autoscaler_ok_def webhook_ok_def webhook_of_def default_fields transpose_map_def)

lemma shop_callable: "callable_on (L\<lparr>fl_json := tally_json\<rparr>) F (plain_project K) (a\<lparr>app_remote := Some shop_handle, app_configs := []\<rparr>) ''price''"
proof -
  have "config_for (a\<lparr>app_remote := Some shop_handle, app_configs := []\<rparr>) ''price'' = default_options" by (simp add: config_for_def)
  moreover have "dir_uploads (plain_project K) \<lparr>si_local_root = [''ws''], si_package = ''shop'', si_use_cargo_scoping = False,
      si_modalignore_name = ''.modalignore'', si_remote_src = ''/src''\<rparr> ''/src''"
    using plain_project_uploads
    by (simp add: dir_uploads_def plain_project_def no_runner inline_bytes_def sample_source_def)
  ultimately show ?thesis
    by (simp add: callable_on_def shop_handle_def apply_function_image_def effective_fields default_fields provisionable_def
        run_inputs_def default_accepted source_remote_def RUN_BOUNDARY_def source_uploads_def run_wrapper_config_env_def
        tally_json_def)
qed


end
