(* ===== verification/Decorator.thy ===== *)
theory Decorator
  imports MacroSpecs Remote
begin

text \<open>
  The decorator grammar (\<open>crates/modal-rust-macros/src/args.rs\<close>) and the value forms of
  \<open>specs.rs\<close> it needs beside those of \<open>MacroSpecs\<close>: cores, string lists, string maps and images.  A decorator is
  the list of its \<open>key = value\<close> items; a value is an expression, whose number literal may carry a minus
  sign.  \<open>syn\<close> is a parameter: the \<open>f64\<close> operations and the text of its own errors.  Spans are left out.
\<close>

section \<open>Values\<close>

record 'd syn_lib =
  syn_f64 :: "'d f64_ops"
  syn_expected :: "string \<Rightarrow> expr \<Rightarrow> string" \<comment> \<open>what was expected, and what was there\<close>

definition lit_str :: "'d syn_lib \<Rightarrow> expr \<Rightarrow> string compiled" where
  "lit_str S e = (case e of ELit (LitStr s) \<Rightarrow> Inr s | _ \<Rightarrow> Inl (syn_expected S ''string literal'' e))"

definition lit_bool :: "'d syn_lib \<Rightarrow> expr \<Rightarrow> bool compiled" where
  "lit_bool S e = (case e of ELit (LitBool b) \<Rightarrow> Inr b | _ \<Rightarrow> Inl (syn_expected S ''boolean literal'' e))"

definition lit_digits :: "'d syn_lib \<Rightarrow> expr \<Rightarrow> string compiled" where
  "lit_digits S e = (case e of ELit (LitInt d) \<Rightarrow> Inr d | _ \<Rightarrow> Inl (syn_expected S ''integer literal'' e))"

text \<open>\<open>base10_parse\<close> at an unsigned type, of digits that may have a sign.\<close>

definition unsigned_parse :: "nat \<Rightarrow> string \<Rightarrow> nat compiled" where
  "unsigned_parse w d =
     (if d \<noteq> [] \<and> hd d = CHR ''-'' then Inl ''invalid digit found in string'' else base10_parse w d)"

definition lit_uint :: "'d syn_lib \<Rightarrow> nat \<Rightarrow> expr \<Rightarrow> nat compiled" where
  "lit_uint S w e = and_then (lit_digits S e) (unsigned_parse w)"

definition parse_cpu_to_milli :: "'d syn_lib \<Rightarrow> expr \<Rightarrow> u32 compiled" where
  "parse_cpu_to_milli S e =
     (let D = syn_f64 S in
      and_then
        (case e of
           ELit lit \<Rightarrow>
             (case lit of
                LitFloat d \<Rightarrow> f64_parse D d
              | LitInt d \<Rightarrow> and_then (unsigned_parse 64 d) (\<lambda>n. Inr (f64_of_u64 D (of_nat n)))
              | _ \<Rightarrow> Inl ''`cpu` must be a number of cores, e.g. `cpu = 2.0` or `cpu = 1`'')
         | _ \<Rightarrow> Inl (syn_expected S ''literal'' e))
        (\<lambda>cores. if f64_negative D cores \<or> \<not> f64_finite D cores
                 then Inl ''`cpu` (cores) must be a finite, non-negative number''
                 else Inr (f64_millis D cores)))"

definition parse_str_list :: "'d syn_lib \<Rightarrow> expr \<Rightarrow> string list compiled" where
  "parse_str_list S e =
     (case e of
        EArray es \<Rightarrow> try_fold (\<lambda>x out. and_then (lit_str S x) (\<lambda>s. Inr (out @ [s]))) es []
      | _ \<Rightarrow> Inl (syn_expected S ''square brackets'' e))"

definition str_map_entry ::
  "'d syn_lib \<Rightarrow> lit \<times> lit option \<Rightarrow> (string \<times> string) list \<Rightarrow> (string \<times> string) list compiled" where
  "str_map_entry S = (\<lambda>(k, v) pairs.
     and_then (lit_str S (ELit k)) (\<lambda>key.
       and_then (ok_or v (syn_expected S ''='' EOther)) (\<lambda>v.
         and_then (lit_str S (ELit v)) (\<lambda>val.
           if key \<in> fst ` set pairs then Inl (''duplicate `env` key '' @ debug_str key)
           else Inr (pairs @ [(key, val)])))))"

definition parse_str_map :: "'d syn_lib \<Rightarrow> expr \<Rightarrow> (string \<times> string) list compiled" where
  "parse_str_map S e =
     (case e of
        EBraces kvs \<Rightarrow> try_fold (str_map_entry S) kvs []
      | _ \<Rightarrow> Inl (syn_expected S ''curly braces'' e))"

section \<open>Images\<close>

definition json_escape_char :: "char \<Rightarrow> string" where
  "json_escape_char c =
     (let n = (of_char c :: nat); bs = CHR 0x5C in
      if n = 34 then [bs, CHR 0x22]
      else if n = 92 then [bs, bs]
      else if n = 10 then [bs, CHR ''n'']
      else if n = 13 then [bs, CHR ''r'']
      else if n = 9 then [bs, CHR ''t'']
      else if n = 8 then [bs, CHR ''b'']
      else if n = 12 then [bs, CHR ''f'']
      else if n < 32 then [bs, CHR ''u'', CHR ''0'', CHR ''0'', hex_digit (n div 16), hex_digit (n mod 16)]
      else [c])"

definition json_escape :: "string \<Rightarrow> string" where
  "json_escape s = concat (map json_escape_char s)"

definition json_quoted :: "string \<Rightarrow> string" where
  "json_quoted s = quote @ json_escape s @ quote"

definition json_arr :: "string list \<Rightarrow> string" where
  "json_arr items = ''['' @ join_with '','' (map json_quoted items) @ '']''"

definition image_str :: "expr \<Rightarrow> string compiled" where
  "image_str x = (case x of ELit (LitStr s) \<Rightarrow> Inr s | _ \<Rightarrow> Inl ''image step entries must be string literals'')"

definition image_str_list :: "expr \<Rightarrow> string list compiled" where
  "image_str_list e =
     (case e of
        EArray es \<Rightarrow>
          try_fold (\<lambda>x out. and_then (image_str x) (\<lambda>s. Inr (out @ [s]))) es []
      | _ \<Rightarrow> Inl (''expected a bracketed list of string literals, e.g. `['' @ quote @ ''libpng-dev'' @ quote @ '']`''))"

definition image_arg :: "expr \<Rightarrow> image_options \<Rightarrow> image_options compiled" where
  "image_arg arg x =
     and_then (component_arg ''Image'' (''base = '' @ quote @ ''rust:1-slim'' @ quote) ''base`, `apt'' arg)
       (\<lambda>(name, right).
          if name = ''base''
          then (case right of
                  ELit (LitStr s) \<Rightarrow> Inr (x\<lparr>io_base := Some s\<rparr>)
                | _ \<Rightarrow> Inl (''`base` must be a string literal, e.g. `base = '' @ quote @ ''rust:1-slim'' @ quote @ ''`''))
          else if name = ''install_rust''
          then (case right of
                  ELit (LitBool b) \<Rightarrow> Inr (x\<lparr>io_install_rust := Some b\<rparr>)
                | _ \<Rightarrow> Inl ''`install_rust` must be a bool literal, e.g. `install_rust = true`'')
          else if name = ''apt'' then and_then (image_str_list right) (\<lambda>ss. Inr (x\<lparr>io_apt := ss\<rparr>))
          else if name = ''pip'' then and_then (image_str_list right) (\<lambda>ss. Inr (x\<lparr>io_pip := ss\<rparr>))
          else if name = ''run'' then and_then (image_str_list right) (\<lambda>ss. Inr (x\<lparr>io_run := ss\<rparr>))
          else Inl (''unknown Image component '' @ debug_str name
                    @ ''; expected one of `base`, `install_rust`, `apt`, `pip`, `run`''))"

definition no_image :: image_options where
  "no_image = \<lparr>io_base = None, io_install_rust = None, io_apt = [], io_pip = [], io_run = []\<rparr>"

definition json_key :: "string \<Rightarrow> string" where "json_key k = quote @ k @ quote @ '':''"

definition image_parts :: "image_options \<Rightarrow> string list" where
  "image_parts x =
     (case io_base x of Some b \<Rightarrow> [json_key ''base'' @ json_quoted b] | None \<Rightarrow> []) @
     (case io_install_rust x of
        Some r \<Rightarrow> [json_key ''install_rust'' @ (if r then ''true'' else ''false'')] | None \<Rightarrow> []) @
     (if io_apt x \<noteq> [] then [json_key ''apt'' @ json_arr (io_apt x)] else []) @
     (if io_pip x \<noteq> [] then [json_key ''pip'' @ json_arr (io_pip x)] else []) @
     (if io_run x \<noteq> [] then [json_key ''run'' @ json_arr (io_run x)] else [])"

definition parse_image_to_spec :: "expr \<Rightarrow> string compiled" where
  "parse_image_to_spec input =
     (case input of
        ECall f args \<Rightarrow>
          and_then (callee_kind ''`image` struct form must call `Image(..)`'' f) (\<lambda>kind.
            if kind \<noteq> ''Image''
            then Inl (''unknown image kind '' @ debug_str kind @ ''; expected the `Image(..)` struct form'')
            else and_then (try_fold image_arg args no_image) (\<lambda>x.
                   Inr (''{'' @ join_with '','' (image_parts x) @ ''}'')))
      | _ \<Rightarrow> Inl (''`image` must be the struct form `image = Image(base = '' @ quote @ ''..'' @ quote
               @ ''[, install_rust = <bool>][, apt = [..]][, pip = [..]][, run = [..]])`''))"

section \<open>Handler kinds\<close>

datatype handler_kind = FunctionHandler | EndpointHandler | WebServerHandler | ClsHandler

fun kind_display :: "handler_kind \<Rightarrow> string" where
  "kind_display FunctionHandler = ''#[modal_rust::function]''"
| "kind_display EndpointHandler = ''#[modal_rust::endpoint]''"
| "kind_display WebServerHandler = ''#[modal_rust::web_server]''"
| "kind_display ClsHandler = ''#[modal_rust::cls]''"

definition ENDPOINT_METHODS :: "string list" where
  "ENDPOINT_METHODS = [''GET'', ''POST'', ''PUT'', ''DELETE'', ''PATCH'']"

definition verb_alternatives :: string where
  "verb_alternatives =
     quote @ ''GET'' @ quote @ ''|'' @ quote @ ''POST'' @ quote @ ''|'' @ quote @ ''PUT'' @ quote @ ''|'' @ quote @ ''DELETE'' @ quote @ ''|''
     @ quote @ ''PATCH'' @ quote"

definition ENDPOINT_EXPECTED_SYNTAX :: string where
  "ENDPOINT_EXPECTED_SYNTAX =
     ''#[modal_rust::endpoint(method = '' @ verb_alternatives @ '', <any #[function] config>)]''"

definition WEB_SERVER_EXPECTED_SYNTAX :: string where
  "WEB_SERVER_EXPECTED_SYNTAX =
     ''#[modal_rust::web_server(port = <u16>, startup_timeout = <secs, optional>, <any #[function] config>)]''"

definition unsupported_argument_message :: "handler_kind \<Rightarrow> string" where
  "unsupported_argument_message kind =
     (if kind = ClsHandler
      then ''unsupported `#[cls]`/`#[method]` argument; recognized: `gpu`, ''
         @ ''`timeout`, `cache`, `cpu`, `memory`, `retries`, `schedule`, ''
         @ ''`min_containers`, `max_containers`, `buffer_containers`, ''
         @ ''`scaledown_window`, `max_concurrent_inputs`, ''
         @ ''`target_concurrent_inputs`, `secrets`, `required_keys`, `env`, ''
         @ ''`volumes`, `image`, `enable_memory_snapshot`''
      else ''unsupported `'' @ kind_display kind @ ''` argument; recognized: ''
         @ (case kind of
              EndpointHandler \<Rightarrow> ''`method = '' @ verb_alternatives @ ''` (REQUIRED), `requires_proxy_auth = <bool>`, ''
            | WebServerHandler \<Rightarrow> ''`port = <u16>` (REQUIRED), `startup_timeout = <secs>`, ''
            | _ \<Rightarrow> [])
         @ ''`name = '' @ quote @ ''...'' @ quote @ ''`, `gpu = '' @ quote @ ''...'' @ quote @ ''`, `timeout = <int secs>`, ''
         @ ''`cache = <bool>`, `cpu = <cores>`, `memory = <MiB>`, ''
         @ ''`retries = <count>` or `retries = Retries(max_retries = N, ..)`, ''
         @ ''`schedule = Cron('' @ quote @ ''..'' @ quote @ '')/Period(..)`, ''
         @ ''`min_containers = <N>`, `max_containers = <N>`, ''
         @ ''`buffer_containers = <N>`, `scaledown_window = <secs>`, ''
         @ ''`max_concurrent_inputs = <N>`, `target_concurrent_inputs = <N>`, ''
         @ ''`secrets = ['' @ quote @ ''name'' @ quote @ '', ..]`, `required_keys = ['' @ quote @ ''KEY'' @ quote @ '', ..]`, ''
         @ ''`env = {'' @ quote @ ''K'' @ quote @ '' = '' @ quote @ ''V'' @ quote @ '', ..}`, `volumes = ['' @ quote
         @ ''/mount=name'' @ quote @ '', ..]`, ''
         @ ''`image = Image(base = '' @ quote @ ''..'' @ quote @ '', apt = [..], pip = [..], run = [..])`'')"

section \<open>The decorator record\<close>

record decorator_config =
  dg_explicit_name :: "string option"
  dg_gpu :: "string option"
  dg_timeout_secs :: "u64 option"
  dg_cache :: "bool option"
  dg_milli_cpu :: "u32 option"
  dg_memory_mb :: "u32 option"
  dg_retries :: "u32 option"
  dg_retries_spec :: "string option"
  dg_schedule :: "string option"
  dg_min_containers :: "u32 option"
  dg_max_containers :: "u32 option"
  dg_buffer_containers :: "u32 option"
  dg_scaledown_window :: "u32 option"
  dg_secrets :: "string list option"
  dg_required_keys :: "string list option"
  dg_env :: "(string \<times> string) list option"
  dg_volumes :: "(string \<times> string) list option"
  dg_image :: "string option"
  dg_enable_memory_snapshot :: "bool option"
  dg_webhook_method :: "string option"
  dg_webhook_requires_proxy_auth :: bool
  dg_web_server_port :: "u16 option"
  dg_web_server_startup_timeout :: "u32 option"
  dg_max_concurrent_inputs :: "u32 option"
  dg_target_concurrent_inputs :: "u32 option"

definition default_decorator :: decorator_config where
  "default_decorator =
     \<lparr>dg_explicit_name = None, dg_gpu = None, dg_timeout_secs = None, dg_cache = None, dg_milli_cpu = None,
      dg_memory_mb = None, dg_retries = None, dg_retries_spec = None, dg_schedule = None,
      dg_min_containers = None, dg_max_containers = None, dg_buffer_containers = None,
      dg_scaledown_window = None, dg_secrets = None, dg_required_keys = None, dg_env = None,
      dg_volumes = None, dg_image = None, dg_enable_memory_snapshot = None, dg_webhook_method = None,
      dg_webhook_requires_proxy_auth = False, dg_web_server_port = None,
      dg_web_server_startup_timeout = None, dg_max_concurrent_inputs = None,
      dg_target_concurrent_inputs = None\<rparr>"

section \<open>The grammar\<close>

definition volume_entry ::
  "string \<Rightarrow> (string \<times> string) list \<Rightarrow> (string \<times> string) list compiled" where
  "volume_entry raw out =
     and_then (ok_or (split_once CHR ''='' raw)
            (''`volumes` entries must be '' @ quote @ ''MOUNT_PATH=VOLUME_NAME'' @ quote
             @ '' (path=name pairs), got '' @ debug_str raw))
       (\<lambda>(mount, name).
          if trim mount = [] \<or> trim name = []
          then Inl (''`volumes` entry '' @ debug_str raw @ '' must have a non-empty mount path AND volume name (''
                    @ quote @ ''MOUNT_PATH=VOLUME_NAME'' @ quote @ '')'')
          else Inr (out @ [(trim mount, trim name)]))"

definition extend_list :: "'a list option \<Rightarrow> 'a list \<Rightarrow> 'a list option" where
  "extend_list old new = Some ((case old of Some xs \<Rightarrow> xs | None \<Rightarrow> []) @ new)"

definition endpoint_verb :: "string \<Rightarrow> string compiled" where
  "endpoint_verb value =
     (if value \<in> set ENDPOINT_METHODS then Inr value
      else Inl (''invalid endpoint method '' @ debug_str value @ ''; expected one of ''
                @ quote @ ''GET'' @ quote @ '', '' @ quote @ ''POST'' @ quote @ '', '' @ quote @ ''PUT'' @ quote @ '', ''
                @ quote @ ''DELETE'' @ quote @ '', '' @ quote @ ''PATCH'' @ quote @ '' (uppercase): ''
                @ ENDPOINT_EXPECTED_SYNTAX))"

definition stored :: "'a compiled \<Rightarrow> ('a \<Rightarrow> 'b) \<Rightarrow> 'b compiled" where
  "stored r f = and_then r (\<lambda>a. Inr (f a))"

definition peek_int :: "expr \<Rightarrow> bool" where
  "peek_int e = (case e of ELit (LitInt _) \<Rightarrow> True | _ \<Rightarrow> False)"

definition guard :: "bool \<Rightarrow> string \<Rightarrow> 'a compiled \<Rightarrow> 'a compiled" where
  "guard allowed msg r = (if allowed then r else Inl msg)"

definition u32_value :: "'d syn_lib \<Rightarrow> expr compiled \<Rightarrow> u32 compiled" where
  "u32_value S v = and_then v (\<lambda>e. stored (lit_uint S 32 e) of_nat)"

text \<open>The items of one kind only.  The value is read after the kind of handler is checked.\<close>

definition special_arg ::
  "'d syn_lib \<Rightarrow> handler_kind \<Rightarrow> string \<Rightarrow> expr compiled \<Rightarrow> decorator_config \<Rightarrow> decorator_config compiled" where
  "special_arg S kind key v cfg =
  (if key = ''method''
   then guard (kind = EndpointHandler)
          (''`method` is `#[endpoint]`-only: it sets the HTTP verb of a web endpoint. To expose this ''
                   @ ''handler over HTTP, decorate it `#[modal_rust::endpoint(method = '' @ quote @ ''POST'' @ quote
                   @ '', ..)]` instead.'')
          (stored (and_then (and_then v (lit_str S)) endpoint_verb) (\<lambda>s. cfg\<lparr>dg_webhook_method := Some s\<rparr>))
   else if key = ''requires_proxy_auth''
   then guard (kind = EndpointHandler)
          (''`requires_proxy_auth` is `#[endpoint]`-only: it gates the web endpoint behind Modal ''
                   @ ''proxy-auth. Use `#[modal_rust::endpoint(method = '' @ quote @ ''..'' @ quote
                   @ '', requires_proxy_auth = true)]` instead.'')
          (stored (and_then v (lit_bool S)) (\<lambda>b. cfg\<lparr>dg_webhook_requires_proxy_auth := b\<rparr>))
   else if key = ''port''
   then guard (kind = WebServerHandler)
          (''`port` is `#[web_server]`-only: it sets the TCP port a long-running HTTP server binds. ''
                   @ ''To launch a web server, decorate this handler `#[modal_rust::web_server(port = 3000)]` instead.'')
          (stored (and_then v (lit_uint S 16)) (\<lambda>n. cfg\<lparr>dg_web_server_port := Some (of_nat n)\<rparr>))
   else if key = ''startup_timeout''
   then guard (kind = WebServerHandler)
          (''`startup_timeout` is `#[web_server]`-only: it sets how long Modal waits for the server port. ''
                   @ ''Use `#[modal_rust::web_server(port = .., startup_timeout = 30)]` instead.'')
          (stored (u32_value S v) (\<lambda>n. cfg\<lparr>dg_web_server_startup_timeout := Some n\<rparr>))
   else if key = ''enable_memory_snapshot''
   then guard (kind = ClsHandler)
          (''memory snapshot is `#[cls]`-only in v0; it captures the `#[enter]` load. Move this handler into ''
                   @ ''a `#[cls]` and set `#[cls(enable_memory_snapshot = true)]`.'')
          (stored (and_then v (lit_bool S)) (\<lambda>b. cfg\<lparr>dg_enable_memory_snapshot := Some b\<rparr>))
   else Inl (unsupported_argument_message kind))"

text \<open>One item.\<close>

definition decorator_arg ::
  "'d syn_lib \<Rightarrow> handler_kind \<Rightarrow> string list \<times> expr option \<Rightarrow> decorator_config \<Rightarrow> decorator_config compiled" where
  "decorator_arg S kind = (\<lambda>(path, value) cfg.
     let key = (case path of [k] \<Rightarrow> k | _ \<Rightarrow> []);
         v = ok_or value (syn_expected S ''='' EOther) in
     if key = ''name''
     then guard (kind \<noteq> ClsHandler)
            (''`name` is not valid on `#[cls]`/`#[method]`: the entrypoint name is derived as '' @ quote
                     @ ''<Class>.<method>'' @ quote @ ''. Rename the method instead.'')
            (stored (and_then v (lit_str S)) (\<lambda>s. cfg\<lparr>dg_explicit_name := Some s\<rparr>))
     else if key = ''gpu'' then stored (and_then v (lit_str S)) (\<lambda>s. cfg\<lparr>dg_gpu := Some s\<rparr>)
     else if key = ''timeout''
     then stored (and_then v (lit_uint S 64)) (\<lambda>n. cfg\<lparr>dg_timeout_secs := Some (of_nat n)\<rparr>)
     else if key = ''cache'' then stored (and_then v (lit_bool S)) (\<lambda>b. cfg\<lparr>dg_cache := Some b\<rparr>)
     else if key = ''cpu'' then stored (and_then v (parse_cpu_to_milli S)) (\<lambda>n. cfg\<lparr>dg_milli_cpu := Some n\<rparr>)
     else if key = ''memory'' then stored (u32_value S v) (\<lambda>n. cfg\<lparr>dg_memory_mb := Some n\<rparr>)
     else if key = ''retries''
     then and_then v (\<lambda>e.
            if peek_int e then stored (u32_value S v) (\<lambda>n. cfg\<lparr>dg_retries := Some n\<rparr>)
            else stored (parse_retries_to_spec (syn_f64 S) e) (\<lambda>s. cfg\<lparr>dg_retries_spec := Some s\<rparr>))
     else if key = ''schedule'' then stored (and_then v parse_schedule_to_spec) (\<lambda>s. cfg\<lparr>dg_schedule := Some s\<rparr>)
     else if key = ''min_containers'' then stored (u32_value S v) (\<lambda>n. cfg\<lparr>dg_min_containers := Some n\<rparr>)
     else if key = ''max_containers'' then stored (u32_value S v) (\<lambda>n. cfg\<lparr>dg_max_containers := Some n\<rparr>)
     else if key = ''buffer_containers'' then stored (u32_value S v) (\<lambda>n. cfg\<lparr>dg_buffer_containers := Some n\<rparr>)
     else if key = ''scaledown_window'' then stored (u32_value S v) (\<lambda>n. cfg\<lparr>dg_scaledown_window := Some n\<rparr>)
     else if key = ''max_concurrent_inputs''
     then stored (u32_value S v) (\<lambda>n. cfg\<lparr>dg_max_concurrent_inputs := Some n\<rparr>)
     else if key = ''target_concurrent_inputs''
     then stored (u32_value S v) (\<lambda>n. cfg\<lparr>dg_target_concurrent_inputs := Some n\<rparr>)
     else if key = ''secrets''
     then stored (and_then v (parse_str_list S)) (\<lambda>ss. cfg\<lparr>dg_secrets := extend_list (dg_secrets cfg) ss\<rparr>)
     else if key = ''required_keys''
     then stored (and_then v (parse_str_list S)) (\<lambda>ss. cfg\<lparr>dg_required_keys := extend_list (dg_required_keys cfg) ss\<rparr>)
     else if key = ''env''
     then stored (and_then v (parse_str_map S)) (\<lambda>kvs. cfg\<lparr>dg_env := extend_list (dg_env cfg) kvs\<rparr>)
     else if key = ''volumes''
     then stored (and_then (and_then v (parse_str_list S)) (\<lambda>ss. try_fold volume_entry ss []))
            (\<lambda>vs. cfg\<lparr>dg_volumes := extend_list (dg_volumes cfg) vs\<rparr>)
     else if key = ''image'' then stored (and_then v parse_image_to_spec) (\<lambda>s. cfg\<lparr>dg_image := Some s\<rparr>)
     else special_arg S kind key v cfg)"

definition parse_decorator_config ::
  "'d syn_lib \<Rightarrow> (string list \<times> expr option) list \<Rightarrow> handler_kind \<Rightarrow> decorator_config compiled" where
  "parse_decorator_config S items kind =
     and_then (try_fold (decorator_arg S kind) items default_decorator) (\<lambda>cfg.
       if kind = EndpointHandler \<and> dg_webhook_method cfg = None
       then Inl (kind_display kind @ '' requires `method = ...` (the HTTP verb; no silent default): ''
                 @ ENDPOINT_EXPECTED_SYNTAX)
       else if kind = WebServerHandler \<and> dg_web_server_port cfg = None
       then Inl (kind_display kind @ '' requires `port = ...` (the TCP port the server binds; no silent default): ''
                 @ WEB_SERVER_EXPECTED_SYNTAX)
       else Inr cfg)"

section \<open>The emitted configuration\<close>

text \<open>The seconds are narrowed from 64 to 32 bits; a list nobody set is empty.\<close>

definition list_of :: "'a list option \<Rightarrow> 'a list" where
  "list_of x = (case x of Some xs \<Rightarrow> xs | None \<Rightarrow> [])"

definition function_config_tokens :: "decorator_config \<Rightarrow> function_config" where
  "function_config_tokens c =
     \<lparr>fc_gpu = dg_gpu c, fc_timeout_secs = map_option ucast (dg_timeout_secs c), fc_cache = dg_cache c,
      fc_milli_cpu = dg_milli_cpu c, fc_memory_mb = dg_memory_mb c, fc_secrets = list_of (dg_secrets c),
      fc_required_keys = list_of (dg_required_keys c), fc_env = list_of (dg_env c),
      fc_volumes = list_of (dg_volumes c), fc_retries = dg_retries c, fc_retries_spec = dg_retries_spec c,
      fc_schedule = dg_schedule c, fc_min_containers = dg_min_containers c,
      fc_max_containers = dg_max_containers c, fc_buffer_containers = dg_buffer_containers c,
      fc_scaledown_window = dg_scaledown_window c, fc_image = dg_image c,
      fc_enable_memory_snapshot = (dg_enable_memory_snapshot c = Some True),
      fc_webhook_method = dg_webhook_method c,
      fc_webhook_requires_proxy_auth = dg_webhook_requires_proxy_auth c,
      fc_web_server_port = dg_web_server_port c,
      fc_web_server_startup_timeout = dg_web_server_startup_timeout c,
      fc_max_concurrent_inputs = dg_max_concurrent_inputs c,
      fc_target_concurrent_inputs = dg_target_concurrent_inputs c\<rparr>"

section \<open>Class defaults and method overrides\<close>

definition opt_or :: "'a option \<Rightarrow> 'a option \<Rightarrow> 'a option" where
  "opt_or over base = (case over of Some x \<Rightarrow> Some x | None \<Rightarrow> base)"

definition merge_over :: "decorator_config \<Rightarrow> decorator_config \<Rightarrow> decorator_config" where
  "merge_over base over =
     \<lparr>dg_explicit_name = opt_or (dg_explicit_name over) (dg_explicit_name base),
      dg_gpu = opt_or (dg_gpu over) (dg_gpu base),
      dg_timeout_secs = opt_or (dg_timeout_secs over) (dg_timeout_secs base),
      dg_cache = opt_or (dg_cache over) (dg_cache base),
      dg_milli_cpu = opt_or (dg_milli_cpu over) (dg_milli_cpu base),
      dg_memory_mb = opt_or (dg_memory_mb over) (dg_memory_mb base),
      dg_retries = opt_or (dg_retries over) (dg_retries base),
      dg_retries_spec = opt_or (dg_retries_spec over) (dg_retries_spec base),
      dg_schedule = opt_or (dg_schedule over) (dg_schedule base),
      dg_min_containers = opt_or (dg_min_containers over) (dg_min_containers base),
      dg_max_containers = opt_or (dg_max_containers over) (dg_max_containers base),
      dg_buffer_containers = opt_or (dg_buffer_containers over) (dg_buffer_containers base),
      dg_scaledown_window = opt_or (dg_scaledown_window over) (dg_scaledown_window base),
      dg_secrets = opt_or (dg_secrets over) (dg_secrets base),
      dg_required_keys = opt_or (dg_required_keys over) (dg_required_keys base),
      dg_env = opt_or (dg_env over) (dg_env base),
      dg_volumes = opt_or (dg_volumes over) (dg_volumes base),
      dg_image = opt_or (dg_image over) (dg_image base),
      dg_enable_memory_snapshot = opt_or (dg_enable_memory_snapshot over) (dg_enable_memory_snapshot base),
      dg_webhook_method = opt_or (dg_webhook_method over) (dg_webhook_method base),
      dg_webhook_requires_proxy_auth = (dg_webhook_requires_proxy_auth over \<or> dg_webhook_requires_proxy_auth base),
      dg_web_server_port = opt_or (dg_web_server_port over) (dg_web_server_port base),
      dg_web_server_startup_timeout =
        opt_or (dg_web_server_startup_timeout over) (dg_web_server_startup_timeout base),
      dg_max_concurrent_inputs = opt_or (dg_max_concurrent_inputs over) (dg_max_concurrent_inputs base),
      dg_target_concurrent_inputs = opt_or (dg_target_concurrent_inputs over) (dg_target_concurrent_inputs base)\<rparr>"

section \<open>What an accepted decorator guarantees\<close>

lemma stored_Inr [simp]: "stored r f = Inr b \<longleftrightarrow> (\<exists>a. r = Inr a \<and> b = f a)"
  by (auto simp: stored_def and_then_Inr_iff)

lemma endpoint_verb_Inr [simp]: "endpoint_verb s = Inr v \<longleftrightarrow> v = s \<and> s \<in> set ENDPOINT_METHODS"
  by (auto simp: endpoint_verb_def)

text \<open>The volumes an item adds are named and mounted somewhere.\<close>

definition named_volumes :: "(string \<times> string) list \<Rightarrow> bool" where
  "named_volumes vs \<longleftrightarrow> (\<forall>(mount, name)\<in>set vs. mount \<noteq> [] \<and> name \<noteq> [] \<and> CHR ''='' \<notin> set mount)"

lemma named_volumes_append [simp]: "named_volumes (xs @ ys) \<longleftrightarrow> named_volumes xs \<and> named_volumes ys"
  by (auto simp: named_volumes_def)

lemma volume_entry_Inr:
  "volume_entry s out = Inr out' \<longleftrightarrow>
     (\<exists>m n. split_once CHR ''='' s = Some (m, n) \<and> trim m \<noteq> [] \<and> trim n \<noteq> [] \<and> out' = out @ [(trim m, trim n)])"
  by (auto simp: and_then_Inr_iff volume_entry_def)

lemma volume_entries_named:
  "try_fold volume_entry ss out = Inr vs \<Longrightarrow> named_volumes out \<Longrightarrow> named_volumes vs"
proof (induction ss arbitrary: out)
  case (Cons s ss)
  from Cons.prems(1) obtain m n where s: "split_once CHR ''='' s = Some (m, n)" "trim m \<noteq> []" "trim n \<noteq> []"
    and rest: "try_fold volume_entry ss (out @ [(trim m, trim n)]) = Inr vs"
    by (auto simp: and_then_Inr_iff volume_entry_Inr)
  have "set (trim m) \<subseteq> set m"
    by (auto simp: trim_def trim_start_matches_def trim_end_matches_def dest!: set_dropWhileD)
  with s split_once_SomeD [OF s(1)] have "named_volumes [(trim m, trim n)]" by (auto simp: named_volumes_def)
  with Cons.IH [OF rest] Cons.prems(2) show ?case by simp
qed simp

definition gated :: "handler_kind \<Rightarrow> decorator_config \<Rightarrow> bool" where
  "gated kind c \<longleftrightarrow>
     (kind = ClsHandler \<longrightarrow> dg_explicit_name c = None) \<and>
     (dg_webhook_method c \<in> insert None (Some ` set ENDPOINT_METHODS)) \<and>
     (kind \<noteq> EndpointHandler \<longrightarrow> dg_webhook_method c = None \<and> \<not> dg_webhook_requires_proxy_auth c) \<and>
     (kind \<noteq> WebServerHandler \<longrightarrow> dg_web_server_port c = None \<and> dg_web_server_startup_timeout c = None) \<and>
     (kind \<noteq> ClsHandler \<longrightarrow> dg_enable_memory_snapshot c = None) \<and>
     named_volumes (list_of (dg_volumes c))"

lemma list_of_extend [simp]: "list_of (extend_list old new) = list_of old @ new"
  by (simp add: list_of_def extend_list_def)

lemma named_nil [simp]: "named_volumes []" by (simp add: named_volumes_def)

lemma guard_Inr [simp]: "guard b msg r = Inr a \<longleftrightarrow> b \<and> r = Inr a"
  by (simp add: guard_def)

lemma if_InrE: "(if b then x else y) = Inr a \<Longrightarrow> (x = Inr a \<Longrightarrow> P) \<Longrightarrow> (y = Inr a \<Longrightarrow> P) \<Longrightarrow> P"
  by (simp split: if_split_asm)

lemma gated_updates [simp]:
  "gated k (c\<lparr>dg_gpu := x_gpu\<rparr>) = gated k c"
  "gated k (c\<lparr>dg_timeout_secs := x_timeout_secs\<rparr>) = gated k c"
  "gated k (c\<lparr>dg_cache := x_cache\<rparr>) = gated k c"
  "gated k (c\<lparr>dg_milli_cpu := x_milli_cpu\<rparr>) = gated k c"
  "gated k (c\<lparr>dg_memory_mb := x_memory_mb\<rparr>) = gated k c"
  "gated k (c\<lparr>dg_retries := x_retries\<rparr>) = gated k c"
  "gated k (c\<lparr>dg_retries_spec := x_retries_spec\<rparr>) = gated k c"
  "gated k (c\<lparr>dg_schedule := x_schedule\<rparr>) = gated k c"
  "gated k (c\<lparr>dg_min_containers := x_min_containers\<rparr>) = gated k c"
  "gated k (c\<lparr>dg_max_containers := x_max_containers\<rparr>) = gated k c"
  "gated k (c\<lparr>dg_buffer_containers := x_buffer_containers\<rparr>) = gated k c"
  "gated k (c\<lparr>dg_scaledown_window := x_scaledown_window\<rparr>) = gated k c"
  "gated k (c\<lparr>dg_secrets := x_secrets\<rparr>) = gated k c"
  "gated k (c\<lparr>dg_required_keys := x_required_keys\<rparr>) = gated k c"
  "gated k (c\<lparr>dg_env := x_env\<rparr>) = gated k c"
  "gated k (c\<lparr>dg_image := x_image\<rparr>) = gated k c"
  "gated k (c\<lparr>dg_max_concurrent_inputs := x_max_concurrent_inputs\<rparr>) = gated k c"
  "gated k (c\<lparr>dg_target_concurrent_inputs := x_target_concurrent_inputs\<rparr>) = gated k c"
  by (simp_all add: gated_def)

lemma gated_gated_updates:
  "k \<noteq> ClsHandler \<Longrightarrow> gated k c \<Longrightarrow> gated k (c\<lparr>dg_explicit_name := n\<rparr>)"
  "k = EndpointHandler \<Longrightarrow> v \<in> set ENDPOINT_METHODS \<Longrightarrow> gated k c \<Longrightarrow> gated k (c\<lparr>dg_webhook_method := Some v\<rparr>)"
  "k = EndpointHandler \<Longrightarrow> gated k c \<Longrightarrow> gated k (c\<lparr>dg_webhook_requires_proxy_auth := b\<rparr>)"
  "k = WebServerHandler \<Longrightarrow> gated k c \<Longrightarrow> gated k (c\<lparr>dg_web_server_port := p\<rparr>)"
  "k = WebServerHandler \<Longrightarrow> gated k c \<Longrightarrow> gated k (c\<lparr>dg_web_server_startup_timeout := n'\<rparr>)"
  "k = ClsHandler \<Longrightarrow> gated k c \<Longrightarrow> gated k (c\<lparr>dg_enable_memory_snapshot := s\<rparr>)"
  "named_volumes vs \<Longrightarrow> gated k c \<Longrightarrow> gated k (c\<lparr>dg_volumes := extend_list (dg_volumes c) vs\<rparr>)"
  by (auto simp: gated_def)

lemma decorator_arg_gated:
  assumes "decorator_arg S kind item c = Inr c'" and "gated kind c"
  shows "gated kind c'"
  using assms
  unfolding decorator_arg_def special_arg_def Let_def prod.case_eq_if
  apply (elim if_InrE)
                      apply (simp_all only: guard_Inr stored_Inr and_then_Inr_iff ok_or_Inr_iff sum.distinct)
                      apply (auto simp: gated_gated_updates volume_entries_named elim!: if_InrE)
  done

text \<open>
  An accepted decorator sets the marks of its own kind and of no other: an endpoint has one of the five
  verbs, a web server has a port, only a class can ask for a snapshot, and every volume has a mount path and a
  name.
\<close>

lemma decorator_is_gated:
  assumes "parse_decorator_config S items kind = Inr c"
  shows "gated kind c \<and> (dg_webhook_method c \<noteq> None \<longleftrightarrow> kind = EndpointHandler) \<and>
         (dg_web_server_port c \<noteq> None \<longleftrightarrow> kind = WebServerHandler)"
proof -
  from assms have f: "try_fold (decorator_arg S kind) items default_decorator = Inr c"
    and r: "kind = EndpointHandler \<longrightarrow> dg_webhook_method c \<noteq> None"
      "kind = WebServerHandler \<longrightarrow> dg_web_server_port c \<noteq> None"
    unfolding parse_decorator_config_def and_then_Inr_iff
    by (metis sum.distinct(1) sum.inject(2))+
  have "gated kind default_decorator"
    by (simp add: gated_def default_decorator_def list_of_def)
  with f have g: "gated kind c"
    by (rule try_fold_invariant) (simp add: decorator_arg_gated)
  with r show ?thesis by (auto simp: gated_def)
qed

lemma decorator_is_gated_witness:
  "\<exists>c. parse_decorator_config \<lparr>syn_f64 = (undefined :: int f64_ops), syn_expected = \<lambda>_ _. []\<rparr>
         [([''method''], Some (ELit (LitStr ''POST''))), ([''gpu''], Some (ELit (LitStr ''T4'')))] EndpointHandler = Inr c \<and>
       gated EndpointHandler c \<and> dg_webhook_method c = Some ''POST''"
proof -
  let ?S = "\<lparr>syn_f64 = (undefined :: int f64_ops), syn_expected = \<lambda>_ _. []\<rparr>"
  let ?items = "[([''method''], Some (ELit (LitStr ''POST''))), ([''gpu''], Some (ELit (LitStr ''T4'')))]"
  have c: "parse_decorator_config ?S ?items EndpointHandler
      = Inr (default_decorator\<lparr>dg_webhook_method := Some ''POST'', dg_gpu := Some ''T4''\<rparr>)"
    by (simp add: parse_decorator_config_def decorator_arg_def special_arg_def stored_def guard_def lit_str_def endpoint_verb_def
        ENDPOINT_METHODS_def)
  from decorator_is_gated [OF c] c show ?thesis by simp
qed

lemma bare_decorator:
  "parse_decorator_config S [] FunctionHandler = Inr default_decorator"
  "function_config_tokens default_decorator = new_function_config"
  by (simp_all add: parse_decorator_config_def function_config_tokens_def default_decorator_def
      new_function_config_def list_of_def)

text \<open>The seconds wrap: 2^32 of them compile, and the function is registered with a timeout of zero.\<close>

lemma timeout_wraps:
  "\<exists>c. parse_decorator_config S [([''timeout''], Some (ELit (LitInt ''4294967296'')))] FunctionHandler = Inr c \<and>
       fc_timeout_secs (function_config_tokens c) = Some 0"
proof -
  have "lit_uint S 64 (ELit (LitInt ''4294967296'')) = Inr 4294967296"
    by (simp add: lit_uint_def lit_digits_def unsigned_parse_def base10_parse_def parse_uint_def parse_nat_def
        digit_val_def)
  then show ?thesis
    by (simp add: parse_decorator_config_def decorator_arg_def stored_def function_config_tokens_def)
qed

section \<open>Overrides\<close>

lemma merge_over_default [simp]: "merge_over default_decorator c = c" "merge_over c default_decorator = c"
  by (simp_all add: merge_over_def default_decorator_def opt_or_def split: option.split)

lemma opt_or_assoc: "opt_or (opt_or a b) c = opt_or a (opt_or b c)"
  by (simp add: opt_or_def split: option.split)

lemma merge_over_assoc: "merge_over (merge_over a b) c = merge_over a (merge_over b c)"
  by (simp add: merge_over_def opt_or_assoc disj_assoc)

lemma opt_or_None [simp]: "opt_or None b = b" by (simp add: opt_or_def)

lemma opt_or_closed: "P a \<Longrightarrow> P b \<Longrightarrow> P (opt_or a b)"
  by (cases a) (simp_all add: opt_or_def)

lemma merge_over_gated:
  assumes "gated k a" and "gated k b"
  shows "gated k (merge_over a b)"
proof -
  have "named_volumes (list_of (opt_or (dg_volumes b) (dg_volumes a)))"
    by (rule opt_or_closed) (use assms in \<open>simp_all add: gated_def\<close>)
  moreover have "opt_or (dg_webhook_method b) (dg_webhook_method a) \<in> insert None (Some ` set ENDPOINT_METHODS)"
    by (rule opt_or_closed) (use assms in \<open>simp_all only: gated_def\<close>)
  ultimately show ?thesis using assms by (simp add: gated_def merge_over_def)
qed

end
