(* ===== verification/ImageMacro.thy ===== *)
theory ImageMacro
  imports Decorator
begin

text \<open>
  The \<open>Image(..)\<close> decorator across the two crates: the macro writes a JSON text by hand, with its own escaper
  (\<open>specs.rs\<close>), and the facade reads it with \<open>serde_json\<close> (\<open>remote.rs\<close>).  The reference is the JSON grammar
  itself: the strings that denote a string once its escapes are resolved, and the texts that denote an object.
\<close>

section \<open>Strings\<close>

text \<open>What the characters between two quotes denote.  An escape by code is read up to the last ASCII code.\<close>

definition simple_escape :: "char \<Rightarrow> char option" where
  "simple_escape e =
     (if e = CHR 0x22 \<or> e = CHR 0x5C \<or> e = CHR ''/'' then Some e
      else if e = CHR ''n'' then Some (CHR 0x0A) else if e = CHR ''r'' then Some (CHR 0x0D)
      else if e = CHR ''t'' then Some (CHR 0x09) else if e = CHR ''b'' then Some (CHR 0x08)
      else if e = CHR ''f'' then Some (CHR 0x0C) else None)"

definition hex_val :: "char \<Rightarrow> nat option" where
  "hex_val c = (let n = (of_char c :: nat) in
     if 48 \<le> n \<and> n \<le> 57 then Some (n - 48) else if 97 \<le> n \<and> n \<le> 102 then Some (n - 87) else None)"

fun unescape :: "string \<Rightarrow> string option" where
  "unescape [] = Some []"
| "unescape (c # cs) =
     (if c = CHR 0x5C
      then (case cs of
              [] \<Rightarrow> None
            | e # rest \<Rightarrow>
                if e = CHR ''u''
                then (case rest of
                        a # b # h # l # r \<Rightarrow>
                          (case (hex_val a, hex_val b, hex_val h, hex_val l) of
                             (Some 0, Some 0, Some h, Some l) \<Rightarrow>
                               if h < 8 then map_option ((#) (char_of (16 * h + l))) (unescape r) else None
                           | _ \<Rightarrow> None)
                      | _ \<Rightarrow> None)
                else (case simple_escape e of
                        Some c \<Rightarrow> map_option ((#) c) (unescape rest)
                      | None \<Rightarrow> None))
      else if c = CHR 0x22 \<or> (of_char c :: nat) < 32 then None
      else map_option ((#) c) (unescape cs))"

lemma hex_val_digit [simp]: "n < 16 \<Longrightarrow> hex_val (hex_digit n) = Some n"
  by (auto simp: hex_val_def hex_digit_def Let_def)

lemma unescape_plain: "c \<noteq> CHR 0x5C \<Longrightarrow> c \<noteq> CHR 0x22 \<Longrightarrow> \<not> (of_char c :: nat) < 32 \<Longrightarrow>
    unescape (c # r) = map_option ((#) c) (unescape r)"
  by simp

lemma unescape_simple: "e \<noteq> CHR ''u'' \<Longrightarrow> simple_escape e = Some c \<Longrightarrow>
    unescape (CHR 0x5C # e # r) = map_option ((#) c) (unescape r)"
  by simp

lemma unescape_hex: "hex_val h = Some m \<Longrightarrow> hex_val l = Some n \<Longrightarrow> m < 8 \<Longrightarrow>
    unescape (CHR 0x5C # CHR ''u'' # CHR ''0'' # CHR ''0'' # h # l # r)
    = map_option ((#) (char_of (16 * m + n))) (unescape r)"
  by (simp add: hex_val_def)

declare unescape.simps(2) [simp del]

text \<open>The seven short escapes.\<close>

definition short_escapes :: "(nat \<times> char \<times> char) list" where
  "short_escapes = [(34, CHR 0x22, CHR 0x22), (92, CHR 0x5C, CHR 0x5C), (10, CHR 0x0A, CHR ''n''),
     (13, CHR 0x0D, CHR ''r''), (9, CHR 0x09, CHR ''t''), (8, CHR 0x08, CHR ''b''), (12, CHR 0x0C, CHR ''f'')]"

lemma short_escapes:
  "\<forall>(n, c, e)\<in>set short_escapes. char_of n = c \<and> e \<noteq> CHR ''u'' \<and> simple_escape e = Some c \<and>
     json_escape_char c = [CHR 0x5C, e]"
  by code_simp

lemma short_escape:
  assumes "(of_char c, c', e) \<in> set short_escapes"
  shows "e \<noteq> CHR ''u'' \<and> simple_escape e = Some c \<and> json_escape_char c = [CHR 0x5C, e]"
  using bspec [OF short_escapes assms] by auto

lemma json_escape_char_shape:
  "(\<exists>e. e \<noteq> CHR ''u'' \<and> simple_escape e = Some c \<and> json_escape_char c = [CHR 0x5C, e]) \<or>
   (let n = of_char c in n < 32 \<and> json_escape_char c
      = [CHR 0x5C, CHR ''u'', CHR ''0'', CHR ''0'', hex_digit (n div 16), hex_digit (n mod 16)]) \<or>
   (json_escape_char c = [c] \<and> c \<noteq> CHR 0x5C \<and> c \<noteq> CHR 0x22 \<and> \<not> (of_char c :: nat) < 32)"
proof -
  let ?n = "of_char c :: nat"
  show ?thesis
  proof (cases "?n \<in> fst ` set short_escapes")
    case True
    then obtain c' e where "(?n, c', e) \<in> set short_escapes" by auto
    from short_escape [OF this] show ?thesis by blast
  next
    case False
    then have "?n \<noteq> 34" "?n \<noteq> 92" "?n \<noteq> 10" "?n \<noteq> 13" "?n \<noteq> 9" "?n \<noteq> 8" "?n \<noteq> 12"
      by (simp_all add: short_escapes_def)
    moreover from this have "c \<noteq> CHR 0x5C" "c \<noteq> CHR 0x22" by auto
    ultimately show ?thesis by (simp add: json_escape_char_def Let_def)
  qed
qed

lemma unescape_escaped [simp]: "unescape (json_escape_char c @ r) = map_option ((#) c) (unescape r)"
proof -
  let ?n = "of_char c :: nat"
  have "c = char_of (16 * (?n div 16) + ?n mod 16)" by simp
  then show ?thesis
    using json_escape_char_shape [of c] unescape_hex [of "hex_digit (?n div 16)" "?n div 16" "hex_digit (?n mod 16)" "?n mod 16" r]
    by (auto simp: Let_def unescape_plain unescape_simple)
qed

lemma unescape_json_escape [simp]: "unescape (json_escape s) = Some s"
  by (induction s) (simp_all add: json_escape_def)

lemma unescape_verbatim:
  "\<forall>c\<in>set s. c \<noteq> CHR 0x5C \<and> c \<noteq> CHR 0x22 \<and> \<not> (of_char c :: nat) < 32 \<Longrightarrow> unescape s = Some s"
  by (induction s) (simp_all add: unescape_plain)

section \<open>Texts\<close>

text \<open>The JSON texts without blanks, of the values an image needs.\<close>

inductive spells :: "json \<Rightarrow> string \<Rightarrow> bool" where
  spells_str: "unescape u = Some s \<Longrightarrow> spells (JStr s) (quote @ u @ quote)"
| spells_bool: "spells (JBool b) (if b then ''true'' else ''false'')"
| spells_arr: "list_all2 spells js ts \<Longrightarrow> spells (JArr js) (''['' @ join_with '','' ts @ '']'')"
| spells_obj:
    "list_all2 (\<lambda>kv t. \<exists>u v. unescape u = Some (fst kv) \<and> spells (snd kv) v \<and> t = quote @ u @ quote @ '':'' @ v) kvs ts \<Longrightarrow>
     distinct (map fst kvs) \<Longrightarrow> spells (JObj kvs) (''{'' @ join_with '','' ts @ ''}'')"
monos list_all2_mono

lemma spells_json_quoted [simp, intro]: "spells (JStr s) (json_quoted s)"
  unfolding json_quoted_def by (rule spells_str) simp

lemma spells_json_arr [simp, intro]: "spells (JArr (map JStr ss)) (json_arr ss)"
  unfolding json_arr_def by (rule spells_arr) (simp add: list_all2_map1 list_all2_map2 list_all2_same)

section \<open>The image\<close>

definition image_fields_of :: "image_options \<Rightarrow> (string \<times> json) list" where
  "image_fields_of x =
     (case io_base x of Some b \<Rightarrow> [(''base'', JStr b)] | None \<Rightarrow> []) @
     (case io_install_rust x of Some r \<Rightarrow> [(''install_rust'', JBool r)] | None \<Rightarrow> []) @
     (if io_apt x \<noteq> [] then [(''apt'', JArr (map JStr (io_apt x)))] else []) @
     (if io_pip x \<noteq> [] then [(''pip'', JArr (map JStr (io_pip x)))] else []) @
     (if io_run x \<noteq> [] then [(''run'', JArr (map JStr (io_run x)))] else [])"

definition image_json :: "image_options \<Rightarrow> json" where
  "image_json x = JObj (image_fields_of x)"

lemma image_spec_spells: "spells (image_json x) (''{'' @ join_with '','' (image_parts x) @ ''}'')"
proof -
  define member where "member = (\<lambda>kv t. \<exists>u v. unescape u = Some (fst kv) \<and> spells (snd kv) v \<and>
    t = quote @ u @ quote @ '':'' @ v)"
  have "member (k, j) (json_key k @ t)" if "unescape k = Some k" "spells j t" for k j t
    using that by (auto simp: json_key_def member_def)
  moreover have "unescape ''base'' = Some ''base''" "unescape ''install_rust'' = Some ''install_rust''"
    "unescape ''apt'' = Some ''apt''" "unescape ''pip'' = Some ''pip''" "unescape ''run'' = Some ''run''"
    by (rule unescape_verbatim; simp)+
  moreover have "spells (JBool True) ''true''" "spells (JBool False) ''false''"
    using spells_bool [of True] spells_bool [of False] by simp_all
  ultimately have "list_all2 member (image_fields_of x) (image_parts x)"
    unfolding image_fields_of_def image_parts_def
    by (intro list_all2_appendI) (simp_all split: option.split)
  moreover have "distinct (map fst (image_fields_of x))"
    by (simp add: image_fields_of_def split: option.split)
  ultimately show ?thesis unfolding image_json_def member_def by (rule spells_obj)
qed

text \<open>What the facade's structure makes of those fields.\<close>

lemma those_read_strs [simp]: "those (map (read_str \<circ> JStr) ss) = Some ss" "those (map (\<lambda>x. Some x) ss) = Some ss"
  by (induction ss) simp_all

lemma image_of_image_json [simp]: "image_of_json (image_json x) = Some x"
proof -
  have "distinct (map fst (image_fields_of x))"
    by (simp add: image_fields_of_def split: option.split)
  then have "distinct (filter (\<lambda>k. k \<in> set image_fields) (map fst (image_fields_of x)))" by simp
  moreover have "map_of (image_fields_of x) ''base'' = map_option JStr (io_base x)"
    "map_of (image_fields_of x) ''install_rust'' = map_option JBool (io_install_rust x)"
    "map_of (image_fields_of x) ''apt'' = (if io_apt x \<noteq> [] then Some (JArr (map JStr (io_apt x))) else None)"
    "map_of (image_fields_of x) ''pip'' = (if io_pip x \<noteq> [] then Some (JArr (map JStr (io_pip x))) else None)"
    "map_of (image_fields_of x) ''run'' = (if io_run x \<noteq> [] then Some (JArr (map JStr (io_run x))) else None)"
    by (simp_all add: image_fields_of_def split: option.split)
  ultimately show ?thesis
    by (cases "io_base x"; cases "io_install_rust x")
       (simp_all add: image_json_def read_image_def json_field_def)
qed

text \<open>The reference meaning of \<open>Image(..)\<close>: its components, assigned in order.\<close>

fun texts_of :: "expr \<Rightarrow> string list" where
  "texts_of (EArray es) = map (\<lambda>e. case e of ELit (LitStr s) \<Rightarrow> s | _ \<Rightarrow> []) es"
| "texts_of _ = []"

fun set_image :: "image_options \<Rightarrow> expr \<Rightarrow> image_options" where
  "set_image x (EAssign (EPath [k]) v) =
     (if k = ''base'' then x\<lparr>io_base := (case v of ELit (LitStr s) \<Rightarrow> Some s | _ \<Rightarrow> None)\<rparr>
      else if k = ''install_rust'' then x\<lparr>io_install_rust := (case v of ELit (LitBool b) \<Rightarrow> Some b | _ \<Rightarrow> None)\<rparr>
      else if k = ''apt'' then x\<lparr>io_apt := texts_of v\<rparr>
      else if k = ''pip'' then x\<lparr>io_pip := texts_of v\<rparr>
      else x\<lparr>io_run := texts_of v\<rparr>)"
| "set_image x _ = x"

lemma image_str_Inr: "image_str e = Inr s \<longleftrightarrow> e = ELit (LitStr s)"
  by (auto simp: image_str_def split: expr.split lit.split)

lemma image_str_list_Inr:
  assumes "image_str_list e = Inr ss"
  shows "ss = texts_of e"
proof -
  let ?step = "\<lambda>x out. and_then (image_str x) (\<lambda>s. Inr (out @ [s]))"
  from assms obtain es where e: "e = EArray es" and f: "try_fold ?step es [] = Inr ss"
    by (auto simp: image_str_list_def split: expr.split_asm)
  have "try_fold ?step es out = Inr ss \<Longrightarrow> ss = out @ texts_of (EArray es)" for out
  proof (induction es arbitrary: out)
    case (Cons x es)
    then obtain s where x: "x = ELit (LitStr s)" and rest: "try_fold ?step es (out @ [s]) = Inr ss"
      by (auto simp: and_then_Inr_iff image_str_Inr)
    show ?case using Cons.IH [OF rest] by (simp add: x)
  qed simp
  from this [OF f] show ?thesis by (simp add: e)
qed

lemma image_arg_Inr:
  assumes "image_arg arg x = Inr y"
  shows "y = set_image x arg"
proof -
  from assms obtain k v where arg: "arg = EAssign (EPath [k]) v"
    by (auto simp: image_arg_def and_then_Inr_iff component_arg_Inr)
  have "component_arg what pair eg arg = Inr (k, v)" for what pair eg by (simp add: arg component_arg_def)
  with assms show ?thesis
    unfolding image_arg_def arg
    by (auto simp: and_then_Inr_iff image_str_list_Inr split: if_split_asm expr.split_asm lit.split_asm)
qed

text \<open>C37. An \<open>Image(..)\<close> that compiles is written as a JSON text of exactly the options it declares, whatever characters
  its commands contain, and a facade that reads this text reads those options.
\<close>

theorem image_macro_read_back:
  assumes "parse_image_to_spec (ECall f args) = Inr spec"
  shows "\<exists>j. spells j spec \<and>
           (\<forall>L. json_value (fl_json L) spec = Inr j \<longrightarrow> parse_image_spec L spec = Inr (foldl set_image no_image args))"
proof -
  from assms obtain x where x: "try_fold image_arg args no_image = Inr x"
    and spec: "spec = ''{'' @ join_with '','' (image_parts x) @ ''}''"
    by (auto simp: parse_image_to_spec_def and_then_Inr_iff split: if_split_asm)
  have "try_fold image_arg args y = Inr x \<Longrightarrow> x = foldl set_image y args" for y
    by (induction args arbitrary: y) (auto simp: and_then_Inr_iff dest: image_arg_Inr)
  with x have "x = foldl set_image no_image args" by simp
  moreover have "spells (image_json x) spec" unfolding spec by (rule image_spec_spells)
  ultimately show ?thesis by (auto simp: parse_image_spec_def)
qed

theorem image_macro_read_back_witness:
  "\<exists>j. spells j (''{'' @ quote @ ''run'' @ quote @ '':['' @ quote @ [CHR 0x5C, CHR 0x22, CHR 0x5C, CHR ''n''] @ quote @ '']}'') \<and>
     (\<forall>L. json_value (fl_json L)
        (''{'' @ quote @ ''run'' @ quote @ '':['' @ quote @ [CHR 0x5C, CHR 0x22, CHR 0x5C, CHR ''n''] @ quote @ '']}'') = Inr j \<longrightarrow>
      parse_image_spec L
        (''{'' @ quote @ ''run'' @ quote @ '':['' @ quote @ [CHR 0x5C, CHR 0x22, CHR 0x5C, CHR ''n''] @ quote @ '']}'')
      = Inr (no_image\<lparr>io_run := [[CHR 0x22, CHR 0x0A]]\<rparr>))"
proof -
  let ?args = "[EAssign (EPath [''run'']) (EArray [ELit (LitStr [CHR 0x22, CHR 0x0A])])]"
  have "parse_image_to_spec (ECall (EPath [''Image'']) ?args)
    = Inr (''{'' @ quote @ ''run'' @ quote @ '':['' @ quote @ [CHR 0x5C, CHR 0x22, CHR 0x5C, CHR ''n''] @ quote @ '']}'')"
    by code_simp
  from image_macro_read_back [OF this] show ?thesis by simp
qed

end
