(* ===== verification/Expansion.thy ===== *)
theory Expansion
  imports Decorator
begin

text \<open>
  What the attributes expand to (\<open>crates/modal-rust-macros/src/emit.rs\<close> and \<open>cls.rs\<close>): the classification of a
  signature, its validation, the registration emitted for a handler, and the walk over a \<open>#[cls]\<close> block.  An item
  is reduced to what the code looks at; tokens are not modelled, so an expansion is a record of the names,
  fields and configuration it emits.  A compile error is its text.
\<close>

section \<open>Items\<close>

datatype rust_type =
    TypePath bool "(string \<times> path_arguments) list" \<comment> \<open>qualified self type, segments\<close>
  | TypeReference
  | TypeOther string
and path_arguments = NoArguments | AngleBracketed "generic_argument list" | Parenthesized
and generic_argument = TypeArgument rust_type | OtherArgument

datatype pattern = PatIdent string bool | PatOther \<comment> \<open>name, and whether a subpattern follows\<close>

datatype fn_arg = Receiver bool bool | Typed pattern rust_type \<comment> \<open>reference, mutability\<close>

record signature =
  sg_ident :: string
  sg_async :: bool
  sg_generic :: bool \<comment> \<open>has parameters or a where clause\<close>
  sg_inputs :: "fn_arg list"
  sg_output :: "rust_type option"

definition first_receiver :: "signature \<Rightarrow> bool" where
  "first_receiver sg = (case sg_inputs sg of Receiver _ _ # _ \<Rightarrow> True | _ \<Rightarrow> False)"

definition typed_params :: "signature \<Rightarrow> (pattern \<times> rust_type) list" where
  "typed_params sg = List.map_filter (\<lambda>a. case a of Typed p ty \<Rightarrow> Some (p, ty) | Receiver _ _ \<Rightarrow> None) (sg_inputs sg)"

section \<open>Classification\<close>

definition SCALAR_DENYLIST :: "string list" where
  "SCALAR_DENYLIST =
     [''i8'', ''i16'', ''i32'', ''i64'', ''i128'', ''isize'', ''u8'', ''u16'', ''u32'', ''u64'', ''u128'', ''usize'',
      ''f32'', ''f64'', ''bool'', ''char'', ''str'', ''String'']"

fun is_mode_a_param_type :: "rust_type \<Rightarrow> bool" where
  "is_mode_a_param_type (TypePath q segs) =
     (segs \<noteq> [] \<and> snd (last segs) = NoArguments \<and> fst (last segs) \<notin> set SCALAR_DENYLIST)"
| "is_mode_a_param_type _ = False"

definition param_error :: "handler_kind \<Rightarrow> pattern \<times> rust_type \<Rightarrow> string option" where
  "param_error kind = (\<lambda>(pat, ty).
     case pat of
       PatIdent _ False \<Rightarrow>
         (if ty = TypeReference
          then Some (''plain '' @ kind_display kind @ '' params must be owned; use String / Vec<u8> instead of a borrowed ''
                     @ ''`&str` / `&[u8]`'')
          else None)
     | _ \<Rightarrow> Some (''name each parameter so its name can become an input field ''
                 @ ''(a plain `ident: Type`, no destructuring)''))"

definition mode_b_signature_error ::
  "signature \<Rightarrow> (pattern \<times> rust_type) list \<Rightarrow> handler_kind \<Rightarrow> string option" where
  "mode_b_signature_error sg params kind =
     (if sg_generic sg
      then Some (''plain '' @ kind_display kind @ '' handlers cannot be generic (no type/lifetime params or ''
                 @ ''where-clauses): the generated input type cannot be monomorphized. Use concrete owned param types.'')
      else (case List.map_filter (param_error kind) params of e # _ \<Rightarrow> Some e | [] \<Rightarrow> None))"

definition result_ok_type :: "rust_type option \<Rightarrow> rust_type" where
  "result_ok_type output =
     (case output of
        None \<Rightarrow> TypeOther ''()''
      | Some ty \<Rightarrow>
          (case ty of
             TypePath _ segs \<Rightarrow>
               (if segs \<noteq> [] \<and> fst (last segs) = ''Result''
                then (case snd (last segs) of
                        AngleBracketed args \<Rightarrow>
                          (case List.map_filter (\<lambda>a. case a of TypeArgument t \<Rightarrow> Some t | OtherArgument \<Rightarrow> None) args of
                             t # _ \<Rightarrow> t | [] \<Rightarrow> ty)
                      | _ \<Rightarrow> ty)
                else ty)
           | _ \<Rightarrow> ty))"

fun pascal_loop :: "bool \<Rightarrow> string \<Rightarrow> string" where
  "pascal_loop cap [] = []"
| "pascal_loop cap (c # cs) =
     (if c = CHR ''_'' then pascal_loop True cs
      else if cap then to_uppercase [c] @ pascal_loop False cs
      else c # pascal_loop False cs)"

definition to_pascal_case :: "string \<Rightarrow> string" where "to_pascal_case s = pascal_loop True s"

section \<open>Handlers\<close>

text \<open>The registration: its name, the function \<open>typed!\<close> wraps, the prime hook, the configuration; and the
  generated input and output types with the call trait.\<close>

record emitted =
  em_entry :: string
  em_target :: string
  em_prime :: "string option"
  em_config :: function_config

record generated_io =
  gi_module :: string
  gi_fields :: "(string \<times> rust_type) list"
  gi_output :: rust_type

datatype expansion =
    Refused string \<comment> \<open>the item is kept, with an error beside it\<close>
  | Explicit emitted
  | Generated emitted generated_io string \<comment> \<open>the call trait\<close>
  | Launcher string string bool function_config \<comment> \<open>entry, launcher, whether it blocks on a future\<close>

definition build_registration :: "string \<Rightarrow> string \<Rightarrow> decorator_config \<Rightarrow> emitted" where
  "build_registration entry target args =
     \<lparr>em_entry = entry, em_target = target, em_prime = None, em_config = function_config_tokens args\<rparr>"

definition expand_web_server :: "signature \<Rightarrow> string \<Rightarrow> decorator_config \<Rightarrow> expansion" where
  "expand_web_server sg entry args =
     (if first_receiver sg
      then Refused (''#[modal_rust::web_server] applies to free functions only; a `self` receiver ''
                    @ ''cannot launch a web server'')
      else if length (typed_params sg) \<noteq> 1
      then Refused (''#[modal_rust::web_server] handlers take exactly one parameter, the bound ''
                    @ ''port: `fn serve(port: u16) -> anyhow::Result<()>` (sync or async)'')
      else Launcher entry (''__modal_rust_web_server_'' @ sg_ident sg) (sg_async sg) (function_config_tokens args))"

definition field_of :: "pattern \<times> rust_type \<Rightarrow> string \<times> rust_type" where
  "field_of = (\<lambda>(pat, ty). (case pat of PatIdent n _ \<Rightarrow> n | PatOther \<Rightarrow> [], ty))"

definition expand_handler ::
  "'d syn_lib \<Rightarrow> (string list \<times> expr option) list \<Rightarrow> signature \<Rightarrow> handler_kind \<Rightarrow> expansion" where
  "expand_handler S attr sg kind =
     (case parse_decorator_config S attr kind of
        Inl e \<Rightarrow> Refused e
      | Inr args \<Rightarrow>
          (let entry = (case dg_explicit_name args of Some s \<Rightarrow> s | None \<Rightarrow> sg_ident sg);
               params = typed_params sg in
           if kind = WebServerHandler then expand_web_server sg entry args
           else if sg_async sg
           then Refused (kind_display kind @ '' does not yet support `async fn`: the reserved `typed_async!` shape ''
                         @ ''(boundaries.md '' @ [CHR 0xC2, CHR 0xA7] @ ''3) is not yet implemented in modal-rust-runtime. Use a ''
                         @ ''synchronous handler (it may `block_on` internally) for now.'')
           else if first_receiver sg
           then Refused (kind_display kind @ '' applies to free functions only; a `self` receiver cannot be a ''
                         @ ''runner entrypoint'')
           else if length params = 1 \<and> is_mode_a_param_type (snd (hd params))
           then Explicit (build_registration entry (sg_ident sg) args)
           else case mode_b_signature_error sg params kind of
             Some e \<Rightarrow> Refused e
           | None \<Rightarrow>
               Generated (build_registration entry (''__modal_rust_shim_'' @ sg_ident sg) args)
                 \<lparr>gi_module = sg_ident sg, gi_fields = map field_of params, gi_output = result_ok_type (sg_output sg)\<rparr>
                 (to_pascal_case (sg_ident sg) @ ''Call'')))"

section \<open>Markers\<close>

datatype attr_meta = MetaPath | MetaList "(string list \<times> expr option) list" | MetaNameValue

record attribute =
  at_path :: "string list"
  at_meta :: attr_meta

datatype cls_marker = EnterMarker | MethodMarker "(string list \<times> expr option) list" | ExitMarker

text \<open>The marker of a method and the attributes left on it.  The loop drains the attributes: an early error
  leaves none.\<close>

definition marker_of :: "attribute \<Rightarrow> cls_marker option compiled" where
  "marker_of a =
     (if at_path a \<noteq> [] \<and> last (at_path a) = ''endpoint''
      then Inl (''#[endpoint] is free-fn-only in v0: it cannot be applied to a #[cls] ''
                @ ''method (stateful web endpoints are a follow-up). Move the handler to ''
                @ ''a free fn decorated `#[modal_rust::endpoint(method = '' @ quote @ ''...'' @ quote
                @ '')]` '' @ emdash @ '' it is still a normal function and may call into the class.'')
      else if at_path a = [''enter''] then Inr (Some EnterMarker)
      else if at_path a = [''exit''] then Inr (Some ExitMarker)
      else if at_path a = [''method'']
      then (case at_meta a of
              MetaPath \<Rightarrow> Inr (Some (MethodMarker []))
            | MetaList items \<Rightarrow> Inr (Some (MethodMarker items))
            | MetaNameValue \<Rightarrow>
                Inl (''#[method] takes a parenthesized config list, e.g. ''
                     @ ''#[method(gpu = '' @ quote @ ''T4'' @ quote @ '')], not `#[method = ..]`''))
      else Inr None)"

fun take_markers ::
  "attribute list \<Rightarrow> cls_marker option \<Rightarrow> attribute list \<Rightarrow> cls_marker option compiled \<times> attribute list" where
  "take_markers [] found kept = (Inr found, kept)"
| "take_markers (a # rest) found kept =
     (case marker_of a of
        Inl e \<Rightarrow> (Inl e, [])
      | Inr None \<Rightarrow> take_markers rest found (kept @ [a])
      | Inr (Some m) \<Rightarrow>
          if found \<noteq> None
          then (Inl ''a #[cls] method may carry at most ONE of #[enter]/#[method]/#[exit]'', [])
          else take_markers rest (Some m) kept)"

definition take_cls_marker :: "attribute list \<Rightarrow> cls_marker option compiled \<times> attribute list" where
  "take_cls_marker attrs = take_markers attrs None []"

section \<open>Classes\<close>

record impl_fn =
  if_attrs :: "attribute list"
  if_sig :: signature

datatype impl_item = ImplFn impl_fn | ImplOther

record item_impl =
  ii_self :: rust_type
  ii_trait :: bool
  ii_generic :: bool
  ii_items :: "impl_item list"

definition cls_self_ident :: "rust_type \<Rightarrow> string compiled" where
  "cls_self_ident ty =
     (case ty of
        TypePath False segs \<Rightarrow>
          (if segs = [] then Inl ''#[cls] self type must be a named struct'' else Inr (fst (last segs)))
      | _ \<Rightarrow> Inl (''#[cls] applies to `impl <StructName> { .. }` where the self type is a named struct''))"

definition is_self :: "string \<Rightarrow> string \<times> path_arguments \<Rightarrow> bool" where
  "is_self cls seg \<longleftrightarrow> snd seg = NoArguments \<and> (fst seg = ''Self'' \<or> fst seg = cls)"

definition classify_enter_return :: "rust_type option \<Rightarrow> string \<Rightarrow> bool option" where
  "classify_enter_return output cls =
     (case output of
        Some (TypePath _ segs) \<Rightarrow>
          (if segs = [] then None
           else if snd (last segs) = NoArguments
           then (if is_self cls (last segs) then Some False else None)
           else if fst (last segs) = ''Result''
           then (case snd (last segs) of
                   AngleBracketed (TypeArgument (TypePath _ isegs) # _) \<Rightarrow>
                     (if isegs \<noteq> [] \<and> is_self cls (last isegs) then Some True else None)
                 | _ \<Rightarrow> None)
           else None)
      | _ \<Rightarrow> None)"

definition validate_enter_sig :: "signature \<Rightarrow> string \<Rightarrow> bool compiled" where
  "validate_enter_sig sg cls =
     (if first_receiver sg
      then Inl (''#[enter] must be an associated fn with NO receiver: `fn load() -> ''
                @ ''anyhow::Result<Self>` (it CONSTRUCTS the value moved into the singleton)'')
      else if sg_inputs sg \<noteq> []
      then Inl (''#[enter] takes NO parameters in v0 (class params are deferred to Shape B). ''
                @ ''Read per-deployment config from std::env via #[cls(secrets = [..])].'')
      else if sg_generic sg then Inl ''#[enter] cannot be generic''
      else ok_or (classify_enter_return (sg_output sg) cls)
             (''#[enter] must return `Self` / `anyhow::Result<Self>` (the constructed, ''
              @ ''loaded value the macro moves into the load-once singleton)''))"

record cls_method =
  cm_ident :: string
  cm_config :: decorator_config
  cm_params :: "(string \<times> rust_type) list"
  cm_output :: "rust_type option"

definition method_param :: "fn_arg \<Rightarrow> (string \<times> rust_type) list \<Rightarrow> (string \<times> rust_type) list compiled" where
  "method_param arg params =
     (case arg of
        Receiver _ _ \<Rightarrow> Inr params
      | Typed pat ty \<Rightarrow>
          (case pat of
             PatIdent n False \<Rightarrow>
               (if ty = TypeReference
                then Inl (''#[method] params must be owned; use String / Vec<u8> instead of a borrowed `&str` / `&[u8]`'')
                else Inr (params @ [(n, ty)]))
           | _ \<Rightarrow> Inl (''name each #[method] parameter so it can become an input field ''
                      @ ''(a plain `ident: Type`, no destructuring)'')))"

definition build_cls_method ::
  "'d syn_lib \<Rightarrow> signature \<Rightarrow> decorator_config \<Rightarrow> (string list \<times> expr option) list \<Rightarrow> cls_method compiled" where
  "build_cls_method S sg class_config over_tokens =
     (if sg_async sg
      then Inl (''#[method] does not support `async fn` in v0 (the runtime `typed_async!` ''
                @ ''shape is not yet implemented). Use a synchronous method.'')
      else if sg_generic sg
      then Inl (''#[method] cannot be generic: the generated input type cannot be ''
                @ ''monomorphized. Use concrete owned param types.'')
      else
        and_then
          (case sg_inputs sg of
             Receiver reference mutability # args \<Rightarrow>
               (if \<not> reference \<or> mutability
                then Inl (''#[method] must take `&self` in v0 (not `self` / `&mut self`): the ''
                          @ ''load-once singleton is shared. Use interior mutability (a ''
                          @ ''Mutex/RwLock field) for mutable per-container state.'')
                else Inr args)
           | _ \<Rightarrow> Inl ''#[method] must take `&self` (it reads the loaded singleton state)'')
          (\<lambda>args. and_then (try_fold method_param args []) (\<lambda>params.
             and_then (parse_decorator_config S over_tokens ClsHandler) (\<lambda>method_over.
               Inr \<lparr>cm_ident = sg_ident sg, cm_config = merge_over class_config method_over,
                    cm_params = params, cm_output = sg_output sg\<rparr>))))"

record cls_walk =
  wk_enter :: "string option"
  wk_fallible :: bool
  wk_methods :: "cls_method list"
  wk_errors :: "string list"

definition walk_marker ::
  "'d syn_lib \<Rightarrow> string \<Rightarrow> decorator_config \<Rightarrow> signature \<Rightarrow> cls_marker option \<Rightarrow> cls_walk \<Rightarrow> cls_walk" where
  "walk_marker S cls class_config sg marker w =
     (case marker of
        None \<Rightarrow> w
      | Some ExitMarker \<Rightarrow>
          w\<lparr>wk_errors := wk_errors w @
             [''#[exit] is a Cls v0 NON-GOAL: deterministic teardown does NOT ''
              @ ''run (warm containers are GC'' @ [CHR 0x27] @ ''d). Remove it; per-call cleanup ''
              @ ''belongs inside the method. The marker is reserved for a future ''
              @ ''release (cls-design.md '' @ [CHR 0xC2, CHR 0xA7] @ ''9.6 / cls-devx-design.md '' @ [CHR 0xC2, CHR 0xA7]
              @ ''6).'']\<rparr>
      | Some EnterMarker \<Rightarrow>
          (if wk_enter w \<noteq> None
           then w\<lparr>wk_errors := wk_errors w @ [''#[cls] allows exactly ONE #[enter] method'']\<rparr>
           else case validate_enter_sig sg cls of
             Inr fallible \<Rightarrow> w\<lparr>wk_enter := Some (sg_ident sg), wk_fallible := fallible\<rparr>
           | Inl e \<Rightarrow> w\<lparr>wk_errors := wk_errors w @ [e]\<rparr>)
      | Some (MethodMarker over_tokens) \<Rightarrow>
          (case build_cls_method S sg class_config over_tokens of
             Inr m \<Rightarrow> w\<lparr>wk_methods := wk_methods w @ [m]\<rparr>
           | Inl e \<Rightarrow> w\<lparr>wk_errors := wk_errors w @ [e]\<rparr>))"

fun walk_items ::
  "'d syn_lib \<Rightarrow> string \<Rightarrow> decorator_config \<Rightarrow> impl_item list \<Rightarrow> cls_walk \<Rightarrow> cls_walk \<times> impl_item list" where
  "walk_items S cls class_config [] w = (w, [])"
| "walk_items S cls class_config (ImplOther # rest) w =
     (let (w', items) = walk_items S cls class_config rest w in (w', ImplOther # items))"
| "walk_items S cls class_config (ImplFn f # rest) w =
     (let (marker, kept) = take_cls_marker (if_attrs f);
          w1 = (case marker of
                  Inl e \<Rightarrow> w\<lparr>wk_errors := wk_errors w @ [e]\<rparr>
                | Inr m \<Rightarrow> walk_marker S cls class_config (if_sig f) m w);
          (w', items) = walk_items S cls class_config rest w1
      in (w', ImplFn (f\<lparr>if_attrs := kept\<rparr>) # items))"

text \<open>The code emitted for a class.\<close>

record cls_code =
  cc_static :: string
  cc_accessor :: string
  cc_enter :: string
  cc_fallible :: bool
  cc_prime :: "string option"
  cc_methods :: "(emitted \<times> generated_io) list"
  cc_handle :: string
  cc_trait :: string
  cc_app_method :: string

definition to_snake_case :: "string \<Rightarrow> string" where
  "to_snake_case s =
     concat (map (\<lambda>(i, c). let n = (of_char c :: nat) in
               if 65 \<le> n \<and> n \<le> 90 then (if i \<noteq> 0 then [CHR ''_''] else []) @ to_ascii_lowercase [c] else [c])
            (enumerate 0 s))"

definition CLS_ENTRYPOINT_SEPARATOR :: string where "CLS_ENTRYPOINT_SEPARATOR = ''.''"

definition wants_snapshot :: "cls_method \<Rightarrow> bool" where
  "wants_snapshot m \<longleftrightarrow> dg_enable_memory_snapshot (cm_config m) = Some True"

definition prime_ident :: "string \<Rightarrow> string" where
  "prime_ident cls = ''__modal_snapshot_prime_'' @ cls"

definition emit_method :: "string \<Rightarrow> cls_method \<Rightarrow> emitted \<times> generated_io" where
  "emit_method cls m =
     (\<lparr>em_entry = cls @ CLS_ENTRYPOINT_SEPARATOR @ cm_ident m,
       em_target = ''__modal_rust_cls_shim_'' @ cls @ ''_'' @ cm_ident m,
       em_prime = (if wants_snapshot m then Some (prime_ident cls) else None),
       em_config = function_config_tokens (cm_config m)\<rparr>,
      \<lparr>gi_module = cls @ ''_'' @ cm_ident m, gi_fields = cm_params m, gi_output = result_ok_type (cm_output m)\<rparr>)"

definition emit_cls :: "string \<Rightarrow> string \<Rightarrow> bool \<Rightarrow> cls_method list \<Rightarrow> cls_code" where
  "emit_cls cls enter fallible methods =
     \<lparr>cc_static = ''__MODAL_RUST_CLS_'' @ to_uppercase cls,
      cc_accessor = ''__modal_rust_cls_'' @ to_ascii_lowercase cls,
      cc_enter = enter, cc_fallible = fallible,
      cc_prime = (if \<exists>m\<in>set methods. wants_snapshot m then Some (prime_ident cls) else None),
      cc_methods = map (emit_method cls) methods,
      cc_handle = cls @ ''Handle'', cc_trait = cls @ ''Cls'', cc_app_method = to_snake_case cls\<rparr>"

datatype cls_expansion =
    ClsRefused string \<comment> \<open>nothing but the error\<close>
  | ClsErrors "impl_item list" "string list" \<comment> \<open>the block without its markers, and every error\<close>
  | ClsExpanded "impl_item list" cls_code

definition expand_cls :: "'d syn_lib \<Rightarrow> (string list \<times> expr option) list \<Rightarrow> item_impl \<Rightarrow> cls_expansion" where
  "expand_cls S attr ii =
     (case parse_decorator_config S attr ClsHandler of
        Inl e \<Rightarrow> ClsRefused e
      | Inr class_config \<Rightarrow>
          (case cls_self_ident (ii_self ii) of
             Inl e \<Rightarrow> ClsRefused e
           | Inr cls \<Rightarrow>
               if ii_trait ii
               then ClsRefused (''#[cls] applies to an INHERENT impl block (`impl Embedder { .. }`), not a trait impl'')
               else if ii_generic ii
               then ClsRefused (''#[cls] does not support generic/lifetime params or where-clauses on the ''
                                @ ''impl block in v0'')
               else
                 (let (w, items) = walk_items S cls class_config (ii_items ii)
                        \<lparr>wk_enter = None, wk_fallible = False, wk_methods = [], wk_errors = []\<rparr>;
                      errors = wk_errors w @
                        (if wk_enter w = None
                         then [''#[cls] requires exactly ONE #[enter] method returning `Self` / ''
                               @ ''`anyhow::Result<Self>` (it builds the load-once singleton)''] else []);
                      errors = errors @
                        (if wk_methods w = [] \<and> errors = []
                         then [''#[cls] requires at least one #[method] (an `&self` fn returning `Result<T>`)'']
                         else [])
                  in if errors \<noteq> [] then ClsErrors items errors
                     else ClsExpanded items (emit_cls cls (the (wk_enter w)) (wk_fallible w) (wk_methods w)))))"

section \<open>What an accepted class emits\<close>

text \<open>The marked functions of a block, by kind.\<close>

definition marked :: "impl_item list \<Rightarrow> (cls_marker \<times> signature) list" where
  "marked items = List.map_filter (\<lambda>i. case i of
     ImplFn f \<Rightarrow> (case fst (take_cls_marker (if_attrs f)) of Inr (Some m) \<Rightarrow> Some (m, if_sig f) | _ \<Rightarrow> None)
   | ImplOther \<Rightarrow> None) items"

fun enters_of :: "(cls_marker \<times> signature) list \<Rightarrow> signature list" where
  "enters_of [] = []"
| "enters_of ((EnterMarker, sg) # ms) = sg # enters_of ms"
| "enters_of (_ # ms) = enters_of ms"

fun methods_of :: "(cls_marker \<times> signature) list \<Rightarrow> ((string list \<times> expr option) list \<times> signature) list" where
  "methods_of [] = []"
| "methods_of ((MethodMarker t, sg) # ms) = (t, sg) # methods_of ms"
| "methods_of (_ # ms) = methods_of ms"

lemma marked_simps [simp]:
  "marked [] = []" "marked (ImplOther # items) = marked items"
  "marked (ImplFn f # items) =
     (case fst (take_cls_marker (if_attrs f)) of Inr (Some m) \<Rightarrow> [(m, if_sig f)] | _ \<Rightarrow> []) @ marked items"
  by (simp_all add: marked_def List.map_filter_def split: sum.split option.split)

lemma walk_marker_errors:
  "wk_errors (walk_marker S cls c sg m w) = [] \<Longrightarrow> wk_errors w = []"
  by (auto simp: walk_marker_def split: option.split_asm cls_marker.split_asm sum.split_asm if_split_asm)

definition walk_sound ::
  "'d syn_lib \<Rightarrow> decorator_config \<Rightarrow> (cls_marker \<times> signature) list \<Rightarrow> cls_walk \<Rightarrow> cls_walk \<Rightarrow> bool" where
  "walk_sound S c ms w w' \<longleftrightarrow>
     wk_errors w = [] \<and>
     (\<exists>fs. wk_methods w' = wk_methods w @ fs \<and>
        list_all2 (\<lambda>(t, sg) m. build_cls_method S sg c t = Inr m) (methods_of ms) fs) \<and>
     (case enters_of ms of
        [] \<Rightarrow> wk_enter w' = wk_enter w
      | sg # sgs \<Rightarrow> sgs = [] \<and> wk_enter w = None \<and> wk_enter w' = Some (sg_ident sg)) \<and>
     ExitMarker \<notin> fst ` set ms"

lemma walk_marker_sound:
  assumes "walk_sound S c ms (walk_marker S cls c sg (Some m) w) w'"
  shows "walk_sound S c ((m, sg) # ms) w w'"
proof -
  have e: "wk_errors (walk_marker S cls c sg (Some m) w) = []" using assms by (simp add: walk_sound_def)
  note d = walk_marker_errors [OF e]
  show ?thesis
  proof (cases m)
    case EnterMarker
    with e have "wk_enter w = None" "wk_enter (walk_marker S cls c sg (Some m) w) = Some (sg_ident sg)"
      "wk_methods (walk_marker S cls c sg (Some m) w) = wk_methods w"
      by (auto simp: walk_marker_def split: sum.split_asm if_split_asm)
    with assms d EnterMarker show ?thesis
      by (auto simp: walk_sound_def split: list.split_asm)
  next
    case (MethodMarker t)
    with e obtain b where "build_cls_method S sg c t = Inr b"
      "walk_marker S cls c sg (Some m) w = w\<lparr>wk_methods := wk_methods w @ [b]\<rparr>"
      by (auto simp: walk_marker_def split: sum.split_asm)
    with assms d MethodMarker show ?thesis
      by (cases "enters_of ms") (auto simp: walk_sound_def)
  next
    case ExitMarker
    with e show ?thesis by (simp add: walk_marker_def)
  qed
qed

lemma build_cls_method_Inr:
  assumes "build_cls_method S sg c t = Inr m"
  shows "cm_ident m = sg_ident sg \<and>
         (\<exists>over. parse_decorator_config S t ClsHandler = Inr over \<and> cm_config m = merge_over c over)"
  using assms by (auto simp: build_cls_method_def and_then_Inr_iff split: if_split_asm)

lemma emitted_snapshot: "fc_enable_memory_snapshot (function_config_tokens (cm_config m)) = wants_snapshot m"
  by (simp add: function_config_tokens_def wants_snapshot_def)

lemma walk_items_sound:
  "walk_items S cls c items w = (w', items') \<Longrightarrow> wk_errors w' = [] \<Longrightarrow> walk_sound S c (marked items) w w'"
proof (induction items arbitrary: w items')
  case Nil
  then show ?case by (simp add: walk_sound_def)
next
  case (Cons i items)
  show ?case
  proof (cases i)
    case ImplOther
    with Cons show ?thesis by (auto split: prod.split_asm)
  next
    case (ImplFn f)
    obtain r kept where t: "take_cls_marker (if_attrs f) = (r, kept)" by force
    define w1 where "w1 = (case r of Inl e \<Rightarrow> w\<lparr>wk_errors := wk_errors w @ [e]\<rparr>
                           | Inr m \<Rightarrow> walk_marker S cls c (if_sig f) m w)"
    obtain items'' where "walk_items S cls c items w1 = (w', items'')"
      using Cons.prems(1) by (auto simp: ImplFn t w1_def split: prod.split_asm)
    from Cons.IH [OF this Cons.prems(2)] have IH: "walk_sound S c (marked items) w1 w'" .
    show ?thesis
    proof (cases r)
      case (Inl e)
      with IH show ?thesis by (simp add: w1_def walk_sound_def)
    next
      case (Inr m)
      with IH show ?thesis
        by (cases m) (auto simp: ImplFn t w1_def walk_marker_def [where marker = None] intro: walk_marker_sound)
    qed
  qed
qed

text \<open>
  A class block that is accepted has exactly one \<open>#[enter]\<close> function and no \<open>#[exit]\<close>, and registers exactly its
  \<open>#[method]\<close> functions, in order: under the class and the method name, with the class's configuration overridden
  by the method's, and primed when that configuration asks for a snapshot.
\<close>

lemma accepted_class:
  assumes "expand_cls S attr ii = ClsExpanded items code"
  shows "\<exists>class_config cls enter. parse_decorator_config S attr ClsHandler = Inr class_config \<and>
           cls_self_ident (ii_self ii) = Inr cls \<and>
           enters_of (marked (ii_items ii)) = [enter] \<and> cc_enter code = sg_ident enter \<and>
           ExitMarker \<notin> fst ` set (marked (ii_items ii)) \<and> cc_methods code \<noteq> [] \<and>
           list_all2 (\<lambda>(t, sg) (e, io). em_entry e = cls @ ''.'' @ sg_ident sg \<and>
               (\<exists>over. parse_decorator_config S t ClsHandler = Inr over \<and>
                  em_config e = function_config_tokens (merge_over class_config over)) \<and>
               (em_prime e \<noteq> None \<longleftrightarrow> fc_enable_memory_snapshot (em_config e)) \<and>
               (em_prime e \<noteq> None \<longrightarrow> em_prime e = cc_prime code))
             (methods_of (marked (ii_items ii))) (cc_methods code)"
proof -
  let ?w0 = "\<lparr>wk_enter = None, wk_fallible = False, wk_methods = [], wk_errors = []\<rparr>"
  from assms obtain class_config cls where c: "parse_decorator_config S attr ClsHandler = Inr class_config"
    "cls_self_ident (ii_self ii) = Inr cls"
    by (auto simp: expand_cls_def split: sum.split_asm)
  obtain w items' where w: "walk_items S cls class_config (ii_items ii) ?w0 = (w, items')" by force
  from assms have e: "wk_errors w = []" "wk_enter w \<noteq> None" "wk_methods w \<noteq> []"
    and code: "code = emit_cls cls (the (wk_enter w)) (wk_fallible w) (wk_methods w)"
    by (auto simp: expand_cls_def c w Let_def split: if_split_asm)
  note s = walk_items_sound [OF w e(1), unfolded walk_sound_def]
  from s e(2) obtain enter where "enters_of (marked (ii_items ii)) = [enter]" "wk_enter w = Some (sg_ident enter)"
    by (auto split: list.split_asm)
  moreover have "ExitMarker \<notin> fst ` set (marked (ii_items ii))" using s by simp
  moreover from s have built: "list_all2 (\<lambda>(t, sg) m. build_cls_method S sg class_config t = Inr m)
      (methods_of (marked (ii_items ii))) (wk_methods w)"
    by auto
  moreover from built have "list_all2 (\<lambda>(t, sg) (e, io). em_entry e = cls @ ''.'' @ sg_ident sg \<and>
               (\<exists>over. parse_decorator_config S t ClsHandler = Inr over \<and>
                  em_config e = function_config_tokens (merge_over class_config over)) \<and>
               (em_prime e \<noteq> None \<longleftrightarrow> fc_enable_memory_snapshot (em_config e)) \<and>
               (em_prime e \<noteq> None \<longrightarrow> em_prime e = cc_prime code))
             (methods_of (marked (ii_items ii))) (cc_methods code)"
    unfolding code emit_cls_def cls_code.simps list_all2_map2
    by (rule list.rel_mono_strong)
       (auto simp: emit_method_def emitted_snapshot CLS_ENTRYPOINT_SEPARATOR_def dest: build_cls_method_Inr)
  ultimately show ?thesis using c e(3) by (auto simp: code emit_cls_def)
qed

text \<open>The field names of a generated input are the names of the parameters: the arm for another pattern is never
  reached.\<close>

lemma map_filter_Nil: "List.map_filter f xs = [] \<longleftrightarrow> (\<forall>x\<in>set xs. f x = None)"
  by (auto simp: List.map_filter_def filter_empty_conv)

lemma param_error_None: "param_error kind (p, ty) = None \<longleftrightarrow> (\<exists>n. p = PatIdent n False \<and> ty \<noteq> TypeReference)"
  by (auto simp: param_error_def split: pattern.split bool.split)

lemma generated_fields:
  assumes "expand_handler S attr sg kind = Generated e io tr"
  shows "\<forall>(p, ty)\<in>set (typed_params sg). \<exists>n. p = PatIdent n False \<and> ty \<noteq> TypeReference \<and> (n, ty) \<in> set (gi_fields io)"
proof -
  from assms have m: "mode_b_signature_error sg (typed_params sg) kind = None"
    and io: "gi_fields io = map field_of (typed_params sg)"
    by (auto simp: expand_handler_def expand_web_server_def Let_def split: sum.split_asm if_split_asm option.split_asm)
  from m have "\<forall>x\<in>set (typed_params sg). param_error kind x = None"
    by (auto simp: mode_b_signature_error_def map_filter_Nil split: if_split_asm list.split_asm)
  then show ?thesis by (force simp: param_error_None io field_of_def)
qed

end
