(* ===== verification/ClassLoad.thy ===== *)
theory ClassLoad
  imports Expansion ControlPlane
begin

text \<open>
  The code \<open>#[cls]\<close> generates, at run time (\<open>emit_cls\<close> of \<open>crates/modal-rust-macros/src/cls.rs\<close>, on the
  runner of \<open>Runner\<close>): the singleton filled by \<open>#[enter]\<close>, the shim of a method, the prime hook, and the
  registration.  The singleton is a private static, so user code runs on the rest of the process state.
  \<open>#[enter]\<close> is normalized to an error text or an instance.
\<close>

section \<open>The generated functions\<close>

record ('c, 'v) cls_state =
  singleton :: "'c option"
  others :: 'v

definition user_call :: "('v, 'a) call \<Rightarrow> (('c, 'v) cls_state, 'a) call" where
  "user_call f t =
     map_option (\<lambda>(r, t'). (r, \<lparr>panic_slot = panic_slot t', user = (user t)\<lparr>others := user t'\<rparr>\<rparr>))
       (f \<lparr>panic_slot = panic_slot t, user = others (user t)\<rparr>)"

definition accessor :: "('v, string + 'c) call \<Rightarrow> (('c, 'v) cls_state, runner_error + 'c) call" where
  "accessor enter t =
     (case singleton (user t) of
        Some v \<Rightarrow> Some (Returned (Inr v), t)
      | None \<Rightarrow>
          (case user_call enter t of
             None \<Rightarrow> None
           | Some (Unwound, t') \<Rightarrow> Some (Unwound, t')
           | Some (Returned (Inr v), t') \<Rightarrow>
               Some (Returned (Inr v), t'\<lparr>user := (user t')\<lparr>singleton := Some v\<rparr>\<rparr>)
           | Some (Returned (Inl e), t') \<Rightarrow> Some (Returned (Inl (function_opaque id e)), t')))"

text \<open>A method: the codec and the error wrapping of its types, and its body on an instance.\<close>

record ('i, 'o, 'e, 'c, 'v) method_code =
  mc_decode :: "string \<Rightarrow> string + 'i"
  mc_encode :: "'o \<Rightarrow> string + string"
  mc_wrap :: "'e \<Rightarrow> runner_error"
  mc_from :: "string \<Rightarrow> 'e" \<comment> \<open>from \<open>anyhow!(text)\<close>\<close>
  mc_body :: "'c \<Rightarrow> 'i \<Rightarrow> ('v, 'e + 'o) call"

definition cls_shim ::
  "('v, string + 'c) call \<Rightarrow> ('i, 'o, 'e, 'c, 'v) method_code \<Rightarrow> 'i \<Rightarrow> (('c, 'v) cls_state, 'e + 'o) call" where
  "cls_shim enter m arg t =
     (case accessor enter t of
        None \<Rightarrow> None
      | Some (Unwound, t') \<Rightarrow> Some (Unwound, t')
      | Some (Returned (Inl e), t') \<Rightarrow> Some (Returned (Inl (mc_from m (error_display e))), t')
      | Some (Returned (Inr v), t') \<Rightarrow> user_call (mc_body m v arg) t')"

definition cls_handler ::
  "('v, string + 'c) call \<Rightarrow> ('i, 'o, 'e, 'c, 'v) method_code \<Rightarrow> ('c, 'v) cls_state handler" where
  "cls_handler enter m = typed (mc_decode m) (mc_encode m) (mc_wrap m) (cls_shim enter m)"

definition cls_prime :: "('v, string + 'c) call \<Rightarrow> ('c, 'v) cls_state prime" where
  "cls_prime enter t =
     map_option (\<lambda>(r, t'). (case r of Returned x \<Rightarrow> Returned (map_sum id (\<lambda>_. ()) x) | Unwound \<Rightarrow> Unwound, t'))
       (accessor enter t)"

definition cls_registration ::
  "('v, string + 'c) call \<Rightarrow> string \<Rightarrow> emitted \<times> ('i, 'o, 'e, 'c, 'v) method_code \<Rightarrow>
     ('c, 'v) cls_state facade_registration" where
  "cls_registration enter package = (\<lambda>(e, m).
     \<lparr>rn_name = em_entry e, rn_handler = cls_handler enter m, rn_check = Some (typed_check (mc_decode m)),
      rn_snapshot_prime = map_option (\<lambda>_. cls_prime enter) (em_prime e), rn_config = em_config e,
      rn_package = package\<rparr>)"

section \<open>Serving calls one after another\<close>

definition settle ::
  "((runner_error + string) ending \<times> 'u thread) option \<Rightarrow> ((runner_error + string) \<times> 'u thread) option" where
  "settle x =
     (case x of
        None \<Rightarrow> None
      | Some (Returned r, t') \<Rightarrow> Some (r, t')
      | Some (Unwound, t') \<Rightarrow>
          (let (message, backtrace) = (case panic_slot t' of
                  Some mb \<Rightarrow> mb | None \<Rightarrow> (''panic (no message captured)'', []))
           in Some (Inl (runner_error.Panic message backtrace), t'\<lparr>panic_slot := None\<rparr>)))"

lemma run_handler_settle: "run_handler h input t = settle (h input (t\<lparr>panic_slot := None\<rparr>))"
  by (auto simp: run_handler_def settle_def Let_def split: option.split ending.split)

definition then_answer :: "'r \<Rightarrow> ('r list \<times> 't) option \<Rightarrow> ('r list \<times> 't) option" where
  "then_answer r = map_option (\<lambda>(rs, t). (r # rs, t))"

fun serve_calls ::
  "('u handler \<times> string) list \<Rightarrow> 'u thread \<Rightarrow> ((runner_error + string) list \<times> 'u thread) option" where
  "serve_calls [] t = Some ([], t)"
| "serve_calls ((h, x) # cs) t =
     (case run_handler h x t of None \<Rightarrow> None | Some (r, t') \<Rightarrow> then_answer r (serve_calls cs t'))"

text \<open>The reference has no singleton: each call loads, until one has loaded; then everything runs on that
  instance.  A call with a bad input loads nothing.\<close>

definition direct_handler :: "('i, 'o, 'e, 'c, 'v) method_code \<Rightarrow> 'c \<Rightarrow> 'v handler" where
  "direct_handler m v = typed (mc_decode m) (mc_encode m) (mc_wrap m) (mc_body m v)"

definition first_call ::
  "('v, string + 'c) call \<Rightarrow> ('i, 'o, 'e, 'c, 'v) method_code \<Rightarrow> string \<Rightarrow> 'v thread \<Rightarrow>
     ((runner_error + string) \<times> 'c option \<times> 'v thread) option" where
  "first_call enter m x t0 =
     (let t = t0\<lparr>panic_slot := None\<rparr>; none = map_option (\<lambda>(r, t). (r, None, t)) in
      case mc_decode m x of
        Inl e \<Rightarrow> Some (Inl (runner_error.Decode e), None, t)
      | Inr _ \<Rightarrow>
          (case enter t of
             None \<Rightarrow> None
           | Some (Unwound, t') \<Rightarrow> none (settle (Some (Unwound, t')))
           | Some (Returned (Inl e), t') \<Rightarrow>
               Some (Inl (mc_wrap m (mc_from m (''function_error: '' @ e))), None, t')
           | Some (Returned (Inr v), t') \<Rightarrow> map_option (\<lambda>(r, t). (r, Some v, t)) (settle (direct_handler m v x t'))))"

fun load_then_call ::
  "('v, string + 'c) call \<Rightarrow> (('i, 'o, 'e, 'c, 'v) method_code \<times> string) list \<Rightarrow> 'v thread \<Rightarrow>
     ((runner_error + string) list \<times> 'v thread) option" where
  "load_then_call enter [] t = Some ([], t)"
| "load_then_call enter ((m, x) # cs) t =
     (case first_call enter m x t of
        None \<Rightarrow> None
      | Some (r, None, t') \<Rightarrow> then_answer r (load_then_call enter cs t')
      | Some (r, Some v, t') \<Rightarrow> then_answer r (serve_calls (map (\<lambda>(m, x). (direct_handler m v, x)) cs) t'))"

section \<open>The singleton is not observable\<close>

definition with_instance :: "'c option \<Rightarrow> 'v thread \<Rightarrow> ('c, 'v) cls_state thread" where
  "with_instance i t = \<lparr>panic_slot = panic_slot t, user = \<lparr>singleton = i, others = user t\<rparr>\<rparr>"

definition lift_result :: "'c option \<Rightarrow> ('a \<times> 'v thread) option \<Rightarrow> ('a \<times> ('c, 'v) cls_state thread) option" where
  "lift_result i = map_option (\<lambda>(r, t). (r, with_instance i t))"

lemma user_call_lift: "user_call f (with_instance i t) = lift_result i (f t)"
  by (cases t) (auto simp: user_call_def with_instance_def lift_result_def split: option.split)

lemma reset_slot [simp]: "(with_instance i t)\<lparr>panic_slot := s\<rparr> = with_instance i (t\<lparr>panic_slot := s\<rparr>)"
  by (simp add: with_instance_def)

lemma settle_lift: "settle (lift_result i x) = lift_result i (settle x)"
  by (auto simp: settle_def lift_result_def with_instance_def Let_def split: option.split ending.split prod.split)

lemma typed_lift:
  "typed rd enc wrap (\<lambda>a t. f a t) x (with_instance i t) = lift_result i (typed rd enc wrap g x t)"
  if "\<And>a. f a (with_instance i t) = lift_result i (g a t)"
  using that
  by (auto simp: typed_def lift_result_def split: option.split ending.split sum.split)

lemma loaded_handler: "run_handler (cls_handler enter m) x (with_instance (Some v) t)
    = lift_result (Some v) (run_handler (direct_handler m v) x t)"
proof -
  have "cls_shim enter m a (with_instance (Some v) t') = lift_result (Some v) (mc_body m v a t')" for a t'
    by (simp add: cls_shim_def accessor_def user_call_lift [symmetric]) (simp add: with_instance_def)
  then show ?thesis
    by (simp add: run_handler_settle cls_handler_def direct_handler_def typed_lift settle_lift)
qed

text \<open>Once an instance is loaded every call runs on it, and \<open>#[enter]\<close> is not run again.\<close>

lemma loaded_calls:
  "serve_calls (map (\<lambda>(m, x). (cls_handler enter m, x)) cs) (with_instance (Some v) t)
   = lift_result (Some v) (serve_calls (map (\<lambda>(m, x). (direct_handler m v, x)) cs) t)"
  by (induction cs arbitrary: t)
     (auto simp: loaded_handler lift_result_def then_answer_def option.map_comp comp_def case_prod_unfold
       split: option.split)

lemma with_instance_simps [simp]:
  "panic_slot (with_instance i t) = panic_slot t" "user (with_instance i t) = \<lparr>singleton = i, others = user t\<rparr>"
  by (simp_all add: with_instance_def)

lemma typed_decoded: "rd x = Inr a \<Longrightarrow> typed rd enc wrap f x t =
    (case f a t of
       None \<Rightarrow> None
     | Some (Unwound, t') \<Rightarrow> Some (Unwound, t')
     | Some (Returned (Inr out), t') \<Rightarrow> Some (Returned (codec_encode enc out), t')
     | Some (Returned (Inl e), t') \<Rightarrow> Some (Returned (Inl (wrap e)), t'))"
  by (simp add: typed_def codec_decode_def)

lemma accessor_empty: "accessor enter (with_instance None t) =
    (case enter t of
       None \<Rightarrow> None
     | Some (Unwound, t') \<Rightarrow> Some (Unwound, with_instance None t')
     | Some (Returned (Inr v), t') \<Rightarrow> Some (Returned (Inr v), with_instance (Some v) t')
     | Some (Returned (Inl e), t') \<Rightarrow> Some (Returned (Inl (function_opaque id e)), with_instance None t'))"
  by (auto simp: accessor_def user_call_lift lift_result_def split: option.split ending.split sum.split)

lemma first_call_run:
  "run_handler (cls_handler enter m) x (with_instance None t)
   = map_option (\<lambda>(r, i, t'). (r, with_instance i t')) (first_call enter m x t)"
proof (cases "mc_decode m x")
  case (Inl e)
  then show ?thesis
    by (simp add: run_handler_settle cls_handler_def typed_def codec_decode_def settle_def first_call_def Let_def)
next
  case (Inr a)
  let ?t = "t\<lparr>panic_slot := None\<rparr>"
  note dec = typed_decoded [where rd = "mc_decode m" and x = x and a = a, OF Inr]
  note d = run_handler_settle cls_handler_def dec cls_shim_def accessor_empty first_call_def Let_def Inr
  show ?thesis
  proof (cases "enter ?t")
    case (Some rt)
    obtain r t' where rt: "rt = (r, t')" by (cases rt)
    show ?thesis
    proof (cases r)
      case Unwound
      have "settle (Some (Unwound, with_instance None t')) = lift_result None (settle (Some (Unwound, t')))"
        using settle_lift [of None "Some (Unwound, t')"] by (simp add: lift_result_def)
      with Some rt Unwound show ?thesis
        by (auto simp: d lift_result_def option.map_comp comp_def case_prod_unfold)
    next
      case (Returned s)
      show ?thesis
      proof (cases s)
        case (Inl e)
        with Some rt Returned show ?thesis
          by (simp add: d settle_def function_opaque_def error_display_def)
      next
        case (Inr v)
        have "settle (typed (mc_decode m) (mc_encode m) (mc_wrap m) (\<lambda>a. user_call (mc_body m v a)) x (with_instance (Some v) t'))
            = lift_result (Some v) (settle (direct_handler m v x t'))"
          by (simp add: direct_handler_def user_call_lift typed_lift settle_lift)
        with Some rt Returned Inr show ?thesis
          by (simp add: d lift_result_def option.map_comp comp_def case_prod_unfold)
      qed
    qed
  qed (simp add: d settle_def)
qed

definition without_instance :: "('c, 'v) cls_state thread \<Rightarrow> 'v thread" where
  "without_instance t = \<lparr>panic_slot = panic_slot t, user = others (user t)\<rparr>"

lemma without_instance_with [simp]: "without_instance (with_instance i t) = t"
  by (cases t) (simp add: without_instance_def)

definition forget_instance :: "('r \<times> ('c, 'v) cls_state thread) option \<Rightarrow> ('r \<times> 'v thread) option" where
  "forget_instance = map_option (\<lambda>(r, t). (r, without_instance t))"

lemma forget_instance_simps [simp]:
  "forget_instance None = None" "forget_instance (Some (r, t)) = Some (r, without_instance t)"
  "forget_instance (then_answer a y) = then_answer a (forget_instance y)"
  "forget_instance (lift_result i z) = z"
  by (cases y; cases z; auto simp: forget_instance_def then_answer_def lift_result_def)+

text \<open>C17. A sequence of calls of a class's methods, from a fresh process, has the results of the reference: \<open>#[enter]\<close>
  is retried until it succeeds, at most one instance is ever made, and every later call runs on it.
\<close>

theorem cls_loads_once:
  "forget_instance
     (serve_calls (map (\<lambda>(m, x). (cls_handler enter m, x)) cs) (with_instance None t))
   = load_then_call enter cs t"
proof (induction cs arbitrary: t)
    case (Cons c cs)
    obtain m x where c: "c = (m, x)" by (cases c)
    show ?case
    proof (cases "first_call enter m x t")
      case (Some y)
      obtain r i t' where y: "y = (r, i, t')" by (cases y)
      show ?thesis
      proof (cases i)
        case None
        with Cons [of t'] Some show ?thesis by (simp add: c y first_call_run)
      next
        case (Some v)
        with \<open>first_call enter m x t = Some y\<close> show ?thesis
          by (simp add: c y first_call_run loaded_calls)
      qed
    qed (simp add: c first_call_run)
qed simp

lemma call_cases:
  obtains "r = None" | t where "r = Some (Unwound, t)" | e t where "r = Some (Returned (Inl e), t)"
    | v t where "r = Some (Returned (Inr v), t)"
  by (metis ending.exhaust option.exhaust prod.exhaust sum.exhaust)

text \<open>A prime that succeeds has run \<open>#[enter]\<close>; no later call runs it, and every one runs on its instance.\<close>

lemma primed_calls:
  assumes "cls_prime enter (with_instance None t) = Some (Returned (Inr ()), t1)"
  shows "\<exists>v t'. enter t = Some (Returned (Inr v), t') \<and>
           (\<forall>enter' cs. forget_instance (serve_calls (map (\<lambda>(m, x). (cls_handler enter' m, x)) cs) t1)
              = serve_calls (map (\<lambda>(m, x). (direct_handler m v, x)) cs) t')"
proof -
  from assms obtain v t' where "enter t = Some (Returned (Inr v), t')" "t1 = with_instance (Some v) t'"
    by (cases "enter t" rule: call_cases) (auto simp: cls_prime_def accessor_empty)
  then show ?thesis by (auto simp: loaded_calls)
qed

section \<open>A method's bare retry count\<close>

text \<open>The count a method sets has no effect on the function created when its class has the struct form: both are
  merged into the configuration, and the struct form is read first.\<close>

lemma webhook_of_retries [simp]: "webhook_of b (opts\<lparr>fo_retries := r\<rparr>) = webhook_of b opts"
  by (cases "fo_web_server_port opts"; cases "app_state_of b"; cases "fo_webhook_method opts") (simp_all add: webhook_of_def)

lemma callable_of_retries [simp]:
  "callable_of b (ep\<lparr>ep_options := opts\<lparr>fo_retries := r\<rparr>\<rparr>) = callable_of b (ep\<lparr>ep_options := opts\<rparr>)"
  by (cases "delivery b") (simp_all add: callable_of_def Let_def)

lemma spec_form_first:
  "fo_retries_spec opts = Some spec \<Longrightarrow>
   build_function_spec F b (ep\<lparr>ep_options := opts\<lparr>fo_retries := r\<rparr>\<rparr>) img res
   = build_function_spec F b (ep\<lparr>ep_options := opts\<rparr>) img res"
  by (simp add: build_function_spec_def autoscaler_of_def Let_def)

lemma merged_options:
  "options_of_config (function_config_tokens (merge_over c (over\<lparr>dg_retries := r\<rparr>)))
   = (options_of_config (function_config_tokens (merge_over c over)))\<lparr>fo_retries := opt_or r (dg_retries c)\<rparr>"
  by (simp add: options_of_config_def function_config_tokens_def merge_over_def)

lemma method_retries_lost:
  assumes "dg_retries_spec class_config = Some spec" and "dg_retries_spec over = None"
  shows "build_function_spec F b (ep\<lparr>ep_options := options_of_config
             (function_config_tokens (merge_over class_config (over\<lparr>dg_retries := r\<rparr>)))\<rparr>) img res
         = build_function_spec F b (ep\<lparr>ep_options := options_of_config
             (function_config_tokens (merge_over class_config over))\<rparr>) img res"
proof -
  have "fo_retries_spec (options_of_config (function_config_tokens (merge_over class_config over))) = Some spec"
    using assms by (simp add: options_of_config_def function_config_tokens_def merge_over_def)
  then show ?thesis unfolding merged_options by (rule spec_form_first)
qed

end
