(* ===== verification/TypedCalls.thy ===== *)
theory TypedCalls
  imports App Expansion
begin

text \<open>
  The typed calls (\<open>TypedCall\<close> and \<open>TypedFunctionCall\<close> of \<open>crates/modal-rust/src/function.rs\<close>) and the call
  methods the attributes generate over them (\<open>emit.rs\<close>, \<open>cls.rs\<close> of \<open>crates/modal-rust-macros/src\<close>).  A typed
  call holds the entrypoint's name and the input; the application is an argument.
\<close>

section \<open>Typed calls\<close>

record 'i typed_call =
  tc_name :: string
  tc_input :: 'i

definition new_typed_call :: "string \<Rightarrow> 'i \<Rightarrow> 'i typed_call" where
  "new_typed_call name input = \<lparr>tc_name = name, tc_input = input\<rparr>"

definition typed_local ::
  "('i \<Rightarrow> string + string) \<Rightarrow> (string \<Rightarrow> string + 'o) \<Rightarrow> 'u app \<Rightarrow> 'i typed_call \<Rightarrow> ('u, facade_error + 'o) call" where
  "typed_local enc from_slice a c = function_local enc from_slice a (tc_name c) (tc_input c)"

definition typed_remote ::
  "facade_lib \<Rightarrow> 'f f32_ops \<Rightarrow> ('w, 'f, 'b, 'g) live_client \<Rightarrow> ('i \<Rightarrow> string + string) \<Rightarrow> (json \<Rightarrow> string + 'o) \<Rightarrow>
     'u app \<Rightarrow> 'i typed_call \<Rightarrow> ('w client_state handle_state, 'o) run" where
  "typed_remote L F K enc from_value a c = function_remote L F K enc from_value a (tc_name c) (tc_input c)"

definition typed_spawn ::
  "facade_lib \<Rightarrow> 'f f32_ops \<Rightarrow> ('w, 'f, 'b, 'g) live_client \<Rightarrow> ('i \<Rightarrow> string + string) \<Rightarrow> 'u app \<Rightarrow> 'i typed_call \<Rightarrow>
     ('w client_state handle_state, string) run" where
  "typed_spawn L F K enc a c = function_spawn L F K enc a (tc_name c) (tc_input c)"

text \<open>The fan-outs ignore the input the call holds.\<close>

definition typed_map ::
  "facade_lib \<Rightarrow> 'f f32_ops \<Rightarrow> ('w, 'f, 'b, 'g) live_client \<Rightarrow> ('i \<Rightarrow> string + string) \<Rightarrow> (json \<Rightarrow> string + 'o) \<Rightarrow>
     'u app \<Rightarrow> 'i typed_call \<Rightarrow> 'i list \<Rightarrow> ('w client_state handle_state, 'o list) run" where
  "typed_map L F K enc from_value a c inputs = function_map L F K enc from_value a (tc_name c) inputs"

definition typed_starmap ::
  "facade_lib \<Rightarrow> 'f f32_ops \<Rightarrow> ('w, 'f, 'b, 'g) live_client \<Rightarrow> ('i \<Rightarrow> string + string) \<Rightarrow> (json \<Rightarrow> string + 'o) \<Rightarrow>
     'u app \<Rightarrow> 'i typed_call \<Rightarrow> 'i list \<Rightarrow> ('w client_state handle_state, 'o list) run" where
  "typed_starmap L F K enc from_value a c inputs = function_starmap L F K enc from_value a (tc_name c) inputs"

definition typed_for_each ::
  "facade_lib \<Rightarrow> 'f f32_ops \<Rightarrow> ('w, 'f, 'b, 'g) live_client \<Rightarrow> ('i \<Rightarrow> string + string) \<Rightarrow> 'u app \<Rightarrow> 'i typed_call \<Rightarrow>
     'i list \<Rightarrow> ('w client_state handle_state, unit) run" where
  "typed_for_each L F K enc a c inputs = function_for_each L F K enc a (tc_name c) inputs"

definition typed_spawn_map ::
  "facade_lib \<Rightarrow> 'f f32_ops \<Rightarrow> ('w, 'f, 'b, 'g) live_client \<Rightarrow> ('i \<Rightarrow> string + string) \<Rightarrow> 'u app \<Rightarrow> 'i typed_call \<Rightarrow>
     'i list \<Rightarrow> ('w client_state handle_state, string) run" where
  "typed_spawn_map L F K enc a c inputs = function_spawn_map L F K enc a (tc_name c) inputs"

definition typed_call_get ::
  "facade_lib \<Rightarrow> ('w, 'f, 'b, 'g) live_client \<Rightarrow> (json \<Rightarrow> string + 'o) \<Rightarrow> 'u app \<Rightarrow> string \<Rightarrow> nat option \<Rightarrow>
     ('w client_state handle_state, 'o) run" where
  "typed_call_get L K from_value a function_call_id timeout =
     function_call_get L K from_value a function_call_id timeout"

section \<open>Generated calls\<close>

text \<open>The method \<open>app.add(2, 3)\<close> and the handle method \<open>app.embedder().embed(x)\<close>: the parameters become the
  fields of the named input.  The input is its JSON object, as the derived serializer writes it.\<close>

definition generated_input :: "generated_io \<Rightarrow> json list \<Rightarrow> json" where
  "generated_input io values = JObj (zip (map fst (gi_fields io)) values)"

definition generated_call :: "emitted \<Rightarrow> generated_io \<Rightarrow> json list \<Rightarrow> json typed_call" where
  "generated_call e io values = new_typed_call (em_entry e) (generated_input io values)"

text \<open>The spread shim passes the fields, in the order of the parameters, to the user's function.\<close>

definition spread :: "generated_io \<Rightarrow> json \<Rightarrow> json option list" where
  "spread io input = map (\<lambda>(n, _). json_get input n) (gi_fields io)"

text \<open>What is passed to a generated call is what the user's function is given, argument by argument: the
  parameter names of a Rust function are distinct.\<close>

lemma spread_generated_input:
  assumes "distinct (map fst (gi_fields io))" and "length values = length (gi_fields io)"
  shows "spread io (generated_input io values) = map Some values"
proof (rule nth_equalityI)
  fix k assume "k < length (spread io (generated_input io values))"
  then have k: "k < length (gi_fields io)" by (simp add: spread_def)
  have "map_of (zip (map fst (gi_fields io)) values) (map fst (gi_fields io) ! k) = Some (values ! k)"
    by (rule map_of_zip_nth) (use assms k in simp_all)
  with k assms(2) show "spread io (generated_input io values) ! k = map Some values ! k"
    by (simp add: spread_def generated_input_def case_prod_unfold)
qed (simp add: spread_def assms)

end
