(* ===== verification/Spec2Isabelle.thy ===== *)
theory Spec2Isabelle
  imports Prelude SdkError Effects Retry ClientConfig SpecParse FunctionSpec FunctionRpc Planning
    Invoke Image Pickle DictQueue ObjectStore MockService MacroSpecs Ordered Paths Runner Scope Workspace
    Resources Volume Upload Facade Remote ControlPlane Provision Deploy App Handle Dump
    FileSystem Shadow DescribeCache ProjectFiles Shell Doctor Describe Described LocalCheck Commands
    MockFlow MockCalls Healthy MockRun Decorator ImageMacro Expansion ClassLoad TypedCalls
begin

text \<open>
  A model of modal-rust, the Rust SDK and function framework for the Modal cloud, and the theorems
  that make it correct.  Paths are under \<open>src/crates/\<close>.

  \<^bold>\<open>The program.\<close>  A user crate declares functions with decorators.  The macro crate
  (\<open>modal-rust-macros\<close>) turns them into spec strings and registrations at compile time.  The SDK
  (\<open>modal-rust-sdk\<close>) reads those strings into a function spec, builds the protocol's messages, sends
  them over a retry layer to the control plane, builds images, opens calls and collects their outputs.
  The facade (\<open>modal-rust\<close>) adds typed handles over it: an \<open>App\<close> resolves the options of an entrypoint,
  provisions the function (mounts, volumes, secrets, image layers, create, publish) and calls it; a deploy
  provisions every entrypoint over one image.  The runner (\<open>modal-rust-runtime\<close>) is the binary inside the
  container that dispatches a call to the user's function.  The command line (\<open>modal-rust-cli\<close>) builds that
  runner locally to learn the entrypoints, checks the input with it, and runs, deploys or calls.  The test
  kit (\<open>modal-rust-testkit\<close>) is a mock control plane: it records every request, answers the run, deploy and
  call paths from a configuration, and its Dict and Queue arms keep real state.

  \<^bold>\<open>Conventions.\<close>  A fallible function returns a sum, with \<open>Inl\<close> the error.  Code that talks to the
  outside is a function on a world \<open>'w\<close> of the type \<open>('w, 'a) io = 'w \<Rightarrow> ((error + 'a) \<times> 'w) option\<close>, where
  \<open>None\<close> is a run that does not return or panics (theory \<open>Effects\<close>).  The clock, sleep and the process
  counter are a record \<open>'w host\<close>; each service is a record of RPC functions on the world, a parameter
  of the model.  A \<open>loop { .. }\<close> of the source is the combinator \<open>loop\<close>, a \<open>partial_function\<close>, so
  that its end is always a theorem and never an assumption.  The one bound is on the depth of a directory
  walk: a walk of the file system takes the longest path there is as its depth, which no directory exceeds.
  Integers with a width are words where the code wraps, casts or overflows; a Rust string is a list of
  bytes.  Floats, TOML, base64, CBOR and pickle are parameters.

  \<^bold>\<open>Theories.\<close>
  \<^item> \<open>Prelude\<close>, \<open>Effects\<close>: strings, numbers, results; effects and loops with their rules (a loop
    ends by a measure, keeps an invariant).
  \<^item> \<open>SdkError\<close> (\<open>modal-rust-sdk/src/error.rs\<close>, \<open>ops/mod.rs\<close>): errors, which of them are transient, and how
    a result message of the control plane is read.
  \<^item> \<open>Retry\<close> (\<open>retry.rs\<close>, \<open>ops/transport.rs\<close>, the PUT loops of \<open>ops/blob.rs\<close> and \<open>ops/volume.rs\<close>): the
    retry loop with attempt limit, deadline and jitter.  Its endless loop is proved equal to a bounded
    recursion; from that follow the number of attempts, the outcome, and its end.
  \<^item> \<open>ClientConfig\<close> (\<open>config.rs\<close>, \<open>auth.rs\<close>, \<open>client.rs\<close>): profiles, environment, containers; the headers.
  \<^item> \<open>SpecParse\<close> (\<open>ops/function/parse.rs\<close>) with the locale \<open>spec_parser\<close>: a malformed spec string is the
    caller's mistake, never retried.  \<open>FunctionSpec\<close> (\<open>spec.rs\<close>): the builder and its invariant.
    \<open>FunctionRpc\<close> (\<open>rpc.rs\<close>): the messages and the three function RPCs.  \<open>Planning\<close> (\<open>ops/planning.rs\<close>):
    the dry run shows what the request sends.
  \<^item> \<open>Invoke\<close> (\<open>ops/invoke.rs\<close>, \<open>ops/transport.rs\<close>): unary calls, polls and fan-out with reassembly.
  \<^item> \<open>Image\<close> (\<open>ops/image/render.rs\<close>, \<open>ops/image/build.rs\<close>): Dockerfiles and the reconnecting build poll.
  \<^item> \<open>Pickle\<close> (\<open>pickle.rs\<close>), \<open>DictQueue\<close> (\<open>ops/dict.rs\<close>, \<open>ops/queue.rs\<close> and the facade's handles),
    \<open>ObjectStore\<close> (\<open>modal-rust-testkit/src/store.rs\<close>) with the locales \<open>kv_service\<close> and \<open>fifo_service\<close> that
    say what a client relies on, and \<open>MockService\<close> (the object arms of \<open>servicer.rs\<close>): the handles run end to end through
    the retry layer against the store, over a network that may lose replies.
  \<^item> \<open>MacroSpecs\<close> (\<open>modal-rust-macros/src/specs.rs\<close>): retries and schedules of a decorator, and that the SDK
    reads back what the macro wrote.  \<open>Decorator\<close> (\<open>args.rs\<close>, \<open>specs.rs\<close>): the whole decorator grammar, what
    each kind of handler accepts, class defaults and method overrides, the emitted configuration.
    \<open>ImageMacro\<close>: the image JSON the macro writes against the JSON grammar and the facade's reader.
    \<open>Expansion\<close> (\<open>emit.rs\<close>, \<open>cls.rs\<close>): which signatures are accepted, and what an attribute registers.
    \<open>ClassLoad\<close>: the generated code of a class on the runner, which loads one instance and retries a failed
    load.  \<open>TypedCalls\<close> (\<open>modal-rust/src/function.rs\<close>): typed calls and the generated call methods.

  \<^item> \<open>Ordered\<close>, \<open>Paths\<close>: an ordered map as the sorted list of its entries, and paths as byte strings
    with the lossy conversion to UTF-8, shared by the theories below.
  \<^item> \<open>Runner\<close> (\<open>modal-rust-runtime/src/lib.rs\<close>): the registry, the one-shot and the framed protocol of the
    binary inside the container, web endpoints, snapshot priming; the serve loop answers every frame,
    in order, as the one-shot run would.
  \<^item> \<open>Scope\<close>, \<open>Workspace\<close> (\<open>modal-rust/src/scope.rs\<close>, \<open>runner_gen.rs\<close>): which packages of a cargo workspace a
    target needs (the work-list is proved to compute graph reachability), the ignore rules, the
    rewritten manifests and the generated runner.
  \<^item> \<open>Resources\<close> (\<open>ops/app.rs\<close>, \<open>ops/mount.rs\<close>, \<open>ops/secret.rs\<close>): get-or-create of apps, mounts and secrets.
    \<open>Volume\<close> (\<open>ops/volume.rs\<close> and the facade's \<open>volume.rs\<close>): block plans and the put loop that re-declares
    until the server misses nothing.  \<open>Upload\<close> (\<open>ops/local_dir.rs\<close>, \<open>ops/blob.rs\<close>): the directory walk,
    the selection of files and the content-addressed upload.

  \<^item> \<open>Facade\<close> (\<open>modal-rust/src/registration.rs\<close>, \<open>error.rs\<close>, \<open>env.rs\<close>): options and their JSON, the inventory of
    registered functions, the manifest.  \<open>Remote\<close> (\<open>remote.rs\<close>): the pure parts of the run path.
    \<open>ControlPlane\<close> (\<open>control_plane.rs\<close>): the interface of a control plane as a record of operations, the
    provisioning sequence over it, and the live plane over the SDK.  \<open>Provision\<close> states the schedule of a
    provisioning as a list of steps and proves the sequence to follow it, with the locales of a plane that
    logs its steps.  \<open>Deploy\<close> (\<open>deploy.rs\<close>), \<open>App\<close> (\<open>app.rs\<close>, \<open>function.rs\<close>): the deploy and the user's handle;
    \<open>Handle\<close>: the state of a handle over any sequence of its operations.  \<open>Dump\<close> (\<open>dump.rs\<close>): the recording
    plane, and that a dry run records the steps of the real one.
  \<^item> \<open>FileSystem\<close>: the operations of \<open>std::fs\<close> on a tree of files, and frames (what an operation leaves alone).
    \<open>Shadow\<close> (\<open>runner_gen.rs\<close>): the build tree with the generated runner.  \<open>DescribeCache\<close>
    (\<open>modal-rust-cli/src/describe_cache.rs\<close>): the cache key determines its inputs.  \<open>ProjectFiles\<close>
    (\<open>workspace.rs\<close>), \<open>Shell\<close> (the state of a command, and the processes it starts), \<open>Doctor\<close> (\<open>doctor.rs\<close>),
    \<open>Describe\<close> and \<open>Commands\<close> (\<open>programmatic.rs\<close>, \<open>main.rs\<close>).  \<open>Described\<close>: what a description leaves alone and
    what comes out of it.  \<open>LocalCheck\<close>: the local check of an input against the model of the runner.
  \<^item> \<open>MockFlow\<close> (\<open>modal-rust-testkit/src/record.rs\<close>, \<open>responder.rs\<close>, \<open>builder.rs\<close>, \<open>servicer.rs\<close>): the whole mock as one
    servicer with its typed log, its overrides and canned answers, and the SDK's stubs on it.  \<open>MockCalls\<close>: a
    typed call and a source upload end to end against it, with the requests it has recorded.  \<open>Healthy\<close>:
    on a plane whose operations succeed (the locale \<open>healthy_plane\<close>) provisioning succeeds for every input
    with nothing wrong.  \<open>MockRun\<close>: the mock is such a plane, so the run and the deploy path end well on it.

  \<^bold>\<open>Bounds.\<close>  The retry layer's facts hold for every policy; where a number appears it is the one of
  \<open>default_policy\<close>: eight attempts, so at most seven lost replies are survived, and a total deadline the
  backoff schedule of the eight attempts does not reach.

  \<^bold>\<open>Not modelled.\<close>  Channel construction, the mock's socket, generated protocol code, the parsing of the command line (clap) and the
  token streams of the macros (an item is what the code looks at, an expansion the names and configuration it
  emits) are I/O and glue.  The concurrent upload tasks run one at a time, in any order of
  their ends, not interleaved per RPC; the operations of a handle run one at a time.  The example
  crates are programs of their own.
\<close>

end
